(* ===== verification/Prelude.thy ===== *)
theory Prelude
  imports Main "HOL-Library.Word" "HOL-Library.AList"
begin

text \<open>
  What every component of the development shares: the machine integer types of the Rust
  source, the outcome of a fallible Rust computation (a value, an error of a \<open>Result\<close>, or a
  panic), big-endian integers as byte lists, and Rust's \<open>String\<close> as a byte string together
  with the UTF-8 check of \<open>String::from_utf8\<close>.
\<close>

section \<open>Machine integers\<close>

text \<open>
  \<open>u8\<close>, \<open>u16\<close>, \<open>u32\<close> and \<open>u64\<close> are words of the width; \<open>i32\<close> and \<open>i64\<close> are words read as two's
  complement by \<^term>\<open>sint\<close>. \<open>usize\<close> values (lengths, counts) are natural numbers.
\<close>

type_synonym u8 = "8 word"
type_synonym u16 = "16 word"
type_synonym u32 = "32 word"
type_synonym u64 = "64 word"
type_synonym i32 = "32 word"
type_synonym i64 = "64 word"
type_synonym bytes = "u8 list"

abbreviation U16_MAX :: nat where "U16_MAX \<equiv> 65535"
abbreviation U32_MAX :: nat where "U32_MAX \<equiv> 4294967295"

named_theorems wire_simps \<open>equations that evaluate readers and writers on known layouts\<close>
named_theorems reader_intros \<open>rules that show a reader never panics and reads incrementally\<close>
named_theorems yields_intros \<open>rules that show what the values read by a reader satisfy\<close>

section \<open>Outcomes of Rust computations\<close>

datatype ('e, 'a) outcome = Ok 'a | Err 'e | Panic

fun map_ok :: "('a \<Rightarrow> 'b) \<Rightarrow> ('e, 'a) outcome \<Rightarrow> ('e, 'b) outcome" where
  "map_ok f (Ok x) = Ok (f x)"
| "map_ok f (Err e) = Err e"
| "map_ok f Panic = Panic"

fun map_err :: "('e \<Rightarrow> 'f) \<Rightarrow> ('e, 'a) outcome \<Rightarrow> ('f, 'a) outcome" where
  "map_err f (Ok x) = Ok x"
| "map_err f (Err e) = Err (f e)"
| "map_err f Panic = Panic"

text \<open>The \<open>?\<close> operator: go on with the value, or return the error.\<close>

fun bind_ok :: "('e, 'a) outcome \<Rightarrow> ('a \<Rightarrow> ('e, 'b) outcome) \<Rightarrow> ('e, 'b) outcome" where
  "bind_ok (Ok x) k = k x"
| "bind_ok (Err e) k = Err e"
| "bind_ok Panic k = Panic"

lemma map_ok_eq_Ok_iff [simp]: "map_ok f r = Ok y \<longleftrightarrow> (\<exists>x. r = Ok x \<and> y = f x)"
  by (cases r) auto

lemma map_ok_eq_Err_iff [simp]: "map_ok f r = Err e \<longleftrightarrow> r = Err e"
  by (cases r) auto

lemma map_ok_eq_Panic_iff [simp]: "map_ok f r = Panic \<longleftrightarrow> r = Panic"
  by (cases r) auto

lemma map_err_eq_Ok_iff [simp]: "map_err f r = Ok y \<longleftrightarrow> r = Ok y"
  by (cases r) auto

lemma map_err_eq_Panic_iff [simp]: "map_err f r = Panic \<longleftrightarrow> r = Panic"
  by (cases r) auto

lemma bind_ok_eq_Ok_iff: "bind_ok r k = Ok y \<longleftrightarrow> (\<exists>x. r = Ok x \<and> k x = Ok y)"
  by (cases r) auto

section \<open>Hash maps\<close>

text \<open>
  A \<open>HashMap\<close> is an association list with distinct keys: \<open>get\<close> is \<^term>\<open>map_of\<close>, \<open>insert\<close> is
  \<^term>\<open>AList.update\<close>, \<open>remove\<close> is \<^term>\<open>AList.delete\<close>. The order of the list stands for the
  unspecified iteration order of the map.
\<close>

type_synonym ('k, 'v) hmap = "('k \<times> 'v) list"

definition hm_wf :: "('k, 'v) hmap \<Rightarrow> bool" where
  "hm_wf m \<longleftrightarrow> distinct (map fst m)"

text \<open>\<open>pairs.into_iter().collect::<HashMap<_, _>>()\<close>: a later pair overwrites an earlier one.\<close>

definition hm_collect :: "('k \<times> 'v) list \<Rightarrow> ('k, 'v) hmap" where
  "hm_collect ps = fold (\<lambda>(k, v) m. AList.update k v m) ps []"

lemma map_of_update [simp]: "map_of (AList.update k v m) = (map_of m)(k \<mapsto> v)"
  by (rule update_conv')

lemma map_of_delete [simp]: "map_of (AList.delete k m) = (map_of m)(k := None)"
  by (rule delete_conv')

lemma hm_wf_Nil [simp]: "hm_wf []"
  by (simp add: hm_wf_def)

lemma hm_wf_update [simp]: "hm_wf m \<Longrightarrow> hm_wf (AList.update k v m)"
  by (simp add: hm_wf_def distinct_update)

lemma hm_wf_delete [simp]: "hm_wf m \<Longrightarrow> hm_wf (AList.delete k m)"
  by (simp add: hm_wf_def distinct_delete)

lemma hm_wf_collect [simp]: "hm_wf (hm_collect ps)"
proof -
  have "hm_wf m \<Longrightarrow> hm_wf (fold (\<lambda>(k, v) m. AList.update k v m) ps m)" for m
    by (induction ps arbitrary: m) auto
  then show ?thesis by (simp add: hm_collect_def)
qed

lemma map_of_collect: "map_of (hm_collect ps) = map_of (rev ps)"
proof -
  have "map_of (fold (\<lambda>(k, v) m. AList.update k v m) ps m) = map_of m ++ map_of (rev ps)" for m
    by (induction ps arbitrary: m) (auto simp: fun_eq_iff map_add_def split: option.splits)
  then show ?thesis by (simp add: hm_collect_def)
qed

section \<open>Big-endian integers\<close>

fun be_bytes :: "nat \<Rightarrow> nat \<Rightarrow> bytes" where
  "be_bytes 0 x = []"
| "be_bytes (Suc n) x = be_bytes n (x div 256) @ [of_nat x]"

definition be_nat :: "bytes \<Rightarrow> nat" where
  "be_nat bs = foldl (\<lambda>acc b. acc * 256 + unat b) 0 bs"

lemma length_be_bytes [simp]: "length (be_bytes n x) = n"
  by (induction n arbitrary: x) auto

lemma be_bytes_eq_Nil [simp]: "be_bytes n x = [] \<longleftrightarrow> n = 0"
  by (metis length_0_conv length_be_bytes)

lemma be_nat_Nil [simp]: "be_nat [] = 0"
  by (simp add: be_nat_def)

lemma be_nat_snoc [simp]: "be_nat (bs @ [b]) = be_nat bs * 256 + unat b"
  by (simp add: be_nat_def)

lemma unat_of_nat_u8 [simp]: "unat (of_nat x :: u8) = x mod 256"
  by (simp add: unsigned_of_nat take_bit_eq_mod)

lemma unat_u8_mod [simp]: "unat (b :: u8) mod 256 = unat b"
  using unsigned_less [where ?'a = nat, of b] by simp

lemma be_nat_be_bytes: "be_nat (be_bytes n x) = x mod 256 ^ n"
proof (induction n arbitrary: x)
  case 0
  show ?case by simp
next
  case (Suc n)
  have "x mod 256 ^ Suc n = x mod 256 + 256 * (x div 256 mod 256 ^ n)"
    by (simp add: mod_mult2_eq)
  with Suc.IH show ?case by (simp add: mult.commute)
qed

lemma be_nat_bound: "be_nat bs < 256 ^ length bs"
proof (induction bs rule: rev_induct)
  case Nil
  show ?case by simp
next
  case (snoc b bs)
  have "unat b < 256" using unsigned_less [of b] by simp
  moreover from snoc.IH have "be_nat bs + 1 \<le> 256 ^ length bs" by simp
  then have "(be_nat bs + 1) * 256 \<le> 256 ^ length bs * 256" by (rule mult_le_mono1)
  ultimately show ?case by simp
qed

lemma be_bytes_be_nat: "be_bytes (length bs) (be_nat bs) = bs"
proof (induction bs rule: rev_induct)
  case Nil
  show ?case by simp
next
  case (snoc b bs)
  have "unat b < 256" using unsigned_less [of b] by simp
  then have "(be_nat bs * 256 + unat b) div 256 = be_nat bs" by simp
  moreover have "(of_nat (be_nat bs * 256 + unat b) :: u8) = b"
    by (rule unsigned_word_eqI [where ?'a = nat])
      (use \<open>unat b < 256\<close> in \<open>simp del: of_nat_add of_nat_mult\<close>)
  ultimately show ?case using snoc.IH by (simp del: of_nat_add of_nat_mult)
qed

lemma of_nat_be_nat_be_bytes:
  fixes w :: "'a::len word"
  assumes "LENGTH('a) = 8 * n"
  shows "of_nat (be_nat (be_bytes n (unat w))) = w"
proof -
  have "unat w < 2 ^ LENGTH('a)" by (rule unsigned_less)
  also have "(2::nat) ^ LENGTH('a) = 256 ^ n"
    by (simp add: assms power_mult)
  finally show ?thesis by (simp add: be_nat_be_bytes)
qed

section \<open>Strings\<close>

text \<open>
  A Rust \<open>String\<close> is a sequence of bytes that is valid UTF-8. Characters of HOL's
  \<^typ>\<open>string\<close> are bytes, so a \<open>String\<close> is a \<^typ>\<open>string\<close> and \<open>len()\<close> is \<^term>\<open>length\<close>; that it is
  valid UTF-8 is the predicate \<open>valid_str\<close>, an invariant of the type that the decoders
  have to establish and that the round trips rely on.
\<close>

definition as_bytes :: "string \<Rightarrow> bytes" where
  "as_bytes s = map (\<lambda>c. of_nat (of_char c)) s"

definition cont_byte :: "u8 \<Rightarrow> bool" where
  "cont_byte b \<longleftrightarrow> 0x80 \<le> b \<and> b \<le> 0xBF"

text \<open>
  The well-formed byte sequences of the Unicode standard (table 3-7): what
  \<open>String::from_utf8\<close> accepts. Overlong forms, surrogates and values above U+10FFFF are
  excluded by the narrower ranges of the second byte.
\<close>

definition utf8_second :: "u8 \<Rightarrow> u8 \<Rightarrow> bool" where
  "utf8_second a b \<longleftrightarrow>
     (if a = 0xE0 then 0xA0 \<le> b \<and> b \<le> 0xBF
      else if a = 0xED then 0x80 \<le> b \<and> b \<le> 0x9F
      else if a = 0xF0 then 0x90 \<le> b \<and> b \<le> 0xBF
      else if a = 0xF4 then 0x80 \<le> b \<and> b \<le> 0x8F
      else cont_byte b)"

fun valid_utf8 :: "bytes \<Rightarrow> bool" where
  "valid_utf8 [] = True"
| "valid_utf8 (a # r) =
     (if a < 0x80 then valid_utf8 r
      else if 0xC2 \<le> a \<and> a \<le> 0xDF then
        (case r of b # r1 \<Rightarrow> cont_byte b \<and> valid_utf8 r1 | _ \<Rightarrow> False)
      else if 0xE0 \<le> a \<and> a \<le> 0xEF then
        (case r of b # c # r2 \<Rightarrow> utf8_second a b \<and> cont_byte c \<and> valid_utf8 r2 | _ \<Rightarrow> False)
      else if 0xF0 \<le> a \<and> a \<le> 0xF4 then
        (case r of b # c # d # r3 \<Rightarrow>
           utf8_second a b \<and> cont_byte c \<and> cont_byte d \<and> valid_utf8 r3 | _ \<Rightarrow> False)
      else False)"

definition valid_str :: "string \<Rightarrow> bool" where
  "valid_str s \<longleftrightarrow> valid_utf8 (as_bytes s)"

definition from_utf8 :: "bytes \<Rightarrow> string option" where
  "from_utf8 bs = (if valid_utf8 bs then Some (map (\<lambda>b. char_of (unat b)) bs) else None)"

lemma length_as_bytes [simp]: "length (as_bytes s) = length s"
  by (simp add: as_bytes_def)

lemma char_of_byte [simp]: "char_of (unat (of_nat (of_char c) :: u8)) = c"
proof -
  have "(of_char c :: nat) < 256" by (rule nat_of_char_less_256)
  then show ?thesis by simp
qed

lemma byte_of_char [simp]: "of_nat (of_char (char_of (unat (b :: u8)) :: char)) = b"
  by simp

lemma from_utf8_as_bytes [simp]: "valid_str s \<Longrightarrow> from_utf8 (as_bytes s) = Some s"
  by (simp add: from_utf8_def valid_str_def as_bytes_def comp_def)

lemma from_utf8_SomeD:
  assumes "from_utf8 bs = Some s"
  shows "as_bytes s = bs" and "valid_str s" and "length s = length bs"
proof -
  from assms show eq: "as_bytes s = bs"
    by (auto simp: from_utf8_def as_bytes_def comp_def split: if_splits)
  with assms show "valid_str s" "length s = length bs"
    by (auto simp: from_utf8_def valid_str_def split: if_splits)
qed

lemma ascii_valid_utf8: "\<forall>b \<in> set bs. b < 0x80 \<Longrightarrow> valid_utf8 bs"
  by (induction bs) auto

text \<open>Decimal and two-digit hexadecimal printing, as \<open>format!\<close> does it.\<close>

definition digit_char :: "nat \<Rightarrow> char" where
  "digit_char d = char_of (if d < 10 then 48 + d else 87 + d)"

fun show_nat :: "nat \<Rightarrow> string" where
  "show_nat n = (if n < 10 then [digit_char n] else show_nat (n div 10) @ [digit_char (n mod 10)])"

declare show_nat.simps [simp del]

lemma length_show_nat: "n < 10 ^ Suc k \<Longrightarrow> length (show_nat n) \<le> Suc k"
proof (induction k arbitrary: n)
  case 0
  then show ?case by (simp add: show_nat.simps)
next
  case (Suc k)
  then have "n div 10 < 10 ^ Suc k" by (simp add: less_mult_imp_div_less)
  from Suc.IH [OF this] show ?case by (subst show_nat.simps) simp
qed

lemma length_show_nat_u64: "length (show_nat (unat (w :: u64))) \<le> 20"
proof -
  have "unat w < 2 ^ 64" using unsigned_less [where ?'a = nat, of w] by simp
  then have "unat w < 10 ^ Suc 19" by simp
  from length_show_nat [OF this] show ?thesis by simp
qed

definition show_int :: "int \<Rightarrow> string" where
  "show_int i = (if i < 0 then ''-'' @ show_nat (nat (- i)) else show_nat (nat i))"

definition quoted :: "string \<Rightarrow> string" where
  "quoted s = [CHR 0x27] @ s @ [CHR 0x27]"

definition show_hex2 :: "u8 \<Rightarrow> string" where
  "show_hex2 b = [digit_char (unat b div 16), digit_char (unat b mod 16)]"

lemma of_char_digit_char [simp]: "d < 16 \<Longrightarrow> (of_char (digit_char d) :: nat) < 128"
  by (simp add: digit_char_def take_bit_eq_mod)

definition ascii_str :: "string \<Rightarrow> bool" where
  "ascii_str s \<longleftrightarrow> (\<forall>c \<in> set s. (of_char c :: nat) < 128)"

lemma ascii_str_Nil [simp]: "ascii_str []"
  and ascii_str_Cons [simp]: "ascii_str (c # s) \<longleftrightarrow> (of_char c :: nat) < 128 \<and> ascii_str s"
  and ascii_str_append [simp]: "ascii_str (s @ t) \<longleftrightarrow> ascii_str s \<and> ascii_str t"
  by (auto simp: ascii_str_def)

lemma ascii_str_show_nat [simp]: "ascii_str (show_nat n)"
proof (induction n rule: show_nat.induct)
  case (1 n)
  then show ?case by (subst show_nat.simps) (auto simp: ascii_str_def)
qed

lemma ascii_str_show_hex2 [simp]: "ascii_str (show_hex2 b)"
proof -
  have "unat b < 256" using unsigned_less [of b] by simp
  then show ?thesis by (simp add: show_hex2_def less_mult_imp_div_less)
qed

lemma valid_str_Nil [simp]: "valid_str []"
  by (simp add: valid_str_def as_bytes_def)

lemma ascii_valid_str: "ascii_str s \<Longrightarrow> valid_str s"
  unfolding valid_str_def as_bytes_def
proof (rule ascii_valid_utf8, clarsimp)
  fix c assume "ascii_str s" "c \<in> set s"
  then have "(of_char c :: nat) < 128" by (simp add: ascii_str_def)
  then show "(of_nat (of_char c) :: u8) < 128"
    by (simp add: word_less_nat_alt)
qed

end
