(* ===== verification/Wire.thy ===== *)
theory Wire
  imports Prelude
begin

text \<open>
  The byte-level vocabulary of the \<open>hi_kafka_proto\<close> crate: the writes of \<open>bytes::BufMut\<close> on a
  \<open>BytesMut\<close>, the reads of \<open>bytes::Buf\<close> on a \<open>&[u8]\<close> cursor (which panic when the slice is too
  short), and the string and byte-string helpers of \<open>proto/src/payload.rs\<close>, which the other
  modules of the crate repeat word for word. On top of them stand the notions the message
  theories use: a reader that never panics and reads incrementally (\<open>sound_reader\<close>), what a
  reader yields (\<open>yields\<close>), and the contract of a message codec (the locale \<open>codec\<close>).
\<close>

section \<open>Errors and writers\<close>

datatype payload_error =
    Truncated
  | FieldTooLarge nat
  | InvalidUtf8 string
  | InvalidTag u8 string

text \<open>Its \<open>Display\<close>, from the \<open>#[error(..)]\<close> attributes.\<close>

fun payload_error_display :: "payload_error \<Rightarrow> string" where
  "payload_error_display Truncated = ''payload truncated''"
| "payload_error_display (FieldTooLarge n) = ''field too large: '' @ show_nat n"
| "payload_error_display (InvalidUtf8 field) = ''invalid utf-8 in '' @ field"
| "payload_error_display (InvalidTag tag field) =
     ''invalid tag 0x'' @ show_hex2 tag @ '' in '' @ field"

text \<open>
  Every write appends to the buffer, so a writer is what it appended and the \<open>Result\<close> it
  returned: bytes written before an error stay written.
\<close>

type_synonym writer = "bytes \<times> (payload_error, unit) outcome"

definition put_slice :: "bytes \<Rightarrow> writer" where
  "put_slice bs = (bs, Ok ())"

definition put_u8 :: "u8 \<Rightarrow> writer" where
  "put_u8 w = ([w], Ok ())"

definition put_u16 :: "u16 \<Rightarrow> writer" where
  "put_u16 w = (be_bytes 2 (unat w), Ok ())"

definition put_u32 :: "u32 \<Rightarrow> writer" where
  "put_u32 w = (be_bytes 4 (unat w), Ok ())"

definition put_u64 :: "u64 \<Rightarrow> writer" where
  "put_u64 w = (be_bytes 8 (unat w), Ok ())"

text \<open>\<open>put_i32\<close> and \<open>put_i64\<close> write the two's complement bits.\<close>

definition put_i32 :: "i32 \<Rightarrow> writer" where
  "put_i32 w = (be_bytes 4 (unat w), Ok ())"

definition put_i64 :: "i64 \<Rightarrow> writer" where
  "put_i64 w = (be_bytes 8 (unat w), Ok ())"

definition fail_with :: "payload_error \<Rightarrow> writer" where
  "fail_with e = ([], Err e)"

text \<open>One write after another, stopping at the first error (\<open>?\<close>).\<close>

fun and_then :: "writer \<Rightarrow> writer \<Rightarrow> writer" where
  "and_then (bs, Ok u) w = (bs @ fst w, snd w)"
| "and_then (bs, Err e) w = (bs, Err e)"
| "and_then (bs, Panic) w = (bs, Panic)"

fun block :: "writer list \<Rightarrow> writer" where
  "block [] = ([], Ok ())"
| "block (w # ws) = and_then w (block ws)"

definition for_each :: "('a \<Rightarrow> writer) \<Rightarrow> 'a list \<Rightarrow> writer" where
  "for_each f xs = block (map f xs)"

lemma block_Ok [wire_simps]: "block ((bs, Ok u) # ws) = (bs @ fst (block ws), snd (block ws))"
  by simp

lemma put_simps [wire_simps]:
  "put_slice bs = (bs, Ok ())"
  "put_u8 a = ([a], Ok ())"
  "put_u16 b = (be_bytes 2 (unat b), Ok ())"
  "put_u32 c = (be_bytes 4 (unat c), Ok ())"
  "put_u64 d = (be_bytes 8 (unat d), Ok ())"
  "put_i32 e = (be_bytes 4 (unat e), Ok ())"
  "put_i64 f = (be_bytes 8 (unat f), Ok ())"
  by (simp_all add: put_slice_def put_u8_def put_u16_def put_u32_def put_u64_def put_i32_def
      put_i64_def)

text \<open>A loop of writes that all succeed appends the concatenation of what they write.\<close>

lemma for_each_Ok:
  "(\<And>x. x \<in> set xs \<Longrightarrow> f x = (g x, Ok ())) \<Longrightarrow> for_each f xs = (concat (map g xs), Ok ())"
  unfolding for_each_def by (induction xs) auto

text \<open>No writer built from these operations panics.\<close>

definition no_panic_w :: "writer \<Rightarrow> bool" where
  "no_panic_w w \<longleftrightarrow> snd w \<noteq> Panic"

lemma no_panic_Ok [simp]: "no_panic_w (bs, Ok u)"
  by (simp add: no_panic_w_def)

lemma no_panic_and_then [simp]: "no_panic_w v \<Longrightarrow> no_panic_w w \<Longrightarrow> no_panic_w (and_then v w)"
  by (cases "(v, w)" rule: and_then.cases) (auto simp: no_panic_w_def)

lemma no_panic_block: "(\<And>w. w \<in> set ws \<Longrightarrow> no_panic_w w) \<Longrightarrow> no_panic_w (block ws)"
proof (induction ws)
  case Nil
  show ?case by (simp add: no_panic_w_def)
next
  case (Cons w ws)
  have "no_panic_w w" "no_panic_w (block ws)" by (simp_all add: Cons)
  then show ?case by (simp add: no_panic_and_then)
qed

lemma no_panic_for_each [simp]: "(\<And>x. no_panic_w (f x)) \<Longrightarrow> no_panic_w (for_each f xs)"
  unfolding for_each_def by (rule no_panic_block) auto

lemma no_panic_put [simp]:
  "no_panic_w (put_slice bs)" "no_panic_w (put_u8 a)" "no_panic_w (put_u16 b)"
  "no_panic_w (put_u32 c)" "no_panic_w (put_u64 d)" "no_panic_w (put_i32 e)"
  "no_panic_w (put_i64 f)" "no_panic_w (fail_with err)"
  by (simp_all add: wire_simps no_panic_w_def fail_with_def)

text \<open>When a sequence of writes succeeds.\<close>

definition succeeds :: "writer \<Rightarrow> bool" where
  "succeeds w \<longleftrightarrow> snd w = Ok ()"

lemma succeeds_and_then [simp]: "succeeds (and_then v w) \<longleftrightarrow> succeeds v \<and> succeeds w"
  by (cases "(v, w)" rule: and_then.cases) (auto simp: succeeds_def)

lemma succeeds_Ok [simp]: "succeeds (bs, Ok u)"
  by (simp add: succeeds_def)

lemma writer_snd [simp]:
  "succeeds (bs, snd w) \<longleftrightarrow> succeeds w" "no_panic_w (bs, snd w) \<longleftrightarrow> no_panic_w w"
  by (simp_all add: succeeds_def no_panic_w_def)

lemma succeeds_for_each [simp]: "succeeds (for_each f xs) \<longleftrightarrow> list_all (\<lambda>x. succeeds (f x)) xs"
  unfolding for_each_def by (induction xs) simp_all

lemma succeeds_put [simp]:
  "succeeds (put_slice bs)" "succeeds (put_u8 a)" "succeeds (put_u16 b)" "succeeds (put_u32 c)"
  "succeeds (put_u64 d)" "succeeds (put_i32 e)" "succeeds (put_i64 f)"
  "\<not> succeeds (fail_with err)"
  by (simp_all add: wire_simps succeeds_def fail_with_def)

section \<open>Readers\<close>

type_synonym 'a reader = "bytes \<Rightarrow> (payload_error, 'a \<times> bytes) outcome"

definition ret :: "'a \<Rightarrow> 'a reader" where
  "ret x buf = Ok (x, buf)"

definition throw :: "payload_error \<Rightarrow> 'a reader" where
  "throw e buf = Err e"

definition bind :: "'a reader \<Rightarrow> ('a \<Rightarrow> 'b reader) \<Rightarrow> 'b reader" where
  "bind d k buf = (case d buf of Ok (x, r) \<Rightarrow> k x r | Err e \<Rightarrow> Err e | Panic \<Rightarrow> Panic)"

text \<open>\<open>if buf.remaining() < n { return Err(PayloadError::Truncated); }\<close>\<close>

definition need :: "nat \<Rightarrow> 'a reader \<Rightarrow> 'a reader" where
  "need n d buf = (if length buf < n then Err Truncated else d buf)"

text \<open>The getters of \<open>bytes::Buf\<close> panic when fewer bytes remain than they read.\<close>

definition get_bytes :: "nat \<Rightarrow> bytes reader" where
  "get_bytes n buf = (if length buf < n then Panic else Ok (take n buf, drop n buf))"

definition get_u8 :: "u8 reader" where
  "get_u8 buf = (case buf of b # r \<Rightarrow> Ok (b, r) | [] \<Rightarrow> Panic)"

definition get_u16 :: "u16 reader" where
  "get_u16 = bind (get_bytes 2) (\<lambda>bs. ret (of_nat (be_nat bs)))"

definition get_u32 :: "u32 reader" where
  "get_u32 = bind (get_bytes 4) (\<lambda>bs. ret (of_nat (be_nat bs)))"

definition get_u64 :: "u64 reader" where
  "get_u64 = bind (get_bytes 8) (\<lambda>bs. ret (of_nat (be_nat bs)))"

definition get_i32 :: "i32 reader" where
  "get_i32 = get_u32"

definition get_i64 :: "i64 reader" where
  "get_i64 = get_u64"

text \<open>\<open>for _ in 0..n { out.push(read(&mut buf)?) }\<close>\<close>

fun read_n :: "nat \<Rightarrow> 'a reader \<Rightarrow> 'a list reader" where
  "read_n 0 d = ret []"
| "read_n (Suc n) d = bind d (\<lambda>x. bind (read_n n d) (\<lambda>xs. ret (x # xs)))"

text \<open>A top-level \<open>decode(buf: &[u8])\<close>: the cursor is dropped on return.\<close>

definition run :: "'a reader \<Rightarrow> bytes \<Rightarrow> (payload_error, 'a) outcome" where
  "run d buf = map_ok fst (d buf)"

section \<open>The string and byte-string helpers of payload.rs\<close>

definition write_str_u16 :: "string \<Rightarrow> writer" where
  "write_str_u16 s =
     (if length s > U16_MAX then fail_with (FieldTooLarge (length s))
      else block [put_u16 (of_nat (length s)), put_slice (as_bytes s)])"

definition write_bytes_u32 :: "bytes \<Rightarrow> writer" where
  "write_bytes_u32 b =
     (if length b > U32_MAX then fail_with (FieldTooLarge (length b))
      else block [put_u32 (of_nat (length b)), put_slice b])"

definition read_str_u16 :: "string \<Rightarrow> string reader" where
  "read_str_u16 field =
     need 2 (bind get_u16 (\<lambda>len.
       need (unat len) (bind (get_bytes (unat len)) (\<lambda>bytes.
         case from_utf8 bytes of Some s \<Rightarrow> ret s | None \<Rightarrow> throw (InvalidUtf8 field)))))"

definition read_bytes_u32 :: "bytes reader" where
  "read_bytes_u32 =
     need 4 (bind get_u32 (\<lambda>len. need (unat len) (get_bytes (unat len))))"

text \<open>The \<open>u32\<close>-prefixed string of \<open>oauth.rs\<close>.\<close>

definition write_str_u32 :: "string \<Rightarrow> writer" where
  "write_str_u32 s =
     (if length s > U32_MAX then fail_with (FieldTooLarge (length s))
      else block [put_u32 (of_nat (length s)), put_slice (as_bytes s)])"

definition read_str_u32 :: "string \<Rightarrow> string reader" where
  "read_str_u32 field =
     need 4 (bind get_u32 (\<lambda>len.
       need (unat len) (bind (get_bytes (unat len)) (\<lambda>bytes.
         case from_utf8 bytes of Some s \<Rightarrow> ret s | None \<Rightarrow> throw (InvalidUtf8 field)))))"

section \<open>Layouts: the documented bytes of each field\<close>

text \<open>
  The layout functions are the specification side: the byte strings that the module
  comments of the source give for each field (\<open>[u16 len][bytes]\<close> and so on).
\<close>

definition lay_str16 :: "string \<Rightarrow> bytes" where
  "lay_str16 s = be_bytes 2 (length s) @ as_bytes s"

definition lay_str32 :: "string \<Rightarrow> bytes" where
  "lay_str32 s = be_bytes 4 (length s) @ as_bytes s"

definition lay_bytes32 :: "bytes \<Rightarrow> bytes" where
  "lay_bytes32 b = be_bytes 4 (length b) @ b"

definition str16_ok :: "string \<Rightarrow> bool" where
  "str16_ok s \<longleftrightarrow> valid_str s \<and> length s \<le> U16_MAX"

definition str32_ok :: "string \<Rightarrow> bool" where
  "str32_ok s \<longleftrightarrow> valid_str s \<and> length s \<le> U32_MAX"

definition bytes32_ok :: "bytes \<Rightarrow> bool" where
  "bytes32_ok b \<longleftrightarrow> length b \<le> U32_MAX"

lemma unat_of_nat_u16 [simp]: "n \<le> U16_MAX \<Longrightarrow> unat (of_nat n :: u16) = n"
  by (simp add: unsigned_of_nat take_bit_eq_mod)

lemma unat_of_nat_u32 [simp]: "n \<le> U32_MAX \<Longrightarrow> unat (of_nat n :: u32) = n"
  by (simp add: unsigned_of_nat take_bit_eq_mod)

lemma unat_u16_bound: "unat (w :: u16) \<le> U16_MAX"
  using unsigned_less [where ?'a = nat, of w] by simp

lemma unat_u32_bound: "unat (w :: u32) \<le> U32_MAX"
  using unsigned_less [where ?'a = nat, of w] by simp

lemma write_str_u16_ok [wire_simps]: "length s \<le> U16_MAX \<Longrightarrow> write_str_u16 s = (lay_str16 s, Ok ())"
  by (simp add: write_str_u16_def lay_str16_def wire_simps)

lemma write_str_u32_ok [wire_simps]: "length s \<le> U32_MAX \<Longrightarrow> write_str_u32 s = (lay_str32 s, Ok ())"
  by (simp add: write_str_u32_def lay_str32_def wire_simps)

lemma write_bytes_u32_ok [wire_simps]:
  "length b \<le> U32_MAX \<Longrightarrow> write_bytes_u32 b = (lay_bytes32 b, Ok ())"
  by (simp add: write_bytes_u32_def lay_bytes32_def wire_simps)

lemma succeeds_writes [simp]:
  "succeeds (write_str_u16 s) \<longleftrightarrow> length s \<le> U16_MAX"
  "succeeds (write_str_u32 s) \<longleftrightarrow> length s \<le> U32_MAX"
  "succeeds (write_bytes_u32 b) \<longleftrightarrow> length b \<le> U32_MAX"
  by (auto simp: write_str_u16_def write_str_u32_def write_bytes_u32_def)

lemma no_panic_writes [simp]:
  "no_panic_w (write_str_u16 s)" "no_panic_w (write_str_u32 s)" "no_panic_w (write_bytes_u32 b)"
  by (simp_all add: write_str_u16_def write_str_u32_def write_bytes_u32_def)

subsection \<open>Reading back a layout\<close>

lemma bind_ret [wire_simps]: "bind (ret x) k = k x"
  by (simp add: bind_def ret_def fun_eq_iff)

lemma need_enough [wire_simps]: "n \<le> length buf \<Longrightarrow> need n d buf = d buf"
  by (simp add: need_def)

lemma bind_get_bytes [wire_simps]:
  "length bs = n \<Longrightarrow> bind (get_bytes n) k (bs @ r) = k bs r"
  by (simp add: bind_def get_bytes_def)

lemma get_bytes_append [wire_simps]: "length bs = n \<Longrightarrow> get_bytes n (bs @ r) = Ok (bs, r)"
  by (simp add: get_bytes_def)

lemma get_u8_Cons [wire_simps]: "get_u8 (b # r) = Ok (b, r)"
  by (simp add: get_u8_def)

lemma get_u16_append [wire_simps]: "get_u16 (be_bytes 2 (unat w) @ r) = Ok (w, r)"
  by (simp add: get_u16_def wire_simps ret_def of_nat_be_nat_be_bytes)

lemma get_u32_append [wire_simps]: "get_u32 (be_bytes 4 (unat w) @ r) = Ok (w, r)"
  by (simp add: get_u32_def wire_simps ret_def of_nat_be_nat_be_bytes)

lemma get_u64_append [wire_simps]: "get_u64 (be_bytes 8 (unat w) @ r) = Ok (w, r)"
  by (simp add: get_u64_def wire_simps ret_def of_nat_be_nat_be_bytes)

lemma get_i32_append [wire_simps]: "get_i32 (be_bytes 4 (unat w) @ r) = Ok (w, r)"
  by (simp add: get_i32_def get_u32_append)

lemma get_i64_append [wire_simps]: "get_i64 (be_bytes 8 (unat w) @ r) = Ok (w, r)"
  by (simp add: get_i64_def get_u64_append)

lemma bind_Ok [wire_simps]: "d buf = Ok (x, r) \<Longrightarrow> bind d k buf = k x r"
  by (simp add: bind_def)

lemma get_u16_len: "n \<le> U16_MAX \<Longrightarrow> get_u16 (be_bytes 2 n @ r) = Ok (of_nat n, r)"
  using get_u16_append [of "of_nat n" r] by simp

lemma get_u32_len: "n \<le> U32_MAX \<Longrightarrow> get_u32 (be_bytes 4 n @ r) = Ok (of_nat n, r)"
  using get_u32_append [of "of_nat n" r] by simp

lemmas count_simps = get_u16_len get_u32_len unat_of_nat_u16 unat_of_nat_u32

lemma read_str_u16_lay [wire_simps]:
  "str16_ok s \<Longrightarrow> read_str_u16 f (lay_str16 s @ r) = Ok (s, r)"
  by (simp add: read_str_u16_def lay_str16_def str16_ok_def bind_def need_def get_u16_len
      get_bytes_def ret_def)

lemma read_str_u32_lay [wire_simps]:
  "str32_ok s \<Longrightarrow> read_str_u32 f (lay_str32 s @ r) = Ok (s, r)"
  by (simp add: read_str_u32_def lay_str32_def str32_ok_def bind_def need_def get_u32_len
      get_bytes_def ret_def)

lemma read_bytes_u32_lay [wire_simps]:
  "bytes32_ok b \<Longrightarrow> read_bytes_u32 (lay_bytes32 b @ r) = Ok (b, r)"
  by (simp add: read_bytes_u32_def lay_bytes32_def bytes32_ok_def bind_def need_def get_u32_len
      get_bytes_def)

lemma read_n_lay:
  assumes "\<And>x r. x \<in> set xs \<Longrightarrow> d (lay x @ r) = Ok (x, r)"
  shows "read_n (length xs) d (concat (map lay xs) @ r) = Ok (xs, r)"
  using assms by (induction xs) (auto simp: wire_simps bind_def ret_def)

section \<open>Incremental readers\<close>

text \<open>
  \<open>good n d\<close>: on every buffer of at least \<open>n\<close> bytes the reader \<open>d\<close> does not panic; a value it
  reads from a buffer it reads from every extension of it, leaving the extra bytes; and an
  error other than \<open>Truncated\<close> is final, the same on every extension. The guards
  \<open>remaining() < n\<close> of the source are what makes the bare getters good.
\<close>

definition good :: "nat \<Rightarrow> 'a reader \<Rightarrow> bool" where
  "good n d \<longleftrightarrow> (\<forall>p q. n \<le> length p \<longrightarrow>
     (case d p of
        Ok (x, r) \<Rightarrow> d (p @ q) = Ok (x, r @ q)
      | Err e \<Rightarrow> e = Truncated \<or> d (p @ q) = Err e
      | Panic \<Rightarrow> False))"

lemma goodI:
  assumes "\<And>p. n \<le> length p \<Longrightarrow> d p \<noteq> Panic"
    and "\<And>p q x r. n \<le> length p \<Longrightarrow> d p = Ok (x, r) \<Longrightarrow> d (p @ q) = Ok (x, r @ q)"
    and "\<And>p q e. n \<le> length p \<Longrightarrow> d p = Err e \<Longrightarrow> e \<noteq> Truncated \<Longrightarrow> d (p @ q) = Err e"
  shows "good n d"
  unfolding good_def
proof (intro allI impI)
  fix p q :: bytes assume n: "n \<le> length p"
  show "case d p of Ok (x, r) \<Rightarrow> d (p @ q) = Ok (x, r @ q)
    | Err e \<Rightarrow> e = Truncated \<or> d (p @ q) = Err e | Panic \<Rightarrow> False"
    using assms(1) [OF n] assms(2) [OF n, of _ _ q] assms(3) [OF n, of _ q]
    by (cases "d p") auto
qed

lemma good_no_panic: "good n d \<Longrightarrow> n \<le> length p \<Longrightarrow> d p \<noteq> Panic"
  unfolding good_def by (fastforce split: outcome.splits)

lemma good_Ok: "good n d \<Longrightarrow> n \<le> length p \<Longrightarrow> d p = Ok (x, r) \<Longrightarrow> d (p @ q) = Ok (x, r @ q)"
  unfolding good_def by (drule spec [of _ p], drule spec [of _ q]) simp

lemma good_Err:
  "good n d \<Longrightarrow> n \<le> length p \<Longrightarrow> d p = Err e \<Longrightarrow> e \<noteq> Truncated \<Longrightarrow> d (p @ q) = Err e"
  unfolding good_def by (drule spec [of _ p], drule spec [of _ q]) simp

lemma good_weaken: "good m d \<Longrightarrow> m \<le> n \<Longrightarrow> good n d"
  unfolding good_def by (meson le_trans)

lemma good_ret [reader_intros]: "good n (ret x)"
  by (simp add: good_def ret_def)

lemma good_throw [reader_intros]: "good n (throw e)"
  by (simp add: good_def throw_def)

lemma good_need [reader_intros]: "good (max m n) d \<Longrightarrow> good m (need n d)"
  by (rule goodI)
    (auto simp: need_def good_no_panic [of "max m n"] good_Ok [of "max m n"] good_Err [of "max m n"]
      split: if_splits)

lemma good_bind:
  assumes d: "good n d" and k: "\<And>x. good 0 (k x)"
  shows "good n (bind d k)"
proof (rule goodI)
  fix p :: bytes assume n: "n \<le> length p"
  show "bind d k p \<noteq> Panic"
    using good_no_panic [OF d n] good_no_panic [OF k]
    by (auto simp: bind_def split: outcome.splits)
next
  fix p q :: bytes and x r assume n: "n \<le> length p" and "bind d k p = Ok (x, r)"
  then obtain y s where "d p = Ok (y, s)" and "k y s = Ok (x, r)"
    by (auto simp: bind_def split: outcome.splits)
  then show "bind d k (p @ q) = Ok (x, r @ q)"
    using good_Ok [OF d n] good_Ok [OF k] by (simp add: bind_def)
next
  fix p q :: bytes and e assume n: "n \<le> length p" and e: "bind d k p = Err e" "e \<noteq> Truncated"
  show "bind d k (p @ q) = Err e"
  proof (cases "d p")
    case (Ok yr)
    obtain y s where "yr = (y, s)" by force
    with Ok e show ?thesis
      using good_Ok [OF d n, of y s q] good_Err [OF k, of s y e q] by (simp add: bind_def)
  next
    case (Err e')
    with e show ?thesis using good_Err [OF d n, of e q] by (simp add: bind_def)
  next
    case Panic
    with e show ?thesis by (simp add: bind_def)
  qed
qed

lemma good_bind_get_bytes [reader_intros]:
  assumes "m \<le> n" and "\<And>bs. length bs = m \<Longrightarrow> good (n - m) (k bs)"
  shows "good n (bind (get_bytes m) k)"
proof -
  have eq: "bind (get_bytes m) k p = k (take m p) (drop m p)" if "n \<le> length p" for p
    using that assms(1) by (simp add: bind_def get_bytes_def)
  have g: "good (n - m) (k (take m p))" if "n \<le> length p" for p
    using that assms by simp
  show ?thesis
  proof (rule goodI)
    fix p :: bytes assume n: "n \<le> length p"
    then show "bind (get_bytes m) k p \<noteq> Panic"
      using good_no_panic [OF g [OF n], of "drop m p"] by (simp add: eq)
  next
    fix p q :: bytes and x r assume n: "n \<le> length p" and "bind (get_bytes m) k p = Ok (x, r)"
    then have "k (take m p) (drop m p) = Ok (x, r)" by (simp add: eq)
    then have "k (take m p) (drop m p @ q) = Ok (x, r @ q)"
      using n by (intro good_Ok [OF g [OF n]]) simp_all
    with n assms(1) show "bind (get_bytes m) k (p @ q) = Ok (x, r @ q)" by (simp add: eq)
  next
    fix p q :: bytes and e assume n: "n \<le> length p" and "bind (get_bytes m) k p = Err e" and t: "e \<noteq> Truncated"
    then have "k (take m p) (drop m p) = Err e" by (simp add: eq)
    then have "k (take m p) (drop m p @ q) = Err e"
      using n t by (intro good_Err [OF g [OF n]]) simp_all
    with n assms(1) show "bind (get_bytes m) k (p @ q) = Err e" by (simp add: eq)
  qed
qed

lemma bind_assoc: "bind (bind d k) l = bind d (\<lambda>x. bind (k x) l)"
  by (auto simp: bind_def fun_eq_iff split: outcome.splits)

lemma good_bind_getters [reader_intros]:
  "2 \<le> n \<Longrightarrow> (\<And>w. good (n - 2) (k2 w)) \<Longrightarrow> good n (bind get_u16 k2)"
  "4 \<le> n \<Longrightarrow> (\<And>w. good (n - 4) (k4 w)) \<Longrightarrow> good n (bind get_u32 k4)"
  "4 \<le> n \<Longrightarrow> (\<And>w. good (n - 4) (k4 w)) \<Longrightarrow> good n (bind get_i32 k4)"
  "8 \<le> n \<Longrightarrow> (\<And>w. good (n - 8) (k8 w)) \<Longrightarrow> good n (bind get_u64 k8)"
  "8 \<le> n \<Longrightarrow> (\<And>w. good (n - 8) (k8 w)) \<Longrightarrow> good n (bind get_i64 k8)"
  by (simp_all add: get_u16_def get_u32_def get_u64_def get_i32_def get_i64_def bind_assoc bind_ret
      good_bind_get_bytes)

lemma get_u8_get_bytes: "get_u8 = bind (get_bytes 1) (\<lambda>bs. ret (hd bs))"
  by (auto simp: fun_eq_iff get_u8_def bind_def get_bytes_def ret_def split: list.splits)

lemma good_bind_get_u8 [reader_intros]:
  "1 \<le> n \<Longrightarrow> (\<And>w. good (n - 1) (k w)) \<Longrightarrow> good n (bind get_u8 k)"
  by (simp add: get_u8_get_bytes bind_assoc bind_ret good_bind_get_bytes)

lemma bind_ret_right: "bind d ret = d"
  by (auto simp: bind_def ret_def fun_eq_iff split: outcome.splits)

lemma good_get_bytes [reader_intros]: "m \<le> n \<Longrightarrow> good n (get_bytes m)"
  using good_bind_get_bytes [of m n ret] by (simp add: bind_ret_right good_ret)

lemma good_if [reader_intros]:
  "(b \<Longrightarrow> good n d) \<Longrightarrow> (\<not> b \<Longrightarrow> good n e) \<Longrightarrow> good n (if b then d else e)"
  by simp

lemma good_case_option [reader_intros]:
  "(\<And>x. v = Some x \<Longrightarrow> good n (f x)) \<Longrightarrow> (v = None \<Longrightarrow> good n e) \<Longrightarrow>
   good n (case v of Some x \<Rightarrow> f x | None \<Rightarrow> e)"
  by (cases v) auto

lemma good_read_strings [reader_intros]:
  "good n (read_str_u16 f)" "good n (read_str_u32 f)" "good n read_bytes_u32"
  unfolding read_str_u16_def read_str_u32_def read_bytes_u32_def
  by (auto intro!: reader_intros)

lemma good_read_n [reader_intros]: "good 0 d \<Longrightarrow> good n (read_n m d)"
  by (induction m arbitrary: n)
    (auto intro!: good_bind reader_intros intro: good_weaken [of 0])

lemmas good_bind_reads [reader_intros] =
  good_bind [OF good_read_strings(1)] good_bind [OF good_read_strings(2)]
  good_bind [OF good_read_strings(3)] good_bind [OF good_read_n]

section \<open>What a reader yields\<close>

definition yields :: "('a \<Rightarrow> bool) \<Rightarrow> 'a reader \<Rightarrow> bool" where
  "yields P d \<longleftrightarrow> (\<forall>buf x r. d buf = Ok (x, r) \<longrightarrow> P x)"

lemma yieldsD: "yields P d \<Longrightarrow> d buf = Ok (x, r) \<Longrightarrow> P x"
  unfolding yields_def by blast

lemma yields_ret [yields_intros]: "P x \<Longrightarrow> yields P (ret x)"
  by (simp add: yields_def ret_def)

lemma yields_throw [yields_intros]: "yields P (throw e)"
  by (simp add: yields_def throw_def)

lemma yields_need [yields_intros]: "yields P d \<Longrightarrow> yields P (need n d)"
  by (simp add: yields_def need_def)

lemma yields_if [yields_intros]:
  "(b \<Longrightarrow> yields P d) \<Longrightarrow> (\<not> b \<Longrightarrow> yields P e) \<Longrightarrow> yields P (if b then d else e)"
  by simp

lemma yields_bind: "yields Q d \<Longrightarrow> (\<And>x. Q x \<Longrightarrow> yields P (k x)) \<Longrightarrow> yields P (bind d k)"
  by (fastforce simp: yields_def bind_def split: outcome.splits)

lemma yields_case_option [yields_intros]:
  "(\<And>x. v = Some x \<Longrightarrow> yields P (f x)) \<Longrightarrow> (v = None \<Longrightarrow> yields P e) \<Longrightarrow>
   yields P (case v of Some x \<Rightarrow> f x | None \<Rightarrow> e)"
  by (cases v) auto

lemma yields_True: "yields (\<lambda>_. True) d"
  by (simp add: yields_def)

lemma yields_get_bytes: "yields (\<lambda>bs. length bs = n) (get_bytes n)"
  by (simp add: yields_def get_bytes_def)

lemmas yields_bind_getters [yields_intros] =
  yields_bind [OF yields_True [of get_u8]] yields_bind [OF yields_True [of get_u16]]
  yields_bind [OF yields_True [of get_u32]] yields_bind [OF yields_True [of get_u64]]
  yields_bind [OF yields_True [of get_i32]] yields_bind [OF yields_True [of get_i64]]
  yields_bind [OF yields_get_bytes]

lemma yields_read_str_u16: "yields str16_ok (read_str_u16 f)"
  unfolding read_str_u16_def
  by (auto intro!: yields_intros simp: str16_ok_def from_utf8_SomeD unat_u16_bound)

lemma yields_read_str_u32: "yields str32_ok (read_str_u32 f)"
  unfolding read_str_u32_def
  by (auto intro!: yields_intros simp: str32_ok_def from_utf8_SomeD unat_u32_bound)

lemma yields_weaken: "yields Q d \<Longrightarrow> (\<And>x. Q x \<Longrightarrow> P x) \<Longrightarrow> yields P d"
  unfolding yields_def by blast

lemma yields_read_bytes_u32: "yields bytes32_ok read_bytes_u32"
  unfolding read_bytes_u32_def bytes32_ok_def
  by (auto intro!: yields_intros intro: yields_weaken [OF yields_get_bytes] simp: unat_u32_bound)

lemma yields_read_n:
  "yields P d \<Longrightarrow> yields (\<lambda>xs. length xs = n \<and> list_all P xs) (read_n n d)"
  by (induction n) (simp_all add: yields_ret yields_bind [where Q = P]
      yields_bind [where Q = "\<lambda>xs. length xs = _ \<and> list_all P xs"])

text \<open>A list whose count was read as \<open>u16\<close> or \<open>u32\<close> is as long as the count says.\<close>

lemma yields_read_n_u32:
  "yields P d \<Longrightarrow> yields (\<lambda>xs. length xs \<le> U32_MAX \<and> list_all P xs) (read_n (unat (w :: u32)) d)"
  by (rule yields_weaken [OF yields_read_n]) (auto simp: unat_u32_bound)

lemma yields_read_n_u16:
  "yields P d \<Longrightarrow> yields (\<lambda>xs. length xs \<le> U16_MAX \<and> list_all P xs) (read_n (unat (w :: u16)) d)"
  by (rule yields_weaken [OF yields_read_n]) (auto simp: unat_u16_bound)

lemmas yields_bind_reads [yields_intros] =
  yields_bind [OF yields_read_str_u16] yields_bind [OF yields_read_str_u32]
  yields_bind [OF yields_read_bytes_u32]

section \<open>The contract of a message codec\<close>

text \<open>
  Every message of the protocol has an encoder and a decoder; the contract between the two
  ends of the socket is stated once. \<open>typed\<close> is the type invariant of the Rust value (its
  strings are valid UTF-8), \<open>wf\<close> the values that fit the wire format, \<open>layout\<close> the documented
  bytes.
\<close>

locale codec =
  fixes encode :: "'a \<Rightarrow> writer"
    and reader :: "'a reader"
    and layout :: "'a \<Rightarrow> bytes"
    and typed :: "'a \<Rightarrow> bool"
    and wf :: "'a \<Rightarrow> bool"
  assumes encode_layout: "wf x \<Longrightarrow> encode x = (layout x, Ok ())"
    and encode_fits: "typed x \<Longrightarrow> succeeds (encode x) \<longleftrightarrow> wf x"
    and encode_no_panic: "no_panic_w (encode x)"
    and read_layout: "wf x \<Longrightarrow> reader (layout x @ r) = Ok (x, r)"
    and reader_good: "good 0 reader"
    and reader_wf: "yields wf reader"
begin

lemmas codec_wire [wire_simps] = encode_layout read_layout

lemmas codec_simps [simp] = encode_fits encode_no_panic

lemma good_reader [reader_intros]: "good n reader"
  using reader_good by (rule good_weaken) simp

lemma good_bind_reader [reader_intros]: "(\<And>x. good 0 (k x)) \<Longrightarrow> good n (bind reader k)"
  by (rule good_bind [OF good_reader])

lemma yields_bind_reader [yields_intros]: "(\<And>x. wf x \<Longrightarrow> yields P (k x)) \<Longrightarrow> yields P (bind reader k)"
  by (rule yields_bind [OF reader_wf])

lemma roundtrip: "wf x \<Longrightarrow> snd (encode x) = Ok () \<and> run reader (fst (encode x) @ r) = Ok x"
  by (simp add: encode_layout run_def read_layout)

lemma decode_total: "run reader buf \<noteq> Panic"
  using good_no_panic [OF reader_good] by (simp add: run_def)

lemma decode_wf: "run reader buf = Ok x \<Longrightarrow> wf x"
  using reader_wf by (auto simp: run_def dest: yieldsD)

lemma reencode: "run reader buf = Ok x \<Longrightarrow> run reader (fst (encode x)) = Ok x"
  using roundtrip [of x "[]"] decode_wf by simp

lemma trailing_ignored: "run reader p = Ok x \<Longrightarrow> run reader (p @ q) = Ok x"
  using good_Ok [OF reader_good] by (fastforce simp: run_def)

lemma prefix_truncated:
  assumes "wf x" and "fst (encode x) = p @ q" and "q \<noteq> []"
  shows "run reader p = Err Truncated"
proof -
  have full: "reader (p @ q) = Ok (x, [])"
    using assms read_layout [of x "[]"] by (simp add: encode_layout)
  show ?thesis
  proof (cases "reader p")
    case (Ok yr)
    obtain y r where "yr = (y, r)" by force
    with Ok full assms(3) show ?thesis using good_Ok [OF reader_good, of p y r q] by simp
  next
    case (Err e)
    with full show ?thesis using good_Err [OF reader_good, of p e q] by (auto simp: run_def)
  next
    case Panic
    then show ?thesis using good_no_panic [OF reader_good, of p] by simp
  qed
qed

lemma encode_inj: "wf x \<Longrightarrow> wf y \<Longrightarrow> fst (encode x) = fst (encode y) \<Longrightarrow> x = y"
  using roundtrip [of x "[]"] roundtrip [of y "[]"] by simp

lemma oversize_rejected:
  assumes "typed x" and "\<not> wf x"
  shows "\<exists>e. snd (encode x) = Err e"
  using encode_fits [OF assms(1)] encode_no_panic [of x] assms(2)
  by (cases "snd (encode x)") (auto simp: succeeds_def no_panic_w_def)

end

subsection \<open>Counted lists\<close>

text \<open>
  A list on the wire is its count followed by its elements. The encoders of the source
  write out the check of the count, the count and the loop; so do these two combinators for
  the two widths of the count.
\<close>

definition write_list_u16 :: "('a \<Rightarrow> writer) \<Rightarrow> 'a list \<Rightarrow> writer" where
  "write_list_u16 f xs =
     (if length xs > U16_MAX then fail_with (FieldTooLarge (length xs))
      else block [put_u16 (of_nat (length xs)), for_each f xs])"

definition read_list_u16 :: "'a reader \<Rightarrow> 'a list reader" where
  "read_list_u16 d = need 2 (bind get_u16 (\<lambda>n. read_n (unat n) d))"

definition write_list_u32 :: "('a \<Rightarrow> writer) \<Rightarrow> 'a list \<Rightarrow> writer" where
  "write_list_u32 f xs =
     (if length xs > U32_MAX then fail_with (FieldTooLarge (length xs))
      else block [put_u32 (of_nat (length xs)), for_each f xs])"

definition read_list_u32 :: "'a reader \<Rightarrow> 'a list reader" where
  "read_list_u32 d = need 4 (bind get_u32 (\<lambda>n. read_n (unat n) d))"

definition lay_list16 :: "('a \<Rightarrow> bytes) \<Rightarrow> 'a list \<Rightarrow> bytes" where
  "lay_list16 l xs = be_bytes 2 (length xs) @ concat (map l xs)"

definition lay_list32 :: "('a \<Rightarrow> bytes) \<Rightarrow> 'a list \<Rightarrow> bytes" where
  "lay_list32 l xs = be_bytes 4 (length xs) @ concat (map l xs)"

definition list16_ok :: "('a \<Rightarrow> bool) \<Rightarrow> 'a list \<Rightarrow> bool" where
  "list16_ok P xs \<longleftrightarrow> length xs \<le> U16_MAX \<and> list_all P xs"

definition list32_ok :: "('a \<Rightarrow> bool) \<Rightarrow> 'a list \<Rightarrow> bool" where
  "list32_ok P xs \<longleftrightarrow> length xs \<le> U32_MAX \<and> list_all P xs"

context codec
begin

lemma for_each_encode: "list_all wf xs \<Longrightarrow> for_each encode xs = (concat (map layout xs), Ok ())"
  by (rule for_each_Ok) (simp add: list_all_iff encode_layout)

lemma read_n_reader [wire_simps]:
  "list_all wf xs \<Longrightarrow> read_n (length xs) reader (concat (map layout xs) @ r) = Ok (xs, r)"
  by (rule read_n_lay) (simp add: list_all_iff read_layout)

lemma yields_bind_read_n [yields_intros]:
  "(\<And>xs. list32_ok wf xs \<Longrightarrow> yields P (k xs)) \<Longrightarrow>
   yields P (bind (read_n (unat (n :: u32)) reader) k)"
  by (rule yields_bind [OF yields_read_n_u32 [OF reader_wf]]) (simp add: list32_ok_def)

lemma list_all_fits: "list_all typed xs \<Longrightarrow> list_all (\<lambda>x. succeeds (encode x)) xs \<longleftrightarrow> list_all wf xs"
  by (induction xs) auto

end

lemma codec_list16:
  assumes "codec e d l t w"
  shows "codec (write_list_u16 e) (read_list_u16 d) (lay_list16 l) (list_all t) (list16_ok w)"
proof (rule codec.intro)
  fix xs r
  show "list16_ok w xs \<Longrightarrow> write_list_u16 e xs = (lay_list16 l xs, Ok ())"
    by (simp add: write_list_u16_def lay_list16_def list16_ok_def put_simps codec.for_each_encode [OF assms])
  show "list_all t xs \<Longrightarrow> succeeds (write_list_u16 e xs) \<longleftrightarrow> list16_ok w xs"
    by (auto simp: write_list_u16_def list16_ok_def codec.list_all_fits [OF assms])
  show "no_panic_w (write_list_u16 e xs)"
    by (simp add: write_list_u16_def codec.encode_no_panic [OF assms])
  show "list16_ok w xs \<Longrightarrow> read_list_u16 d (lay_list16 l xs @ r) = Ok (xs, r)"
    by (simp add: read_list_u16_def lay_list16_def list16_ok_def need_def bind_def count_simps
        codec.read_n_reader [OF assms])
  show "good 0 (read_list_u16 d)"
    unfolding read_list_u16_def by (auto intro!: reader_intros codec.reader_good [OF assms])
  show "yields (list16_ok w) (read_list_u16 d)"
    unfolding read_list_u16_def list16_ok_def
    by (intro yields_intros yields_read_n_u16 codec.reader_wf [OF assms])
qed

lemma codec_list32:
  assumes "codec e d l t w"
  shows "codec (write_list_u32 e) (read_list_u32 d) (lay_list32 l) (list_all t) (list32_ok w)"
proof (rule codec.intro)
  fix xs r
  show "list32_ok w xs \<Longrightarrow> write_list_u32 e xs = (lay_list32 l xs, Ok ())"
    by (simp add: write_list_u32_def lay_list32_def list32_ok_def put_simps codec.for_each_encode [OF assms])
  show "list_all t xs \<Longrightarrow> succeeds (write_list_u32 e xs) \<longleftrightarrow> list32_ok w xs"
    by (auto simp: write_list_u32_def list32_ok_def codec.list_all_fits [OF assms])
  show "no_panic_w (write_list_u32 e xs)"
    by (simp add: write_list_u32_def codec.encode_no_panic [OF assms])
  show "list32_ok w xs \<Longrightarrow> read_list_u32 d (lay_list32 l xs @ r) = Ok (xs, r)"
    by (simp add: read_list_u32_def lay_list32_def list32_ok_def need_def bind_def count_simps
        codec.read_n_reader [OF assms])
  show "good 0 (read_list_u32 d)"
    unfolding read_list_u32_def by (auto intro!: reader_intros codec.reader_good [OF assms])
  show "yields (list32_ok w) (read_list_u32 d)"
    unfolding read_list_u32_def list32_ok_def
    by (intro yields_intros yields_read_n_u32 codec.reader_wf [OF assms])
qed

text \<open>The length-prefixed strings are codecs themselves, for every field name.\<close>

interpretation str16: codec write_str_u16 "read_str_u16 f" lay_str16 valid_str str16_ok
  by unfold_locales
    (simp_all add: write_str_u16_ok read_str_u16_lay yields_read_str_u16 good_read_strings str16_ok_def)

interpretation str32: codec write_str_u32 "read_str_u32 f" lay_str32 valid_str str32_ok
  by unfold_locales
    (simp_all add: write_str_u32_ok read_str_u32_lay yields_read_str_u32 good_read_strings str32_ok_def)

subsection \<open>Status responses\<close>

text \<open>
  Seven responses of the protocol have the same two variants: \<open>Ok\<close> without data and
  \<open>Err { message }\<close>, written as \<open>[u8 status][u16 len][message]\<close>. They differ in the field name
  their decoder reports on an unknown status byte.
\<close>

definition STATUS_OK :: u8 where
  "STATUS_OK = 0x00"

definition STATUS_ERR :: u8 where
  "STATUS_ERR = 0x01"

datatype status_resp = StatusOk | StatusErr string

definition status_resp_encode :: "status_resp \<Rightarrow> writer" where
  "status_resp_encode m = (case m of
     StatusOk \<Rightarrow> block [put_u8 STATUS_OK]
   | StatusErr message \<Rightarrow> block [put_u8 STATUS_ERR, write_str_u16 message])"

definition status_resp_read :: "string \<Rightarrow> status_resp reader" where
  "status_resp_read field =
     need 1 (bind get_u8 (\<lambda>tag.
       if tag = STATUS_OK then ret StatusOk
       else if tag = STATUS_ERR then
         bind (read_str_u16 ''message'') (\<lambda>message. ret (StatusErr message))
       else throw (InvalidTag tag field)))"

definition status_resp_layout :: "status_resp \<Rightarrow> bytes" where
  "status_resp_layout m = (case m of
     StatusOk \<Rightarrow> [0x00]
   | StatusErr message \<Rightarrow> [0x01] @ lay_str16 message)"

definition status_resp_typed :: "status_resp \<Rightarrow> bool" where
  "status_resp_typed m = (case m of StatusOk \<Rightarrow> True | StatusErr message \<Rightarrow> valid_str message)"

definition status_resp_ok :: "status_resp \<Rightarrow> bool" where
  "status_resp_ok m = (case m of StatusOk \<Rightarrow> True | StatusErr message \<Rightarrow> str16_ok message)"

lemmas codec_defs =
  bind_def ret_def bytes32_ok_def str16_ok_def str32_ok_def STATUS_OK_def STATUS_ERR_def

interpretation status: codec status_resp_encode "status_resp_read field" status_resp_layout
  status_resp_typed status_resp_ok
  unfolding status_resp_encode_def status_resp_read_def status_resp_layout_def status_resp_typed_def
    status_resp_ok_def
  by unfold_locales
    (auto simp: codec_defs wire_simps split: status_resp.splits intro!: reader_intros yields_intros)

end
