(* ===== verification/Frame.thy ===== *)
theory Frame
  imports Wire
begin

text \<open>
  The frame layer: \<open>proto/src/frame.rs\<close> (frame types and their codes, the frame) and
  \<open>proto/src/codec.rs\<close> (header encoding and decoding). The theorems show that the codes of
  the frame types are a bijection onto the accepted bytes, that a frame written by
  \<open>encode_frame\<close> is read nums by \<open>decode_header\<close>, and what \<open>decode_header\<close> rejects.
\<close>

section \<open>frame.rs\<close>

definition HEADER_LEN :: nat where
  "HEADER_LEN = 13"

definition MAX_PAYLOAD_LEN :: nat where
  "MAX_PAYLOAD_LEN = 16 * 1024 * 1024"

definition PROTOCOL_MAJOR :: u8 where
  "PROTOCOL_MAJOR = 1"

datatype frame_type =
    FT_Hello | FT_Ping | FT_Pong
  | FT_ProduceFnf | FT_ProduceReq | FT_ProduceResp
  | FT_SubscribeReq | FT_SubscribeResp | FT_PollReq | FT_PollResp
  | FT_CommitReq | FT_CommitResp | FT_Unsubscribe
  | FT_RegisterClusterReq | FT_RegisterClusterResp
  | FT_TxnReq | FT_TxnResp | FT_PollRebalanceReq | FT_PollRebalanceResp
  | FT_SeekReq | FT_SeekResp | FT_SendOffsetsReq | FT_SendOffsetsResp
  | FT_PauseResumeReq | FT_PauseResumeResp
  | FT_SetOAuthBearerTokenReq | FT_SetOAuthBearerTokenResp
  | FT_FlowControl | FT_Error | FT_ShutdownNotice | FT_Goodbye

text \<open>The discriminants of the enum: \<open>kind as u8\<close>.\<close>

fun frame_type_code :: "frame_type \<Rightarrow> u8" where
  "frame_type_code FT_Hello = 0x01"
| "frame_type_code FT_Ping = 0x02"
| "frame_type_code FT_Pong = 0x03"
| "frame_type_code FT_ProduceFnf = 0x10"
| "frame_type_code FT_ProduceReq = 0x11"
| "frame_type_code FT_ProduceResp = 0x12"
| "frame_type_code FT_SubscribeReq = 0x20"
| "frame_type_code FT_SubscribeResp = 0x21"
| "frame_type_code FT_PollReq = 0x22"
| "frame_type_code FT_PollResp = 0x23"
| "frame_type_code FT_CommitReq = 0x24"
| "frame_type_code FT_CommitResp = 0x25"
| "frame_type_code FT_Unsubscribe = 0x26"
| "frame_type_code FT_RegisterClusterReq = 0x27"
| "frame_type_code FT_RegisterClusterResp = 0x28"
| "frame_type_code FT_TxnReq = 0x29"
| "frame_type_code FT_TxnResp = 0x2A"
| "frame_type_code FT_PollRebalanceReq = 0x2B"
| "frame_type_code FT_PollRebalanceResp = 0x2C"
| "frame_type_code FT_SeekReq = 0x2D"
| "frame_type_code FT_SeekResp = 0x2E"
| "frame_type_code FT_SendOffsetsReq = 0x31"
| "frame_type_code FT_SendOffsetsResp = 0x32"
| "frame_type_code FT_PauseResumeReq = 0x33"
| "frame_type_code FT_PauseResumeResp = 0x34"
| "frame_type_code FT_SetOAuthBearerTokenReq = 0x35"
| "frame_type_code FT_SetOAuthBearerTokenResp = 0x36"
| "frame_type_code FT_FlowControl = 0x30"
| "frame_type_code FT_Error = 0x40"
| "frame_type_code FT_ShutdownNotice = 0x41"
| "frame_type_code FT_Goodbye = 0x42"

definition frame_type_from_u8 :: "u8 \<Rightarrow> frame_type option" where
  "frame_type_from_u8 v =
     (if v = 0x01 then Some FT_Hello
      else if v = 0x02 then Some FT_Ping
      else if v = 0x03 then Some FT_Pong
      else if v = 0x10 then Some FT_ProduceFnf
      else if v = 0x11 then Some FT_ProduceReq
      else if v = 0x12 then Some FT_ProduceResp
      else if v = 0x20 then Some FT_SubscribeReq
      else if v = 0x21 then Some FT_SubscribeResp
      else if v = 0x22 then Some FT_PollReq
      else if v = 0x23 then Some FT_PollResp
      else if v = 0x24 then Some FT_CommitReq
      else if v = 0x25 then Some FT_CommitResp
      else if v = 0x26 then Some FT_Unsubscribe
      else if v = 0x27 then Some FT_RegisterClusterReq
      else if v = 0x28 then Some FT_RegisterClusterResp
      else if v = 0x29 then Some FT_TxnReq
      else if v = 0x2A then Some FT_TxnResp
      else if v = 0x2B then Some FT_PollRebalanceReq
      else if v = 0x2C then Some FT_PollRebalanceResp
      else if v = 0x2D then Some FT_SeekReq
      else if v = 0x2E then Some FT_SeekResp
      else if v = 0x31 then Some FT_SendOffsetsReq
      else if v = 0x32 then Some FT_SendOffsetsResp
      else if v = 0x33 then Some FT_PauseResumeReq
      else if v = 0x34 then Some FT_PauseResumeResp
      else if v = 0x35 then Some FT_SetOAuthBearerTokenReq
      else if v = 0x36 then Some FT_SetOAuthBearerTokenResp
      else if v = 0x30 then Some FT_FlowControl
      else if v = 0x40 then Some FT_Error
      else if v = 0x41 then Some FT_ShutdownNotice
      else if v = 0x42 then Some FT_Goodbye
      else None)"

text \<open>The derived \<open>Debug\<close> of the enum: the name of the variant.\<close>

fun frame_type_debug :: "frame_type \<Rightarrow> string" where
  "frame_type_debug FT_Hello = ''Hello''"
| "frame_type_debug FT_Ping = ''Ping''"
| "frame_type_debug FT_Pong = ''Pong''"
| "frame_type_debug FT_ProduceFnf = ''ProduceFnf''"
| "frame_type_debug FT_ProduceReq = ''ProduceReq''"
| "frame_type_debug FT_ProduceResp = ''ProduceResp''"
| "frame_type_debug FT_SubscribeReq = ''SubscribeReq''"
| "frame_type_debug FT_SubscribeResp = ''SubscribeResp''"
| "frame_type_debug FT_PollReq = ''PollReq''"
| "frame_type_debug FT_PollResp = ''PollResp''"
| "frame_type_debug FT_CommitReq = ''CommitReq''"
| "frame_type_debug FT_CommitResp = ''CommitResp''"
| "frame_type_debug FT_Unsubscribe = ''Unsubscribe''"
| "frame_type_debug FT_RegisterClusterReq = ''RegisterClusterReq''"
| "frame_type_debug FT_RegisterClusterResp = ''RegisterClusterResp''"
| "frame_type_debug FT_TxnReq = ''TxnReq''"
| "frame_type_debug FT_TxnResp = ''TxnResp''"
| "frame_type_debug FT_PollRebalanceReq = ''PollRebalanceReq''"
| "frame_type_debug FT_PollRebalanceResp = ''PollRebalanceResp''"
| "frame_type_debug FT_SeekReq = ''SeekReq''"
| "frame_type_debug FT_SeekResp = ''SeekResp''"
| "frame_type_debug FT_SendOffsetsReq = ''SendOffsetsReq''"
| "frame_type_debug FT_SendOffsetsResp = ''SendOffsetsResp''"
| "frame_type_debug FT_PauseResumeReq = ''PauseResumeReq''"
| "frame_type_debug FT_PauseResumeResp = ''PauseResumeResp''"
| "frame_type_debug FT_SetOAuthBearerTokenReq = ''SetOAuthBearerTokenReq''"
| "frame_type_debug FT_SetOAuthBearerTokenResp = ''SetOAuthBearerTokenResp''"
| "frame_type_debug FT_FlowControl = ''FlowControl''"
| "frame_type_debug FT_Error = ''Error''"
| "frame_type_debug FT_ShutdownNotice = ''ShutdownNotice''"
| "frame_type_debug FT_Goodbye = ''Goodbye''"

record frame =
  fr_kind :: frame_type
  fr_cid :: u64
  fr_payload :: bytes

definition frame_new :: "frame_type \<Rightarrow> u64 \<Rightarrow> bytes \<Rightarrow> frame" where
  "frame_new kind cid payload = \<lparr>fr_kind = kind, fr_cid = cid, fr_payload = payload\<rparr>"

section \<open>codec.rs\<close>

datatype codec_error =
    PayloadTooLarge nat
  | UnknownFrameType u8
  | HeaderTooShort nat

fun codec_error_display :: "codec_error \<Rightarrow> string" where
  "codec_error_display (PayloadTooLarge n) =
     ''payload too large: '' @ show_nat n @ '' > '' @ show_nat MAX_PAYLOAD_LEN"
| "codec_error_display (UnknownFrameType t) = ''unknown frame type: 0x'' @ show_hex2 t"
| "codec_error_display (HeaderTooShort n) =
     ''header buffer too short: '' @ show_nat n @ '' < '' @ show_nat HEADER_LEN"

record header =
  h_payload_len :: u32
  h_kind :: frame_type
  h_cid :: u64

text \<open>\<open>encode_frame\<close> appends to the buffer it is given and returns the number of bytes.\<close>

definition encode_frame ::
  "frame_type \<Rightarrow> u64 \<Rightarrow> bytes \<Rightarrow> bytes \<Rightarrow> (codec_error, nat) outcome \<times> bytes" where
  "encode_frame kind cid payload buf =
     (if length payload > MAX_PAYLOAD_LEN then (Err (PayloadTooLarge (length payload)), buf)
      else
        (Ok (HEADER_LEN + length payload),
         buf @ be_bytes 4 (unat (of_nat (length payload) :: u32)) @ [frame_type_code kind]
           @ be_bytes 8 (unat cid) @ payload))"

definition decode_header :: "bytes \<Rightarrow> (codec_error, header) outcome" where
  "decode_header buf =
     (if length buf < HEADER_LEN then Err (HeaderTooShort (length buf))
      else
        let payload_len = of_nat (be_nat [buf ! 0, buf ! 1, buf ! 2, buf ! 3]) :: u32 in
        case frame_type_from_u8 (buf ! 4) of
          None \<Rightarrow> Err (UnknownFrameType (buf ! 4))
        | Some kind \<Rightarrow>
            let cid = of_nat (be_nat [buf ! 5, buf ! 6, buf ! 7, buf ! 8, buf ! 9, buf ! 10,
                        buf ! 11, buf ! 12]) :: u64 in
            if unat payload_len > MAX_PAYLOAD_LEN then Err (PayloadTooLarge (unat payload_len))
            else Ok \<lparr>h_payload_len = payload_len, h_kind = kind, h_cid = cid\<rparr>)"

section \<open>Frame types\<close>

lemma frame_type_from_code [simp]: "frame_type_from_u8 (frame_type_code k) = Some k"
  by (cases k) (simp_all add: frame_type_from_u8_def)

lemma frame_type_from_u8_SomeD: "frame_type_from_u8 v = Some k \<Longrightarrow> frame_type_code k = v"
  by (simp add: frame_type_from_u8_def split: if_splits)

lemma frame_type_code_inj: "frame_type_code j = frame_type_code k \<longleftrightarrow> j = k"
  by (metis frame_type_from_code option.inject)

section \<open>Headers and frames\<close>

text \<open>The bytes of a frame, as the module comment of the crate gives them.\<close>

definition frame_bytes :: "frame \<Rightarrow> bytes" where
  "frame_bytes f =
     be_bytes 4 (length (fr_payload f)) @ [frame_type_code (fr_kind f)]
       @ be_bytes 8 (unat (fr_cid f)) @ fr_payload f"

definition frame_fits :: "frame \<Rightarrow> bool" where
  "frame_fits f \<longleftrightarrow> length (fr_payload f) \<le> MAX_PAYLOAD_LEN"

lemma length_frame_bytes: "length (frame_bytes f) = HEADER_LEN + length (fr_payload f)"
  by (simp add: frame_bytes_def HEADER_LEN_def)

lemma max_payload_u32: "n \<le> MAX_PAYLOAD_LEN \<Longrightarrow> n \<le> U32_MAX"
  by (simp add: MAX_PAYLOAD_LEN_def)

lemma encode_frame_fits:
  "frame_fits f \<Longrightarrow> encode_frame (fr_kind f) (fr_cid f) (fr_payload f) buf
     = (Ok (length (frame_bytes f)), buf @ frame_bytes f)"
  by (simp add: encode_frame_def frame_fits_def frame_bytes_def length_frame_bytes HEADER_LEN_def
      max_payload_u32)

lemma take_nth_list:
  "n \<le> length xs \<Longrightarrow> take n xs = map (\<lambda>i. xs ! i) [0..<n]"
  by (rule nth_equalityI) auto

lemma nth_drop_take_list:
  assumes "i + n \<le> length xs"
  shows "take n (drop i xs) = map (\<lambda>j. xs ! (i + j)) [0..<n]"
  using assms by (intro nth_equalityI) auto

lemma header_slices:
  assumes "13 \<le> length buf"
  shows "[buf ! 0, buf ! 1, buf ! 2, buf ! 3] = take 4 buf"
    and "[buf ! 5, buf ! 6, buf ! 7, buf ! 8, buf ! 9, buf ! 10, buf ! 11, buf ! 12]
           = take 8 (drop 5 buf)"
proof -
  show "[buf ! 0, buf ! 1, buf ! 2, buf ! 3] = take 4 buf"
    using assms by (simp add: take_nth_list upt_rec numeral_2_eq_2 numeral_3_eq_3)
  show "[buf ! 5, buf ! 6, buf ! 7, buf ! 8, buf ! 9, buf ! 10, buf ! 11, buf ! 12]
           = take 8 (drop 5 buf)"
    using assms by (simp add: nth_drop_take_list upt_rec)
qed

text \<open>The header of a buffer in terms of its slices.\<close>

lemma decode_header_slices:
  assumes "HEADER_LEN \<le> length buf"
  shows "decode_header buf =
    (case frame_type_from_u8 (buf ! 4) of
       None \<Rightarrow> Err (UnknownFrameType (buf ! 4))
     | Some kind \<Rightarrow>
         if be_nat (take 4 buf) > MAX_PAYLOAD_LEN then Err (PayloadTooLarge (be_nat (take 4 buf)))
         else Ok \<lparr>h_payload_len = of_nat (be_nat (take 4 buf)), h_kind = kind,
                  h_cid = of_nat (be_nat (take 8 (drop 5 buf)))\<rparr>)"
proof -
  have len: "13 \<le> length buf" using assms by (simp add: HEADER_LEN_def)
  have "be_nat (take 4 buf) < 256 ^ length (take 4 buf)" by (rule be_nat_bound)
  with len have "be_nat (take 4 buf) \<le> U32_MAX" by simp
  then have "unat (of_nat (be_nat (take 4 buf)) :: u32) = be_nat (take 4 buf)" by simp
  with assms len show ?thesis
    unfolding decode_header_def header_slices [OF len]
    by (simp add: Let_def split: option.splits)
qed

lemma decode_header_take:
  assumes "HEADER_LEN \<le> length buf"
  shows "decode_header (take HEADER_LEN buf) = decode_header buf"
proof -
  have "take 4 (take 13 buf) = take 4 buf" "take 8 (drop 5 (take 13 buf)) = take 8 (drop 5 buf)"
    by (simp_all add: drop_take)
  with assms show ?thesis
    by (simp add: decode_header_slices HEADER_LEN_def split: option.split del: take_take)
qed

lemma decode_header_frame_bytes:
  assumes "frame_fits f"
  shows "decode_header (frame_bytes f @ r) =
    Ok \<lparr>h_payload_len = of_nat (length (fr_payload f)), h_kind = fr_kind f, h_cid = fr_cid f\<rparr>"
proof -
  have "length (fr_payload f) \<le> U32_MAX" using assms by (simp add: frame_fits_def max_payload_u32)
  moreover have "of_nat (be_nat (be_bytes 8 (unat (fr_cid f)))) = fr_cid f"
    by (rule of_nat_be_nat_be_bytes) simp
  ultimately show ?thesis
    using assms
    by (simp add: decode_header_slices length_frame_bytes)
      (simp add: frame_bytes_def frame_fits_def nth_append be_nat_be_bytes)
qed

text \<open>A header that is accepted is the header of a frame within the limit.\<close>

lemma decode_header_OkD:
  assumes "decode_header buf = Ok h"
  shows "HEADER_LEN \<le> length buf" and "unat (h_payload_len h) \<le> MAX_PAYLOAD_LEN"
    and "take HEADER_LEN buf =
           be_bytes 4 (unat (h_payload_len h)) @ [frame_type_code (h_kind h)]
             @ be_bytes 8 (unat (h_cid h))"
proof -
  show len: "HEADER_LEN \<le> length buf"
    using assms by (auto simp: decode_header_def split: if_splits)
  then have "13 \<le> length buf" by (simp add: HEADER_LEN_def)
  define a b c where ab: "a = take 4 buf" and bb: "b = buf ! 4" and cb: "c = take 8 (drop 5 buf)"
  have buf: "take 13 buf = a @ b # c" "length a = 4" "length c = 8"
    using id_take_nth_drop [of 4 "take 13 buf"] \<open>13 \<le> length buf\<close> by (auto simp: drop_take ab bb cb)
  from buf have "be_nat a < 256 ^ 4" "be_nat c < 256 ^ 8"
    using be_nat_bound [of a] be_nat_bound [of c] by simp_all
  then have nums: "unat (of_nat (be_nat a) :: u32) = be_nat a" "unat (of_nat (be_nat c) :: u64) = be_nat c"
    by (simp_all add: unsigned_of_nat take_bit_eq_mod)
  from assms obtain kind where kind: "frame_type_from_u8 b = Some kind"
    and le: "be_nat a \<le> MAX_PAYLOAD_LEN"
    and h: "h = \<lparr>h_payload_len = of_nat (be_nat a), h_kind = kind, h_cid = of_nat (be_nat c)\<rparr>"
    by (auto simp: decode_header_slices [OF len] ab bb cb split: option.splits if_splits)
  show "unat (h_payload_len h) \<le> MAX_PAYLOAD_LEN" using le by (simp add: h nums)
  show "take HEADER_LEN buf = be_bytes 4 (unat (h_payload_len h)) @ [frame_type_code (h_kind h)]
             @ be_bytes 8 (unat (h_cid h))"
    using buf be_bytes_be_nat [of a] be_bytes_be_nat [of c] frame_type_from_u8_SomeD [OF kind]
    by (simp add: h nums HEADER_LEN_def)
qed

end
