(* ===== verification/Proto_Error.thy ===== *)
theory Proto_Error
  imports Wire
begin

text \<open>
  \<open>proto/src/error.rs\<close>: the error kinds shared by worker and extension, their wire codes and
  names, and the payload of the error frame. Unknown codes decode to \<open>Internal\<close>, so a newer
  peer's kinds never make decoding fail.
\<close>

section \<open>Error kinds\<close>

datatype error_kind =
    Internal
  | WorkerUnavailable
  | Timeout
  | WorkerDraining
  | Protocol
  | ClusterNotRegistered
  | InvalidArgument
  | NotTransactional
  | SubscriptionNotFound
  | BrokerRetryable
  | MessageTooLarge
  | AuthnAuthz
  | OffsetInvalid
  | TxnState
  | UnknownTopicOrPartition

fun error_kind_as_u16 :: "error_kind \<Rightarrow> u16" where
  "error_kind_as_u16 Internal = 0"
| "error_kind_as_u16 WorkerUnavailable = 1"
| "error_kind_as_u16 Timeout = 2"
| "error_kind_as_u16 WorkerDraining = 3"
| "error_kind_as_u16 Protocol = 4"
| "error_kind_as_u16 ClusterNotRegistered = 5"
| "error_kind_as_u16 InvalidArgument = 6"
| "error_kind_as_u16 NotTransactional = 7"
| "error_kind_as_u16 SubscriptionNotFound = 8"
| "error_kind_as_u16 BrokerRetryable = 9"
| "error_kind_as_u16 MessageTooLarge = 10"
| "error_kind_as_u16 AuthnAuthz = 11"
| "error_kind_as_u16 OffsetInvalid = 12"
| "error_kind_as_u16 TxnState = 13"
| "error_kind_as_u16 UnknownTopicOrPartition = 14"

definition error_kind_from_u16 :: "u16 \<Rightarrow> error_kind" where
  "error_kind_from_u16 v =
     (if v = 1 then WorkerUnavailable
      else if v = 2 then Timeout
      else if v = 3 then WorkerDraining
      else if v = 4 then Protocol
      else if v = 5 then ClusterNotRegistered
      else if v = 6 then InvalidArgument
      else if v = 7 then NotTransactional
      else if v = 8 then SubscriptionNotFound
      else if v = 9 then BrokerRetryable
      else if v = 10 then MessageTooLarge
      else if v = 11 then AuthnAuthz
      else if v = 12 then OffsetInvalid
      else if v = 13 then TxnState
      else if v = 14 then UnknownTopicOrPartition
      else Internal)"

definition default_retryable :: "error_kind \<Rightarrow> bool" where
  "default_retryable k \<longleftrightarrow>
     k = WorkerUnavailable \<or> k = Timeout \<or> k = WorkerDraining \<or> k = BrokerRetryable"

fun error_kind_as_str :: "error_kind \<Rightarrow> string" where
  "error_kind_as_str Internal = ''INTERNAL''"
| "error_kind_as_str WorkerUnavailable = ''WORKER_UNAVAILABLE''"
| "error_kind_as_str Timeout = ''TIMEOUT''"
| "error_kind_as_str WorkerDraining = ''WORKER_DRAINING''"
| "error_kind_as_str Protocol = ''PROTOCOL''"
| "error_kind_as_str ClusterNotRegistered = ''CLUSTER_NOT_REGISTERED''"
| "error_kind_as_str InvalidArgument = ''INVALID_ARGUMENT''"
| "error_kind_as_str NotTransactional = ''NOT_TRANSACTIONAL''"
| "error_kind_as_str SubscriptionNotFound = ''SUBSCRIPTION_NOT_FOUND''"
| "error_kind_as_str BrokerRetryable = ''BROKER_RETRYABLE''"
| "error_kind_as_str MessageTooLarge = ''MESSAGE_TOO_LARGE''"
| "error_kind_as_str AuthnAuthz = ''AUTHN_AUTHZ''"
| "error_kind_as_str OffsetInvalid = ''OFFSET_INVALID''"
| "error_kind_as_str TxnState = ''TXN_STATE''"
| "error_kind_as_str UnknownTopicOrPartition = ''UNKNOWN_TOPIC_OR_PARTITION''"

lemma error_kind_from_as [simp]: "error_kind_from_u16 (error_kind_as_u16 k) = k"
  by (cases k) (simp_all add: error_kind_from_u16_def)

lemma error_kind_as_from:
  "error_kind_as_u16 (error_kind_from_u16 v) = (if v \<le> 14 then v else 0)"
proof (cases "v \<in> {0, 1, 2, 3, 4, 5, 6, 7, 8, 9, 10, 11, 12, 13, 14}")
  case True
  then show ?thesis by (auto simp: error_kind_from_u16_def)
next
  case False
  have "\<not> v \<le> 14"
  proof
    assume "v \<le> 14"
    then obtain n where v: "v = of_nat n" and "n \<le> 14"
      by (intro that [of "unat v"]) (simp_all add: word_le_nat_alt)
    then have "n \<in> {0, 1, 2, 3, 4, 5, 6, 7, 8, 9, 10, 11, 12, 13, 14}"
      unfolding insert_iff empty_iff by presburger
    with False v show False by auto
  qed
  with False show ?thesis by (auto simp: error_kind_from_u16_def)
qed

lemma error_kind_as_str_inj: "error_kind_as_str j = error_kind_as_str k \<longleftrightarrow> j = k"
  by (cases j; cases k) simp_all

lemma length_error_kind_as_str: "length (error_kind_as_str k) \<le> 26"
  by (cases k) simp_all

section \<open>The error frame payload\<close>

record error_resp =
  er_kind :: error_kind
  er_retryable :: bool
  er_native_code :: i32
  er_message :: string

definition error_resp_new :: "error_kind \<Rightarrow> string \<Rightarrow> error_resp" where
  "error_resp_new kind message =
     \<lparr>er_kind = kind, er_retryable = default_retryable kind, er_native_code = 0, er_message = message\<rparr>"

definition error_resp_encode :: "error_resp \<Rightarrow> writer" where
  "error_resp_encode m =
     block [
       put_u16 (error_kind_as_u16 (er_kind m)),
       put_u8 (if er_retryable m then 1 else 0),
       put_i32 (er_native_code m),
       write_str_u16 (er_message m)]"

definition error_resp_read :: "error_resp reader" where
  "error_resp_read =
     need 7 (
     bind get_u16 (\<lambda>v. let kind = error_kind_from_u16 v in
     bind get_u8 (\<lambda>b. let retryable = (b \<noteq> 0) in
     bind get_i32 (\<lambda>native_code.
     bind (read_str_u16 ''error_message'') (\<lambda>message.
       ret \<lparr>er_kind = kind, er_retryable = retryable, er_native_code = native_code,
            er_message = message\<rparr>)))))"

definition error_resp_decode :: "bytes \<Rightarrow> (payload_error, error_resp) outcome" where
  "error_resp_decode buf = run error_resp_read buf"

definition error_resp_layout :: "error_resp \<Rightarrow> bytes" where
  "error_resp_layout m =
     be_bytes 2 (unat (error_kind_as_u16 (er_kind m))) @ [if er_retryable m then 1 else 0]
       @ be_bytes 4 (unat (er_native_code m)) @ lay_str16 (er_message m)"

interpretation error_resp: codec error_resp_encode error_resp_read error_resp_layout
  "\<lambda>m. valid_str (er_message m)" "\<lambda>m. str16_ok (er_message m)"
  unfolding error_resp_encode_def error_resp_read_def error_resp_layout_def Let_def
  by unfold_locales
    (auto simp: codec_defs wire_simps intro!: reader_intros yields_intros)

end
