(* ===== verification/Proto_Payload.thy ===== *)
theory Proto_Payload
  imports Wire
begin

text \<open>
  \<open>proto/src/payload.rs\<close>: the hello, produce and delivery messages. Each message has its
  record, its \<open>encode\<close>, the reader that is the body of its \<open>decode\<close>, its layout and the values
  that fit it, and is an instance of the codec contract of theory Wire.
\<close>

section \<open>Hello\<close>

record hello_req =
  hq_major :: u8

definition hello_req_encode :: "hello_req \<Rightarrow> writer" where
  "hello_req_encode m = block [put_u8 (hq_major m)]"

text \<open>\<open>buf.is_empty()\<close> is the guard \<open>need 1\<close>; \<open>buf[0]\<close> is the first byte.\<close>

definition hello_req_read :: "hello_req reader" where
  "hello_req_read = need 1 (bind get_u8 (\<lambda>major. ret \<lparr>hq_major = major\<rparr>))"

definition hello_req_decode :: "bytes \<Rightarrow> (payload_error, hello_req) outcome" where
  "hello_req_decode buf = run hello_req_read buf"

record hello_resp =
  hs_major :: u8

definition hello_resp_encode :: "hello_resp \<Rightarrow> writer" where
  "hello_resp_encode m = block [put_u8 (hs_major m)]"

definition hello_resp_read :: "hello_resp reader" where
  "hello_resp_read = need 1 (bind get_u8 (\<lambda>major. ret \<lparr>hs_major = major\<rparr>))"

definition hello_resp_decode :: "bytes \<Rightarrow> (payload_error, hello_resp) outcome" where
  "hello_resp_decode buf = run hello_resp_read buf"

section \<open>Produce\<close>

type_synonym message_header = "string \<times> bytes"

definition AUTO_PARTITION :: i32 where
  "AUTO_PARTITION = - 1"

definition AUTO_TIMESTAMP :: i64 where
  "AUTO_TIMESTAMP = - 1"

record produce_fnf =
  pf_cluster :: string
  pf_topic :: string
  pf_key :: bytes
  pf_value :: bytes
  pf_partition :: i32
  pf_timestamp_ms :: i64
  pf_headers :: "message_header list"

definition produce_fnf_default :: produce_fnf where
  "produce_fnf_default =
     \<lparr>pf_cluster = [], pf_topic = [], pf_key = [], pf_value = [], pf_partition = AUTO_PARTITION,
      pf_timestamp_ms = AUTO_TIMESTAMP, pf_headers = []\<rparr>"

definition write_header :: "message_header \<Rightarrow> writer" where
  "write_header h = block [write_str_u16 (fst h), write_bytes_u32 (snd h)]"

definition write_headers :: "message_header list \<Rightarrow> writer" where
  "write_headers headers = write_list_u32 write_header headers"

definition read_header :: "message_header reader" where
  "read_header =
     bind (read_str_u16 ''header_name'') (\<lambda>name. bind read_bytes_u32 (\<lambda>value. ret (name, value)))"

definition read_headers :: "message_header list reader" where
  "read_headers = read_list_u32 read_header"

definition produce_fnf_encode :: "produce_fnf \<Rightarrow> writer" where
  "produce_fnf_encode m =
     block [
       write_str_u16 (pf_cluster m),
       write_str_u16 (pf_topic m),
       write_bytes_u32 (pf_key m),
       write_bytes_u32 (pf_value m),
       put_i32 (pf_partition m),
       put_i64 (pf_timestamp_ms m),
       write_headers (pf_headers m)]"

definition produce_fnf_read :: "produce_fnf reader" where
  "produce_fnf_read =
     bind (read_str_u16 ''cluster'') (\<lambda>cluster.
     bind (read_str_u16 ''topic'') (\<lambda>topic.
     bind read_bytes_u32 (\<lambda>key.
     bind read_bytes_u32 (\<lambda>value.
     need (4 + 8) (
     bind get_i32 (\<lambda>partition.
     bind get_i64 (\<lambda>timestamp_ms.
     bind read_headers (\<lambda>headers.
       ret \<lparr>pf_cluster = cluster, pf_topic = topic, pf_key = key, pf_value = value,
            pf_partition = partition, pf_timestamp_ms = timestamp_ms, pf_headers = headers\<rparr>))))))))"

definition produce_fnf_decode :: "bytes \<Rightarrow> (payload_error, produce_fnf) outcome" where
  "produce_fnf_decode buf = run produce_fnf_read buf"

text \<open>\<open>ProduceReq\<close> is an alias of \<open>ProduceFnf\<close> in the source; so it is here.\<close>

section \<open>Delivery responses\<close>

definition RESP_OK :: u8 where
  "RESP_OK = 0x00"

definition RESP_ERR :: u8 where
  "RESP_ERR = 0x01"

record delivery_ack =
  da_partition :: i32
  da_offset :: i64

record delivery_err =
  de_code :: u16
  de_message :: string
  de_retryable :: bool

datatype produce_resp = ProduceOk delivery_ack | ProduceErr delivery_err

definition produce_resp_encode :: "produce_resp \<Rightarrow> writer" where
  "produce_resp_encode m = (case m of
     ProduceOk ack \<Rightarrow>
       block [put_u8 RESP_OK, put_i32 (da_partition ack), put_i64 (da_offset ack)]
   | ProduceErr err \<Rightarrow>
       block [put_u8 RESP_ERR, put_u16 (de_code err), write_str_u16 (de_message err),
              put_u8 (if de_retryable err then 1 else 0)])"

definition produce_resp_read :: "produce_resp reader" where
  "produce_resp_read =
     need 1 (bind get_u8 (\<lambda>tag.
       if tag = RESP_OK then
         need (4 + 8) (bind get_i32 (\<lambda>partition. bind get_i64 (\<lambda>offset.
           ret (ProduceOk \<lparr>da_partition = partition, da_offset = offset\<rparr>))))
       else if tag = RESP_ERR then
         need 2 (bind get_u16 (\<lambda>code.
           bind (read_str_u16 ''message'') (\<lambda>message.
             need 1 (bind get_u8 (\<lambda>b.
               ret (ProduceErr \<lparr>de_code = code, de_message = message, de_retryable = (b \<noteq> 0)\<rparr>))))))
       else throw (InvalidTag tag ''produce_resp'')))"

definition produce_resp_decode :: "bytes \<Rightarrow> (payload_error, produce_resp) outcome" where
  "produce_resp_decode buf = run produce_resp_read buf"

section \<open>Layouts\<close>

definition hello_layout :: "u8 \<Rightarrow> bytes" where
  "hello_layout major = [major]"

definition header_layout :: "message_header \<Rightarrow> bytes" where
  "header_layout h = lay_str16 (fst h) @ lay_bytes32 (snd h)"

definition header_ok :: "message_header \<Rightarrow> bool" where
  "header_ok h \<longleftrightarrow> str16_ok (fst h) \<and> bytes32_ok (snd h)"

definition headers_layout :: "message_header list \<Rightarrow> bytes" where
  "headers_layout hs = lay_list32 header_layout hs"

definition headers_ok :: "message_header list \<Rightarrow> bool" where
  "headers_ok hs \<longleftrightarrow> list32_ok header_ok hs"

definition headers_typed :: "message_header list \<Rightarrow> bool" where
  "headers_typed hs \<longleftrightarrow> list_all (\<lambda>h. valid_str (fst h)) hs"

interpretation msg_header: codec write_header read_header header_layout "\<lambda>h. valid_str (fst h)" header_ok
  unfolding write_header_def read_header_def header_layout_def header_ok_def
  by unfold_locales (auto simp: codec_defs wire_simps intro!: reader_intros yields_intros)

interpretation headers: codec write_headers read_headers headers_layout headers_typed headers_ok
  unfolding write_headers_def [abs_def] read_headers_def headers_layout_def [abs_def]
    headers_typed_def [abs_def] headers_ok_def [abs_def]
  by (rule codec_list32) (rule msg_header.codec_axioms)

section \<open>The messages as codecs\<close>

definition produce_fnf_layout :: "produce_fnf \<Rightarrow> bytes" where
  "produce_fnf_layout m =
     lay_str16 (pf_cluster m) @ lay_str16 (pf_topic m) @ lay_bytes32 (pf_key m)
       @ lay_bytes32 (pf_value m) @ be_bytes 4 (unat (pf_partition m))
       @ be_bytes 8 (unat (pf_timestamp_ms m)) @ headers_layout (pf_headers m)"

definition produce_fnf_typed :: "produce_fnf \<Rightarrow> bool" where
  "produce_fnf_typed m \<longleftrightarrow>
     valid_str (pf_cluster m) \<and> valid_str (pf_topic m) \<and> headers_typed (pf_headers m)"

definition produce_fnf_ok :: "produce_fnf \<Rightarrow> bool" where
  "produce_fnf_ok m \<longleftrightarrow>
     str16_ok (pf_cluster m) \<and> str16_ok (pf_topic m) \<and> bytes32_ok (pf_key m)
       \<and> bytes32_ok (pf_value m) \<and> headers_ok (pf_headers m)"

definition produce_resp_layout :: "produce_resp \<Rightarrow> bytes" where
  "produce_resp_layout m = (case m of
     ProduceOk a \<Rightarrow> [0x00] @ be_bytes 4 (unat (da_partition a)) @ be_bytes 8 (unat (da_offset a))
   | ProduceErr e \<Rightarrow>
       [0x01] @ be_bytes 2 (unat (de_code e)) @ lay_str16 (de_message e)
         @ [if de_retryable e then 1 else 0])"

definition produce_resp_typed :: "produce_resp \<Rightarrow> bool" where
  "produce_resp_typed m = (case m of ProduceOk a \<Rightarrow> True | ProduceErr e \<Rightarrow> valid_str (de_message e))"

definition produce_resp_ok :: "produce_resp \<Rightarrow> bool" where
  "produce_resp_ok m = (case m of ProduceOk a \<Rightarrow> True | ProduceErr e \<Rightarrow> str16_ok (de_message e))"

interpretation hello_req: codec hello_req_encode hello_req_read "\<lambda>m. hello_layout (hq_major m)"
  "\<lambda>_. True" "\<lambda>_. True"
  by unfold_locales
    (auto simp: hello_req_encode_def hello_req_read_def hello_layout_def wire_simps codec_defs
      intro!: reader_intros yields_True)

interpretation hello_resp: codec hello_resp_encode hello_resp_read
  "\<lambda>m. hello_layout (hs_major m)" "\<lambda>_. True" "\<lambda>_. True"
  by unfold_locales
    (auto simp: hello_resp_encode_def hello_resp_read_def hello_layout_def wire_simps codec_defs
      intro!: reader_intros yields_True)

interpretation produce_fnf: codec produce_fnf_encode produce_fnf_read produce_fnf_layout
  produce_fnf_typed produce_fnf_ok
  unfolding produce_fnf_encode_def produce_fnf_read_def produce_fnf_layout_def produce_fnf_typed_def
    produce_fnf_ok_def
  by unfold_locales (auto simp: codec_defs wire_simps intro!: reader_intros yields_intros)

interpretation produce_resp: codec produce_resp_encode produce_resp_read produce_resp_layout
  produce_resp_typed produce_resp_ok
  unfolding produce_resp_encode_def produce_resp_read_def produce_resp_layout_def
    produce_resp_typed_def produce_resp_ok_def
  by unfold_locales
    (auto simp: codec_defs RESP_OK_def RESP_ERR_def wire_simps split: produce_resp.splits
      intro!: reader_intros yields_intros)

end
