(* ===== verification/Proto_Consumer.thy ===== *)
theory Proto_Consumer
  imports Proto_Payload
begin

text \<open>
  \<open>proto/src/consumer.rs\<close>: subscribe, poll, commit, unsubscribe and register-cluster messages.
\<close>

section \<open>Subscribe\<close>

type_synonym config_entry = "string \<times> string"

record subscribe_req =
  sr_cluster :: string
  sr_group_id :: string
  sr_topics :: "string list"
  sr_config :: "config_entry list"

text \<open>The loop body over the \<open>(key, value)\<close> pairs of a configuration.\<close>

definition write_config_entry :: "config_entry \<Rightarrow> writer" where
  "write_config_entry e = block [write_str_u16 (fst e), write_str_u16 (snd e)]"

definition read_config_entry :: "config_entry reader" where
  "read_config_entry =
     bind (read_str_u16 ''cfg_key'') (\<lambda>k. bind (read_str_u16 ''cfg_value'') (\<lambda>v. ret (k, v)))"

definition subscribe_req_encode :: "subscribe_req \<Rightarrow> writer" where
  "subscribe_req_encode m =
     block [
       write_str_u16 (sr_cluster m),
       write_str_u16 (sr_group_id m),
       write_list_u16 write_str_u16 (sr_topics m),
       write_list_u16 write_config_entry (sr_config m)]"

definition subscribe_req_read :: "subscribe_req reader" where
  "subscribe_req_read =
     bind (read_str_u16 ''cluster'') (\<lambda>cluster.
     bind (read_str_u16 ''group_id'') (\<lambda>group_id.
     bind (read_list_u16 (read_str_u16 ''topic'')) (\<lambda>topics.
     bind (read_list_u16 read_config_entry) (\<lambda>config.
       ret \<lparr>sr_cluster = cluster, sr_group_id = group_id, sr_topics = topics, sr_config = config\<rparr>))))"

definition subscribe_req_decode :: "bytes \<Rightarrow> (payload_error, subscribe_req) outcome" where
  "subscribe_req_decode buf = run subscribe_req_read buf"

datatype subscribe_resp = SubscribeOk u64 | SubscribeErr string

definition subscribe_resp_encode :: "subscribe_resp \<Rightarrow> writer" where
  "subscribe_resp_encode m = (case m of
     SubscribeOk subscription_id \<Rightarrow> block [put_u8 STATUS_OK, put_u64 subscription_id]
   | SubscribeErr message \<Rightarrow> block [put_u8 STATUS_ERR, write_str_u16 message])"

definition subscribe_resp_read :: "subscribe_resp reader" where
  "subscribe_resp_read =
     need 1 (bind get_u8 (\<lambda>tag.
       if tag = STATUS_OK then need 8 (bind get_u64 (\<lambda>subscription_id. ret (SubscribeOk subscription_id)))
       else if tag = STATUS_ERR then
         bind (read_str_u16 ''message'') (\<lambda>message. ret (SubscribeErr message))
       else throw (InvalidTag tag ''subscribe_resp'')))"

definition subscribe_resp_decode :: "bytes \<Rightarrow> (payload_error, subscribe_resp) outcome" where
  "subscribe_resp_decode buf = run subscribe_resp_read buf"

section \<open>Poll\<close>

record poll_req =
  pq_subscription_id :: u64
  pq_max_messages :: u32
  pq_timeout_ms :: u32

definition poll_req_encode :: "poll_req \<Rightarrow> writer" where
  "poll_req_encode m =
     block [put_u64 (pq_subscription_id m), put_u32 (pq_max_messages m), put_u32 (pq_timeout_ms m)]"

definition poll_req_read :: "poll_req reader" where
  "poll_req_read =
     need (8 + 4 + 4) (
     bind get_u64 (\<lambda>subscription_id.
     bind get_u32 (\<lambda>max_messages.
     bind get_u32 (\<lambda>timeout_ms.
       ret \<lparr>pq_subscription_id = subscription_id, pq_max_messages = max_messages,
            pq_timeout_ms = timeout_ms\<rparr>))))"

definition poll_req_decode :: "bytes \<Rightarrow> (payload_error, poll_req) outcome" where
  "poll_req_decode buf = run poll_req_read buf"

record consumer_message =
  cm_topic :: string
  cm_partition :: i32
  cm_offset :: i64
  cm_timestamp_ms :: i64
  cm_key :: bytes
  cm_value :: bytes
  cm_headers :: "message_header list"

definition consumer_message_encode :: "consumer_message \<Rightarrow> writer" where
  "consumer_message_encode m =
     block [
       write_str_u16 (cm_topic m),
       put_i32 (cm_partition m),
       put_i64 (cm_offset m),
       put_i64 (cm_timestamp_ms m),
       write_bytes_u32 (cm_key m),
       write_bytes_u32 (cm_value m),
       write_headers (cm_headers m)]"

definition consumer_message_read :: "consumer_message reader" where
  "consumer_message_read =
     bind (read_str_u16 ''topic'') (\<lambda>topic.
     need (4 + 8 + 8) (
     bind get_i32 (\<lambda>partition.
     bind get_i64 (\<lambda>offset.
     bind get_i64 (\<lambda>timestamp_ms.
     bind read_bytes_u32 (\<lambda>key.
     bind read_bytes_u32 (\<lambda>value.
     bind read_headers (\<lambda>headers.
       ret \<lparr>cm_topic = topic, cm_partition = partition, cm_offset = offset,
            cm_timestamp_ms = timestamp_ms, cm_key = key, cm_value = value,
            cm_headers = headers\<rparr>))))))))"

datatype poll_resp = PollOk "consumer_message list" | PollErr string

definition poll_resp_encode :: "poll_resp \<Rightarrow> writer" where
  "poll_resp_encode m = (case m of
     PollOk messages \<Rightarrow> block [put_u8 STATUS_OK, write_list_u32 consumer_message_encode messages]
   | PollErr message \<Rightarrow> block [put_u8 STATUS_ERR, write_str_u16 message])"

definition poll_resp_read :: "poll_resp reader" where
  "poll_resp_read =
     need 1 (bind get_u8 (\<lambda>tag.
       if tag = STATUS_OK then
         bind (read_list_u32 consumer_message_read) (\<lambda>messages. ret (PollOk messages))
       else if tag = STATUS_ERR then
         bind (read_str_u16 ''message'') (\<lambda>message. ret (PollErr message))
       else throw (InvalidTag tag ''poll_resp'')))"

definition poll_resp_decode :: "bytes \<Rightarrow> (payload_error, poll_resp) outcome" where
  "poll_resp_decode buf = run poll_resp_read buf"

section \<open>Commit and unsubscribe\<close>

record commit_req =
  cq_subscription_id :: u64

definition commit_req_encode :: "commit_req \<Rightarrow> writer" where
  "commit_req_encode m = block [put_u64 (cq_subscription_id m)]"

definition commit_req_read :: "commit_req reader" where
  "commit_req_read = need 8 (bind get_u64 (\<lambda>subscription_id. ret \<lparr>cq_subscription_id = subscription_id\<rparr>))"

definition commit_req_decode :: "bytes \<Rightarrow> (payload_error, commit_req) outcome" where
  "commit_req_decode buf = run commit_req_read buf"

type_synonym commit_resp = status_resp

definition commit_resp_encode :: "commit_resp \<Rightarrow> writer" where
  "commit_resp_encode m = status_resp_encode m"

definition commit_resp_decode :: "bytes \<Rightarrow> (payload_error, commit_resp) outcome" where
  "commit_resp_decode buf = run (status_resp_read ''commit_resp'') buf"

record unsubscribe_req =
  uq_subscription_id :: u64

definition unsubscribe_req_encode :: "unsubscribe_req \<Rightarrow> writer" where
  "unsubscribe_req_encode m = block [put_u64 (uq_subscription_id m)]"

definition unsubscribe_req_read :: "unsubscribe_req reader" where
  "unsubscribe_req_read =
     need 8 (bind get_u64 (\<lambda>subscription_id. ret \<lparr>uq_subscription_id = subscription_id\<rparr>))"

definition unsubscribe_req_decode :: "bytes \<Rightarrow> (payload_error, unsubscribe_req) outcome" where
  "unsubscribe_req_decode buf = run unsubscribe_req_read buf"

section \<open>Register cluster\<close>

record register_cluster_req =
  rc_cluster :: string
  rc_config :: "config_entry list"

definition register_cluster_req_encode :: "register_cluster_req \<Rightarrow> writer" where
  "register_cluster_req_encode m =
     block [write_str_u16 (rc_cluster m), write_list_u16 write_config_entry (rc_config m)]"

definition register_cluster_req_read :: "register_cluster_req reader" where
  "register_cluster_req_read =
     bind (read_str_u16 ''cluster'') (\<lambda>cluster.
     bind (read_list_u16 read_config_entry) (\<lambda>config.
       ret \<lparr>rc_cluster = cluster, rc_config = config\<rparr>))"

definition register_cluster_req_decode :: "bytes \<Rightarrow> (payload_error, register_cluster_req) outcome" where
  "register_cluster_req_decode buf = run register_cluster_req_read buf"

type_synonym register_cluster_resp = status_resp

definition register_cluster_resp_encode :: "register_cluster_resp \<Rightarrow> writer" where
  "register_cluster_resp_encode m = status_resp_encode m"

definition register_cluster_resp_decode :: "bytes \<Rightarrow> (payload_error, register_cluster_resp) outcome" where
  "register_cluster_resp_decode buf = run (status_resp_read ''register_cluster_resp'') buf"

section \<open>Layouts and codecs\<close>

definition config_entry_layout :: "config_entry \<Rightarrow> bytes" where
  "config_entry_layout e = lay_str16 (fst e) @ lay_str16 (snd e)"

definition config_entry_typed :: "config_entry \<Rightarrow> bool" where
  "config_entry_typed e \<longleftrightarrow> valid_str (fst e) \<and> valid_str (snd e)"

definition config_entry_ok :: "config_entry \<Rightarrow> bool" where
  "config_entry_ok e \<longleftrightarrow> str16_ok (fst e) \<and> str16_ok (snd e)"

interpretation cfg_entry: codec write_config_entry read_config_entry config_entry_layout
  config_entry_typed config_entry_ok
  unfolding write_config_entry_def read_config_entry_def config_entry_layout_def
    config_entry_typed_def config_entry_ok_def
  by unfold_locales (auto simp: codec_defs wire_simps intro!: reader_intros yields_intros)

interpretation cfg_list: codec "write_list_u16 write_config_entry" "read_list_u16 read_config_entry"
  "lay_list16 config_entry_layout" "list_all config_entry_typed" "list16_ok config_entry_ok"
  by (rule codec_list16) (rule cfg_entry.codec_axioms)

interpretation str_list: codec "write_list_u16 write_str_u16" "read_list_u16 (read_str_u16 f)"
  "lay_list16 lay_str16" "list_all valid_str" "list16_ok str16_ok"
  by (rule codec_list16) (rule str16.codec_axioms)

definition subscribe_req_layout :: "subscribe_req \<Rightarrow> bytes" where
  "subscribe_req_layout m =
     lay_str16 (sr_cluster m) @ lay_str16 (sr_group_id m) @ lay_list16 lay_str16 (sr_topics m)
       @ lay_list16 config_entry_layout (sr_config m)"

definition subscribe_req_typed :: "subscribe_req \<Rightarrow> bool" where
  "subscribe_req_typed m \<longleftrightarrow>
     valid_str (sr_cluster m) \<and> valid_str (sr_group_id m) \<and> list_all valid_str (sr_topics m)
       \<and> list_all config_entry_typed (sr_config m)"

definition subscribe_req_ok :: "subscribe_req \<Rightarrow> bool" where
  "subscribe_req_ok m \<longleftrightarrow>
     str16_ok (sr_cluster m) \<and> str16_ok (sr_group_id m) \<and> list16_ok str16_ok (sr_topics m)
       \<and> list16_ok config_entry_ok (sr_config m)"

interpretation subscribe_req: codec subscribe_req_encode subscribe_req_read subscribe_req_layout
  subscribe_req_typed subscribe_req_ok
  unfolding subscribe_req_encode_def subscribe_req_read_def subscribe_req_layout_def
    subscribe_req_typed_def subscribe_req_ok_def
  by unfold_locales (auto simp: codec_defs wire_simps intro!: reader_intros yields_intros)

definition subscribe_resp_layout :: "subscribe_resp \<Rightarrow> bytes" where
  "subscribe_resp_layout m = (case m of
     SubscribeOk i \<Rightarrow> [0x00] @ be_bytes 8 (unat i)
   | SubscribeErr message \<Rightarrow> [0x01] @ lay_str16 message)"

definition subscribe_resp_typed :: "subscribe_resp \<Rightarrow> bool" where
  "subscribe_resp_typed m = (case m of SubscribeOk i \<Rightarrow> True | SubscribeErr message \<Rightarrow> valid_str message)"

definition subscribe_resp_ok :: "subscribe_resp \<Rightarrow> bool" where
  "subscribe_resp_ok m = (case m of SubscribeOk i \<Rightarrow> True | SubscribeErr message \<Rightarrow> str16_ok message)"

interpretation subscribe_resp: codec subscribe_resp_encode subscribe_resp_read subscribe_resp_layout
  subscribe_resp_typed subscribe_resp_ok
  unfolding subscribe_resp_encode_def subscribe_resp_read_def subscribe_resp_layout_def
    subscribe_resp_typed_def subscribe_resp_ok_def
  by unfold_locales
    (auto simp: codec_defs wire_simps split: subscribe_resp.splits intro!: reader_intros yields_intros)

definition poll_req_layout :: "poll_req \<Rightarrow> bytes" where
  "poll_req_layout m =
     be_bytes 8 (unat (pq_subscription_id m)) @ be_bytes 4 (unat (pq_max_messages m))
       @ be_bytes 4 (unat (pq_timeout_ms m))"

interpretation poll_req: codec poll_req_encode poll_req_read poll_req_layout "\<lambda>_. True" "\<lambda>_. True"
  unfolding poll_req_encode_def poll_req_read_def poll_req_layout_def
  by unfold_locales (auto simp: codec_defs wire_simps intro!: reader_intros yields_intros)

definition consumer_message_layout :: "consumer_message \<Rightarrow> bytes" where
  "consumer_message_layout m =
     lay_str16 (cm_topic m) @ be_bytes 4 (unat (cm_partition m)) @ be_bytes 8 (unat (cm_offset m))
       @ be_bytes 8 (unat (cm_timestamp_ms m)) @ lay_bytes32 (cm_key m) @ lay_bytes32 (cm_value m)
       @ headers_layout (cm_headers m)"

definition consumer_message_typed :: "consumer_message \<Rightarrow> bool" where
  "consumer_message_typed m \<longleftrightarrow> valid_str (cm_topic m) \<and> headers_typed (cm_headers m)"

definition consumer_message_ok :: "consumer_message \<Rightarrow> bool" where
  "consumer_message_ok m \<longleftrightarrow>
     str16_ok (cm_topic m) \<and> bytes32_ok (cm_key m) \<and> bytes32_ok (cm_value m)
       \<and> headers_ok (cm_headers m)"

interpretation consumer_message: codec consumer_message_encode consumer_message_read
  consumer_message_layout consumer_message_typed consumer_message_ok
  unfolding consumer_message_encode_def consumer_message_read_def consumer_message_layout_def
    consumer_message_typed_def consumer_message_ok_def
  by unfold_locales (auto simp: codec_defs wire_simps intro!: reader_intros yields_intros)

interpretation msg_list: codec "write_list_u32 consumer_message_encode"
  "read_list_u32 consumer_message_read" "lay_list32 consumer_message_layout"
  "list_all consumer_message_typed" "list32_ok consumer_message_ok"
  by (rule codec_list32) (rule consumer_message.codec_axioms)

definition poll_resp_layout :: "poll_resp \<Rightarrow> bytes" where
  "poll_resp_layout m = (case m of
     PollOk messages \<Rightarrow> [0x00] @ lay_list32 consumer_message_layout messages
   | PollErr message \<Rightarrow> [0x01] @ lay_str16 message)"

definition poll_resp_typed :: "poll_resp \<Rightarrow> bool" where
  "poll_resp_typed m = (case m of
     PollOk messages \<Rightarrow> list_all consumer_message_typed messages
   | PollErr message \<Rightarrow> valid_str message)"

definition poll_resp_ok :: "poll_resp \<Rightarrow> bool" where
  "poll_resp_ok m = (case m of
     PollOk messages \<Rightarrow> list32_ok consumer_message_ok messages
   | PollErr message \<Rightarrow> str16_ok message)"

interpretation poll_resp: codec poll_resp_encode poll_resp_read poll_resp_layout poll_resp_typed
  poll_resp_ok
  unfolding poll_resp_encode_def poll_resp_read_def poll_resp_layout_def poll_resp_typed_def
    poll_resp_ok_def
  by unfold_locales
    (auto simp: codec_defs wire_simps split: poll_resp.splits intro!: reader_intros yields_intros)

definition subscription_id_layout :: "u64 \<Rightarrow> bytes" where
  "subscription_id_layout i = be_bytes 8 (unat i)"

interpretation commit_req: codec commit_req_encode commit_req_read
  "\<lambda>m. subscription_id_layout (cq_subscription_id m)" "\<lambda>_. True" "\<lambda>_. True"
  unfolding commit_req_encode_def commit_req_read_def subscription_id_layout_def
  by unfold_locales (auto simp: codec_defs wire_simps intro!: reader_intros yields_intros)

interpretation unsubscribe_req: codec unsubscribe_req_encode unsubscribe_req_read
  "\<lambda>m. subscription_id_layout (uq_subscription_id m)" "\<lambda>_. True" "\<lambda>_. True"
  unfolding unsubscribe_req_encode_def unsubscribe_req_read_def subscription_id_layout_def
  by unfold_locales (auto simp: codec_defs wire_simps intro!: reader_intros yields_intros)

definition register_cluster_req_layout :: "register_cluster_req \<Rightarrow> bytes" where
  "register_cluster_req_layout m =
     lay_str16 (rc_cluster m) @ lay_list16 config_entry_layout (rc_config m)"

definition register_cluster_req_typed :: "register_cluster_req \<Rightarrow> bool" where
  "register_cluster_req_typed m \<longleftrightarrow>
     valid_str (rc_cluster m) \<and> list_all config_entry_typed (rc_config m)"

definition register_cluster_req_ok :: "register_cluster_req \<Rightarrow> bool" where
  "register_cluster_req_ok m \<longleftrightarrow>
     str16_ok (rc_cluster m) \<and> list16_ok config_entry_ok (rc_config m)"

interpretation register_cluster_req: codec register_cluster_req_encode register_cluster_req_read
  register_cluster_req_layout register_cluster_req_typed register_cluster_req_ok
  unfolding register_cluster_req_encode_def register_cluster_req_read_def
    register_cluster_req_layout_def register_cluster_req_typed_def register_cluster_req_ok_def
  by unfold_locales (auto simp: codec_defs wire_simps intro!: reader_intros yields_intros)

end
