(* ===== verification/Proto_Partition.thy ===== *)
theory Proto_Partition
  imports Proto_Consumer
begin

text \<open>
  The messages about partitions: \<open>proto/src/seek.rs\<close>, \<open>proto/src/pause_resume.rs\<close> and
  \<open>proto/src/rebalance.rs\<close>.
\<close>

section \<open>Partition and offset entries\<close>

type_synonym partition_spec = "string \<times> i32"
type_synonym offset_spec = "string \<times> i32 \<times> i64"

text \<open>The loop bodies that write and read one \<open>(topic, partition)\<close> or \<open>(topic, partition, offset)\<close>.\<close>

definition write_partition :: "partition_spec \<Rightarrow> writer" where
  "write_partition p = block [write_str_u16 (fst p), put_i32 (snd p)]"

definition read_partition :: "partition_spec reader" where
  "read_partition =
     bind (read_str_u16 ''topic'') (\<lambda>topic. need 4 (bind get_i32 (\<lambda>partition. ret (topic, partition))))"

definition write_offset :: "offset_spec \<Rightarrow> writer" where
  "write_offset t = block [write_str_u16 (fst t), put_i32 (fst (snd t)), put_i64 (snd (snd t))]"

definition read_offset :: "offset_spec reader" where
  "read_offset =
     bind (read_str_u16 ''topic'') (\<lambda>topic.
       need 12 (bind get_i32 (\<lambda>partition. bind get_i64 (\<lambda>offset. ret (topic, partition, offset)))))"

definition partition_layout :: "partition_spec \<Rightarrow> bytes" where
  "partition_layout p = lay_str16 (fst p) @ be_bytes 4 (unat (snd p))"

definition offset_layout :: "offset_spec \<Rightarrow> bytes" where
  "offset_layout t = lay_str16 (fst t) @ be_bytes 4 (unat (fst (snd t))) @ be_bytes 8 (unat (snd (snd t)))"

definition topic_typed :: "string \<times> 'a \<Rightarrow> bool" where
  "topic_typed p \<longleftrightarrow> valid_str (fst p)"

definition topic_ok :: "string \<times> 'a \<Rightarrow> bool" where
  "topic_ok p \<longleftrightarrow> str16_ok (fst p)"

interpretation partition: codec write_partition read_partition partition_layout topic_typed topic_ok
  unfolding write_partition_def read_partition_def partition_layout_def topic_typed_def topic_ok_def
  by unfold_locales (auto simp: codec_defs wire_simps intro!: reader_intros yields_intros)

interpretation offset: codec write_offset read_offset offset_layout topic_typed topic_ok
  unfolding write_offset_def read_offset_def offset_layout_def topic_typed_def topic_ok_def
  by unfold_locales (auto simp: codec_defs wire_simps intro!: reader_intros yields_intros)

interpretation partition_list: codec "write_list_u32 write_partition" "read_list_u32 read_partition"
  "lay_list32 partition_layout" "list_all topic_typed" "list32_ok topic_ok"
  by (rule codec_list32) (rule partition.codec_axioms)

interpretation offset_list: codec "write_list_u32 write_offset" "read_list_u32 read_offset"
  "lay_list32 offset_layout" "list_all topic_typed" "list32_ok topic_ok"
  by (rule codec_list32) (rule offset.codec_axioms)

section \<open>Seek\<close>

definition MODE_BY_OFFSET :: u8 where
  "MODE_BY_OFFSET = 0"

definition MODE_BY_TIMESTAMP :: u8 where
  "MODE_BY_TIMESTAMP = 1"

datatype seek_req =
    ByOffset u64 "offset_spec list"
  | ByTimestamp u64 i64 "partition_spec list"

fun seek_req_subscription_id :: "seek_req \<Rightarrow> u64" where
  "seek_req_subscription_id (ByOffset subscription_id targets) = subscription_id"
| "seek_req_subscription_id (ByTimestamp subscription_id timestamp_ms partitions) = subscription_id"

definition seek_req_encode :: "seek_req \<Rightarrow> writer" where
  "seek_req_encode m = (case m of
     ByOffset subscription_id targets \<Rightarrow>
       block [put_u64 subscription_id, put_u8 MODE_BY_OFFSET, write_list_u32 write_offset targets]
   | ByTimestamp subscription_id timestamp_ms partitions \<Rightarrow>
       block [put_u64 subscription_id, put_u8 MODE_BY_TIMESTAMP, put_i64 timestamp_ms,
              write_list_u32 write_partition partitions])"

definition seek_req_read :: "seek_req reader" where
  "seek_req_read =
     need 9 (
     bind get_u64 (\<lambda>subscription_id.
     bind get_u8 (\<lambda>mode.
       if mode = MODE_BY_OFFSET then
         bind (read_list_u32 read_offset) (\<lambda>targets. ret (ByOffset subscription_id targets))
       else if mode = MODE_BY_TIMESTAMP then
         need 12 (
         bind get_i64 (\<lambda>timestamp_ms.
         bind get_u32 (\<lambda>n.
         bind (read_n (unat n) read_partition) (\<lambda>partitions.
           ret (ByTimestamp subscription_id timestamp_ms partitions)))))
       else throw (InvalidTag mode ''seek_mode''))))"

definition seek_req_decode :: "bytes \<Rightarrow> (payload_error, seek_req) outcome" where
  "seek_req_decode buf = run seek_req_read buf"

type_synonym seek_resp = status_resp

definition seek_resp_encode :: "seek_resp \<Rightarrow> writer" where
  "seek_resp_encode m = status_resp_encode m"

definition seek_resp_decode :: "bytes \<Rightarrow> (payload_error, seek_resp) outcome" where
  "seek_resp_decode buf = run (status_resp_read ''seek_resp'') buf"

definition seek_req_layout :: "seek_req \<Rightarrow> bytes" where
  "seek_req_layout m = (case m of
     ByOffset i targets \<Rightarrow> be_bytes 8 (unat i) @ [0] @ lay_list32 offset_layout targets
   | ByTimestamp i ts partitions \<Rightarrow>
       be_bytes 8 (unat i) @ [1] @ be_bytes 8 (unat ts) @ lay_list32 partition_layout partitions)"

definition seek_req_typed :: "seek_req \<Rightarrow> bool" where
  "seek_req_typed m = (case m of
     ByOffset i targets \<Rightarrow> list_all topic_typed targets
   | ByTimestamp i ts partitions \<Rightarrow> list_all topic_typed partitions)"

definition seek_req_ok :: "seek_req \<Rightarrow> bool" where
  "seek_req_ok m = (case m of
     ByOffset i targets \<Rightarrow> list32_ok topic_ok targets
   | ByTimestamp i ts partitions \<Rightarrow> list32_ok topic_ok partitions)"

text \<open>The count of the timestamp form is read under the guard of the timestamp.\<close>

lemma read_counted_partitions [wire_simps]:
  assumes "list32_ok topic_ok ps"
  shows "get_u32 (lay_list32 partition_layout ps @ r) =
           Ok (of_nat (length ps), concat (map partition_layout ps) @ r)"
    and "read_n (unat (of_nat (length ps) :: u32)) read_partition (concat (map partition_layout ps) @ r)
           = Ok (ps, r)"
  using assms by (simp_all add: lay_list32_def list32_ok_def count_simps partition.read_n_reader)

lemma length_lay_list32 [simp]: "length (lay_list32 l xs) = 4 + length (concat (map l xs))"
  by (simp add: lay_list32_def)

interpretation seek_req: codec seek_req_encode seek_req_read seek_req_layout seek_req_typed seek_req_ok
  unfolding seek_req_encode_def seek_req_read_def seek_req_layout_def seek_req_typed_def seek_req_ok_def
  by unfold_locales
    (auto simp: codec_defs MODE_BY_OFFSET_def MODE_BY_TIMESTAMP_def wire_simps
      split: seek_req.splits intro!: reader_intros yields_intros)

section \<open>Pause and resume\<close>

datatype pause_resume_op = Pause | Resume

fun pause_resume_op_code :: "pause_resume_op \<Rightarrow> u8" where
  "pause_resume_op_code Pause = 0"
| "pause_resume_op_code Resume = 1"

definition pause_resume_op_from_u8 :: "u8 \<Rightarrow> pause_resume_op option" where
  "pause_resume_op_from_u8 v = (if v = 0 then Some Pause else if v = 1 then Some Resume else None)"

lemma pause_resume_op_from_code [simp]: "pause_resume_op_from_u8 (pause_resume_op_code op) = Some op"
  by (cases op) (simp_all add: pause_resume_op_from_u8_def)

record pause_resume_req =
  pr_subscription_id :: u64
  pr_op :: pause_resume_op
  pr_partitions :: "partition_spec list"

definition pause_resume_req_encode :: "pause_resume_req \<Rightarrow> writer" where
  "pause_resume_req_encode m =
     block [put_u64 (pr_subscription_id m), put_u8 (pause_resume_op_code (pr_op m)),
            write_list_u32 write_partition (pr_partitions m)]"

definition pause_resume_req_read :: "pause_resume_req reader" where
  "pause_resume_req_read =
     need 9 (
     bind get_u64 (\<lambda>subscription_id.
     bind get_u8 (\<lambda>op_byte.
     case pause_resume_op_from_u8 op_byte of
       Some op \<Rightarrow>
         bind (read_list_u32 read_partition) (\<lambda>partitions.
           ret \<lparr>pr_subscription_id = subscription_id, pr_op = op, pr_partitions = partitions\<rparr>)
     | None \<Rightarrow> throw (InvalidTag op_byte ''pause_resume_op''))))"

definition pause_resume_req_decode :: "bytes \<Rightarrow> (payload_error, pause_resume_req) outcome" where
  "pause_resume_req_decode buf = run pause_resume_req_read buf"

type_synonym pause_resume_resp = status_resp

definition pause_resume_resp_encode :: "pause_resume_resp \<Rightarrow> writer" where
  "pause_resume_resp_encode m = status_resp_encode m"

definition pause_resume_resp_decode :: "bytes \<Rightarrow> (payload_error, pause_resume_resp) outcome" where
  "pause_resume_resp_decode buf = run (status_resp_read ''pause_resume_resp'') buf"

definition pause_resume_req_layout :: "pause_resume_req \<Rightarrow> bytes" where
  "pause_resume_req_layout m =
     be_bytes 8 (unat (pr_subscription_id m)) @ [pause_resume_op_code (pr_op m)]
       @ lay_list32 partition_layout (pr_partitions m)"

interpretation pause_resume_req: codec pause_resume_req_encode pause_resume_req_read
  pause_resume_req_layout "\<lambda>m. list_all topic_typed (pr_partitions m)"
  "\<lambda>m. list32_ok topic_ok (pr_partitions m)"
  unfolding pause_resume_req_encode_def pause_resume_req_read_def pause_resume_req_layout_def
  by unfold_locales (auto simp: codec_defs wire_simps intro!: reader_intros yields_intros)

section \<open>Rebalance events\<close>

record poll_rebalance_req =
  rb_subscription_id :: u64
  rb_max_events :: u32

definition poll_rebalance_req_encode :: "poll_rebalance_req \<Rightarrow> writer" where
  "poll_rebalance_req_encode m = block [put_u64 (rb_subscription_id m), put_u32 (rb_max_events m)]"

definition poll_rebalance_req_read :: "poll_rebalance_req reader" where
  "poll_rebalance_req_read =
     need 12 (bind get_u64 (\<lambda>subscription_id. bind get_u32 (\<lambda>max_events.
       ret \<lparr>rb_subscription_id = subscription_id, rb_max_events = max_events\<rparr>)))"

definition poll_rebalance_req_decode :: "bytes \<Rightarrow> (payload_error, poll_rebalance_req) outcome" where
  "poll_rebalance_req_decode buf = run poll_rebalance_req_read buf"

definition EVENT_ASSIGN :: u8 where
  "EVENT_ASSIGN = 0"

definition EVENT_REVOKE :: u8 where
  "EVENT_REVOKE = 1"

definition EVENT_ERROR :: u8 where
  "EVENT_ERROR = 2"

datatype rebalance_event =
    AssignEv "partition_spec list"
  | RevokeEv "partition_spec list"
  | ErrorEv string

definition write_partitions :: "partition_spec list \<Rightarrow> writer" where
  "write_partitions parts = write_list_u32 write_partition parts"

definition read_partitions :: "partition_spec list reader" where
  "read_partitions = read_list_u32 read_partition"

definition rebalance_event_encode :: "rebalance_event \<Rightarrow> writer" where
  "rebalance_event_encode e = (case e of
     AssignEv partitions \<Rightarrow> block [put_u8 EVENT_ASSIGN, write_partitions partitions]
   | RevokeEv partitions \<Rightarrow> block [put_u8 EVENT_REVOKE, write_partitions partitions]
   | ErrorEv message \<Rightarrow> block [put_u8 EVENT_ERROR, write_str_u16 message])"

definition rebalance_event_read :: "rebalance_event reader" where
  "rebalance_event_read =
     need 1 (bind get_u8 (\<lambda>kind.
       if kind = EVENT_ASSIGN then bind read_partitions (\<lambda>ps. ret (AssignEv ps))
       else if kind = EVENT_REVOKE then bind read_partitions (\<lambda>ps. ret (RevokeEv ps))
       else if kind = EVENT_ERROR then
         bind (read_str_u16 ''message'') (\<lambda>message. ret (ErrorEv message))
       else throw (InvalidTag kind ''rebalance_event_kind'')))"

datatype poll_rebalance_resp = RebalanceOk "rebalance_event list" | RebalanceErr string

definition poll_rebalance_resp_encode :: "poll_rebalance_resp \<Rightarrow> writer" where
  "poll_rebalance_resp_encode m = (case m of
     RebalanceOk events \<Rightarrow> block [put_u8 STATUS_OK, write_list_u32 rebalance_event_encode events]
   | RebalanceErr message \<Rightarrow> block [put_u8 STATUS_ERR, write_str_u16 message])"

definition poll_rebalance_resp_read :: "poll_rebalance_resp reader" where
  "poll_rebalance_resp_read =
     need 1 (bind get_u8 (\<lambda>tag.
       if tag = STATUS_OK then
         bind (read_list_u32 rebalance_event_read) (\<lambda>events. ret (RebalanceOk events))
       else if tag = STATUS_ERR then
         bind (read_str_u16 ''message'') (\<lambda>message. ret (RebalanceErr message))
       else throw (InvalidTag tag ''poll_rebalance_resp'')))"

definition poll_rebalance_resp_decode :: "bytes \<Rightarrow> (payload_error, poll_rebalance_resp) outcome" where
  "poll_rebalance_resp_decode buf = run poll_rebalance_resp_read buf"

definition poll_rebalance_req_layout :: "poll_rebalance_req \<Rightarrow> bytes" where
  "poll_rebalance_req_layout m =
     be_bytes 8 (unat (rb_subscription_id m)) @ be_bytes 4 (unat (rb_max_events m))"

interpretation poll_rebalance_req: codec poll_rebalance_req_encode poll_rebalance_req_read
  poll_rebalance_req_layout "\<lambda>_. True" "\<lambda>_. True"
  unfolding poll_rebalance_req_encode_def poll_rebalance_req_read_def poll_rebalance_req_layout_def
  by unfold_locales (auto simp: codec_defs wire_simps intro!: reader_intros yields_intros)

definition rebalance_event_layout :: "rebalance_event \<Rightarrow> bytes" where
  "rebalance_event_layout e = (case e of
     AssignEv ps \<Rightarrow> [0] @ lay_list32 partition_layout ps
   | RevokeEv ps \<Rightarrow> [1] @ lay_list32 partition_layout ps
   | ErrorEv message \<Rightarrow> [2] @ lay_str16 message)"

definition rebalance_event_typed :: "rebalance_event \<Rightarrow> bool" where
  "rebalance_event_typed e = (case e of
     AssignEv ps \<Rightarrow> list_all topic_typed ps
   | RevokeEv ps \<Rightarrow> list_all topic_typed ps
   | ErrorEv message \<Rightarrow> valid_str message)"

definition rebalance_event_ok :: "rebalance_event \<Rightarrow> bool" where
  "rebalance_event_ok e = (case e of
     AssignEv ps \<Rightarrow> list32_ok topic_ok ps
   | RevokeEv ps \<Rightarrow> list32_ok topic_ok ps
   | ErrorEv message \<Rightarrow> str16_ok message)"

interpretation rebalance_event: codec rebalance_event_encode rebalance_event_read
  rebalance_event_layout rebalance_event_typed rebalance_event_ok
  unfolding rebalance_event_encode_def rebalance_event_read_def rebalance_event_layout_def
    rebalance_event_typed_def rebalance_event_ok_def write_partitions_def read_partitions_def
  by unfold_locales
    (auto simp: codec_defs EVENT_ASSIGN_def EVENT_REVOKE_def EVENT_ERROR_def wire_simps
      split: rebalance_event.splits intro!: reader_intros yields_intros)

interpretation event_list: codec "write_list_u32 rebalance_event_encode"
  "read_list_u32 rebalance_event_read" "lay_list32 rebalance_event_layout"
  "list_all rebalance_event_typed" "list32_ok rebalance_event_ok"
  by (rule codec_list32) (rule rebalance_event.codec_axioms)

definition poll_rebalance_resp_layout :: "poll_rebalance_resp \<Rightarrow> bytes" where
  "poll_rebalance_resp_layout m = (case m of
     RebalanceOk events \<Rightarrow> [0x00] @ lay_list32 rebalance_event_layout events
   | RebalanceErr message \<Rightarrow> [0x01] @ lay_str16 message)"

definition poll_rebalance_resp_typed :: "poll_rebalance_resp \<Rightarrow> bool" where
  "poll_rebalance_resp_typed m = (case m of
     RebalanceOk events \<Rightarrow> list_all rebalance_event_typed events
   | RebalanceErr message \<Rightarrow> valid_str message)"

definition poll_rebalance_resp_ok :: "poll_rebalance_resp \<Rightarrow> bool" where
  "poll_rebalance_resp_ok m = (case m of
     RebalanceOk events \<Rightarrow> list32_ok rebalance_event_ok events
   | RebalanceErr message \<Rightarrow> str16_ok message)"

interpretation poll_rebalance_resp: codec poll_rebalance_resp_encode poll_rebalance_resp_read
  poll_rebalance_resp_layout poll_rebalance_resp_typed poll_rebalance_resp_ok
  unfolding poll_rebalance_resp_encode_def poll_rebalance_resp_read_def
    poll_rebalance_resp_layout_def poll_rebalance_resp_typed_def poll_rebalance_resp_ok_def
  by unfold_locales
    (auto simp: codec_defs wire_simps split: poll_rebalance_resp.splits
      intro!: reader_intros yields_intros)

end
