(* ===== verification/Proto_Txn.thy ===== *)
theory Proto_Txn
  imports Proto_Partition
begin

text \<open>
  The transactional and authentication messages: \<open>proto/src/txn.rs\<close>,
  \<open>proto/src/send_offsets.rs\<close> and \<open>proto/src/oauth.rs\<close>.
\<close>

section \<open>Transactions\<close>

datatype txn_op = TxnBegin | TxnCommit | TxnAbort

fun txn_op_code :: "txn_op \<Rightarrow> u8" where
  "txn_op_code TxnBegin = 0"
| "txn_op_code TxnCommit = 1"
| "txn_op_code TxnAbort = 2"

definition txn_op_from_u8 :: "u8 \<Rightarrow> txn_op option" where
  "txn_op_from_u8 v =
     (if v = 0 then Some TxnBegin else if v = 1 then Some TxnCommit
      else if v = 2 then Some TxnAbort else None)"

lemma txn_op_from_code [simp]: "txn_op_from_u8 (txn_op_code op) = Some op"
  by (cases op) (simp_all add: txn_op_from_u8_def)

record txn_req =
  tq_cluster :: string
  tq_op :: txn_op

definition txn_req_encode :: "txn_req \<Rightarrow> writer" where
  "txn_req_encode m = block [write_str_u16 (tq_cluster m), put_u8 (txn_op_code (tq_op m))]"

definition txn_req_read :: "txn_req reader" where
  "txn_req_read =
     bind (read_str_u16 ''cluster'') (\<lambda>cluster.
     need 1 (bind get_u8 (\<lambda>op_byte.
       case txn_op_from_u8 op_byte of
         Some op \<Rightarrow> ret \<lparr>tq_cluster = cluster, tq_op = op\<rparr>
       | None \<Rightarrow> throw (InvalidTag op_byte ''txn_op''))))"

definition txn_req_decode :: "bytes \<Rightarrow> (payload_error, txn_req) outcome" where
  "txn_req_decode buf = run txn_req_read buf"

type_synonym txn_resp = status_resp

definition txn_resp_encode :: "txn_resp \<Rightarrow> writer" where
  "txn_resp_encode m = status_resp_encode m"

definition txn_resp_decode :: "bytes \<Rightarrow> (payload_error, txn_resp) outcome" where
  "txn_resp_decode buf = run (status_resp_read ''txn_resp'') buf"

definition txn_req_layout :: "txn_req \<Rightarrow> bytes" where
  "txn_req_layout m = lay_str16 (tq_cluster m) @ [txn_op_code (tq_op m)]"

interpretation txn_req: codec txn_req_encode txn_req_read txn_req_layout
  "\<lambda>m. valid_str (tq_cluster m)" "\<lambda>m. str16_ok (tq_cluster m)"
  unfolding txn_req_encode_def txn_req_read_def txn_req_layout_def
  by unfold_locales (auto simp: codec_defs wire_simps intro!: reader_intros yields_intros)

section \<open>Offsets of a transaction\<close>

record send_offsets_req =
  so_producer_cluster :: string
  so_subscription_id :: u64
  so_group_id :: string
  so_offsets :: "offset_spec list"

definition send_offsets_req_encode :: "send_offsets_req \<Rightarrow> writer" where
  "send_offsets_req_encode m =
     block [write_str_u16 (so_producer_cluster m), put_u64 (so_subscription_id m),
            write_str_u16 (so_group_id m), write_list_u32 write_offset (so_offsets m)]"

definition send_offsets_req_read :: "send_offsets_req reader" where
  "send_offsets_req_read =
     bind (read_str_u16 ''producer_cluster'') (\<lambda>producer_cluster.
     need 8 (
     bind get_u64 (\<lambda>subscription_id.
     bind (read_str_u16 ''group_id'') (\<lambda>group_id.
     bind (read_list_u32 read_offset) (\<lambda>offsets.
       ret \<lparr>so_producer_cluster = producer_cluster, so_subscription_id = subscription_id,
            so_group_id = group_id, so_offsets = offsets\<rparr>)))))"

definition send_offsets_req_decode :: "bytes \<Rightarrow> (payload_error, send_offsets_req) outcome" where
  "send_offsets_req_decode buf = run send_offsets_req_read buf"

type_synonym send_offsets_resp = status_resp

definition send_offsets_resp_encode :: "send_offsets_resp \<Rightarrow> writer" where
  "send_offsets_resp_encode m = status_resp_encode m"

definition send_offsets_resp_decode :: "bytes \<Rightarrow> (payload_error, send_offsets_resp) outcome" where
  "send_offsets_resp_decode buf = run (status_resp_read ''send_offsets_resp'') buf"

definition send_offsets_req_layout :: "send_offsets_req \<Rightarrow> bytes" where
  "send_offsets_req_layout m =
     lay_str16 (so_producer_cluster m) @ be_bytes 8 (unat (so_subscription_id m))
       @ lay_str16 (so_group_id m) @ lay_list32 offset_layout (so_offsets m)"

definition send_offsets_req_typed :: "send_offsets_req \<Rightarrow> bool" where
  "send_offsets_req_typed m \<longleftrightarrow>
     valid_str (so_producer_cluster m) \<and> valid_str (so_group_id m) \<and> list_all topic_typed (so_offsets m)"

definition send_offsets_req_ok :: "send_offsets_req \<Rightarrow> bool" where
  "send_offsets_req_ok m \<longleftrightarrow>
     str16_ok (so_producer_cluster m) \<and> str16_ok (so_group_id m) \<and> list32_ok topic_ok (so_offsets m)"

interpretation send_offsets_req: codec send_offsets_req_encode send_offsets_req_read
  send_offsets_req_layout send_offsets_req_typed send_offsets_req_ok
  unfolding send_offsets_req_encode_def send_offsets_req_read_def send_offsets_req_layout_def
    send_offsets_req_typed_def send_offsets_req_ok_def
  by unfold_locales (auto simp: codec_defs wire_simps intro!: reader_intros yields_intros)

section \<open>OAuth bearer tokens\<close>

record set_oauth_req =
  oa_cluster :: string
  oa_token_value :: string
  oa_lifetime_ms :: i64
  oa_principal_name :: string
  oa_extensions :: "config_entry list"

text \<open>The pairs are written as configuration entries are; the reader reports other field names.\<close>

definition read_extension :: "config_entry reader" where
  "read_extension =
     bind (read_str_u16 ''ext_key'') (\<lambda>k. bind (read_str_u16 ''ext_val'') (\<lambda>v. ret (k, v)))"

definition set_oauth_req_encode :: "set_oauth_req \<Rightarrow> writer" where
  "set_oauth_req_encode m =
     block [
       write_str_u16 (oa_cluster m),
       write_str_u32 (oa_token_value m),
       put_i64 (oa_lifetime_ms m),
       write_str_u16 (oa_principal_name m),
       write_list_u32 write_config_entry (oa_extensions m)]"

definition set_oauth_req_read :: "set_oauth_req reader" where
  "set_oauth_req_read =
     bind (read_str_u16 ''cluster'') (\<lambda>cluster.
     bind (read_str_u32 ''token_value'') (\<lambda>token_value.
     need 8 (
     bind get_i64 (\<lambda>lifetime_ms.
     bind (read_str_u16 ''principal_name'') (\<lambda>principal_name.
     bind (read_list_u32 read_extension) (\<lambda>extensions.
       ret \<lparr>oa_cluster = cluster, oa_token_value = token_value, oa_lifetime_ms = lifetime_ms,
            oa_principal_name = principal_name, oa_extensions = extensions\<rparr>))))))"

definition set_oauth_req_decode :: "bytes \<Rightarrow> (payload_error, set_oauth_req) outcome" where
  "set_oauth_req_decode buf = run set_oauth_req_read buf"

type_synonym set_oauth_resp = status_resp

definition set_oauth_resp_encode :: "set_oauth_resp \<Rightarrow> writer" where
  "set_oauth_resp_encode m = status_resp_encode m"

definition set_oauth_resp_decode :: "bytes \<Rightarrow> (payload_error, set_oauth_resp) outcome" where
  "set_oauth_resp_decode buf = run (status_resp_read ''set_oauth_token_resp'') buf"

definition set_oauth_req_layout :: "set_oauth_req \<Rightarrow> bytes" where
  "set_oauth_req_layout m =
     lay_str16 (oa_cluster m) @ lay_str32 (oa_token_value m) @ be_bytes 8 (unat (oa_lifetime_ms m))
       @ lay_str16 (oa_principal_name m) @ lay_list32 config_entry_layout (oa_extensions m)"

definition set_oauth_req_typed :: "set_oauth_req \<Rightarrow> bool" where
  "set_oauth_req_typed m \<longleftrightarrow>
     valid_str (oa_cluster m) \<and> valid_str (oa_token_value m) \<and> valid_str (oa_principal_name m)
       \<and> list_all config_entry_typed (oa_extensions m)"

definition set_oauth_req_ok :: "set_oauth_req \<Rightarrow> bool" where
  "set_oauth_req_ok m \<longleftrightarrow>
     str16_ok (oa_cluster m) \<and> str32_ok (oa_token_value m) \<and> str16_ok (oa_principal_name m)
       \<and> list32_ok config_entry_ok (oa_extensions m)"

interpretation extension: codec write_config_entry read_extension config_entry_layout
  config_entry_typed config_entry_ok
  unfolding write_config_entry_def read_extension_def config_entry_layout_def
    config_entry_typed_def config_entry_ok_def
  by unfold_locales (auto simp: codec_defs wire_simps intro!: reader_intros yields_intros)

interpretation extension_list: codec "write_list_u32 write_config_entry" "read_list_u32 read_extension"
  "lay_list32 config_entry_layout" "list_all config_entry_typed" "list32_ok config_entry_ok"
  by (rule codec_list32) (rule extension.codec_axioms)

interpretation set_oauth_req: codec set_oauth_req_encode set_oauth_req_read set_oauth_req_layout
  set_oauth_req_typed set_oauth_req_ok
  unfolding set_oauth_req_encode_def set_oauth_req_read_def set_oauth_req_layout_def
    set_oauth_req_typed_def set_oauth_req_ok_def
  by unfold_locales (auto simp: codec_defs wire_simps intro!: reader_intros yields_intros)

end
