(* ===== verification/Ext_Protocol.thy ===== *)
theory Ext_Protocol
  imports Frame Proto_Error Proto_Txn
begin

text \<open>
  \<open>ext/src/protocol.rs\<close>: the frames the PHP extension builds and parses. The correlation id
  counter of the process is passed explicitly; the theorems show that what is built carries
  the message that was given and is accepted by the frame layer.
\<close>

section \<open>Correlation ids\<close>

text \<open>\<open>NEXT_CID\<close>, an \<open>AtomicU64\<close> that starts at 1.\<close>

definition cid_start :: u64 where
  "cid_start = 1"

definition next_cid :: "u64 \<Rightarrow> u64 \<times> u64" where
  "next_cid n = (n, n + 1)"

section \<open>Building frames\<close>

text \<open>
  The common course of the builders: encode the payload, take a correlation id, encode the
  frame. The two prefixes are the texts their errors are wrapped in.
\<close>

definition build_with ::
  "string \<Rightarrow> string \<Rightarrow> frame_type \<Rightarrow> writer \<Rightarrow> u64 \<Rightarrow> (string, u64 \<times> bytes) outcome \<times> u64" where
  "build_with pmsg fmsg kind w n =
     (case snd w of
        Panic \<Rightarrow> (Panic, n)
      | Err e \<Rightarrow> (Err (pmsg @ payload_error_display e), n)
      | Ok _ \<Rightarrow>
          (case next_cid n of
             (cid, n') \<Rightarrow>
               (case encode_frame kind cid (fst w) [] of
                  (Panic, _) \<Rightarrow> (Panic, n')
                | (Err e, _) \<Rightarrow> (Err (fmsg @ codec_error_display e), n')
                | (Ok _, frame) \<Rightarrow> (Ok (cid, frame), n'))))"

text \<open>The builders of one-way frames use correlation id 0.\<close>

definition build_oneway ::
  "string \<Rightarrow> string \<Rightarrow> frame_type \<Rightarrow> writer \<Rightarrow> (string, bytes) outcome" where
  "build_oneway pmsg fmsg kind w =
     (case snd w of
        Panic \<Rightarrow> Panic
      | Err e \<Rightarrow> Err (pmsg @ payload_error_display e)
      | Ok _ \<Rightarrow>
          (case encode_frame kind 0 (fst w) [] of
             (Panic, _) \<Rightarrow> Panic
           | (Err e, _) \<Rightarrow> Err (fmsg @ codec_error_display e)
           | (Ok _, frame) \<Rightarrow> Ok frame))"

definition encode_req :: "frame_type \<Rightarrow> writer \<Rightarrow> u64 \<Rightarrow> (string, u64 \<times> bytes) outcome \<times> u64" where
  "encode_req kind w n =
     build_with (''encode payload '' @ frame_type_debug kind @ '': '')
       (''encode frame '' @ frame_type_debug kind @ '': '') kind w n"

definition build_payload ::
  "string \<Rightarrow> string \<Rightarrow> bytes \<Rightarrow> bytes \<Rightarrow> message_header list \<Rightarrow> i32 \<Rightarrow> i64 \<Rightarrow> writer" where
  "build_payload cluster topic key val headers part timestamp_ms =
     produce_fnf_encode
       \<lparr>pf_cluster = cluster, pf_topic = topic, pf_key = key, pf_value = val,
        pf_partition = part, pf_timestamp_ms = timestamp_ms, pf_headers = headers\<rparr>"

definition build_hello_frame :: "(string, bytes) outcome" where
  "build_hello_frame =
     build_oneway ''encode HELLO payload: '' ''encode HELLO frame: '' FT_Hello
       (hello_req_encode \<lparr>hq_major = PROTOCOL_MAJOR\<rparr>)"

definition build_fnf_frame ::
  "string \<Rightarrow> string \<Rightarrow> bytes \<Rightarrow> bytes \<Rightarrow> message_header list \<Rightarrow> i32 \<Rightarrow> i64 \<Rightarrow> (string, bytes) outcome" where
  "build_fnf_frame cluster topic key val headers part timestamp_ms =
     build_oneway [] ''encode frame: '' FT_ProduceFnf
       (build_payload cluster topic key val headers part timestamp_ms)"

definition build_req_frame ::
  "string \<Rightarrow> string \<Rightarrow> bytes \<Rightarrow> bytes \<Rightarrow> message_header list \<Rightarrow> i32 \<Rightarrow> i64 \<Rightarrow> u64 \<Rightarrow>
   (string, u64 \<times> bytes) outcome \<times> u64" where
  "build_req_frame cluster topic key val headers part timestamp_ms n =
     build_with [] ''encode frame: '' FT_ProduceReq
       (build_payload cluster topic key val headers part timestamp_ms) n"

definition build_subscribe_frame ::
  "string \<Rightarrow> string \<Rightarrow> string list \<Rightarrow> config_entry list \<Rightarrow> u64 \<Rightarrow> (string, u64 \<times> bytes) outcome \<times> u64" where
  "build_subscribe_frame cluster group_id topics config n =
     build_with ''encode SubscribeReq: '' ''encode frame: '' FT_SubscribeReq
       (subscribe_req_encode
          \<lparr>sr_cluster = cluster, sr_group_id = group_id, sr_topics = topics, sr_config = config\<rparr>) n"

definition build_poll_frame :: "u64 \<Rightarrow> u32 \<Rightarrow> u32 \<Rightarrow> u64 \<Rightarrow> (string, u64 \<times> bytes) outcome \<times> u64" where
  "build_poll_frame subscription_id max_messages timeout_ms n =
     build_with ''encode PollReq: '' ''encode frame: '' FT_PollReq
       (poll_req_encode
          \<lparr>pq_subscription_id = subscription_id, pq_max_messages = max_messages,
           pq_timeout_ms = timeout_ms\<rparr>) n"

definition build_commit_frame :: "u64 \<Rightarrow> u64 \<Rightarrow> (string, u64 \<times> bytes) outcome \<times> u64" where
  "build_commit_frame subscription_id n =
     build_with ''encode CommitReq: '' ''encode frame: '' FT_CommitReq
       (commit_req_encode \<lparr>cq_subscription_id = subscription_id\<rparr>) n"

definition build_goodbye_frame :: "(string, bytes) outcome" where
  "build_goodbye_frame = build_oneway [] ''encode Goodbye frame: '' FT_Goodbye (block [])"

definition build_unsubscribe_frame :: "u64 \<Rightarrow> (string, bytes) outcome" where
  "build_unsubscribe_frame subscription_id =
     build_oneway ''encode UnsubscribeReq: '' ''encode frame: '' FT_Unsubscribe
       (unsubscribe_req_encode \<lparr>uq_subscription_id = subscription_id\<rparr>)"

definition build_register_cluster_frame ::
  "string \<Rightarrow> config_entry list \<Rightarrow> u64 \<Rightarrow> (string, u64 \<times> bytes) outcome \<times> u64" where
  "build_register_cluster_frame cluster config n =
     build_with ''encode RegisterClusterReq: '' ''encode frame: '' FT_RegisterClusterReq
       (register_cluster_req_encode \<lparr>rc_cluster = cluster, rc_config = config\<rparr>) n"

definition build_pause_resume_frame ::
  "u64 \<Rightarrow> pause_resume_op \<Rightarrow> partition_spec list \<Rightarrow> u64 \<Rightarrow> (string, u64 \<times> bytes) outcome \<times> u64" where
  "build_pause_resume_frame subscription_id op partitions n =
     encode_req FT_PauseResumeReq
       (pause_resume_req_encode
          \<lparr>pr_subscription_id = subscription_id, pr_op = op, pr_partitions = partitions\<rparr>) n"

definition build_seek_by_offset_frame ::
  "u64 \<Rightarrow> offset_spec list \<Rightarrow> u64 \<Rightarrow> (string, u64 \<times> bytes) outcome \<times> u64" where
  "build_seek_by_offset_frame subscription_id targets n =
     encode_req FT_SeekReq (seek_req_encode (ByOffset subscription_id targets)) n"

definition build_seek_by_timestamp_frame ::
  "u64 \<Rightarrow> i64 \<Rightarrow> partition_spec list \<Rightarrow> u64 \<Rightarrow> (string, u64 \<times> bytes) outcome \<times> u64" where
  "build_seek_by_timestamp_frame subscription_id timestamp_ms partitions n =
     encode_req FT_SeekReq (seek_req_encode (ByTimestamp subscription_id timestamp_ms partitions)) n"

definition build_txn_frame :: "string \<Rightarrow> txn_op \<Rightarrow> u64 \<Rightarrow> (string, u64 \<times> bytes) outcome \<times> u64" where
  "build_txn_frame cluster op n =
     encode_req FT_TxnReq (txn_req_encode \<lparr>tq_cluster = cluster, tq_op = op\<rparr>) n"

definition build_send_offsets_frame ::
  "string \<Rightarrow> u64 \<Rightarrow> string \<Rightarrow> offset_spec list \<Rightarrow> u64 \<Rightarrow> (string, u64 \<times> bytes) outcome \<times> u64" where
  "build_send_offsets_frame producer_cluster subscription_id group_id offsets n =
     encode_req FT_SendOffsetsReq
       (send_offsets_req_encode
          \<lparr>so_producer_cluster = producer_cluster, so_subscription_id = subscription_id,
           so_group_id = group_id, so_offsets = offsets\<rparr>) n"

definition build_set_oauth_token_frame ::
  "string \<Rightarrow> string \<Rightarrow> i64 \<Rightarrow> string \<Rightarrow> config_entry list \<Rightarrow> u64 \<Rightarrow>
   (string, u64 \<times> bytes) outcome \<times> u64" where
  "build_set_oauth_token_frame cluster token_value lifetime_ms principal_name extensions n =
     encode_req FT_SetOAuthBearerTokenReq
       (set_oauth_req_encode
          \<lparr>oa_cluster = cluster, oa_token_value = token_value, oa_lifetime_ms = lifetime_ms,
           oa_principal_name = principal_name, oa_extensions = extensions\<rparr>) n"

definition build_poll_rebalance_frame :: "u64 \<Rightarrow> u32 \<Rightarrow> u64 \<Rightarrow> (string, u64 \<times> bytes) outcome \<times> u64" where
  "build_poll_rebalance_frame subscription_id max_events n =
     encode_req FT_PollRebalanceReq
       (poll_rebalance_req_encode
          \<lparr>rb_subscription_id = subscription_id, rb_max_events = max_events\<rparr>) n"

section \<open>Parsing frames\<close>

record parsed_error =
  pe_kind :: u16
  pe_kind_name :: string
  pe_retryable :: bool
  pe_native_code :: i32
  pe_message :: string

definition short_msg :: "string \<Rightarrow> nat \<Rightarrow> nat \<Rightarrow> string" where
  "short_msg what have1 need1 = what @ show_nat have1 @ '' < '' @ show_nat need1"

definition parse_error_frame :: "bytes \<Rightarrow> (string, parsed_error) outcome" where
  "parse_error_frame bytes =
     (if length bytes < HEADER_LEN then
        Err (short_msg ''error frame too short: '' (length bytes) HEADER_LEN)
      else
        case decode_header (take HEADER_LEN bytes) of
          Panic \<Rightarrow> Panic
        | Err e \<Rightarrow> Err (''decode error frame header: '' @ codec_error_display e)
        | Ok h \<Rightarrow>
            if h_kind h \<noteq> FT_Error then
              Err (''expected Error frame, got '' @ frame_type_debug (h_kind h))
            else
              let need1 = HEADER_LEN + unat (h_payload_len h) in
              if length bytes < need1 then
                Err (short_msg ''error frame truncated: '' (length bytes) need1)
              else
                case error_resp_decode (take (unat (h_payload_len h)) (drop HEADER_LEN bytes)) of
                  Panic \<Rightarrow> Panic
                | Err e \<Rightarrow> Err (''decode ErrorResp: '' @ payload_error_display e)
                | Ok er \<Rightarrow>
                    Ok \<lparr>pe_kind = error_kind_as_u16 (er_kind er),
                        pe_kind_name = error_kind_as_str (er_kind er),
                        pe_retryable = er_retryable er, pe_native_code = er_native_code er,
                        pe_message = er_message er\<rparr>)"

definition parse_hello_resp :: "bytes \<Rightarrow> (string, unit) outcome" where
  "parse_hello_resp bytes =
     (if length bytes < HEADER_LEN then
        Err (short_msg ''HELLO RESP too short: '' (length bytes) HEADER_LEN)
      else
        case decode_header (take HEADER_LEN bytes) of
          Panic \<Rightarrow> Panic
        | Err e \<Rightarrow> Err (''decode HELLO RESP header: '' @ codec_error_display e)
        | Ok h \<Rightarrow>
            if h_kind h \<noteq> FT_Hello then
              Err (''expected HELLO RESP, got '' @ frame_type_debug (h_kind h) @ '' (cid=''
                     @ show_nat (unat (h_cid h)) @ '')'')
            else
              let need1 = HEADER_LEN + unat (h_payload_len h) in
              if length bytes < need1 then
                Err (short_msg ''HELLO RESP payload truncated: '' (length bytes) need1)
              else
                case hello_resp_decode (take (unat (h_payload_len h)) (drop HEADER_LEN bytes)) of
                  Panic \<Rightarrow> Panic
                | Err e \<Rightarrow> Err (''decode HELLO RESP: '' @ payload_error_display e)
                | Ok resp \<Rightarrow>
                    if hs_major resp \<noteq> PROTOCOL_MAJOR then
                      Err (''PROTOCOL_MAJOR mismatch: client '' @ show_nat (unat PROTOCOL_MAJOR)
                             @ '' vs server '' @ show_nat (unat (hs_major resp)))
                    else Ok ())"

datatype parsed_frame =
    ParsedResp u64 produce_resp
  | ParsedOther frame_type u64 u32

definition parse_resp_frame :: "bytes \<Rightarrow> (string, parsed_frame) outcome" where
  "parse_resp_frame bytes =
     (if length bytes < HEADER_LEN then
        Err (short_msg ''frame too short: '' (length bytes) HEADER_LEN)
      else
        case decode_header (take HEADER_LEN bytes) of
          Panic \<Rightarrow> Panic
        | Err e \<Rightarrow> Err (''decode header: '' @ codec_error_display e)
        | Ok h \<Rightarrow>
            let need1 = HEADER_LEN + unat (h_payload_len h) in
            if length bytes < need1 then
              Err (short_msg ''payload truncated: '' (length bytes) need1)
            else
              let payload = take (unat (h_payload_len h)) (drop HEADER_LEN bytes) in
              case h_kind h of
                FT_ProduceResp \<Rightarrow>
                  (case produce_resp_decode payload of
                     Panic \<Rightarrow> Panic
                   | Err e \<Rightarrow> Err (''decode resp: '' @ payload_error_display e)
                   | Ok resp \<Rightarrow> Ok (ParsedResp (h_cid h) resp))
              | other \<Rightarrow> Ok (ParsedOther other (h_cid h) (h_payload_len h)))"

record parsed_header =
  ph_kind_byte :: u8
  ph_cid :: u64
  ph_payload_len :: u32

definition parse_header_only :: "bytes \<Rightarrow> (string, parsed_header) outcome" where
  "parse_header_only bytes =
     (if length bytes < HEADER_LEN then
        Err (short_msg ''header too short: '' (length bytes) HEADER_LEN)
      else
        case decode_header (take HEADER_LEN bytes) of
          Panic \<Rightarrow> Panic
        | Err e \<Rightarrow> Err (''decode header: '' @ codec_error_display e)
        | Ok h \<Rightarrow>
            Ok \<lparr>ph_kind_byte = frame_type_code (h_kind h), ph_cid = h_cid h,
                ph_payload_len = h_payload_len h\<rparr>)"

datatype consumer_resp =
    CR_SubscribeOk u64 u64
  | CR_SubscribeErr u64 string
  | CR_PollOk u64 "consumer_message list"
  | CR_PollErr u64 string
  | CR_CommitOk u64
  | CR_CommitErr u64 string
  | CR_RegisterClusterOk u64
  | CR_RegisterClusterErr u64 string
  | CR_PauseResumeOk u64
  | CR_PauseResumeErr u64 string
  | CR_SeekOk u64
  | CR_SeekErr u64 string
  | CR_TxnOk u64
  | CR_TxnErr u64 string
  | CR_SendOffsetsOk u64
  | CR_SendOffsetsErr u64 string
  | CR_SetOAuthTokenOk u64
  | CR_SetOAuthTokenErr u64 string
  | CR_PollRebalanceOk u64 "rebalance_event list"
  | CR_PollRebalanceErr u64 string

text \<open>The arms of the \<open>match\<close> for the status responses, which differ in their constructors.\<close>

definition status_arm ::
  "string \<Rightarrow> (u64 \<Rightarrow> consumer_resp) \<Rightarrow> (u64 \<Rightarrow> string \<Rightarrow> consumer_resp) \<Rightarrow> u64 \<Rightarrow>
   (payload_error, status_resp) outcome \<Rightarrow> (string, consumer_resp) outcome" where
  "status_arm what ok err cid r =
     (case r of
        Panic \<Rightarrow> Panic
      | Err e \<Rightarrow> Err (''decode '' @ what @ '': '' @ payload_error_display e)
      | Ok StatusOk \<Rightarrow> Ok (ok cid)
      | Ok (StatusErr message) \<Rightarrow> Ok (err cid message))"

definition parse_consumer_resp :: "frame_type \<Rightarrow> u64 \<Rightarrow> bytes \<Rightarrow> (string, consumer_resp) outcome" where
  "parse_consumer_resp kind cid payload =
     (case kind of
        FT_SubscribeResp \<Rightarrow>
          (case subscribe_resp_decode payload of
             Panic \<Rightarrow> Panic
           | Err e \<Rightarrow> Err (''decode SubscribeResp: '' @ payload_error_display e)
           | Ok (SubscribeOk subscription_id) \<Rightarrow> Ok (CR_SubscribeOk cid subscription_id)
           | Ok (SubscribeErr message) \<Rightarrow> Ok (CR_SubscribeErr cid message))
      | FT_PollResp \<Rightarrow>
          (case poll_resp_decode payload of
             Panic \<Rightarrow> Panic
           | Err e \<Rightarrow> Err (''decode PollResp: '' @ payload_error_display e)
           | Ok (PollOk messages) \<Rightarrow> Ok (CR_PollOk cid messages)
           | Ok (PollErr message) \<Rightarrow> Ok (CR_PollErr cid message))
      | FT_CommitResp \<Rightarrow>
          status_arm ''CommitResp'' CR_CommitOk CR_CommitErr cid (commit_resp_decode payload)
      | FT_RegisterClusterResp \<Rightarrow>
          status_arm ''RegisterClusterResp'' CR_RegisterClusterOk CR_RegisterClusterErr cid
            (register_cluster_resp_decode payload)
      | FT_PauseResumeResp \<Rightarrow>
          status_arm ''PauseResumeResp'' CR_PauseResumeOk CR_PauseResumeErr cid
            (pause_resume_resp_decode payload)
      | FT_SeekResp \<Rightarrow> status_arm ''SeekResp'' CR_SeekOk CR_SeekErr cid (seek_resp_decode payload)
      | FT_TxnResp \<Rightarrow> status_arm ''TxnResp'' CR_TxnOk CR_TxnErr cid (txn_resp_decode payload)
      | FT_SendOffsetsResp \<Rightarrow>
          status_arm ''SendOffsetsResp'' CR_SendOffsetsOk CR_SendOffsetsErr cid
            (send_offsets_resp_decode payload)
      | FT_SetOAuthBearerTokenResp \<Rightarrow>
          status_arm ''SetOAuthBearerTokenResp'' CR_SetOAuthTokenOk CR_SetOAuthTokenErr cid
            (set_oauth_resp_decode payload)
      | FT_PollRebalanceResp \<Rightarrow>
          (case poll_rebalance_resp_decode payload of
             Panic \<Rightarrow> Panic
           | Err e \<Rightarrow> Err (''decode PollRebalanceResp: '' @ payload_error_display e)
           | Ok (RebalanceOk events) \<Rightarrow> Ok (CR_PollRebalanceOk cid events)
           | Ok (RebalanceErr message) \<Rightarrow> Ok (CR_PollRebalanceErr cid message))
      | other \<Rightarrow> Err (''unexpected consumer frame kind: '' @ frame_type_debug other))"

definition parse_consumer_resp_frame :: "bytes \<Rightarrow> (string, consumer_resp) outcome" where
  "parse_consumer_resp_frame bytes =
     (if length bytes < HEADER_LEN then
        Err (short_msg ''frame too short: '' (length bytes) HEADER_LEN)
      else
        case decode_header (take HEADER_LEN bytes) of
          Panic \<Rightarrow> Panic
        | Err e \<Rightarrow> Err (''decode header: '' @ codec_error_display e)
        | Ok h \<Rightarrow>
            let need1 = HEADER_LEN + unat (h_payload_len h) in
            if length bytes < need1 then
              Err (short_msg ''payload truncated: '' (length bytes) need1)
            else
              parse_consumer_resp (h_kind h) (h_cid h)
                (take (unat (h_payload_len h)) (drop HEADER_LEN bytes)))"

section \<open>What the builders build\<close>

lemma build_with_fits:
  assumes "w = (payload, Ok ())" and "length payload \<le> MAX_PAYLOAD_LEN"
  shows "build_with pmsg fmsg kind w n = (Ok (n, frame_bytes (frame_new kind n payload)), n + 1)"
proof -
  have "frame_fits (frame_new kind n payload)" using assms(2) by (simp add: frame_fits_def frame_new_def)
  from encode_frame_fits [OF this, of "[]"] show ?thesis
    using assms(1) by (simp add: build_with_def next_cid_def frame_new_def)
qed

lemma build_oneway_fits:
  assumes "w = (payload, Ok ())" and "length payload \<le> MAX_PAYLOAD_LEN"
  shows "build_oneway pmsg fmsg kind w = Ok (frame_bytes (frame_new kind 0 payload))"
proof -
  have "frame_fits (frame_new kind 0 payload)" using assms(2) by (simp add: frame_fits_def frame_new_def)
  from encode_frame_fits [OF this, of "[]"] show ?thesis
    using assms(1) by (simp add: build_oneway_def frame_new_def)
qed

text \<open>Conversely, what a builder returns is the frame of a payload that fits.\<close>

lemma build_with_OkD:
  assumes "build_with pmsg fmsg kind w n = (Ok (cid, bytes), n')"
  shows "cid = n" and "n' = n + 1" and "snd w = Ok ()" and "length (fst w) \<le> MAX_PAYLOAD_LEN"
    and "bytes = frame_bytes (frame_new kind n (fst w))"
proof -
  from assms have ok: "snd w = Ok ()"
    by (cases "snd w") (auto simp: build_with_def)
  then have len: "length (fst w) \<le> MAX_PAYLOAD_LEN"
    using assms by (auto simp: build_with_def next_cid_def encode_frame_def split: if_splits)
  show "cid = n" "n' = n + 1" "snd w = Ok ()" "length (fst w) \<le> MAX_PAYLOAD_LEN"
    "bytes = frame_bytes (frame_new kind n (fst w))"
    using assms ok len build_with_fits [of w "fst w" pmsg fmsg kind n]
    by (auto simp: prod_eq_iff)
qed

section \<open>Parsing a frame that was written\<close>

lemma frame_split:
  assumes "frame_fits f"
  shows "decode_header (take HEADER_LEN (frame_bytes f)) =
           Ok \<lparr>h_payload_len = of_nat (length (fr_payload f)), h_kind = fr_kind f, h_cid = fr_cid f\<rparr>"
    and "unat (of_nat (length (fr_payload f)) :: u32) = length (fr_payload f)"
    and "drop HEADER_LEN (frame_bytes f) = fr_payload f"
    and "\<not> length (frame_bytes f) < HEADER_LEN"
    and "length (frame_bytes f) = HEADER_LEN + length (fr_payload f)"
proof -
  have "HEADER_LEN \<le> length (frame_bytes f)" by (simp add: length_frame_bytes)
  from decode_header_take [OF this] decode_header_frame_bytes [OF assms, of "[]"]
  show "decode_header (take HEADER_LEN (frame_bytes f)) =
           Ok \<lparr>h_payload_len = of_nat (length (fr_payload f)), h_kind = fr_kind f, h_cid = fr_cid f\<rparr>"
    by simp
  show "unat (of_nat (length (fr_payload f)) :: u32) = length (fr_payload f)"
    using assms by (simp add: frame_fits_def max_payload_u32)
  show "drop HEADER_LEN (frame_bytes f) = fr_payload f"
    by (simp add: frame_bytes_def HEADER_LEN_def)
qed (simp_all add: length_frame_bytes)

lemma parse_consumer_resp_frame_bytes:
  "frame_fits f \<Longrightarrow> parse_consumer_resp_frame (frame_bytes f)
     = parse_consumer_resp (fr_kind f) (fr_cid f) (fr_payload f)"
  by (simp add: parse_consumer_resp_frame_def frame_split)

lemma parse_resp_frame_bytes:
  assumes "frame_fits f" and "fr_kind f = FT_ProduceResp"
    and "produce_resp_decode (fr_payload f) = Ok resp"
  shows "parse_resp_frame (frame_bytes f) = Ok (ParsedResp (fr_cid f) resp)"
  using assms by (simp add: parse_resp_frame_def frame_split)

lemma parse_error_frame_bytes:
  assumes "frame_fits f" and "fr_kind f = FT_Error" and "error_resp_decode (fr_payload f) = Ok er"
  shows "parse_error_frame (frame_bytes f) =
    Ok \<lparr>pe_kind = error_kind_as_u16 (er_kind er), pe_kind_name = error_kind_as_str (er_kind er),
        pe_retryable = er_retryable er, pe_native_code = er_native_code er, pe_message = er_message er\<rparr>"
  using assms by (simp add: parse_error_frame_def frame_split)

lemma parse_hello_resp_bytes:
  assumes "frame_fits f" and "fr_kind f = FT_Hello"
    and "hello_resp_decode (fr_payload f) = Ok \<lparr>hs_major = PROTOCOL_MAJOR\<rparr>"
  shows "parse_hello_resp (frame_bytes f) = Ok ()"
  using assms by (simp add: parse_hello_resp_def frame_split)

end
