(* ===== verification/Ext_Config.thy ===== *)
theory Ext_Config
  imports Prelude
begin

text \<open>
  \<open>ext/src/ini_config.rs\<close> and \<open>resolve_socket\<close> of \<open>ext/src/lib.rs\<close>: the configuration of the extension,
  from environment variables and \<open>php.ini\<close>. The environment is a function from names to values
  (\<open>std::env::var(..).ok()\<close>); the table of ini values of the PHP engine is an association list, as
  \<open>ExecutorGlobals::ini_values\<close> returns it.
\<close>

section \<open>Decimal numbers\<close>

text \<open>
  \<open>str::parse\<close> at an unsigned type with maximum \<open>mx\<close>: an optional plus sign, then one or more digits,
  and no overflow.
\<close>

definition is_digit :: "char \<Rightarrow> bool" where
  "is_digit c \<longleftrightarrow> 48 \<le> (of_char c :: nat) \<and> (of_char c :: nat) \<le> 57"

definition digits_value :: "string \<Rightarrow> nat" where
  "digits_value s = foldl (\<lambda>n c. 10 * n + (of_char c - 48)) 0 s"

definition parse_uint :: "nat \<Rightarrow> string \<Rightarrow> nat option" where
  "parse_uint mx s =
     (let ds = (case s of c # cs \<Rightarrow> if c = CHR ''+'' then cs else s | [] \<Rightarrow> []) in
      if ds \<noteq> [] \<and> list_all is_digit ds \<and> digits_value ds \<le> mx then Some (digits_value ds) else None)"

abbreviation parse_u64 :: "string \<Rightarrow> nat option" where
  "parse_u64 \<equiv> parse_uint (2 ^ 64 - 1)"

lemma digit_char_value: "d < 10 \<Longrightarrow> (of_char (digit_char d) :: nat) = 48 + d"
  by (simp add: digit_char_def)

lemma is_digit_digit_char: "d < 10 \<Longrightarrow> is_digit (digit_char d)"
  by (simp add: is_digit_def digit_char_value)

lemma is_digit_show_nat: "list_all is_digit (show_nat n)"
  by (induction n rule: show_nat.induct) (subst show_nat.simps, simp add: is_digit_digit_char)

lemma show_nat_not_Nil: "show_nat n \<noteq> []"
  by (subst show_nat.simps) simp

lemma digits_value_show_nat: "digits_value (show_nat n) = n"
proof (induction n rule: show_nat.induct)
  case (1 n)
  show ?case
  proof (cases "n < 10")
    case True
    then show ?thesis by (simp add: show_nat.simps [of n] digits_value_def digit_char_value)
  next
    case False
    with 1 show ?thesis by (simp add: show_nat.simps [of n] digits_value_def digit_char_value)
  qed
qed

lemma show_nat_no_sign: "hd (show_nat n) \<noteq> CHR ''+''"
proof -
  have "is_digit (hd (show_nat n))"
    using is_digit_show_nat [of n] show_nat_not_Nil [of n] by (cases "show_nat n") auto
  then show ?thesis by (auto simp: is_digit_def)
qed

text \<open>A number that was printed is parsed back, unless it is too large.\<close>

lemma parse_show_nat: "parse_uint mx (show_nat n) = (if n \<le> mx then Some n else None)"
  using is_digit_show_nat [of n] digits_value_show_nat [of n] show_nat_no_sign [of n] show_nat_not_Nil [of n]
  by (cases "show_nat n") (auto simp: parse_uint_def)

lemma parse_uint_bound: "parse_uint mx s = Some n \<Longrightarrow> n \<le> mx"
  by (auto simp: parse_uint_def Let_def split: if_splits)

section \<open>ini\_config.rs\<close>

type_synonym env_vars = "string \<Rightarrow> string option"
type_synonym ini_values = "(string, string option) hmap"

definition INI_LOG_LEVEL :: string where "INI_LOG_LEVEL = ''hi_kafka.log_level''"
definition INI_LOG_FILE :: string where "INI_LOG_FILE = ''hi_kafka.log_file''"
definition INI_DRAIN_TIMEOUT_MS :: string where "INI_DRAIN_TIMEOUT_MS = ''hi_kafka.drain_timeout_ms''"
definition INI_METRICS_ADDR :: string where "INI_METRICS_ADDR = ''hi_kafka.metrics_addr''"
definition DEFAULT_LOG_LEVEL :: string where "DEFAULT_LOG_LEVEL = ''info''"
definition DEFAULT_LOG_FILE :: string where "DEFAULT_LOG_FILE = ''''"
definition DEFAULT_DRAIN_TIMEOUT_MS :: nat where "DEFAULT_DRAIN_TIMEOUT_MS = 10000"
definition DEFAULT_METRICS_ADDR :: string where "DEFAULT_METRICS_ADDR = ''''"

lemmas ini_names = INI_LOG_LEVEL_def INI_LOG_FILE_def INI_DRAIN_TIMEOUT_MS_def INI_METRICS_ADDR_def
lemmas ini_defaults = DEFAULT_LOG_LEVEL_def DEFAULT_LOG_FILE_def DEFAULT_DRAIN_TIMEOUT_MS_def DEFAULT_METRICS_ADDR_def

text \<open>The entries that are registered when the module starts, with their default values.\<close>

definition ini_register :: ini_values where
  "ini_register =
     [(INI_LOG_LEVEL, Some DEFAULT_LOG_LEVEL), (INI_LOG_FILE, Some DEFAULT_LOG_FILE),
      (INI_DRAIN_TIMEOUT_MS, Some (show_nat DEFAULT_DRAIN_TIMEOUT_MS)),
      (INI_METRICS_ADDR, Some DEFAULT_METRICS_ADDR)]"

definition ini_str :: "ini_values \<Rightarrow> string \<Rightarrow> string option" where
  "ini_str ini name =
     (case map_of ini name of
        Some (Some s) \<Rightarrow> if s = [] then None else Some s
      | _ \<Rightarrow> None)"

definition resolve_str :: "env_vars \<Rightarrow> ini_values \<Rightarrow> string \<Rightarrow> string \<Rightarrow> string \<Rightarrow> string" where
  "resolve_str env ini env_name ini_name dflt =
     (case env env_name of
        Some (c # v) \<Rightarrow> c # v
      | _ \<Rightarrow> (case ini_str ini ini_name of Some s \<Rightarrow> s | None \<Rightarrow> dflt))"

definition resolve_opt_str :: "env_vars \<Rightarrow> ini_values \<Rightarrow> string \<Rightarrow> string \<Rightarrow> string option" where
  "resolve_opt_str env ini env_name ini_name =
     (case env env_name of
        Some (c # v) \<Rightarrow> Some (c # v)
      | _ \<Rightarrow> ini_str ini ini_name)"

definition log_level :: "env_vars \<Rightarrow> ini_values \<Rightarrow> string" where
  "log_level env ini = resolve_str env ini ''HI_KAFKA_LOG_LEVEL'' INI_LOG_LEVEL DEFAULT_LOG_LEVEL"

definition log_file :: "env_vars \<Rightarrow> ini_values \<Rightarrow> string option" where
  "log_file env ini = resolve_opt_str env ini ''HI_KAFKA_LOG_FILE'' INI_LOG_FILE"

definition drain_timeout_ms :: "env_vars \<Rightarrow> ini_values \<Rightarrow> nat" where
  "drain_timeout_ms env ini =
     (case Option.bind (env ''HI_KAFKA_DRAIN_TIMEOUT_MS'') parse_u64 of
        Some n \<Rightarrow> n
      | None \<Rightarrow>
          (case Option.bind (ini_str ini INI_DRAIN_TIMEOUT_MS) parse_u64 of
             Some n \<Rightarrow> n
           | None \<Rightarrow> DEFAULT_DRAIN_TIMEOUT_MS))"

text \<open>\<open>parse_addr\<close> is \<open>SocketAddr::from_str\<close>.\<close>

definition metrics_addr :: "(string \<Rightarrow> 'addr option) \<Rightarrow> env_vars \<Rightarrow> ini_values \<Rightarrow> 'addr option" where
  "metrics_addr parse_addr env ini =
     Option.bind (resolve_opt_str env ini ''HI_KAFKA_METRICS_ADDR'' INI_METRICS_ADDR) parse_addr"

section \<open>The socket path\<close>

definition DEFAULT_SOCKET :: string where
  "DEFAULT_SOCKET = ''/tmp/hi-kafka.sock''"

definition resolve_socket :: "env_vars \<Rightarrow> string option \<Rightarrow> string" where
  "resolve_socket env socket =
     (case socket of
        Some (c # s) \<Rightarrow> c # s
      | _ \<Rightarrow> (case env ''HI_KAFKA_SOCKET'' of Some s \<Rightarrow> s | None \<Rightarrow> DEFAULT_SOCKET))"

section \<open>Laws\<close>

text \<open>An environment variable with a value wins over the ini entry, and that over the default.\<close>

lemma resolve_str_env: "env name = Some v \<Longrightarrow> v \<noteq> [] \<Longrightarrow> resolve_str env ini name entry dflt = v"
  by (cases v) (simp_all add: resolve_str_def)

lemma resolve_str_ini:
  "env name = None \<or> env name = Some [] \<Longrightarrow>
     resolve_str env ini name entry dflt = (case ini_str ini entry of Some s \<Rightarrow> s | None \<Rightarrow> dflt)"
  by (auto simp: resolve_str_def)

text \<open>A number that does not parse is passed over, at both places.\<close>

lemma drain_timeout_malformed:
  assumes "env ''HI_KAFKA_DRAIN_TIMEOUT_MS'' = Some v" and "parse_u64 v = None"
    and "ini_str ini INI_DRAIN_TIMEOUT_MS = Some s" and "parse_u64 s = None"
  shows "drain_timeout_ms env ini = DEFAULT_DRAIN_TIMEOUT_MS"
  using assms by (simp add: drain_timeout_ms_def)

lemma drain_timeout_bound: "drain_timeout_ms env ini < 2 ^ 64"
  by (auto simp: drain_timeout_ms_def DEFAULT_DRAIN_TIMEOUT_MS_def bind_eq_Some_conv
      dest!: parse_uint_bound split: option.splits)

text \<open>With the registered entries unchanged and no variables set, every setting has its default.\<close>

lemma registered_defaults:
  assumes "\<And>name. env name = None"
  shows "log_level env ini_register = DEFAULT_LOG_LEVEL" and "log_file env ini_register = None"
    and "drain_timeout_ms env ini_register = DEFAULT_DRAIN_TIMEOUT_MS"
    and "metrics_addr parse_addr env ini_register = None"
  by (simp_all add: assms log_level_def log_file_def drain_timeout_ms_def metrics_addr_def resolve_str_def
      resolve_opt_str_def ini_str_def ini_register_def ini_names ini_defaults parse_show_nat)

end
