(* ===== verification/Ext_Pool.thy ===== *)
theory Ext_Pool
  imports Ext_Protocol Ext_Config
begin

text \<open>
  \<open>ext/src/pool.rs\<close>: the pool of connections to a worker that a PHP process keeps per socket
  path. The operating system's sockets are a parameter: a record of the calls the code makes,
  over a world \<open>'w\<close> with connections \<open>'c\<close>. Times are in milliseconds.
\<close>

section \<open>Calls of the operating system\<close>

datatype io_kind =
    BrokenPipe
  | ConnectionReset
  | ConnectionRefused
  | ConnectionAborted
  | UnexpectedEof
  | WouldBlock
  | OtherIo nat

text \<open>
  \<open>os_nonblocking\<close> tells whether the mode was changed; \<open>os_read_one\<close> is a read into a buffer of one
  byte and gives the number of bytes read; \<open>os_write_all\<close> includes the flush; \<open>os_close\<close> is what dropping
  a stream does, used where closing it is what the code is about. The environment
  variables and the ini values of PHP do not change.
\<close>

record ('c, 'w) os_net =
  os_connect :: "string \<Rightarrow> 'w \<Rightarrow> (io_kind + 'c) \<times> 'w"
  os_nonblocking :: "'c \<Rightarrow> bool \<Rightarrow> 'w \<Rightarrow> bool \<times> 'w"
  os_read_one :: "'c \<Rightarrow> 'w \<Rightarrow> (io_kind + nat) \<times> 'w"
  os_write_timeout :: "'c \<Rightarrow> nat option \<Rightarrow> 'w \<Rightarrow> (io_kind + unit) \<times> 'w"
  os_read_timeout :: "'c \<Rightarrow> nat option \<Rightarrow> 'w \<Rightarrow> (io_kind + unit) \<times> 'w"
  os_write_all :: "'c \<Rightarrow> bytes \<Rightarrow> 'w \<Rightarrow> (io_kind + unit) \<times> 'w"
  os_read_exact :: "'c \<Rightarrow> nat \<Rightarrow> 'w \<Rightarrow> (io_kind + bytes) \<times> 'w"
  os_close :: "'c \<Rightarrow> 'w \<Rightarrow> 'w"
  os_io_text :: "io_kind \<Rightarrow> string"
  os_env :: env_vars
  os_ini :: ini_values

text \<open>
  Computations that change a state and may fail, and their sequencing with \<open>?\<close>.
\<close>

type_synonym ('s, 'e, 'a) act = "'s \<Rightarrow> ('e, 'a) outcome \<times> 's"

definition bind_act :: "('s, 'e, 'a) act \<Rightarrow> ('a \<Rightarrow> ('s, 'e, 'b) act) \<Rightarrow> ('s, 'e, 'b) act" where
  "bind_act m k s =
     (case m s of
        (Ok x, s') \<Rightarrow> k x s'
      | (Err e, s') \<Rightarrow> (Err e, s')
      | (Panic, s') \<Rightarrow> (Panic, s'))"

definition pure_act :: "('e, 'a) outcome \<Rightarrow> ('s, 'e, 'a) act" where
  "pure_act r s = (r, s)"

definition io_act :: "('w \<Rightarrow> (io_kind + 'a) \<times> 'w) \<Rightarrow> (io_kind \<Rightarrow> 'e) \<Rightarrow> ('w, 'e, 'a) act" where
  "io_act m f w =
     (case m w of (Inl e, w') \<Rightarrow> (Err (f e), w') | (Inr x, w') \<Rightarrow> (Ok x, w'))"

lemma bind_act_Ok_iff:
  "bind_act m k s = (Ok y, s') \<longleftrightarrow> (\<exists>x s1. m s = (Ok x, s1) \<and> k x s1 = (Ok y, s'))"
  by (auto simp: bind_act_def split: prod.splits outcome.splits)

lemma bind_act_Err_iff:
  "bind_act m k s = (Err e, s') \<longleftrightarrow>
     m s = (Err e, s') \<or> (\<exists>x s1. m s = (Ok x, s1) \<and> k x s1 = (Err e, s'))"
  by (auto simp: bind_act_def split: prod.splits outcome.splits)

lemma io_act_Ok_iff: "io_act m f w = (Ok x, w') \<longleftrightarrow> m w = (Inr x, w')"
  by (auto simp: io_act_def split: prod.splits sum.splits)

lemma io_act_Err_iff: "io_act m f w = (Err e, w') \<longleftrightarrow> (\<exists>x. m w = (Inl x, w') \<and> e = f x)"
  by (auto simp: io_act_def split: prod.splits sum.splits)

lemmas act_iffs = bind_act_Ok_iff bind_act_Err_iff io_act_Ok_iff io_act_Err_iff

section \<open>State\<close>

record pool_stats =
  sts_acquires_total :: u64
  sts_hits_total :: u64
  sts_misses_total :: u64
  sts_closed_total :: u64
  sts_poisoned_total :: u64

definition pool_stats_zero :: pool_stats where
  "pool_stats_zero =
     \<lparr>sts_acquires_total = 0, sts_hits_total = 0, sts_misses_total = 0, sts_closed_total = 0,
      sts_poisoned_total = 0\<rparr>"

text \<open>The idle connections are a stack; the head of the list is the one pushed last.\<close>

record 'c conn_pool =
  pl_max_idle :: nat
  pl_idle :: "'c list"
  pl_stats :: pool_stats

datatype pool_error = PoolConnect string io_kind | PoolHandshake string string

fun pool_error_display :: "(io_kind \<Rightarrow> string) \<Rightarrow> pool_error \<Rightarrow> string" where
  "pool_error_display io_text (PoolConnect socket e) = ''connect '' @ socket @ '': '' @ io_text e"
| "pool_error_display io_text (PoolHandshake socket reason) = ''handshake '' @ socket @ '': '' @ reason"

definition DEFAULT_MAX_IDLE :: nat where
  "DEFAULT_MAX_IDLE = 16"

definition pool_new :: "nat \<Rightarrow> 'c conn_pool" where
  "pool_new max_idle = \<lparr>pl_max_idle = max_idle, pl_idle = [], pl_stats = pool_stats_zero\<rparr>"

section \<open>Operations\<close>

definition conn_is_alive :: "('c, 'w, 'z) os_net_scheme \<Rightarrow> 'c \<Rightarrow> 'w \<Rightarrow> bool \<times> 'w" where
  "conn_is_alive os c w =
     (case os_nonblocking os c True w of
        (False, w1) \<Rightarrow> (False, w1)
      | (True, w1) \<Rightarrow>
          (case os_read_one os c w1 of
             (r, w2) \<Rightarrow> (r = Inl WouldBlock, snd (os_nonblocking os c False w2))))"

definition client_handshake :: "('c, 'w, 'z) os_net_scheme \<Rightarrow> 'c \<Rightarrow> ('w, string, unit) act" where
  "client_handshake os c =
     bind_act (pure_act build_hello_frame) (\<lambda>frame.
     bind_act (io_act (os_write_timeout os c (Some 2000)) (\<lambda>e. ''set_write_timeout: '' @ os_io_text os e)) (\<lambda>_.
     bind_act (io_act (os_write_all os c frame) (\<lambda>e. ''write HELLO: '' @ os_io_text os e)) (\<lambda>_.
     bind_act (io_act (os_read_timeout os c (Some 2000)) (\<lambda>e. ''set_read_timeout: '' @ os_io_text os e)) (\<lambda>_.
     bind_act (io_act (os_read_exact os c HEADER_LEN) (\<lambda>e. ''read HELLO RESP header: '' @ os_io_text os e)) (\<lambda>hdr.
     bind_act (io_act (os_read_exact os c (be_nat (take 4 hdr)))
       (\<lambda>e. ''read HELLO RESP payload: '' @ os_io_text os e)) (\<lambda>payload.
     bind_act (pure_act (parse_hello_resp (hdr @ payload))) (\<lambda>_.
     (\<lambda>w. (Ok (), snd (os_read_timeout os c None (snd (os_write_timeout os c None w))))))))))))"

text \<open>Popping idle connections until one is alive.\<close>

fun acquire_idle ::
  "('c, 'w, 'z) os_net_scheme \<Rightarrow> 'c list \<Rightarrow> pool_stats \<Rightarrow> 'w \<Rightarrow> 'c option \<times> 'c list \<times> pool_stats \<times> 'w" where
  "acquire_idle os [] st w = (None, [], st, w)"
| "acquire_idle os (c # cs) st w =
     (case conn_is_alive os c w of
        (True, w1) \<Rightarrow> (Some c, cs, st\<lparr>sts_hits_total := sts_hits_total st + 1\<rparr>, w1)
      | (False, w1) \<Rightarrow> acquire_idle os cs (st\<lparr>sts_closed_total := sts_closed_total st + 1\<rparr>) w1)"

definition acquire ::
  "('c, 'w, 'z) os_net_scheme \<Rightarrow> string \<Rightarrow> ('c conn_pool \<times> 'w, pool_error, 'c) act" where
  "acquire os socket pw =
     (let (p, w) = pw;
          st = (pl_stats p)\<lparr>sts_acquires_total := sts_acquires_total (pl_stats p) + 1\<rparr> in
      case acquire_idle os (pl_idle p) st w of
        (Some c, cs, st1, w1) \<Rightarrow> (Ok c, p\<lparr>pl_idle := cs, pl_stats := st1\<rparr>, w1)
      | (None, cs, st1, w1) \<Rightarrow>
          let p1 = p\<lparr>pl_idle := cs, pl_stats := st1\<lparr>sts_misses_total := sts_misses_total st1 + 1\<rparr>\<rparr> in
          case os_connect os socket w1 of
            (Inl e, w2) \<Rightarrow> (Err (PoolConnect socket e), p1, w2)
          | (Inr c, w2) \<Rightarrow>
              (case client_handshake os c w2 of
                 (Ok _, w3) \<Rightarrow> (Ok c, p1, w3)
               | (Err reason, w3) \<Rightarrow> (Err (PoolHandshake socket reason), p1, w3)
               | (Panic, w3) \<Rightarrow> (Panic, p1, w3)))"

definition release :: "'c \<Rightarrow> 'c conn_pool \<Rightarrow> 'c conn_pool" where
  "release c p = (if length (pl_idle p) < pl_max_idle p then p\<lparr>pl_idle := c # pl_idle p\<rparr> else p)"

definition clear_idle :: "'c conn_pool \<Rightarrow> 'c conn_pool" where
  "clear_idle p = p\<lparr>pl_idle := []\<rparr>"

definition poison :: "'c conn_pool \<Rightarrow> 'c conn_pool" where
  "poison p =
     p\<lparr>pl_stats := (pl_stats p)\<lparr>sts_poisoned_total := sts_poisoned_total (pl_stats p) + 1\<rparr>\<rparr>"

text \<open>Dropping a connection: back to the pool unless it is poisoned.\<close>

definition drop_conn :: "bool \<Rightarrow> 'c \<Rightarrow> 'c conn_pool \<Rightarrow> 'c conn_pool" where
  "drop_conn poisoned c p = (if poisoned then p else release c p)"

section \<open>The pools of the process\<close>

type_synonym 'c pools = "(string, 'c conn_pool) hmap"

definition pool_size :: "env_vars \<Rightarrow> nat" where
  "pool_size env =
     (case Option.bind (env ''HI_KAFKA_POOL_SIZE'') parse_u64 of
        Some n \<Rightarrow> if n > 0 then n else DEFAULT_MAX_IDLE
      | None \<Rightarrow> DEFAULT_MAX_IDLE)"

definition pool_for :: "env_vars \<Rightarrow> string \<Rightarrow> 'c pools \<Rightarrow> 'c conn_pool \<times> 'c pools" where
  "pool_for env socket pools =
     (case map_of pools socket of
        Some p \<Rightarrow> (p, pools)
      | None \<Rightarrow> let p = pool_new (pool_size env) in (p, AList.update socket p pools))"

definition all_stats :: "'c pools \<Rightarrow> (string \<times> pool_stats \<times> nat \<times> nat) list" where
  "all_stats pools = map (\<lambda>(path, p). (path, pl_stats p, length (pl_idle p), pl_max_idle p)) pools"

definition socket_paths :: "'c pools \<Rightarrow> string list" where
  "socket_paths pools = map fst pools"

definition close_idle :: "string \<Rightarrow> 'c pools \<Rightarrow> 'c pools" where
  "close_idle socket pools =
     (case map_of pools socket of None \<Rightarrow> pools | Some p \<Rightarrow> AList.update socket (clear_idle p) pools)"

lemma pool_size_pos: "0 < pool_size env"
  by (auto simp: pool_size_def DEFAULT_MAX_IDLE_def split: option.splits)

section \<open>Invariant\<close>

text \<open>
  The pool keeps at most \<open>max_idle\<close> connections, and every acquisition is counted as a hit or as
  a miss.
\<close>

definition pool_inv :: "'c conn_pool \<Rightarrow> bool" where
  "pool_inv p \<longleftrightarrow>
     length (pl_idle p) \<le> pl_max_idle p
     \<and> sts_acquires_total (pl_stats p) = sts_hits_total (pl_stats p) + sts_misses_total (pl_stats p)"

lemma acquire_idle_laws:
  "acquire_idle os cs st w = (c, cs', st', w') \<Longrightarrow>
     (\<exists>closed. cs = closed @ (case c of Some x \<Rightarrow> [x] | None \<Rightarrow> []) @ cs')
     \<and> sts_acquires_total st' = sts_acquires_total st \<and> sts_misses_total st' = sts_misses_total st
     \<and> sts_hits_total st' = sts_hits_total st + (if c = None then 0 else 1) \<and> (c = None \<longrightarrow> cs' = [])"
proof (induction cs arbitrary: st w)
  case (Cons x xs)
  show ?case
  proof (cases "conn_is_alive os x w")
    case (Pair alive w1)
    show ?thesis
    proof (cases alive)
      case True
      with Cons.prems Pair show ?thesis by (auto intro: exI [of _ "[]"])
    next
      case False
      with Cons.prems Pair
      have "acquire_idle os xs (st\<lparr>sts_closed_total := sts_closed_total st + 1\<rparr>) w1 = (c, cs', st', w')" by simp
      from Cons.IH [OF this] show ?thesis by (auto intro: exI [of _ "x # _"])
    qed
  qed
qed auto

lemma pool_new_inv: "pool_inv (pool_new n)"
  by (simp add: pool_inv_def pool_new_def pool_stats_zero_def)

lemma acquire_inv:
  assumes "pool_inv p"
  shows "pool_inv (fst (snd (acquire os socket (p, w))))"
proof -
  let ?st = "(pl_stats p)\<lparr>sts_acquires_total := sts_acquires_total (pl_stats p) + 1\<rparr>"
  obtain c cs st1 w1 where a: "acquire_idle os (pl_idle p) ?st w = (c, cs, st1, w1)" by (metis prod_cases4)
  note laws = acquire_idle_laws [OF a]
  then have "length cs \<le> length (pl_idle p)" by (auto split: option.splits)
  with laws assms a show ?thesis
    by (auto simp: acquire_def Let_def pool_inv_def split: option.splits sum.splits prod.splits outcome.splits)
qed

lemma drop_conn_inv: "pool_inv p \<Longrightarrow> pool_inv (drop_conn poisoned c p)"
  by (simp add: pool_inv_def drop_conn_def release_def)

lemma poison_inv: "pool_inv p \<Longrightarrow> pool_inv (poison p)"
  by (simp add: pool_inv_def poison_def)

lemma clear_idle_inv: "pool_inv p \<Longrightarrow> pool_inv (clear_idle p)"
  by (simp add: pool_inv_def clear_idle_def)

end
