(* ===== verification/Ext_Spawn.thy ===== *)
theory Ext_Spawn
  imports Ext_Pool
begin

text \<open>
  \<open>ext/src/spawn.rs\<close>: starting a worker. The calls that this adds to those of the pool are further
  fields of the record of the operating system: the clock in milliseconds, sleeping, the lock
  file, \<open>/proc/self/status\<close>, and \<open>fork\<close> as the parent sees it (the child runs \<open>worker_entry.rs\<close>).
  Socket paths name a file: \<open>set_file_name\<close> with a longer name appends to them.
\<close>

section \<open>Configuration\<close>

record child_config =
  cf_socket :: string
  cf_brokers :: "string option"
  cf_log_level :: string
  cf_log_file :: "string option"
  cf_drain_timeout :: nat
  cf_metrics_addr :: "string option"

record spawn_config =
  sc_socket :: string
  sc_brokers :: "string option"
  sc_log_level :: string
  sc_log_file :: "string option"
  sc_drain_timeout :: nat
  sc_ready_timeout :: nat

text \<open>\<open>os_parse_addr\<close> is \<open>SocketAddr::from_str\<close>; an address stands for its printed form.\<close>

record ('c, 'w) os_proc = "('c, 'w) os_net" +
  os_parse_addr :: "string \<Rightarrow> string option"
  os_now :: "'w \<Rightarrow> nat \<times> 'w"
  os_sleep :: "nat \<Rightarrow> 'w \<Rightarrow> 'w"
  os_create_parent :: "string \<Rightarrow> 'w \<Rightarrow> (io_kind + unit) \<times> 'w"
  os_open_lock :: "string \<Rightarrow> 'w \<Rightarrow> (io_kind + unit) \<times> 'w"
  os_flock_nb :: "string \<Rightarrow> 'w \<Rightarrow> bool \<times> 'w"
  os_close_lock :: "string \<Rightarrow> 'w \<Rightarrow> 'w"
  os_proc_status :: "'w \<Rightarrow> string option"
  os_fork :: "child_config \<Rightarrow> 'w \<Rightarrow> (io_kind + unit) \<times> 'w"

definition spawn_from_env :: "('c, 'w) os_proc \<Rightarrow> string \<Rightarrow> spawn_config" where
  "spawn_from_env os socket =
     \<lparr>sc_socket = socket, sc_brokers = os_env os ''HI_KAFKA_BROKERS'',
      sc_log_level = log_level (os_env os) (os_ini os), sc_log_file = log_file (os_env os) (os_ini os),
      sc_drain_timeout = drain_timeout_ms (os_env os) (os_ini os), sc_ready_timeout = 5000\<rparr>"

definition to_child_config :: "('c, 'w) os_proc \<Rightarrow> spawn_config \<Rightarrow> child_config" where
  "to_child_config os cfg =
     \<lparr>cf_socket = sc_socket cfg, cf_brokers = sc_brokers cfg, cf_log_level = sc_log_level cfg,
      cf_log_file = sc_log_file cfg, cf_drain_timeout = sc_drain_timeout cfg,
      cf_metrics_addr = metrics_addr (os_parse_addr os) (os_env os) (os_ini os)\<rparr>"

section \<open>Errors\<close>

datatype spawn_error =
    ForkFailed io_kind
  | NotReady nat
  | CreateLockFile io_kind
  | MultiThreadedFork nat

fun spawn_error_display :: "(io_kind \<Rightarrow> string) \<Rightarrow> spawn_error \<Rightarrow> string" where
  "spawn_error_display io_text (ForkFailed e) = ''fork failed: '' @ io_text e"
| "spawn_error_display io_text (NotReady timeout_ms) =
     ''worker did not become ready in '' @ show_nat timeout_ms @ ''ms''"
| "spawn_error_display io_text (CreateLockFile e) = ''create spawn lock file: '' @ io_text e"
| "spawn_error_display io_text (MultiThreadedFork n) =
     ''refusing fork in multi-threaded process (threads='' @ show_nat n
       @ '', HI_KAFKA_STRICT_FORK=1). Call Hi'' @ [CHR 0x5C] @ ''Kafka'' @ [CHR 0x5C]
       @ ''Client::ensureWorker() BEFORE starting Swoole/Swow reactor or any SDK that spawns background threads''"

datatype spawn_outcome = AlreadyAlive | JustSpawned

section \<open>The number of threads\<close>

text \<open>
  \<open>str::lines\<close>, \<open>strip_prefix\<close> and \<open>trim\<close> on the text of \<open>/proc/self/status\<close>, which is ASCII. The carriage
  return that \<open>lines\<close> also removes is white space that \<open>trim\<close> removes.
\<close>

fun text_lines :: "string \<Rightarrow> string list" where
  "text_lines [] = []"
| "text_lines (c # cs) =
     (let s = c # cs; l = takeWhile (\<lambda>x. x \<noteq> CHR 0x0A) s in l # text_lines (drop (Suc (length l)) s))"

definition strip_prefix :: "string \<Rightarrow> string \<Rightarrow> string option" where
  "strip_prefix p s = (if take (length p) s = p then Some (drop (length p) s) else None)"

definition is_space :: "char \<Rightarrow> bool" where
  "is_space c \<longleftrightarrow> c = CHR '' '' \<or> (9 \<le> (of_char c :: nat) \<and> (of_char c :: nat) \<le> 13)"

definition trim :: "string \<Rightarrow> string" where
  "trim s = rev (dropWhile is_space (rev (dropWhile is_space s)))"

fun threads_of_lines :: "string list \<Rightarrow> nat" where
  "threads_of_lines [] = 1"
| "threads_of_lines (l # ls) =
     (case Option.bind (strip_prefix ''Threads:'' l) (\<lambda>rest. parse_u64 (trim rest)) of
        Some n \<Rightarrow> max n 1
      | None \<Rightarrow> threads_of_lines ls)"

definition current_thread_count :: "('c, 'w) os_proc \<Rightarrow> 'w \<Rightarrow> nat" where
  "current_thread_count os w =
     (case os_proc_status os w of Some s \<Rightarrow> threads_of_lines (text_lines s) | None \<Rightarrow> 1)"

section \<open>Starting and waiting\<close>

definition worker_alive :: "('c, 'w) os_proc \<Rightarrow> string \<Rightarrow> 'w \<Rightarrow> bool \<times> 'w" where
  "worker_alive os socket w =
     (case os_connect os socket w of (Inr _, w') \<Rightarrow> (True, w') | (Inl _, w') \<Rightarrow> (False, w'))"

definition lock_path_for :: "string \<Rightarrow> string" where
  "lock_path_for socket = socket @ ''.spawn-lock''"

definition strict_fork :: "env_vars \<Rightarrow> bool" where
  "strict_fork env = (case env ''HI_KAFKA_STRICT_FORK'' of Some v \<Rightarrow> v \<noteq> ''0'' \<and> v \<noteq> [] | None \<Rightarrow> False)"

definition spawn_worker_inproc :: "('c, 'w) os_proc \<Rightarrow> spawn_config \<Rightarrow> ('w, spawn_error, unit) act" where
  "spawn_worker_inproc os cfg w =
     (let n = current_thread_count os w in
      if n > 1 \<and> strict_fork (os_env os) then (Err (MultiThreadedFork n), w)
      else io_act (os_fork os (to_child_config os cfg)) ForkFailed w)"

text \<open>
  The loop of \<open>wait_for_socket\<close>, with fuel. Running out of fuel is \<open>Panic\<close>; lemma \<open>wait_returns\<close> shows that
  it does not happen with the fuel of \<open>ensure_worker\<close>, if the clock goes on while the loop sleeps.
\<close>

fun wait_for_socket :: "nat \<Rightarrow> ('c, 'w) os_proc \<Rightarrow> string \<Rightarrow> nat \<Rightarrow> ('w, spawn_error, unit) act" where
  "wait_for_socket 0 os socket deadline w = (Panic, w)"
| "wait_for_socket (Suc k) os socket deadline w =
     (case os_now os w of
        (t, w1) \<Rightarrow>
          if t < deadline then
            (case worker_alive os socket w1 of
               (True, w2) \<Rightarrow> (Ok (), w2)
             | (False, w2) \<Rightarrow> wait_for_socket k os socket deadline (os_sleep os 30 w2))
          else
            (case os_now os w1 of (t2, w2) \<Rightarrow> (Err (NotReady (t2 - deadline)), w2)))"

definition wait_fuel :: "spawn_config \<Rightarrow> nat" where
  "wait_fuel cfg = sc_ready_timeout cfg div 30 + 2"

text \<open>The part of \<open>ensure_worker\<close> while the lock file is open; it is closed on every way out.\<close>

definition spawn_locked :: "('c, 'w) os_proc \<Rightarrow> spawn_config \<Rightarrow> ('w, spawn_error, unit) act" where
  "spawn_locked os cfg w =
     (let lock = lock_path_for (sc_socket cfg) in
      case os_flock_nb os lock w of
        (got_lock, w1) \<Rightarrow>
          (case os_now os w1 of
             (t, w2) \<Rightarrow>
               (let deadline = t + sc_ready_timeout cfg;
                    wait = wait_for_socket (wait_fuel cfg) os (sc_socket cfg) deadline in
                case (if got_lock then bind_act (spawn_worker_inproc os cfg) (\<lambda>_. wait) w2 else wait w2) of
                  (r, w3) \<Rightarrow> (r, os_close_lock os lock w3))))"

definition ensure_worker :: "('c, 'w) os_proc \<Rightarrow> spawn_config \<Rightarrow> ('w, spawn_error, spawn_outcome) act" where
  "ensure_worker os cfg w =
     (case worker_alive os (sc_socket cfg) w of
        (True, w1) \<Rightarrow> (Ok AlreadyAlive, w1)
      | (False, w1) \<Rightarrow>
          bind_act (io_act (os_create_parent os (lock_path_for (sc_socket cfg))) CreateLockFile) (\<lambda>_.
          bind_act (io_act (os_open_lock os (lock_path_for (sc_socket cfg))) CreateLockFile) (\<lambda>_.
          bind_act (spawn_locked os cfg) (\<lambda>_.
          pure_act (Ok JustSpawned)))) w1)"

section \<open>Laws\<close>

text \<open>
  What the loop relies on: the clock does not go back, and sleeping for a time takes at least
  that time.
\<close>

definition clock_ms :: "('c, 'w) os_proc \<Rightarrow> 'w \<Rightarrow> nat" where
  "clock_ms os w = fst (os_now os w)"

definition steady_clock :: "('c, 'w) os_proc \<Rightarrow> bool" where
  "steady_clock os \<longleftrightarrow>
     (\<forall>w. clock_ms os w \<le> clock_ms os (snd (os_now os w)))
     \<and> (\<forall>w cfg. clock_ms os w \<le> clock_ms os (snd (os_fork os cfg w)))
     \<and> (\<forall>w socket. clock_ms os w \<le> clock_ms os (snd (worker_alive os socket w)))
     \<and> (\<forall>w ms. clock_ms os w + ms \<le> clock_ms os (os_sleep os ms w))"

lemma steady_clockD:
  assumes "steady_clock os"
  shows "clock_ms os w \<le> clock_ms os (snd (os_now os w))"
    and "clock_ms os w \<le> clock_ms os (snd (os_fork os cfg w))"
    and "clock_ms os w \<le> clock_ms os (snd (worker_alive os socket w))"
    and "clock_ms os w + ms \<le> clock_ms os (os_sleep os ms w)"
  using assms by (simp_all add: steady_clock_def)

lemma steady_turn:
  assumes "steady_clock os"
  shows "clock_ms os w + 30 \<le> clock_ms os (os_sleep os 30 (snd (worker_alive os socket (snd (os_now os w)))))"
proof -
  let ?w1 = "snd (os_now os w)" and ?w2 = "snd (worker_alive os socket (snd (os_now os w)))"
  have "clock_ms os w \<le> clock_ms os ?w1" "clock_ms os ?w1 \<le> clock_ms os ?w2"
    "clock_ms os ?w2 + 30 \<le> clock_ms os (os_sleep os 30 ?w2)"
    by (intro steady_clockD [OF assms])+
  then show ?thesis by linarith
qed

lemma wait_for_socket_Suc:
  "wait_for_socket (Suc k) os socket deadline w =
     (let w1 = snd (os_now os w); a = worker_alive os socket w1 in
      if clock_ms os w < deadline
      then if fst a then (Ok (), snd a) else wait_for_socket k os socket deadline (os_sleep os 30 (snd a))
      else (Err (NotReady (clock_ms os w1 - deadline)), snd (os_now os w1)))"
  by (simp add: clock_ms_def Let_def case_prod_beta split: prod.split)

declare wait_for_socket.simps(2) [simp del]

lemma spawn_locked_alt:
  "spawn_locked os cfg w =
     (let f = os_flock_nb os (lock_path_for (sc_socket cfg)) w;
          wait = wait_for_socket (wait_fuel cfg) os (sc_socket cfg) (clock_ms os (snd f) + sc_ready_timeout cfg);
          w2 = snd (os_now os (snd f));
          r = (if fst f then bind_act (spawn_worker_inproc os cfg) (\<lambda>_. wait) w2 else wait w2) in
      (fst r, os_close_lock os (lock_path_for (sc_socket cfg)) (snd r)))"
  by (simp add: spawn_locked_def clock_ms_def Let_def case_prod_beta)

lemma wait_returns:
  assumes "steady_clock os" and "deadline \<le> clock_ms os w + 30 * k"
  shows "fst (wait_for_socket (Suc k) os socket deadline w) \<noteq> Panic"
  using assms(2)
proof (induction k arbitrary: w)
  case 0
  then show ?case by (subst wait_for_socket_Suc) (simp add: Let_def)
next
  case (Suc k)
  have "deadline \<le> clock_ms os (os_sleep os 30 (snd (worker_alive os socket (snd (os_now os w))))) + 30 * k"
    using steady_turn [OF assms(1), of w socket] Suc.prems by simp
  from Suc.IH [OF this] show ?case by (subst wait_for_socket_Suc) (simp add: Let_def)
qed

lemma spawn_locked_returns:
  assumes "steady_clock os"
  shows "fst (spawn_locked os cfg w) \<noteq> Panic"
proof -
  define w1 where "w1 = snd (os_flock_nb os (lock_path_for (sc_socket cfg)) w)"
  define deadline where "deadline = clock_ms os w1 + sc_ready_timeout cfg"
  have wait: "fst (wait_for_socket (wait_fuel cfg) os (sc_socket cfg) deadline v) \<noteq> Panic"
    if "clock_ms os w1 \<le> clock_ms os v" for v
    using wait_returns [OF assms, of deadline v "sc_ready_timeout cfg div 30 + 1"] that
    by (simp add: wait_fuel_def deadline_def)
  have "clock_ms os w1 \<le> clock_ms os (snd (os_now os w1))" by (rule steady_clockD [OF assms])
  moreover have "clock_ms os w1 \<le> clock_ms os (snd (os_fork os c (snd (os_now os w1))))" for c
    using steady_clockD(1,2) [OF assms] order_trans by blast
  ultimately show ?thesis
    using wait
    by (auto simp: spawn_locked_def Let_def case_prod_beta w1_def [symmetric] clock_ms_def [symmetric]
        deadline_def [symmetric] bind_act_def spawn_worker_inproc_def io_act_def
        split: sum.splits outcome.splits)
qed

lemma bind_act_not_Panic:
  "fst (m s) \<noteq> Panic \<Longrightarrow> (\<And>x s'. m s = (Ok x, s') \<Longrightarrow> fst (k x s') \<noteq> Panic) \<Longrightarrow> fst (bind_act m k s) \<noteq> Panic"
  by (auto simp: bind_act_def split: prod.splits outcome.splits)

lemma io_act_not_Panic [simp]: "fst (io_act m f w) \<noteq> Panic"
  by (auto simp: io_act_def split: prod.splits sum.splits)

lemma ensure_worker_no_panic:
  assumes "steady_clock os"
  shows "fst (ensure_worker os cfg w) \<noteq> Panic"
proof (cases "worker_alive os (sc_socket cfg) w")
  case (Pair a w1)
  then show ?thesis
    by (cases a)
      (simp_all add: ensure_worker_def pure_act_def bind_act_not_Panic spawn_locked_returns [OF assms])
qed

text \<open>
  Making sure that a worker runs comes to an end: with a clock that goes on, the loop that
  waits for the socket ends within the turns the model grants it.
\<close>
lemma ensure_worker_returns:
  assumes "steady_clock os"
  shows "fst (ensure_worker os cfg w) \<noteq> Panic"
  using assms by (rule ensure_worker_no_panic)

text \<open>A machine whose clock only moves while a process sleeps, and on which no worker starts.\<close>

definition dead_os :: "(nat, nat) os_proc" where
  "dead_os =
     \<lparr>os_connect = (\<lambda>_ w. (Inl ConnectionRefused, w)), os_nonblocking = (\<lambda>_ _ w. (True, w)),
      os_read_one = (\<lambda>_ w. (Inl WouldBlock, w)), os_write_timeout = (\<lambda>_ _ w. (Inr (), w)),
      os_read_timeout = (\<lambda>_ _ w. (Inr (), w)), os_write_all = (\<lambda>_ _ w. (Inr (), w)),
      os_read_exact = (\<lambda>_ _ w. (Inl UnexpectedEof, w)), os_close = (\<lambda>_ w. w), os_io_text = (\<lambda>_. []),
      os_env = (\<lambda>_. None), os_ini = [],
      os_parse_addr = (\<lambda>_. None), os_now = (\<lambda>w. (w, w)), os_sleep = (\<lambda>ms w. w + ms),
      os_create_parent = (\<lambda>_ w. (Inr (), w)), os_open_lock = (\<lambda>_ w. (Inr (), w)),
      os_flock_nb = (\<lambda>_ w. (True, w)), os_close_lock = (\<lambda>_ w. w), os_proc_status = (\<lambda>_. None),
      os_fork = (\<lambda>_ w. (Inr (), w))\<rparr>"

lemma dead_os_steady: "steady_clock dead_os"
  by (simp add: steady_clock_def clock_ms_def dead_os_def worker_alive_def)

section \<open>What the error reports\<close>

text \<open>
  A clock on which reading, connecting and forking take no time and sleeping takes exactly the
  time asked for.
\<close>

definition exact_clock :: "('c, 'w) os_proc \<Rightarrow> bool" where
  "exact_clock os \<longleftrightarrow>
     (\<forall>w. clock_ms os (snd (os_now os w)) = clock_ms os w)
     \<and> (\<forall>w cfg. clock_ms os (snd (os_fork os cfg w)) = clock_ms os w)
     \<and> (\<forall>w socket. clock_ms os (snd (worker_alive os socket w)) = clock_ms os w)
     \<and> (\<forall>w ms. clock_ms os (os_sleep os ms w) = clock_ms os w + ms)"

lemma exact_steady: "exact_clock os \<Longrightarrow> steady_clock os"
  by (simp add: exact_clock_def steady_clock_def)

lemma wait_not_ready:
  assumes "exact_clock os" and "clock_ms os w < deadline + 30"
    and "wait_for_socket k os socket deadline w = (Err (NotReady n), w')"
  shows "n < 30"
  using assms(2,3)
proof (induction k arbitrary: w)
  case (Suc k)
  define w2 where "w2 = snd (worker_alive os socket (snd (os_now os w)))"
  have t: "clock_ms os (os_sleep os 30 w2) = clock_ms os w + 30" "clock_ms os (snd (os_now os w)) = clock_ms os w"
    using assms(1) by (simp_all add: exact_clock_def w2_def)
  show ?case
  proof (cases "clock_ms os w < deadline")
    case True
    with Suc.prems(2) have "wait_for_socket k os socket deadline (os_sleep os 30 w2) = (Err (NotReady n), w')"
      by (simp add: wait_for_socket_Suc w2_def Let_def split: if_splits)
    from Suc.IH [OF _ this] True t show ?thesis by simp
  next
    case False
    with Suc.prems t show ?thesis by (auto simp: wait_for_socket_Suc Let_def)
  qed
qed simp

text \<open>
  When the worker does not start in time, the error does not say how long was waited: the
  number in "did not become ready in \<open>n\<close>ms" is the time since the deadline, less than one turn of
  the loop, however long the timeout was.
\<close>
lemma not_ready_reports_overshoot:
  assumes "exact_clock os" and "ensure_worker os cfg w = (Err (NotReady n), w')"
  shows "n < 30"
proof -
  obtain w1 where locked: "spawn_locked os cfg w1 = (Err (NotReady n), w')"
    using assms(2) by (auto simp: ensure_worker_def pure_act_def act_iffs split: prod.splits bool.splits)
  define v where "v = snd (os_flock_nb os (lock_path_for (sc_socket cfg)) w1)"
  define deadline where "deadline = clock_ms os v + sc_ready_timeout cfg"
  define u where "u = snd (os_now os v)"
  have no_wait: "n < 30"
    if "wait_for_socket k os (sc_socket cfg) deadline x = (Err (NotReady n), y)" and "clock_ms os x = clock_ms os v"
    for k x y
    using wait_not_ready [OF assms(1) _ that(1)] that(2) by (simp add: deadline_def)
  have clk: "clock_ms os u = clock_ms os v" "clock_ms os (snd (os_fork os c u)) = clock_ms os v" for c
    using assms(1) by (simp_all add: exact_clock_def u_def)
  show ?thesis
  proof (cases "fst (os_flock_nb os (lock_path_for (sc_socket cfg)) w1)")
    case True
    with locked obtain y where
      "bind_act (spawn_worker_inproc os cfg)
         (\<lambda>_. wait_for_socket (wait_fuel cfg) os (sc_socket cfg) deadline) u = (Err (NotReady n), y)"
      by (auto simp: spawn_locked_alt Let_def v_def [symmetric] deadline_def [symmetric] u_def [symmetric]
          prod_eq_iff)
    then have "wait_for_socket (wait_fuel cfg) os (sc_socket cfg) deadline
        (snd (os_fork os (to_child_config os cfg) u)) = (Err (NotReady n), y)"
      by (auto simp: spawn_worker_inproc_def Let_def act_iffs split: if_splits)
    from no_wait [OF this clk(2)] show ?thesis .
  next
    case False
    with locked obtain y where
      "wait_for_socket (wait_fuel cfg) os (sc_socket cfg) deadline u = (Err (NotReady n), y)"
      by (auto simp: spawn_locked_alt Let_def v_def [symmetric] deadline_def [symmetric] u_def [symmetric]
          prod_eq_iff)
    from no_wait [OF this clk(1)] show ?thesis .
  qed
qed

end
