(* ===== verification/Worker_Error.thy ===== *)
theory Worker_Error
  imports Proto_Error
begin

text \<open>
  \<open>worker/src/error.rs\<close> and the error mapping at the end of \<open>worker/src/producer/real.rs\<close>: the
  structured error of the worker, how it is found again in an \<open>anyhow\<close> error chain, and how a
  delivery error of librdkafka becomes an error kind.
\<close>

section \<open>Errors and chains\<close>

record worker_error =
  we_kind :: error_kind
  we_retryable :: bool
  we_native_code :: i32
  we_message :: string

text \<open>
  An \<open>anyhow::Error\<close> is its chain of causes, outermost first: a cause is a \<open>WorkerError\<close> or
  any other error, of which only its text matters here. \<open>.context(c)\<close> puts \<open>c\<close> in front.
\<close>

datatype cause = CWorker worker_error | CMsg string

type_synonym anyhow = "cause list"

definition worker_error_new :: "error_kind \<Rightarrow> string \<Rightarrow> worker_error" where
  "worker_error_new kind message =
     \<lparr>we_kind = kind, we_retryable = default_retryable kind, we_native_code = 0, we_message = message\<rparr>"

definition to_error_resp :: "worker_error \<Rightarrow> error_resp" where
  "to_error_resp e =
     \<lparr>er_kind = we_kind e, er_retryable = we_retryable e, er_native_code = we_native_code e,
      er_message = we_message e\<rparr>"

definition worker_error_display :: "worker_error \<Rightarrow> string" where
  "worker_error_display e = ''['' @ error_kind_as_str (we_kind e) @ ''] '' @ we_message e"

fun cause_display :: "cause \<Rightarrow> string" where
  "cause_display (CWorker e) = worker_error_display e"
| "cause_display (CMsg s) = s"

text \<open>The alternate \<open>Display\<close> of \<open>anyhow::Error\<close> (\<open>{:#}\<close>) joins the chain with \<open>": "\<close>.\<close>

fun chain_display :: "anyhow \<Rightarrow> string" where
  "chain_display [] = []"
| "chain_display [c] = cause_display c"
| "chain_display (c # cs) = cause_display c @ '': '' @ chain_display cs"

fun from_anyhow_loop :: "anyhow \<Rightarrow> error_resp option" where
  "from_anyhow_loop [] = None"
| "from_anyhow_loop (CWorker e # cs) = Some (to_error_resp e)"
| "from_anyhow_loop (CMsg s # cs) = from_anyhow_loop cs"

definition from_anyhow :: "anyhow \<Rightarrow> error_resp" where
  "from_anyhow err =
     (case from_anyhow_loop err of
        Some resp \<Rightarrow> resp
      | None \<Rightarrow> error_resp_new Internal (chain_display err))"

definition with_context :: "string \<Rightarrow> (anyhow, 'a) outcome \<Rightarrow> (anyhow, 'a) outcome" where
  "with_context msg r = map_err (\<lambda>e. CMsg msg # e) r"

definition option_context :: "string \<Rightarrow> 'a option \<Rightarrow> (anyhow, 'a) outcome" where
  "option_context msg v = (case v of Some x \<Rightarrow> Ok x | None \<Rightarrow> Err [CMsg msg])"

lemma from_anyhow_worker:
  "from_anyhow (map CMsg ctx @ CWorker e # rest) = to_error_resp e"
proof -
  have "from_anyhow_loop (map CMsg ctx @ CWorker e # rest) = Some (to_error_resp e)"
    by (induction ctx) simp_all
  then show ?thesis by (simp add: from_anyhow_def)
qed

lemma from_anyhow_plain:
  "from_anyhow (map CMsg ctx) = error_resp_new Internal (chain_display (map CMsg ctx))"
proof -
  have "from_anyhow_loop (map CMsg ctx) = None" by (induction ctx) simp_all
  then show ?thesis by (simp add: from_anyhow_def)
qed

text \<open>Every chain is one of the two.\<close>

lemma chain_cases:
  obtains (worker) ctx e rest where "err = map CMsg ctx @ CWorker e # rest"
  | (plain) ctx where "err = map CMsg ctx"
proof (induction err arbitrary: thesis)
  case Nil
  from Nil(2) [of "[]"] show ?case by simp
next
  case (Cons c err)
  show ?case
  proof (cases c)
    case (CWorker e)
    with Cons(2) [of "[]" e err] show ?thesis by simp
  next
    case (CMsg s)
    show ?thesis
    proof (rule Cons.IH)
      fix ctx e rest assume "err = map CMsg ctx @ CWorker e # rest"
      with CMsg Cons(2) [of "s # ctx" e rest] show ?thesis by simp
    next
      fix ctx assume "err = map CMsg ctx"
      with CMsg Cons(3) [of "s # ctx"] show ?thesis by simp
    qed
  qed
qed

section \<open>Delivery errors of librdkafka\<close>

text \<open>
  The codes the source names; the other variants of rdkafka's enum are numbered. Their
  numbers (\<open>c as i32\<close>) and the text of an error belong to rdkafka and are parameters.
\<close>

datatype rdkafka_code =
    RK_SaslAuthenticationFailed
  | RK_TopicAuthorizationFailed
  | RK_GroupAuthorizationFailed
  | RK_ClusterAuthorizationFailed
  | RK_MessageSizeTooLarge
  | RK_UnknownTopicOrPartition
  | RK_RequestTimedOut
  | RK_NetworkException
  | RK_LeaderNotAvailable
  | RK_NotLeaderForPartition
  | RK_BrokerNotAvailable
  | RK_ReplicaNotAvailable
  | RK_KafkaStorageError
  | RK_QueueFull
  | RK_RebalanceInProgress
  | RK_ConcurrentTransactions
  | RK_DelegationTokenAuthDisabled
  | RK_DelegationTokenAuthorizationFailed
  | RK_NoOffset
  | RK_Other nat

datatype kafka_error =
    MessageProduction rdkafka_code
  | AdminOpCreation string
  | ClientCreation string
  | ClientConfigErr string
  | MessageConsumptionFatal rdkafka_code
  | MessageConsumption rdkafka_code
  | GlobalErr rdkafka_code
  | RebalanceErrCode rdkafka_code
  | SetPartitionOffset rdkafka_code
  | StoreOffset rdkafka_code
  | MetadataFetch rdkafka_code
  | OffsetFetch rdkafka_code
  | ConsumerCommit rdkafka_code
  | OtherKafkaError nat

definition is_retryable :: "rdkafka_code \<Rightarrow> bool" where
  "is_retryable code \<longleftrightarrow>
     code \<in> {RK_RequestTimedOut, RK_NetworkException, RK_LeaderNotAvailable,
             RK_NotLeaderForPartition, RK_BrokerNotAvailable, RK_ReplicaNotAvailable,
             RK_KafkaStorageError, RK_QueueFull, RK_RebalanceInProgress,
             RK_UnknownTopicOrPartition, RK_ConcurrentTransactions}"

fun kafka_error_to_kind :: "kafka_error \<Rightarrow> error_kind" where
  "kafka_error_to_kind (MessageProduction code) =
     (if code = RK_SaslAuthenticationFailed \<or> code = RK_TopicAuthorizationFailed
         \<or> code = RK_GroupAuthorizationFailed \<or> code = RK_ClusterAuthorizationFailed
      then AuthnAuthz
      else if code = RK_MessageSizeTooLarge then MessageTooLarge
      else if code = RK_UnknownTopicOrPartition then UnknownTopicOrPartition
      else if is_retryable code then BrokerRetryable
      else Internal)"
| "kafka_error_to_kind _ = Internal"

record rdkafka_errors =
  rk_code_num :: "rdkafka_code \<Rightarrow> i32"
  rk_to_string :: "kafka_error \<Rightarrow> string"

definition kafka_error_to_worker :: "rdkafka_errors \<Rightarrow> kafka_error \<Rightarrow> worker_error" where
  "kafka_error_to_worker rk err =
     (case err of
        MessageProduction c \<Rightarrow>
          \<lparr>we_kind = kafka_error_to_kind err, we_retryable = is_retryable c,
           we_native_code = rk_code_num rk c, we_message = rk_to_string rk err\<rparr>
      | _ \<Rightarrow>
          \<lparr>we_kind = kafka_error_to_kind err, we_retryable = False, we_native_code = 0,
           we_message = rk_to_string rk err\<rparr>)"

text \<open>
  The retryable flag of a delivery error against its kind: they agree except for
  \<open>UnknownTopicOrPartition\<close>, whose kind is not retryable by default but which is sent as
  retryable.
\<close>

lemma kafka_error_retryable_kind:
  "we_retryable (kafka_error_to_worker rk err) \<longleftrightarrow>
     we_kind (kafka_error_to_worker rk err) = BrokerRetryable
     \<or> we_kind (kafka_error_to_worker rk err) = UnknownTopicOrPartition"
  by (cases err) (auto simp: kafka_error_to_worker_def is_retryable_def)

section \<open>Properties\<close>

text \<open>
  The error frame for a failed call carries the first structured error of the chain,
  however many layers of context were put around it; a chain without one is reported as
  \<open>Internal\<close>, not retryable, with the joined text of the chain.
\<close>
lemma error_kind_survives_context:
  "from_anyhow (map CMsg ctx @ CWorker e # rest) = to_error_resp e
   \<and> from_anyhow (map CMsg ctx) =
       \<lparr>er_kind = Internal, er_retryable = False, er_native_code = 0,
        er_message = chain_display (map CMsg ctx)\<rparr>
   \<and> with_context msg (Err err) = (Err (CMsg msg # err) :: (anyhow, unit) outcome)"
  by (simp add: from_anyhow_worker from_anyhow_plain error_resp_new_def default_retryable_def with_context_def)

text \<open>
  A delivery error is sent as retryable exactly when its kind is \<open>BrokerRetryable\<close> or
  \<open>UnknownTopicOrPartition\<close>; authentication errors and oversized messages never are. For
  \<open>UnknownTopicOrPartition\<close> the flag contradicts the kind's own default.
\<close>
lemma delivery_error_retryable:
  "(we_retryable (kafka_error_to_worker rk err) \<longleftrightarrow>
      we_kind (kafka_error_to_worker rk err) \<in> {BrokerRetryable, UnknownTopicOrPartition})
   \<and> (\<exists>err. we_retryable (kafka_error_to_worker rk err)
        \<and> \<not> default_retryable (we_kind (kafka_error_to_worker rk err)))"
proof
  show "we_retryable (kafka_error_to_worker rk err) \<longleftrightarrow>
      we_kind (kafka_error_to_worker rk err) \<in> {BrokerRetryable, UnknownTopicOrPartition}"
    using kafka_error_retryable_kind [of rk err] by simp
  show "\<exists>err. we_retryable (kafka_error_to_worker rk err)
        \<and> \<not> default_retryable (we_kind (kafka_error_to_worker rk err))"
    by (rule exI [of _ "MessageProduction RK_UnknownTopicOrPartition"])
      (simp add: kafka_error_to_worker_def is_retryable_def default_retryable_def)
qed

end
