(* ===== verification/Cluster.thy ===== *)
theory Cluster
  imports Prelude
begin

text \<open>
  \<open>worker/src/cluster.rs\<close> and \<open>worker/src/shutdown.rs\<close>: the registry of clusters with its
  OAuth token slots, and the draining flag. A token slot is shared (\<open>Arc<Mutex<..>>\<close>) between
  the registry and every librdkafka client built for the cluster, so slots live in an
  explicit store and entries hold references to them.
\<close>

section \<open>State\<close>

type_synonym cluster_config = "(string, string) hmap"

record stored_oauth_token =
  st_token_value :: string
  st_lifetime_ms :: i64
  st_principal_name :: string
  st_extensions :: "(string \<times> string) list"

type_synonym slot_ref = nat

record cluster_entry =
  ce_config :: cluster_config
  ce_token :: slot_ref
  ce_version :: u64

text \<open>
  \<open>reg_slots\<close> is the store of the slots: the content of slot \<open>r\<close> is the \<open>r\<close>th element, and a new
  slot is appended.
\<close>

record cluster_registry =
  reg_clusters :: "(string, cluster_entry) hmap"
  reg_slots :: "stored_oauth_token option list"

definition registry_new :: cluster_registry where
  "registry_new = \<lparr>reg_clusters = [], reg_slots = []\<rparr>"

section \<open>Operations\<close>

definition register :: "string \<Rightarrow> cluster_config \<Rightarrow> cluster_registry \<Rightarrow> bool \<times> cluster_registry" where
  "register name config reg =
     (case map_of (reg_clusters reg) name of
        Some entry \<Rightarrow>
          let entry' = entry\<lparr>ce_config := config, ce_version := ce_version entry + 1\<rparr> in
          (False, reg\<lparr>reg_clusters := AList.update name entry' (reg_clusters reg)\<rparr>)
      | None \<Rightarrow>
          let entry' = \<lparr>ce_config = config, ce_token = length (reg_slots reg), ce_version = 1\<rparr> in
          (True, reg\<lparr>reg_clusters := AList.update name entry' (reg_clusters reg),
                     reg_slots := reg_slots reg @ [None]\<rparr>))"

definition registry_get :: "cluster_registry \<Rightarrow> string \<Rightarrow> cluster_config option" where
  "registry_get reg name = map_option ce_config (map_of (reg_clusters reg) name)"

definition get_with_version :: "cluster_registry \<Rightarrow> string \<Rightarrow> (cluster_config \<times> u64) option" where
  "get_with_version reg name =
     map_option (\<lambda>e. (ce_config e, ce_version e)) (map_of (reg_clusters reg) name)"

definition registry_exists :: "cluster_registry \<Rightarrow> string \<Rightarrow> bool" where
  "registry_exists reg name \<longleftrightarrow> map_of (reg_clusters reg) name \<noteq> None"

definition registry_names :: "cluster_registry \<Rightarrow> string list" where
  "registry_names reg = map fst (reg_clusters reg)"

definition token_slot_for :: "cluster_registry \<Rightarrow> string \<Rightarrow> slot_ref option" where
  "token_slot_for reg name = map_option ce_token (map_of (reg_clusters reg) name)"

definition set_oauth_token ::
  "string \<Rightarrow> stored_oauth_token \<Rightarrow> cluster_registry \<Rightarrow> (string, unit) outcome \<times> cluster_registry" where
  "set_oauth_token name token reg =
     (case map_of (reg_clusters reg) name of
        None \<Rightarrow> (Err (''cluster '' @ [CHR 0x27] @ name @ [CHR 0x27] @ '' not registered''), reg)
      | Some entry \<Rightarrow> (Ok (), reg\<lparr>reg_slots := (reg_slots reg)[ce_token entry := Some token]\<rparr>))"

definition registry_len :: "cluster_registry \<Rightarrow> nat" where
  "registry_len reg = length (reg_clusters reg)"

definition registry_is_empty :: "cluster_registry \<Rightarrow> bool" where
  "registry_is_empty reg \<longleftrightarrow> reg_clusters reg = []"

text \<open>
  \<open>generate_oauth_token\<close> of the producer's and the consumer's client context: what a librdkafka
  client that holds slot \<open>r\<close> gets when it refreshes its token. The \<open>OAuthToken\<close> of rdkafka has
  the value, the principal and the lifetime.
\<close>

definition no_token_msg :: "string \<Rightarrow> string" where
  "no_token_msg cluster =
     ''no OAuth token set for cluster '' @ [CHR 0x27] @ cluster @ [CHR 0x27]
       @ ''; call setOAuthBearerToken first''"

definition generate_oauth_token ::
  "cluster_registry \<Rightarrow> string \<Rightarrow> slot_ref \<Rightarrow> (string, string \<times> string \<times> i64) outcome" where
  "generate_oauth_token reg cluster slot =
     (case reg_slots reg ! slot of
        Some t \<Rightarrow> Ok (st_token_value t, st_principal_name t, st_lifetime_ms t)
      | None \<Rightarrow> Err (no_token_msg cluster))"

section \<open>Invariant\<close>

text \<open>
  Keys are distinct, every entry refers to an allocated slot, and no two clusters share one.
\<close>

definition registry_inv :: "cluster_registry \<Rightarrow> bool" where
  "registry_inv reg \<longleftrightarrow>
     hm_wf (reg_clusters reg)
     \<and> (\<forall>n e. map_of (reg_clusters reg) n = Some e \<longrightarrow> ce_token e < length (reg_slots reg))
     \<and> (\<forall>m n d e. map_of (reg_clusters reg) m = Some d \<longrightarrow> map_of (reg_clusters reg) n = Some e
          \<longrightarrow> ce_token d = ce_token e \<longrightarrow> m = n)"

lemma registry_invD:
  assumes "registry_inv reg"
  shows "hm_wf (reg_clusters reg)"
    and "map_of (reg_clusters reg) n = Some e \<Longrightarrow> ce_token e < length (reg_slots reg)"
    and "map_of (reg_clusters reg) m = Some d \<Longrightarrow> map_of (reg_clusters reg) n = Some e
          \<Longrightarrow> ce_token d = ce_token e \<Longrightarrow> m = n"
  using assms unfolding registry_inv_def by auto

lemma registry_new_inv: "registry_inv registry_new"
  by (simp add: registry_inv_def registry_new_def)

lemma register_inv:
  assumes "registry_inv reg"
  shows "registry_inv (snd (register name config reg))"
proof (cases "map_of (reg_clusters reg) name")
  case None
  have "ce_token d \<noteq> length (reg_slots reg)" if "map_of (reg_clusters reg) m = Some d" for m d
    using registry_invD(2) [OF assms that] by simp
  with assms None show ?thesis
    unfolding registry_inv_def register_def Let_def
    by (auto simp: less_SucI split: if_splits) (metis less_irrefl)
next
  case (Some e)
  with assms show ?thesis
    unfolding registry_inv_def register_def Let_def by (auto split: if_splits)
qed

lemma set_oauth_token_inv:
  "registry_inv reg \<Longrightarrow> registry_inv (snd (set_oauth_token name token reg))"
  unfolding registry_inv_def set_oauth_token_def by (auto split: option.splits)

section \<open>Behaviour\<close>

lemma register_fst: "fst (register name config reg) \<longleftrightarrow> \<not> registry_exists reg name"
  by (auto simp: register_def registry_exists_def Let_def split: option.splits)

lemma register_get:
  "registry_get (snd (register name config reg)) n =
     (if n = name then Some config else registry_get reg n)"
  by (auto simp: register_def registry_get_def Let_def split: option.splits)

lemma register_version:
  "get_with_version (snd (register name config reg)) n =
     (if n = name
      then Some (config, case get_with_version reg name of Some (_, v) \<Rightarrow> v + 1 | None \<Rightarrow> 1)
      else get_with_version reg n)"
  by (auto simp: register_def get_with_version_def Let_def split: option.splits)

lemma register_keeps_slot:
  "token_slot_for reg n = Some r \<Longrightarrow> token_slot_for (snd (register name config reg)) n = Some r"
  by (auto simp: register_def token_slot_for_def Let_def split: option.splits)

lemma register_slot_content:
  assumes "registry_inv reg" and "token_slot_for reg n = Some r"
  shows "reg_slots (snd (register name config reg)) ! r = reg_slots reg ! r"
  using assms registry_invD(2) [OF assms(1)]
  by (auto simp: register_def token_slot_for_def Let_def nth_append split: option.splits)

lemma set_oauth_token_slot:
  assumes "registry_inv reg" and "token_slot_for reg n = Some r" and "token_slot_for reg name = Some s"
  shows "reg_slots (snd (set_oauth_token name token reg)) ! r
           = (if n = name then Some token else reg_slots reg ! r)"
  using assms registry_invD(2,3) [OF assms(1)]
  by (auto simp: set_oauth_token_def token_slot_for_def nth_list_update split: option.splits)

lemma set_oauth_token_clusters [simp]:
  "reg_clusters (snd (set_oauth_token name token reg)) = reg_clusters reg"
  by (auto simp: set_oauth_token_def split: option.splits)

lemma registry_exists_iff: "registry_exists reg n \<longleftrightarrow> n \<in> set (registry_names reg)"
  by (auto simp: registry_exists_def registry_names_def map_of_eq_None_iff)

section \<open>Shutdown flag\<close>

record shutdown_state =
  sd_draining :: bool

definition shutdown_new :: shutdown_state where
  "shutdown_new = \<lparr>sd_draining = False\<rparr>"

definition is_draining :: "shutdown_state \<Rightarrow> bool" where
  "is_draining s = sd_draining s"

definition start_draining :: "shutdown_state \<Rightarrow> shutdown_state" where
  "start_draining s = s\<lparr>sd_draining := True\<rparr>"

section \<open>Properties\<close>

text \<open>
  C11: A client that was built for a cluster keeps seeing the cluster's tokens after the cluster
  is registered again: the overwrite keeps the token slot, so a token pushed afterwards is what
  the running client's refresh callback returns, and a client of another cluster is not
  affected.
\<close>
theorem token_reaches_running_client:
  assumes "registry_inv reg" and "token_slot_for reg name = Some slot"
    and "token_slot_for reg other = Some slot2" and "other \<noteq> name"
    and "reg1 = snd (register name config reg)"
    and "set_oauth_token name token reg1 = (res, reg2)"
  shows "res = Ok ()
    \<and> generate_oauth_token reg2 name slot
        = Ok (st_token_value token, st_principal_name token, st_lifetime_ms token)
    \<and> generate_oauth_token reg2 other slot2 = generate_oauth_token reg other slot2"
proof -
  have inv: "registry_inv reg1" using assms(1,5) register_inv by simp
  have slots: "token_slot_for reg1 name = Some slot" "token_slot_for reg1 other = Some slot2"
    using assms(2,3,5) register_keeps_slot by blast+
  have "res = Ok ()"
    using assms(6) slots(1) by (auto simp: set_oauth_token_def token_slot_for_def)
  moreover have "reg_slots reg2 ! slot = Some token" "reg_slots reg2 ! slot2 = reg_slots reg1 ! slot2"
    using set_oauth_token_slot [OF inv slots(1) slots(1), of token]
      set_oauth_token_slot [OF inv slots(2) slots(1), of token] assms(4,6) by simp_all
  moreover have "reg_slots reg1 ! slot2 = reg_slots reg ! slot2"
    using register_slot_content [OF assms(1,3)] assms(5) by simp
  ultimately show ?thesis by (simp add: generate_oauth_token_def)
qed

definition demo_registry :: cluster_registry where
  "demo_registry = snd (register ''b'' [] (snd (register ''a'' [] registry_new)))"

definition demo_token :: stored_oauth_token where
  "demo_token =
     \<lparr>st_token_value = ''tok'', st_lifetime_ms = 10, st_principal_name = ''p'', st_extensions = []\<rparr>"

theorem token_reaches_running_client_witness:
  "generate_oauth_token
     (snd (set_oauth_token ''a'' demo_token (snd (register ''a'' [(''k'', ''v'')] demo_registry)))) ''a'' 0
   = Ok (''tok'', ''p'', 10)"
proof -
  have inv: "registry_inv demo_registry"
    by (simp add: demo_registry_def register_inv registry_new_inv)
  have slots: "token_slot_for demo_registry ''a'' = Some 0" "token_slot_for demo_registry ''b'' = Some 1"
    by (simp_all add: demo_registry_def token_slot_for_def register_def registry_new_def Let_def)
  let ?reg1 = "snd (register ''a'' [(''k'', ''v'')] demo_registry)"
  have "generate_oauth_token (snd (set_oauth_token ''a'' demo_token ?reg1)) ''a'' 0
      = Ok (st_token_value demo_token, st_principal_name demo_token, st_lifetime_ms demo_token)"
    using token_reaches_running_client [OF inv slots(1) slots(2) _ refl prod.collapse [symmetric]]
    by simp
  then show ?thesis by (simp add: demo_token_def)
qed

text \<open>
  Registering a cluster makes its configuration the current one with a version that differs
  from the one before (1 for a new cluster), reports whether it is new, and leaves the other
  clusters as they were.
\<close>
lemma register_effect:
  "get_with_version (snd (register name config reg)) n =
     (if n = name
      then Some (config, case get_with_version reg name of Some (_, v) \<Rightarrow> v + 1 | None \<Rightarrow> 1)
      else get_with_version reg n)
   \<and> (fst (register name config reg) \<longleftrightarrow> \<not> registry_exists reg name)
   \<and> (get_with_version reg name = Some (c, v) \<longrightarrow>
        map_option snd (get_with_version (snd (register name config reg)) name) \<noteq> Some v)"
  using register_version [of name config reg n] register_version [of name config reg name]
    register_fst [of name config reg]
  by simp

end
