(* ===== verification/Backend.thy ===== *)
theory Backend
  imports Worker_Error Cluster Proto_Txn
begin

text \<open>
  The two back-end interfaces of the worker, the traits \<open>Producer\<close> (\<open>worker/src/producer.rs\<close>)
  and \<open>Consumer\<close> (\<open>worker/src/consumer.rs\<close>), and the dry-run back ends that implement them.
  A trait object is a record of its methods; a method takes the cluster registry it shares
  with the server and the back end's own state \<open>'s\<close>, and returns its result and the new state.
\<close>

section \<open>The traits\<close>

record ('m, 's) producer_ops =
  po_produce_fnf :: "produce_fnf \<Rightarrow> cluster_registry \<Rightarrow> 's \<Rightarrow> (anyhow, unit) outcome \<times> 's"
  po_produce_ack :: "produce_fnf \<Rightarrow> cluster_registry \<Rightarrow> 's \<Rightarrow> (anyhow, produce_resp) outcome \<times> 's"
  po_flush :: "nat \<Rightarrow> 's \<Rightarrow> (anyhow, unit) outcome \<times> 's"
  po_begin_transaction :: "string \<Rightarrow> cluster_registry \<Rightarrow> 's \<Rightarrow> (anyhow, unit) outcome \<times> 's"
  po_commit_transaction :: "string \<Rightarrow> cluster_registry \<Rightarrow> 's \<Rightarrow> (anyhow, unit) outcome \<times> 's"
  po_abort_transaction :: "string \<Rightarrow> cluster_registry \<Rightarrow> 's \<Rightarrow> (anyhow, unit) outcome \<times> 's"
  po_send_offsets :: "string \<Rightarrow> string \<Rightarrow> offset_spec list \<Rightarrow> 'm \<Rightarrow> cluster_registry \<Rightarrow> 's \<Rightarrow>
    (anyhow, unit) outcome \<times> 's"

type_synonym subscription_id = u64

datatype consumer_error =
    NotFound subscription_id
  | UnknownCluster string
  | BackendErr anyhow

record ('m, 's) consumer_ops =
  co_subscribe :: "subscribe_req \<Rightarrow> cluster_registry \<Rightarrow> 's \<Rightarrow> (consumer_error, subscription_id) outcome \<times> 's"
  co_poll :: "subscription_id \<Rightarrow> u32 \<Rightarrow> u32 \<Rightarrow> 's \<Rightarrow> (consumer_error, consumer_message list) outcome \<times> 's"
  co_commit :: "subscription_id \<Rightarrow> 's \<Rightarrow> (consumer_error, unit) outcome \<times> 's"
  co_unsubscribe :: "subscription_id \<Rightarrow> 's \<Rightarrow> (consumer_error, unit) outcome \<times> 's"
  co_fetch_rebalance_events ::
    "subscription_id \<Rightarrow> u32 \<Rightarrow> 's \<Rightarrow> (consumer_error, rebalance_event list) outcome \<times> 's"
  co_seek_by_offset :: "subscription_id \<Rightarrow> offset_spec list \<Rightarrow> 's \<Rightarrow> (consumer_error, unit) outcome \<times> 's"
  co_seek_by_timestamp ::
    "subscription_id \<Rightarrow> i64 \<Rightarrow> partition_spec list \<Rightarrow> 's \<Rightarrow> (consumer_error, unit) outcome \<times> 's"
  co_pause :: "subscription_id \<Rightarrow> partition_spec list \<Rightarrow> 's \<Rightarrow> (consumer_error, unit) outcome \<times> 's"
  co_resume :: "subscription_id \<Rightarrow> partition_spec list \<Rightarrow> 's \<Rightarrow> (consumer_error, unit) outcome \<times> 's"
  co_group_metadata :: "subscription_id \<Rightarrow> 's \<Rightarrow> (consumer_error, 'm) outcome \<times> 's"
  co_active_subscriptions :: "nat \<Rightarrow> 's \<Rightarrow> nat"

section \<open>Subscription ids\<close>

text \<open>
  \<open>SubscriptionId::next\<close>: an atomic counter of the process, starting at 1; \<open>fetch_add\<close> wraps.
\<close>

definition subscription_id_next :: "u64 \<Rightarrow> subscription_id \<times> u64" where
  "subscription_id_next seq = (seq, seq + 1)"

section \<open>The default methods of the consumer trait\<close>

definition default_fetch_rebalance_events ::
  "subscription_id \<Rightarrow> u32 \<Rightarrow> 's \<Rightarrow> (consumer_error, rebalance_event list) outcome \<times> 's" where
  "default_fetch_rebalance_events sub max_events s = (Ok [], s)"

definition default_seek_by_offset ::
  "subscription_id \<Rightarrow> offset_spec list \<Rightarrow> 's \<Rightarrow> (consumer_error, unit) outcome \<times> 's" where
  "default_seek_by_offset sub targets s = (Ok (), s)"

definition default_seek_by_timestamp ::
  "subscription_id \<Rightarrow> i64 \<Rightarrow> partition_spec list \<Rightarrow> 's \<Rightarrow> (consumer_error, unit) outcome \<times> 's" where
  "default_seek_by_timestamp sub timestamp_ms partitions s = (Ok (), s)"

definition default_pause_resume ::
  "subscription_id \<Rightarrow> partition_spec list \<Rightarrow> 's \<Rightarrow> (consumer_error, unit) outcome \<times> 's" where
  "default_pause_resume sub partitions s = (Ok (), s)"

definition default_group_metadata :: "subscription_id \<Rightarrow> 's \<Rightarrow> (consumer_error, 'm) outcome \<times> 's" where
  "default_group_metadata sub s =
     (Err (BackendErr [CMsg ''group_metadata not supported by this consumer backend'']), s)"

definition default_active_subscriptions :: "nat \<Rightarrow> 's \<Rightarrow> nat" where
  "default_active_subscriptions within s = 0"

section \<open>LoggingProducer\<close>

definition logging_produce_fnf ::
  "produce_fnf \<Rightarrow> cluster_registry \<Rightarrow> 's \<Rightarrow> (anyhow, unit) outcome \<times> 's" where
  "logging_produce_fnf msg reg s = (Ok (), s)"

definition logging_produce_ack ::
  "produce_fnf \<Rightarrow> cluster_registry \<Rightarrow> 's \<Rightarrow> (anyhow, produce_resp) outcome \<times> 's" where
  "logging_produce_ack msg reg s = (Ok (ProduceOk \<lparr>da_partition = 0, da_offset = - 1\<rparr>), s)"

definition logging_flush :: "nat \<Rightarrow> 's \<Rightarrow> (anyhow, unit) outcome \<times> 's" where
  "logging_flush timeout s = (Ok (), s)"

definition logging_txn :: "string \<Rightarrow> cluster_registry \<Rightarrow> 's \<Rightarrow> (anyhow, unit) outcome \<times> 's" where
  "logging_txn cluster reg s = (Ok (), s)"

definition logging_send_offsets ::
  "string \<Rightarrow> string \<Rightarrow> offset_spec list \<Rightarrow> 'm \<Rightarrow> cluster_registry \<Rightarrow> 's \<Rightarrow> (anyhow, unit) outcome \<times> 's" where
  "logging_send_offsets cluster group_id offsets metadata reg s = (Ok (), s)"

definition logging_producer :: "('m, 's) producer_ops" where
  "logging_producer =
     \<lparr>po_produce_fnf = logging_produce_fnf, po_produce_ack = logging_produce_ack,
      po_flush = logging_flush, po_begin_transaction = logging_txn,
      po_commit_transaction = logging_txn, po_abort_transaction = logging_txn,
      po_send_offsets = logging_send_offsets\<rparr>"

section \<open>LoggingConsumer\<close>

text \<open>Its state: the canned messages and the counter of \<open>SubscriptionId::next\<close>.\<close>

record logging_consumer_state =
  lc_canned_messages :: "consumer_message list"
  lc_seq :: u64

definition logging_consumer_new :: logging_consumer_state where
  "logging_consumer_new = \<lparr>lc_canned_messages = [], lc_seq = 1\<rparr>"

definition logging_inject :: "consumer_message list \<Rightarrow> logging_consumer_state \<Rightarrow> logging_consumer_state" where
  "logging_inject msgs s = s\<lparr>lc_canned_messages := lc_canned_messages s @ msgs\<rparr>"

definition logging_subscribe ::
  "subscribe_req \<Rightarrow> cluster_registry \<Rightarrow> logging_consumer_state \<Rightarrow>
   (consumer_error, subscription_id) outcome \<times> logging_consumer_state" where
  "logging_subscribe req reg s =
     (let (sid, seq) = subscription_id_next (lc_seq s) in (Ok sid, s\<lparr>lc_seq := seq\<rparr>))"

definition logging_poll ::
  "subscription_id \<Rightarrow> u32 \<Rightarrow> u32 \<Rightarrow> logging_consumer_state \<Rightarrow>
   (consumer_error, consumer_message list) outcome \<times> logging_consumer_state" where
  "logging_poll sub max_messages timeout_ms s =
     (let n = min (unat max_messages) (length (lc_canned_messages s)) in
      (Ok (take n (lc_canned_messages s)),
       s\<lparr>lc_canned_messages := drop n (lc_canned_messages s)\<rparr>))"

definition logging_commit ::
  "subscription_id \<Rightarrow> logging_consumer_state \<Rightarrow> (consumer_error, unit) outcome \<times> logging_consumer_state" where
  "logging_commit sub s = (Ok (), s)"

definition logging_unsubscribe ::
  "subscription_id \<Rightarrow> logging_consumer_state \<Rightarrow> (consumer_error, unit) outcome \<times> logging_consumer_state" where
  "logging_unsubscribe sub s = (Ok (), s)"

definition logging_consumer :: "('m, logging_consumer_state) consumer_ops" where
  "logging_consumer =
     \<lparr>co_subscribe = logging_subscribe, co_poll = logging_poll, co_commit = logging_commit,
      co_unsubscribe = logging_unsubscribe,
      co_fetch_rebalance_events = default_fetch_rebalance_events,
      co_seek_by_offset = default_seek_by_offset,
      co_seek_by_timestamp = default_seek_by_timestamp,
      co_pause = default_pause_resume, co_resume = default_pause_resume,
      co_group_metadata = default_group_metadata,
      co_active_subscriptions = default_active_subscriptions\<rparr>"

text \<open>A poll takes messages from the front of the canned ones and loses none.\<close>

lemma logging_poll_split:
  "\<exists>xs s'. logging_poll sub a t s = (Ok xs, s') \<and> length xs \<le> unat a
     \<and> xs @ lc_canned_messages s' = lc_canned_messages s"
  by (simp add: logging_poll_def Let_def)

end
