(* ===== verification/Metrics.thy ===== *)
theory Metrics
  imports Prelude
begin

text \<open>
  \<open>worker/src/metrics.rs\<close>: the counters, their Prometheus rendering and the answer of the
  metrics endpoint. The clock (\<open>Instant\<close>) and the package version are arguments; accepting
  TCP connections is not modelled.
\<close>

section \<open>Counters\<close>

record metrics =
  mt_ipc_frames_total :: u64
  mt_ipc_connections_total :: u64
  mt_produce_fnf_total :: u64
  mt_produce_fnf_failed_total :: u64
  mt_produce_req_total :: u64
  mt_produce_resp_ok_total :: u64
  mt_produce_resp_err_total :: u64
  mt_frames_dropped_draining_total :: u64
  mt_consumer_pause_total :: u64
  mt_consumer_resume_total :: u64
  mt_consumer_messages_dropped_total :: u64
  mt_consumer_stream_errors_total :: u64

definition metrics_new :: metrics where
  "metrics_new =
     \<lparr>mt_ipc_frames_total = 0, mt_ipc_connections_total = 0, mt_produce_fnf_total = 0,
      mt_produce_fnf_failed_total = 0, mt_produce_req_total = 0, mt_produce_resp_ok_total = 0,
      mt_produce_resp_err_total = 0, mt_frames_dropped_draining_total = 0,
      mt_consumer_pause_total = 0, mt_consumer_resume_total = 0,
      mt_consumer_messages_dropped_total = 0, mt_consumer_stream_errors_total = 0\<rparr>"

text \<open>\<open>fetch_add(1)\<close> on an \<open>AtomicU64\<close> wraps.\<close>

definition inc :: "u64 \<Rightarrow> u64" where
  "inc counter = counter + 1"

section \<open>Prometheus text\<close>

definition nl :: string where
  "nl = [CHR 0x0A]"

definition crlf :: string where
  "crlf = [CHR 0x0D, CHR 0x0A]"

definition dquote :: string where
  "dquote = [CHR 0x22]"

definition emit_counter :: "string \<Rightarrow> string \<Rightarrow> u64 \<Rightarrow> string" where
  "emit_counter name help v =
     ''# HELP '' @ name @ '' '' @ help @ nl @ ''# TYPE '' @ name @ '' counter'' @ nl
       @ name @ '' '' @ show_nat (unat v) @ nl"

definition to_prometheus_text :: "string \<Rightarrow> nat \<Rightarrow> metrics \<Rightarrow> string" where
  "to_prometheus_text pkg_ver uptime m =
     ''# HELP hi_kafka_worker_uptime_seconds Seconds since worker start'' @ nl
     @ ''# TYPE hi_kafka_worker_uptime_seconds gauge'' @ nl
     @ ''hi_kafka_worker_uptime_seconds '' @ show_nat uptime @ nl
     @ ''# HELP hi_kafka_worker_info Build info'' @ nl
     @ ''# TYPE hi_kafka_worker_info gauge'' @ nl
     @ ''hi_kafka_worker_info{version='' @ dquote @ pkg_ver @ dquote @ ''} 1'' @ nl
     @ emit_counter ''hi_kafka_ipc_frames_total'' ''Total IPC frames received from PHP''
         (mt_ipc_frames_total m)
     @ emit_counter ''hi_kafka_ipc_connections_total'' ''Total IPC connections accepted''
         (mt_ipc_connections_total m)
     @ emit_counter ''hi_kafka_produce_fnf_total'' ''Total PRODUCE_FNF frames received''
         (mt_produce_fnf_total m)
     @ emit_counter ''hi_kafka_produce_fnf_failed_total''
         ''Total PRODUCE_FNF that failed at producer layer'' (mt_produce_fnf_failed_total m)
     @ emit_counter ''hi_kafka_produce_req_total'' ''Total PRODUCE_REQ frames received''
         (mt_produce_req_total m)
     @ emit_counter ''hi_kafka_produce_resp_ok_total'' ''Total successful PRODUCE_RESP sent''
         (mt_produce_resp_ok_total m)
     @ emit_counter ''hi_kafka_produce_resp_err_total'' ''Total error PRODUCE_RESP sent''
         (mt_produce_resp_err_total m)
     @ emit_counter ''hi_kafka_frames_dropped_draining_total''
         ''Total frames dropped because worker was draining'' (mt_frames_dropped_draining_total m)
     @ emit_counter ''hi_kafka_consumer_pause_total''
         ''Total auto-pause transitions triggered by backpressure (sum across subscriptions)''
         (mt_consumer_pause_total m)
     @ emit_counter ''hi_kafka_consumer_resume_total''
         ''Total auto-resume transitions after backpressure relief (sum across subscriptions)''
         (mt_consumer_resume_total m)
     @ emit_counter ''hi_kafka_consumer_messages_dropped_total''
         ''Total consumer messages dropped due to hard buffer overflow (sum across subscriptions)''
         (mt_consumer_messages_dropped_total m)
     @ emit_counter ''hi_kafka_consumer_stream_errors_total''
         ''Total rdkafka stream errors fatal+non-fatal (sum across subscriptions)''
         (mt_consumer_stream_errors_total m)"

section \<open>The endpoint\<close>

definition starts_with :: "string \<Rightarrow> string \<Rightarrow> bool" where
  "starts_with s p \<longleftrightarrow> take (length p) s = p"

text \<open>\<open>split_once\<close> at the first CR LF, or the whole line.\<close>

fun before_crlf :: "string \<Rightarrow> string" where
  "before_crlf [] = []"
| "before_crlf [a] = [a]"
| "before_crlf (a # b # s) =
     (if a = CHR 0x0D \<and> b = CHR 0x0A then [] else a # before_crlf (b # s))"

text \<open>
  \<open>handle_request\<close> from the bytes of the single read (at most 256) to the bytes of the
  response; bytes that are not UTF-8 count as an empty request.
\<close>

definition metrics_response :: "string \<Rightarrow> nat \<Rightarrow> metrics \<Rightarrow> bytes \<Rightarrow> string" where
  "metrics_response pkg_ver uptime m request =
     (let line = (case from_utf8 (take 256 request) of Some s \<Rightarrow> s | None \<Rightarrow> []);
          first_line = before_crlf line;
          (status, body, content_type) =
            (if starts_with first_line ''GET /metrics'' then
               (''200 OK'', to_prometheus_text pkg_ver uptime m,
                ''text/plain; version=0.0.4; charset=utf-8'')
             else if starts_with first_line ''GET /healthz'' then
               (''200 OK'', ''ok'' @ nl, ''text/plain'')
             else (''404 Not Found'', ''not found'' @ nl, ''text/plain''))
      in ''HTTP/1.1 '' @ status @ crlf @ ''Content-Type: '' @ content_type @ crlf
         @ ''Content-Length: '' @ show_nat (length body) @ crlf @ ''Connection: close'' @ crlf
         @ crlf @ body)"

end
