(* ===== verification/Server.thy ===== *)
theory Server
  imports Frame Backend Metrics
begin

text \<open>
  \<open>worker/src/server.rs\<close>: frame writing, the request handlers, dispatch with its panic guard,
  and the loop that serves one connection. The socket is the bytes the peer sends (with how
  they end) and the bytes written back. The accept loop is in theory Server_Run.
\<close>

section \<open>Environment and state\<close>

text \<open>
  What a panic carries (\<open>Box<dyn Any>\<close>): a \<open>&'static str\<close>, a \<open>String\<close>, or anything else.
\<close>

datatype panic_payload = PanicStr string | PanicString string | PanicAny

record ('m, 's) server_env =
  sv_producer :: "('m, 's) producer_ops"
  sv_consumer :: "('m, 's) consumer_ops"
  sv_panic :: panic_payload

record 's server_state =
  ss_registry :: cluster_registry
  ss_backend :: 's
  ss_shutdown :: shutdown_state
  ss_metrics :: metrics
  ss_expedited :: bool

text \<open>
  The write half of a connection: the bytes written so far and how many more the peer
  accepts before it is gone (\<open>None\<close>: no limit).
\<close>

record out_stream =
  o_bytes :: bytes
  o_accept :: "nat option"

datatype stream_end = Eof | IoError string

type_synonym 's handled = "(anyhow, unit) outcome \<times> out_stream \<times> 's server_state"

section \<open>Panic texts\<close>

fun describe_panic :: "panic_payload \<Rightarrow> string" where
  "describe_panic (PanicStr s) = s"
| "describe_panic (PanicString s) = s"
| "describe_panic PanicAny = ''<non-string panic payload>''"

section \<open>Writing frames\<close>

definition write_all :: "bytes \<Rightarrow> out_stream \<Rightarrow> (anyhow, unit) outcome \<times> out_stream" where
  "write_all buf o1 =
     (case o_accept o1 of
        None \<Rightarrow> (Ok (), o1\<lparr>o_bytes := o_bytes o1 @ buf\<rparr>)
      | Some n \<Rightarrow>
          if length buf \<le> n
          then (Ok (), o1\<lparr>o_bytes := o_bytes o1 @ buf, o_accept := Some (n - length buf)\<rparr>)
          else (Err [CMsg ''Broken pipe''],
                o1\<lparr>o_bytes := o_bytes o1 @ take n buf, o_accept := Some 0\<rparr>))"

definition write_frame ::
  "frame_type \<Rightarrow> u64 \<Rightarrow> bytes \<Rightarrow> out_stream \<Rightarrow> (anyhow, unit) outcome \<times> out_stream" where
  "write_frame kind cid payload o1 =
     (case encode_frame kind cid payload [] of
        (Err e, _) \<Rightarrow> (Err [CMsg ''encode frame'', CMsg (codec_error_display e)], o1)
      | (Panic, _) \<Rightarrow> (Panic, o1)
      | (Ok n, buf) \<Rightarrow>
          (case write_all buf o1 of (r, o2) \<Rightarrow> (with_context ''write frame'' r, o2)))"

text \<open>
  Encoding a response and writing its frame: \<open>resp.encode(&mut buf).context(..)?; write_frame(..)\<close>.
\<close>

definition send_encoded ::
  "string \<Rightarrow> frame_type \<Rightarrow> u64 \<Rightarrow> writer \<Rightarrow> out_stream \<Rightarrow> (anyhow, unit) outcome \<times> out_stream" where
  "send_encoded ctx kind cid w o1 =
     (case snd w of
        Ok _ \<Rightarrow> write_frame kind cid (fst w) o1
      | Err e \<Rightarrow> (Err [CMsg ctx, CMsg (payload_error_display e)], o1)
      | Panic \<Rightarrow> (Panic, o1))"

definition write_error_frame ::
  "u64 \<Rightarrow> error_resp \<Rightarrow> out_stream \<Rightarrow> (anyhow, unit) outcome \<times> out_stream" where
  "write_error_frame cid err o1 =
     send_encoded ''encode error resp'' FT_Error cid (error_resp_encode err) o1"

text \<open>The reply to a payload that does not decode.\<close>

definition decode_failed :: "u64 \<Rightarrow> payload_error \<Rightarrow> out_stream \<Rightarrow> (anyhow, unit) outcome \<times> out_stream" where
  "decode_failed cid e o1 =
     write_error_frame cid
       (error_resp_new Protocol (''payload decode: '' @ payload_error_display e)) o1"

fun consumer_error_display :: "consumer_error \<Rightarrow> string" where
  "consumer_error_display (NotFound sub) =
     ''subscription SubscriptionId('' @ show_nat (unat sub) @ '') not found''"
| "consumer_error_display (UnknownCluster name) =
     ''cluster '' @ [CHR 0x27] @ name @ [CHR 0x27] @ '' not configured''"
| "consumer_error_display (BackendErr err) =
     ''backend: '' @ (case err of [] \<Rightarrow> [] | c # _ \<Rightarrow> cause_display c)"

definition consumer_err_to_resp :: "consumer_error \<Rightarrow> error_resp" where
  "consumer_err_to_resp e =
     (case e of
        NotFound sub \<Rightarrow> error_resp_new SubscriptionNotFound (consumer_error_display e)
      | UnknownCluster name \<Rightarrow> error_resp_new ClusterNotRegistered (consumer_error_display e)
      | BackendErr err \<Rightarrow> from_anyhow err)"

text \<open>Pairing a write with the server state it leaves alone.\<close>

definition reply :: "(anyhow, unit) outcome \<times> out_stream \<Rightarrow> 's server_state \<Rightarrow> 's handled" where
  "reply ro st = (fst ro, snd ro, st)"

section \<open>Frame limits\<close>

definition frame_limit :: "frame_type \<Rightarrow> nat" where
  "frame_limit kind =
     (if kind = FT_ProduceFnf \<or> kind = FT_ProduceReq \<or> kind = FT_ProduceResp then 4 * 1024 * 1024
      else if kind = FT_PollResp then 8 * 1024 * 1024
      else 64 * 1024)"

definition check_per_frame_limit :: "frame_type \<Rightarrow> u32 \<Rightarrow> (anyhow, unit) outcome" where
  "check_per_frame_limit kind payload_len =
     (if unat payload_len > frame_limit kind
      then Err [CMsg (''frame payload '' @ show_nat (unat payload_len) @ '' exceeds per-type limit ''
                  @ show_nat (frame_limit kind) @ '' for '' @ frame_type_debug kind)]
      else Ok ())"

section \<open>Consumer handlers\<close>

definition handle_subscribe ::
  "('m, 's) server_env \<Rightarrow> u64 \<Rightarrow> bytes \<Rightarrow> out_stream \<Rightarrow> 's server_state \<Rightarrow> 's handled" where
  "handle_subscribe env cid payload o1 st =
     (case subscribe_req_decode payload of
        Panic \<Rightarrow> (Panic, o1, st)
      | Err e \<Rightarrow> reply (decode_failed cid e o1) st
      | Ok req \<Rightarrow>
          (case co_subscribe (sv_consumer env) req (ss_registry st) (ss_backend st) of
             (r, s') \<Rightarrow>
               let st' = st\<lparr>ss_backend := s'\<rparr> in
               case r of
                 Panic \<Rightarrow> (Panic, o1, st')
               | Ok sub \<Rightarrow>
                   reply (send_encoded ''encode subscribe_resp'' FT_SubscribeResp cid
                            (subscribe_resp_encode (SubscribeOk sub)) o1) st'
               | Err e \<Rightarrow> reply (write_error_frame cid (consumer_err_to_resp e) o1) st'))"

definition handle_poll ::
  "('m, 's) server_env \<Rightarrow> u64 \<Rightarrow> bytes \<Rightarrow> out_stream \<Rightarrow> 's server_state \<Rightarrow> 's handled" where
  "handle_poll env cid payload o1 st =
     (case poll_req_decode payload of
        Panic \<Rightarrow> (Panic, o1, st)
      | Err e \<Rightarrow> reply (decode_failed cid e o1) st
      | Ok req \<Rightarrow>
          (case co_poll (sv_consumer env) (pq_subscription_id req) (pq_max_messages req)
                  (pq_timeout_ms req) (ss_backend st) of
             (r, s') \<Rightarrow>
               let st' = st\<lparr>ss_backend := s'\<rparr> in
               case r of
                 Panic \<Rightarrow> (Panic, o1, st')
               | Ok messages \<Rightarrow>
                   reply (send_encoded ''encode poll_resp'' FT_PollResp cid
                            (poll_resp_encode (PollOk messages)) o1) st'
               | Err e \<Rightarrow> reply (write_error_frame cid (consumer_err_to_resp e) o1) st'))"

text \<open>
  What five handlers do with the result of a consumer call that returns nothing: a status
  response of the given kind, or the error frame.
\<close>

definition consumer_status ::
  "string \<Rightarrow> frame_type \<Rightarrow> u64 \<Rightarrow> (consumer_error, unit) outcome \<times> 's \<Rightarrow> out_stream \<Rightarrow>
   's server_state \<Rightarrow> 's handled" where
  "consumer_status ctx kind cid rs o1 st =
     (let st' = st\<lparr>ss_backend := snd rs\<rparr> in
      case fst rs of
        Panic \<Rightarrow> (Panic, o1, st')
      | Ok _ \<Rightarrow> reply (send_encoded ctx kind cid (status_resp_encode StatusOk) o1) st'
      | Err e \<Rightarrow> reply (write_error_frame cid (consumer_err_to_resp e) o1) st')"

definition handle_commit ::
  "('m, 's) server_env \<Rightarrow> u64 \<Rightarrow> bytes \<Rightarrow> out_stream \<Rightarrow> 's server_state \<Rightarrow> 's handled" where
  "handle_commit env cid payload o1 st =
     (case commit_req_decode payload of
        Panic \<Rightarrow> (Panic, o1, st)
      | Err e \<Rightarrow> reply (decode_failed cid e o1) st
      | Ok req \<Rightarrow>
          consumer_status ''encode commit_resp'' FT_CommitResp cid
            (co_commit (sv_consumer env) (cq_subscription_id req) (ss_backend st)) o1 st)"

definition handle_seek ::
  "('m, 's) server_env \<Rightarrow> u64 \<Rightarrow> bytes \<Rightarrow> out_stream \<Rightarrow> 's server_state \<Rightarrow> 's handled" where
  "handle_seek env cid payload o1 st =
     (case seek_req_decode payload of
        Panic \<Rightarrow> (Panic, o1, st)
      | Err e \<Rightarrow> reply (decode_failed cid e o1) st
      | Ok req \<Rightarrow>
          (let sub = seek_req_subscription_id req in
           consumer_status ''encode seek_resp'' FT_SeekResp cid
             (case req of
                ByOffset _ targets \<Rightarrow> co_seek_by_offset (sv_consumer env) sub targets (ss_backend st)
              | ByTimestamp _ timestamp_ms partitions \<Rightarrow>
                  co_seek_by_timestamp (sv_consumer env) sub timestamp_ms partitions (ss_backend st))
             o1 st))"

definition handle_poll_rebalance ::
  "('m, 's) server_env \<Rightarrow> u64 \<Rightarrow> bytes \<Rightarrow> out_stream \<Rightarrow> 's server_state \<Rightarrow> 's handled" where
  "handle_poll_rebalance env cid payload o1 st =
     (case poll_rebalance_req_decode payload of
        Panic \<Rightarrow> (Panic, o1, st)
      | Err e \<Rightarrow> reply (decode_failed cid e o1) st
      | Ok req \<Rightarrow>
          (case co_fetch_rebalance_events (sv_consumer env) (rb_subscription_id req)
                  (rb_max_events req) (ss_backend st) of
             (r, s') \<Rightarrow>
               let st' = st\<lparr>ss_backend := s'\<rparr> in
               case r of
                 Panic \<Rightarrow> (Panic, o1, st')
               | Ok events \<Rightarrow>
                   reply (send_encoded ''encode poll_rebalance_resp'' FT_PollRebalanceResp cid
                            (poll_rebalance_resp_encode (RebalanceOk events)) o1) st'
               | Err e \<Rightarrow> reply (write_error_frame cid (consumer_err_to_resp e) o1) st'))"

definition handle_pause_resume ::
  "('m, 's) server_env \<Rightarrow> u64 \<Rightarrow> bytes \<Rightarrow> out_stream \<Rightarrow> 's server_state \<Rightarrow> 's handled" where
  "handle_pause_resume env cid payload o1 st =
     (case pause_resume_req_decode payload of
        Panic \<Rightarrow> (Panic, o1, st)
      | Err e \<Rightarrow> reply (decode_failed cid e o1) st
      | Ok req \<Rightarrow>
          consumer_status ''encode pause_resume_resp'' FT_PauseResumeResp cid
            (case pr_op req of
               Pause \<Rightarrow> co_pause (sv_consumer env) (pr_subscription_id req) (pr_partitions req) (ss_backend st)
             | Resume \<Rightarrow> co_resume (sv_consumer env) (pr_subscription_id req) (pr_partitions req) (ss_backend st))
            o1 st)"

definition handle_unsubscribe ::
  "('m, 's) server_env \<Rightarrow> u64 \<Rightarrow> bytes \<Rightarrow> out_stream \<Rightarrow> 's server_state \<Rightarrow> 's handled" where
  "handle_unsubscribe env cid payload o1 st =
     (case unsubscribe_req_decode payload of
        Panic \<Rightarrow> (Panic, o1, st)
      | Err e \<Rightarrow> (Ok (), o1, st)
      | Ok req \<Rightarrow>
          (case co_unsubscribe (sv_consumer env) (uq_subscription_id req) (ss_backend st) of
             (r, s') \<Rightarrow>
               ((case r of Panic \<Rightarrow> Panic | _ \<Rightarrow> Ok ()), o1, st\<lparr>ss_backend := s'\<rparr>)))"

section \<open>Producer and registry handlers\<close>

text \<open>The same for a producer call: the error frame carries the error found in the chain.\<close>

definition producer_status ::
  "string \<Rightarrow> frame_type \<Rightarrow> u64 \<Rightarrow> (anyhow, unit) outcome \<times> 's \<Rightarrow> out_stream \<Rightarrow>
   's server_state \<Rightarrow> 's handled" where
  "producer_status ctx kind cid rs o1 st =
     (let st' = st\<lparr>ss_backend := snd rs\<rparr> in
      case fst rs of
        Panic \<Rightarrow> (Panic, o1, st')
      | Ok _ \<Rightarrow> reply (send_encoded ctx kind cid (status_resp_encode StatusOk) o1) st'
      | Err e \<Rightarrow> reply (write_error_frame cid (from_anyhow e) o1) st')"

definition handle_txn ::
  "('m, 's) server_env \<Rightarrow> u64 \<Rightarrow> bytes \<Rightarrow> out_stream \<Rightarrow> 's server_state \<Rightarrow> 's handled" where
  "handle_txn env cid payload o1 st =
     (case txn_req_decode payload of
        Panic \<Rightarrow> (Panic, o1, st)
      | Err e \<Rightarrow> reply (decode_failed cid e o1) st
      | Ok req \<Rightarrow>
          producer_status ''encode txn_resp'' FT_TxnResp cid
            ((case tq_op req of
                TxnBegin \<Rightarrow> po_begin_transaction (sv_producer env)
              | TxnCommit \<Rightarrow> po_commit_transaction (sv_producer env)
              | TxnAbort \<Rightarrow> po_abort_transaction (sv_producer env))
               (tq_cluster req) (ss_registry st) (ss_backend st))
            o1 st)"

definition handle_send_offsets ::
  "('m, 's) server_env \<Rightarrow> u64 \<Rightarrow> bytes \<Rightarrow> out_stream \<Rightarrow> 's server_state \<Rightarrow> 's handled" where
  "handle_send_offsets env cid payload o1 st =
     (case send_offsets_req_decode payload of
        Panic \<Rightarrow> (Panic, o1, st)
      | Err e \<Rightarrow> reply (decode_failed cid e o1) st
      | Ok req \<Rightarrow>
          (case co_group_metadata (sv_consumer env) (so_subscription_id req) (ss_backend st) of
             (r, s') \<Rightarrow>
               let st' = st\<lparr>ss_backend := s'\<rparr> in
               case r of
                 Panic \<Rightarrow> (Panic, o1, st')
               | Err e \<Rightarrow> reply (write_error_frame cid (consumer_err_to_resp e) o1) st'
               | Ok metadata \<Rightarrow>
                   producer_status ''encode send_offsets_resp'' FT_SendOffsetsResp cid
                     (po_send_offsets (sv_producer env) (so_producer_cluster req) (so_group_id req)
                        (so_offsets req) metadata (ss_registry st') s')
                     o1 st'))"

definition handle_set_oauth_token ::
  "u64 \<Rightarrow> bytes \<Rightarrow> out_stream \<Rightarrow> 's server_state \<Rightarrow> 's handled" where
  "handle_set_oauth_token cid payload o1 st =
     (case set_oauth_req_decode payload of
        Panic \<Rightarrow> (Panic, o1, st)
      | Err e \<Rightarrow> reply (decode_failed cid e o1) st
      | Ok req \<Rightarrow>
          (let token = \<lparr>st_token_value = oa_token_value req, st_lifetime_ms = oa_lifetime_ms req,
                        st_principal_name = oa_principal_name req,
                        st_extensions = oa_extensions req\<rparr> in
           case set_oauth_token (oa_cluster req) token (ss_registry st) of
             (r, reg') \<Rightarrow>
               let st' = st\<lparr>ss_registry := reg'\<rparr> in
               case r of
                 Panic \<Rightarrow> (Panic, o1, st')
               | Ok _ \<Rightarrow>
                   reply (send_encoded ''encode set_oauth_token_resp'' FT_SetOAuthBearerTokenResp cid
                            (set_oauth_resp_encode StatusOk) o1) st'
               | Err msg \<Rightarrow>
                   reply (write_error_frame cid (error_resp_new ClusterNotRegistered msg) o1) st'))"

definition missing_bootstrap_msg :: "string \<Rightarrow> string" where
  "missing_bootstrap_msg cluster =
     ''cluster '' @ [CHR 0x27] @ cluster @ [CHR 0x27] @ '': missing required key ''
       @ [CHR 0x27] @ ''bootstrap.servers'' @ [CHR 0x27]"

definition handle_register_cluster ::
  "u64 \<Rightarrow> bytes \<Rightarrow> out_stream \<Rightarrow> 's server_state \<Rightarrow> 's handled" where
  "handle_register_cluster cid payload o1 st =
     (case register_cluster_req_decode payload of
        Panic \<Rightarrow> (Panic, o1, st)
      | Err e \<Rightarrow> reply (decode_failed cid e o1) st
      | Ok req \<Rightarrow>
          (let cluster = rc_cluster req;
               config = hm_collect (rc_config req) in
           if map_of config ''bootstrap.servers'' = None then
             reply (write_error_frame cid
                      (error_resp_new InvalidArgument (missing_bootstrap_msg cluster)) o1) st
           else
             let st' = st\<lparr>ss_registry := snd (register cluster config (ss_registry st))\<rparr> in
             reply (send_encoded ''encode register_cluster_resp'' FT_RegisterClusterResp cid
                      (register_cluster_resp_encode StatusOk) o1) st'))"

section \<open>Produce handlers\<close>

definition upd_metrics :: "(metrics \<Rightarrow> metrics) \<Rightarrow> 's server_state \<Rightarrow> 's server_state" where
  "upd_metrics f st = st\<lparr>ss_metrics := f (ss_metrics st)\<rparr>"

definition inc_frames :: "metrics \<Rightarrow> metrics" where
  "inc_frames m = m\<lparr>mt_ipc_frames_total := inc (mt_ipc_frames_total m)\<rparr>"

definition inc_fnf :: "metrics \<Rightarrow> metrics" where
  "inc_fnf m = m\<lparr>mt_produce_fnf_total := inc (mt_produce_fnf_total m)\<rparr>"

definition inc_fnf_failed :: "metrics \<Rightarrow> metrics" where
  "inc_fnf_failed m = m\<lparr>mt_produce_fnf_failed_total := inc (mt_produce_fnf_failed_total m)\<rparr>"

definition inc_req :: "metrics \<Rightarrow> metrics" where
  "inc_req m = m\<lparr>mt_produce_req_total := inc (mt_produce_req_total m)\<rparr>"

definition inc_resp_ok :: "metrics \<Rightarrow> metrics" where
  "inc_resp_ok m = m\<lparr>mt_produce_resp_ok_total := inc (mt_produce_resp_ok_total m)\<rparr>"

definition inc_resp_err :: "metrics \<Rightarrow> metrics" where
  "inc_resp_err m = m\<lparr>mt_produce_resp_err_total := inc (mt_produce_resp_err_total m)\<rparr>"

definition inc_dropped :: "metrics \<Rightarrow> metrics" where
  "inc_dropped m = m\<lparr>mt_frames_dropped_draining_total := inc (mt_frames_dropped_draining_total m)\<rparr>"

definition draining_resp :: error_resp where
  "draining_resp = error_resp_new WorkerDraining ''worker is draining''"

definition handle_produce_fnf ::
  "('m, 's) server_env \<Rightarrow> u64 \<Rightarrow> bytes \<Rightarrow> out_stream \<Rightarrow> 's server_state \<Rightarrow> 's handled" where
  "handle_produce_fnf env cid payload o1 st0 =
     (let st = upd_metrics inc_fnf st0 in
      if is_draining (ss_shutdown st) then
        reply (write_error_frame cid draining_resp o1)
          (upd_metrics inc_fnf_failed (upd_metrics inc_dropped st))
      else
        case produce_fnf_decode payload of
          Panic \<Rightarrow> (Panic, o1, st)
        | Err e \<Rightarrow> reply (decode_failed cid e o1) (upd_metrics inc_fnf_failed st)
        | Ok msg \<Rightarrow>
            (case po_produce_fnf (sv_producer env) msg (ss_registry st) (ss_backend st) of
               (r, s') \<Rightarrow>
                 let st' = st\<lparr>ss_backend := s'\<rparr> in
                 case r of
                   Panic \<Rightarrow> (Panic, o1, st')
                 | Ok _ \<Rightarrow>
                     reply (send_encoded ''encode fnf ack'' FT_ProduceResp cid
                              (produce_resp_encode (ProduceOk \<lparr>da_partition = - 1, da_offset = - 1\<rparr>)) o1)
                       st'
                 | Err e \<Rightarrow>
                     reply (write_error_frame cid (from_anyhow e) o1) (upd_metrics inc_fnf_failed st')))"

definition handle_produce_req_inner ::
  "('m, 's) server_env \<Rightarrow> u64 \<Rightarrow> bytes \<Rightarrow> out_stream \<Rightarrow> 's server_state \<Rightarrow> 's handled" where
  "handle_produce_req_inner env cid payload o1 st0 =
     (let st = upd_metrics inc_req st0 in
      if is_draining (ss_shutdown st) then
        reply (write_error_frame cid draining_resp o1)
          (upd_metrics inc_resp_err (upd_metrics inc_dropped st))
      else
        case produce_fnf_decode payload of
          Panic \<Rightarrow> (Panic, o1, st)
        | Err e \<Rightarrow> reply (decode_failed cid e o1) (upd_metrics inc_resp_err st)
        | Ok msg \<Rightarrow>
            (case po_produce_ack (sv_producer env) msg (ss_registry st) (ss_backend st) of
               (r, s') \<Rightarrow>
                 let st' = st\<lparr>ss_backend := s'\<rparr> in
                 case r of
                   Panic \<Rightarrow> (Panic, o1, st')
                 | Ok resp \<Rightarrow>
                     reply (send_encoded ''encode PRODUCE_RESP'' FT_ProduceResp cid
                              (produce_resp_encode resp) o1)
                       (upd_metrics inc_resp_ok st')
                 | Err e \<Rightarrow>
                     reply (write_error_frame cid (from_anyhow e) o1) (upd_metrics inc_resp_err st')))"

definition handle_produce_req ::
  "('m, 's) server_env \<Rightarrow> u64 \<Rightarrow> bytes \<Rightarrow> out_stream \<Rightarrow> 's server_state \<Rightarrow> 's handled" where
  "handle_produce_req env cid payload o1 st =
     (case handle_produce_req_inner env cid payload o1 st of
        (Panic, o2, st') \<Rightarrow>
          let msg = describe_panic (sv_panic env);
              err_resp = \<lparr>er_kind = Internal, er_retryable = True, er_native_code = 0,
                          er_message = ''server panic: '' @ msg\<rparr>;
              o3 = snd (write_error_frame cid err_resp o2) in
          (Err [CMsg (''panic in handle_produce_req: '' @ msg)], o3, upd_metrics inc_resp_err st')
      | r \<Rightarrow> r)"

section \<open>Dispatch\<close>

definition dispatch_inner ::
  "('m, 's) server_env \<Rightarrow> frame_type \<Rightarrow> u64 \<Rightarrow> bytes \<Rightarrow> out_stream \<Rightarrow> 's server_state \<Rightarrow> 's handled" where
  "dispatch_inner env kind cid payload o1 st =
     (case kind of
        FT_Hello \<Rightarrow> (Ok (), o1, st)
      | FT_Ping \<Rightarrow> reply (write_frame FT_Pong cid [] o1) st
      | FT_ProduceFnf \<Rightarrow> handle_produce_fnf env cid payload o1 st
      | FT_ProduceReq \<Rightarrow> handle_produce_req env cid payload o1 st
      | FT_SubscribeReq \<Rightarrow> handle_subscribe env cid payload o1 st
      | FT_PollReq \<Rightarrow> handle_poll env cid payload o1 st
      | FT_CommitReq \<Rightarrow> handle_commit env cid payload o1 st
      | FT_Unsubscribe \<Rightarrow> handle_unsubscribe env cid payload o1 st
      | FT_RegisterClusterReq \<Rightarrow> handle_register_cluster cid payload o1 st
      | FT_TxnReq \<Rightarrow> handle_txn env cid payload o1 st
      | FT_PollRebalanceReq \<Rightarrow> handle_poll_rebalance env cid payload o1 st
      | FT_SeekReq \<Rightarrow> handle_seek env cid payload o1 st
      | FT_SendOffsetsReq \<Rightarrow> handle_send_offsets env cid payload o1 st
      | FT_PauseResumeReq \<Rightarrow> handle_pause_resume env cid payload o1 st
      | FT_SetOAuthBearerTokenReq \<Rightarrow> handle_set_oauth_token cid payload o1 st
      | FT_Goodbye \<Rightarrow> (Ok (), o1, st\<lparr>ss_expedited := True\<rparr>)
      | _ \<Rightarrow> (Ok (), o1, st))"

definition dispatch ::
  "('m, 's) server_env \<Rightarrow> frame_type \<Rightarrow> u64 \<Rightarrow> bytes \<Rightarrow> out_stream \<Rightarrow> 's server_state \<Rightarrow> 's handled" where
  "dispatch env kind cid payload o1 st =
     (case dispatch_inner env kind cid payload o1 st of
        (Panic, o2, st') \<Rightarrow>
          (Err [CMsg (''dispatch panic ['' @ frame_type_debug kind @ '']: ''
                  @ describe_panic (sv_panic env))], o2, st')
      | r \<Rightarrow> r)"

section \<open>A connection\<close>

definition read_failed :: "stream_end \<Rightarrow> anyhow" where
  "read_failed fin = (case fin of Eof \<Rightarrow> [CMsg ''unexpected end of file''] | IoError m \<Rightarrow> [CMsg m])"

text \<open>The first frame: it must be a hello with the worker's major version.\<close>

definition handshake ::
  "frame_type \<Rightarrow> u64 \<Rightarrow> bytes \<Rightarrow> out_stream \<Rightarrow> (anyhow, unit) outcome \<times> out_stream" where
  "handshake kind cid payload o1 =
     (if kind \<noteq> FT_Hello then
        (Err [CMsg (''handshake required, got '' @ frame_type_debug kind)], o1)
      else
        case hello_req_decode payload of
          Panic \<Rightarrow> (Panic, o1)
        | Err e \<Rightarrow> (Err [CMsg ''decode HELLO payload'', CMsg (payload_error_display e)], o1)
        | Ok hello \<Rightarrow>
            if hq_major hello \<noteq> PROTOCOL_MAJOR then
              (Err [CMsg (''PROTOCOL_MAJOR mismatch: client '' @ show_nat (unat (hq_major hello))
                      @ '' vs server '' @ show_nat (unat PROTOCOL_MAJOR))], o1)
            else
              send_encoded ''encode HELLO resp'' FT_Hello cid
                (hello_resp_encode \<lparr>hs_major = PROTOCOL_MAJOR\<rparr>) o1)"

function handle_connection ::
  "('m, 's) server_env \<Rightarrow> stream_end \<Rightarrow> bytes \<Rightarrow> bool \<Rightarrow> out_stream \<Rightarrow> 's server_state \<Rightarrow> 's handled" where
  "handle_connection env fin inp handshaked o1 st =
     (if length inp < HEADER_LEN then
        (case fin of Eof \<Rightarrow> (Ok (), o1, st) | IoError m \<Rightarrow> (Err (read_failed fin), o1, st))
      else
        case decode_header (take HEADER_LEN inp) of
          Panic \<Rightarrow> (Panic, o1, st)
        | Err e \<Rightarrow> (Err [CMsg ''decode header'', CMsg (codec_error_display e)], o1, st)
        | Ok h \<Rightarrow>
            let st1 = upd_metrics inc_frames st;
                rest = drop HEADER_LEN inp;
                n = unat (h_payload_len h) in
            case check_per_frame_limit (h_kind h) (h_payload_len h) of
              Panic \<Rightarrow> (Panic, o1, st1)
            | Err e \<Rightarrow> (Err e, o1, st1)
            | Ok _ \<Rightarrow>
                if length rest < n then (Err (CMsg ''read payload'' # read_failed fin), o1, st1)
                else
                  let payload = take n rest; rest' = drop n rest in
                  if \<not> handshaked then
                    (case handshake (h_kind h) (h_cid h) payload o1 of
                       (Ok _, o2) \<Rightarrow> handle_connection env fin rest' True o2 st1
                     | (Err e, o2) \<Rightarrow> (Err e, o2, st1)
                     | (Panic, o2) \<Rightarrow> (Panic, o2, st1))
                  else
                    (case dispatch env (h_kind h) (h_cid h) payload o1 st1 of
                       (Ok _, o2, st2) \<Rightarrow> handle_connection env fin rest' True o2 st2
                     | (Err e, o2, st2) \<Rightarrow> (Err e, o2, st2)
                     | (Panic, o2, st2) \<Rightarrow> (Panic, o2, st2)))"
  by pat_completeness auto

text \<open>Every turn of the loop consumes a header.\<close>

termination
  by (relation "measure (\<lambda>(env, fin, inp, hs, o1, st). length inp)") (auto simp: HEADER_LEN_def)

declare handle_connection.simps [simp del]

end
