(* ===== verification/Server_Laws.thy ===== *)
theory Server_Laws
  imports Server
begin

text \<open>
  What the worker's server promises for one connection: every handled frame leaves the output
  a sequence of whole frames, requests are answered once, in order and under their own
  correlation id, nothing happens before the handshake, no panic escapes, and the produce
  counters balance.
\<close>

section \<open>Writing one frame\<close>

lemma write_all_cases:
  obtains (complete) o2 where "write_all buf o1 = (Ok (), o2)" "o_bytes o2 = o_bytes o1 @ buf"
  | (broken) o2 n where "write_all buf o1 = (Err [CMsg ''Broken pipe''], o2)"
      "o_bytes o2 = o_bytes o1 @ take n buf"
proof (cases "case o_accept o1 of None \<Rightarrow> True | Some n \<Rightarrow> length buf \<le> n")
  case True
  then show ?thesis
    by (intro complete [of "snd (write_all buf o1)"]) (auto simp: write_all_def split: option.splits)
next
  case False
  then obtain n where "o_accept o1 = Some n" "\<not> length buf \<le> n" by (auto split: option.splits)
  then show ?thesis
    by (intro broken [of "snd (write_all buf o1)" n]) (auto simp: write_all_def)
qed

text \<open>
  \<open>wrote cid ks o1 ro\<close>: a reply under \<open>cid\<close> of one of the kinds \<open>ks\<close>. On success one whole frame
  was appended to the output, on failure at most a part of one; a panic never comes out.
\<close>

definition reply_frame :: "u64 \<Rightarrow> frame_type set \<Rightarrow> frame \<Rightarrow> bool" where
  "reply_frame cid ks f \<longleftrightarrow> fr_cid f = cid \<and> fr_kind f \<in> ks \<and> frame_fits f"

definition wrote ::
  "u64 \<Rightarrow> frame_type set \<Rightarrow> out_stream \<Rightarrow> (anyhow, unit) outcome \<times> out_stream \<Rightarrow> bool" where
  "wrote cid ks o1 ro \<longleftrightarrow>
     (\<exists>f n. reply_frame cid ks f \<and> o_bytes (snd ro) = o_bytes o1 @ take n (frame_bytes f)
        \<and> (fst ro = Ok () \<longrightarrow> length (frame_bytes f) \<le> n))
     \<and> fst ro \<noteq> Panic"

lemma wrote_mono: "wrote cid ks o1 ro \<Longrightarrow> ks \<subseteq> ls \<Longrightarrow> wrote cid ls o1 ro"
  unfolding wrote_def reply_frame_def by blast

text \<open>Reporting an error after a reply that went out.\<close>

lemma wrote_as_Err: "wrote cid ks o1 ro \<Longrightarrow> wrote cid ks o1 (Err e, snd ro)"
  unfolding wrote_def by auto

lemma write_frame_wrote: "kind \<in> ks \<Longrightarrow> wrote cid ks o1 (write_frame kind cid payload o1)"
proof (cases "length payload \<le> MAX_PAYLOAD_LEN")
  case True
  assume k: "kind \<in> ks"
  define f where "f = frame_new kind cid payload"
  have f: "fr_kind f = kind" "fr_cid f = cid" "fr_payload f = payload"
    by (simp_all add: f_def frame_new_def)
  with True k have fits: "frame_fits f" "reply_frame cid ks f"
    by (simp_all add: frame_fits_def reply_frame_def)
  have enc: "encode_frame kind cid payload [] = (Ok (length (frame_bytes f)), frame_bytes f)"
    using encode_frame_fits [OF fits(1), of "[]"] by (simp add: f)
  show ?thesis
  proof (cases rule: write_all_cases [of "frame_bytes f" o1])
    case (complete o2)
    with enc fits(2) show ?thesis
      unfolding wrote_def write_frame_def with_context_def
      by (auto intro!: exI [of _ f] exI [of _ "length (frame_bytes f)"])
  next
    case (broken o2 n)
    with enc fits(2) show ?thesis
      unfolding wrote_def write_frame_def with_context_def
      by (auto intro!: exI [of _ f] exI [of _ n])
  qed
next
  case False
  assume "kind \<in> ks"
  then have "reply_frame cid ks (frame_new kind cid [])"
    by (simp add: reply_frame_def frame_new_def frame_fits_def)
  with False show ?thesis
    unfolding wrote_def write_frame_def encode_frame_def
    by (auto intro!: exI [of _ "frame_new kind cid []"] exI [of _ 0])
qed

lemma send_encoded_wrote:
  assumes "kind \<in> ks" and "no_panic_w w"
  shows "wrote cid ks o1 (send_encoded ctx kind cid w o1)"
proof (cases "snd w")
  case (Ok u)
  then show ?thesis using write_frame_wrote [OF assms(1)] by (simp add: send_encoded_def)
next
  case (Err e)
  have "reply_frame cid ks (frame_new kind cid [])"
    using assms(1) by (simp add: reply_frame_def frame_new_def frame_fits_def)
  with Err show ?thesis
    unfolding wrote_def send_encoded_def
    by (auto intro!: exI [of _ "frame_new kind cid []"] exI [of _ 0])
next
  case Panic
  with assms(2) show ?thesis by (simp add: no_panic_w_def)
qed

lemma write_error_frame_wrote: "FT_Error \<in> ks \<Longrightarrow> wrote cid ks o1 (write_error_frame cid err o1)"
  unfolding write_error_frame_def by (rule send_encoded_wrote) simp_all

lemma decode_failed_wrote: "FT_Error \<in> ks \<Longrightarrow> wrote cid ks o1 (decode_failed cid e o1)"
  unfolding decode_failed_def by (rule write_error_frame_wrote)

lemma wrote_no_panic: "wrote cid ks o1 ro \<Longrightarrow> fst ro \<noteq> Panic"
  by (simp add: wrote_def)

lemma writes_no_panic [simp]:
  "fst (write_error_frame cid err o1) \<noteq> Panic"
  "fst (decode_failed cid e o1) \<noteq> Panic"
  "no_panic_w w \<Longrightarrow> fst (send_encoded ctx kind cid w o1) \<noteq> Panic"
  using wrote_no_panic [OF write_error_frame_wrote [of UNIV]] wrote_no_panic [OF decode_failed_wrote [of UNIV]]
    wrote_no_panic [OF send_encoded_wrote [of kind UNIV]] by simp_all

lemma produce_fnf_decode_no_panic [simp]: "produce_fnf_decode payload \<noteq> Panic"
  by (simp add: produce_fnf_decode_def produce_fnf.decode_total)

text \<open>The exact bytes when the peer is there and the payload fits.\<close>

lemma write_frame_open:
  assumes "o_accept o1 = None" and "length payload \<le> MAX_PAYLOAD_LEN"
  shows "write_frame kind cid payload o1 =
    (Ok (), o1\<lparr>o_bytes := o_bytes o1 @ frame_bytes (frame_new kind cid payload)\<rparr>)"
proof -
  have "frame_fits (frame_new kind cid payload)"
    using assms(2) by (simp add: frame_fits_def frame_new_def)
  from encode_frame_fits [OF this, of "[]"] show ?thesis
    using assms(1) by (simp add: write_frame_def write_all_def with_context_def frame_new_def)
qed

section \<open>Handlers\<close>

text \<open>
  The outcome of a handler: it may panic without having written anything, or it has
  replied. \<open>ks\<close> are the kinds of the reply.
\<close>

definition handled_ok ::
  "u64 \<Rightarrow> frame_type set \<Rightarrow> out_stream \<Rightarrow> 's server_state \<Rightarrow> 's handled \<Rightarrow> bool" where
  "handled_ok cid ks o1 st h \<longleftrightarrow>
     (case h of (r, o2, st2) \<Rightarrow>
        (if r = Panic then o2 = o1 else wrote cid ks o1 (r, o2))
        \<and> ss_shutdown st2 = ss_shutdown st)"

named_theorems handler_intros \<open>rules for the outcome of a handler\<close>

lemma handled_panic [handler_intros]:
  "ss_shutdown st2 = ss_shutdown st \<Longrightarrow> handled_ok cid ks o1 st (Panic, o1, st2)"
  by (simp add: handled_ok_def)

lemma handled_reply [handler_intros]:
  "wrote cid ks o1 ro \<Longrightarrow> ss_shutdown st2 = ss_shutdown st \<Longrightarrow> handled_ok cid ks o1 st (reply ro st2)"
  by (cases ro) (auto simp: handled_ok_def reply_def wrote_def)

lemmas wrote_intros [handler_intros] =
  write_frame_wrote send_encoded_wrote write_error_frame_wrote decode_failed_wrote

lemma handled_consumer_status [handler_intros]:
  assumes "kind \<in> ks" and "FT_Error \<in> ks"
  shows "handled_ok cid ks o1 st (consumer_status ctx kind cid rs o1 st)"
  unfolding consumer_status_def Let_def using assms
  by (cases "fst rs") (auto intro!: handler_intros)

lemma handled_producer_status [handler_intros]:
  assumes "kind \<in> ks" and "FT_Error \<in> ks" and "ss_shutdown st2 = ss_shutdown st"
  shows "handled_ok cid ks o1 st (producer_status ctx kind cid rs o1 st2)"
  unfolding producer_status_def Let_def using assms
  by (cases "fst rs") (auto intro!: handler_intros)

lemma upd_metrics_shutdown [simp]: "ss_shutdown (upd_metrics f st) = ss_shutdown st"
  by (simp add: upd_metrics_def)

lemmas handler_splits = outcome.splits prod.splits

lemma handle_subscribe_ok: "handled_ok cid {FT_SubscribeResp, FT_Error} o1 st (handle_subscribe env cid payload o1 st)"
  unfolding handle_subscribe_def Let_def by (auto split: handler_splits intro!: handler_intros)

lemma handle_poll_ok: "handled_ok cid {FT_PollResp, FT_Error} o1 st (handle_poll env cid payload o1 st)"
  unfolding handle_poll_def Let_def by (auto split: handler_splits intro!: handler_intros)

lemma handle_commit_ok: "handled_ok cid {FT_CommitResp, FT_Error} o1 st (handle_commit env cid payload o1 st)"
  unfolding handle_commit_def by (auto split: handler_splits intro!: handler_intros)

lemma handle_seek_ok: "handled_ok cid {FT_SeekResp, FT_Error} o1 st (handle_seek env cid payload o1 st)"
  unfolding handle_seek_def Let_def by (auto split: handler_splits intro!: handler_intros)

lemma handle_poll_rebalance_ok:
  "handled_ok cid {FT_PollRebalanceResp, FT_Error} o1 st (handle_poll_rebalance env cid payload o1 st)"
  unfolding handle_poll_rebalance_def Let_def by (auto split: handler_splits intro!: handler_intros)

lemma handle_pause_resume_ok:
  "handled_ok cid {FT_PauseResumeResp, FT_Error} o1 st (handle_pause_resume env cid payload o1 st)"
  unfolding handle_pause_resume_def by (auto split: handler_splits intro!: handler_intros)

lemma handle_txn_ok: "handled_ok cid {FT_TxnResp, FT_Error} o1 st (handle_txn env cid payload o1 st)"
  unfolding handle_txn_def by (auto split: handler_splits intro!: handler_intros)

lemma handle_send_offsets_ok:
  "handled_ok cid {FT_SendOffsetsResp, FT_Error} o1 st (handle_send_offsets env cid payload o1 st)"
  unfolding handle_send_offsets_def Let_def by (auto split: handler_splits intro!: handler_intros)

lemma handle_set_oauth_token_ok:
  "handled_ok cid {FT_SetOAuthBearerTokenResp, FT_Error} o1 st (handle_set_oauth_token cid payload o1 st)"
  unfolding handle_set_oauth_token_def Let_def set_oauth_resp_encode_def
  by (auto split: handler_splits intro!: handler_intros)

lemma handle_register_cluster_ok:
  "handled_ok cid {FT_RegisterClusterResp, FT_Error} o1 st (handle_register_cluster cid payload o1 st)"
  unfolding handle_register_cluster_def Let_def register_cluster_resp_encode_def
  by (auto split: handler_splits intro!: handler_intros)

lemma handle_produce_fnf_ok:
  "handled_ok cid {FT_ProduceResp, FT_Error} o1 st (handle_produce_fnf env cid payload o1 st)"
  unfolding handle_produce_fnf_def Let_def by (auto split: handler_splits intro!: handler_intros)

lemma handle_produce_req_inner_ok:
  "handled_ok cid {FT_ProduceResp, FT_Error} o1 st (handle_produce_req_inner env cid payload o1 st)"
  unfolding handle_produce_req_inner_def Let_def by (auto split: handler_splits intro!: handler_intros)

text \<open>The inner panic guard turns a panic into an error frame and an error.\<close>

lemma handle_produce_req_ok:
  "handled_ok cid {FT_ProduceResp, FT_Error} o1 st (handle_produce_req env cid payload o1 st)"
proof (cases "handle_produce_req_inner env cid payload o1 st")
  case (fields r o2 st2)
  note inner = handle_produce_req_inner_ok [of cid o1 st env payload, unfolded fields]
  show ?thesis
  proof (cases "r = Panic")
    case True
    then have "o2 = o1" "ss_shutdown st2 = ss_shutdown st"
      using inner by (simp_all add: handled_ok_def)
    moreover have "wrote cid {FT_ProduceResp, FT_Error} o1 (Err e, snd (write_error_frame cid err o1))" for e err
      by (rule wrote_as_Err, rule write_error_frame_wrote) simp
    ultimately show ?thesis
      using True fields by (simp add: handle_produce_req_def Let_def handled_ok_def)
  next
    case False
    then show ?thesis using inner fields by (cases r) (simp_all add: handle_produce_req_def)
  qed
qed

section \<open>Dispatch\<close>

text \<open>The kinds a request of each kind may be answered with; none for the one-way frames.\<close>

fun response_kinds :: "frame_type \<Rightarrow> frame_type set" where
  "response_kinds FT_Ping = {FT_Pong}"
| "response_kinds FT_ProduceFnf = {FT_ProduceResp, FT_Error}"
| "response_kinds FT_ProduceReq = {FT_ProduceResp, FT_Error}"
| "response_kinds FT_SubscribeReq = {FT_SubscribeResp, FT_Error}"
| "response_kinds FT_PollReq = {FT_PollResp, FT_Error}"
| "response_kinds FT_CommitReq = {FT_CommitResp, FT_Error}"
| "response_kinds FT_RegisterClusterReq = {FT_RegisterClusterResp, FT_Error}"
| "response_kinds FT_TxnReq = {FT_TxnResp, FT_Error}"
| "response_kinds FT_PollRebalanceReq = {FT_PollRebalanceResp, FT_Error}"
| "response_kinds FT_SeekReq = {FT_SeekResp, FT_Error}"
| "response_kinds FT_SendOffsetsReq = {FT_SendOffsetsResp, FT_Error}"
| "response_kinds FT_PauseResumeReq = {FT_PauseResumeResp, FT_Error}"
| "response_kinds FT_SetOAuthBearerTokenReq = {FT_SetOAuthBearerTokenResp, FT_Error}"
| "response_kinds _ = {}"

definition answered :: "frame_type \<Rightarrow> bool" where
  "answered kind \<longleftrightarrow> response_kinds kind \<noteq> {}"

lemmas handlers_ok =
  handle_subscribe_ok handle_poll_ok handle_commit_ok handle_seek_ok handle_poll_rebalance_ok
  handle_pause_resume_ok handle_txn_ok handle_send_offsets_ok handle_set_oauth_token_ok
  handle_register_cluster_ok handle_produce_fnf_ok handle_produce_req_ok

lemma dispatch_inner_answered:
  assumes "answered kind"
  shows "handled_ok cid (response_kinds kind) o1 st (dispatch_inner env kind cid payload o1 st)"
  using assms
  by (cases kind) (simp_all add: answered_def dispatch_inner_def handlers_ok handled_reply write_frame_wrote)

lemma dispatch_inner_silent:
  assumes "\<not> answered kind" and "dispatch_inner env kind cid payload o1 st = (r, o2, st2)"
  shows "o2 = o1" and "ss_shutdown st2 = ss_shutdown st"
  using assms
  by (cases kind;
      auto simp: answered_def dispatch_inner_def handle_unsubscribe_def split: handler_splits)+

lemma dispatch_cases:
  assumes "dispatch env kind cid payload o1 st = (r, o2, st2)"
  obtains r' where "dispatch_inner env kind cid payload o1 st = (r', o2, st2)"
    and "r = (if r' = Panic then r else r')" and "r \<noteq> Panic" and "r' = Panic \<Longrightarrow> r \<noteq> Ok ()"
  using assms by (auto simp: dispatch_def split: handler_splits)

lemma dispatch_no_panic: "fst (dispatch env kind cid payload o1 st) \<noteq> Panic"
  by (auto simp: dispatch_def split: handler_splits)

lemma dispatch_Ok_answered:
  assumes "answered kind" and "dispatch env kind cid payload o1 st = (Ok (), o2, st2)"
  obtains f where "reply_frame cid (response_kinds kind) f" "o_bytes o2 = o_bytes o1 @ frame_bytes f"
proof -
  from assms(2) have "dispatch_inner env kind cid payload o1 st = (Ok (), o2, st2)"
    by (auto simp: dispatch_def split: handler_splits)
  with dispatch_inner_answered [OF assms(1), of cid o1 st env payload]
  have "wrote cid (response_kinds kind) o1 (Ok (), o2)"
    by (simp add: handled_ok_def)
  then show ?thesis using that by (auto simp: wrote_def)
qed

lemma dispatch_Ok_silent:
  assumes "\<not> answered kind" and "dispatch env kind cid payload o1 st = (Ok (), o2, st2)"
  shows "o2 = o1"
proof -
  from assms(2) have "dispatch_inner env kind cid payload o1 st = (Ok (), o2, st2)"
    by (auto simp: dispatch_def split: handler_splits)
  then show ?thesis using dispatch_inner_silent(1) [OF assms(1)] by blast
qed

section \<open>One frame of a connection\<close>

definition within_limit :: "frame \<Rightarrow> bool" where
  "within_limit f \<longleftrightarrow> length (fr_payload f) \<le> frame_limit (fr_kind f)"

lemma frame_limit_max: "frame_limit k \<le> MAX_PAYLOAD_LEN"
  by (simp add: frame_limit_def MAX_PAYLOAD_LEN_def)

lemma within_limit_fits: "within_limit f \<Longrightarrow> frame_fits f"
  using frame_limit_max [of "fr_kind f"] by (simp add: within_limit_def frame_fits_def)

lemma handle_connection_frame:
  assumes "within_limit f"
  shows "handle_connection env fin (frame_bytes f @ rest) hs o1 st =
    (if \<not> hs then
       (case handshake (fr_kind f) (fr_cid f) (fr_payload f) o1 of
          (Ok _, o2) \<Rightarrow> handle_connection env fin rest True o2 (upd_metrics inc_frames st)
        | (Err e, o2) \<Rightarrow> (Err e, o2, upd_metrics inc_frames st)
        | (Panic, o2) \<Rightarrow> (Panic, o2, upd_metrics inc_frames st))
     else
       (case dispatch env (fr_kind f) (fr_cid f) (fr_payload f) o1 (upd_metrics inc_frames st) of
          (Ok _, o2, st2) \<Rightarrow> handle_connection env fin rest True o2 st2
        | (Err e, o2, st2) \<Rightarrow> (Err e, o2, st2)
        | (Panic, o2, st2) \<Rightarrow> (Panic, o2, st2)))"
proof -
  have fits: "frame_fits f" using assms by (rule within_limit_fits)
  have len: "HEADER_LEN \<le> length (frame_bytes f @ rest)" by (simp add: length_frame_bytes)
  have hdr: "decode_header (take HEADER_LEN (frame_bytes f @ rest)) =
      Ok \<lparr>h_payload_len = of_nat (length (fr_payload f)), h_kind = fr_kind f, h_cid = fr_cid f\<rparr>"
    using decode_header_take [OF len] decode_header_frame_bytes [OF fits, of rest] by simp
  have n: "unat (of_nat (length (fr_payload f)) :: u32) = length (fr_payload f)"
    using fits by (simp add: frame_fits_def max_payload_u32)
  have rest: "drop HEADER_LEN (frame_bytes f @ rest) = fr_payload f @ rest"
    by (simp add: frame_bytes_def HEADER_LEN_def)
  have lim: "check_per_frame_limit (fr_kind f) (of_nat (length (fr_payload f))) = Ok ()"
    using assms n by (simp add: check_per_frame_limit_def within_limit_def)
  from len have "\<not> length (frame_bytes f @ rest) < HEADER_LEN" by simp
  then show ?thesis
    by (subst handle_connection.simps) (simp only: if_False hdr outcome.case Let_def
        header.select_convs lim n rest, simp split: handler_splits)
qed

section \<open>A whole connection\<close>

text \<open>
  \<open>answers reqs resps\<close>: the responses are, in order, one for each request that has an answer,
  under its correlation id and of a kind that answers it.
\<close>

definition answers :: "frame list \<Rightarrow> frame list \<Rightarrow> bool" where
  "answers reqs resps \<longleftrightarrow>
     list_all2 (\<lambda>q f. reply_frame (fr_cid q) (response_kinds (fr_kind q)) f)
       (filter (\<lambda>q. answered (fr_kind q)) reqs) resps"

text \<open>
  What a frame that ends the connection leaves behind: nothing, or a part of its reply.
\<close>

definition partial_reply :: "frame \<Rightarrow> bytes \<Rightarrow> bool" where
  "partial_reply q part \<longleftrightarrow>
     part = [] \<or> (\<exists>f n. reply_frame (fr_cid q) (response_kinds (fr_kind q)) f \<and> part = take n (frame_bytes f))"

lemma dispatch_failed:
  assumes "dispatch env (fr_kind q) (fr_cid q) payload o1 st = (r, o2, st2)" and "r \<noteq> Ok ()"
  shows "\<exists>part. o_bytes o2 = o_bytes o1 @ part \<and> partial_reply q part"
proof -
  from assms(1) obtain r' where inner: "dispatch_inner env (fr_kind q) (fr_cid q) payload o1 st = (r', o2, st2)"
    by (auto simp: dispatch_def split: handler_splits)
  show ?thesis
  proof (cases "answered (fr_kind q)")
    case True
    from dispatch_inner_answered [OF True, of "fr_cid q" o1 st env payload] inner
    have "o2 = o1 \<or> wrote (fr_cid q) (response_kinds (fr_kind q)) o1 (r', o2)"
      by (auto simp: handled_ok_def split: if_splits)
    then show ?thesis by (auto simp: wrote_def partial_reply_def)
  next
    case False
    from dispatch_inner_silent(1) [OF False inner] show ?thesis by (simp add: partial_reply_def)
  qed
qed

lemma handle_connection_answers:
  assumes "list_all within_limit reqs"
    and "handle_connection env Eof (concat (map frame_bytes reqs)) True o1 st = (r, o2, st2)"
  shows "\<exists>k resps part. k \<le> length reqs \<and> answers (take k reqs) resps
    \<and> o_bytes o2 = o_bytes o1 @ concat (map frame_bytes resps) @ part
    \<and> (if r = Ok () then k = length reqs \<and> part = []
       else k < length reqs \<and> partial_reply (reqs ! k) part)"
  using assms
proof (induction reqs arbitrary: o1 st)
  case Nil
  then show ?case
    by (intro exI [of _ 0] exI [of _ "[]"])
      (auto simp: answers_def handle_connection.simps [of env Eof "[]"] HEADER_LEN_def)
next
  case (Cons q reqs)
  let ?d = "dispatch env (fr_kind q) (fr_cid q) (fr_payload q) o1 (upd_metrics inc_frames st)"
  from Cons.prems have q: "within_limit q" "list_all within_limit reqs" by simp_all
  obtain rd o' st' where d: "?d = (rd, o', st')" by (cases ?d) auto
  from Cons.prems(2) have
    run: "(case rd of Ok _ \<Rightarrow> handle_connection env Eof (concat (map frame_bytes reqs)) True o' st'
           | Err e \<Rightarrow> (Err e, o', st') | Panic \<Rightarrow> (Panic, o', st')) = (r, o2, st2)"
    by (cases rd) (auto simp: handle_connection_frame [OF q(1)] d)
  show ?case
  proof (cases "rd = Ok ()")
    case False
    with run have r: "r = rd" "o2 = o'" by (auto split: outcome.splits)
    from dispatch_failed [OF d False] obtain part where
      "o_bytes o' = o_bytes o1 @ part" "partial_reply q part" by blast
    with False r show ?thesis
      by (intro exI [of _ 0] exI [of _ "[]"] exI [of _ part]) (auto simp: answers_def)
  next
    case True
    with run have "handle_connection env Eof (concat (map frame_bytes reqs)) True o' st' = (r, o2, st2)"
      by simp
    from Cons.IH [OF q(2) this] obtain k resps part where
      k: "k \<le> length reqs" and ans: "answers (take k reqs) resps"
      and out: "o_bytes o2 = o_bytes o' @ concat (map frame_bytes resps) @ part"
      and fin: "if r = Ok () then k = length reqs \<and> part = []
                else k < length reqs \<and> partial_reply (reqs ! k) part" by blast
    show ?thesis
    proof (cases "answered (fr_kind q)")
      case ans_q: True
      from dispatch_Ok_answered [OF ans_q d [unfolded True]] obtain f where
        "reply_frame (fr_cid q) (response_kinds (fr_kind q)) f" "o_bytes o' = o_bytes o1 @ frame_bytes f" .
      with ans_q k ans out fin show ?thesis
        by (intro exI [of _ "Suc k"] exI [of _ "f # resps"] exI [of _ part]) (auto simp: answers_def)
    next
      case silent: False
      with dispatch_Ok_silent [OF silent d [unfolded True]] k ans out fin show ?thesis
        by (intro exI [of _ "Suc k"] exI [of _ resps] exI [of _ part]) (auto simp: answers_def)
    qed
  qed
qed

section \<open>What a connection keeps of the state\<close>

text \<open>
  A property of the server state that counting a frame and dispatching any frame keep is kept
  by a whole connection, whatever bytes the peer sends.
\<close>

locale connection_invariant =
  fixes env :: "('m, 's) server_env"
    and P :: "'s server_state \<Rightarrow> bool"
  assumes frames: "P st \<Longrightarrow> P (upd_metrics inc_frames st)"
    and dispatched: "P st \<Longrightarrow> P (snd (snd (dispatch env kind cid payload o1 st)))"
begin

lemma connection_keeps: "P st \<Longrightarrow> P (snd (snd (handle_connection env fin inp hs o1 st)))"
proof (induction "length inp" arbitrary: inp hs o1 st rule: less_induct)
  case less
  have step: "P (snd (snd (handle_connection env fin (drop (n + HEADER_LEN) inp) True o2 st2)))"
    if "HEADER_LEN \<le> length inp" "P st2" for n o2 st2
    using that by (intro less.hyps) (auto simp: HEADER_LEN_def)
  have P1: "P (upd_metrics inc_frames st)" using less.prems by (rule frames)
  have disp: "P st2" if "dispatch env k c p o1 (upd_metrics inc_frames st) = (r, o2, st2)" for k c p r o2 st2
    using dispatched [OF P1, of k c p o1] that by simp
  show ?case
    by (subst handle_connection.simps)
      (auto simp: Let_def not_less less.prems P1 step disp split: handler_splits stream_end.splits)
qed

end

text \<open>Only two handlers touch the registry, and only the produce handlers count.\<close>

lemma reply_simps [simp]: "snd (snd (reply ro st)) = st"
  by (simp add: reply_def)

lemma status_state [simp]:
  "snd (snd (consumer_status ctx kind cid rs o1 st)) = st\<lparr>ss_backend := snd rs\<rparr>"
  "snd (snd (producer_status ctx kind cid ps o1 st)) = st\<lparr>ss_backend := snd ps\<rparr>"
  by (simp_all add: consumer_status_def producer_status_def Let_def split: outcome.split)

definition same_registry_metrics :: "'s server_state \<Rightarrow> 's server_state \<Rightarrow> bool" where
  "same_registry_metrics st st2 \<longleftrightarrow> ss_registry st2 = ss_registry st \<and> ss_metrics st2 = ss_metrics st"

lemma backend_handlers_keep:
  "same_registry_metrics st (snd (snd (handle_subscribe env cid payload o1 st)))"
  "same_registry_metrics st (snd (snd (handle_poll env cid payload o1 st)))"
  "same_registry_metrics st (snd (snd (handle_commit env cid payload o1 st)))"
  "same_registry_metrics st (snd (snd (handle_seek env cid payload o1 st)))"
  "same_registry_metrics st (snd (snd (handle_poll_rebalance env cid payload o1 st)))"
  "same_registry_metrics st (snd (snd (handle_pause_resume env cid payload o1 st)))"
  "same_registry_metrics st (snd (snd (handle_unsubscribe env cid payload o1 st)))"
  "same_registry_metrics st (snd (snd (handle_txn env cid payload o1 st)))"
  "same_registry_metrics st (snd (snd (handle_send_offsets env cid payload o1 st)))"
  unfolding same_registry_metrics_def handle_subscribe_def handle_poll_def handle_commit_def
    handle_seek_def handle_poll_rebalance_def handle_pause_resume_def handle_unsubscribe_def
    handle_txn_def handle_send_offsets_def Let_def
  by (simp_all split: outcome.split prod.split)

lemmas backend_keep_simps =
  backend_handlers_keep [unfolded same_registry_metrics_def, THEN conjunct1]
  backend_handlers_keep [unfolded same_registry_metrics_def, THEN conjunct2]

lemma registry_handlers_keep:
  "ss_metrics (snd (snd (handle_set_oauth_token cid payload o1 st))) = ss_metrics st"
  "ss_metrics (snd (snd (handle_register_cluster cid payload o1 st))) = ss_metrics st"
  unfolding handle_set_oauth_token_def handle_register_cluster_def Let_def
  by (simp_all split: outcome.split prod.split)

lemma registry_handlers_inv:
  assumes "registry_inv (ss_registry st)"
  shows "registry_inv (ss_registry (snd (snd (handle_set_oauth_token cid payload o1 st))))"
    and "registry_inv (ss_registry (snd (snd (handle_register_cluster cid payload o1 st))))"
  unfolding handle_set_oauth_token_def handle_register_cluster_def Let_def
  using assms set_oauth_token_inv [OF assms] register_inv [OF assms]
  by (auto split: outcome.split prod.split dest!: arg_cong [of _ _ snd])

text \<open>Every produce request is counted as answered well or badly, and never as both.\<close>

definition produce_balanced :: "metrics \<Rightarrow> bool" where
  "produce_balanced m \<longleftrightarrow>
     mt_produce_req_total m = mt_produce_resp_ok_total m + mt_produce_resp_err_total m"

lemmas inc_defs = inc_frames_def inc_fnf_def inc_fnf_failed_def inc_req_def inc_resp_ok_def
  inc_resp_err_def inc_dropped_def inc_def upd_metrics_def

lemma handle_produce_fnf_keeps:
  "ss_registry (snd (snd (handle_produce_fnf env cid payload o1 st))) = ss_registry st"
  "produce_balanced (ss_metrics (snd (snd (handle_produce_fnf env cid payload o1 st))))
     \<longleftrightarrow> produce_balanced (ss_metrics st)"
  unfolding handle_produce_fnf_def Let_def produce_balanced_def
  by (simp_all add: inc_defs split: outcome.split prod.split)

lemma handle_produce_req_keeps:
  "ss_registry (snd (snd (handle_produce_req env cid payload o1 st))) = ss_registry st"
  "produce_balanced (ss_metrics st) \<Longrightarrow>
     produce_balanced (ss_metrics (snd (snd (handle_produce_req env cid payload o1 st))))"
  unfolding handle_produce_req_def handle_produce_req_inner_def Let_def produce_balanced_def reply_def
  by (auto simp: inc_defs split: outcome.split prod.split)

lemma dispatch_state: "snd (snd (dispatch env k cid payload o1 st)) = snd (snd (dispatch_inner env k cid payload o1 st))"
  by (simp add: dispatch_def split: outcome.split prod.split)

lemma dispatch_keeps_balance:
  "produce_balanced (ss_metrics st) \<Longrightarrow>
   produce_balanced (ss_metrics (snd (snd (dispatch env kind cid payload o1 st))))"
  unfolding dispatch_state dispatch_inner_def
  by (cases kind) (simp_all add: backend_keep_simps registry_handlers_keep handle_produce_fnf_keeps handle_produce_req_keeps)

lemma dispatch_keeps_registry_inv:
  "registry_inv (ss_registry st) \<Longrightarrow>
   registry_inv (ss_registry (snd (snd (dispatch env kind cid payload o1 st))))"
  unfolding dispatch_state dispatch_inner_def
  by (cases kind) (simp_all add: backend_keep_simps registry_handlers_inv handle_produce_fnf_keeps handle_produce_req_keeps)

interpretation balance: connection_invariant env "\<lambda>st. produce_balanced (ss_metrics st)"
  by unfold_locales (simp_all add: dispatch_keeps_balance, simp add: produce_balanced_def inc_defs)

interpretation reg_inv: connection_invariant env "\<lambda>st. registry_inv (ss_registry st)"
  by unfold_locales (simp_all add: dispatch_keeps_registry_inv, simp add: inc_defs)

section \<open>No panic escapes, nothing before the handshake\<close>

lemma decode_header_no_panic [simp]: "decode_header buf \<noteq> Panic"
  by (auto simp: decode_header_def Let_def split: option.splits)

lemma handshake_no_panic: "fst (handshake kind cid payload o1) \<noteq> Panic"
  using hello_req.decode_total [of payload] send_encoded_wrote [of FT_Hello UNIV _ cid o1]
  by (auto simp: handshake_def hello_req_decode_def wrote_def split: outcome.splits)

lemma handle_connection_no_panic: "fst (handle_connection env fin inp hs o1 st) \<noteq> Panic"
proof (induction "length inp" arbitrary: inp hs o1 st rule: less_induct)
  case less
  have step: "fst (handle_connection env fin (drop (n + HEADER_LEN) inp) True o2 st2) \<noteq> Panic"
    if "HEADER_LEN \<le> length inp" for n o2 st2
    using that by (intro less.hyps) (auto simp: HEADER_LEN_def)
  have h: "handshake k c p o1 \<noteq> (Panic, o2)" for k c p o2
    using handshake_no_panic [of k c p o1] by auto
  have d: "dispatch env k c p o1 st1 \<noteq> (Panic, o2)" for k c p o2 st1
    using dispatch_no_panic [of env k c p o1 st1] by auto
  show ?case
    by (subst handle_connection.simps)
      (auto simp: Let_def not_less step h d check_per_frame_limit_def split: handler_splits stream_end.splits)
qed

text \<open>The input starts with a hello of the worker's major version.\<close>

definition hello_first :: "bytes \<Rightarrow> bool" where
  "hello_first inp \<longleftrightarrow>
     (\<exists>cid payload rest. inp = frame_bytes (frame_new FT_Hello cid payload) @ rest
        \<and> hello_req_decode payload = Ok \<lparr>hq_major = PROTOCOL_MAJOR\<rparr>)"

lemma header_frame:
  assumes "decode_header (take HEADER_LEN inp) = Ok h" and "unat (h_payload_len h) \<le> length (drop HEADER_LEN inp)"
  shows "inp = frame_bytes (frame_new (h_kind h) (h_cid h) (take (unat (h_payload_len h)) (drop HEADER_LEN inp)))
           @ drop (unat (h_payload_len h)) (drop HEADER_LEN inp)"
proof -
  let ?rest = "drop HEADER_LEN inp" and ?n = "unat (h_payload_len h)"
  have "inp = take HEADER_LEN inp @ take ?n ?rest @ drop ?n ?rest"
    by (simp del: drop_drop)
  moreover have "take HEADER_LEN inp =
      be_bytes 4 ?n @ [frame_type_code (h_kind h)] @ be_bytes 8 (unat (h_cid h))"
    using decode_header_OkD(3) [OF assms(1)] by simp
  ultimately show ?thesis using assms(2) by (simp add: frame_bytes_def frame_new_def min_absorb2)
qed

lemma handshake_refused:
  assumes "\<not> hello_first (frame_bytes (frame_new kind cid payload) @ rest)"
  shows "\<exists>e. handshake kind cid payload o1 = (Err e, o1)"
proof -
  have "hello_req_decode payload \<noteq> Panic" by (simp add: hello_req_decode_def hello_req.decode_total)
  moreover have "hq_major m \<noteq> PROTOCOL_MAJOR"
    if "kind = FT_Hello" "hello_req_decode payload = Ok m" for m
    using assms that by (cases m) (auto simp: hello_first_def)
  ultimately show ?thesis
    by (auto simp: handshake_def split: outcome.split)
qed

lemma no_hello_no_effect:
  assumes "\<not> hello_first inp"
  shows "fst (snd (handle_connection env fin inp False o1 st)) = o1"
    and "ss_backend (snd (snd (handle_connection env fin inp False o1 st))) = ss_backend st"
    and "ss_registry (snd (snd (handle_connection env fin inp False o1 st))) = ss_registry st"
proof -
  have refused: "\<exists>e. handshake (h_kind h) (h_cid h) (take (unat (h_payload_len h)) (drop HEADER_LEN inp)) o1 = (Err e, o1)"
    if "decode_header (take HEADER_LEN inp) = Ok h" "unat (h_payload_len h) \<le> length (drop HEADER_LEN inp)" for h
    using header_frame [OF that] assms handshake_refused by metis
  have "\<exists>r st2. handle_connection env fin inp False o1 st = (r, o1, st2)
      \<and> (st2 = st \<or> st2 = upd_metrics inc_frames st)"
    by (subst handle_connection.simps)
      (auto simp: Let_def not_less dest!: refused split: handler_splits stream_end.splits)
  then show "fst (snd (handle_connection env fin inp False o1 st)) = o1"
    and "ss_backend (snd (snd (handle_connection env fin inp False o1 st))) = ss_backend st"
    and "ss_registry (snd (snd (handle_connection env fin inp False o1 st))) = ss_registry st"
    by (auto simp: upd_metrics_def)
qed

section \<open>Replies that fit\<close>

lemma send_encoded_open:
  assumes "w = (payload, Ok ())" and "length payload \<le> MAX_PAYLOAD_LEN" and "o_accept o1 = None"
  shows "send_encoded ctx kind cid w o1 =
    (Ok (), o1\<lparr>o_bytes := o_bytes o1 @ frame_bytes (frame_new kind cid payload)\<rparr>)"
  using assms by (simp add: send_encoded_def write_frame_open)

lemma write_error_frame_open:
  assumes "str16_ok (er_message err)" and "o_accept o1 = None"
  shows "write_error_frame cid err o1 =
    (Ok (), o1\<lparr>o_bytes := o_bytes o1 @ frame_bytes (frame_new FT_Error cid (error_resp_layout err))\<rparr>)"
proof -
  have "length (error_resp_layout err) \<le> MAX_PAYLOAD_LEN"
    using assms(1) by (simp add: error_resp_layout_def str16_ok_def lay_str16_def MAX_PAYLOAD_LEN_def)
  then show ?thesis
    unfolding write_error_frame_def
    using assms by (intro send_encoded_open) (simp_all add: error_resp.encode_layout)
qed

lemma handshake_hello:
  assumes "o_accept o1 = None"
  shows "handshake FT_Hello cid [PROTOCOL_MAJOR] o1 =
    (Ok (), o1\<lparr>o_bytes := o_bytes o1 @ frame_bytes (frame_new FT_Hello cid [PROTOCOL_MAJOR])\<rparr>)"
proof -
  have "hello_req_decode [PROTOCOL_MAJOR] = Ok \<lparr>hq_major = PROTOCOL_MAJOR\<rparr>"
    by (simp add: hello_req_decode_def run_def hello_req_read_def need_def bind_def get_u8_def ret_def)
  moreover have "hello_resp_encode \<lparr>hs_major = PROTOCOL_MAJOR\<rparr> = ([PROTOCOL_MAJOR], Ok ())"
    by (simp add: hello_resp_encode_def wire_simps)
  ultimately show ?thesis
    using assms by (simp add: handshake_def send_encoded_open MAX_PAYLOAD_LEN_def)
qed

section \<open>Properties\<close>

text \<open>A worker with the dry-run back ends and an empty registry, for concrete runs.\<close>

definition demo_env :: "(unit, logging_consumer_state) server_env" where
  "demo_env = \<lparr>sv_producer = logging_producer, sv_consumer = logging_consumer, sv_panic = PanicAny\<rparr>"

definition demo_state :: "logging_consumer_state server_state" where
  "demo_state =
     \<lparr>ss_registry = registry_new, ss_backend = logging_consumer_new, ss_shutdown = shutdown_new,
      ss_metrics = metrics_new, ss_expedited = False\<rparr>"

definition demo_out :: out_stream where
  "demo_out = \<lparr>o_bytes = [], o_accept = None\<rparr>"

definition demo_ping :: frame where
  "demo_ping = frame_new FT_Ping 7 []"

lemma demo_ping_run:
  "handle_connection demo_env Eof
     (frame_bytes (frame_new FT_Hello 0 [PROTOCOL_MAJOR]) @ concat (map frame_bytes [demo_ping]))
     False demo_out demo_state
   = (Ok (), demo_out\<lparr>o_bytes := frame_bytes (frame_new FT_Hello 0 [PROTOCOL_MAJOR])
                                   @ frame_bytes (frame_new FT_Pong 7 [])\<rparr>,
      upd_metrics inc_frames (upd_metrics inc_frames demo_state))"
proof -
  have h: "within_limit (frame_new FT_Hello 0 [PROTOCOL_MAJOR])" "within_limit demo_ping"
    by (simp_all add: within_limit_def frame_new_def frame_limit_def demo_ping_def)
  have ping: "dispatch demo_env FT_Ping 7 [] o1 st =
      (Ok (), o1\<lparr>o_bytes := o_bytes o1 @ frame_bytes (frame_new FT_Pong 7 [])\<rparr>, st)"
    if "o_accept o1 = None" for o1 st
    using that by (simp add: dispatch_def dispatch_inner_def write_frame_open reply_def)
  have "frame_bytes demo_ping = frame_bytes demo_ping @ []" by simp
  then show ?thesis
    using handle_connection_frame [OF h(2), of demo_env Eof "[]"]
    by (simp add: handle_connection_frame [OF h(1)])
      (simp add: frame_new_def handshake_hello [unfolded frame_new_def] demo_out_def demo_ping_def
        ping [unfolded frame_new_def] handle_connection.simps [of demo_env Eof "[]"] HEADER_LEN_def)
qed

text \<open>
  C2: A peer that opens with a hello of the worker's version and then sends any list of frames
  within the size limits gets the hello back and then, in the order of its requests, exactly
  one response per request that has one, under the request's correlation id and of a kind that
  answers it; one-way frames get none. If the connection ends early (a reply does not fit, a
  handler panics, the peer is gone), what was written is the answers to the frames before the
  one that ended it, followed by at most a part of one reply to that frame.
\<close>
theorem connection_answers_in_order:
  assumes "list_all within_limit reqs" and "o_accept o1 = None"
    and "handle_connection env Eof
           (frame_bytes (frame_new FT_Hello cid [PROTOCOL_MAJOR]) @ concat (map frame_bytes reqs))
           False o1 st = (r, o2, st2)"
  shows "\<exists>k resps part. k \<le> length reqs \<and> answers (take k reqs) resps
    \<and> o_bytes o2 = o_bytes o1 @ frame_bytes (frame_new FT_Hello cid [PROTOCOL_MAJOR])
        @ concat (map frame_bytes resps) @ part
    \<and> (if r = Ok () then k = length reqs \<and> part = []
       else k < length reqs \<and> partial_reply (reqs ! k) part)"
proof -
  let ?h = "frame_new FT_Hello cid [PROTOCOL_MAJOR]"
  have "within_limit ?h" by (simp add: within_limit_def frame_new_def frame_limit_def)
  from assms(3) have "handle_connection env Eof (concat (map frame_bytes reqs)) True
      (o1\<lparr>o_bytes := o_bytes o1 @ frame_bytes ?h\<rparr>) (upd_metrics inc_frames st) = (r, o2, st2)"
    unfolding handle_connection_frame [OF \<open>within_limit ?h\<close>]
    by (simp add: handshake_hello [OF assms(2), unfolded frame_new_def] frame_new_def)
  from handle_connection_answers [OF assms(1) this] show ?thesis by simp
qed

theorem connection_answers_in_order_witness:
  "list_all within_limit [demo_ping] \<and> o_accept demo_out = None \<and>
   (\<exists>k resps part. k \<le> length [demo_ping] \<and> answers (take k [demo_ping]) resps
     \<and> o_bytes (demo_out\<lparr>o_bytes := frame_bytes (frame_new FT_Hello 0 [PROTOCOL_MAJOR])
                                   @ frame_bytes (frame_new FT_Pong 7 [])\<rparr>)
        = o_bytes demo_out @ frame_bytes (frame_new FT_Hello 0 [PROTOCOL_MAJOR])
            @ concat (map frame_bytes resps) @ part
     \<and> k = length [demo_ping] \<and> part = [])"
proof -
  have a: "list_all within_limit [demo_ping]" "o_accept demo_out = None"
    by (simp_all add: within_limit_def frame_new_def frame_limit_def demo_ping_def demo_out_def)
  from connection_answers_in_order [OF a demo_ping_run] a show ?thesis by simp
qed

text \<open>
  C19: Until the peer has sent a hello frame with the worker's major version, the worker writes
  nothing and neither the back end nor the cluster registry changes, whatever the peer sends.
\<close>
theorem nothing_before_hello:
  assumes "\<not> hello_first inp"
  shows "fst (snd (handle_connection env fin inp False o1 st)) = o1
    \<and> ss_backend (snd (snd (handle_connection env fin inp False o1 st))) = ss_backend st
    \<and> ss_registry (snd (snd (handle_connection env fin inp False o1 st))) = ss_registry st"
  using no_hello_no_effect [OF assms] by blast

theorem nothing_before_hello_witness:
  "\<not> hello_first [] \<and> fst (snd (handle_connection demo_env Eof [] False demo_out demo_state)) = demo_out"
proof -
  have "\<not> hello_first []" by (simp add: hello_first_def frame_bytes_def)
  with nothing_before_hello [of "[]" demo_env Eof demo_out demo_state] show ?thesis by simp
qed

text \<open>
  C20: No byte sequence, and no panic of a back-end call, makes the task that serves a
  connection panic: every panic in a handler becomes an error that closes the connection.
\<close>
theorem connection_never_panics:
  "fst (handle_connection env fin inp handshaked o1 st) \<noteq> Panic"
  by (rule handle_connection_no_panic)

text \<open>
  Over any connection, every counted produce request is counted as answered with success
  or with an error and not as both: \<open>produce_req_total\<close> stays the sum of \<open>produce_resp_ok_total\<close>
  and \<open>produce_resp_err_total\<close>, panics of the producer included.
\<close>
lemma produce_counters_balance:
  assumes "produce_balanced (ss_metrics st)"
  shows "produce_balanced (ss_metrics (snd (snd (handle_connection env fin inp handshaked o1 st))))"
  using assms by (rule balance.connection_keeps)

text \<open>
  C7: While the worker is draining, a produce frame of either kind is answered with the
  draining error under its correlation id and does not reach the producer.
\<close>
theorem draining_refuses_produce:
  assumes "is_draining (ss_shutdown st)" and "o_accept o1 = None"
    and "kind = FT_ProduceReq \<or> kind = FT_ProduceFnf"
  shows "\<exists>st2. dispatch env kind cid payload o1 st =
      (Ok (), o1\<lparr>o_bytes := o_bytes o1
                  @ frame_bytes (frame_new FT_Error cid (error_resp_layout draining_resp))\<rparr>, st2)
    \<and> ss_backend st2 = ss_backend st
    \<and> mt_frames_dropped_draining_total (ss_metrics st2) = mt_frames_dropped_draining_total (ss_metrics st) + 1"
proof -
  have ok: "str16_ok (er_message draining_resp)"
    by (simp add: draining_resp_def error_resp_new_def str16_ok_def ascii_valid_str)
  show ?thesis
    using assms(1,3)
    by (auto simp: dispatch_def dispatch_inner_def handle_produce_fnf_def handle_produce_req_def
        handle_produce_req_inner_def Let_def reply_def write_error_frame_open [OF ok assms(2)] inc_defs
        split: outcome.splits)
qed

theorem draining_refuses_produce_witness:
  "is_draining (ss_shutdown (demo_state\<lparr>ss_shutdown := start_draining shutdown_new\<rparr>))
   \<and> (\<exists>st2. dispatch demo_env FT_ProduceReq 9 [] demo_out
          (demo_state\<lparr>ss_shutdown := start_draining shutdown_new\<rparr>) =
        (Ok (), demo_out\<lparr>o_bytes := o_bytes demo_out
            @ frame_bytes (frame_new FT_Error 9 (error_resp_layout draining_resp))\<rparr>, st2))"
proof -
  have "is_draining (ss_shutdown (demo_state\<lparr>ss_shutdown := start_draining shutdown_new\<rparr>))"
    by (simp add: is_draining_def start_draining_def)
  with draining_refuses_produce [of "demo_state\<lparr>ss_shutdown := start_draining shutdown_new\<rparr>" demo_out
      FT_ProduceReq demo_env 9 "[]"] show ?thesis
    by (auto simp: demo_out_def)
qed

text \<open>
  The cluster registry stays well formed over any connection: names are unique and every
  cluster has a token slot of its own.
\<close>
lemma connection_keeps_registry:
  assumes "registry_inv (ss_registry st)"
  shows "registry_inv (ss_registry (snd (snd (handle_connection env fin inp handshaked o1 st))))"
  using assms by (rule reg_inv.connection_keeps)

end
