(* ===== verification/Kafka_Producer.thy ===== *)
theory Kafka_Producer
  imports Backend
begin

text \<open>
  \<open>worker/src/producer/real.rs\<close>: the producer on librdkafka. It caches one client per cluster,
  rebuilds it when the cluster was registered again, and sends records and transaction calls
  to it. The client library is a parameter: a record of its calls over a world \<open>'w\<close>, with client
  handles \<open>'p\<close> and group metadata \<open>'g\<close>.
\<close>

section \<open>The client library\<close>

record rd_record =
  rr_topic :: string
  rr_payload :: "bytes option"
  rr_key :: "bytes option"
  rr_partition :: "i32 option"
  rr_timestamp :: "i64 option"
  rr_headers :: "(string \<times> bytes option) list option"

text \<open>
  An error is the chain of causes it becomes as an \<open>anyhow\<close> error, for \<open>rp_send\<close> the error
  itself. Timeouts are in milliseconds. \<open>rp_downcast\<close> is \<open>Box<dyn Any>::downcast\<close> to the group
  metadata, \<open>rp_join_error\<close> the text of the error of a blocking task that panicked.
\<close>

record ('m, 'g, 'p, 'w) rd_producer =
  rp_create :: "cluster_config \<Rightarrow> string \<Rightarrow> slot_ref \<Rightarrow> 'w \<Rightarrow> (anyhow, 'p) outcome \<times> 'w"
  rp_init_transactions :: "'p \<Rightarrow> nat \<Rightarrow> 'w \<Rightarrow> (anyhow, unit) outcome \<times> 'w"
  rp_send :: "'p \<Rightarrow> rd_record \<Rightarrow> nat \<Rightarrow> 'w \<Rightarrow> (kafka_error, i32 \<times> i64) outcome \<times> 'w"
  rp_flush :: "'p \<Rightarrow> nat \<Rightarrow> 'w \<Rightarrow> (anyhow, unit) outcome \<times> 'w"
  rp_begin :: "'p \<Rightarrow> 'w \<Rightarrow> (anyhow, unit) outcome \<times> 'w"
  rp_commit :: "'p \<Rightarrow> nat \<Rightarrow> 'w \<Rightarrow> (anyhow, unit) outcome \<times> 'w"
  rp_abort :: "'p \<Rightarrow> nat \<Rightarrow> 'w \<Rightarrow> (anyhow, unit) outcome \<times> 'w"
  rp_send_offsets :: "'p \<Rightarrow> offset_spec list \<Rightarrow> 'g \<Rightarrow> nat \<Rightarrow> 'w \<Rightarrow> (anyhow, unit) outcome \<times> 'w"
  rp_add_offset :: "offset_spec \<Rightarrow> (anyhow, unit) outcome"
  rp_downcast :: "'m \<Rightarrow> 'g option"
  rp_errors :: rdkafka_errors
  rp_join_error :: string

text \<open>
  \<open>spawn_blocking(call).await.context("spawn_blocking ..")?.with_context(..)?\<close>: a panic of the
  call becomes an error of the caller.
\<close>

definition blocking :: "string \<Rightarrow> string \<Rightarrow> string \<Rightarrow> (anyhow, 'a) outcome \<Rightarrow> (anyhow, 'a) outcome" where
  "blocking join_error call ctx r =
     (case r of
        Panic \<Rightarrow> Err [CMsg (''spawn_blocking '' @ call), CMsg join_error]
      | _ \<Rightarrow> with_context ctx r)"

section \<open>State\<close>

record 'p producer_entry =
  en_producer :: 'p
  en_transactional :: bool
  en_config_version :: u64

text \<open>
  A cell is the content of the cluster's \<open>OnceCell\<close>: \<open>None\<close> until it is initialised. The lock of
  the map and the cell's own serialisation make each of the steps below atomic.
\<close>

record ('p, 'w) kafka_producer =
  kp_cells :: "(string, 'p producer_entry option) hmap"
  kp_world :: 'w

definition kafka_producer_new :: "'w \<Rightarrow> ('p, 'w) kafka_producer" where
  "kafka_producer_new w = \<lparr>kp_cells = [], kp_world = w\<rparr>"

section \<open>Building a client\<close>

definition has_key :: "(string, 'v) hmap \<Rightarrow> string \<Rightarrow> bool" where
  "has_key m k \<longleftrightarrow> map_of m k \<noteq> None"

definition config_set :: "(string \<times> string) list \<Rightarrow> cluster_config \<Rightarrow> cluster_config" where
  "config_set kvs cfg = fold (\<lambda>(k, v). AList.update k v) kvs cfg"

definition producer_config :: "cluster_config \<Rightarrow> cluster_config" where
  "producer_config cluster_cfg =
     config_set cluster_cfg
       (if \<not> has_key cluster_cfg ''compression.codec'' \<and> \<not> has_key cluster_cfg ''compression.type''
        then [(''compression.codec'', ''lz4'')] else [])"

definition cell_for ::
  "string \<Rightarrow> ('p, 'w) kafka_producer \<Rightarrow> 'p producer_entry option \<times> ('p, 'w) kafka_producer" where
  "cell_for cluster s =
     (case map_of (kp_cells s) cluster of
        Some c \<Rightarrow> (c, s)
      | None \<Rightarrow> (None, s\<lparr>kp_cells := AList.update cluster None (kp_cells s)\<rparr>))"

text \<open>\<open>build_entry\<close> reads the registry twice: \<open>reg\<close> is what the first read sees, \<open>reg'\<close> the second.\<close>

definition build_entry ::
  "('m, 'g, 'p, 'w) rd_producer \<Rightarrow> cluster_registry \<Rightarrow> cluster_registry \<Rightarrow> string \<Rightarrow> 'w \<Rightarrow>
   (anyhow, 'p producer_entry) outcome \<times> 'w" where
  "build_entry rp reg reg' cluster w =
     (case get_with_version reg cluster of
        None \<Rightarrow>
          (Err [CWorker (worker_error_new ClusterNotRegistered
             (''cluster '' @ quoted cluster @ '' not registered (call registerCluster first)''))], w)
      | Some (cluster_cfg, config_version) \<Rightarrow>
          (case token_slot_for reg' cluster of
             None \<Rightarrow> (Err [CMsg (''token slot for cluster '' @ quoted cluster)], w)
           | Some slot \<Rightarrow>
               (case rp_create rp (producer_config cluster_cfg) cluster slot w of
                  (Panic, w1) \<Rightarrow> (Panic, w1)
                | (Err e, w1) \<Rightarrow>
                    (Err (CMsg (''create FutureProducer for cluster '' @ quoted cluster) # e), w1)
                | (Ok p, w1) \<Rightarrow>
                    let transactional = has_key cluster_cfg ''transactional.id'';
                        entry = \<lparr>en_producer = p, en_transactional = transactional,
                                 en_config_version = config_version\<rparr> in
                    if transactional then
                      (case rp_init_transactions rp p 30000 w1 of
                         (r, w2) \<Rightarrow>
                           (map_ok (\<lambda>_. entry)
                              (blocking (rp_join_error rp) ''init_transactions''
                                 (''init_transactions for cluster '' @ quoted cluster) r), w2))
                    else (Ok entry, w1))))"

text \<open>
  One turn of the loop of \<open>entry_for\<close>: get or build the entry, compare its version with the
  registry's, and empty the cell if it is stale (\<open>Ok None\<close>: go round again).
\<close>

definition entry_init ::
  "('m, 'g, 'p, 'w) rd_producer \<Rightarrow> cluster_registry \<Rightarrow> cluster_registry \<Rightarrow> string \<Rightarrow>
   ('p, 'w) kafka_producer \<Rightarrow> (anyhow, 'p producer_entry) outcome \<times> ('p, 'w) kafka_producer" where
  "entry_init rp reg reg' cluster s =
     (case cell_for cluster s of
        (Some e, s1) \<Rightarrow> (Ok e, s1)
      | (None, s1) \<Rightarrow>
          (case build_entry rp reg reg' cluster (kp_world s1) of
             (Ok e, w) \<Rightarrow>
               (Ok e, s1\<lparr>kp_cells := AList.update cluster (Some e) (kp_cells s1), kp_world := w\<rparr>)
           | (Err x, w) \<Rightarrow> (Err x, s1\<lparr>kp_world := w\<rparr>)
           | (Panic, w) \<Rightarrow> (Panic, s1\<lparr>kp_world := w\<rparr>)))"

definition entry_try ::
  "('m, 'g, 'p, 'w) rd_producer \<Rightarrow> cluster_registry \<Rightarrow> cluster_registry \<Rightarrow> cluster_registry \<Rightarrow> string \<Rightarrow>
   ('p, 'w) kafka_producer \<Rightarrow> (anyhow, 'p producer_entry option) outcome \<times> ('p, 'w) kafka_producer" where
  "entry_try rp reg reg' reg'' cluster s =
     (case entry_init rp reg reg' cluster s of
        (Panic, s2) \<Rightarrow> (Panic, s2)
      | (Err x, s2) \<Rightarrow> (Err x, s2)
      | (Ok e, s2) \<Rightarrow>
          (case get_with_version reg'' cluster of
             None \<Rightarrow> (Err [CMsg (''cluster '' @ quoted cluster @ '' not registered'')], s2)
           | Some (_, current_version) \<Rightarrow>
               if en_config_version e = current_version then (Ok (Some e), s2)
               else (Ok None, s2\<lparr>kp_cells := AList.update cluster None (kp_cells s2)\<rparr>)))"

text \<open>
  The loop, with fuel: \<open>regs i\<close> is the registry that the \<open>i\<close>th read of this call sees, since other
  connections may register the cluster again in between. \<open>None\<close> means still going round.
\<close>

fun entry_loop ::
  "('m, 'g, 'p, 'w) rd_producer \<Rightarrow> nat \<Rightarrow> (nat \<Rightarrow> cluster_registry) \<Rightarrow> nat \<Rightarrow> string \<Rightarrow>
   ('p, 'w) kafka_producer \<Rightarrow> ((anyhow, 'p producer_entry) outcome \<times> ('p, 'w) kafka_producer) option" where
  "entry_loop rp 0 regs i cluster s = None"
| "entry_loop rp (Suc fuel) regs i cluster s =
     (case entry_try rp (regs i) (regs (i + 1)) (regs (i + 2)) cluster s of
        (Panic, s1) \<Rightarrow> Some (Panic, s1)
      | (Err x, s1) \<Rightarrow> Some (Err x, s1)
      | (Ok (Some e), s1) \<Rightarrow> Some (Ok e, s1)
      | (Ok None, s1) \<Rightarrow> entry_loop rp fuel regs (i + 3) cluster s1)"

text \<open>
  \<open>entry_for\<close> when no other connection registers the cluster during the call. Two turns are
  enough (lemma \<open>entry_loop_two\<close>), so the last case does not occur.
\<close>

definition entry_for ::
  "('m, 'g, 'p, 'w) rd_producer \<Rightarrow> cluster_registry \<Rightarrow> string \<Rightarrow> ('p, 'w) kafka_producer \<Rightarrow>
   (anyhow, 'p producer_entry) outcome \<times> ('p, 'w) kafka_producer" where
  "entry_for rp reg cluster s =
     (case entry_loop rp 2 (\<lambda>_. reg) 0 cluster s of Some r \<Rightarrow> r | None \<Rightarrow> (Panic, s))"

section \<open>Sending\<close>

definition build_headers :: "message_header list \<Rightarrow> (string \<times> bytes option) list option" where
  "build_headers headers =
     (if headers = [] then None else Some (map (\<lambda>(name, val). (name, Some val)) headers))"

definition build_record :: "produce_fnf \<Rightarrow> rd_record" where
  "build_record msg =
     \<lparr>rr_topic = pf_topic msg, rr_payload = Some (pf_value msg), rr_key = Some (pf_key msg),
      rr_partition = (if sint (pf_partition msg) \<ge> 0 then Some (pf_partition msg) else None),
      rr_timestamp = (if sint (pf_timestamp_ms msg) \<ge> 0 then Some (pf_timestamp_ms msg) else None),
      rr_headers = build_headers (pf_headers msg)\<rparr>"

text \<open>Calls on the cluster's entry.\<close>

definition on_entry ::
  "('m, 'g, 'p, 'w) rd_producer \<Rightarrow> cluster_registry \<Rightarrow> string \<Rightarrow>
   ('p producer_entry \<Rightarrow> 'w \<Rightarrow> (anyhow, 'a) outcome \<times> 'w) \<Rightarrow> ('p, 'w) kafka_producer \<Rightarrow>
   (anyhow, 'a) outcome \<times> ('p, 'w) kafka_producer" where
  "on_entry rp reg cluster f s =
     (case entry_for rp reg cluster s of
        (Panic, s1) \<Rightarrow> (Panic, s1)
      | (Err x, s1) \<Rightarrow> (Err x, s1)
      | (Ok e, s1) \<Rightarrow> (case f e (kp_world s1) of (r, w) \<Rightarrow> (r, s1\<lparr>kp_world := w\<rparr>)))"

definition send_record ::
  "('m, 'g, 'p, 'w) rd_producer \<Rightarrow> produce_fnf \<Rightarrow> 'p producer_entry \<Rightarrow> 'w \<Rightarrow>
   (anyhow, i32 \<times> i64) outcome \<times> 'w" where
  "send_record rp msg e w =
     (case rp_send rp (en_producer e) (build_record msg) 0 w of
        (r, w') \<Rightarrow> (map_err (\<lambda>err. [CWorker (kafka_error_to_worker (rp_errors rp) err)]) r, w'))"

definition kafka_produce_fnf ::
  "('m, 'g, 'p, 'w) rd_producer \<Rightarrow> produce_fnf \<Rightarrow> cluster_registry \<Rightarrow> ('p, 'w) kafka_producer \<Rightarrow>
   (anyhow, unit) outcome \<times> ('p, 'w) kafka_producer" where
  "kafka_produce_fnf rp msg reg s =
     (case on_entry rp reg (pf_cluster msg) (send_record rp msg) s of (r, s') \<Rightarrow> (map_ok (\<lambda>_. ()) r, s'))"

definition kafka_produce_ack ::
  "('m, 'g, 'p, 'w) rd_producer \<Rightarrow> produce_fnf \<Rightarrow> cluster_registry \<Rightarrow> ('p, 'w) kafka_producer \<Rightarrow>
   (anyhow, produce_resp) outcome \<times> ('p, 'w) kafka_producer" where
  "kafka_produce_ack rp msg reg s =
     (case on_entry rp reg (pf_cluster msg) (send_record rp msg) s of
        (r, s') \<Rightarrow> (map_ok (\<lambda>(p, off). ProduceOk \<lparr>da_partition = p, da_offset = off\<rparr>) r, s'))"

text \<open>Flushing: the initialised clients, one after the other; a failed flush is only logged.\<close>

fun flush_all ::
  "('m, 'g, 'p, 'w) rd_producer \<Rightarrow> nat \<Rightarrow> 'p list \<Rightarrow> 'w \<Rightarrow> (anyhow, unit) outcome \<times> 'w" where
  "flush_all rp timeout [] w = (Ok (), w)"
| "flush_all rp timeout (p # ps) w =
     (case rp_flush rp p timeout w of
        (Panic, w1) \<Rightarrow> (Err [CMsg ''spawn_blocking flush'', CMsg (rp_join_error rp)], w1)
      | (_, w1) \<Rightarrow> flush_all rp timeout ps w1)"

definition kafka_flush ::
  "('m, 'g, 'p, 'w) rd_producer \<Rightarrow> nat \<Rightarrow> ('p, 'w) kafka_producer \<Rightarrow>
   (anyhow, unit) outcome \<times> ('p, 'w) kafka_producer" where
  "kafka_flush rp timeout s =
     (case flush_all rp timeout
             (map en_producer (map the (filter (\<lambda>c. c \<noteq> None) (map snd (kp_cells s))))) (kp_world s) of
        (r, w) \<Rightarrow> (r, s\<lparr>kp_world := w\<rparr>))"

section \<open>Transactions\<close>

definition txn_call ::
  "('m, 'g, 'p, 'w) rd_producer \<Rightarrow> string \<Rightarrow> string \<Rightarrow> string \<Rightarrow>
   ('p \<Rightarrow> 'w \<Rightarrow> (anyhow, unit) outcome \<times> 'w) \<Rightarrow> 'p producer_entry \<Rightarrow> 'w \<Rightarrow>
   (anyhow, unit) outcome \<times> 'w" where
  "txn_call rp refusal call ctx f e w =
     (if \<not> en_transactional e then (Err [CMsg refusal], w)
      else case f (en_producer e) w of (r, w') \<Rightarrow> (blocking (rp_join_error rp) call ctx r, w'))"

definition kafka_begin ::
  "('m, 'g, 'p, 'w) rd_producer \<Rightarrow> string \<Rightarrow> cluster_registry \<Rightarrow> ('p, 'w) kafka_producer \<Rightarrow>
   (anyhow, unit) outcome \<times> ('p, 'w) kafka_producer" where
  "kafka_begin rp cluster reg s =
     on_entry rp reg cluster
       (txn_call rp (''cluster '' @ quoted cluster @ '' has no transactional.id; cannot begin transaction'')
          ''begin_transaction'' (''begin_transaction for cluster '' @ quoted cluster) (rp_begin rp)) s"

definition kafka_commit ::
  "('m, 'g, 'p, 'w) rd_producer \<Rightarrow> string \<Rightarrow> cluster_registry \<Rightarrow> ('p, 'w) kafka_producer \<Rightarrow>
   (anyhow, unit) outcome \<times> ('p, 'w) kafka_producer" where
  "kafka_commit rp cluster reg s =
     on_entry rp reg cluster
       (txn_call rp (''cluster '' @ quoted cluster @ '' is not transactional'')
          ''commit_transaction'' (''commit_transaction for cluster '' @ quoted cluster)
          (\<lambda>p. rp_commit rp p 30000)) s"

definition kafka_abort ::
  "('m, 'g, 'p, 'w) rd_producer \<Rightarrow> string \<Rightarrow> cluster_registry \<Rightarrow> ('p, 'w) kafka_producer \<Rightarrow>
   (anyhow, unit) outcome \<times> ('p, 'w) kafka_producer" where
  "kafka_abort rp cluster reg s =
     on_entry rp reg cluster
       (txn_call rp (''cluster '' @ quoted cluster @ '' is not transactional'')
          ''abort_transaction'' (''abort_transaction for cluster '' @ quoted cluster)
          (\<lambda>p. rp_abort rp p 30000)) s"

text \<open>Filling the topic partition list stops at the first offset the library refuses.\<close>

fun build_tpl :: "('m, 'g, 'p, 'w) rd_producer \<Rightarrow> offset_spec list \<Rightarrow> (anyhow, unit) outcome" where
  "build_tpl rp [] = Ok ()"
| "build_tpl rp ((topic, part, off) # os) =
     (case rp_add_offset rp (topic, part, off) of
        Panic \<Rightarrow> Panic
      | Err e \<Rightarrow> Err (CMsg (''add '' @ topic @ '':'' @ show_int (sint part) @ '' offset=''
                          @ show_int (sint off) @ '' to tpl'') # e)
      | Ok _ \<Rightarrow> build_tpl rp os)"

definition send_offsets_entry ::
  "('m, 'g, 'p, 'w) rd_producer \<Rightarrow> string \<Rightarrow> string \<Rightarrow> offset_spec list \<Rightarrow> 'm \<Rightarrow> 'p producer_entry \<Rightarrow> 'w \<Rightarrow>
   (anyhow, unit) outcome \<times> 'w" where
  "send_offsets_entry rp cluster group_id offsets metadata e w =
     (if \<not> en_transactional e then
        (Err [CMsg (''cluster '' @ quoted cluster
                @ '' has no transactional.id; send_offsets_to_transaction requires it'')], w)
      else
        case rp_downcast rp metadata of
          None \<Rightarrow>
            (Err [CMsg (''group metadata handle is not a rdkafka ConsumerGroupMetadata; ''
                    @ ''consumer/producer backend mismatch'')], w)
        | Some cgm \<Rightarrow>
            (case build_tpl rp offsets of
               Panic \<Rightarrow> (Panic, w)
             | Err x \<Rightarrow> (Err x, w)
             | Ok _ \<Rightarrow>
                 (case rp_send_offsets rp (en_producer e) offsets cgm 30000 w of
                    (r, w') \<Rightarrow>
                      (blocking (rp_join_error rp) ''send_offsets_to_transaction''
                         (''send_offsets_to_transaction cluster='' @ quoted cluster @ '' group=''
                            @ quoted group_id @ '' offsets='' @ show_nat (length offsets)) r, w'))))"

definition kafka_send_offsets ::
  "('m, 'g, 'p, 'w) rd_producer \<Rightarrow> string \<Rightarrow> string \<Rightarrow> offset_spec list \<Rightarrow> 'm \<Rightarrow> cluster_registry \<Rightarrow>
   ('p, 'w) kafka_producer \<Rightarrow> (anyhow, unit) outcome \<times> ('p, 'w) kafka_producer" where
  "kafka_send_offsets rp cluster group_id offsets metadata reg s =
     on_entry rp reg cluster (send_offsets_entry rp cluster group_id offsets metadata) s"

definition kafka_producer_ops ::
  "('m, 'g, 'p, 'w) rd_producer \<Rightarrow> ('m, ('p, 'w) kafka_producer) producer_ops" where
  "kafka_producer_ops rp =
     \<lparr>po_produce_fnf = kafka_produce_fnf rp, po_produce_ack = kafka_produce_ack rp,
      po_flush = kafka_flush rp, po_begin_transaction = kafka_begin rp,
      po_commit_transaction = kafka_commit rp, po_abort_transaction = kafka_abort rp,
      po_send_offsets = kafka_send_offsets rp\<rparr>"

section \<open>Laws of the cache\<close>

lemma cell_for_map:
  "cell_for cluster s = (c, s1) \<Longrightarrow>
     map_of (kp_cells s1) = (map_of (kp_cells s))(cluster \<mapsto> c) \<and> kp_world s1 = kp_world s
     \<and> c = (case map_of (kp_cells s) cluster of Some c \<Rightarrow> c | None \<Rightarrow> None)"
  by (auto simp: cell_for_def update_conv' split: option.splits)

lemma build_entry_OkD:
  assumes "build_entry rp reg reg' cluster w = (Ok e, w')"
  obtains cfg slot w1 where "get_with_version reg cluster = Some (cfg, en_config_version e)"
    and "token_slot_for reg' cluster = Some slot"
    and "rp_create rp (producer_config cfg) cluster slot w = (Ok (en_producer e), w1)"
    and "en_transactional e = has_key cfg ''transactional.id''"
  using assms
  by (auto simp: build_entry_def Let_def blocking_def with_context_def
      split: option.splits prod.splits outcome.splits if_splits)

lemma build_entry_unregistered:
  "get_with_version reg cluster = None \<Longrightarrow>
   build_entry rp reg reg' cluster w =
     (Err [CWorker (worker_error_new ClusterNotRegistered
        (''cluster '' @ quoted cluster @ '' not registered (call registerCluster first)''))], w)"
  by (simp add: build_entry_def)

text \<open>What \<open>entry_init\<close> returned is in the cell: it was there already, or it was built now.\<close>

lemma entry_init_OkD:
  assumes "entry_init rp reg reg' cluster s = (Ok e, s2)"
  shows "map_of (kp_cells s2) = (map_of (kp_cells s))(cluster \<mapsto> Some e)"
    and "map_of (kp_cells s) cluster = Some (Some e) \<and> s2 = s
       \<or> (\<forall>e0. map_of (kp_cells s) cluster \<noteq> Some (Some e0))
          \<and> (\<exists>w'. build_entry rp reg reg' cluster (kp_world s) = (Ok e, w'))"
proof -
  obtain c s1 where c: "cell_for cluster s = (c, s1)" by (cases "cell_for cluster s")
  note m = cell_for_map [OF c]
  show "map_of (kp_cells s2) = (map_of (kp_cells s))(cluster \<mapsto> Some e)"
    using assms c m by (auto simp: entry_init_def update_conv' split: option.splits prod.splits outcome.splits)
  show "map_of (kp_cells s) cluster = Some (Some e) \<and> s2 = s
       \<or> (\<forall>e0. map_of (kp_cells s) cluster \<noteq> Some (Some e0))
          \<and> (\<exists>w'. build_entry rp reg reg' cluster (kp_world s) = (Ok e, w'))"
  proof (cases "map_of (kp_cells s) cluster")
    case None
    with assms c m show ?thesis
      by (auto simp: entry_init_def split: option.splits prod.splits outcome.splits)
  next
    case (Some c0)
    then have "c = c0" "s1 = s" using c by (auto simp: cell_for_def)
    with assms c Some m show ?thesis
      by (cases c0) (auto simp: entry_init_def split: prod.splits outcome.splits)
  qed
qed

lemma entry_init_cached:
  "map_of (kp_cells s) cluster = Some (Some e) \<Longrightarrow> entry_init rp reg reg' cluster s = (Ok e, s)"
  by (simp add: entry_init_def cell_for_def)

text \<open>With an empty cell, the entry built from the version that is checked is not stale.\<close>

lemma entry_try_fresh:
  assumes "\<forall>e0. map_of (kp_cells s) cluster \<noteq> Some (Some e0)"
    and "get_with_version reg'' cluster = get_with_version reg cluster"
  shows "fst (entry_try rp reg reg' reg'' cluster s) \<noteq> Ok None"
proof (cases "entry_init rp reg reg' cluster s")
  case (Pair r s2)
  show ?thesis
  proof (cases r)
    case (Ok e)
    with Pair have i: "entry_init rp reg reg' cluster s = (Ok e, s2)" by simp
    with entry_init_OkD(2) [OF i] assms(1) obtain w'
      where "build_entry rp reg reg' cluster (kp_world s) = (Ok e, w')" by auto
    then obtain cfg where "get_with_version reg cluster = Some (cfg, en_config_version e)"
      by (rule build_entry_OkD)
    with i assms(2) show ?thesis by (simp add: entry_try_def)
  qed (use Pair in \<open>simp_all add: entry_try_def\<close>)
qed

lemma entry_try_stale:
  assumes "entry_try rp reg reg' reg'' cluster s = (Ok None, s1)"
  shows "map_of (kp_cells s1) cluster = Some None"
  using assms
  by (auto simp: entry_try_def split: prod.splits outcome.splits option.splits if_splits)

lemma entry_try_OkD:
  assumes "entry_try rp reg reg' reg'' cluster s = (Ok (Some e), s1)"
  shows "entry_init rp reg reg' cluster s = (Ok e, s1)"
    and "\<exists>cfg. get_with_version reg'' cluster = Some (cfg, en_config_version e)"
  using assms
  by (auto simp: entry_try_def split: prod.splits outcome.splits option.splits if_splits)

text \<open>Two turns are enough once the cluster's version no longer changes.\<close>

lemma entry_loop_two:
  assumes "\<And>k. i \<le> k \<Longrightarrow> get_with_version (regs k) cluster = gv"
  shows "entry_loop rp (Suc (Suc n)) regs i cluster s \<noteq> None"
proof -
  have fresh: "entry_loop rp (Suc m) regs j cluster t \<noteq> None"
    if "i \<le> j" "map_of (kp_cells t) cluster = Some None" for m j t
  proof -
    have "fst (entry_try rp (regs j) (regs (j + 1)) (regs (j + 2)) cluster t) \<noteq> Ok None"
      by (rule entry_try_fresh) (use that assms in auto)
    then show ?thesis by (auto split: prod.splits outcome.splits option.splits)
  qed
  show ?thesis
  proof (cases "entry_try rp (regs i) (regs (i + 1)) (regs (i + 2)) cluster s")
    case (Pair r s1)
    then show ?thesis
      using fresh [of "i + 3" s1 n] entry_try_stale [of rp "regs i" "regs (i + 1)" "regs (i + 2)" cluster s s1]
      by (auto simp del: entry_loop.simps(2) simp: entry_loop.simps(2) [of rp "Suc n"]
          split: outcome.splits option.splits)
  qed
qed

lemma entry_loop_stabilises:
  assumes "\<And>k. i + 3 * m \<le> k \<Longrightarrow> get_with_version (regs k) cluster = gv"
  shows "entry_loop rp (m + 2) regs i cluster s \<noteq> None"
  using assms
proof (induction m arbitrary: i s)
  case 0
  then show ?case using entry_loop_two [of i regs cluster gv rp 0 s] by (simp add: numeral_2_eq_2)
next
  case (Suc m)
  have "entry_loop rp (m + 2) regs (i + 3) cluster t \<noteq> None" for t
    by (rule Suc.IH) (use Suc.prems in simp)
  then show ?case by (auto split: prod.splits outcome.splits option.splits)
qed

lemma entry_for_loop:
  "entry_loop rp 2 (\<lambda>_. reg) 0 cluster s = Some (entry_for rp reg cluster s)"
  using entry_loop_two [of 0 "\<lambda>_. reg" cluster "get_with_version reg cluster" rp 0 s]
  by (auto simp: entry_for_def numeral_2_eq_2 split: option.splits)

lemma entry_loop_OkD:
  assumes "entry_loop rp n regs i cluster s = Some (Ok e, s')"
  shows "map_of (kp_cells s') cluster = Some (Some e)
    \<and> (\<exists>k cfg. i \<le> k \<and> get_with_version (regs k) cluster = Some (cfg, en_config_version e))
    \<and> (\<forall>c. c \<noteq> cluster \<longrightarrow> map_of (kp_cells s') c = map_of (kp_cells s) c)"
  using assms
proof (induction n arbitrary: i s)
  case (Suc n)
  obtain r s1 where t: "entry_try rp (regs i) (regs (i + 1)) (regs (i + 2)) cluster s = (r, s1)"
    by fastforce
  consider (ok) "r = Ok (Some e)" "s1 = s'" | (again) "r = Ok None" "entry_loop rp n regs (i + 3) cluster s1 = Some (Ok e, s')"
    using Suc.prems t by (auto split: outcome.splits option.splits)
  then show ?case
  proof cases
    case ok
    note tr = entry_try_OkD [OF t [unfolded ok(1)]]
    from tr(2) obtain cfg where "get_with_version (regs (i + 2)) cluster = Some (cfg, en_config_version e)" ..
    moreover have "i \<le> i + 2" by simp
    ultimately show ?thesis using entry_init_OkD(1) [OF tr(1)] ok(2) by (metis fun_upd_apply)
  next
    case again
    have "map_of (kp_cells s1) c = map_of (kp_cells s) c" if "c \<noteq> cluster" for c
    proof -
      obtain e1 s2 where "entry_init rp (regs i) (regs (i + 1)) cluster s = (Ok e1, s2)"
        "s1 = s2\<lparr>kp_cells := AList.update cluster None (kp_cells s2)\<rparr>"
        using t again(1) by (auto simp: entry_try_def split: prod.splits outcome.splits option.splits if_splits)
      with entry_init_OkD(1) [of rp "regs i" "regs (i + 1)" cluster s e1 s2] that show ?thesis
        by (simp add: update_conv')
    qed
    moreover have "\<exists>k cfg. i \<le> k \<and> get_with_version (regs k) cluster = Some (cfg, en_config_version e)"
      using Suc.IH [OF again(2)] by (meson add_leD1)
    ultimately show ?thesis using Suc.IH [OF again(2)] by auto
  qed
qed simp

text \<open>An entry that was cached is current; one that is returned from a stale cell was built now.\<close>

lemma entry_for_cached:
  assumes "map_of (kp_cells s) cluster = Some (Some e)"
    and "get_with_version reg cluster = Some (cfg, en_config_version e)"
  shows "entry_for rp reg cluster s = (Ok e, s)"
  using assms by (simp add: entry_for_def numeral_2_eq_2 entry_try_def entry_init_cached)

lemma entry_for_built:
  assumes "entry_for rp reg cluster s = (Ok e, s')"
    and "get_with_version reg cluster = Some (cfg, v)"
    and "\<And>e0. map_of (kp_cells s) cluster = Some (Some e0) \<Longrightarrow> en_config_version e0 \<noteq> v"
  shows "\<exists>slot w1. token_slot_for reg cluster = Some slot
    \<and> rp_create rp (producer_config cfg) cluster slot (kp_world s) = (Ok (en_producer e), w1)
    \<and> en_config_version e = v \<and> en_transactional e = has_key cfg ''transactional.id''"
proof -
  have built: ?thesis
    if "entry_try rp reg reg reg cluster t = (Ok (Some e), t')" "kp_world t = kp_world s"
      "\<forall>e0. map_of (kp_cells t) cluster \<noteq> Some (Some e0)" for t t'
  proof -
    note tr = entry_try_OkD [OF that(1)]
    with entry_init_OkD(2) [OF tr(1)] that(2,3) obtain w'
      where "build_entry rp reg reg cluster (kp_world s) = (Ok e, w')" by auto
    then show ?thesis by (rule build_entry_OkD) (use assms(2) in auto)
  qed
  show ?thesis
  proof (cases "\<exists>e0. map_of (kp_cells s) cluster = Some (Some e0)")
    case True
    then obtain e0 where e0: "map_of (kp_cells s) cluster = Some (Some e0)" ..
    let ?t = "s\<lparr>kp_cells := AList.update cluster None (kp_cells s)\<rparr>"
    have "entry_try rp reg reg reg cluster s = (Ok None, ?t)"
      using entry_init_cached [OF e0, of rp reg reg] assms(2) assms(3) [OF e0] by (simp add: entry_try_def)
    then have "entry_loop rp 2 (\<lambda>_. reg) 0 cluster s = entry_loop rp 1 (\<lambda>_. reg) 3 cluster ?t"
      by (simp add: numeral_2_eq_2)
    then have "entry_loop rp 1 (\<lambda>_. reg) 3 cluster ?t = Some (Ok e, s')"
      using entry_for_loop [of rp reg cluster s] assms(1) by simp
    then have "entry_try rp reg reg reg cluster ?t = (Ok (Some e), s')"
      by (auto split: prod.splits outcome.splits option.splits)
    then show ?thesis by (rule built) (simp_all add: update_conv')
  next
    case False
    then have "fst (entry_try rp reg reg reg cluster s) \<noteq> Ok None" by (intro entry_try_fresh) auto
    then have "entry_try rp reg reg reg cluster s = (Ok (Some e), s')"
      using entry_for_loop [of rp reg cluster s] assms(1)
      by (auto simp: numeral_2_eq_2 split: prod.splits outcome.splits option.splits)
    then show ?thesis by (rule built) (use False in auto)
  qed
qed

section \<open>Properties\<close>

lemma on_entry_OkD:
  assumes "on_entry rp reg cluster f s = (Ok x, s')"
  obtains e s1 where "entry_for rp reg cluster s = (Ok e, s1)" "f e (kp_world s1) = (Ok x, kp_world s')"
  using assms by (auto simp: on_entry_def split: prod.splits outcome.splits)

text \<open>
  C12: After a cluster has been registered again, the next message for it is sent through a client
  that was built from the new configuration, with the cluster's old token slot, and not
  through the client that is in the cache.
\<close>
theorem reregistered_cluster_gets_new_client:
  assumes "map_of (kp_cells s) (pf_cluster msg) = Some (Some e0)"
    and "get_with_version reg (pf_cluster msg) = Some (cfg0, en_config_version e0)"
    and "kafka_produce_ack rp msg (snd (register (pf_cluster msg) cfg reg)) s = (Ok resp, s')"
  shows "\<exists>slot p w1 w2 part off.
      token_slot_for reg (pf_cluster msg) = Some slot
    \<and> rp_create rp (producer_config cfg) (pf_cluster msg) slot (kp_world s) = (Ok p, w1)
    \<and> rp_send rp p (build_record msg) 0 w2 = (Ok (part, off), kp_world s')
    \<and> resp = ProduceOk \<lparr>da_partition = part, da_offset = off\<rparr>"
proof -
  let ?c = "pf_cluster msg" and ?reg = "snd (register (pf_cluster msg) cfg reg)"
  from assms(3) obtain d where on: "on_entry rp ?reg ?c (send_record rp msg) s = (Ok d, s')"
    and resp: "resp = ProduceOk \<lparr>da_partition = fst d, da_offset = snd d\<rparr>"
    by (auto simp: kafka_produce_ack_def split: prod.splits)
  from on_entry_OkD [OF on] obtain e s1 where e: "entry_for rp ?reg ?c s = (Ok e, s1)"
    and send: "send_record rp msg e (kp_world s1) = (Ok d, kp_world s')" .
  have reg: "get_with_version ?reg ?c = Some (cfg, en_config_version e0 + 1)"
    using assms(2) by (simp add: register_version)
  have "en_config_version e1 \<noteq> en_config_version e0 + 1" if "map_of (kp_cells s) ?c = Some (Some e1)" for e1
    using that assms(1) by simp
  from entry_for_built [OF e reg this] obtain slot w1 where "token_slot_for ?reg ?c = Some slot"
    "rp_create rp (producer_config cfg) ?c slot (kp_world s) = (Ok (en_producer e), w1)" by blast
  moreover obtain slot0 where "token_slot_for reg ?c = Some slot0"
    using assms(2) by (auto simp: get_with_version_def token_slot_for_def)
  moreover from this have "token_slot_for ?reg ?c = Some slot0" by (rule register_keeps_slot)
  moreover have "rp_send rp (en_producer e) (build_record msg) 0 (kp_world s1) = (Ok (fst d, snd d), kp_world s')"
    using send by (auto simp: send_record_def split: prod.splits)
  ultimately show ?thesis using resp by auto
qed

text \<open>A library whose clients are numbered: the world counts the clients made so far.\<close>

definition demo_rp :: "(unit, unit, nat, nat) rd_producer" where
  "demo_rp =
     \<lparr>rp_create = (\<lambda>cfg cluster slot w. (Ok w, w + 1)), rp_init_transactions = (\<lambda>p t w. (Ok (), w)),
      rp_send = (\<lambda>p r t w. (Ok (0, of_nat p), w)), rp_flush = (\<lambda>p t w. (Ok (), w)),
      rp_begin = (\<lambda>p w. (Ok (), w)), rp_commit = (\<lambda>p t w. (Ok (), w)), rp_abort = (\<lambda>p t w. (Ok (), w)),
      rp_send_offsets = (\<lambda>p os g t w. (Ok (), w)), rp_add_offset = (\<lambda>o1. Ok ()),
      rp_downcast = Some, rp_errors = \<lparr>rk_code_num = (\<lambda>c. 0), rk_to_string = (\<lambda>e. ''error'')\<rparr>,
      rp_join_error = ''task panicked''\<rparr>"

definition demo_cluster :: cluster_registry where
  "demo_cluster = snd (register ''a'' [] registry_new)"

definition demo_message :: produce_fnf where
  "demo_message = produce_fnf_default\<lparr>pf_cluster := ''a''\<rparr>"

definition demo_cache :: "(nat, nat) kafka_producer" where
  "demo_cache =
     \<lparr>kp_cells = [(''a'', Some \<lparr>en_producer = 0, en_transactional = False, en_config_version = 1\<rparr>)],
      kp_world = 1\<rparr>"

lemmas producer_eval = kafka_produce_ack_def on_entry_def entry_for_def numeral_2_eq_2 entry_try_def
  entry_init_def cell_for_def build_entry_def Let_def has_key_def send_record_def demo_rp_def
  register_def registry_new_def get_with_version_def token_slot_for_def

theorem reregistered_cluster_gets_new_client_witness:
  "\<exists>slot p w1 w2 part off.
      token_slot_for demo_cluster ''a'' = Some slot
    \<and> rp_create demo_rp (producer_config [(''k'', ''v'')]) ''a'' slot 1 = (Ok p, w1)
    \<and> rp_send demo_rp p (build_record demo_message) 0 w2 = (Ok (part, off), 2)
    \<and> ProduceOk \<lparr>da_partition = 0, da_offset = 1\<rparr> = ProduceOk \<lparr>da_partition = part, da_offset = off\<rparr>"
proof -
  let ?reg = "snd (register ''a'' [(''k'', ''v'')] demo_cluster)"
  let ?s = "\<lparr>kp_cells = [(''a'', Some \<lparr>en_producer = 1, en_transactional = False, en_config_version = 2\<rparr>)],
      kp_world = 2\<rparr> :: (nat, nat) kafka_producer"
  have c: "pf_cluster demo_message = ''a''" by (simp add: demo_message_def)
  have "kafka_produce_ack demo_rp demo_message ?reg demo_cache =
      (Ok (ProduceOk \<lparr>da_partition = 0, da_offset = 1\<rparr>), ?s)"
    by (simp add: producer_eval demo_cluster_def demo_message_def demo_cache_def)
  moreover have "map_of (kp_cells demo_cache) ''a'' =
      Some (Some \<lparr>en_producer = 0, en_transactional = False, en_config_version = 1\<rparr>)"
    by (simp add: demo_cache_def)
  moreover have "get_with_version demo_cluster ''a'' = Some ([], 1)"
    by (simp add: demo_cluster_def register_def registry_new_def get_with_version_def)
  moreover have "kp_world demo_cache = 1" by (simp add: demo_cache_def)
  ultimately show ?thesis
    using reregistered_cluster_gets_new_client [of demo_cache demo_message
        "\<lparr>en_producer = 0, en_transactional = False, en_config_version = 1\<rparr>" demo_cluster "[]" demo_rp
        "[(''k'', ''v'')]" "ProduceOk \<lparr>da_partition = 0, da_offset = 1\<rparr>" ?s]
    unfolding c by simp
qed

text \<open>
  C27: Looking up the client of a cluster comes to an end although other connections may register
  the cluster again meanwhile: when they have stopped after \<open>m\<close> turns, two more are enough. The
  client it returns is of a version that was current during the call, it is in the cache, a
  further lookup under that version returns it without a call of the library, and the other
  clusters' clients are untouched.
\<close>
theorem client_lookup_returns:
  assumes "\<And>k. i + 3 * m \<le> k \<Longrightarrow> get_with_version (regs k) cluster = gv"
  shows "\<exists>r s'. entry_loop rp (m + 2) regs i cluster s = Some (r, s')
    \<and> (\<forall>e. r = Ok e \<longrightarrow>
        (\<exists>k cfg. i \<le> k \<and> get_with_version (regs k) cluster = Some (cfg, en_config_version e))
        \<and> (\<forall>reg cfg. get_with_version reg cluster = Some (cfg, en_config_version e) \<longrightarrow>
             entry_for rp reg cluster s' = (Ok e, s'))
        \<and> (\<forall>c. c \<noteq> cluster \<longrightarrow> map_of (kp_cells s') c = map_of (kp_cells s) c))"
proof -
  obtain r s' where loop: "entry_loop rp (m + 2) regs i cluster s = Some (r, s')"
    using entry_loop_stabilises [of i m regs cluster gv rp s, OF assms] by fastforce
  moreover have "(\<exists>k cfg. i \<le> k \<and> get_with_version (regs k) cluster = Some (cfg, en_config_version e))
        \<and> (\<forall>reg cfg. get_with_version reg cluster = Some (cfg, en_config_version e) \<longrightarrow>
             entry_for rp reg cluster s' = (Ok e, s'))
        \<and> (\<forall>c. c \<noteq> cluster \<longrightarrow> map_of (kp_cells s') c = map_of (kp_cells s) c)" if "r = Ok e" for e
    using entry_loop_OkD [OF loop [unfolded that]] by (auto intro: entry_for_cached)
  ultimately show ?thesis by blast
qed

theorem client_lookup_returns_witness:
  "\<exists>r s'. entry_loop demo_rp (1 + 2) (\<lambda>k. if k < 3 then registry_new else demo_cluster) 0 ''a''
      (kafka_producer_new 0) = Some (r, s')"
proof -
  let ?regs = "\<lambda>k :: nat. if k < 3 then registry_new else demo_cluster"
  have "get_with_version (?regs k) ''a'' = get_with_version demo_cluster ''a''" if "0 + 3 * 1 \<le> k" for k
    using that by simp
  then have "\<And>k. 0 + 3 * 1 \<le> k \<Longrightarrow> get_with_version (?regs k) ''a'' = get_with_version demo_cluster ''a''" .
  note client_lookup_returns [of 0 1 ?regs "''a''" "get_with_version demo_cluster ''a''" demo_rp
      "kafka_producer_new 0", OF this]
  then show ?thesis by blast
qed

text \<open>
  A transaction call on a cluster without a \<open>transactional.id\<close> is refused without a call of
  the library, but the refusal carries no structured error: it is reported with kind
  \<open>Internal\<close>, not with the kind \<open>NotTransactional\<close> that exists for it.
\<close>
lemma non_transactional_reported_internal:
  assumes "entry_for rp reg cluster s = (Ok e, s1)" and "\<not> en_transactional e"
    and "op \<in> {kafka_begin, kafka_commit, kafka_abort}"
  shows "\<exists>err. op rp cluster reg s = (Err err, s1) \<and> er_kind (from_anyhow err) = Internal
    \<and> er_kind (from_anyhow err) \<noteq> NotTransactional"
proof -
  have "\<exists>msg. op rp cluster reg s = (Err [CMsg msg], s1)"
    using assms by (auto simp: kafka_begin_def kafka_commit_def kafka_abort_def on_entry_def txn_call_def)
  then obtain msg where "op rp cluster reg s = (Err (map CMsg [msg]), s1)" by auto
  then show ?thesis using from_anyhow_plain [of "[msg]"] by (simp add: error_resp_new_def)
qed

end
