(* ===== verification/Consumer_Sub.thy ===== *)
theory Consumer_Sub
  imports Backend Metrics "HOL-Library.Sublist"
begin

text \<open>
  \<open>worker/src/consumer/real.rs\<close>, one subscription: the message buffer between the librdkafka
  stream and the pollers, with its two limits, automatic pause and resume, the error handling
  of the stream loop, and the rebalance event queue. The librdkafka client is a parameter; the
  clock and the environment are arguments.
\<close>

section \<open>Configuration\<close>

record consumer_config =
  kc_buffer_capacity :: nat
  kc_pause_at :: nat
  kc_resume_at :: nat
  kc_buffer_bytes_capacity :: nat
  kc_pause_at_bytes :: nat
  kc_resume_at_bytes :: nat

text \<open>
  \<open>read_env_usize\<close>: the variable's value if it is set and parses. \<open>env key\<close> is the parsed
  value of the variable, if any.
\<close>

definition read_env_usize :: "(string \<Rightarrow> nat option) \<Rightarrow> string \<Rightarrow> nat \<Rightarrow> nat" where
  "read_env_usize env key dflt = (case env key of Some v \<Rightarrow> v | None \<Rightarrow> dflt)"

text \<open>The products of the defaults wrap in a release build, which does not check for overflow.\<close>

definition usize_mul :: "nat \<Rightarrow> nat \<Rightarrow> nat" where
  "usize_mul a b = a * b mod 2 ^ 64"

definition default_config :: "(string \<Rightarrow> nat option) \<Rightarrow> consumer_config" where
  "default_config env =
     (let buffer_capacity = read_env_usize env ''HI_KAFKA_CONSUMER_BUFFER_CAPACITY'' 10000;
          pause_at = read_env_usize env ''HI_KAFKA_CONSUMER_PAUSE_AT''
                       (max (usize_mul buffer_capacity 8 div 10) 1);
          resume_at = read_env_usize env ''HI_KAFKA_CONSUMER_RESUME_AT''
                       (max (usize_mul buffer_capacity 2 div 10) 1);
          buffer_bytes_capacity = read_env_usize env ''HI_KAFKA_CONSUMER_BUFFER_BYTES''
                       (64 * 1024 * 1024);
          pause_at_bytes = read_env_usize env ''HI_KAFKA_CONSUMER_PAUSE_AT_BYTES''
                       (max (usize_mul buffer_bytes_capacity 8 div 10) 1);
          resume_at_bytes = read_env_usize env ''HI_KAFKA_CONSUMER_RESUME_AT_BYTES''
                       (max (usize_mul buffer_bytes_capacity 2 div 10) 1)
      in \<lparr>kc_buffer_capacity = buffer_capacity, kc_pause_at = pause_at, kc_resume_at = resume_at,
          kc_buffer_bytes_capacity = buffer_bytes_capacity, kc_pause_at_bytes = pause_at_bytes,
          kc_resume_at_bytes = resume_at_bytes\<rparr>)"

section \<open>State of a subscription\<close>

text \<open>
  The blocking jobs that \<open>maybe_pause\<close> and \<open>maybe_resume\<close> hand to the blocking pool: they run
  later, in an order the pool chooses.
\<close>

datatype flow_job = AutoPause | AutoResume

record 'k sub_state =
  sb_buffer :: "consumer_message list"
  sb_client :: 'k
  sb_rebalance_events :: "rebalance_event list"
  sb_paused :: bool
  sb_user_paused :: "partition_spec set"
  sb_pause_total :: u64
  sb_resume_total :: u64
  sb_terminated :: bool
  sb_last_error :: "string option"
  sb_buffer_bytes :: nat
  sb_messages_dropped_total :: u64
  sb_last_active_ms :: nat
  sb_metrics :: "metrics option"
  sb_jobs :: "flow_job list"

definition sub_new :: "'k \<Rightarrow> nat \<Rightarrow> metrics option \<Rightarrow> 'k sub_state" where
  "sub_new client now m =
     \<lparr>sb_buffer = [], sb_client = client, sb_rebalance_events = [], sb_paused = False,
      sb_user_paused = {}, sb_pause_total = 0, sb_resume_total = 0, sb_terminated = False,
      sb_last_error = None, sb_buffer_bytes = 0, sb_messages_dropped_total = 0,
      sb_last_active_ms = now, sb_metrics = m, sb_jobs = []\<rparr>"

text \<open>
  The calls of the librdkafka client that the subscription makes. An error is the chain of
  causes it becomes as an \<open>anyhow\<close> error.
\<close>

record 'k rd_client =
  rd_assignment :: "'k \<Rightarrow> (anyhow, partition_spec list) outcome"
  rd_pause :: "partition_spec list \<Rightarrow> 'k \<Rightarrow> (anyhow, unit) outcome \<times> 'k"
  rd_resume :: "partition_spec list \<Rightarrow> 'k \<Rightarrow> (anyhow, unit) outcome \<times> 'k"

section \<open>Rebalance events\<close>

datatype rebalance = RdAssign "partition_spec list" | RdRevoke "partition_spec list" | RdError string

definition MAX_QUEUE :: nat where
  "MAX_QUEUE = 1024"

definition push_event :: "rebalance_event \<Rightarrow> rebalance_event list \<Rightarrow> rebalance_event list" where
  "push_event event q =
     (let q' = (if length q \<ge> MAX_QUEUE then drop 1 q else q) in q' @ [event])"

definition pre_rebalance :: "rebalance \<Rightarrow> rebalance_event list \<Rightarrow> rebalance_event list" where
  "pre_rebalance r q =
     (case r of
        RdRevoke tpl \<Rightarrow> push_event (RevokeEv tpl) q
      | RdAssign tpl \<Rightarrow> q
      | RdError err \<Rightarrow> push_event (ErrorEv (''pre_rebalance: '' @ err)) q)"

definition post_rebalance :: "rebalance \<Rightarrow> rebalance_event list \<Rightarrow> rebalance_event list" where
  "post_rebalance r q =
     (case r of
        RdAssign tpl \<Rightarrow> push_event (AssignEv tpl) q
      | RdRevoke tpl \<Rightarrow> q
      | RdError err \<Rightarrow> push_event (ErrorEv (''post_rebalance: '' @ err)) q)"

definition take_events :: "u32 \<Rightarrow> 'k sub_state \<Rightarrow> rebalance_event list \<times> 'k sub_state" where
  "take_events max_events s =
     (let n = min (unat max_events) (length (sb_rebalance_events s)) in
      (take n (sb_rebalance_events s),
       s\<lparr>sb_rebalance_events := drop n (sb_rebalance_events s)\<rparr>))"

section \<open>Automatic pause and resume\<close>

definition message_bytes :: "consumer_message \<Rightarrow> nat" where
  "message_bytes m =
     length (cm_key m) + length (cm_value m)
       + sum_list (map (\<lambda>h. length (fst h) + length (snd h)) (cm_headers m))"

definition count_metric :: "(metrics \<Rightarrow> metrics) \<Rightarrow> 'k sub_state \<Rightarrow> 'k sub_state" where
  "count_metric f s = s\<lparr>sb_metrics := map_option f (sb_metrics s)\<rparr>"

text \<open>
  Both take the length and the size of the buffer that the caller read while it held the
  buffer's lock; they run after the lock is released.
\<close>

definition maybe_pause :: "consumer_config \<Rightarrow> nat \<Rightarrow> nat \<Rightarrow> 'k sub_state \<Rightarrow> 'k sub_state" where
  "maybe_pause cfg buf_len buf_bytes s =
     (let count_trip = kc_pause_at cfg > 0 \<and> buf_len \<ge> kc_pause_at cfg;
          bytes_trip = kc_pause_at_bytes cfg > 0 \<and> buf_bytes \<ge> kc_pause_at_bytes cfg in
      if \<not> count_trip \<and> \<not> bytes_trip then s
      else if sb_paused s then s
      else
        (count_metric (\<lambda>m. m\<lparr>mt_consumer_pause_total := inc (mt_consumer_pause_total m)\<rparr>) s)
          \<lparr>sb_paused := True, sb_pause_total := sb_pause_total s + 1,
           sb_jobs := sb_jobs s @ [AutoPause]\<rparr>)"

definition maybe_resume :: "consumer_config \<Rightarrow> nat \<Rightarrow> nat \<Rightarrow> 'k sub_state \<Rightarrow> 'k sub_state" where
  "maybe_resume cfg buf_len buf_bytes s =
     (if buf_len > kc_resume_at cfg \<or> buf_bytes > kc_resume_at_bytes cfg then s
      else if \<not> sb_paused s then s
      else
        (count_metric (\<lambda>m. m\<lparr>mt_consumer_resume_total := inc (mt_consumer_resume_total m)\<rparr>) s)
          \<lparr>sb_paused := False, sb_resume_total := sb_resume_total s + 1,
           sb_jobs := sb_jobs s @ [AutoResume]\<rparr>)"

text \<open>
  The reference state machines the unit tests run, on the message count alone: whether the
  transition fired, the paused flag and the counter afterwards. On the count dimension
  \<^const>\<open>maybe_pause\<close> and \<^const>\<open>maybe_resume\<close> do exactly what they do.
\<close>

definition try_transition_to_paused :: "nat \<Rightarrow> nat \<Rightarrow> bool \<Rightarrow> 64 word \<Rightarrow> bool \<times> bool \<times> 64 word" where
  "try_transition_to_paused buf_len pause_at paused pause_total =
     (if pause_at = 0 \<or> buf_len < pause_at then (False, paused, pause_total)
      else if paused then (False, True, pause_total)
      else (True, True, pause_total + 1))"

definition try_transition_to_resumed :: "nat \<Rightarrow> nat \<Rightarrow> bool \<Rightarrow> 64 word \<Rightarrow> bool \<times> bool \<times> 64 word" where
  "try_transition_to_resumed buf_len resume_at paused resume_total =
     (if buf_len > resume_at then (False, paused, resume_total)
      else if \<not> paused then (False, False, resume_total)
      else (True, False, resume_total + 1))"

text \<open>
  The closures that run on the blocking pool, at the points where others may run in between: a job
  of \<open>maybe_pause\<close> or \<open>maybe_resume\<close> before it reads the assignment; before it calls \<open>pause\<close>; before it
  takes the lock of \<open>user_paused\<close>; with the partitions chosen and the lock dropped, before it calls \<open>resume\<close>.
  The closure of \<open>flow_control\<close>, the application's own pause and resume, before it knows the partitions;
  before it calls the client; after the call, before it takes the lock of \<open>user_paused\<close>.
\<close>

datatype flow_task =
    JobStart flow_job
  | JobPause "partition_spec list"
  | JobFilter "partition_spec list"
  | JobResume "partition_spec list"
  | UserStart pause_resume_op "partition_spec list"
  | UserCall pause_resume_op "partition_spec list"
  | UserRecord pause_resume_op "partition_spec list"

text \<open>Errors of a job are only logged.\<close>

definition logged :: "(anyhow, unit) outcome \<Rightarrow> (anyhow, unit) outcome" where
  "logged r = (case r of Panic \<Rightarrow> Panic | _ \<Rightarrow> Ok ())"

text \<open>
  One section: what remains to be done, or the result of the closure. A job pauses or resumes the
  current assignment, on resume without the partitions the application paused itself. For the
  application an empty list means the current assignment.
\<close>

fun task_step ::
  "'k rd_client \<Rightarrow> flow_task \<Rightarrow> 'k sub_state \<Rightarrow> (flow_task + (anyhow, unit) outcome) \<times> 'k sub_state" where
  "task_step rd (JobStart job) s =
     (case rd_assignment rd (sb_client s) of
        Ok assignment \<Rightarrow>
          (Inl (case job of AutoPause \<Rightarrow> JobPause assignment | AutoResume \<Rightarrow> JobFilter assignment), s)
      | r \<Rightarrow> (Inr (logged (map_ok (\<lambda>_. ()) r)), s))"
| "task_step rd (JobPause assignment) s =
     (case rd_pause rd assignment (sb_client s) of (r, k) \<Rightarrow> (Inr (logged r), s\<lparr>sb_client := k\<rparr>))"
| "task_step rd (JobFilter assignment) s =
     (let tpl = filter (\<lambda>p. p \<notin> sb_user_paused s) assignment in
      if tpl = [] then (Inr (Ok ()), s) else (Inl (JobResume tpl), s))"
| "task_step rd (JobResume tpl) s =
     (case rd_resume rd tpl (sb_client s) of (r, k) \<Rightarrow> (Inr (logged r), s\<lparr>sb_client := k\<rparr>))"
| "task_step rd (UserStart op partitions) s =
     (case (if partitions = [] then rd_assignment rd (sb_client s) else Ok partitions) of
        Panic \<Rightarrow> (Inr Panic, s)
      | Err e \<Rightarrow> (Inr (Err (CMsg ''get current assignment'' # e)), s)
      | Ok affected \<Rightarrow> (Inl (UserCall op affected), s))"
| "task_step rd (UserCall op affected) s =
     (case (case op of Pause \<Rightarrow> rd_pause rd affected (sb_client s) | Resume \<Rightarrow> rd_resume rd affected (sb_client s)) of
        (Ok _, k) \<Rightarrow> (Inl (UserRecord op affected), s\<lparr>sb_client := k\<rparr>)
      | (Err e, k) \<Rightarrow>
          (Inr (Err (CMsg (case op of Pause \<Rightarrow> ''pause partitions'' | Resume \<Rightarrow> ''resume partitions'') # e)),
           s\<lparr>sb_client := k\<rparr>)
      | (Panic, k) \<Rightarrow> (Inr Panic, s\<lparr>sb_client := k\<rparr>))"
| "task_step rd (UserRecord op affected) s =
     (Inr (Ok ()),
      s\<lparr>sb_user_paused :=
          (case op of Pause \<Rightarrow> sb_user_paused s \<union> set affected | Resume \<Rightarrow> sb_user_paused s - set affected)\<rparr>)"

fun sections_left :: "flow_task \<Rightarrow> nat" where
  "sections_left (JobStart _) = 3"
| "sections_left (JobFilter _) = 2"
| "sections_left (UserStart _ _) = 3"
| "sections_left (UserCall _ _) = 2"
| "sections_left _ = 1"

lemma sections_decrease: "task_step rd t s = (Inl t', s') \<Longrightarrow> sections_left t' < sections_left t"
  by (cases t) (auto simp: Let_def split: outcome.splits flow_job.splits pause_resume_op.splits prod.splits if_splits)

text \<open>A closure that nothing interrupts, as it is for a caller who is alone.\<close>

function run_task :: "'k rd_client \<Rightarrow> flow_task \<Rightarrow> 'k sub_state \<Rightarrow> (anyhow, unit) outcome \<times> 'k sub_state" where
  "run_task rd t s =
     (case task_step rd t s of (Inl t', s') \<Rightarrow> run_task rd t' s' | (Inr r, s') \<Rightarrow> (r, s'))"
  by auto
termination
  by (relation "measure (\<lambda>(rd, t, s). sections_left t)") (auto dest: sections_decrease [OF sym])

declare run_task.simps [simp del]

definition run_job :: "'k rd_client \<Rightarrow> flow_job \<Rightarrow> 'k sub_state \<Rightarrow> 'k sub_state" where
  "run_job rd job s = snd (run_task rd (JobStart job) s)"

text \<open>The pool takes one of the waiting jobs and runs it.\<close>

definition pool_step :: "'k rd_client \<Rightarrow> nat \<Rightarrow> 'k sub_state \<Rightarrow> 'k sub_state" where
  "pool_step rd i s =
     (if i < length (sb_jobs s)
      then run_job rd (sb_jobs s ! i)
             (s\<lparr>sb_jobs := take i (sb_jobs s) @ drop (Suc i) (sb_jobs s)\<rparr>)
      else s)"

definition flow_control ::
  "'k rd_client \<Rightarrow> pause_resume_op \<Rightarrow> partition_spec list \<Rightarrow> 'k sub_state \<Rightarrow>
   (anyhow, unit) outcome \<times> 'k sub_state" where
  "flow_control rd op partitions s = run_task rd (UserStart op partitions) s"

lemma run_job_eq:
  "run_job rd job s =
     (case rd_assignment rd (sb_client s) of
        Ok assignment \<Rightarrow>
          (case job of
             AutoPause \<Rightarrow> s\<lparr>sb_client := snd (rd_pause rd assignment (sb_client s))\<rparr>
           | AutoResume \<Rightarrow>
               let tpl = filter (\<lambda>p. p \<notin> sb_user_paused s) assignment in
               if tpl = [] then s
               else s\<lparr>sb_client := snd (rd_resume rd tpl (sb_client s))\<rparr>)
      | _ \<Rightarrow> s)"
  by (auto simp: run_job_def run_task.simps Let_def split: outcome.splits flow_job.splits prod.splits)

lemma flow_control_eq:
  "flow_control rd op partitions s =
     (case (if partitions = [] then rd_assignment rd (sb_client s) else Ok partitions) of
        Panic \<Rightarrow> (Panic, s)
      | Err e \<Rightarrow> (Err (CMsg ''get current assignment'' # e), s)
      | Ok affected \<Rightarrow>
          (case op of
             Pause \<Rightarrow>
               (case rd_pause rd affected (sb_client s) of
                  (Ok _, k) \<Rightarrow>
                    (Ok (), s\<lparr>sb_client := k, sb_user_paused := sb_user_paused s \<union> set affected\<rparr>)
                | (Err e, k) \<Rightarrow> (Err (CMsg ''pause partitions'' # e), s\<lparr>sb_client := k\<rparr>)
                | (Panic, k) \<Rightarrow> (Panic, s\<lparr>sb_client := k\<rparr>))
           | Resume \<Rightarrow>
               (case rd_resume rd affected (sb_client s) of
                  (Ok _, k) \<Rightarrow>
                    (Ok (), s\<lparr>sb_client := k, sb_user_paused := sb_user_paused s - set affected\<rparr>)
                | (Err e, k) \<Rightarrow> (Err (CMsg ''resume partitions'' # e), s\<lparr>sb_client := k\<rparr>)
                | (Panic, k) \<Rightarrow> (Panic, s\<lparr>sb_client := k\<rparr>))))"
  by (cases op)
    (auto simp: flow_control_def run_task.simps [of rd "UserStart _ _"] run_task.simps [of rd "UserCall _ _"]
      run_task.simps [of rd "UserRecord _ _"] split: outcome.splits prod.splits if_splits)

section \<open>The stream loop\<close>

text \<open>What \<open>stream.next()\<close> yields. A message has the accessors of rdkafka's \<open>Message\<close>.\<close>

record rd_message =
  rm_topic :: string
  rm_partition :: i32
  rm_offset :: i64
  rm_timestamp :: "i64 option"
  rm_key :: "bytes option"
  rm_payload :: "bytes option"
  rm_headers :: "(string \<times> bytes option) list option"

datatype stream_item = StreamMsg rd_message | StreamErr kafka_error | StreamEnd

definition or_default :: "'a list option \<Rightarrow> 'a list" where
  "or_default v = (case v of Some x \<Rightarrow> x | None \<Rightarrow> [])"

definition to_consumer_message :: "rd_message \<Rightarrow> consumer_message" where
  "to_consumer_message m =
     \<lparr>cm_topic = rm_topic m, cm_partition = rm_partition m, cm_offset = rm_offset m,
      cm_timestamp_ms = (case rm_timestamp m of Some t \<Rightarrow> t | None \<Rightarrow> 0),
      cm_key = or_default (rm_key m), cm_value = or_default (rm_payload m),
      cm_headers = map (\<lambda>h. (fst h, or_default (snd h))) (or_default (rm_headers m))\<rparr>"

definition fatal_codes :: "rdkafka_code set" where
  "fatal_codes =
     {RK_SaslAuthenticationFailed, RK_GroupAuthorizationFailed, RK_TopicAuthorizationFailed,
      RK_ClusterAuthorizationFailed, RK_DelegationTokenAuthDisabled,
      RK_DelegationTokenAuthorizationFailed}"

fun is_fatal_stream_error :: "kafka_error \<Rightarrow> bool" where
  "is_fatal_stream_error (AdminOpCreation _) = True"
| "is_fatal_stream_error (ClientCreation _) = True"
| "is_fatal_stream_error (ClientConfigErr _) = True"
| "is_fatal_stream_error (MessageConsumptionFatal _) = True"
| "is_fatal_stream_error (MessageConsumption c) = (c \<in> fatal_codes)"
| "is_fatal_stream_error (GlobalErr c) = (c \<in> fatal_codes)"
| "is_fatal_stream_error (RebalanceErrCode c) = (c \<in> fatal_codes)"
| "is_fatal_stream_error (SetPartitionOffset c) = (c \<in> fatal_codes)"
| "is_fatal_stream_error (StoreOffset c) = (c \<in> fatal_codes)"
| "is_fatal_stream_error (MetadataFetch c) = (c \<in> fatal_codes)"
| "is_fatal_stream_error (OffsetFetch c) = (c \<in> fatal_codes)"
| "is_fatal_stream_error (ConsumerCommit c) = (c \<in> fatal_codes)"
| "is_fatal_stream_error (MessageProduction _) = False"
| "is_fatal_stream_error (OtherKafkaError _) = False"

definition BACKOFF_MAX_MS :: nat where
  "BACKOFF_MAX_MS = 5000"

definition MAX_CONSECUTIVE_ERRORS :: nat where
  "MAX_CONSECUTIVE_ERRORS = 60"

text \<open>The local variables of the loop; \<open>lp_slept\<close> collects the times it slept.\<close>

record loop_state =
  lp_backoff_ms :: nat
  lp_consecutive_errors :: nat
  lp_running :: bool
  lp_slept :: "nat list"

definition loop_new :: loop_state where
  "loop_new = \<lparr>lp_backoff_ms = 50, lp_consecutive_errors = 0, lp_running = True, lp_slept = []\<rparr>"

definition mark_terminated :: "string \<Rightarrow> 'k sub_state \<Rightarrow> 'k sub_state" where
  "mark_terminated reason s = s\<lparr>sb_last_error := Some reason, sb_terminated := True\<rparr>"

text \<open>Dropping the oldest message on overflow of the count or of the bytes.\<close>

definition overflows :: "consumer_config \<Rightarrow> consumer_message \<Rightarrow> 'k sub_state \<Rightarrow> bool" where
  "overflows cfg cm s \<longleftrightarrow>
     length (sb_buffer s) \<ge> kc_buffer_capacity cfg
     \<or> kc_buffer_bytes_capacity cfg > 0
        \<and> sb_buffer_bytes s + message_bytes cm > kc_buffer_bytes_capacity cfg"

definition drop_oldest :: "'k sub_state \<Rightarrow> 'k sub_state" where
  "drop_oldest s =
     (case sb_buffer s of
        [] \<Rightarrow> s
      | dropped # rest \<Rightarrow>
          (count_metric (\<lambda>m. m\<lparr>mt_consumer_messages_dropped_total :=
                                inc (mt_consumer_messages_dropped_total m)\<rparr>) s)
            \<lparr>sb_buffer := rest, sb_buffer_bytes := sb_buffer_bytes s - message_bytes dropped,
             sb_messages_dropped_total := sb_messages_dropped_total s + 1\<rparr>)"

text \<open>Adding a message under the buffer's lock, and with the pause check that follows it.\<close>

definition enqueue :: "consumer_config \<Rightarrow> consumer_message \<Rightarrow> 'k sub_state \<Rightarrow> 'k sub_state" where
  "enqueue cfg cm s =
     (let s1 = (if overflows cfg cm s then drop_oldest s else s) in
      s1\<lparr>sb_buffer := sb_buffer s1 @ [cm], sb_buffer_bytes := sb_buffer_bytes s1 + message_bytes cm\<rparr>)"

definition push_message :: "consumer_config \<Rightarrow> consumer_message \<Rightarrow> 'k sub_state \<Rightarrow> 'k sub_state" where
  "push_message cfg cm s =
     (let s1 = enqueue cfg cm s in maybe_pause cfg (length (sb_buffer s1)) (sb_buffer_bytes s1) s1)"

definition stream_step ::
  "(kafka_error \<Rightarrow> string) \<Rightarrow> consumer_config \<Rightarrow> stream_item \<Rightarrow> loop_state \<times> 'k sub_state \<Rightarrow>
   loop_state \<times> 'k sub_state" where
  "stream_step err_text cfg item ls =
     (let (l, s) = ls in
      if \<not> lp_running l then (l, s)
      else
        case item of
          StreamMsg m \<Rightarrow>
            (l\<lparr>lp_backoff_ms := 50, lp_consecutive_errors := 0\<rparr>,
             push_message cfg (to_consumer_message m) s)
        | StreamErr e \<Rightarrow>
            let n = lp_consecutive_errors l + 1;
                s1 = count_metric (\<lambda>m. m\<lparr>mt_consumer_stream_errors_total :=
                                          inc (mt_consumer_stream_errors_total m)\<rparr>) s in
            if is_fatal_stream_error e then
              (l\<lparr>lp_consecutive_errors := n, lp_running := False\<rparr>,
               mark_terminated (''fatal: '' @ err_text e) s1)
            else if n \<ge> MAX_CONSECUTIVE_ERRORS then
              (l\<lparr>lp_consecutive_errors := n, lp_running := False\<rparr>,
               mark_terminated (''too many consecutive errors ('' @ show_nat n @ ''): '' @ err_text e) s1)
            else
              (l\<lparr>lp_consecutive_errors := n, lp_slept := lp_slept l @ [lp_backoff_ms l],
                 lp_backoff_ms := min (lp_backoff_ms l * 2) BACKOFF_MAX_MS\<rparr>, s1)
        | StreamEnd \<Rightarrow> (l\<lparr>lp_running := False\<rparr>, mark_terminated ''stream ended'' s))"

definition stream_loop ::
  "(kafka_error \<Rightarrow> string) \<Rightarrow> consumer_config \<Rightarrow> stream_item list \<Rightarrow> 'k sub_state \<Rightarrow>
   loop_state \<times> 'k sub_state" where
  "stream_loop err_text cfg items s = fold (stream_step err_text cfg) items (loop_new, s)"

section \<open>Polling\<close>

text \<open>
  Taking messages out under the lock. The resume check that follows is only made when the
  buffer was not empty.
\<close>

definition drain_buffer :: "u32 \<Rightarrow> 'k sub_state \<Rightarrow> consumer_message list \<times> 'k sub_state" where
  "drain_buffer max_messages s =
     (let n = min (unat max_messages) (length (sb_buffer s));
          out = take n (sb_buffer s) in
      (out, s\<lparr>sb_buffer := drop n (sb_buffer s),
              sb_buffer_bytes := sb_buffer_bytes s - sum_list (map message_bytes out)\<rparr>))"

definition poll_buffer ::
  "consumer_config \<Rightarrow> u32 \<Rightarrow> 'k sub_state \<Rightarrow> consumer_message list option \<times> 'k sub_state" where
  "poll_buffer cfg max_messages s =
     (if sb_buffer s = [] then (None, s)
      else
        let (out, s1) = drain_buffer max_messages s in
        (Some out, maybe_resume cfg (length (sb_buffer s1)) (sb_buffer_bytes s1) s1))"

section \<open>The tasks of a subscription\<close>

text \<open>
  The stream loop, the pollers, the blocking pool and the application's pause and resume work
  on a subscription at the same time. What is atomic is what the buffer's lock protects, each
  single check (whose swap of the flag decides which task goes on and counts) and each section of a
  closure on the blocking pool; between a task's release of the lock and its pause or resume check, and
  between the sections of a closure, the others may run. \<open>sy_checks\<close> are the checks still to be made,
  with the values read under the lock. The stream loop is one task, so it has at most one check
  outstanding. \<open>sy_tasks\<close> are the closures that have begun. \<open>sy_received\<close> and \<open>sy_delivered\<close> record what came
  in and what the polls returned.
\<close>

datatype flow_check = PauseCheck nat nat | ResumeCheck nat nat

fun is_pause_check :: "flow_check \<Rightarrow> bool" where
  "is_pause_check (PauseCheck _ _) = True"
| "is_pause_check (ResumeCheck _ _) = False"

fun run_check :: "consumer_config \<Rightarrow> flow_check \<Rightarrow> 'k sub_state \<Rightarrow> 'k sub_state" where
  "run_check cfg (PauseCheck l b) s = maybe_pause cfg l b s"
| "run_check cfg (ResumeCheck l b) s = maybe_resume cfg l b s"

record 'k sub_sys =
  sy_sub :: "'k sub_state"
  sy_checks :: "flow_check list"
  sy_tasks :: "flow_task list"
  sy_received :: "consumer_message list"
  sy_delivered :: "consumer_message list"

definition sys_new :: "'k sub_state \<Rightarrow> 'k sub_sys" where
  "sys_new s = \<lparr>sy_sub = s, sy_checks = [], sy_tasks = [], sy_received = [], sy_delivered = []\<rparr>"

definition receive_sys :: "consumer_config \<Rightarrow> consumer_message \<Rightarrow> 'k sub_sys \<Rightarrow> 'k sub_sys" where
  "receive_sys cfg cm c =
     (let s = enqueue cfg cm (sy_sub c) in
      c\<lparr>sy_sub := s, sy_checks := sy_checks c @ [PauseCheck (length (sb_buffer s)) (sb_buffer_bytes s)],
        sy_received := sy_received c @ [cm]\<rparr>)"

definition poll_sys :: "u32 \<Rightarrow> 'k sub_sys \<Rightarrow> 'k sub_sys" where
  "poll_sys n c =
     (let (out, s) = drain_buffer n (sy_sub c) in
      c\<lparr>sy_sub := s, sy_checks := sy_checks c @ [ResumeCheck (length (sb_buffer s)) (sb_buffer_bytes s)],
        sy_delivered := sy_delivered c @ out\<rparr>)"

definition check_sys :: "consumer_config \<Rightarrow> nat \<Rightarrow> 'k sub_sys \<Rightarrow> 'k sub_sys" where
  "check_sys cfg i c =
     c\<lparr>sy_sub := run_check cfg (sy_checks c ! i) (sy_sub c),
       sy_checks := take i (sy_checks c) @ drop (Suc i) (sy_checks c)\<rparr>"

definition take_job :: "nat \<Rightarrow> 'k sub_sys \<Rightarrow> 'k sub_sys" where
  "take_job i c =
     (let jobs = sb_jobs (sy_sub c) in
      c\<lparr>sy_sub := (sy_sub c)\<lparr>sb_jobs := take i jobs @ drop (Suc i) jobs\<rparr>,
        sy_tasks := sy_tasks c @ [JobStart (jobs ! i)]\<rparr>)"

definition start_flow :: "pause_resume_op \<Rightarrow> partition_spec list \<Rightarrow> 'k sub_sys \<Rightarrow> 'k sub_sys" where
  "start_flow op parts c = c\<lparr>sy_tasks := sy_tasks c @ [UserStart op parts]\<rparr>"

definition run_section :: "'k rd_client \<Rightarrow> nat \<Rightarrow> 'k sub_sys \<Rightarrow> 'k sub_sys" where
  "run_section rd i c =
     (case task_step rd (sy_tasks c ! i) (sy_sub c) of
        (Inl t, s) \<Rightarrow> c\<lparr>sy_sub := s, sy_tasks := (sy_tasks c)[i := t]\<rparr>
      | (Inr r, s) \<Rightarrow> c\<lparr>sy_sub := s, sy_tasks := take i (sy_tasks c) @ drop (Suc i) (sy_tasks c)\<rparr>)"

inductive sub_step :: "consumer_config \<Rightarrow> 'k rd_client \<Rightarrow> 'k sub_sys \<Rightarrow> 'k sub_sys \<Rightarrow> bool"
  for cfg rd where
  receive: "\<not> list_ex is_pause_check (sy_checks c) \<Longrightarrow> sub_step cfg rd c (receive_sys cfg cm c)"
| poll: "sb_buffer (sy_sub c) \<noteq> [] \<Longrightarrow> sub_step cfg rd c (poll_sys n c)"
| check: "i < length (sy_checks c) \<Longrightarrow> sub_step cfg rd c (check_sys cfg i c)"
| job: "i < length (sb_jobs (sy_sub c)) \<Longrightarrow> sub_step cfg rd c (take_job i c)"
| user: "sub_step cfg rd c (start_flow op parts c)"
| closure: "i < length (sy_tasks c) \<Longrightarrow> sub_step cfg rd c (run_section rd i c)"

inductive_cases sub_stepE: "sub_step cfg rd c c'"

text \<open>Steps by name, so that runs can be computed.\<close>

datatype sub_event =
    Receive consumer_message
  | Poll u32
  | Check nat
  | TakeJob nat
  | StartFlow pause_resume_op "partition_spec list"
  | Section nat

fun exec_event :: "consumer_config \<Rightarrow> 'k rd_client \<Rightarrow> sub_event \<Rightarrow> 'k sub_sys \<Rightarrow> 'k sub_sys option" where
  "exec_event cfg rd (Receive cm) c =
     (if list_ex is_pause_check (sy_checks c) then None else Some (receive_sys cfg cm c))"
| "exec_event cfg rd (Poll n) c = (if sb_buffer (sy_sub c) = [] then None else Some (poll_sys n c))"
| "exec_event cfg rd (Check i) c = (if i < length (sy_checks c) then Some (check_sys cfg i c) else None)"
| "exec_event cfg rd (TakeJob i) c = (if i < length (sb_jobs (sy_sub c)) then Some (take_job i c) else None)"
| "exec_event cfg rd (StartFlow op parts) c = Some (start_flow op parts c)"
| "exec_event cfg rd (Section i) c = (if i < length (sy_tasks c) then Some (run_section rd i c) else None)"

fun exec_events :: "consumer_config \<Rightarrow> 'k rd_client \<Rightarrow> sub_event list \<Rightarrow> 'k sub_sys \<Rightarrow> 'k sub_sys option" where
  "exec_events cfg rd [] c = Some c"
| "exec_events cfg rd (e # es) c = Option.bind (exec_event cfg rd e c) (exec_events cfg rd es)"

lemma exec_event_step: "exec_event cfg rd e c = Some c' \<Longrightarrow> sub_step cfg rd c c'"
  by (cases e) (auto intro: sub_step.intros split: if_splits)

lemma exec_events_run: "exec_events cfg rd es c = Some c' \<Longrightarrow> (sub_step cfg rd)\<^sup>*\<^sup>* c c'"
  by (induction es arbitrary: c)
    (auto simp: bind_eq_Some_conv intro: converse_rtranclp_into_rtranclp dest: exec_event_step)

section \<open>Invariants\<close>

definition sub_inv :: "consumer_config \<Rightarrow> 'k sub_state \<Rightarrow> bool" where
  "sub_inv cfg s \<longleftrightarrow>
     sb_buffer_bytes s = sum_list (map message_bytes (sb_buffer s))
     \<and> length (sb_buffer s) \<le> max 1 (kc_buffer_capacity cfg)
     \<and> sb_pause_total s = sb_resume_total s + (if sb_paused s then 1 else 0)"

lemma count_metric_simps [simp]:
  "sb_buffer (count_metric f s) = sb_buffer s"
  "sb_buffer_bytes (count_metric f s) = sb_buffer_bytes s"
  "sb_pause_total (count_metric f s) = sb_pause_total s"
  "sb_resume_total (count_metric f s) = sb_resume_total s"
  "sb_paused (count_metric f s) = sb_paused s"
  "sb_messages_dropped_total (count_metric f s) = sb_messages_dropped_total s"
  "sb_terminated (count_metric f s) = sb_terminated s"
  "sb_client (count_metric f s) = sb_client s"
  by (simp_all add: count_metric_def)

lemma maybe_flow_simps [simp]:
  "sb_buffer (maybe_pause cfg l b s) = sb_buffer s" "sb_buffer (maybe_resume cfg l b s) = sb_buffer s"
  "sb_buffer_bytes (maybe_pause cfg l b s) = sb_buffer_bytes s"
  "sb_buffer_bytes (maybe_resume cfg l b s) = sb_buffer_bytes s"
  "sb_messages_dropped_total (maybe_pause cfg l b s) = sb_messages_dropped_total s"
  "sb_messages_dropped_total (maybe_resume cfg l b s) = sb_messages_dropped_total s"
  by (simp_all add: maybe_pause_def maybe_resume_def Let_def)

lemma maybe_pause_inv: "sub_inv cfg s \<Longrightarrow> sub_inv cfg (maybe_pause cfg l b s)"
  by (auto simp: sub_inv_def maybe_pause_def Let_def)

lemma maybe_resume_inv: "sub_inv cfg s \<Longrightarrow> sub_inv cfg (maybe_resume cfg l b s)"
  by (auto simp: sub_inv_def maybe_resume_def Let_def)

lemma maybe_pause_reference:
  assumes "kc_pause_at_bytes cfg = 0"
    and "try_transition_to_paused l (kc_pause_at cfg) (sb_paused s) (sb_pause_total s) = (fired, p, n)"
  shows "sb_paused (maybe_pause cfg l b s) = p \<and> sb_pause_total (maybe_pause cfg l b s) = n
    \<and> sb_jobs (maybe_pause cfg l b s) = sb_jobs s @ (if fired then [AutoPause] else [])"
  using assms by (auto simp: try_transition_to_paused_def maybe_pause_def split: if_splits)

lemma maybe_resume_reference:
  assumes "b \<le> kc_resume_at_bytes cfg"
    and "try_transition_to_resumed l (kc_resume_at cfg) (sb_paused s) (sb_resume_total s) = (fired, p, n)"
  shows "sb_paused (maybe_resume cfg l b s) = p \<and> sb_resume_total (maybe_resume cfg l b s) = n
    \<and> sb_jobs (maybe_resume cfg l b s) = sb_jobs s @ (if fired then [AutoResume] else [])"
  using assms by (auto simp: try_transition_to_resumed_def maybe_resume_def split: if_splits)

lemma sub_new_inv: "sub_inv cfg (sub_new client now m)"
  by (simp add: sub_inv_def sub_new_def)

lemma drop_oldest_simps:
  "sb_buffer (drop_oldest s) = tl (sb_buffer s)"
  "sb_pause_total (drop_oldest s) = sb_pause_total s"
  "sb_resume_total (drop_oldest s) = sb_resume_total s"
  "sb_paused (drop_oldest s) = sb_paused s"
  "sb_messages_dropped_total (drop_oldest s) =
     sb_messages_dropped_total s + (if sb_buffer s = [] then 0 else 1)"
  by (simp_all add: drop_oldest_def split: list.splits)

lemma drop_oldest_bytes:
  "sb_buffer_bytes s = sum_list (map message_bytes (sb_buffer s)) \<Longrightarrow>
   sb_buffer_bytes (drop_oldest s) = sum_list (map message_bytes (sb_buffer (drop_oldest s)))"
  by (auto simp: drop_oldest_def split: list.splits)

lemma enqueue_inv:
  assumes "sub_inv cfg s"
  shows "sub_inv cfg (enqueue cfg cm s)"
proof -
  let ?s1 = "if overflows cfg cm s then drop_oldest s else s"
  have "length (sb_buffer ?s1) + 1 \<le> max 1 (kc_buffer_capacity cfg)"
  proof (cases "length (sb_buffer s) \<ge> kc_buffer_capacity cfg")
    case True
    then have "overflows cfg cm s" by (simp add: overflows_def)
    with assms show ?thesis by (cases "sb_buffer s") (auto simp: sub_inv_def drop_oldest_simps)
  next
    case False
    then show ?thesis by (cases "sb_buffer s") (auto simp: drop_oldest_simps)
  qed
  with assms drop_oldest_bytes [of s] show ?thesis
    unfolding enqueue_def Let_def by (auto simp: sub_inv_def drop_oldest_simps)
qed

lemma push_message_inv: "sub_inv cfg s \<Longrightarrow> sub_inv cfg (push_message cfg cm s)"
  unfolding push_message_def Let_def by (intro maybe_pause_inv enqueue_inv)

lemma sum_list_take_le: "sum_list (map (f :: 'a \<Rightarrow> nat) (take n xs)) + sum_list (map f (drop n xs)) = sum_list (map f xs)"
  by (metis append_take_drop_id map_append sum_list_append)

lemma drain_buffer_inv: "sub_inv cfg s \<Longrightarrow> sub_inv cfg (snd (drain_buffer max_messages s))"
proof -
  assume inv: "sub_inv cfg s"
  let ?n = "min (unat max_messages) (length (sb_buffer s))"
  have "sum_list (map message_bytes (take ?n (sb_buffer s)))
      + sum_list (map message_bytes (drop ?n (sb_buffer s))) = sb_buffer_bytes s"
    using inv by (simp add: sum_list_take_le sub_inv_def)
  with inv show ?thesis
    unfolding drain_buffer_def Let_def snd_conv by (auto simp: sub_inv_def)
qed

lemma poll_buffer_inv: "sub_inv cfg s \<Longrightarrow> sub_inv cfg (snd (poll_buffer cfg max_messages s))"
  using drain_buffer_inv [of cfg s max_messages]
  by (auto simp: poll_buffer_def maybe_resume_inv split: prod.splits)

text \<open>The pool's jobs and the application's flow control leave the buffer and the counters alone.\<close>

definition same_buffer :: "'k sub_state \<Rightarrow> 'k sub_state \<Rightarrow> bool" where
  "same_buffer s t \<longleftrightarrow>
     sb_buffer t = sb_buffer s \<and> sb_buffer_bytes t = sb_buffer_bytes s
     \<and> sb_messages_dropped_total t = sb_messages_dropped_total s \<and> sb_paused t = sb_paused s
     \<and> sb_pause_total t = sb_pause_total s \<and> sb_resume_total t = sb_resume_total s"

lemma task_step_same: "same_buffer s (snd (task_step rd t s))"
  by (cases t) (auto simp: same_buffer_def Let_def split: outcome.split prod.split)

lemma flow_control_same: "same_buffer s (snd (flow_control rd op parts s))"
  by (auto simp: same_buffer_def flow_control_eq split: outcome.split pause_resume_op.split prod.split)

lemma same_buffer_inv: "same_buffer s t \<Longrightarrow> sub_inv cfg s \<Longrightarrow> sub_inv cfg t"
  by (simp add: same_buffer_def sub_inv_def)

section \<open>Runs of one subscription\<close>

lemma enqueue_buffer:
  "sb_buffer (enqueue cfg cm s) = (if overflows cfg cm s then tl (sb_buffer s) else sb_buffer s) @ [cm]"
  by (simp add: enqueue_def Let_def drop_oldest_simps)

lemma drain_buffer_split:
  "fst (drain_buffer n s) @ sb_buffer (snd (drain_buffer n s)) = sb_buffer s"
  "length (fst (drain_buffer n s)) \<le> unat n"
  by (simp_all add: drain_buffer_def Let_def)

text \<open>Every received message is polled, still buffered, or counted as dropped.\<close>

definition accounted :: "'k sub_state \<Rightarrow> u64" where
  "accounted s = of_nat (length (sb_buffer s)) + sb_messages_dropped_total s"

lemma accounted_enqueue: "accounted (enqueue cfg cm s) = accounted s + 1"
  by (cases "sb_buffer s") (simp_all add: accounted_def enqueue_def Let_def drop_oldest_simps)

lemma accounted_drain:
  "accounted s = of_nat (length (fst (drain_buffer n s))) + accounted (snd (drain_buffer n s))"
proof -
  have "length (sb_buffer s) = length (fst (drain_buffer n s)) + length (sb_buffer (snd (drain_buffer n s)))"
    using drain_buffer_split(1) [of n s] by (metis length_append)
  moreover have "sb_messages_dropped_total (snd (drain_buffer n s)) = sb_messages_dropped_total s"
    by (simp add: drain_buffer_def Let_def)
  ultimately show ?thesis by (simp add: accounted_def)
qed

text \<open>The invariant of the system, step by step.\<close>

definition sys_inv :: "consumer_config \<Rightarrow> 'k sub_sys \<Rightarrow> bool" where
  "sys_inv cfg c \<longleftrightarrow>
     sub_inv cfg (sy_sub c)
     \<and> subseq (sy_delivered c @ sb_buffer (sy_sub c)) (sy_received c)
     \<and> of_nat (length (sy_received c)) = of_nat (length (sy_delivered c)) + accounted (sy_sub c)"

lemma sys_new_inv: "sys_inv cfg (sys_new (sub_new client now m))"
  by (simp add: sys_inv_def sys_new_def sub_new_inv) (simp add: sub_new_def accounted_def)

lemma receive_sys_inv: "sys_inv cfg c \<Longrightarrow> sys_inv cfg (receive_sys cfg cm c)"
proof -
  assume inv: "sys_inv cfg c"
  let ?s = "sy_sub c"
  have "subseq (sb_buffer (enqueue cfg cm ?s)) (sb_buffer ?s @ [cm])"
    by (cases "sb_buffer ?s") (auto simp: enqueue_buffer)
  then have "subseq (sy_delivered c @ sb_buffer (enqueue cfg cm ?s)) ((sy_delivered c @ sb_buffer ?s) @ [cm])"
    by (simp add: list_emb_append_mono)
  moreover have "subseq ((sy_delivered c @ sb_buffer ?s) @ [cm]) (sy_received c @ [cm])"
    using inv by (intro list_emb_append_mono) (simp_all add: sys_inv_def)
  ultimately have "subseq (sy_delivered c @ sb_buffer (enqueue cfg cm ?s)) (sy_received c @ [cm])"
    by (rule subseq_order.order_trans)
  with inv show ?thesis
    by (simp add: sys_inv_def receive_sys_def Let_def enqueue_inv accounted_enqueue algebra_simps)
qed

lemma poll_sys_inv: "sys_inv cfg c \<Longrightarrow> sys_inv cfg (poll_sys n c)"
  using drain_buffer_inv [of cfg "sy_sub c" n] drain_buffer_split(1) [of n "sy_sub c"]
    accounted_drain [of "sy_sub c" n]
  by (auto simp: sys_inv_def poll_sys_def algebra_simps split: prod.splits)

lemma run_check_inv: "sub_inv cfg s \<Longrightarrow> sub_inv cfg (run_check cfg ch s)"
  by (cases ch) (simp_all add: maybe_pause_inv maybe_resume_inv)

lemma run_check_accounted [simp]:
  "accounted (run_check cfg ch s) = accounted s" "sb_buffer (run_check cfg ch s) = sb_buffer s"
  by (cases ch; simp add: accounted_def)+

lemma sys_inv_same:
  assumes "sys_inv cfg c" and "same_buffer (sy_sub c) (sy_sub c')"
    and "sy_received c' = sy_received c" "sy_delivered c' = sy_delivered c"
  shows "sys_inv cfg c'"
  using assms same_buffer_inv [OF assms(2)] by (simp add: sys_inv_def same_buffer_def accounted_def)

lemma run_section_keeps:
  "same_buffer (sy_sub c) (sy_sub (run_section rd i c))"
  "sy_received (run_section rd i c) = sy_received c" "sy_delivered (run_section rd i c) = sy_delivered c"
  using task_step_same [of "sy_sub c" rd "sy_tasks c ! i"]
  by (auto simp: run_section_def split: prod.split sum.split)

lemma sub_step_inv: "sub_step cfg rd c c' \<Longrightarrow> sys_inv cfg c \<Longrightarrow> sys_inv cfg c'"
proof (induction rule: sub_step.induct)
  case (job i c)
  show ?case by (rule sys_inv_same [OF job(2)]) (simp_all add: take_job_def Let_def same_buffer_def)
next
  case (user c op parts)
  show ?case by (rule sys_inv_same [OF user]) (simp_all add: start_flow_def same_buffer_def)
next
  case (closure i c)
  show ?case by (intro sys_inv_same [OF closure(2)] run_section_keeps)
qed (simp_all add: receive_sys_inv poll_sys_inv, simp add: sys_inv_def check_sys_def run_check_inv)

lemma reachable_inv: "(sub_step cfg rd)\<^sup>*\<^sup>* (sys_new (sub_new client now m)) c \<Longrightarrow> sys_inv cfg c"
  by (induction rule: rtranclp_induct) (auto intro: sys_new_inv sub_step_inv)

section \<open>The stream loop\<close>

definition loop_inv :: "loop_state \<times> 'k sub_state \<Rightarrow> bool" where
  "loop_inv ls \<longleftrightarrow>
     50 \<le> lp_backoff_ms (fst ls) \<and> lp_backoff_ms (fst ls) \<le> BACKOFF_MAX_MS
     \<and> (\<forall>t \<in> set (lp_slept (fst ls)). 50 \<le> t \<and> t \<le> BACKOFF_MAX_MS)
     \<and> (lp_running (fst ls) \<longrightarrow> lp_consecutive_errors (fst ls) < MAX_CONSECUTIVE_ERRORS)
     \<and> (\<not> lp_running (fst ls) \<longrightarrow> sb_terminated (snd ls) \<and> sb_last_error (snd ls) \<noteq> None)"

lemma stream_step_loop_inv: "loop_inv ls \<Longrightarrow> loop_inv (stream_step err_text cfg item ls)"
  by (cases ls; cases item)
    (auto simp: loop_inv_def stream_step_def Let_def mark_terminated_def BACKOFF_MAX_MS_def
      MAX_CONSECUTIVE_ERRORS_def)

lemma mark_terminated_inv [simp]: "sub_inv cfg (mark_terminated reason s) \<longleftrightarrow> sub_inv cfg s"
  by (simp add: sub_inv_def mark_terminated_def)

lemma count_metric_inv [simp]: "sub_inv cfg (count_metric f s) \<longleftrightarrow> sub_inv cfg s"
  by (simp add: sub_inv_def)

lemma stream_step_sub_inv: "sub_inv cfg (snd ls) \<Longrightarrow> sub_inv cfg (snd (stream_step err_text cfg item ls))"
  by (cases ls; cases item) (auto simp: stream_step_def Let_def push_message_inv)

lemma fold_stream_inv:
  assumes "loop_inv ls" and "sub_inv cfg (snd ls)"
  shows "loop_inv (fold (stream_step err_text cfg) items ls)
    \<and> sub_inv cfg (snd (fold (stream_step err_text cfg) items ls))"
  using assms
proof (induction items arbitrary: ls)
  case (Cons item items)
  then show ?case by (simp add: stream_step_loop_inv stream_step_sub_inv)
qed simp

text \<open>A loop that has ended stays ended and touches nothing.\<close>

lemma stream_ended: "\<not> lp_running (fst ls) \<Longrightarrow> fold (stream_step err_text cfg) items ls = ls"
  by (induction items) (auto simp: stream_step_def split: prod.splits)

text \<open>Errors in a row that do not end the loop double the time it sleeps, up to the limit.\<close>

lemma errors_back_off:
  assumes "lp_running l" and "lp_consecutive_errors l = k" and "lp_backoff_ms l = min (50 * 2 ^ k) BACKOFF_MAX_MS"
    and "k + length es < MAX_CONSECUTIVE_ERRORS" and "list_all (\<lambda>e. \<not> is_fatal_stream_error e) es"
  shows "lp_running (fst (fold (stream_step err_text cfg) (map StreamErr es) (l, s)))
    \<and> lp_slept (fst (fold (stream_step err_text cfg) (map StreamErr es) (l, s)))
        = lp_slept l @ map (\<lambda>i. min (50 * 2 ^ i) BACKOFF_MAX_MS) [k..<k + length es]"
  using assms
proof (induction es arbitrary: l s k)
  case (Cons e es)
  let ?ls = "stream_step err_text cfg (StreamErr e) (l, s)"
  have "lp_running (fst ?ls)" "lp_consecutive_errors (fst ?ls) = Suc k"
    "lp_backoff_ms (fst ?ls) = min (50 * 2 ^ Suc k) BACKOFF_MAX_MS"
    "lp_slept (fst ?ls) = lp_slept l @ [min (50 * 2 ^ k) BACKOFF_MAX_MS]"
    using Cons.prems by (auto simp: stream_step_def Let_def min_def BACKOFF_MAX_MS_def)
  moreover have "[k..<k + length (e # es)] = k # [Suc k..<Suc k + length es]" by (simp add: upt_rec)
  ultimately show ?case using Cons.IH [of "fst ?ls" "Suc k" "snd ?ls"] Cons.prems by (simp del: upt_Suc)
qed simp

lemma sixty_errors_terminate:
  assumes "lp_running l" and "MAX_CONSECUTIVE_ERRORS \<le> lp_consecutive_errors l + length es"
    and "lp_consecutive_errors l < MAX_CONSECUTIVE_ERRORS"
  shows "\<not> lp_running (fst (fold (stream_step err_text cfg) (map StreamErr es) (l, s)))"
  using assms
proof (induction es arbitrary: l s)
  case (Cons e es)
  let ?ls = "stream_step err_text cfg (StreamErr e) (l, s)"
  show ?case
  proof (cases "lp_running (fst ?ls)")
    case True
    then have n: "lp_consecutive_errors (fst ?ls) = lp_consecutive_errors l + 1"
        "lp_consecutive_errors (fst ?ls) < MAX_CONSECUTIVE_ERRORS"
      using Cons.prems by (auto simp: stream_step_def Let_def split: if_splits)
    have "\<not> lp_running (fst (fold (stream_step err_text cfg) (map StreamErr es) (fst ?ls, snd ?ls)))"
      by (rule Cons.IH) (use True n Cons.prems in simp_all)
    then show ?thesis by simp
  next
    case False
    then show ?thesis by (simp add: stream_ended)
  qed
qed simp

section \<open>Rebalance queue\<close>

lemma push_event_bound: "length q \<le> MAX_QUEUE \<Longrightarrow> length (push_event e q) \<le> MAX_QUEUE"
  by (auto simp: push_event_def Let_def MAX_QUEUE_def)

lemma push_event_order: "\<exists>old. old @ push_event e q = q @ [e]"
proof (cases "length q \<ge> MAX_QUEUE")
  case True
  then show ?thesis
    by (intro exI [of _ "take 1 q"]) (simp add: push_event_def Let_def flip: append_assoc)
qed (simp add: push_event_def)

section \<open>Properties\<close>

text \<open>Messages and a configuration for concrete runs.\<close>

definition demo_msg :: "nat \<Rightarrow> consumer_message" where
  "demo_msg n =
     \<lparr>cm_topic = ''t'', cm_partition = 0, cm_offset = 0, cm_timestamp_ms = 0, cm_key = [],
      cm_value = replicate n 0, cm_headers = []\<rparr>"

definition demo_config :: consumer_config where
  "demo_config =
     \<lparr>kc_buffer_capacity = 100, kc_pause_at = 0, kc_resume_at = 0, kc_buffer_bytes_capacity = 10,
      kc_pause_at_bytes = 0, kc_resume_at_bytes = 0\<rparr>"

text \<open>A client that keeps the set of paused partitions of a fixed assignment.\<close>

definition demo_client :: "partition_spec set rd_client" where
  "demo_client =
     \<lparr>rd_assignment = (\<lambda>k. Ok [(''t'', 0)]), rd_pause = (\<lambda>tpl k. (Ok (), k \<union> set tpl)),
      rd_resume = (\<lambda>tpl k. (Ok (), k - set tpl))\<rparr>"

text \<open>A run: two messages arrive, one is polled, the checks are made.\<close>

definition demo_start :: "partition_spec set sub_sys" where
  "demo_start = sys_new (sub_new {} 0 None)"

definition demo_sys :: "partition_spec set sub_sys" where
  "demo_sys = poll_sys 1 (receive_sys demo_config (demo_msg 2)
     (check_sys demo_config 0 (receive_sys demo_config (demo_msg 1) demo_start)))"

lemmas demo_defs = demo_start_def sys_new_def receive_sys_def poll_sys_def check_sys_def enqueue_def
  overflows_def drain_buffer_def demo_config_def demo_msg_def message_bytes_def sub_new_def
  maybe_pause_def maybe_resume_def count_metric_def take_job_def start_flow_def run_section_def demo_client_def
  Let_def

lemma demo_sys_reachable: "(sub_step demo_config demo_client)\<^sup>*\<^sup>* (sys_new (sub_new {} 0 None)) demo_sys"
  by (rule exec_events_run [of _ _ "[Receive (demo_msg 1), Check 0, Receive (demo_msg 2), Poll 1]"])
    (simp add: demo_sys_def demo_defs)

lemma demo_sys_run:
  "sy_received demo_sys = [demo_msg 1, demo_msg 2]" "sy_delivered demo_sys = [demo_msg 1]"
  "sb_buffer (sy_sub demo_sys) = [demo_msg 2]"
  by (simp_all add: demo_sys_def demo_defs)

text \<open>
  C4: However message arrivals, polls, their pause and resume checks, the pool's jobs and the
  application's pause and resume interleave, the messages handed out, followed by those still
  buffered, are a subsequence of the messages received: none is reordered, duplicated or
  invented.
\<close>
theorem poll_keeps_order:
  assumes "(sub_step cfg rd)\<^sup>*\<^sup>* (sys_new (sub_new client now m)) c"
  shows "subseq (sy_delivered c @ sb_buffer (sy_sub c)) (sy_received c)"
  using reachable_inv [OF assms] by (simp add: sys_inv_def)

theorem poll_keeps_order_witness:
  "subseq (sy_delivered demo_sys @ sb_buffer (sy_sub demo_sys)) (sy_received demo_sys)
   \<and> sy_received demo_sys = [demo_msg 1, demo_msg 2] \<and> sy_delivered demo_sys = [demo_msg 1]"
  using poll_keeps_order [OF demo_sys_reachable] by (simp add: demo_sys_run)

text \<open>
  C25: No message is lost silently: in every such interleaving the number received is the
  number handed out plus the number still buffered plus the drop counter (as \<open>u64\<close>, which
  wraps).
\<close>
theorem every_message_accounted:
  assumes "(sub_step cfg rd)\<^sup>*\<^sup>* (sys_new (sub_new client now m)) c"
  shows "of_nat (length (sy_received c)) =
     (of_nat (length (sy_delivered c) + length (sb_buffer (sy_sub c)))
      + sb_messages_dropped_total (sy_sub c) :: u64)"
  using reachable_inv [OF assms] by (simp add: sys_inv_def accounted_def)

theorem every_message_accounted_witness:
  "of_nat (length (sy_received demo_sys)) =
     (of_nat (length (sy_delivered demo_sys) + length (sb_buffer (sy_sub demo_sys)))
      + sb_messages_dropped_total (sy_sub demo_sys) :: u64)
   \<and> length (sy_received demo_sys) = 2"
  using every_message_accounted [OF demo_sys_reachable] by (simp add: demo_sys_run)

text \<open>
  C26: In every such interleaving the byte counter is exactly the size of the buffered messages
  (so no subtraction on it underflows), the buffer never holds more messages than its capacity
  (one, if the capacity is zero), and the automatic pauses and resumes alternate, starting with
  a pause.
\<close>
theorem subscription_invariant:
  assumes "(sub_step cfg rd)\<^sup>*\<^sup>* (sys_new (sub_new client now m)) c"
  shows "sb_buffer_bytes (sy_sub c) = sum_list (map message_bytes (sb_buffer (sy_sub c)))
     \<and> length (sb_buffer (sy_sub c)) \<le> max 1 (kc_buffer_capacity cfg)
     \<and> sb_pause_total (sy_sub c) = sb_resume_total (sy_sub c) + (if sb_paused (sy_sub c) then 1 else 0)"
  using reachable_inv [OF assms] by (simp add: sys_inv_def sub_inv_def)

theorem subscription_invariant_witness:
  "sb_buffer_bytes (sy_sub demo_sys) = sum_list (map message_bytes (sb_buffer (sy_sub demo_sys)))
   \<and> sb_buffer_bytes (sy_sub demo_sys) = 2"
  using subscription_invariant [OF demo_sys_reachable]
  by (simp add: demo_sys_run) (simp add: demo_msg_def message_bytes_def)

text \<open>
  The byte capacity is not a hard limit: on overflow only one message is dropped, however
  small, so the buffer can hold nearly twice its byte capacity.
\<close>
lemma byte_capacity_exceeded:
  "sb_buffer_bytes (enqueue demo_config (demo_msg 10) (enqueue demo_config (demo_msg 9)
      (enqueue demo_config (demo_msg 1) (sub_new () 0 None)))) = 19
   \<and> kc_buffer_bytes_capacity demo_config = 10"
  by (simp add: enqueue_def overflows_def drop_oldest_def count_metric_def demo_config_def
      demo_msg_def message_bytes_def sub_new_def Let_def)

lemma stream_loop_append:
  "stream_loop err_text cfg (xs @ ys) s = fold (stream_step err_text cfg) ys (stream_loop err_text cfg xs s)"
  by (simp add: stream_loop_def)

lemma stream_loop_inv: "loop_inv (stream_loop err_text cfg items s)"
proof -
  have "loop_inv (fold (stream_step err_text cfg) items ls)" if "loop_inv ls" for ls :: "loop_state \<times> 'a sub_state"
    using that by (induction items arbitrary: ls) (simp_all add: stream_step_loop_inv)
  moreover have "loop_inv (loop_new, s)"
    by (simp add: loop_inv_def loop_new_def BACKOFF_MAX_MS_def MAX_CONSECUTIVE_ERRORS_def)
  ultimately show ?thesis by (simp add: stream_loop_def)
qed

text \<open>
  C34: Whatever the stream yielded before, a running loop that receives a message survives the next
  59 errors if none is fatal, and sleeps 50, 100, 200 and so on up to 5000 milliseconds after them: the message
  resets the count and the time. After 60 errors in a row, fatal or not, it has stopped at the latest, the
  subscription is marked terminated with a reason, and every further item is ignored. It never sleeps
  less than 50 or more than 5000 milliseconds.
\<close>
theorem stream_loop_gives_up:
  assumes "lp_running (fst (stream_loop err_text cfg before s))"
    and "length fs < 60" and "list_all (\<lambda>e. \<not> is_fatal_stream_error e) fs" and "60 \<le> length es"
  shows "lp_running (fst (stream_loop err_text cfg (before @ StreamMsg msg # map StreamErr fs) s))
    \<and> lp_slept (fst (stream_loop err_text cfg (before @ StreamMsg msg # map StreamErr fs) s))
        = lp_slept (fst (stream_loop err_text cfg before s)) @ map (\<lambda>i. min (50 * 2 ^ i) 5000) [0..<length fs]
    \<and> sb_terminated (snd (stream_loop err_text cfg (items @ map StreamErr es) s))
    \<and> sb_last_error (snd (stream_loop err_text cfg (items @ map StreamErr es) s)) \<noteq> None
    \<and> stream_loop err_text cfg (items @ map StreamErr es @ later) s
        = stream_loop err_text cfg (items @ map StreamErr es) s
    \<and> list_all (\<lambda>t. 50 \<le> t \<and> t \<le> 5000) (lp_slept (fst (stream_loop err_text cfg items s)))"
proof -
  let ?b = "stream_loop err_text cfg before s" and ?i = "stream_loop err_text cfg items s"
  let ?m = "stream_step err_text cfg (StreamMsg msg) ?b"
  have m: "lp_running (fst ?m)" "lp_consecutive_errors (fst ?m) = 0" "lp_backoff_ms (fst ?m) = min (50 * 2 ^ 0) BACKOFF_MAX_MS"
    "lp_slept (fst ?m) = lp_slept (fst ?b)"
    using assms(1) by (auto simp: stream_step_def BACKOFF_MAX_MS_def split: prod.split)
  from errors_back_off [OF m(1-3), of fs err_text cfg "snd ?m"] assms(2,3) m(4)
  have "lp_running (fst (stream_loop err_text cfg (before @ StreamMsg msg # map StreamErr fs) s))
    \<and> lp_slept (fst (stream_loop err_text cfg (before @ StreamMsg msg # map StreamErr fs) s))
        = lp_slept (fst ?b) @ map (\<lambda>i. min (50 * 2 ^ i) 5000) [0..<length fs]"
    by (simp add: stream_loop_append MAX_CONSECUTIVE_ERRORS_def BACKOFF_MAX_MS_def)
  moreover have stopped: "\<not> lp_running (fst (stream_loop err_text cfg (items @ map StreamErr es) s))"
  proof (cases "lp_running (fst ?i)")
    case True
    with stream_loop_inv [of err_text cfg items s] assms(4) sixty_errors_terminate [of "fst ?i" es err_text cfg "snd ?i"]
    show ?thesis by (simp add: stream_loop_append loop_inv_def MAX_CONSECUTIVE_ERRORS_def)
  qed (simp add: stream_loop_append stream_ended)
  moreover have "stream_loop err_text cfg (items @ map StreamErr es @ later) s
      = stream_loop err_text cfg (items @ map StreamErr es) s"
    using stream_ended [OF stopped] stream_loop_append [of err_text cfg "items @ map StreamErr es" later s] by simp
  moreover have "list_all (\<lambda>t. 50 \<le> t \<and> t \<le> 5000) (lp_slept (fst ?i))"
    using stream_loop_inv [of err_text cfg items s] by (auto simp: loop_inv_def BACKOFF_MAX_MS_def list_all_iff)
  ultimately show ?thesis
    using stream_loop_inv [of err_text cfg "items @ map StreamErr es" s] by (simp add: loop_inv_def)
qed

definition demo_rd_message :: rd_message where
  "demo_rd_message =
     \<lparr>rm_topic = ''t'', rm_partition = 0, rm_offset = 0, rm_timestamp = None, rm_key = None, rm_payload = None,
      rm_headers = None\<rparr>"

theorem stream_loop_gives_up_witness:
  "lp_slept (fst (stream_loop (\<lambda>_. ''e'') demo_config
      ([StreamErr (OtherKafkaError 0)] @ StreamMsg demo_rd_message # map StreamErr (replicate 9 (OtherKafkaError 0)))
      (sub_new () 0 None))) = [50, 50, 100, 200, 400, 800, 1600, 3200, 5000, 5000]
   \<and> sb_terminated (snd (stream_loop (\<lambda>_. ''e'') demo_config
        ([StreamMsg demo_rd_message] @ map StreamErr (replicate 60 (OtherKafkaError 0))) (sub_new () 0 None)))"
proof -
  let ?e = "OtherKafkaError 0" and ?s = "sub_new () 0 None"
  have before: "lp_running (fst (stream_loop (\<lambda>_. ''e'') demo_config [StreamErr ?e] ?s))"
    "lp_slept (fst (stream_loop (\<lambda>_. ''e'') demo_config [StreamErr ?e] ?s)) = [50]"
    by (simp_all add: stream_loop_def stream_step_def loop_new_def MAX_CONSECUTIVE_ERRORS_def Let_def)
  have "map (\<lambda>i. min (50 * 2 ^ i) (5000 :: nat)) [0..<9] = [50, 100, 200, 400, 800, 1600, 3200, 5000, 5000]" by code_simp
  with stream_loop_gives_up [OF before(1), of "replicate 9 ?e" "replicate 60 ?e" demo_rd_message "[StreamMsg demo_rd_message]"]
    before(2)
  show ?thesis by (simp add: list_all_iff)
qed

text \<open>
  What could still resume a partition: an application's resume of it that is under way (of the whole
  assignment, when its list is empty), or an automatic resume that has chosen it already.
\<close>

fun app_resumes :: "partition_spec \<Rightarrow> flow_task \<Rightarrow> bool" where
  "app_resumes p (UserStart Resume parts) \<longleftrightarrow> parts = [] \<or> p \<in> set parts"
| "app_resumes p (UserCall Resume affected) \<longleftrightarrow> p \<in> set affected"
| "app_resumes p (UserRecord Resume affected) \<longleftrightarrow> p \<in> set affected"
| "app_resumes p _ \<longleftrightarrow> False"

fun auto_resumes :: "partition_spec \<Rightarrow> flow_task \<Rightarrow> bool" where
  "auto_resumes p (JobResume tpl) \<longleftrightarrow> p \<in> set tpl"
| "auto_resumes p _ \<longleftrightarrow> False"

definition pause_settled :: "('k \<Rightarrow> partition_spec set) \<Rightarrow> partition_spec \<Rightarrow> 'k sub_sys \<Rightarrow> bool" where
  "pause_settled paused_of p c \<longleftrightarrow>
     p \<in> sb_user_paused (sy_sub c) \<and> p \<in> paused_of (sb_client (sy_sub c))
     \<and> \<not> list_ex (app_resumes p) (sy_tasks c) \<and> \<not> list_ex (auto_resumes p) (sy_tasks c)"

text \<open>A step after which the application is not resuming the partition.\<close>

definition step_without_resume ::
  "consumer_config \<Rightarrow> 'k rd_client \<Rightarrow> partition_spec \<Rightarrow> 'k sub_sys \<Rightarrow> 'k sub_sys \<Rightarrow> bool" where
  "step_without_resume cfg rd p c c' \<longleftrightarrow> sub_step cfg rd c c' \<and> \<not> list_ex (app_resumes p) (sy_tasks c')"

text \<open>What pauses and resumes may do to the set of partitions that the client has paused.\<close>

definition flow_laws :: "('k \<Rightarrow> partition_spec set) \<Rightarrow> 'k rd_client \<Rightarrow> bool" where
  "flow_laws paused_of rd \<longleftrightarrow>
     (\<forall>tpl k. paused_of k \<subseteq> paused_of (snd (rd_pause rd tpl k)))
     \<and> (\<forall>tpl k. paused_of k - set tpl \<subseteq> paused_of (snd (rd_resume rd tpl k)))"

lemma drop_oldest_keeps_flow:
  "sb_client (drop_oldest s) = sb_client s" "sb_user_paused (drop_oldest s) = sb_user_paused s"
  by (simp_all add: drop_oldest_def count_metric_def split: list.split)

lemma buffer_steps_keep_flow:
  "sb_client (enqueue cfg cm s) = sb_client s" "sb_user_paused (enqueue cfg cm s) = sb_user_paused s"
  "sb_client (snd (drain_buffer n s)) = sb_client s" "sb_user_paused (snd (drain_buffer n s)) = sb_user_paused s"
  by (simp_all add: enqueue_def drain_buffer_def drop_oldest_keeps_flow Let_def)

lemma checks_keep_flow:
  "sb_client (run_check cfg ch s) = sb_client s" "sb_user_paused (run_check cfg ch s) = sb_user_paused s"
  by (cases ch; simp add: maybe_pause_def maybe_resume_def count_metric_def Let_def)+

lemma list_ex_replace:
  assumes "\<not> list_ex P xs"
  shows "\<not> list_ex P (take i xs @ drop j xs)" and "\<not> P x \<Longrightarrow> \<not> list_ex P (xs[i := x])"
  using assms by (auto simp: list_ex_iff dest: in_set_takeD in_set_dropD set_update_subset_insert [THEN subsetD])

text \<open>One section keeps the pause, and chooses the partition for no automatic resume.\<close>

lemma section_keeps_pause:
  assumes laws: "flow_laws paused_of rd" and p: "p \<in> sb_user_paused s" "p \<in> paused_of (sb_client s)"
    and t: "\<not> app_resumes p t" "\<not> auto_resumes p t"
  shows "p \<in> sb_user_paused (snd (task_step rd t s)) \<and> p \<in> paused_of (sb_client (snd (task_step rd t s)))
    \<and> (\<forall>t'. fst (task_step rd t s) = Inl t' \<longrightarrow> \<not> auto_resumes p t')"
proof -
  have pause: "p \<in> paused_of (snd (rd_pause rd tpl (sb_client s)))" for tpl
    using laws p(2) unfolding flow_laws_def by blast
  have resume: "p \<notin> set tpl \<Longrightarrow> p \<in> paused_of (snd (rd_resume rd tpl (sb_client s)))" for tpl
    using laws p(2) unfolding flow_laws_def by blast
  show ?thesis
  proof (cases t)
    case (UserCall op a)
    then show ?thesis using p t pause [of a] resume [of a]
      by (cases op) (auto split: prod.split outcome.split)
  next
    case (UserRecord op a)
    then show ?thesis using p t by (cases op) auto
  next
    case (JobPause a)
    then show ?thesis using p pause [of a] by (auto split: prod.split)
  next
    case (JobResume a)
    then show ?thesis using p t resume [of a] by (auto split: prod.split)
  qed (use p in \<open>auto simp: Let_def split: outcome.split flow_job.split\<close>)
qed

lemma step_keeps_pause:
  assumes laws: "flow_laws paused_of rd" and st: "step_without_resume cfg rd p c c'" and c: "pause_settled paused_of p c"
  shows "pause_settled paused_of p c'"
proof -
  have quiet: "\<not> list_ex (app_resumes p) (sy_tasks c')" using st by (simp add: step_without_resume_def)
  have "sub_step cfg rd c c'" using st by (simp add: step_without_resume_def)
  then show ?thesis
  proof cases
    case (closure i)
    let ?t = "sy_tasks c ! i"
    have t: "\<not> app_resumes p ?t" "\<not> auto_resumes p ?t"
      using c closure(2) by (auto simp: pause_settled_def list_ex_iff dest: nth_mem)
    note keeps = section_keeps_pause [OF laws _ _ t, of "sy_sub c"]
    have "\<not> list_ex (auto_resumes p) (sy_tasks c')"
      using keeps c list_ex_replace [of "auto_resumes p" "sy_tasks c"]
      by (auto simp: closure(1) run_section_def pause_settled_def split: prod.split sum.split)
    with quiet keeps c show ?thesis
      by (auto simp: closure(1) run_section_def pause_settled_def split: prod.splits sum.splits)
  qed (use c quiet in \<open>auto simp: pause_settled_def receive_sys_def poll_sys_def check_sys_def take_job_def start_flow_def
      buffer_steps_keep_flow checks_keep_flow case_prod_beta Let_def\<close>)
qed

text \<open>
  C33: Once the application's pause of a partition is recorded, the partition paused at the client and
  no automatic resume that chose it before is under way, it stays paused through every
  interleaving of messages, polls, automatic pauses and resumes, and pauses and resumes of other
  partitions, until the application itself resumes it. The client's pause is assumed only to
  add to the paused partitions, and its resume only to take away the given ones.
\<close>
theorem auto_resume_respects_user_pause:
  assumes "flow_laws paused_of rd"
    and "p \<in> sb_user_paused (sy_sub c)" and "p \<in> paused_of (sb_client (sy_sub c))"
    and "\<not> list_ex (app_resumes p) (sy_tasks c)" and "\<not> list_ex (auto_resumes p) (sy_tasks c)"
    and "(step_without_resume cfg rd p)\<^sup>*\<^sup>* c c'"
  shows "p \<in> paused_of (sb_client (sy_sub c')) \<and> p \<in> sb_user_paused (sy_sub c')
    \<and> \<not> list_ex (auto_resumes p) (sy_tasks c')"
proof -
  from assms(6) have "pause_settled paused_of p c'"
    by (induction rule: rtranclp_induct)
      (use assms(2-5) in \<open>auto simp: pause_settled_def [of _ _ c] intro: step_keeps_pause [OF assms(1)]\<close>)
  then show ?thesis by (simp add: pause_settled_def)
qed

definition pausing_config :: consumer_config where
  "pausing_config = demo_config\<lparr>kc_pause_at := 1\<rparr>"

text \<open>
  The client of \<open>demo_client\<close> with partition 0 of its topic paused by the application: before, while and
  after the automatic resume runs.
\<close>

definition resuming_sys :: "flow_task list \<Rightarrow> partition_spec set sub_sys" where
  "resuming_sys tasks =
     (sys_new ((sub_new {(''t'', 0)} 0 None)\<lparr>sb_user_paused := {(''t'', 0)}\<rparr>))\<lparr>sy_tasks := tasks\<rparr>"

theorem auto_resume_respects_user_pause_witness:
  "(''t'', 0) \<in> sb_client (sy_sub (resuming_sys []))
   \<and> (step_without_resume demo_config demo_client (''t'', 0))\<^sup>*\<^sup>* (resuming_sys [JobStart AutoResume]) (resuming_sys [])"
proof -
  let ?p = "(''t'', 0) :: partition_spec" and ?step = "step_without_resume demo_config demo_client (''t'', 0)"
  have sec: "?step (resuming_sys ts) (resuming_sys ts')"
    if "exec_event demo_config demo_client (Section 0) (resuming_sys ts) = Some (resuming_sys ts')"
      "\<not> list_ex (app_resumes ?p) ts'" for ts ts'
    using exec_event_step [OF that(1)] that(2) by (simp add: step_without_resume_def resuming_sys_def)
  have "?step (resuming_sys [JobStart AutoResume]) (resuming_sys [JobFilter [?p]])"
    by (rule sec) (simp_all add: resuming_sys_def demo_defs)
  moreover have "?step (resuming_sys [JobFilter [?p]]) (resuming_sys [])"
    by (rule sec) (simp_all add: resuming_sys_def demo_defs)
  ultimately have run: "?step\<^sup>*\<^sup>* (resuming_sys [JobStart AutoResume]) (resuming_sys [])"
    by (meson converse_rtranclp_into_rtranclp rtranclp.rtrancl_refl)
  have laws: "flow_laws (\<lambda>k. k) demo_client" by (auto simp: flow_laws_def demo_client_def)
  show ?thesis
    using auto_resume_respects_user_pause [OF laws _ _ _ _ run] run by (simp add: resuming_sys_def sys_new_def sub_new_def)
qed

text \<open>
  Without the condition on resumes under way the pause does not hold: the automatic resume drops the
  lock of \<open>user_paused\<close> before it calls the client, so that a pause of the application that runs
  to its end in between, and is reported as done, is undone; nothing is left that would pause the
  partition again.
\<close>

definition overridden_sys :: "partition_spec set sub_sys" where
  "overridden_sys =
     \<lparr>sy_sub = (sub_new {} 0 None)\<lparr>sb_user_paused := {(''t'', 0)}, sb_pause_total := 1, sb_resume_total := 1\<rparr>,
      sy_checks = [], sy_tasks = [], sy_received = [demo_msg 1], sy_delivered = [demo_msg 1]\<rparr>"

lemma late_auto_resume_undoes_pause:
  "(sub_step pausing_config demo_client)\<^sup>*\<^sup>* (sys_new (sub_new {} 0 None)) overridden_sys
   \<and> (''t'', 0) \<in> sb_user_paused (sy_sub overridden_sys) \<and> (''t'', 0) \<notin> sb_client (sy_sub overridden_sys)
   \<and> sb_jobs (sy_sub overridden_sys) = []"
proof -
  have "exec_events pausing_config demo_client
      [Receive (demo_msg 1), Check 0, TakeJob 0, Section 0, Section 0, Poll 5, Check 0, TakeJob 0, Section 0, Section 0,
       StartFlow Pause [(''t'', 0)], Section 1, Section 1, Section 1, Section 0]
      (sys_new (sub_new {} 0 None)) = Some overridden_sys"
    by (simp add: overridden_sys_def pausing_config_def demo_defs)
  from exec_events_run [OF this] show ?thesis by (simp add: overridden_sys_def sub_new_def)
qed

text \<open>
  The automatic pause and the automatic resume are handed to the blocking pool as separate
  jobs, and when the pool runs the resume before the pause, the subscription is left with every
  partition paused although its own flag says it is not, the buffer is empty and no job is left
  that would ever resume it.
\<close>
lemma auto_pause_can_stick:
  "let s1 = snd (poll_buffer pausing_config 5 (push_message pausing_config (demo_msg 1) (sub_new {} 0 None)));
       s2 = pool_step demo_client 0 (pool_step demo_client 1 s1)
   in sb_jobs s1 = [AutoPause, AutoResume] \<and> sb_jobs s2 = [] \<and> sb_buffer s2 = []
      \<and> \<not> sb_paused s2 \<and> sb_user_paused s2 = {} \<and> sb_client s2 = {(''t'', 0)}"
proof -
  let ?s0 = "sub_new {} 0 None :: partition_spec set sub_state"
  have push: "push_message pausing_config (demo_msg 1) ?s0 =
      ?s0\<lparr>sb_buffer := [demo_msg 1], sb_buffer_bytes := 1, sb_paused := True, sb_pause_total := 1,
          sb_jobs := [AutoPause]\<rparr>"
    by (simp add: push_message_def pausing_config_def demo_defs)
  have drain: "poll_buffer pausing_config 5 (push_message pausing_config (demo_msg 1) ?s0) =
      (Some [demo_msg 1], ?s0\<lparr>sb_pause_total := 1, sb_resume_total := 1, sb_jobs := [AutoPause, AutoResume]\<rparr>)"
    unfolding push by (simp add: poll_buffer_def pausing_config_def demo_defs)
  show ?thesis
    unfolding Let_def drain snd_conv
    by (simp add: pool_step_def run_job_eq demo_client_def sub_new_def Let_def)
qed

definition stuck_sys :: "partition_spec set sub_sys" where
  "stuck_sys =
     \<lparr>sy_sub = (sub_new {(''t'', 0)} 0 None)\<lparr>sb_paused := True, sb_pause_total := 1\<rparr>, sy_checks = [],
      sy_tasks = [], sy_received = [demo_msg 1], sy_delivered = [demo_msg 1]\<rparr>"

lemma stuck_sys_reachable: "(sub_step pausing_config demo_client)\<^sup>*\<^sup>* (sys_new (sub_new {} 0 None)) stuck_sys"
  by (rule exec_events_run [of _ _ "[Receive (demo_msg 1), Poll 5, Check 1, Check 0, TakeJob 0, Section 0, Section 0]"])
    (simp add: stuck_sys_def pausing_config_def demo_defs)

text \<open>
  C35: A poll that empties the buffer between the arrival of a message and the stream loop's
  pause check leaves the subscription paused for good: its buffer is empty and every partition
  of the client is paused, and from there only a message, which the paused client will not
  deliver, or the application's own pause or resume changes anything, because a poll that
  finds the buffer empty makes no resume check.
\<close>
theorem stale_pause_check_sticks:
  "(sub_step pausing_config demo_client)\<^sup>*\<^sup>* (sys_new (sub_new {} 0 None)) stuck_sys
   \<and> sb_buffer (sy_sub stuck_sys) = [] \<and> sb_user_paused (sy_sub stuck_sys) = {}
   \<and> sb_client (sy_sub stuck_sys) = {(''t'', 0)}
   \<and> poll_buffer pausing_config n (sy_sub stuck_sys) = (None, sy_sub stuck_sys)
   \<and> (\<forall>c. sub_step pausing_config demo_client stuck_sys c \<longrightarrow>
          (\<exists>cm. c = receive_sys pausing_config cm stuck_sys)
          \<or> (\<exists>op parts. c = start_flow op parts stuck_sys))"
proof -
  have "(\<exists>cm. c = receive_sys pausing_config cm stuck_sys) \<or> (\<exists>op parts. c = start_flow op parts stuck_sys)"
    if "sub_step pausing_config demo_client stuck_sys c" for c
    using that by (elim sub_stepE) (auto simp: stuck_sys_def sub_new_def)
  then show ?thesis
    using stuck_sys_reachable by (simp add: poll_buffer_def) (simp add: stuck_sys_def sub_new_def)
qed

theorem stale_pause_check_sticks_witness:
  "poll_buffer pausing_config 5 (sy_sub stuck_sys) = (None, sy_sub stuck_sys)"
  using stale_pause_check_sticks [of 5] by blast

text \<open>
  The rebalance queue holds at most 1024 events; a new event is always queued, as the
  newest, and only the oldest event makes room for it.
\<close>
lemma rebalance_queue_bounded:
  assumes "length q \<le> 1024"
  shows "length (push_event e q) \<le> 1024
    \<and> (\<exists>old. old @ push_event e q = q @ [e] \<and> length old \<le> 1 \<and> (length q < 1024 \<longrightarrow> old = []))"
proof
  show "length (push_event e q) \<le> 1024"
    using push_event_bound [of q e] assms by (simp add: MAX_QUEUE_def)
  obtain old where old: "old @ push_event e q = q @ [e]" using push_event_order by blast
  have "length old + length (push_event e q) = length q + 1"
    using arg_cong [OF old, of length] by simp
  moreover have "length (push_event e q) = (if length q \<ge> 1024 then length q else length q + 1)"
    by (auto simp: push_event_def Let_def MAX_QUEUE_def)
  ultimately have "length old \<le> 1" "length q < 1024 \<Longrightarrow> old = []" by (simp_all split: if_splits)
  with old show "\<exists>old. old @ push_event e q = q @ [e] \<and> length old \<le> 1 \<and> (length q < 1024 \<longrightarrow> old = [])"
    by blast
qed

end
