(* ===== verification/Kafka_Consumer.thy ===== *)
theory Kafka_Consumer
  imports Consumer_Sub
begin

text \<open>
  \<open>worker/src/consumer/real.rs\<close>, the consumer on librdkafka: the map of subscriptions, each with
  the stream loop of theory Consumer_Sub, and the methods of the \<open>Consumer\<close> trait on it. The
  client library is a parameter over a world \<open>'w\<close>, with the state \<open>'k\<close> of one client in its
  subscription; the clock is a component of the state.
\<close>

section \<open>The client library\<close>

text \<open>\<open>Offset::Invalid\<close>, \<open>Offset::Offset\<close> and the other variants of rdkafka's enum.\<close>

datatype rd_offset = OffInvalid | OffAt i64 | OffOther nat

text \<open>
  Timeouts are in milliseconds. \<open>rc_close\<close> is dropping a client, which closes it; only whether it
  panics can be observed. \<open>rc_causes\<close> and \<open>rc_err_text\<close> are the chain of causes and the text of an
  error, \<open>rc_join_error\<close> the text of the error of a blocking task that panicked.
\<close>

record ('m, 'k, 'w) rd_consumer =
  rc_client :: "'k rd_client"
  rc_create :: "cluster_config \<Rightarrow> subscription_id \<Rightarrow> string \<Rightarrow> slot_ref \<Rightarrow> 'w \<Rightarrow> (anyhow, 'k) outcome \<times> 'w"
  rc_subscribe :: "string list \<Rightarrow> 'k \<Rightarrow> (anyhow, unit) outcome \<times> 'k"
  rc_close :: "'k \<Rightarrow> 'w \<Rightarrow> bool \<times> 'w"
  rc_commit :: "'k \<Rightarrow> (kafka_error, unit) outcome \<times> 'k"
  rc_seek :: "string \<Rightarrow> i32 \<Rightarrow> rd_offset \<Rightarrow> nat \<Rightarrow> 'k \<Rightarrow> (anyhow, unit) outcome \<times> 'k"
  rc_add_offset :: "string \<Rightarrow> i32 \<Rightarrow> i64 \<Rightarrow> (anyhow, unit) outcome"
  rc_offsets_for_times ::
    "offset_spec list \<Rightarrow> nat \<Rightarrow> 'k \<Rightarrow> (anyhow, (string \<times> i32 \<times> rd_offset) list) outcome"
  rc_group_metadata :: "'k \<Rightarrow> (anyhow, 'm option) outcome"
  rc_causes :: "kafka_error \<Rightarrow> anyhow"
  rc_err_text :: "kafka_error \<Rightarrow> string"
  rc_join_error :: string

text \<open>
  The result of a closure given to \<open>spawn_blocking\<close>, as the error of the trait: a panic of the
  closure becomes an error.
\<close>

definition join_blocking :: "string \<Rightarrow> string \<Rightarrow> (anyhow, 'a) outcome \<Rightarrow> (consumer_error, 'a) outcome" where
  "join_blocking join_error call r =
     (case r of
        Ok x \<Rightarrow> Ok x
      | Err e \<Rightarrow> Err (BackendErr e)
      | Panic \<Rightarrow> Err (BackendErr [CMsg (''spawn_blocking '' @ call), CMsg join_error]))"

section \<open>State\<close>

text \<open>A subscription with the stream task that fills it.\<close>

record 'k subscription =
  sn_loop :: loop_state
  sn_state :: "'k sub_state"

text \<open>
  What happens while a poll waits: for each wake-up the items the stream loop handled before
  it, and the items it handles after the last one, before the timer expires. The scripts are
  consumed one per poll; an exhausted list means that nothing happens.
\<close>

record poll_script =
  ps_wakes :: "stream_item list list"
  ps_late :: "stream_item list"

text \<open>
  The shared \<open>Metrics\<close> handle: each subscription counts what it adds itself, in its own record.
\<close>

record ('k, 'w) kafka_consumer =
  kn_config :: consumer_config
  kn_subs :: "(subscription_id, 'k subscription) hmap"
  kn_seq :: u64
  kn_metrics :: "metrics option"
  kn_now :: nat
  kn_scripts :: "poll_script list"
  kn_world :: 'w

definition kafka_consumer_new :: "consumer_config \<Rightarrow> 'w \<Rightarrow> ('k, 'w) kafka_consumer" where
  "kafka_consumer_new cfg w =
     \<lparr>kn_config = cfg, kn_subs = [], kn_seq = 1, kn_metrics = None, kn_now = 0, kn_scripts = [],
      kn_world = w\<rparr>"

definition with_metrics :: "('k, 'w) kafka_consumer \<Rightarrow> ('k, 'w) kafka_consumer" where
  "with_metrics s = s\<lparr>kn_metrics := Some metrics_new\<rparr>"

section \<open>Observing\<close>

record backpressure_stats =
  bp_paused :: bool
  bp_pause_total :: u64
  bp_resume_total :: u64
  bp_buffer_len :: nat
  bp_buffer_capacity :: nat
  bp_buffer_bytes :: nat
  bp_buffer_bytes_capacity :: nat
  bp_messages_dropped_total :: u64

text \<open>\<open>locked\<close>: whether another task holds the buffer's lock, so that \<open>try_lock\<close> fails.\<close>

definition backpressure_stats_of ::
  "bool \<Rightarrow> subscription_id \<Rightarrow> ('k, 'w) kafka_consumer \<Rightarrow> backpressure_stats option" where
  "backpressure_stats_of locked sub s =
     map_option (\<lambda>e. let st = sn_state e in
       \<lparr>bp_paused = sb_paused st, bp_pause_total = sb_pause_total st,
        bp_resume_total = sb_resume_total st,
        bp_buffer_len = (if locked then 0 else length (sb_buffer st)),
        bp_buffer_capacity = kc_buffer_capacity (kn_config s), bp_buffer_bytes = sb_buffer_bytes st,
        bp_buffer_bytes_capacity = kc_buffer_bytes_capacity (kn_config s),
        bp_messages_dropped_total = sb_messages_dropped_total st\<rparr>) (map_of (kn_subs s) sub)"

text \<open>\<open>saturating_sub\<close> is subtraction on \<open>nat\<close>.\<close>

definition kafka_active_subscriptions :: "nat \<Rightarrow> ('k, 'w) kafka_consumer \<Rightarrow> nat" where
  "kafka_active_subscriptions within s =
     length (filter (\<lambda>(_, e). kn_now s - sb_last_active_ms (sn_state e) \<le> within) (kn_subs s))"

section \<open>Subscribing\<close>

definition consumer_client_config :: "cluster_config \<Rightarrow> subscribe_req \<Rightarrow> cluster_config" where
  "consumer_client_config cluster_cfg req =
     fold (\<lambda>(k, v). AList.update k v) (sr_config req)
       (AList.update ''enable.auto.commit'' ''false''
         (AList.update ''group.id'' (sr_group_id req)
           (fold (\<lambda>(k, v). AList.update k v) cluster_cfg [])))"

definition kafka_subscribe ::
  "('m, 'k, 'w) rd_consumer \<Rightarrow> subscribe_req \<Rightarrow> cluster_registry \<Rightarrow> ('k, 'w) kafka_consumer \<Rightarrow>
   (consumer_error, subscription_id) outcome \<times> ('k, 'w) kafka_consumer" where
  "kafka_subscribe rc req reg s =
     (case registry_get reg (sr_cluster req) of
        None \<Rightarrow> (Err (UnknownCluster (sr_cluster req)), s)
      | Some cluster_cfg \<Rightarrow>
          let (sid, seq) = subscription_id_next (kn_seq s); s1 = s\<lparr>kn_seq := seq\<rparr> in
          case token_slot_for reg (sr_cluster req) of
            None \<Rightarrow> (Err (UnknownCluster (sr_cluster req)), s1)
          | Some slot \<Rightarrow>
              (case rc_create rc (consumer_client_config cluster_cfg req) sid (sr_cluster req) slot
                      (kn_world s1) of
                 (Panic, w) \<Rightarrow> (Panic, s1\<lparr>kn_world := w\<rparr>)
               | (Err e, w) \<Rightarrow>
                   (Err (BackendErr (CMsg ''create StreamConsumer with RebalanceCtx'' # e)),
                    s1\<lparr>kn_world := w\<rparr>)
               | (Ok k, w) \<Rightarrow>
                   (case rc_subscribe rc (sr_topics req) k of
                      (Panic, k') \<Rightarrow> (Panic, s1\<lparr>kn_world := snd (rc_close rc k' w)\<rparr>)
                    | (Err e, k') \<Rightarrow>
                        (Err (BackendErr (CMsg ''subscribe'' # e)),
                         s1\<lparr>kn_world := snd (rc_close rc k' w)\<rparr>)
                    | (Ok _, k') \<Rightarrow>
                        (Ok sid,
                         s1\<lparr>kn_world := w,
                            kn_subs := AList.update sid
                              \<lparr>sn_loop = loop_new, sn_state = sub_new k' (kn_now s) (kn_metrics s)\<rparr>
                              (kn_subs s1)\<rparr>))))"

section \<open>Polling\<close>

text \<open>The stream task of a subscription handles items.\<close>

definition advance ::
  "(kafka_error \<Rightarrow> string) \<Rightarrow> consumer_config \<Rightarrow> stream_item list \<Rightarrow> 'k subscription \<Rightarrow> 'k subscription" where
  "advance err_text cfg items e =
     (let (l, s) = fold (stream_step err_text cfg) items (sn_loop e, sn_state e) in
      e\<lparr>sn_loop := l, sn_state := s\<rparr>)"

datatype poll_result = Polled "consumer_message list" | Dead

text \<open>
  The loop of \<open>poll\<close>: look at the buffer, then at the termination flag, and wait for a wake-up
  or for the timer.
\<close>

fun poll_wait ::
  "(kafka_error \<Rightarrow> string) \<Rightarrow> consumer_config \<Rightarrow> u32 \<Rightarrow> u32 \<Rightarrow> stream_item list list \<Rightarrow> stream_item list \<Rightarrow>
   'k subscription \<Rightarrow> poll_result \<times> 'k subscription" where
  "poll_wait err_text cfg max_messages timeout_ms wakes late e =
     (case poll_buffer cfg max_messages (sn_state e) of
        (Some out, st) \<Rightarrow> (Polled out, e\<lparr>sn_state := st\<rparr>)
      | (None, _) \<Rightarrow>
          if sb_terminated (sn_state e) then (Dead, e)
          else if timeout_ms = 0 then (Polled [], e)
          else
            case wakes of
              [] \<Rightarrow> (Polled [], advance err_text cfg late e)
            | items # more_wakes \<Rightarrow>
                poll_wait err_text cfg max_messages timeout_ms more_wakes late
                  (advance err_text cfg items e))"

definition next_script :: "poll_script list \<Rightarrow> poll_script \<times> poll_script list" where
  "next_script scripts =
     (case scripts of [] \<Rightarrow> (\<lparr>ps_wakes = [], ps_late = []\<rparr>, []) | x # xs \<Rightarrow> (x, xs))"

definition kafka_poll ::
  "('m, 'k, 'w) rd_consumer \<Rightarrow> subscription_id \<Rightarrow> u32 \<Rightarrow> u32 \<Rightarrow> ('k, 'w) kafka_consumer \<Rightarrow>
   (consumer_error, consumer_message list) outcome \<times> ('k, 'w) kafka_consumer" where
  "kafka_poll rc sub max_messages timeout_ms s =
     (case map_of (kn_subs s) sub of
        None \<Rightarrow> (Err (NotFound sub), s)
      | Some e \<Rightarrow>
          let (script, rest) = next_script (kn_scripts s);
              e0 = e\<lparr>sn_state := (sn_state e)\<lparr>sb_last_active_ms := kn_now s\<rparr>\<rparr>;
              s1 = s\<lparr>kn_scripts := rest\<rparr> in
          case poll_wait (rc_err_text rc) (kn_config s) max_messages timeout_ms
                 (ps_wakes script) (ps_late script) e0 of
            (Polled out, e1) \<Rightarrow> (Ok out, s1\<lparr>kn_subs := AList.update sub e1 (kn_subs s1)\<rparr>)
          | (Dead, e1) \<Rightarrow>
              (Err (NotFound sub),
               s1\<lparr>kn_subs := AList.delete sub (kn_subs s1),
                  kn_world := snd (rc_close rc (sb_client (sn_state e1)) (kn_world s1))\<rparr>))"

text \<open>The stream task of a subscription at any other time.\<close>

definition kafka_deliver ::
  "('m, 'k, 'w) rd_consumer \<Rightarrow> subscription_id \<Rightarrow> stream_item list \<Rightarrow> ('k, 'w) kafka_consumer \<Rightarrow>
   ('k, 'w) kafka_consumer" where
  "kafka_deliver rc sub items s =
     (case map_of (kn_subs s) sub of
        None \<Rightarrow> s
      | Some e \<Rightarrow>
          s\<lparr>kn_subs := AList.update sub (advance (rc_err_text rc) (kn_config s) items e) (kn_subs s)\<rparr>)"

section \<open>The other methods\<close>

text \<open>Calls on the client of a subscription.\<close>

definition on_sub ::
  "subscription_id \<Rightarrow> ('k sub_state \<Rightarrow> (consumer_error, 'a) outcome \<times> 'k sub_state) \<Rightarrow>
   ('k, 'w) kafka_consumer \<Rightarrow> (consumer_error, 'a) outcome \<times> ('k, 'w) kafka_consumer" where
  "on_sub sub f s =
     (case map_of (kn_subs s) sub of
        None \<Rightarrow> (Err (NotFound sub), s)
      | Some e \<Rightarrow>
          (case f (sn_state e) of
             (r, st) \<Rightarrow> (r, s\<lparr>kn_subs := AList.update sub (e\<lparr>sn_state := st\<rparr>) (kn_subs s)\<rparr>)))"

definition commit_sub ::
  "('m, 'k, 'w) rd_consumer \<Rightarrow> 'k sub_state \<Rightarrow> (consumer_error, unit) outcome \<times> 'k sub_state" where
  "commit_sub rc st =
     (case rc_commit rc (sb_client st) of
        (r, k) \<Rightarrow>
          (case r of
             Ok _ \<Rightarrow> Ok ()
           | Panic \<Rightarrow> Err (BackendErr [CMsg ''spawn_blocking commit'', CMsg (rc_join_error rc)])
           | Err e \<Rightarrow>
               if e = ConsumerCommit RK_NoOffset then Ok ()
               else Err (BackendErr (CMsg ''commit'' # rc_causes rc e)),
           st\<lparr>sb_client := k\<rparr>))"

definition kafka_commit_sub ::
  "('m, 'k, 'w) rd_consumer \<Rightarrow> subscription_id \<Rightarrow> ('k, 'w) kafka_consumer \<Rightarrow>
   (consumer_error, unit) outcome \<times> ('k, 'w) kafka_consumer" where
  "kafka_commit_sub rc sub s = on_sub sub (commit_sub rc) s"

definition kafka_unsubscribe ::
  "('m, 'k, 'w) rd_consumer \<Rightarrow> subscription_id \<Rightarrow> ('k, 'w) kafka_consumer \<Rightarrow>
   (consumer_error, unit) outcome \<times> ('k, 'w) kafka_consumer" where
  "kafka_unsubscribe rc sub s =
     (case map_of (kn_subs s) sub of
        None \<Rightarrow> (Err (NotFound sub), s)
      | Some e \<Rightarrow>
          (case rc_close rc (sb_client (sn_state e)) (kn_world s) of
             (closed, w) \<Rightarrow>
               (if closed then Ok ()
                else Err (BackendErr [CMsg ''spawn_blocking unsubscribe drop'', CMsg (rc_join_error rc)]),
                s\<lparr>kn_subs := AList.delete sub (kn_subs s), kn_world := w\<rparr>)))"

definition kafka_fetch_rebalance_events ::
  "subscription_id \<Rightarrow> u32 \<Rightarrow> ('k, 'w) kafka_consumer \<Rightarrow>
   (consumer_error, rebalance_event list) outcome \<times> ('k, 'w) kafka_consumer" where
  "kafka_fetch_rebalance_events sub max_events s =
     on_sub sub (\<lambda>st. case take_events max_events st of (evs, st') \<Rightarrow> (Ok evs, st')) s"

definition kafka_flow_control ::
  "('m, 'k, 'w) rd_consumer \<Rightarrow> pause_resume_op \<Rightarrow> subscription_id \<Rightarrow> partition_spec list \<Rightarrow>
   ('k, 'w) kafka_consumer \<Rightarrow> (consumer_error, unit) outcome \<times> ('k, 'w) kafka_consumer" where
  "kafka_flow_control rc op sub partitions s =
     on_sub sub
       (\<lambda>st. case flow_control (rc_client rc) op partitions st of
               (r, st') \<Rightarrow> (join_blocking (rc_join_error rc) ''flow_control'' r, st')) s"

definition kafka_group_metadata ::
  "('m, 'k, 'w) rd_consumer \<Rightarrow> subscription_id \<Rightarrow> ('k, 'w) kafka_consumer \<Rightarrow>
   (consumer_error, 'm) outcome \<times> ('k, 'w) kafka_consumer" where
  "kafka_group_metadata rc sub s =
     on_sub sub
       (\<lambda>st. (case join_blocking (rc_join_error rc) ''group_metadata'' (rc_group_metadata rc (sb_client st)) of
                Panic \<Rightarrow> Panic
              | Err e \<Rightarrow> Err e
              | Ok (Some m) \<Rightarrow> Ok m
              | Ok None \<Rightarrow>
                  Err (BackendErr [CMsg ''consumer.group_metadata() returned None (not joined to group yet?)'']),
              st)) s"

section \<open>Seeking\<close>

text \<open>\<open>right_arrow\<close> is the arrow of the source's message, in UTF-8.\<close>

definition right_arrow :: string where
  "right_arrow = [CHR 0xE2, CHR 0x86, CHR 0x92]"

fun seek_all ::
  "('m, 'k, 'w) rd_consumer \<Rightarrow> offset_spec list \<Rightarrow> 'k \<Rightarrow> (anyhow, unit) outcome \<times> 'k" where
  "seek_all rc [] k = (Ok (), k)"
| "seek_all rc ((topic, part, off) # targets) k =
     (case rc_seek rc topic part (OffAt off) 5000 k of
        (Panic, k1) \<Rightarrow> (Panic, k1)
      | (Err e, k1) \<Rightarrow>
          (Err (CMsg (''seek '' @ topic @ '':'' @ show_int (sint part) @ '' '' @ right_arrow @ '' ''
                  @ show_int (sint off)) # e), k1)
      | (Ok _, k1) \<Rightarrow> seek_all rc targets k1)"

definition kafka_seek_by_offset ::
  "('m, 'k, 'w) rd_consumer \<Rightarrow> subscription_id \<Rightarrow> offset_spec list \<Rightarrow> ('k, 'w) kafka_consumer \<Rightarrow>
   (consumer_error, unit) outcome \<times> ('k, 'w) kafka_consumer" where
  "kafka_seek_by_offset rc sub targets s =
     on_sub sub
       (\<lambda>st. case seek_all rc targets (sb_client st) of
               (r, k) \<Rightarrow> (join_blocking (rc_join_error rc) ''seek_by_offset'' r, st\<lparr>sb_client := k\<rparr>)) s"

fun add_times ::
  "('m, 'k, 'w) rd_consumer \<Rightarrow> i64 \<Rightarrow> partition_spec list \<Rightarrow> (anyhow, offset_spec list) outcome" where
  "add_times rc timestamp_ms [] = Ok []"
| "add_times rc timestamp_ms ((topic, part) # ps) =
     (case rc_add_offset rc topic part timestamp_ms of
        Panic \<Rightarrow> Panic
      | Err e \<Rightarrow> Err (CMsg ''add to tpl'' # e)
      | Ok _ \<Rightarrow> map_ok (\<lambda>tpl. (topic, part, timestamp_ms) # tpl) (add_times rc timestamp_ms ps))"

fun seek_resolved ::
  "('m, 'k, 'w) rd_consumer \<Rightarrow> (string \<times> i32 \<times> rd_offset) list \<Rightarrow> 'k \<Rightarrow> (anyhow, unit) outcome \<times> 'k" where
  "seek_resolved rc [] k = (Ok (), k)"
| "seek_resolved rc ((topic, part, off) # els) k =
     (if off = OffInvalid then seek_resolved rc els k
      else
        case rc_seek rc topic part off 5000 k of
          (Panic, k1) \<Rightarrow> (Panic, k1)
        | (Err e, k1) \<Rightarrow>
            (Err (CMsg (''seek '' @ topic @ '':'' @ show_int (sint part) @ '' after offsets_for_times'') # e), k1)
        | (Ok _, k1) \<Rightarrow> seek_resolved rc els k1)"

text \<open>The texts of the two refusals, in UTF-8.\<close>

definition no_assignment_msg :: string where
  "no_assignment_msg =
     ''seek_by_timestamp: '' @ [CHR 0xE5, CHR 0xBD, CHR 0x93, CHR 0xE5, CHR 0x89, CHR 0x8D]
     @ '' subscription ''
     @ [CHR 0xE8, CHR 0xBF, CHR 0x98, CHR 0xE6, CHR 0xB2, CHR 0xA1, CHR 0xE6, CHR 0x8B, CHR 0xBF,
        CHR 0xE5, CHR 0x88, CHR 0xB0, CHR 0xE4, CHR 0xBB, CHR 0xBB, CHR 0xE4, CHR 0xBD, CHR 0x95]
     @ '' partition assignment''
     @ [CHR 0xEF, CHR 0xBC, CHR 0x9B, CHR 0xE8, CHR 0xAF, CHR 0xB7, CHR 0xE7, CHR 0xAD, CHR 0x89,
        CHR 0xE8, CHR 0x87, CHR 0xB3, CHR 0xE5, CHR 0xB0, CHR 0x91, CHR 0xE4, CHR 0xB8, CHR 0x80,
        CHR 0xE6, CHR 0xAC, CHR 0xA1]
     @ '' ASSIGN rebalance ''
     @ [CHR 0xE4, CHR 0xBA, CHR 0x8B, CHR 0xE4, CHR 0xBB, CHR 0xB6, CHR 0xE5, CHR 0x86, CHR 0x8D,
        CHR 0xE8, CHR 0xB0, CHR 0x83, CHR 0xEF, CHR 0xBC, CHR 0x8C, CHR 0xE6, CHR 0x88, CHR 0x96,
        CHR 0xE6, CHR 0x98, CHR 0xBE, CHR 0xE5, CHR 0xBC, CHR 0x8F, CHR 0xE4, CHR 0xBC, CHR 0xA0]
     @ '' partitions''"

definition no_partitions_msg :: string where
  "no_partitions_msg =
     ''seek_by_timestamp: ''
     @ [CHR 0xE4, CHR 0xBC, CHR 0xA0, CHR 0xE5, CHR 0x85, CHR 0xA5, CHR 0xE7, CHR 0x9A, CHR 0x84]
     @ '' partitions ''
     @ [CHR 0xE5, CHR 0x88, CHR 0x97, CHR 0xE8, CHR 0xA1, CHR 0xA8, CHR 0xE4, CHR 0xB8, CHR 0xBA,
        CHR 0xE7, CHR 0xA9, CHR 0xBA]"

definition seek_time ::
  "('m, 'k, 'w) rd_consumer \<Rightarrow> i64 \<Rightarrow> partition_spec list \<Rightarrow> 'k \<Rightarrow> (anyhow, unit) outcome \<times> 'k" where
  "seek_time rc timestamp_ms partitions k =
     (let used_assignment = (partitions = []) in
      case (if used_assignment
            then with_context ''get current assignment'' (rd_assignment (rc_client rc) k)
            else Ok partitions) of
        Panic \<Rightarrow> (Panic, k)
      | Err e \<Rightarrow> (Err e, k)
      | Ok ps \<Rightarrow>
          (case add_times rc timestamp_ms ps of
             Panic \<Rightarrow> (Panic, k)
           | Err e \<Rightarrow> (Err e, k)
           | Ok tpl \<Rightarrow>
               if tpl = [] then
                 (Err [CMsg (if used_assignment then no_assignment_msg else no_partitions_msg)], k)
               else
                 (case rc_offsets_for_times rc tpl 10000 k of
                    Panic \<Rightarrow> (Panic, k)
                  | Err e \<Rightarrow> (Err (CMsg ''offsets_for_times'' # e), k)
                  | Ok resolved \<Rightarrow> seek_resolved rc resolved k)))"

definition kafka_seek_by_timestamp ::
  "('m, 'k, 'w) rd_consumer \<Rightarrow> subscription_id \<Rightarrow> i64 \<Rightarrow> partition_spec list \<Rightarrow> ('k, 'w) kafka_consumer \<Rightarrow>
   (consumer_error, unit) outcome \<times> ('k, 'w) kafka_consumer" where
  "kafka_seek_by_timestamp rc sub timestamp_ms partitions s =
     on_sub sub
       (\<lambda>st. case seek_time rc timestamp_ms partitions (sb_client st) of
               (r, k) \<Rightarrow> (join_blocking (rc_join_error rc) ''seek_by_timestamp'' r, st\<lparr>sb_client := k\<rparr>)) s"

definition kafka_consumer_ops ::
  "('m, 'k, 'w) rd_consumer \<Rightarrow> ('m, ('k, 'w) kafka_consumer) consumer_ops" where
  "kafka_consumer_ops rc =
     \<lparr>co_subscribe = kafka_subscribe rc, co_poll = kafka_poll rc, co_commit = kafka_commit_sub rc,
      co_unsubscribe = kafka_unsubscribe rc,
      co_fetch_rebalance_events = kafka_fetch_rebalance_events,
      co_seek_by_offset = kafka_seek_by_offset rc, co_seek_by_timestamp = kafka_seek_by_timestamp rc,
      co_pause = kafka_flow_control rc Pause, co_resume = kafka_flow_control rc Resume,
      co_group_metadata = kafka_group_metadata rc,
      co_active_subscriptions = kafka_active_subscriptions\<rparr>"

declare poll_wait.simps [simp del]

section \<open>Invariant\<close>

definition entry_inv :: "consumer_config \<Rightarrow> 'k subscription \<Rightarrow> bool" where
  "entry_inv cfg e \<longleftrightarrow> sub_inv cfg (sn_state e) \<and> loop_inv (sn_loop e, sn_state e)"

definition consumer_inv :: "('k, 'w) kafka_consumer \<Rightarrow> bool" where
  "consumer_inv s \<longleftrightarrow>
     hm_wf (kn_subs s) \<and> (\<forall>i e. map_of (kn_subs s) i = Some e \<longrightarrow> entry_inv (kn_config s) e)"

lemma kafka_consumer_new_inv: "consumer_inv (kafka_consumer_new cfg w)"
  by (simp add: consumer_inv_def kafka_consumer_new_def)

lemma consumer_inv_update:
  "consumer_inv s \<Longrightarrow> entry_inv (kn_config s) e \<Longrightarrow>
   consumer_inv (s\<lparr>kn_subs := AList.update sub e (kn_subs s)\<rparr>)"
  by (auto simp: consumer_inv_def update_conv' split: if_splits)

lemma consumer_inv_delete:
  "consumer_inv s \<Longrightarrow> consumer_inv (s\<lparr>kn_subs := AList.delete sub (kn_subs s)\<rparr>)"
  by (auto simp: consumer_inv_def delete_conv' split: if_splits)

lemma consumer_inv_other [simp]:
  "consumer_inv (s\<lparr>kn_seq := q\<rparr>) \<longleftrightarrow> consumer_inv s"
  "consumer_inv (s\<lparr>kn_world := w\<rparr>) \<longleftrightarrow> consumer_inv s"
  "consumer_inv (s\<lparr>kn_scripts := sc\<rparr>) \<longleftrightarrow> consumer_inv s"
  by (simp_all add: consumer_inv_def)

lemma consumer_invD: "consumer_inv s \<Longrightarrow> map_of (kn_subs s) sub = Some e \<Longrightarrow> entry_inv (kn_config s) e"
  by (simp add: consumer_inv_def)

lemma entry_new_inv: "entry_inv cfg \<lparr>sn_loop = loop_new, sn_state = sub_new k now m\<rparr>"
  by (simp add: entry_inv_def sub_new_inv loop_inv_def loop_new_def BACKOFF_MAX_MS_def
      MAX_CONSECUTIVE_ERRORS_def)

text \<open>What a change of the subscription's state must leave alone.\<close>

definition same_task :: "'k sub_state \<Rightarrow> 'k sub_state \<Rightarrow> bool" where
  "same_task st st' \<longleftrightarrow>
     same_buffer st st' \<and> sb_terminated st' = sb_terminated st \<and> sb_last_error st' = sb_last_error st"

lemma same_task_inv: "same_task (sn_state e) st \<Longrightarrow> entry_inv cfg e \<Longrightarrow> entry_inv cfg (e\<lparr>sn_state := st\<rparr>)"
  by (auto simp: same_task_def entry_inv_def loop_inv_def intro: same_buffer_inv)

lemma advance_inv: "entry_inv cfg e \<Longrightarrow> entry_inv cfg (advance err_text cfg items e)"
  using fold_stream_inv [of "(sn_loop e, sn_state e)" cfg err_text items]
  by (auto simp: entry_inv_def advance_def split: prod.splits)

lemma poll_buffer_terminated [simp]:
  "sb_terminated (snd (poll_buffer cfg n st)) = sb_terminated st"
  "sb_last_error (snd (poll_buffer cfg n st)) = sb_last_error st"
  by (simp_all add: poll_buffer_def drain_buffer_def maybe_resume_def count_metric_def Let_def)

lemma poll_entry_inv: "entry_inv cfg e \<Longrightarrow> entry_inv cfg (e\<lparr>sn_state := snd (poll_buffer cfg n (sn_state e))\<rparr>)"
  using poll_buffer_inv [of cfg "sn_state e" n] by (simp add: entry_inv_def loop_inv_def)

text \<open>The three ways a look at the subscription can end, and the two ways of waiting.\<close>

lemma poll_wait_buffered:
  assumes "sb_buffer (sn_state e) \<noteq> []"
  shows "poll_wait err_text cfg n t wakes late e =
    (Polled (fst (drain_buffer n (sn_state e))), e\<lparr>sn_state := snd (poll_buffer cfg n (sn_state e))\<rparr>)"
  using assms by (simp add: poll_wait.simps [of _ _ _ _ wakes] poll_buffer_def split_beta)

lemma poll_wait_empty:
  assumes "sb_buffer (sn_state e) = []"
  shows "sb_terminated (sn_state e) \<Longrightarrow> poll_wait err_text cfg n t wakes late e = (Dead, e)"
    and "\<not> sb_terminated (sn_state e) \<Longrightarrow> t = 0 \<Longrightarrow> poll_wait err_text cfg n t wakes late e = (Polled [], e)"
    and "\<not> sb_terminated (sn_state e) \<Longrightarrow> t \<noteq> 0 \<Longrightarrow>
      poll_wait err_text cfg n t [] late e = (Polled [], advance err_text cfg late e)"
    and "\<not> sb_terminated (sn_state e) \<Longrightarrow> t \<noteq> 0 \<Longrightarrow>
      poll_wait err_text cfg n t (items # wakes) late e =
        poll_wait err_text cfg n t wakes late (advance err_text cfg items e)"
  using assms
  by (simp_all add: poll_wait.simps [of _ _ _ _ wakes] poll_wait.simps [of _ _ _ _ "[]"]
      poll_wait.simps [of _ _ _ _ "items # wakes"] poll_buffer_def)

lemma poll_wait_inv:
  "entry_inv cfg e \<Longrightarrow> entry_inv cfg (snd (poll_wait err_text cfg n t wakes late e))"
proof (induction wakes arbitrary: e)
  case Nil
  consider "sb_buffer (sn_state e) \<noteq> []" | "sb_buffer (sn_state e) = []" "sb_terminated (sn_state e)"
    | "sb_buffer (sn_state e) = []" "\<not> sb_terminated (sn_state e)" by blast
  then show ?case
    using Nil by cases (cases "t = 0"; simp add: poll_wait_buffered poll_wait_empty poll_entry_inv advance_inv)+
next
  case (Cons items wakes)
  consider "sb_buffer (sn_state e) \<noteq> []" | "sb_buffer (sn_state e) = []" "sb_terminated (sn_state e)"
    | "sb_buffer (sn_state e) = []" "\<not> sb_terminated (sn_state e)" by blast
  then show ?case
    using Cons by cases (cases "t = 0"; simp add: poll_wait_buffered poll_wait_empty poll_entry_inv advance_inv)+
qed

lemma kafka_subscribe_inv: "consumer_inv s \<Longrightarrow> consumer_inv (snd (kafka_subscribe rc req reg s))"
proof -
  assume inv: "consumer_inv s"
  have "consumer_inv (s\<lparr>kn_seq := q, kn_world := w, kn_subs := AList.update sid
      \<lparr>sn_loop = loop_new, sn_state = sub_new k (kn_now s) (kn_metrics s)\<rparr> (kn_subs s)\<rparr>)" for q w sid k
    using inv by (simp add: consumer_inv_def entry_new_inv)
  moreover have "consumer_inv (s\<lparr>kn_seq := q, kn_world := w\<rparr>)" for q w using inv by simp
  ultimately show ?thesis
    using inv unfolding kafka_subscribe_def subscription_id_next_def Let_def
    by (simp split: option.split outcome.split prod.split)
qed

lemma kafka_poll_inv:
  assumes "consumer_inv s"
  shows "consumer_inv (snd (kafka_poll rc sub n t s))"
proof (cases "map_of (kn_subs s) sub")
  case (Some e)
  let ?e0 = "e\<lparr>sn_state := (sn_state e)\<lparr>sb_last_active_ms := kn_now s\<rparr>\<rparr>"
  let ?sc = "fst (next_script (kn_scripts s))"
  have e0: "entry_inv (kn_config s) ?e0"
    using consumer_invD [OF assms Some] by (intro same_task_inv) (simp_all add: same_task_def same_buffer_def)
  obtain r e1 where w: "poll_wait (rc_err_text rc) (kn_config s) n t (ps_wakes ?sc) (ps_late ?sc) ?e0 = (r, e1)"
    by fastforce
  have "entry_inv (kn_config s) e1" using poll_wait_inv [OF e0] w by (metis snd_conv)
  with assms Some w show ?thesis
    by (cases r) (auto simp: kafka_poll_def Let_def consumer_inv_def update_conv' delete_conv'
        split: prod.splits if_splits)
qed (use assms in \<open>simp add: kafka_poll_def\<close>)

lemma kafka_deliver_inv: "consumer_inv s \<Longrightarrow> consumer_inv (kafka_deliver rc sub items s)"
  by (auto simp: kafka_deliver_def split: option.split intro!: consumer_inv_update advance_inv dest: consumer_invD)

lemma kafka_unsubscribe_inv: "consumer_inv s \<Longrightarrow> consumer_inv (snd (kafka_unsubscribe rc sub s))"
  by (auto simp: kafka_unsubscribe_def consumer_inv_delete split: option.split prod.split)

lemma on_sub_inv:
  assumes "consumer_inv s" and "\<And>st. same_task st (snd (f st))"
  shows "consumer_inv (snd (on_sub sub f s))"
proof (cases "map_of (kn_subs s) sub")
  case (Some e)
  with assms consumer_invD [OF assms(1) Some] show ?thesis
    by (auto simp: on_sub_def split: prod.split intro!: consumer_inv_update same_task_inv)
      (metis snd_conv)
qed (use assms in \<open>simp add: on_sub_def\<close>)

lemma flow_control_task: "same_task st (snd (flow_control rd op parts st))"
  using flow_control_same [of st rd op parts]
  by (auto simp: same_task_def flow_control_eq split: outcome.split pause_resume_op.split prod.split)

lemma client_change_task [simp]: "same_task st (st\<lparr>sb_client := k\<rparr>)"
  by (simp add: same_task_def same_buffer_def)

lemma call_tasks:
  "same_task st (snd (commit_sub rc st))"
  "same_task st (snd (case take_events n st of (evs, st') \<Rightarrow> (Ok evs, st')))"
  "same_task st (snd (case flow_control (rc_client rc) op parts st of
      (r, st') \<Rightarrow> (join_blocking je call r, st')))"
  "same_task st (snd (case seek_all rc targets (sb_client st) of
      (r, k) \<Rightarrow> (join_blocking je call r, st\<lparr>sb_client := k\<rparr>)))"
  "same_task st (snd (case seek_time rc ts parts (sb_client st) of
      (r, k) \<Rightarrow> (join_blocking je call r, st\<lparr>sb_client := k\<rparr>)))"
  using flow_control_task [of st "rc_client rc" op parts]
  by (simp_all add: commit_sub_def split_beta) (simp add: take_events_def Let_def same_task_def same_buffer_def)

lemma kafka_calls_inv:
  assumes "consumer_inv s"
  shows "consumer_inv (snd (kafka_commit_sub rc sub s))"
    and "consumer_inv (snd (kafka_fetch_rebalance_events sub n s))"
    and "consumer_inv (snd (kafka_flow_control rc op sub parts s))"
    and "consumer_inv (snd (kafka_group_metadata rc sub s))"
    and "consumer_inv (snd (kafka_seek_by_offset rc sub targets s))"
    and "consumer_inv (snd (kafka_seek_by_timestamp rc sub ts parts s))"
  unfolding kafka_commit_sub_def kafka_fetch_rebalance_events_def kafka_flow_control_def
    kafka_group_metadata_def kafka_seek_by_offset_def kafka_seek_by_timestamp_def
  by (rule on_sub_inv [OF assms], rule call_tasks)+
    (rule on_sub_inv [OF assms], simp add: same_task_def same_buffer_def,
     (rule on_sub_inv [OF assms], rule call_tasks)+)

section \<open>Properties\<close>

lemma kafka_poll_found:
  assumes "map_of (kn_subs s) sub = Some e"
    and "e0 = e\<lparr>sn_state := (sn_state e)\<lparr>sb_last_active_ms := kn_now s\<rparr>\<rparr>"
    and "sc = fst (next_script (kn_scripts s))"
    and "poll_wait (rc_err_text rc) (kn_config s) n t (ps_wakes sc) (ps_late sc) e0 = (r, e1)"
  shows "kafka_poll rc sub n t s =
    (case r of
       Polled out \<Rightarrow>
         (Ok out, s\<lparr>kn_scripts := snd (next_script (kn_scripts s)), kn_subs := AList.update sub e1 (kn_subs s)\<rparr>)
     | Dead \<Rightarrow>
         (Err (NotFound sub),
          s\<lparr>kn_scripts := snd (next_script (kn_scripts s)), kn_subs := AList.delete sub (kn_subs s),
            kn_world := snd (rc_close rc (sb_client (sn_state e1)) (kn_world s))\<rparr>))"
  using assms by (simp add: kafka_poll_def Let_def split_beta split: poll_result.split)

lemma kafka_missing:
  assumes "map_of (kn_subs s) sub = None"
  shows "kafka_poll rc sub n t s = (Err (NotFound sub), s)"
    and "kafka_commit_sub rc sub s = (Err (NotFound sub), s)"
    and "kafka_unsubscribe rc sub s = (Err (NotFound sub), s)"
  using assms by (simp_all add: kafka_poll_def kafka_commit_sub_def kafka_unsubscribe_def on_sub_def)

text \<open>
  C24: A subscription whose stream has ended still hands out what it has buffered. Once the
  buffer is empty, a poll reports it as not found and removes it together with its client, the
  other subscriptions are untouched, and every later call on it is answered with not found
  again, so that the application subscribes anew.
\<close>
theorem dead_subscription_is_removed:
  assumes "map_of (kn_subs s) sub = Some e" and "sb_terminated (sn_state e)"
  shows "(sb_buffer (sn_state e) \<noteq> [] \<longrightarrow>
      fst (kafka_poll rc sub n t s) = Ok (take (unat n) (sb_buffer (sn_state e))))
    \<and> (sb_buffer (sn_state e) = [] \<longrightarrow>
        (\<exists>s'. kafka_poll rc sub n t s = (Err (NotFound sub), s')
          \<and> map_of (kn_subs s') = (map_of (kn_subs s))(sub := None)
          \<and> kn_world s' = snd (rc_close rc (sb_client (sn_state e)) (kn_world s))
          \<and> fst (kafka_poll rc sub n' t' s') = Err (NotFound sub)
          \<and> fst (kafka_commit_sub rc sub s') = Err (NotFound sub)))"
proof -
  let ?e0 = "e\<lparr>sn_state := (sn_state e)\<lparr>sb_last_active_ms := kn_now s\<rparr>\<rparr>"
  let ?sc = "fst (next_script (kn_scripts s))"
  note found = kafka_poll_found [OF assms(1) refl refl, of rc n t]
  have "fst (kafka_poll rc sub n t s) = Ok (take (unat n) (sb_buffer (sn_state e)))"
    if "sb_buffer (sn_state e) \<noteq> []"
  proof -
    have "poll_wait (rc_err_text rc) (kn_config s) n t (ps_wakes ?sc) (ps_late ?sc) ?e0 =
        (Polled (take (unat n) (sb_buffer (sn_state e))),
         ?e0\<lparr>sn_state := snd (poll_buffer (kn_config s) n (sn_state ?e0))\<rparr>)"
      using that by (simp add: poll_wait_buffered) (simp add: drain_buffer_def Let_def min_def)
    then show ?thesis by (simp add: found)
  qed
  moreover have "\<exists>s'. kafka_poll rc sub n t s = (Err (NotFound sub), s')
          \<and> map_of (kn_subs s') = (map_of (kn_subs s))(sub := None)
          \<and> kn_world s' = snd (rc_close rc (sb_client (sn_state e)) (kn_world s))
          \<and> fst (kafka_poll rc sub n' t' s') = Err (NotFound sub)
          \<and> fst (kafka_commit_sub rc sub s') = Err (NotFound sub)"
    if "sb_buffer (sn_state e) = []"
  proof -
    have "poll_wait (rc_err_text rc) (kn_config s) n t (ps_wakes ?sc) (ps_late ?sc) ?e0 = (Dead, ?e0)"
      using that assms(2) by (simp add: poll_wait_empty)
    then show ?thesis by (simp add: found kafka_missing)
  qed
  ultimately show ?thesis by blast
qed

text \<open>A library without errors, whose clients are the sets of paused partitions.\<close>

definition demo_rc :: "(unit, partition_spec set, unit) rd_consumer" where
  "demo_rc =
     \<lparr>rc_client = demo_client, rc_create = (\<lambda>cfg sid cluster slot w. (Ok {}, w)),
      rc_subscribe = (\<lambda>topics k. (Ok (), k)), rc_close = (\<lambda>k w. (True, w)),
      rc_commit = (\<lambda>k. (Ok (), k)), rc_seek = (\<lambda>topic part off t k. (Ok (), k)),
      rc_add_offset = (\<lambda>topic part off. Ok ()), rc_offsets_for_times = (\<lambda>tpl t k. Ok []),
      rc_group_metadata = (\<lambda>k. Ok (Some ())), rc_causes = (\<lambda>e. [CMsg ''error'']),
      rc_err_text = (\<lambda>e. ''error''), rc_join_error = ''task panicked''\<rparr>"

definition demo_dead :: "(partition_spec set, unit) kafka_consumer" where
  "demo_dead = (kafka_consumer_new demo_config ())
     \<lparr>kn_subs := [(7, \<lparr>sn_loop = loop_new, sn_state = mark_terminated ''stream ended'' (sub_new {} 0 None)\<rparr>)]\<rparr>"

theorem dead_subscription_is_removed_witness:
  "\<exists>s'. kafka_poll demo_rc 7 10 100 demo_dead = (Err (NotFound 7), s')
     \<and> fst (kafka_commit_sub demo_rc 7 s') = Err (NotFound 7)"
  using dead_subscription_is_removed [of demo_dead 7
      "\<lparr>sn_loop = loop_new, sn_state = mark_terminated ''stream ended'' (sub_new {} 0 None)\<rparr>" demo_rc 10 100]
  by (auto simp: demo_dead_def kafka_consumer_new_def mark_terminated_def sub_new_def)

lemma advance_message:
  assumes "lp_running (sn_loop e)"
  shows "sn_state (advance err_text cfg [StreamMsg m] e) =
    push_message cfg (to_consumer_message m) (sn_state e)"
  using assms by (simp add: advance_def stream_step_def)

lemma push_message_buffer: "sb_buffer (push_message cfg cm st) =
    (if overflows cfg cm st then tl (sb_buffer st) else sb_buffer st) @ [cm]"
  by (simp add: push_message_def Let_def enqueue_buffer)

text \<open>
  C28: A long poll on an empty subscription returns the message that arrives and wakes it; if the
  timer expires first, the poll returns no messages, and those that arrived meanwhile without
  waking it are still there for the next poll.
\<close>
theorem long_poll_gets_message:
  assumes "map_of (kn_subs s) sub = Some e" and "sb_buffer (sn_state e) = []"
    and "lp_running (sn_loop e)" and "\<not> sb_terminated (sn_state e)"
    and "t \<noteq> 0" and "n \<noteq> 0"
  shows "(kn_scripts s = \<lparr>ps_wakes = [StreamMsg m] # wakes, ps_late = late\<rparr> # rest \<longrightarrow>
      fst (kafka_poll rc sub n t s) = Ok [to_consumer_message m])
    \<and> (kn_scripts s = \<lparr>ps_wakes = [], ps_late = [StreamMsg m]\<rparr> # rest \<longrightarrow>
        (\<exists>s'. kafka_poll rc sub n t s = (Ok [], s')
           \<and> fst (kafka_poll rc sub n t s') = Ok [to_consumer_message m]))"
proof -
  let ?e0 = "e\<lparr>sn_state := (sn_state e)\<lparr>sb_last_active_ms := kn_now s\<rparr>\<rparr>"
  let ?e1 = "advance (rc_err_text rc) (kn_config s) [StreamMsg m] ?e0"
  have n: "0 < unat n" using assms(6) by (simp add: unat_gt_0)
  have buf: "sb_buffer (sn_state ?e1) = [to_consumer_message m]"
    using assms(2,3) by (simp add: advance_message push_message_buffer)
  have drain: "fst (drain_buffer n st) = [cm]" if "sb_buffer st = [cm]" for st cm
    using that n by (simp add: drain_buffer_def Let_def)
  have poll1: "fst (kafka_poll rc sub n t s) = Ok [to_consumer_message m]"
    if "kn_scripts s = \<lparr>ps_wakes = [StreamMsg m] # wakes, ps_late = late\<rparr> # rest"
    using kafka_poll_found [OF assms(1) refl refl, of rc n t] that assms(2,4,5) buf
    by (simp add: next_script_def poll_wait_empty poll_wait_buffered drain)
  have poll2: "\<exists>s'. kafka_poll rc sub n t s = (Ok [], s')
           \<and> fst (kafka_poll rc sub n t s') = Ok [to_consumer_message m]"
    if sc: "kn_scripts s = \<lparr>ps_wakes = [], ps_late = [StreamMsg m]\<rparr> # rest"
  proof -
    let ?s' = "s\<lparr>kn_scripts := rest, kn_subs := AList.update sub ?e1 (kn_subs s)\<rparr>"
    have "kafka_poll rc sub n t s = (Ok [], ?s')"
      using kafka_poll_found [OF assms(1) refl refl, of rc n t] sc assms(2,4,5)
      by (simp add: next_script_def poll_wait_empty)
    moreover have "map_of (kn_subs ?s') sub = Some ?e1" by simp
    from kafka_poll_found [OF this refl refl, of rc n t] buf
    have "fst (kafka_poll rc sub n t ?s') = Ok [to_consumer_message m]"
      by (simp add: poll_wait_buffered drain)
    ultimately show ?thesis by blast
  qed
  from poll1 poll2 show ?thesis by blast
qed

definition demo_rd_message :: rd_message where
  "demo_rd_message =
     \<lparr>rm_topic = ''t'', rm_partition = 0, rm_offset = 3, rm_timestamp = None, rm_key = None,
      rm_payload = Some [1], rm_headers = None\<rparr>"

definition demo_waiting :: "(partition_spec set, unit) kafka_consumer" where
  "demo_waiting = (kafka_consumer_new demo_config ())
     \<lparr>kn_subs := [(7, \<lparr>sn_loop = loop_new, sn_state = sub_new {} 0 None\<rparr>)],
      kn_scripts := [\<lparr>ps_wakes = [[StreamMsg demo_rd_message]], ps_late = []\<rparr>]\<rparr>"

theorem long_poll_gets_message_witness:
  "fst (kafka_poll demo_rc 7 10 100 demo_waiting) = Ok [to_consumer_message demo_rd_message]"
  using long_poll_gets_message [of demo_waiting 7 "\<lparr>sn_loop = loop_new, sn_state = sub_new {} 0 None\<rparr>"
      100 10 demo_rd_message "[]" "[]" "[]" demo_rc]
  by (simp add: demo_waiting_def kafka_consumer_new_def sub_new_def loop_new_def)

end
