(* ===== verification/Kafka_Backend.thy ===== *)
theory Kafka_Backend
  imports Server_Laws Kafka_Producer Kafka_Consumer
begin

text \<open>
  The worker with its Kafka back ends (\<open>build_producer\<close> and \<open>build_consumer\<close> of
  \<open>worker/src/main.rs\<close>): the producer and the consumer side by side as the back end of the
  connection server, and what a connection preserves of them. The locale \<open>backend_invariant\<close> is
  the contract between the server and a back end: a property that every method of the two
  traits preserves is preserved by every connection.
\<close>

section \<open>The two back ends together\<close>

record ('p, 'pw, 'k, 'cw) kafka_backend =
  kb_producer :: "('p, 'pw) kafka_producer"
  kb_consumer :: "('k, 'cw) kafka_consumer"

definition on_producer ::
  "(('p, 'pw) kafka_producer \<Rightarrow> 'r \<times> ('p, 'pw) kafka_producer) \<Rightarrow>
   ('p, 'pw, 'k, 'cw) kafka_backend \<Rightarrow> 'r \<times> ('p, 'pw, 'k, 'cw) kafka_backend" where
  "on_producer f s = (case f (kb_producer s) of (r, p) \<Rightarrow> (r, s\<lparr>kb_producer := p\<rparr>))"

definition on_consumer ::
  "(('k, 'cw) kafka_consumer \<Rightarrow> 'r \<times> ('k, 'cw) kafka_consumer) \<Rightarrow>
   ('p, 'pw, 'k, 'cw) kafka_backend \<Rightarrow> 'r \<times> ('p, 'pw, 'k, 'cw) kafka_backend" where
  "on_consumer f s = (case f (kb_consumer s) of (r, c) \<Rightarrow> (r, s\<lparr>kb_consumer := c\<rparr>))"

definition build_producer ::
  "('m, 'g, 'p, 'pw) rd_producer \<Rightarrow> ('m, ('p, 'pw, 'k, 'cw) kafka_backend) producer_ops" where
  "build_producer rp =
     \<lparr>po_produce_fnf = (\<lambda>msg reg. on_producer (kafka_produce_fnf rp msg reg)),
      po_produce_ack = (\<lambda>msg reg. on_producer (kafka_produce_ack rp msg reg)),
      po_flush = (\<lambda>timeout. on_producer (kafka_flush rp timeout)),
      po_begin_transaction = (\<lambda>cluster reg. on_producer (kafka_begin rp cluster reg)),
      po_commit_transaction = (\<lambda>cluster reg. on_producer (kafka_commit rp cluster reg)),
      po_abort_transaction = (\<lambda>cluster reg. on_producer (kafka_abort rp cluster reg)),
      po_send_offsets = (\<lambda>cluster group_id offsets metadata reg.
        on_producer (kafka_send_offsets rp cluster group_id offsets metadata reg))\<rparr>"

definition build_consumer ::
  "('m, 'k, 'cw) rd_consumer \<Rightarrow> ('m, ('p, 'pw, 'k, 'cw) kafka_backend) consumer_ops" where
  "build_consumer rc =
     \<lparr>co_subscribe = (\<lambda>req reg. on_consumer (kafka_subscribe rc req reg)),
      co_poll = (\<lambda>sub n t. on_consumer (kafka_poll rc sub n t)),
      co_commit = (\<lambda>sub. on_consumer (kafka_commit_sub rc sub)),
      co_unsubscribe = (\<lambda>sub. on_consumer (kafka_unsubscribe rc sub)),
      co_fetch_rebalance_events = (\<lambda>sub n. on_consumer (kafka_fetch_rebalance_events sub n)),
      co_seek_by_offset = (\<lambda>sub targets. on_consumer (kafka_seek_by_offset rc sub targets)),
      co_seek_by_timestamp = (\<lambda>sub ts parts. on_consumer (kafka_seek_by_timestamp rc sub ts parts)),
      co_pause = (\<lambda>sub parts. on_consumer (kafka_flow_control rc Pause sub parts)),
      co_resume = (\<lambda>sub parts. on_consumer (kafka_flow_control rc Resume sub parts)),
      co_group_metadata = (\<lambda>sub. on_consumer (kafka_group_metadata rc sub)),
      co_active_subscriptions = (\<lambda>within s. kafka_active_subscriptions within (kb_consumer s))\<rparr>"

definition kafka_env ::
  "('m, 'g, 'p, 'pw) rd_producer \<Rightarrow> ('m, 'k, 'cw) rd_consumer \<Rightarrow> panic_payload \<Rightarrow>
   ('m, ('p, 'pw, 'k, 'cw) kafka_backend) server_env" where
  "kafka_env rp rc panic =
     \<lparr>sv_producer = build_producer rp, sv_consumer = build_consumer rc, sv_panic = panic\<rparr>"

section \<open>The contract of a back end\<close>

locale backend_invariant =
  fixes env :: "('m, 's) server_env"
    and I :: "'s \<Rightarrow> bool"
  assumes produce_fnf: "I s \<Longrightarrow> I (snd (po_produce_fnf (sv_producer env) msg reg s))"
    and produce_ack: "I s \<Longrightarrow> I (snd (po_produce_ack (sv_producer env) msg reg s))"
    and begin_txn: "I s \<Longrightarrow> I (snd (po_begin_transaction (sv_producer env) cluster reg s))"
    and commit_txn: "I s \<Longrightarrow> I (snd (po_commit_transaction (sv_producer env) cluster reg s))"
    and abort_txn: "I s \<Longrightarrow> I (snd (po_abort_transaction (sv_producer env) cluster reg s))"
    and send_offsets: "I s \<Longrightarrow> I (snd (po_send_offsets (sv_producer env) cluster grp os md reg s))"
    and subscribe: "I s \<Longrightarrow> I (snd (co_subscribe (sv_consumer env) req reg s))"
    and poll: "I s \<Longrightarrow> I (snd (co_poll (sv_consumer env) sub n t s))"
    and commit: "I s \<Longrightarrow> I (snd (co_commit (sv_consumer env) sub s))"
    and unsubscribe: "I s \<Longrightarrow> I (snd (co_unsubscribe (sv_consumer env) sub s))"
    and rebalance: "I s \<Longrightarrow> I (snd (co_fetch_rebalance_events (sv_consumer env) sub n s))"
    and seek_offset: "I s \<Longrightarrow> I (snd (co_seek_by_offset (sv_consumer env) sub targets s))"
    and seek_time: "I s \<Longrightarrow> I (snd (co_seek_by_timestamp (sv_consumer env) sub ts parts s))"
    and pause: "I s \<Longrightarrow> I (snd (co_pause (sv_consumer env) sub parts s))"
    and resume: "I s \<Longrightarrow> I (snd (co_resume (sv_consumer env) sub parts s))"
    and metadata: "I s \<Longrightarrow> I (snd (co_group_metadata (sv_consumer env) sub s))"
begin

lemmas calls = produce_fnf produce_ack begin_txn commit_txn abort_txn send_offsets subscribe poll commit
  unsubscribe rebalance seek_offset seek_time pause resume metadata

lemma consumer_handlers:
  assumes "I (ss_backend st)"
  shows "I (ss_backend (snd (snd (handle_subscribe env cid payload o1 st))))"
    and "I (ss_backend (snd (snd (handle_poll env cid payload o1 st))))"
    and "I (ss_backend (snd (snd (handle_commit env cid payload o1 st))))"
    and "I (ss_backend (snd (snd (handle_unsubscribe env cid payload o1 st))))"
    and "I (ss_backend (snd (snd (handle_seek env cid payload o1 st))))"
    and "I (ss_backend (snd (snd (handle_poll_rebalance env cid payload o1 st))))"
    and "I (ss_backend (snd (snd (handle_pause_resume env cid payload o1 st))))"
  unfolding handle_subscribe_def handle_poll_def handle_commit_def handle_unsubscribe_def handle_seek_def
    handle_poll_rebalance_def handle_pause_resume_def Let_def
  using assms calls(7-15)
  by (auto simp: split_beta split: outcome.split seek_req.split pause_resume_op.split)

lemma producer_handlers:
  assumes "I (ss_backend st)"
  shows "I (ss_backend (snd (snd (handle_txn env cid payload o1 st))))"
    and "I (ss_backend (snd (snd (handle_send_offsets env cid payload o1 st))))"
    and "I (ss_backend (snd (snd (handle_produce_fnf env cid payload o1 st))))"
    and "I (ss_backend (snd (snd (handle_produce_req_inner env cid payload o1 st))))"
proof -
  have md: "I (snd (po_send_offsets (sv_producer env) c g os m reg (snd (co_group_metadata (sv_consumer env) sub (ss_backend st)))))"
    for c g os m reg sub
    by (intro send_offsets metadata assms)
  show "I (ss_backend (snd (snd (handle_txn env cid payload o1 st))))"
    unfolding handle_txn_def using assms calls(3-5) by (auto split: outcome.split txn_op.split)
  show "I (ss_backend (snd (snd (handle_send_offsets env cid payload o1 st))))"
    unfolding handle_send_offsets_def Let_def using assms md metadata by (auto simp: split_beta split: outcome.split)
  show "I (ss_backend (snd (snd (handle_produce_fnf env cid payload o1 st))))"
    unfolding handle_produce_fnf_def Let_def using assms produce_fnf
    by (auto simp: split_beta upd_metrics_def split: outcome.split)
  show "I (ss_backend (snd (snd (handle_produce_req_inner env cid payload o1 st))))"
    unfolding handle_produce_req_inner_def Let_def using assms produce_ack
    by (auto simp: split_beta upd_metrics_def split: outcome.split)
qed

lemma produce_req_handler:
  assumes "I (ss_backend st)"
  shows "I (ss_backend (snd (snd (handle_produce_req env cid payload o1 st))))"
  using producer_handlers(4) [OF assms, of cid payload o1]
  by (auto simp: handle_produce_req_def Let_def upd_metrics_def split: prod.splits outcome.splits)

lemma registry_handlers:
  "ss_backend (snd (snd (handle_set_oauth_token cid payload o1 st))) = ss_backend st"
  "ss_backend (snd (snd (handle_register_cluster cid payload o1 st))) = ss_backend st"
  unfolding handle_set_oauth_token_def handle_register_cluster_def Let_def
  by (auto split: outcome.split prod.split)

lemma dispatch_keeps:
  assumes "I (ss_backend st)"
  shows "I (ss_backend (snd (snd (dispatch env kind cid payload o1 st))))"
proof -
  have "I (ss_backend (snd (snd (dispatch_inner env kind cid payload o1 st))))"
    using assms consumer_handlers [OF assms] producer_handlers [OF assms] produce_req_handler [OF assms]
    by (cases kind) (simp_all add: dispatch_inner_def registry_handlers)
  then show ?thesis by (auto simp: dispatch_def split: prod.splits outcome.splits)
qed

end

sublocale backend_invariant \<subseteq> conn: connection_invariant env "\<lambda>st. I (ss_backend st)"
  by unfold_locales (simp_all add: dispatch_keeps, simp add: upd_metrics_def)

section \<open>The Kafka back ends meet it\<close>

definition producer_inv :: "('p, 'w) kafka_producer \<Rightarrow> bool" where
  "producer_inv s \<longleftrightarrow> hm_wf (kp_cells s)"

definition backend_inv :: "('p, 'pw, 'k, 'cw) kafka_backend \<Rightarrow> bool" where
  "backend_inv s \<longleftrightarrow> producer_inv (kb_producer s) \<and> consumer_inv (kb_consumer s)"

lemma cell_for_inv: "producer_inv s \<Longrightarrow> producer_inv (snd (cell_for cluster s))"
  by (simp add: producer_inv_def cell_for_def split: option.split)

lemma entry_try_inv: "producer_inv s \<Longrightarrow> producer_inv (snd (entry_try rp reg reg' reg'' cluster s))"
  using cell_for_inv [of s cluster]
  by (auto simp: producer_inv_def entry_try_def entry_init_def split: prod.splits outcome.splits option.splits)

lemma entry_loop_inv:
  "producer_inv s \<Longrightarrow> entry_loop rp n regs i cluster s = Some (r, s') \<Longrightarrow> producer_inv s'"
proof (induction n arbitrary: i s)
  case (Suc n)
  from entry_try_inv [OF Suc.prems(1), of rp "regs i" "regs (i + 1)" "regs (i + 2)" cluster] Suc.prems(2)
  show ?case by (auto split: prod.splits outcome.splits option.splits intro: Suc.IH)
qed simp

lemma entry_for_inv: "producer_inv s \<Longrightarrow> producer_inv (snd (entry_for rp reg cluster s))"
  using entry_loop_inv [of s rp 2 "\<lambda>_. reg" 0 cluster] entry_for_loop [of rp reg cluster s]
  by (metis prod.collapse)

lemma on_entry_inv: "producer_inv s \<Longrightarrow> producer_inv (snd (on_entry rp reg cluster f s))"
  using entry_for_inv [of s rp reg cluster]
  by (auto simp: on_entry_def producer_inv_def split: prod.splits outcome.splits)

lemma producer_calls_inv:
  assumes "producer_inv s"
  shows "producer_inv (snd (kafka_produce_fnf rp msg reg s))"
    and "producer_inv (snd (kafka_produce_ack rp msg reg s))"
    and "producer_inv (snd (kafka_begin rp cluster reg s))"
    and "producer_inv (snd (kafka_commit rp cluster reg s))"
    and "producer_inv (snd (kafka_abort rp cluster reg s))"
    and "producer_inv (snd (kafka_send_offsets rp cluster grp os md reg s))"
  using on_entry_inv [OF assms]
  by (simp_all add: kafka_produce_fnf_def kafka_produce_ack_def kafka_begin_def kafka_commit_def
      kafka_abort_def kafka_send_offsets_def split_beta)

lemma on_producer_inv:
  "backend_inv s \<Longrightarrow> (\<And>p. producer_inv p \<Longrightarrow> producer_inv (snd (f p))) \<Longrightarrow> backend_inv (snd (on_producer f s))"
  by (simp add: backend_inv_def on_producer_def split_beta)

lemma on_consumer_inv:
  "backend_inv s \<Longrightarrow> (\<And>c. consumer_inv c \<Longrightarrow> consumer_inv (snd (f c))) \<Longrightarrow> backend_inv (snd (on_consumer f s))"
  by (simp add: backend_inv_def on_consumer_def split_beta)

lemmas backend_calls_inv = producer_calls_inv kafka_subscribe_inv kafka_poll_inv kafka_unsubscribe_inv
  kafka_calls_inv

interpretation kafka: backend_invariant "kafka_env rp rc panic" backend_inv
  by unfold_locales
    (simp_all add: kafka_env_def build_producer_def build_consumer_def on_producer_inv on_consumer_inv
      backend_calls_inv)

section \<open>Properties\<close>

text \<open>
  C23: Whatever a peer sends over a connection of a worker with the Kafka back ends, and whatever
  the client library answers, every subscription stays consistent: its byte counter is the
  size of its buffered messages, the buffer keeps its message capacity, and a stream loop that
  has stopped has marked its subscription as terminated.
\<close>
theorem connection_keeps_subscriptions:
  assumes "backend_inv (ss_backend st)"
    and "st' = snd (snd (handle_connection (kafka_env rp rc panic) fin inp hs o1 st))"
    and "map_of (kn_subs (kb_consumer (ss_backend st'))) sub = Some e"
  shows "sb_buffer_bytes (sn_state e) = sum_list (map message_bytes (sb_buffer (sn_state e)))
    \<and> length (sb_buffer (sn_state e)) \<le> max 1 (kc_buffer_capacity (kn_config (kb_consumer (ss_backend st'))))
    \<and> (\<not> lp_running (sn_loop e) \<longrightarrow> sb_terminated (sn_state e))"
proof -
  have "backend_inv (ss_backend st')"
    unfolding assms(2) by (rule kafka.conn.connection_keeps) (rule assms(1))
  then have "entry_inv (kn_config (kb_consumer (ss_backend st'))) e"
    using assms(3) by (auto simp: backend_inv_def intro: consumer_invD)
  then show ?thesis by (simp add: entry_inv_def sub_inv_def loop_inv_def)
qed

definition demo_backend :: "(nat, nat, partition_spec set, unit) kafka_backend" where
  "demo_backend = \<lparr>kb_producer = demo_cache, kb_consumer = demo_waiting\<rparr>"

definition demo_kafka_state :: "(nat, nat, partition_spec set, unit) kafka_backend server_state" where
  "demo_kafka_state =
     \<lparr>ss_registry = demo_cluster, ss_backend = demo_backend, ss_shutdown = shutdown_new,
      ss_metrics = metrics_new, ss_expedited = False\<rparr>"

theorem connection_keeps_subscriptions_witness:
  "map_of (kn_subs (kb_consumer (ss_backend demo_kafka_state))) 7 =
     Some \<lparr>sn_loop = loop_new, sn_state = sub_new {} 0 None\<rparr>
   \<and> sb_buffer_bytes (sn_state \<lparr>sn_loop = loop_new, sn_state = sub_new {} 0 None :: partition_spec set sub_state\<rparr>) = 0"
proof -
  let ?e = "\<lparr>sn_loop = loop_new, sn_state = sub_new {} 0 None :: partition_spec set sub_state\<rparr>"
  have inv: "backend_inv (ss_backend demo_kafka_state)"
    using entry_new_inv
    by (simp add: backend_inv_def producer_inv_def demo_kafka_state_def demo_backend_def demo_cache_def
        demo_waiting_def kafka_consumer_new_def consumer_inv_def hm_wf_def)
  have m: "map_of (kn_subs (kb_consumer (ss_backend demo_kafka_state))) 7 = Some ?e"
    by (simp add: demo_kafka_state_def demo_backend_def demo_waiting_def)
  have "demo_kafka_state =
      snd (snd (handle_connection (kafka_env demo_rp demo_rc PanicAny) Eof [] True demo_out demo_kafka_state))"
    by (simp add: handle_connection.simps HEADER_LEN_def)
  from connection_keeps_subscriptions [OF inv this m] m show ?thesis by (simp add: sub_new_def)
qed

end
