(* ===== verification/Server_Run.thy ===== *)
theory Server_Run
  imports Kafka_Backend
begin

text \<open>
  \<open>Server::run\<close> and \<open>drain_tasks\<close> of \<open>worker/src/server.rs\<close>, with \<open>wait_draining\<close> of
  \<open>worker/src/shutdown.rs\<close>: the accept loop of the worker as a state machine, and when the worker
  exits. Times are in nanoseconds. The listener, the timers and the scheduling of the
  connection tasks are the environment; the tasks are counted, as they are anonymous.
\<close>

section \<open>State\<close>

text \<open>
  Where the loop is with respect to \<open>wait_draining\<close>, the first branch of its \<open>select!\<close>: at the
  head; past the check of the flag but not yet registered for the notification; or waiting, with
  whether it was notified. Then where \<open>drain_tasks\<close> is: in its loop, or, after the deadline, in the
  loop that waits for the aborted tasks. Finally the loop has returned.
\<close>

datatype run_pos = AtHead | Checked | Waiting bool | Draining | Aborting | Returned

text \<open>
  \<open>rn_finished\<close> are the tasks that have ended but are still in the \<open>JoinSet\<close>; \<open>rn_aborted\<close> counts
  the connections cut off by the drain timeout.
\<close>

record 's run_state =
  rn_pos :: run_pos
  rn_running :: nat
  rn_finished :: nat
  rn_last_active :: nat
  rn_now :: nat
  rn_aborted :: nat
  rn_server :: "'s server_state"

definition run_start :: "nat \<Rightarrow> 's server_state \<Rightarrow> 's run_state" where
  "run_start now st =
     \<lparr>rn_pos = AtHead, rn_running = 0, rn_finished = 0, rn_last_active = now, rn_now = now,
      rn_aborted = 0, rn_server = st\<rparr>"

definition check_interval :: "nat \<Rightarrow> nat" where
  "check_interval idle_timeout =
     (if idle_timeout = 0 then 30 * 10 ^ 9
      else max (10 ^ 9) (min (30 * 10 ^ 9) (idle_timeout div 4)))"

definition draining :: "'s run_state \<Rightarrow> bool" where
  "draining c = is_draining (ss_shutdown (rn_server c))"

definition begin_draining :: "'s run_state \<Rightarrow> 's run_state" where
  "begin_draining c =
     c\<lparr>rn_server := (rn_server c)\<lparr>ss_shutdown := start_draining (ss_shutdown (rn_server c))\<rparr>\<rparr>"

text \<open>\<open>Duration::as_millis\<close> of the idle timeout.\<close>

definition active_subs :: "('m, 's) server_env \<Rightarrow> nat \<Rightarrow> 's run_state \<Rightarrow> nat" where
  "active_subs env idle_timeout c =
     co_active_subscriptions (sv_consumer env) (idle_timeout div 10 ^ 6) (ss_backend (rn_server c))"

section \<open>The branches of the loop\<close>

definition reap_finished :: "'s run_state \<Rightarrow> 's run_state" where
  "reap_finished c = c\<lparr>rn_finished := 0\<rparr>"

definition on_accept :: "'s run_state \<Rightarrow> 's run_state" where
  "on_accept c =
     reap_finished
       (c\<lparr>rn_pos := AtHead, rn_last_active := rn_now c, rn_running := rn_running c + 1,
          rn_server := upd_metrics (\<lambda>m. m\<lparr>mt_ipc_connections_total := inc (mt_ipc_connections_total m)\<rparr>)
            (rn_server c)\<rparr>)"

definition on_accept_failed :: "'s run_state \<Rightarrow> 's run_state" where
  "on_accept_failed c = c\<lparr>rn_pos := AtHead, rn_last_active := rn_now c\<rparr>"

definition on_joined :: "('m, 's) server_env \<Rightarrow> nat \<Rightarrow> 's run_state \<Rightarrow> 's run_state" where
  "on_joined env idle_timeout c =
     (let c1 = (reap_finished c)\<lparr>rn_pos := AtHead\<rparr> in
      if ss_expedited (rn_server c1) \<and> rn_running c1 + rn_finished c1 = 0 \<and> active_subs env idle_timeout c1 = 0
      then begin_draining c1 else c1)"

definition on_tick :: "('m, 's) server_env \<Rightarrow> nat \<Rightarrow> 's run_state \<Rightarrow> 's run_state" where
  "on_tick env idle_timeout c =
     (let c1 = (reap_finished c)\<lparr>rn_pos := AtHead\<rparr> in
      if rn_running c1 + rn_finished c1 = 0 then
        if \<not> active_subs env idle_timeout c1 > 0 \<and> rn_now c1 - rn_last_active c1 \<ge> idle_timeout
        then begin_draining c1 else c1
      else c1\<lparr>rn_last_active := rn_now c1\<rparr>)"

text \<open>
  \<open>drain_tasks\<close> returns at once when there is no task. Its loop takes the tasks that have ended one by
  one; the deadline passes while the others are still running, and aborts them; an aborted task
  ends, unless it ended by itself first, and is taken like the others.
\<close>

definition drain_tasks :: "'s run_state \<Rightarrow> 's run_state" where
  "drain_tasks c = c\<lparr>rn_pos := (if rn_running c + rn_finished c = 0 then Returned else Draining)\<rparr>"

definition drain_joined :: "'s run_state \<Rightarrow> 's run_state" where
  "drain_joined c = c\<lparr>rn_finished := rn_finished c - 1\<rparr>"

definition abort_all :: "'s run_state \<Rightarrow> 's run_state" where
  "abort_all c = c\<lparr>rn_pos := Aborting\<rparr>"

definition task_ended :: "'s run_state \<Rightarrow> 's run_state" where
  "task_ended c = c\<lparr>rn_running := rn_running c - 1, rn_finished := rn_finished c + 1\<rparr>"

definition task_aborted :: "'s run_state \<Rightarrow> 's run_state" where
  "task_aborted c = (task_ended c)\<lparr>rn_aborted := rn_aborted c + 1\<rparr>"

text \<open>\<open>start_draining\<close> from the signal handler: set the flag, notify whoever is registered.\<close>

definition on_signal :: "'s run_state \<Rightarrow> 's run_state" where
  "on_signal c =
     (begin_draining c)\<lparr>rn_pos := (case rn_pos c of Waiting _ \<Rightarrow> Waiting True | p \<Rightarrow> p)\<rparr>"

section \<open>Steps\<close>

text \<open>
  The loop's own steps, and those of the environment: a connection task handles a frame or
  ends, a signal arrives, time passes.
\<close>

inductive run_step :: "('m, 's) server_env \<Rightarrow> nat \<Rightarrow> 's run_state \<Rightarrow> 's run_state \<Rightarrow> bool"
  for env idle_timeout where
  check_drained: "rn_pos c = AtHead \<Longrightarrow> draining c \<Longrightarrow> run_step env idle_timeout c (drain_tasks c)"
| check: "rn_pos c = AtHead \<Longrightarrow> \<not> draining c \<Longrightarrow> run_step env idle_timeout c (c\<lparr>rn_pos := Checked\<rparr>)"
| wait: "rn_pos c = Checked \<Longrightarrow> run_step env idle_timeout c (c\<lparr>rn_pos := Waiting False\<rparr>)"
| notified: "rn_pos c = Waiting True \<Longrightarrow> run_step env idle_timeout c (drain_tasks c)"
| drain_join: "rn_pos c \<in> {Draining, Aborting} \<Longrightarrow> 0 < rn_finished c \<Longrightarrow>
    run_step env idle_timeout c (drain_joined c)"
| drain_done: "rn_pos c \<in> {Draining, Aborting} \<Longrightarrow> rn_running c + rn_finished c = 0 \<Longrightarrow>
    run_step env idle_timeout c (c\<lparr>rn_pos := Returned\<rparr>)"
| drain_deadline: "rn_pos c = Draining \<Longrightarrow> rn_finished c = 0 \<Longrightarrow> 0 < rn_running c \<Longrightarrow>
    run_step env idle_timeout c (abort_all c)"
| task_abort: "rn_pos c = Aborting \<Longrightarrow> 0 < rn_running c \<Longrightarrow> run_step env idle_timeout c (task_aborted c)"
| accept: "rn_pos c = Waiting b \<Longrightarrow> run_step env idle_timeout c (on_accept c)"
| accept_failed: "rn_pos c = Waiting b \<Longrightarrow> run_step env idle_timeout c (on_accept_failed c)"
| joined: "rn_pos c = Waiting b \<Longrightarrow> 0 < rn_finished c \<Longrightarrow> 0 < idle_timeout \<Longrightarrow>
    run_step env idle_timeout c (on_joined env idle_timeout c)"
| tick: "rn_pos c = Waiting b \<Longrightarrow> 0 < idle_timeout \<Longrightarrow>
    run_step env idle_timeout c (on_tick env idle_timeout c)"
| work: "0 < rn_running c \<Longrightarrow> run_step env idle_timeout c
    (c\<lparr>rn_server := snd (snd (dispatch env kind cid payload o1 (rn_server c)))\<rparr>)"
| task_end: "0 < rn_running c \<Longrightarrow> run_step env idle_timeout c (task_ended c)"
| signal: "run_step env idle_timeout c (on_signal c)"
| time: "run_step env idle_timeout c (c\<lparr>rn_now := rn_now c + d\<rparr>)"

inductive_cases run_stepE: "run_step env idle_timeout c c'"

section \<open>Laws\<close>

lemmas run_defs = on_accept_def on_accept_failed_def on_joined_def on_tick_def reap_finished_def
  drain_tasks_def drain_joined_def abort_all_def task_ended_def task_aborted_def on_signal_def begin_draining_def draining_def active_subs_def Let_def

lemma check_interval_bounds: "10 ^ 9 \<le> check_interval d" "check_interval d \<le> 30 * 10 ^ 9"
  by (auto simp: check_interval_def)

lemma dispatch_keeps_shutdown:
  "ss_shutdown (snd (snd (dispatch env kind cid payload o1 st))) = ss_shutdown st"
proof -
  obtain r o2 st2 where d: "dispatch env kind cid payload o1 st = (r, o2, st2)" by (metis prod_cases3)
  obtain r' where i: "dispatch_inner env kind cid payload o1 st = (r', o2, st2)"
    using dispatch_cases [OF d] by metis
  have "ss_shutdown st2 = ss_shutdown st"
  proof (cases "answered kind")
    case True
    from dispatch_inner_answered [OF True, of cid o1 st env payload] i show ?thesis
      by (simp add: handled_ok_def)
  qed (use dispatch_inner_silent(2) [OF _ i] in blast)
  with d show ?thesis by simp
qed

text \<open>The flag is set by a signal, or by the loop itself when nobody uses the worker.\<close>

lemma drain_cause:
  assumes "run_step env idle_timeout c c'" and "\<not> draining c" and "draining c'"
  shows "c' = on_signal c
    \<or> 0 < idle_timeout \<and> rn_running c' + rn_finished c' = 0 \<and> active_subs env idle_timeout c' = 0
      \<and> (ss_expedited (rn_server c) \<or> idle_timeout \<le> rn_now c - rn_last_active c)"
  using assms
  by (elim run_stepE)
    (auto simp: run_defs upd_metrics_def dispatch_keeps_shutdown is_draining_def start_draining_def
      split: if_splits)

lemma draining_stays: "run_step env idle_timeout c c' \<Longrightarrow> draining c \<Longrightarrow> draining c'"
  by (elim run_stepE)
    (auto simp: run_defs upd_metrics_def dispatch_keeps_shutdown is_draining_def start_draining_def)

definition run_inv :: "'s run_state \<Rightarrow> bool" where
  "run_inv c \<longleftrightarrow>
     (rn_pos c = Returned \<longrightarrow> draining c \<and> rn_running c = 0 \<and> rn_finished c = 0)
     \<and> (rn_pos c \<in> {Waiting True, Draining, Aborting} \<longrightarrow> draining c)
     \<and> rn_last_active c \<le> rn_now c"

lemma run_step_inv: "run_step env idle_timeout c c' \<Longrightarrow> run_inv c \<Longrightarrow> run_inv c'"
  by (elim run_stepE)
    (auto simp: run_inv_def run_defs upd_metrics_def dispatch_keeps_shutdown is_draining_def
      start_draining_def split: run_pos.splits if_splits)

lemma run_reachable_inv:
  assumes "(run_step env idle_timeout)\<^sup>*\<^sup>* (run_start now st) c"
  shows "run_inv c"
  using assms
proof (induction rule: rtranclp_induct)
  case base
  show ?case by (simp add: run_inv_def run_start_def)
qed (rule run_step_inv)

text \<open>Draining ends: whatever tasks there are, the loop can return, and then no task is left.\<close>

lemma run_first:
  assumes "run_step env idle_timeout c d" and "\<exists>c'. (run_step env idle_timeout)\<^sup>*\<^sup>* d c' \<and> P c'"
  shows "\<exists>c'. (run_step env idle_timeout)\<^sup>*\<^sup>* c c' \<and> P c'"
  using assms by (blast intro: converse_rtranclp_into_rtranclp)

lemma abort_returns:
  assumes "rn_pos c = Aborting"
  shows "\<exists>c'. (run_step env idle_timeout)\<^sup>*\<^sup>* c c' \<and> rn_pos c' = Returned
    \<and> rn_aborted c' = rn_aborted c + rn_running c"
  using assms
proof (induction "2 * rn_running c + rn_finished c" arbitrary: c rule: less_induct)
  case less
  consider "0 < rn_running c" | "rn_running c = 0" "0 < rn_finished c" | "rn_running c + rn_finished c = 0"
    by linarith
  then show ?case
  proof cases
    case 1
    with less.prems have "run_step env idle_timeout c (task_aborted c)" by (intro run_step.task_abort)
    then show ?thesis by (rule run_first) (use less.hyps [of "task_aborted c"] less.prems 1 in
      \<open>simp add: task_aborted_def task_ended_def\<close>)
  next
    case 2
    with less.prems have "run_step env idle_timeout c (drain_joined c)" by (intro run_step.drain_join) simp_all
    then show ?thesis by (rule run_first) (use less.hyps [of "drain_joined c"] less.prems 2 in
      \<open>simp add: drain_joined_def\<close>)
  next
    case 3
    with less.prems have "run_step env idle_timeout c (c\<lparr>rn_pos := Returned\<rparr>)" by (intro run_step.drain_done) simp_all
    with 3 show ?thesis by (intro exI [of _ "c\<lparr>rn_pos := Returned\<rparr>"]) auto
  qed
qed

lemma drain_returns:
  assumes "rn_pos c = Draining"
  shows "\<exists>c'. (run_step env idle_timeout)\<^sup>*\<^sup>* c c' \<and> rn_pos c' = Returned
    \<and> rn_aborted c' = rn_aborted c + rn_running c"
  using assms
proof (induction "rn_finished c" arbitrary: c)
  case 0
  show ?case
  proof (cases "rn_running c")
    case 0
    with \<open>0 = rn_finished c\<close> \<open>rn_pos c = Draining\<close> have "run_step env idle_timeout c (c\<lparr>rn_pos := Returned\<rparr>)"
      by (intro run_step.drain_done) simp_all
    with 0 show ?thesis by (intro exI [of _ "c\<lparr>rn_pos := Returned\<rparr>"]) auto
  next
    case (Suc k)
    with 0 have "run_step env idle_timeout c (abort_all c)" by (intro run_step.drain_deadline) simp_all
    then show ?thesis by (rule run_first) (use abort_returns [of "abort_all c" env idle_timeout] in
      \<open>simp add: abort_all_def\<close>)
  qed
next
  case (Suc k)
  then have "run_step env idle_timeout c (drain_joined c)" by (intro run_step.drain_join) simp_all
  then show ?case by (rule run_first) (use Suc.hyps(1) [of "drain_joined c"] Suc.hyps(2) Suc.prems in
    \<open>simp add: drain_joined_def\<close>)
qed

section \<open>Properties\<close>

text \<open>
  C13: The worker starts to drain only on a signal, or by itself when the idle exit is enabled, no
  connection is open, no subscription was polled within the idle timeout, and either a client
  has said goodbye or the idle timeout has passed since the last activity. The accept loop
  returns only when it is draining and every connection has ended.
\<close>
theorem exit_only_when_unused:
  assumes "(run_step env idle_timeout)\<^sup>*\<^sup>* (run_start now st) c" and "run_step env idle_timeout c c'"
  shows "(\<not> draining c \<and> draining c' \<longrightarrow>
      c' = on_signal c
      \<or> 0 < idle_timeout \<and> rn_running c' + rn_finished c' = 0 \<and> active_subs env idle_timeout c' = 0
        \<and> (ss_expedited (rn_server c) \<or> idle_timeout \<le> rn_now c - rn_last_active c))
    \<and> (rn_pos c' = Returned \<longrightarrow> draining c' \<and> rn_running c' + rn_finished c' = 0)"
  using drain_cause [OF assms(2)] run_step_inv [OF assms(2) run_reachable_inv [OF assms(1)]]
  by (auto simp: run_inv_def)

theorem exit_only_when_unused_witness:
  "rn_pos (drain_tasks (on_signal (run_start 0 demo_state))) = Returned
   \<and> draining (drain_tasks (on_signal (run_start 0 demo_state)))"
proof -
  let ?c = "on_signal (run_start 0 demo_state)"
  have "run_step demo_env 1000 (run_start 0 demo_state) ?c" by (rule run_step.signal)
  then have reach: "(run_step demo_env 1000)\<^sup>*\<^sup>* (run_start 0 demo_state) ?c" by simp
  have "run_step demo_env 1000 ?c (drain_tasks ?c)"
    by (rule run_step.check_drained) (simp_all add: run_defs run_start_def is_draining_def start_draining_def)
  from exit_only_when_unused [OF reach this] show ?thesis by (simp add: run_defs run_start_def)
qed

text \<open>
  C29: A worker with the Kafka consumer that has no connection, and whose subscriptions have all
  not been polled for longer than the idle timeout, exits at the next tick after the idle
  timeout, at most 30 seconds later: subscriptions whose owner died do not keep it alive.
\<close>
theorem orphaned_worker_exits:
  assumes "rn_pos c = Waiting b" and "0 < idle_timeout" and "rn_running c = 0"
    and "idle_timeout \<le> rn_now c - rn_last_active c"
    and "kc = kb_consumer (ss_backend (rn_server c))"
    and "\<forall>(sub, e) \<in> set (kn_subs kc). idle_timeout div 10 ^ 6 < kn_now kc - sb_last_active_ms (sn_state e)"
  shows "\<exists>c'. run_step (kafka_env rp rc panic) idle_timeout c (on_tick (kafka_env rp rc panic) idle_timeout c)
    \<and> run_step (kafka_env rp rc panic) idle_timeout (on_tick (kafka_env rp rc panic) idle_timeout c) c'
    \<and> rn_pos c' = Returned \<and> rn_aborted c' = rn_aborted c
    \<and> check_interval idle_timeout \<le> 30 * 10 ^ 9"
proof -
  let ?env = "kafka_env rp rc panic"
  let ?c1 = "(reap_finished c)\<lparr>rn_pos := AtHead\<rparr>"
  have "kafka_active_subscriptions (idle_timeout div 10 ^ 6) kc = 0"
    using assms(6) by (auto simp: kafka_active_subscriptions_def filter_empty_conv)
  then have "active_subs ?env idle_timeout ?c1 = 0"
    using assms(5) by (simp add: active_subs_def kafka_env_def build_consumer_def reap_finished_def)
  then have tick: "on_tick ?env idle_timeout c = begin_draining ?c1"
    using assms(3,4) by (simp add: on_tick_def Let_def reap_finished_def)
  have "rn_pos (begin_draining ?c1) = AtHead" "draining (begin_draining ?c1)"
    by (simp_all add: begin_draining_def draining_def is_draining_def start_draining_def)
  then have "run_step ?env idle_timeout (begin_draining ?c1) (drain_tasks (begin_draining ?c1))"
    by (rule run_step.check_drained)
  moreover have "rn_pos (drain_tasks (begin_draining ?c1)) = Returned"
    "rn_aborted (drain_tasks (begin_draining ?c1)) = rn_aborted c"
    using assms(3) by (simp_all add: drain_tasks_def begin_draining_def reap_finished_def)
  ultimately show ?thesis
    using run_step.tick [OF assms(1,2)] check_interval_bounds(2) [of idle_timeout] tick by metis
qed

definition demo_idle :: "(nat, nat, partition_spec set, unit) kafka_backend run_state" where
  "demo_idle = (run_start 0 demo_kafka_state)\<lparr>rn_pos := Waiting False, rn_now := 10 ^ 9, rn_server :=
     demo_kafka_state\<lparr>ss_backend := demo_backend\<lparr>kb_consumer := demo_waiting\<lparr>kn_now := 5000\<rparr>\<rparr>\<rparr>\<rparr>"

theorem orphaned_worker_exits_witness:
  "\<exists>c'. run_step (kafka_env demo_rp demo_rc PanicAny) (10 ^ 9)
      (on_tick (kafka_env demo_rp demo_rc PanicAny) (10 ^ 9) demo_idle) c' \<and> rn_pos c' = Returned"
proof -
  have "\<forall>(sub, e) \<in> set (kn_subs (kb_consumer (ss_backend (rn_server demo_idle)))).
      10 ^ 9 div 10 ^ 6 < kn_now (kb_consumer (ss_backend (rn_server demo_idle))) - sb_last_active_ms (sn_state e)"
    by (simp add: demo_idle_def run_start_def demo_kafka_state_def demo_backend_def demo_waiting_def sub_new_def)
  from orphaned_worker_exits [where c = demo_idle and b = False and idle_timeout = "10 ^ 9"
      and rp = demo_rp and rc = demo_rc and panic = PanicAny, OF _ _ _ _ refl this]
  show ?thesis by (auto simp: demo_idle_def run_start_def)
qed

definition missed_state :: "'s server_state \<Rightarrow> 's run_state" where
  "missed_state st =
     (run_start 0 st)\<lparr>rn_pos := Waiting False, rn_server := st\<lparr>ss_shutdown := start_draining (ss_shutdown st)\<rparr>\<rparr>"

text \<open>
  A signal that arrives after the loop has checked the draining flag and before it has
  registered for the notification is missed: with the idle exit disabled and no connection
  open, the loop then waits although the worker is draining, and only a new connection, a
  failed accept or a further call of \<open>start_draining\<close> gets it on.
\<close>
lemma drain_signal_can_be_missed:
  assumes "\<not> is_draining (ss_shutdown st)"
  shows "(run_step env 0)\<^sup>*\<^sup>* (run_start 0 st) (missed_state st)
    \<and> draining (missed_state st)
    \<and> (\<forall>c'. run_step env 0 (missed_state st) c' \<longrightarrow>
         c' = on_accept (missed_state st) \<or> c' = on_accept_failed (missed_state st)
         \<or> c' = on_signal (missed_state st) \<or> (\<exists>d. c' = (missed_state st)\<lparr>rn_now := d\<rparr>))"
proof -
  let ?c0 = "run_start 0 st"
  let ?c1 = "?c0\<lparr>rn_pos := Checked\<rparr>"
  have "run_step env 0 ?c0 ?c1"
    using assms by (intro run_step.check) (simp_all add: run_start_def draining_def)
  moreover have "run_step env 0 ?c1 (on_signal ?c1)" by (rule run_step.signal)
  moreover have "run_step env 0 (on_signal ?c1) ((on_signal ?c1)\<lparr>rn_pos := Waiting False\<rparr>)"
    by (rule run_step.wait) (simp add: on_signal_def)
  moreover have "(on_signal ?c1)\<lparr>rn_pos := Waiting False\<rparr> = missed_state st"
    by (simp add: on_signal_def begin_draining_def missed_state_def run_start_def)
  ultimately have "(run_step env 0)\<^sup>*\<^sup>* ?c0 (missed_state st)"
    by (metis converse_rtranclp_into_rtranclp rtranclp.rtrancl_refl)
  moreover have "draining (missed_state st)"
    by (simp add: draining_def missed_state_def is_draining_def start_draining_def)
  moreover have "c' = on_accept (missed_state st) \<or> c' = on_accept_failed (missed_state st)
         \<or> c' = on_signal (missed_state st) \<or> (\<exists>d. c' = (missed_state st)\<lparr>rn_now := d\<rparr>)"
    if "run_step env 0 (missed_state st) c'" for c'
    using that by (elim run_stepE) (auto simp: missed_state_def run_start_def)
  ultimately show ?thesis by blast
qed

end
