(* ===== verification/Ext_Worker.thy ===== *)
theory Ext_Worker
  imports Ext_Spawn Server_Run Kafka_Backend
begin

text \<open>
  \<open>run_server\<close> of \<open>ext/src/worker_entry.rs\<close>, and the part of \<open>main\<close> of \<open>worker/src/main.rs\<close> that does the
  same: the state in which the worker that the extension forked starts to accept connections,
  and what it does after its accept loop returned. What the child does before (a session of its
  own, standard streams, signal handlers) is in theory Ext_Child. Times are nanoseconds.
\<close>

section \<open>Starting\<close>

definition pid_file_for :: "string \<Rightarrow> string" where
  "pid_file_for socket = socket @ ''.pid''"

definition startup_registry :: "string option \<Rightarrow> cluster_registry" where
  "startup_registry brokers =
     (case brokers of
        None \<Rightarrow> registry_new
      | Some b \<Rightarrow> snd (register ''default'' [(''bootstrap.servers'', b)] registry_new))"

definition startup_state :: "string option \<Rightarrow> 's \<Rightarrow> 's server_state" where
  "startup_state brokers backend =
     \<lparr>ss_registry = startup_registry brokers, ss_backend = backend, ss_shutdown = shutdown_new,
      ss_metrics = metrics_new, ss_expedited = False\<rparr>"

definition embedded_idle_timeout :: "env_vars \<Rightarrow> nat" where
  "embedded_idle_timeout env =
     (case Option.bind (env ''HI_KAFKA_IDLE_TIMEOUT_MS'') parse_u64 of
        Some ms \<Rightarrow> ms * 10 ^ 6
      | None \<Rightarrow> 300 * 10 ^ 9)"

text \<open>
  The calls on files, signals and the listening socket are a parameter. An error gets the context
  that the code adds; writing the pid file may fail without consequences.
\<close>

record 'w os_files =
  fs_exists :: "string \<Rightarrow> 'w \<Rightarrow> bool"
  fs_remove :: "string \<Rightarrow> 'w \<Rightarrow> (io_kind + unit) \<times> 'w"
  fs_create_parent :: "string \<Rightarrow> 'w \<Rightarrow> (io_kind + unit) \<times> 'w"
  fs_bind :: "string \<Rightarrow> 'w \<Rightarrow> (io_kind + unit) \<times> 'w"
  fs_write_pid :: "string \<Rightarrow> 'w \<Rightarrow> (io_kind + unit) \<times> 'w"
  fs_signals :: "'w \<Rightarrow> (io_kind + unit) \<times> 'w"
  fs_io_text :: "io_kind \<Rightarrow> string"

definition bind_with :: "'w os_files \<Rightarrow> string \<Rightarrow> ('w, anyhow, unit) act" where
  "bind_with fs socket w =
     (let failed = (\<lambda>ctx e. [CMsg ctx, CMsg (fs_io_text fs e)]) in
      bind_act
        (if fs_exists fs socket w then io_act (fs_remove fs socket) (failed ''remove stale socket'')
         else pure_act (Ok ())) (\<lambda>_.
      bind_act (io_act (fs_create_parent fs socket) (failed ''create socket parent dir'')) (\<lambda>_.
      io_act (fs_bind fs socket) (failed ''bind unix listener''))) w)"

text \<open>The idle timeout and the accept loop at its start, for a back end that was just built.\<close>

definition run_server ::
  "'w os_files \<Rightarrow> env_vars \<Rightarrow> child_config \<Rightarrow> 's \<Rightarrow> nat \<Rightarrow> ('w, anyhow, nat \<times> 's run_state) act" where
  "run_server fs env cfg backend now w =
     bind_act (io_act (fs_signals fs) (\<lambda>e. [CMsg (fs_io_text fs e)])) (\<lambda>_.
     bind_act (bind_with fs (cf_socket cfg)) (\<lambda>_.
     pure_act (Ok (embedded_idle_timeout env, run_start now (startup_state (cf_brokers cfg) backend)))))
       (snd (fs_write_pid fs (pid_file_for (cf_socket cfg)) w))"

text \<open>After the accept loop: the producer is flushed, and the files are removed even if that failed.\<close>

definition stop_server ::
  "('m, 's) server_env \<Rightarrow> child_config \<Rightarrow> 's run_state \<Rightarrow> string set \<Rightarrow> 's run_state \<times> string set" where
  "stop_server env cfg c files =
     (case po_flush (sv_producer env) (cf_drain_timeout cfg) (ss_backend (rn_server c)) of
        (r, b) \<Rightarrow>
          (c\<lparr>rn_server := (rn_server c)\<lparr>ss_backend := b\<rparr>\<rparr>,
           if r = Panic then files else files - {cf_socket cfg, pid_file_for (cf_socket cfg)}))"

section \<open>Laws\<close>

lemma startup_registry_inv: "registry_inv (startup_registry brokers)"
  by (simp add: startup_registry_def registry_new_inv register_inv split: option.split)

lemma startup_default_cluster:
  "registry_get (startup_registry brokers) name =
     (case brokers of
        Some b \<Rightarrow> if name = ''default'' then Some [(''bootstrap.servers'', b)] else None
      | None \<Rightarrow> None)"
  by (simp add: startup_registry_def registry_get_def register_def registry_new_def Let_def split: option.split)

text \<open>
  A worker is never left running without an end by accident: the idle exit is switched off only
  by an explicit zero; a value that cannot be parsed means five minutes.
\<close>

lemma idle_exit_disabled_iff:
  "embedded_idle_timeout env = 0 \<longleftrightarrow> Option.bind (env ''HI_KAFKA_IDLE_TIMEOUT_MS'') parse_u64 = Some 0"
  by (simp add: embedded_idle_timeout_def split: option.split)

lemma run_server_start:
  assumes "run_server fs env cfg backend now w = (Ok (idle, c), w')"
  shows "\<not> draining c" and "registry_inv (ss_registry (rn_server c))" and "idle = embedded_idle_timeout env"
    and "rn_server c = startup_state (cf_brokers cfg) backend"
  using assms
  by (auto simp: run_server_def bind_act_Ok_iff pure_act_def run_start_def startup_state_def draining_def is_draining_def
      shutdown_new_def startup_registry_inv)

text \<open>
  A socket file that is there is removed before binding, whether or not a worker still listens on
  it; when the removal fails the worker does not start.
\<close>

lemma bind_with_stale:
  assumes "fs_exists fs socket w" and "fs_remove fs socket w = (Inl e, w')"
  shows "bind_with fs socket w = (Err [CMsg ''remove stale socket'', CMsg (fs_io_text fs e)], w')"
  using assms by (simp add: bind_with_def Let_def bind_act_def io_act_def)

end
