(* ===== verification/Ext_Child.thy ===== *)
theory Ext_Child
  imports Ext_Worker
begin

text \<open>
  \<open>run_in_child\<close> and \<open>redirect_stdio\<close> of \<open>ext/src/worker_entry.rs\<close>: what the forked child does with the
  session, the standard streams and the signal handlers that it inherited from PHP, and with which
  code it exits. Descriptors are modelled as the kernel has them: a table of each process from
  numbers to open files, \<open>open\<close> uses the lowest free number, \<open>dup2\<close> replaces, \<open>close\<close> removes.
\<close>

section \<open>Descriptors\<close>

type_synonym 'f fd_table = "(nat \<times> 'f) list"

definition lowest_free :: "'f fd_table \<Rightarrow> nat" where
  "lowest_free t = hd (filter (\<lambda>n. map_of t n = None) [0..<Suc (length t)])"

definition fd_open :: "'f \<Rightarrow> 'f fd_table \<Rightarrow> nat \<times> 'f fd_table" where
  "fd_open f t = (lowest_free t, AList.update (lowest_free t) f t)"

definition fd_dup2 :: "nat \<Rightarrow> nat \<Rightarrow> 'f fd_table \<Rightarrow> 'f fd_table" where
  "fd_dup2 a b t = (case map_of t a of Some f \<Rightarrow> AList.update b f t | None \<Rightarrow> t)"

definition fd_close :: "nat \<Rightarrow> 'f fd_table \<Rightarrow> 'f fd_table" where
  "fd_close n t = AList.delete n t"

lemma lowest_free_exists: "\<exists>n \<le> length t. map_of t n = None"
proof (rule ccontr)
  assume "\<not> ?thesis"
  then have "{..length t} \<subseteq> fst ` set t" by (force simp: map_of_eq_None_iff)
  then have "card {..length t} \<le> card (fst ` set t)" by (rule card_mono [rotated]) simp
  also have "\<dots> \<le> length t" by (metis card_image_le card_length finite_set order_trans)
  finally show False by simp
qed

lemma lowest_free:
  shows "map_of t (lowest_free t) = None" and "m < lowest_free t \<Longrightarrow> map_of t m \<noteq> None"
proof -
  let ?free = "filter (\<lambda>n. map_of t n = None) [0..<Suc (length t)]"
  have set: "set ?free = {n. n \<le> length t \<and> map_of t n = None}" by (auto simp del: upt_Suc)
  then have "set ?free \<noteq> {}" using lowest_free_exists [of t] by auto
  then obtain n ns where f: "?free = n # ns" by (metis list.set(1) neq_Nil_conv)
  then have n: "lowest_free t = n" by (simp add: lowest_free_def)
  have mem: "n \<in> set ?free" by (simp add: f del: upt_Suc)
  with set n show "map_of t (lowest_free t) = None" by simp
  show "map_of t m \<noteq> None" if "m < lowest_free t"
  proof
    assume "map_of t m = None"
    with that n mem set have "m \<in> set ?free" by (auto simp del: upt_Suc)
    moreover have "sorted ?free" by (metis sorted_filter [of id] list.map_id sorted_upt)
    ultimately show False using that n unfolding f by auto
  qed
qed

lemma map_of_fd [simp]:
  "map_of (snd (fd_open f t)) = (map_of t)(lowest_free t \<mapsto> f)"
  "map_of (fd_close n t) = (map_of t)(n := None)"
  by (simp_all add: fd_open_def fd_close_def update_conv' delete_conv')

lemma map_of_dup2 [simp]:
  "map_of (fd_dup2 a b t) = (case map_of t a of Some f \<Rightarrow> (map_of t)(b \<mapsto> f) | None \<Rightarrow> map_of t)"
  by (simp add: fd_dup2_def update_conv' split: option.split)

lemma fst_fd_open [simp]: "fst (fd_open f t) = lowest_free t"
  by (simp add: fd_open_def)

section \<open>The standard streams\<close>

text \<open>
  \<open>null\<close> and \<open>open_log\<close> are the results of opening \<open>/dev/null\<close> and the log file. Both descriptors are dropped
  at the end, whatever their numbers.
\<close>

definition redirect_stdio ::
  "'f option \<Rightarrow> (string \<Rightarrow> 'f option) \<Rightarrow> string option \<Rightarrow> 'f fd_table \<Rightarrow> 'f fd_table" where
  "redirect_stdio null open_log path t =
     (case null of
        None \<Rightarrow> t
      | Some nf \<Rightarrow>
          (let (dev_null, t1) = fd_open nf t;
               t2 = fd_dup2 dev_null 0 t1;
               (out_fd, t3) =
                 (case Option.bind path open_log of
                    Some lf \<Rightarrow> (case fd_open lf t2 of (n, t') \<Rightarrow> (Some n, t'))
                  | None \<Rightarrow> (None, t2));
               target_fd = (case out_fd of Some n \<Rightarrow> n | None \<Rightarrow> dev_null);
               t4 = fd_dup2 target_fd 2 (fd_dup2 target_fd 1 t3);
               t5 = fd_close dev_null t4 in
           case out_fd of Some n \<Rightarrow> fd_close n t5 | None \<Rightarrow> t5))"

definition std_open :: "'f fd_table \<Rightarrow> bool" where
  "std_open t \<longleftrightarrow> list_all (\<lambda>n. map_of t n \<noteq> None) [0, 1, 2]"

lemma lowest_free_std: "std_open t \<Longrightarrow> 3 \<le> lowest_free t"
proof (rule ccontr)
  assume std: "std_open t" and "\<not> 3 \<le> lowest_free t"
  then have "lowest_free t = 0 \<or> lowest_free t = 1 \<or> lowest_free t = 2" by linarith
  with std lowest_free(1) [of t] show False by (auto simp: std_open_def)
qed

lemma redirect_stdio_eq:
  assumes "std_open t"
  shows "map_of (redirect_stdio (Some nf) open_log path t) =
    (let out = (case Option.bind path open_log of Some lf \<Rightarrow> lf | None \<Rightarrow> nf) in
     (map_of t)(0 \<mapsto> nf, 1 \<mapsto> out, 2 \<mapsto> out))"
proof -
  let ?d = "lowest_free t"
  let ?t2 = "fd_dup2 ?d 0 (snd (fd_open nf t))"
  have d: "3 \<le> ?d" "map_of t ?d = None" using lowest_free_std [OF assms] lowest_free(1) by auto
  have t2: "map_of ?t2 = (map_of t)(?d \<mapsto> nf, 0 \<mapsto> nf)" by simp
  have std2: "std_open ?t2" using assms unfolding std_open_def t2 by auto
  let ?l = "lowest_free ?t2"
  have l: "3 \<le> ?l" "map_of ?t2 ?l = None" using lowest_free_std [OF std2] lowest_free(1) by blast+
  then have l': "?l \<noteq> ?d" "map_of t ?l = None" unfolding t2 by (auto split: if_splits)
  show ?thesis
  proof (cases "Option.bind path open_log")
    case None
    with d show ?thesis
      by (auto simp: redirect_stdio_def Let_def case_prod_beta fun_eq_iff)
  next
    case (Some lf)
    then have "map_of (redirect_stdio (Some nf) open_log path t) =
        (map_of ?t2)(?l \<mapsto> lf, 1 \<mapsto> lf, 2 \<mapsto> lf, ?d := None, ?l := None)"
      using l(1) by (simp add: redirect_stdio_def Let_def case_prod_beta del: map_of_dup2)
        (simp add: fd_dup2_def update_conv' fun_upd_twist)
    with Some d l l' t2 show ?thesis by (auto simp: fun_eq_iff)
  qed
qed

section \<open>The child\<close>

datatype posix_signal = SIGTERM | SIGINT | SIGHUP | SIGPIPE | OtherSignal nat

datatype sig_action = SIG_DFL | SIG_IGN | Handler nat

text \<open>
  A process as \<open>run_in_child\<close> changes it: whether it leads a session of its own, its name, its
  descriptors and signal actions.
\<close>

record 'f child_proc =
  cp_session_leader :: bool
  cp_name :: string
  cp_fds :: "'f fd_table"
  cp_signals :: "posix_signal \<Rightarrow> sig_action"

definition child_setup ::
  "'f option \<Rightarrow> (string \<Rightarrow> 'f option) \<Rightarrow> child_config \<Rightarrow> 'f child_proc \<Rightarrow> 'f child_proc" where
  "child_setup null open_log cfg p =
     p\<lparr>cp_session_leader := True, cp_name := ''hi-kafka-worker'',
       cp_fds := redirect_stdio null open_log (cf_log_file cfg) (cp_fds p),
       cp_signals := fold (\<lambda>s h. h(s := SIG_DFL)) [SIGTERM, SIGINT, SIGHUP, SIGPIPE] (cp_signals p)\<rparr>"

text \<open>
  The rest of \<open>run_in_child\<close>, which never returns: with which code the child exits. \<open>runtime\<close> tells whether
  the runtime could be built.
\<close>

inductive child_exit ::
  "'w os_files \<Rightarrow> env_vars \<Rightarrow> ('m, 's) server_env \<Rightarrow> child_config \<Rightarrow> 's \<Rightarrow> bool \<Rightarrow> nat \<Rightarrow> 'w \<Rightarrow> nat \<Rightarrow> bool"
  for fs env sv cfg backend runtime now w where
  no_runtime: "\<not> runtime \<Longrightarrow> child_exit fs env sv cfg backend runtime now w 1"
| start_failed: "runtime \<Longrightarrow> run_server fs env cfg backend now w = (Err e, w') \<Longrightarrow>
    child_exit fs env sv cfg backend runtime now w 1"
| stopped: "runtime \<Longrightarrow> run_server fs env cfg backend now w = (Ok (idle, c0), w') \<Longrightarrow>
    (run_step sv idle)\<^sup>*\<^sup>* c0 c \<Longrightarrow> rn_pos c = Returned \<Longrightarrow>
    fst (po_flush (sv_producer sv) (cf_drain_timeout cfg) (ss_backend (rn_server c))) \<noteq> Panic \<Longrightarrow>
    child_exit fs env sv cfg backend runtime now w 0"

inductive_cases child_exitE: "child_exit fs env sv cfg backend runtime now w code"

lemma child_signals:
  "cp_signals (child_setup null open_log cfg p) =
     (\<lambda>s. case s of OtherSignal n \<Rightarrow> cp_signals p (OtherSignal n) | _ \<Rightarrow> SIG_DFL)"
  by (auto simp: child_setup_def fun_eq_iff split: posix_signal.split)

text \<open>
  A descriptor number that PHP had closed is not repaired: \<open>/dev/null\<close> is opened at that very
  number, and closed again at the end.
\<close>

lemma closed_stdin_stays_closed:
  assumes "map_of t 0 = None" and "path = None"
  shows "map_of (redirect_stdio (Some nf) open_log path t) 0 = None"
proof -
  have "lowest_free t = 0" using lowest_free(2) [of 0 t] assms(1) by (cases "lowest_free t") auto
  with assms(2) show ?thesis by (simp add: redirect_stdio_def Let_def case_prod_beta)
qed

text \<open>
  A worker that exits with code 0 has started and drained: no connection was left when its
  accept loop returned.
\<close>

lemma child_exit_0:
  assumes "child_exit fs env sv cfg backend runtime now w 0"
  obtains idle c0 c w' where "run_server fs env cfg backend now w = (Ok (idle, c0), w')"
    and "(run_step sv idle)\<^sup>*\<^sup>* c0 c" and "draining c" and "rn_running c = 0" and "rn_finished c = 0"
  using assms
proof (cases rule: child_exit.cases)
  case (stopped idle c0 w' c)
  have "c0 = run_start now (startup_state (cf_brokers cfg) backend)"
    using stopped(2) by (auto simp: run_server_def bind_act_Ok_iff pure_act_def)
  with stopped(3) have "run_inv c" using run_reachable_inv by metis
  with stopped(4) have "draining c" "rn_running c = 0" "rn_finished c = 0" by (simp_all add: run_inv_def)
  with stopped(2,3) that show ?thesis by blast
qed (metis zero_neq_one)+

section \<open>The streams of the child\<close>

text \<open>
  The child is detached from PHP: with standard streams that are open, afterwards standard
  input is the null device, standard output and error are the log file, or the null device
  when there is none or it cannot be opened, and every other descriptor, among them the one of
  the spawn lock, is exactly what the parent had; the descriptors used on the way are closed.
\<close>
lemma child_streams_detached:
  assumes "std_open (cp_fds p)"
  shows "map_of (cp_fds (child_setup (Some nf) open_log cfg p)) =
    (let out = (case Option.bind (cf_log_file cfg) open_log of Some lf \<Rightarrow> lf | None \<Rightarrow> nf) in
     (map_of (cp_fds p))(0 \<mapsto> nf, 1 \<mapsto> out, 2 \<mapsto> out))"
  using redirect_stdio_eq [OF assms] by (simp add: child_setup_def)

definition demo_child :: "string child_proc" where
  "demo_child =
     \<lparr>cp_session_leader = False, cp_name = ''php'',
      cp_fds = [(0, ''tty''), (1, ''tty''), (2, ''tty''), (3, ''lock'')], cp_signals = (\<lambda>_. Handler 1)\<rparr>"

definition demo_child_config :: child_config where
  "demo_child_config =
     \<lparr>cf_socket = ''/tmp/hi-kafka.sock'', cf_brokers = None, cf_log_level = ''info'',
      cf_log_file = Some ''/tmp/w.log'', cf_drain_timeout = 10000, cf_metrics_addr = None\<rparr>"

lemma demo_child_detached:
  "map_of (cp_fds (child_setup (Some ''null'') Some demo_child_config demo_child)) =
     [0 \<mapsto> ''null'', 1 \<mapsto> ''/tmp/w.log'', 2 \<mapsto> ''/tmp/w.log'', 3 \<mapsto> ''lock'']"
proof -
  have "std_open (cp_fds demo_child)" by (simp add: std_open_def demo_child_def)
  from child_streams_detached [OF this, of "''null''" Some demo_child_config]
  show ?thesis by (simp add: demo_child_def demo_child_config_def Let_def fun_eq_iff)
qed

end
