(* ===== verification/Worker_Main.thy ===== *)
theory Worker_Main
  imports Ext_Child
begin

text \<open>
  \<open>main\<close> of \<open>worker/src/main.rs\<close>, the stand-alone worker, and \<open>serve\<close> of \<open>worker/src/metrics.rs\<close>, the endpoint that
  both kinds of worker start. The command line is parsed by a library and given as a record.
  Times are nanoseconds.
\<close>

section \<open>The metrics endpoint\<close>

text \<open>
  What the listener sees: a connection with the bytes of its request, and the time and the counters
  when it is answered; a connection on which reading, or its time limit, or writing fails; a failure
  to accept.
\<close>

datatype accept_event = Request nat metrics bytes | RequestFailed | AcceptFailed io_kind

text \<open>The responses written so far, and the error with which the endpoint ended, if it did.\<close>

fun serve :: "string \<Rightarrow> accept_event list \<Rightarrow> string list \<times> io_kind option" where
  "serve pkg_ver [] = ([], None)"
| "serve pkg_ver (Request uptime m request # es) = apfst (Cons (metrics_response pkg_ver uptime m request)) (serve pkg_ver es)"
| "serve pkg_ver (RequestFailed # es) = serve pkg_ver es"
| "serve pkg_ver (AcceptFailed e # es) = ([], Some e)"

section \<open>The stand-alone worker\<close>

record cli =
  cli_socket :: string
  cli_log_level :: string
  cli_brokers :: "string option"
  cli_drain_timeout_ms :: nat
  cli_metrics_addr :: string
  cli_idle_timeout_ms :: nat

text \<open>The address at which the endpoint is started; one that cannot be parsed is skipped.\<close>

definition main_metrics :: "(string \<Rightarrow> string option) \<Rightarrow> cli \<Rightarrow> string option" where
  "main_metrics parse_addr cli = (if cli_metrics_addr cli = [] then None else parse_addr (cli_metrics_addr cli))"

text \<open>
  \<open>main\<close> up to the start of the accept loop. Signal handlers are installed first; \<open>which\<close> tells which
  of the two failed.
\<close>

definition worker_main ::
  "'w os_files \<Rightarrow> (io_kind \<Rightarrow> string) \<Rightarrow> cli \<Rightarrow> 's \<Rightarrow> nat \<Rightarrow> ('w, anyhow, nat \<times> 's run_state) act" where
  "worker_main fs which cli backend now =
     bind_act (io_act (fs_signals fs) (\<lambda>e. [CMsg (''install '' @ which e @ '' handler''), CMsg (fs_io_text fs e)])) (\<lambda>_.
     bind_act (\<lambda>w. apfst (with_context ''bind UDS'') (bind_with fs (cli_socket cli) w)) (\<lambda>_.
     pure_act (Ok (cli_idle_timeout_ms cli * 10 ^ 6, run_start now (startup_state (cli_brokers cli) backend)))))"

text \<open>After the accept loop: flush, then remove the socket file; there is no pid file.\<close>

definition stop_main ::
  "('m, 's) server_env \<Rightarrow> cli \<Rightarrow> 's run_state \<Rightarrow> string set \<Rightarrow> 's run_state \<times> string set" where
  "stop_main env cli c files =
     (case po_flush (sv_producer env) (cli_drain_timeout_ms cli) (ss_backend (rn_server c)) of
        (r, b) \<Rightarrow>
          (c\<lparr>rn_server := (rn_server c)\<lparr>ss_backend := b\<rparr>\<rparr>,
           if r = Panic then files else files - {cli_socket cli}))"

text \<open>\<open>Server::bind\<close>, the constructor with the dry-run back ends and no idle exit.\<close>

definition server_bind :: "'w os_files \<Rightarrow> string \<Rightarrow> nat \<Rightarrow> ('w, anyhow, nat \<times> logging_consumer_state run_state) act" where
  "server_bind fs socket now =
     bind_act (bind_with fs socket) (\<lambda>_. pure_act (Ok (0, run_start now (startup_state None logging_consumer_new))))"

section \<open>Laws\<close>

text \<open>A request that fails costs nothing but its answer; a failed accept ends the endpoint for good.\<close>

lemma serve_append:
  "serve pkg_ver (es @ fs) =
     (case serve pkg_ver es of
        (rs, None) \<Rightarrow> apfst ((@) rs) (serve pkg_ver fs)
      | (rs, Some e) \<Rightarrow> (rs, Some e))"
  by (induction pkg_ver es rule: serve.induct) (auto simp: apfst_def map_prod_def split: prod.splits option.splits)

lemma worker_main_start:
  assumes "worker_main fs which cli backend now w = (Ok (idle, c), w')"
  shows "c = run_start now (startup_state (cli_brokers cli) backend)" and "idle = cli_idle_timeout_ms cli * 10 ^ 6"
  using assms by (auto simp: worker_main_def bind_act_Ok_iff pure_act_def)

text \<open>
  Both kinds of worker start in the same state: with the same brokers and back end, a worker in the
  extension and a stand-alone worker accept connections in the same state.
\<close>

lemma workers_start_alike:
  assumes "run_server fs env cfg backend now w = (Ok (idle, c), w')"
    and "worker_main fs' which cli backend now v = (Ok (idle', c'), v')" and "cf_brokers cfg = cli_brokers cli"
  shows "c = c'"
  using assms worker_main_start [OF assms(2)]
  by (auto simp: run_server_def bind_act_Ok_iff pure_act_def)

text \<open>
  A worker of the extension that could not bind its socket leaves the pid file that it wrote
  before: no call after the failure removes it.
\<close>

lemma failed_bind_leaves_pid_file:
  assumes "fs_write_pid fs (pid_file_for (cf_socket cfg)) w = (r, w1)" and "fs_signals fs w1 = (Inr (), w2)"
    and "bind_with fs (cf_socket cfg) w2 = (Err e, w3)"
  shows "run_server fs env cfg backend now w = (Err e, w3)"
  using assms by (simp add: run_server_def bind_act_def io_act_def)

end
