(* ===== verification/Worker_Tests.thy ===== *)
theory Worker_Tests
  imports Worker_Main Server_Laws
begin

text \<open>
  The tests of the worker, \<open>worker/tests/*.rs\<close>, on the model: the same requests, byte for byte, through the
  modelled connection handler, and the same sequences of connections, goodbyes and pauses through the
  accept loop. What a test asserts is a lemma here.
\<close>

section \<open>The clients of the tests\<close>

definition test_frame :: "frame_type \<Rightarrow> u64 \<Rightarrow> writer \<Rightarrow> bytes" where
  "test_frame kind cid w = snd (encode_frame kind cid (fst w) [])"

definition test_handshake :: bytes where
  "test_handshake = test_frame FT_Hello 0 (hello_req_encode \<lparr>hq_major = PROTOCOL_MAJOR\<rparr>)"

text \<open>What \<open>handshake\<close> asserts of the bytes it reads.\<close>

definition handshake_ok :: "bytes \<Rightarrow> bool" where
  "handshake_ok resp \<longleftrightarrow>
     HEADER_LEN + 1 \<le> length resp \<and> resp ! 4 = frame_type_code FT_Hello \<and> resp ! HEADER_LEN = PROTOCOL_MAJOR"

definition test_out :: out_stream where
  "test_out = \<lparr>o_bytes = [], o_accept = None\<rparr>"

section \<open>A consumer that panics\<close>

text \<open>The methods that the test does not reach panic as well (\<open>unreachable!\<close>).\<close>

definition panic_consumer :: "(unit, unit) consumer_ops" where
  "panic_consumer =
     \<lparr>co_subscribe = (\<lambda>req reg s. (Panic, s)), co_poll = (\<lambda>sub mx t s. (Panic, s)), co_commit = (\<lambda>sub s. (Panic, s)),
      co_unsubscribe = (\<lambda>sub s. (Panic, s)), co_fetch_rebalance_events = default_fetch_rebalance_events,
      co_seek_by_offset = default_seek_by_offset, co_seek_by_timestamp = default_seek_by_timestamp,
      co_pause = default_pause_resume, co_resume = default_pause_resume, co_group_metadata = default_group_metadata,
      co_active_subscriptions = default_active_subscriptions\<rparr>"

definition panic_env :: "(unit, unit) server_env" where
  "panic_env = \<lparr>sv_producer = logging_producer, sv_consumer = panic_consumer, sv_panic = PanicAny\<rparr>"

definition panic_requests :: bytes where
  "panic_requests =
     test_handshake
       @ test_frame FT_SubscribeReq 42
           (subscribe_req_encode \<lparr>sr_cluster = ''default'', sr_group_id = ''g'', sr_topics = [''t''], sr_config = []\<rparr>)"

section \<open>Producing\<close>

definition fnf_message :: "string \<Rightarrow> string \<Rightarrow> string \<Rightarrow> produce_fnf" where
  "fnf_message topic key val =
     \<lparr>pf_cluster = ''default'', pf_topic = topic, pf_key = as_bytes key, pf_value = as_bytes val,
      pf_partition = AUTO_PARTITION, pf_timestamp_ms = AUTO_TIMESTAMP, pf_headers = []\<rparr>"

definition logging_env :: "(unit, logging_consumer_state) server_env" where
  "logging_env = \<lparr>sv_producer = logging_producer, sv_consumer = logging_consumer, sv_panic = PanicAny\<rparr>"

definition fnf_requests :: "(u64 \<times> produce_fnf) list \<Rightarrow> bytes" where
  "fnf_requests ms = test_handshake @ concat (map (\<lambda>(cid, m). test_frame FT_ProduceFnf cid (produce_fnf_encode m)) ms)"

definition burst :: "nat \<Rightarrow> (u64 \<times> produce_fnf) list" where
  "burst n = map (\<lambda>i. (of_nat i, fnf_message ''burst'' (''k-'' @ show_nat i) (''v-'' @ show_nat i))) [0..<n]"

section \<open>What the connection tests assert\<close>

lemma test_frame_bytes:
  assumes "w = (payload, Ok ())" and "length payload \<le> MAX_PAYLOAD_LEN"
  shows "test_frame kind cid w = frame_bytes (frame_new kind cid payload)"
  using encode_frame_fits [of "frame_new kind cid payload" "[]"] assms
  by (simp add: test_frame_def frame_fits_def frame_new_def)

lemma test_handshake_bytes: "test_handshake = frame_bytes (frame_new FT_Hello 0 [PROTOCOL_MAJOR])"
  unfolding test_handshake_def
  by (rule test_frame_bytes) (simp_all add: hello_req_encode_def wire_simps MAX_PAYLOAD_LEN_def)

text \<open>A client that greets gets the greeting back, and its further requests are served.\<close>

lemma test_handshake_run:
  "handle_connection env fin (test_handshake @ rest) False test_out st =
     handle_connection env fin rest True (test_out\<lparr>o_bytes := test_handshake\<rparr>) (upd_metrics inc_frames st)"
proof -
  have lim: "within_limit (frame_new FT_Hello 0 [PROTOCOL_MAJOR])"
    by (simp add: within_limit_def frame_new_def frame_limit_def)
  from handle_connection_frame [OF lim, of env fin rest False test_out st] show ?thesis
    unfolding test_handshake_bytes by (simp add: frame_new_def handshake_hello [unfolded frame_new_def] test_out_def)
qed

lemma handshake_asserts: "handshake_ok (test_handshake @ more1)"
  by (simp add: handshake_ok_def test_handshake_bytes frame_bytes_def frame_new_def HEADER_LEN_def nth_append)

lemma empty_input: "handle_connection env Eof [] True o1 st = (Ok (), o1, st)"
  by (simp add: handle_connection.simps [of env Eof "[]"] HEADER_LEN_def)

text \<open>
  \<open>test_dispatch_panic_closes_connection_not_worker\<close>: the connection whose request made the consumer panic
  ends with an error after the greeting, and the next connection is greeted.
\<close>

lemma test_dispatch_panic:
  "\<exists>e st. handle_connection panic_env Eof panic_requests False test_out (startup_state None ()) =
      (Err e, test_out\<lparr>o_bytes := test_handshake\<rparr>, st)
    \<and> handshake_ok test_handshake
    \<and> (\<exists>st'. handle_connection panic_env Eof test_handshake False test_out st = (Ok (), test_out\<lparr>o_bytes := test_handshake\<rparr>, st'))"
proof -
  let ?m = "\<lparr>sr_cluster = ''default'', sr_group_id = ''g'', sr_topics = [''t''], sr_config = []\<rparr>"
  have ok: "subscribe_req_ok ?m"
    by (simp add: subscribe_req_ok_def str16_ok_def list16_ok_def ascii_valid_str)
  have len: "length (subscribe_req_layout ?m) \<le> frame_limit FT_SubscribeReq"
    by (simp add: subscribe_req_layout_def lay_str16_def lay_list16_def frame_limit_def)
  then have "length (subscribe_req_layout ?m) \<le> MAX_PAYLOAD_LEN" using frame_limit_max le_trans by blast
  then have f: "test_frame FT_SubscribeReq 42 (subscribe_req_encode ?m) =
      frame_bytes (frame_new FT_SubscribeReq 42 (subscribe_req_layout ?m))"
    by (rule test_frame_bytes [OF subscribe_req.encode_layout [OF ok]])
  have "subscribe_req_decode (subscribe_req_layout ?m) = Ok ?m"
    using subscribe_req.read_layout [OF ok, of "[]"] by (simp add: subscribe_req_decode_def run_def)
  then have served: "\<exists>e st2. dispatch panic_env FT_SubscribeReq 42 (subscribe_req_layout ?m) o1 st = (Err e, o1, st2)" for o1 st
    by (simp add: dispatch_def dispatch_inner_def handle_subscribe_def panic_env_def panic_consumer_def Let_def)
  have lim: "within_limit (frame_new FT_SubscribeReq 42 (subscribe_req_layout ?m))"
    using len by (simp add: within_limit_def frame_new_def)
  have "\<exists>e st2. handle_connection panic_env Eof (test_frame FT_SubscribeReq 42 (subscribe_req_encode ?m) @ []) True o1 st
      = (Err e, o1, st2)" for o1 st
  proof -
    obtain e st2 where "dispatch panic_env FT_SubscribeReq 42 (subscribe_req_layout ?m) o1 (upd_metrics inc_frames st) =
        (Err e, o1, st2)"
      using served by blast
    then show ?thesis
      using handle_connection_frame [OF lim, of panic_env Eof "[]" True o1 st] unfolding f by (simp add: frame_new_def)
  qed
  then obtain e st2 where "handle_connection panic_env Eof panic_requests False test_out (startup_state None ()) =
      (Err e, test_out\<lparr>o_bytes := test_handshake\<rparr>, st2)"
    unfolding panic_requests_def test_handshake_run append_Nil2 by blast
  moreover have "\<exists>st'. handle_connection panic_env Eof test_handshake False test_out st2 =
      (Ok (), test_out\<lparr>o_bytes := test_handshake\<rparr>, st')"
    using test_handshake_run [of panic_env Eof "[]" st2] empty_input [of panic_env] by simp
  ultimately show ?thesis using handshake_asserts [of "[]"] by auto
qed

text \<open>
  \<open>test_produce_fnf_end_to_end\<close> and \<open>test_multiple_frames_on_same_connection\<close>: whatever messages are sent, as
  long as they fit, the producer gets all of them and the connection ends without error.
\<close>

definition fnf_fits :: "produce_fnf \<Rightarrow> bool" where
  "fnf_fits m \<longleftrightarrow> produce_fnf_ok m \<and> length (produce_fnf_layout m) \<le> frame_limit FT_ProduceFnf"

lemma fnf_frame_run:
  assumes "fnf_fits m" and "o_accept o1 = None" and "\<not> is_draining (ss_shutdown st)"
  shows "\<exists>o2 st2. handle_connection logging_env Eof (test_frame FT_ProduceFnf cid (produce_fnf_encode m) @ rest) True o1 st =
      handle_connection logging_env Eof rest True o2 st2
    \<and> o_accept o2 = None \<and> ss_shutdown st2 = ss_shutdown st \<and> (\<exists>bs. o_bytes o2 = o_bytes o1 @ bs)
    \<and> mt_produce_fnf_total (ss_metrics st2) = mt_produce_fnf_total (ss_metrics st) + 1
    \<and> mt_produce_fnf_failed_total (ss_metrics st2) = mt_produce_fnf_failed_total (ss_metrics st)"
proof -
  have ok: "produce_fnf_ok m" and len: "length (produce_fnf_layout m) \<le> frame_limit FT_ProduceFnf"
    using assms(1) by (simp_all add: fnf_fits_def)
  let ?f = "frame_new FT_ProduceFnf cid (produce_fnf_layout m)"
  let ?r = "ProduceOk \<lparr>da_partition = - 1, da_offset = - 1\<rparr>"
  have f: "test_frame FT_ProduceFnf cid (produce_fnf_encode m) = frame_bytes ?f"
    using len frame_limit_max [of FT_ProduceFnf] by (intro test_frame_bytes produce_fnf.encode_layout [OF ok]) auto
  have lim: "within_limit ?f" using len by (simp add: within_limit_def frame_new_def)
  have dec: "produce_fnf_decode (produce_fnf_layout m) = Ok m"
    using produce_fnf.read_layout [OF ok, of "[]"] by (simp add: produce_fnf_decode_def run_def)
  have rok: "produce_resp_ok ?r" by (simp add: produce_resp_ok_def)
  have "length (produce_resp_layout ?r) \<le> MAX_PAYLOAD_LEN"
    by (simp add: produce_resp_layout_def MAX_PAYLOAD_LEN_def)
  then have send: "send_encoded ''encode fnf ack'' FT_ProduceResp cid (produce_resp_encode ?r) o1 =
      (Ok (), o1\<lparr>o_bytes := o_bytes o1 @ frame_bytes (frame_new FT_ProduceResp cid (produce_resp_layout ?r))\<rparr>)"
    using produce_resp.encode_layout [OF rok] assms(2) by (intro send_encoded_open) simp_all
  let ?st1 = "upd_metrics inc_fnf (upd_metrics inc_frames st)"
  have "dispatch logging_env FT_ProduceFnf cid (produce_fnf_layout m) o1 (upd_metrics inc_frames st) =
      (Ok (), o1\<lparr>o_bytes := o_bytes o1 @ frame_bytes (frame_new FT_ProduceResp cid (produce_resp_layout ?r))\<rparr>,
       ?st1\<lparr>ss_backend := ss_backend st\<rparr>)"
    using assms(3) dec send
    by (simp add: dispatch_def dispatch_inner_def handle_produce_fnf_def Let_def logging_env_def logging_producer_def
        logging_produce_fnf_def reply_def upd_metrics_def)
  with handle_connection_frame [OF lim, of logging_env Eof rest True o1 st] assms(2) show ?thesis
    unfolding f
    by (intro exI [of _ "o1\<lparr>o_bytes := o_bytes o1 @ frame_bytes (frame_new FT_ProduceResp cid (produce_resp_layout ?r))\<rparr>"]
        exI [of _ "?st1\<lparr>ss_backend := ss_backend st\<rparr>"])
      (simp add: frame_new_def upd_metrics_def inc_fnf_def inc_frames_def inc_def)
qed

lemma fnf_frames_run:
  assumes "list_all (\<lambda>(_, m). fnf_fits m) ms" and "o_accept o1 = None" and "\<not> is_draining (ss_shutdown st)"
  shows "\<exists>o2 st2. handle_connection logging_env Eof
        (concat (map (\<lambda>(cid, m). test_frame FT_ProduceFnf cid (produce_fnf_encode m)) ms)) True o1 st = (Ok (), o2, st2)
    \<and> (\<exists>bs. o_bytes o2 = o_bytes o1 @ bs)
    \<and> mt_produce_fnf_total (ss_metrics st2) = mt_produce_fnf_total (ss_metrics st) + of_nat (length ms)
    \<and> mt_produce_fnf_failed_total (ss_metrics st2) = mt_produce_fnf_failed_total (ss_metrics st)"
  using assms
proof (induction ms arbitrary: o1 st)
  case Nil
  then show ?case by (simp add: empty_input)
next
  case (Cons cm ms)
  obtain cid m where cm: "cm = (cid, m)" by (rule prod.exhaust)
  let ?rest = "concat (map (\<lambda>(cid, m). test_frame FT_ProduceFnf cid (produce_fnf_encode m)) ms)"
  from Cons.prems cm have m: "fnf_fits m" by simp
  from fnf_frame_run [OF m Cons.prems(2,3), of cid ?rest] obtain o2 st2 bs where
    one: "handle_connection logging_env Eof (test_frame FT_ProduceFnf cid (produce_fnf_encode m) @ ?rest) True o1 st =
        handle_connection logging_env Eof ?rest True o2 st2"
      "o_accept o2 = None" "ss_shutdown st2 = ss_shutdown st" "o_bytes o2 = o_bytes o1 @ bs"
      "mt_produce_fnf_total (ss_metrics st2) = mt_produce_fnf_total (ss_metrics st) + 1"
      "mt_produce_fnf_failed_total (ss_metrics st2) = mt_produce_fnf_failed_total (ss_metrics st)"
    by blast
  from Cons.IH [of o2 st2] Cons.prems one(2,3) obtain o3 st3 bs' where
    "handle_connection logging_env Eof ?rest True o2 st2 = (Ok (), o3, st3)" "o_bytes o3 = o_bytes o2 @ bs'"
    "mt_produce_fnf_total (ss_metrics st3) = mt_produce_fnf_total (ss_metrics st2) + of_nat (length ms)"
    "mt_produce_fnf_failed_total (ss_metrics st3) = mt_produce_fnf_failed_total (ss_metrics st2)"
    by auto
  with one show ?case by (simp add: cm)
qed

lemma test_produce_fnf:
  assumes "list_all (\<lambda>(_, m). fnf_fits m) ms"
  shows "\<exists>out st. handle_connection logging_env Eof (fnf_requests ms) False test_out (startup_state None logging_consumer_new) =
      (Ok (), out, st)
    \<and> handshake_ok (o_bytes out) \<and> mt_produce_fnf_total (ss_metrics st) = of_nat (length ms)
    \<and> mt_produce_fnf_failed_total (ss_metrics st) = 0"
proof -
  let ?o = "test_out\<lparr>o_bytes := test_handshake\<rparr>"
  let ?st = "upd_metrics inc_frames (startup_state None logging_consumer_new)"
  have "\<not> is_draining (ss_shutdown ?st)" "o_accept ?o = None"
    by (simp_all add: startup_state_def is_draining_def shutdown_new_def test_out_def)
  from fnf_frames_run [OF assms this(2,1)] show ?thesis
    unfolding fnf_requests_def test_handshake_run
    by (auto simp: handshake_asserts startup_state_def upd_metrics_def metrics_new_def inc_frames_def)
qed

section \<open>When the worker exits\<close>

text \<open>
  A client's moves in \<open>lifecycle_exit_e2e.rs\<close>, one connection after the other; the loop has settled in its
  \<open>select!\<close> before each move. A pause covers one tick of the loop's interval.
\<close>

datatype life_move = Connect | SendGoodbye | DropConnection | Sleep nat

definition settled :: "'s run_state \<Rightarrow> 's run_state" where
  "settled c = c\<lparr>rn_pos := Waiting False\<rparr>"

fun life_move_run :: "('m, 's) server_env \<Rightarrow> nat \<Rightarrow> life_move \<Rightarrow> 's run_state \<Rightarrow> 's run_state" where
  "life_move_run env idle Connect c = on_accept (settled c)"
| "life_move_run env idle SendGoodbye c =
     c\<lparr>rn_server := snd (snd (dispatch env FT_Goodbye 0 [] test_out (rn_server c)))\<rparr>"
| "life_move_run env idle DropConnection c =
     on_joined env idle ((settled c)\<lparr>rn_running := rn_running c - 1, rn_finished := rn_finished c + 1\<rparr>)"
| "life_move_run env idle (Sleep d) c = on_tick env idle ((settled c)\<lparr>rn_now := rn_now c + d\<rparr>)"

definition life_start :: "logging_consumer_state run_state" where
  "life_start = run_start 0 (startup_state None logging_consumer_new)"

definition life_run :: "nat \<Rightarrow> life_move list \<Rightarrow> logging_consumer_state run_state" where
  "life_run idle ms = fold (life_move_run logging_env idle) ms life_start"

lemma goodbye_served: "dispatch env FT_Goodbye cid payload o1 st = (Ok (), o1, st\<lparr>ss_expedited := True\<rparr>)"
  by (simp add: dispatch_def dispatch_inner_def)

text \<open>Every move of a client is a run of the accept loop.\<close>

lemma settles: "rn_pos c = AtHead \<Longrightarrow> \<not> draining c \<Longrightarrow> (run_step env idle)\<^sup>*\<^sup>* c (settled c)"
  using run_step.check [of c env idle] run_step.wait [of "c\<lparr>rn_pos := Checked\<rparr>" env idle]
  by (simp add: settled_def converse_rtranclp_into_rtranclp)

lemma life_move_reachable:
  assumes "rn_pos c = AtHead" "\<not> draining c" "0 < idle" "m \<in> {SendGoodbye, DropConnection} \<Longrightarrow> 0 < rn_running c"
  shows "(run_step env idle)\<^sup>*\<^sup>* c (life_move_run env idle m c)"
proof -
  have s: "(run_step env idle)\<^sup>*\<^sup>* c (settled c)" using settles assms by blast
  show ?thesis
  proof (cases m)
    case Connect
    have "run_step env idle (settled c) (on_accept (settled c))"
      by (rule run_step.accept [of _ False]) (simp add: settled_def)
    with s Connect show ?thesis by simp
  next
    case SendGoodbye
    then show ?thesis using run_step.work [of c env idle FT_Goodbye 0 "[]" test_out] assms(4) by simp
  next
    case DropConnection
    let ?e = "(settled c)\<lparr>rn_running := rn_running c - 1, rn_finished := rn_finished c + 1\<rparr>"
    have "run_step env idle (settled c) ?e"
      using run_step.task_end [of "settled c" env idle] assms(4) DropConnection by (simp add: settled_def task_ended_def)
    moreover have "run_step env idle ?e (on_joined env idle ?e)"
      using assms(3) by (intro run_step.joined [of _ False]) (simp_all add: settled_def)
    ultimately show ?thesis
      using s DropConnection by (auto intro: rtranclp.rtrancl_into_rtrancl)
  next
    case (Sleep d)
    let ?e = "(settled c)\<lparr>rn_now := rn_now c + d\<rparr>"
    have "run_step env idle (settled c) ?e"
      using run_step.time [of env idle "settled c" d] by (simp add: settled_def)
    moreover have "run_step env idle ?e (on_tick env idle ?e)"
      using assms(3) by (intro run_step.tick [of _ False]) (simp_all add: settled_def)
    ultimately show ?thesis
      using s Sleep by (auto intro: rtranclp.rtrancl_into_rtrancl)
  qed
qed

lemmas life_defs = life_run_def life_start_def settled_def run_start_def run_defs goodbye_served upd_metrics_def
  startup_state_def shutdown_new_def is_draining_def start_draining_def logging_env_def logging_consumer_def
  default_active_subscriptions_def

lemma test_goodbye_last_connection: "draining (life_run idle [Connect, SendGoodbye, DropConnection])"
  by (simp add: life_defs)

lemma test_goodbye_other_connection:
  "\<not> draining (life_run idle [Connect, Connect, SendGoodbye, DropConnection, Sleep d])"
  "draining (life_run idle [Connect, Connect, SendGoodbye, DropConnection, Sleep d, DropConnection])"
  by (simp_all add: life_defs)

text \<open>Without a goodbye only the pause ends the worker, and only one as long as the timeout.\<close>

lemma test_idle_exit: "draining (life_run idle [Connect, DropConnection, Sleep d]) \<longleftrightarrow> idle \<le> d"
  by (simp add: life_defs)

end
