(* ===== verification/Ext_Node.thy ===== *)
theory Ext_Node
  imports Ext_Child
begin

text \<open>
  Several PHP processes, their workers, and stand-alone workers on one machine, all with the same
  socket path: the system calls of \<open>ensure_worker\<close> (\<open>ext/src/spawn.rs\<close>), of the worker it forks
  (\<open>ext/src/worker_entry.rs\<close>) and of the program \<open>hi-kafka-worker\<close> (\<open>worker/src/main.rs\<close>), which both call
  \<open>bind_with\<close> of \<open>worker/src/server.rs\<close>, as steps that interleave freely, with processes that may die
  at any point. The kernel is modelled where the protocol depends on it: an advisory lock of
  \<open>flock\<close> belongs to an open file, which processes share after \<open>fork\<close>, and lasts until no process has
  a descriptor of that file. Each process has one thread that calls \<open>ensure_worker\<close>. PHP processes are
  assumed to keep their standard streams open; the last section shows what goes wrong otherwise.
\<close>

section \<open>Processes\<close>

text \<open>
  Where a process is. PHP code: outside of \<open>ensure_worker\<close>; after the first probe failed; with the
  lock file open; with the lock; waiting for the socket. A worker: forked; set up; past the removal
  of a stale socket file; with its accept loop running; after the loop returned; after it removed
  the socket file. A stand-alone worker, with its own constructors: it takes no lock. The number is
  the descriptor of the lock file.
\<close>

datatype proc_pos =
    PhpCode
  | Probed
  | LockOpen nat
  | LockHeld nat
  | AwaitSocket nat
  | WForked
  | WSetup
  | WUnlinked
  | WServing
  | WReturned
  | WRemoved
  | AStarted
  | AUnlinked
  | AServing
  | AReturned
  | ARemoved

text \<open>A worker that was forked by a PHP process; and a process that runs PHP code.\<close>

fun is_worker :: "proc_pos \<Rightarrow> bool" where
  "is_worker WForked = True"
| "is_worker WSetup = True"
| "is_worker WUnlinked = True"
| "is_worker WServing = True"
| "is_worker WReturned = True"
| "is_worker WRemoved = True"
| "is_worker _ = False"

fun is_php :: "proc_pos \<Rightarrow> bool" where
  "is_php PhpCode = True"
| "is_php Probed = True"
| "is_php (LockOpen _) = True"
| "is_php (LockHeld _) = True"
| "is_php (AwaitSocket _) = True"
| "is_php _ = False"

lemma php_no_worker: "is_php pos \<Longrightarrow> \<not> is_worker pos"
  by (cases pos) simp_all

text \<open>
  Open files are numbered in the order in which they were opened; \<open>pr_born\<close> is the number of the next
  file when the process was created.
\<close>

record nproc =
  pr_pos :: proc_pos
  pr_fds :: "nat fd_table"
  pr_born :: nat

text \<open>
  \<open>nd_lock\<close> is the open file that was locked last; \<open>nd_socket\<close> is the process whose bound socket the path
  names, if there is a file. The listening socket of a dead process refuses connections.
\<close>

record node =
  nd_procs :: "(nat \<times> nproc) list"
  nd_next_pid :: nat
  nd_next_file :: nat
  nd_lock :: "nat option"
  nd_socket :: "nat option"

definition proc :: "node \<Rightarrow> nat \<Rightarrow> nproc option" where
  "proc n = map_of (nd_procs n)"

definition set_proc :: "nat \<Rightarrow> nproc \<Rightarrow> node \<Rightarrow> node" where
  "set_proc pid p n = n\<lparr>nd_procs := AList.update pid p (nd_procs n)\<rparr>"

definition has_file :: "nat \<Rightarrow> nproc \<Rightarrow> bool" where
  "has_file f p \<longleftrightarrow> f \<in> snd ` set (pr_fds p)"

definition lock_free :: "node \<Rightarrow> bool" where
  "lock_free n \<longleftrightarrow>
     (case nd_lock n of None \<Rightarrow> True | Some f \<Rightarrow> list_all (\<lambda>(_, p). \<not> has_file f p) (nd_procs n))"

definition node_accepts :: "node \<Rightarrow> bool" where
  "node_accepts n \<longleftrightarrow>
     (case Option.bind (nd_socket n) (proc n) of Some p \<Rightarrow> pr_pos p = WServing \<or> pr_pos p = AServing | None \<Rightarrow> False)"

section \<open>System calls\<close>

definition move_to :: "nat \<Rightarrow> nproc \<Rightarrow> proc_pos \<Rightarrow> node \<Rightarrow> node" where
  "move_to pid p pos n = set_proc pid (p\<lparr>pr_pos := pos\<rparr>) n"

definition open_lock :: "nat \<Rightarrow> nproc \<Rightarrow> node \<Rightarrow> node" where
  "open_lock pid p n =
     (case fd_open (nd_next_file n) (pr_fds p) of
        (fd, t) \<Rightarrow> (set_proc pid (p\<lparr>pr_fds := t, pr_pos := LockOpen fd\<rparr>) n)\<lparr>nd_next_file := Suc (nd_next_file n)\<rparr>)"

definition take_lock :: "nat \<Rightarrow> nproc \<Rightarrow> nat \<Rightarrow> node \<Rightarrow> node" where
  "take_lock pid p fd n = (move_to pid p (LockHeld fd) n)\<lparr>nd_lock := map_of (pr_fds p) fd\<rparr>"

text \<open>\<open>drop(lock_file)\<close>, at the end of \<open>ensure_worker\<close> and on its early returns.\<close>

definition drop_lock :: "nat \<Rightarrow> nproc \<Rightarrow> nat \<Rightarrow> node \<Rightarrow> node" where
  "drop_lock pid p fd n = set_proc pid (p\<lparr>pr_fds := fd_close fd (pr_fds p), pr_pos := PhpCode\<rparr>) n"

text \<open>\<open>fork\<close>: the new process has the descriptors of its parent, for the same open files.\<close>

definition fork_proc :: "proc_pos \<Rightarrow> nproc \<Rightarrow> node \<Rightarrow> node" where
  "fork_proc pos p n =
     (set_proc (nd_next_pid n) \<lparr>pr_pos = pos, pr_fds = pr_fds p, pr_born = nd_next_file n\<rparr> n)
       \<lparr>nd_next_pid := Suc (nd_next_pid n)\<rparr>"

definition start_proc :: "proc_pos \<Rightarrow> node \<Rightarrow> node" where
  "start_proc pos n =
     fork_proc pos \<lparr>pr_pos = pos, pr_fds = map (\<lambda>fd. (fd, nd_next_file n)) [0, 1, 2], pr_born = 0\<rparr>
       (n\<lparr>nd_next_file := Suc (nd_next_file n)\<rparr>)"

definition start_php :: "node \<Rightarrow> node" where
  "start_php = start_proc PhpCode"

definition fork_worker :: "nat \<Rightarrow> nproc \<Rightarrow> nat \<Rightarrow> node \<Rightarrow> node" where
  "fork_worker pid p fd n = fork_proc WForked p (move_to pid p (AwaitSocket fd) n)"

text \<open>
  The child opens the null device and the log file, if that works; each is a new open file.
\<close>

definition setup_worker :: "nat \<Rightarrow> nproc \<Rightarrow> bool \<Rightarrow> string option \<Rightarrow> node \<Rightarrow> node" where
  "setup_worker pid p null_ok path n =
     (let null = (if null_ok then Some (nd_next_file n) else None) in
      (set_proc pid
        (p\<lparr>pr_pos := WSetup,
           pr_fds := redirect_stdio null (\<lambda>_. Some (Suc (nd_next_file n))) path (pr_fds p)\<rparr>) n)
        \<lparr>nd_next_file := nd_next_file n + 2\<rparr>)"

definition unlink_socket :: "nat \<Rightarrow> nproc \<Rightarrow> proc_pos \<Rightarrow> node \<Rightarrow> node" where
  "unlink_socket pid p pos n = (move_to pid p pos n)\<lparr>nd_socket := None\<rparr>"

definition bind_socket :: "nat \<Rightarrow> nproc \<Rightarrow> proc_pos \<Rightarrow> node \<Rightarrow> node" where
  "bind_socket pid p pos n = (move_to pid p pos n)\<lparr>nd_socket := Some pid\<rparr>"

text \<open>Any other file that a process opens or closes.\<close>

definition open_other :: "nat \<Rightarrow> nproc \<Rightarrow> node \<Rightarrow> node" where
  "open_other pid p n =
     (set_proc pid (p\<lparr>pr_fds := snd (fd_open (nd_next_file n) (pr_fds p))\<rparr>) n)\<lparr>nd_next_file := Suc (nd_next_file n)\<rparr>"

definition close_other :: "nat \<Rightarrow> nproc \<Rightarrow> nat \<Rightarrow> node \<Rightarrow> node" where
  "close_other pid p fd n = set_proc pid (p\<lparr>pr_fds := fd_close fd (pr_fds p)\<rparr>) n"

definition kill_proc :: "nat \<Rightarrow> node \<Rightarrow> node" where
  "kill_proc pid n = n\<lparr>nd_procs := AList.delete pid (nd_procs n)\<rparr>"

section \<open>Steps\<close>

text \<open>
  A process starts with its standard streams on one new file. Probing may fail although a worker
  serves. A process that did not get the lock, and one that has forked, leave \<open>ensure_worker\<close> when a
  probe succeeds or the deadline has passed. PHP code opens files, closes those it may close, and
  forks on its own; a worker closes only what it opened. A stand-alone worker removes whatever file
  it finds at the path before it binds, and again when its accept loop has returned.
\<close>

inductive node_step :: "node \<Rightarrow> node \<Rightarrow> bool" where
  php_start: "node_step n (start_php n)"
| php_fork: "proc n pid = Some p \<Longrightarrow> is_php (pr_pos p) \<Longrightarrow> node_step n (fork_proc PhpCode p n)"
| php_open: "proc n pid = Some p \<Longrightarrow> node_step n (open_other pid p n)"
| php_close: "proc n pid = Some p \<Longrightarrow> pr_pos p = PhpCode \<Longrightarrow> 3 \<le> fd \<Longrightarrow> node_step n (close_other pid p fd n)"
| probe_failed: "proc n pid = Some p \<Longrightarrow> pr_pos p = PhpCode \<Longrightarrow> node_step n (move_to pid p Probed n)"
| open_failed: "proc n pid = Some p \<Longrightarrow> pr_pos p = Probed \<Longrightarrow> node_step n (move_to pid p PhpCode n)"
| open_ok: "proc n pid = Some p \<Longrightarrow> pr_pos p = Probed \<Longrightarrow> node_step n (open_lock pid p n)"
| lock_ok: "proc n pid = Some p \<Longrightarrow> pr_pos p = LockOpen fd \<Longrightarrow> lock_free n \<Longrightarrow>
    node_step n (take_lock pid p fd n)"
| lock_busy: "proc n pid = Some p \<Longrightarrow> pr_pos p = LockOpen fd \<Longrightarrow> \<not> lock_free n \<Longrightarrow>
    node_step n (move_to pid p (AwaitSocket fd) n)"
| fork_failed: "proc n pid = Some p \<Longrightarrow> pr_pos p = LockHeld fd \<Longrightarrow> node_step n (drop_lock pid p fd n)"
| fork: "proc n pid = Some p \<Longrightarrow> pr_pos p = LockHeld fd \<Longrightarrow> node_step n (fork_worker pid p fd n)"
| leave: "proc n pid = Some p \<Longrightarrow> pr_pos p = AwaitSocket fd \<Longrightarrow> node_step n (drop_lock pid p fd n)"
| set_up: "proc n pid = Some p \<Longrightarrow> pr_pos p = WForked \<Longrightarrow> node_step n (setup_worker pid p null_ok path n)"
| unlink: "proc n pid = Some p \<Longrightarrow> pr_pos p = WSetup \<Longrightarrow> node_step n (unlink_socket pid p WUnlinked n)"
| bind: "proc n pid = Some p \<Longrightarrow> pr_pos p = WUnlinked \<Longrightarrow> nd_socket n = None \<Longrightarrow>
    node_step n (bind_socket pid p WServing n)"
| returned: "proc n pid = Some p \<Longrightarrow> pr_pos p = WServing \<Longrightarrow> node_step n (move_to pid p WReturned n)"
| cleanup: "proc n pid = Some p \<Longrightarrow> pr_pos p = WReturned \<Longrightarrow> node_step n (unlink_socket pid p WRemoved n)"
| worker_close: "proc n pid = Some p \<Longrightarrow> is_worker (pr_pos p) \<Longrightarrow> pr_pos p \<noteq> WForked \<Longrightarrow>
    map_of (pr_fds p) fd = Some f \<Longrightarrow> pr_born p \<le> f \<Longrightarrow> node_step n (close_other pid p fd n)"
| alone_start: "node_step n (start_proc AStarted n)"
| alone_unlink: "proc n pid = Some p \<Longrightarrow> pr_pos p = AStarted \<Longrightarrow> node_step n (unlink_socket pid p AUnlinked n)"
| alone_bind: "proc n pid = Some p \<Longrightarrow> pr_pos p = AUnlinked \<Longrightarrow> nd_socket n = None \<Longrightarrow>
    node_step n (bind_socket pid p AServing n)"
| alone_returned: "proc n pid = Some p \<Longrightarrow> pr_pos p = AServing \<Longrightarrow> node_step n (move_to pid p AReturned n)"
| alone_cleanup: "proc n pid = Some p \<Longrightarrow> pr_pos p = AReturned \<Longrightarrow> node_step n (unlink_socket pid p ARemoved n)"
| die: "node_step n (kill_proc pid n)"

inductive_cases node_stepE: "node_step n n'"

definition node_start :: node where
  "node_start = \<lparr>nd_procs = [], nd_next_pid = 1, nd_next_file = 0, nd_lock = None, nd_socket = None\<rparr>"

section \<open>Invariant\<close>

fun lock_fd :: "proc_pos \<Rightarrow> nat option" where
  "lock_fd (LockOpen fd) = Some fd"
| "lock_fd (LockHeld fd) = Some fd"
| "lock_fd (AwaitSocket fd) = Some fd"
| "lock_fd _ = None"

text \<open>
  The processes that keep others from forking a worker, by their position: the one about to fork, and
  every worker. (A parent that waits for the socket of its child has the locked file open as well, so
  the lock may outlast the worker until the parent leaves \<open>ensure_worker\<close>.)
\<close>

fun is_holder :: "proc_pos \<Rightarrow> bool" where
  "is_holder (LockHeld fd) = True"
| "is_holder pos = is_worker pos"

lemma worker_holder: "is_worker pos \<Longrightarrow> is_holder pos"
  by (cases pos) simp_all

text \<open>Such a process has a descriptor of the locked file that nothing it does will close.\<close>

definition keeps_lock :: "node \<Rightarrow> nproc \<Rightarrow> bool" where
  "keeps_lock n p \<longleftrightarrow>
     (\<exists>fd f. 3 \<le> fd \<and> map_of (pr_fds p) fd = Some f \<and> nd_lock n = Some f
        \<and> (is_worker (pr_pos p) \<longrightarrow> f < pr_born p) \<and> (\<forall>fd'. pr_pos p = LockHeld fd' \<longrightarrow> fd' = fd))"

definition proc_ok :: "node \<Rightarrow> nat \<Rightarrow> nproc \<Rightarrow> bool" where
  "proc_ok n pid p \<longleftrightarrow>
     pid < nd_next_pid n \<and> pr_born p \<le> nd_next_file n
     \<and> (\<forall>fd f. map_of (pr_fds p) fd = Some f \<longrightarrow> f < nd_next_file n)
     \<and> (\<not> is_worker (pr_pos p) \<or> pr_pos p = WForked \<longrightarrow> std_open (pr_fds p))
     \<and> (\<forall>fd. lock_fd (pr_pos p) = Some fd \<longrightarrow> 3 \<le> fd \<and> map_of (pr_fds p) fd \<noteq> None)
     \<and> (is_holder (pr_pos p) \<longrightarrow> keeps_lock n p)"

definition node_inv :: "node \<Rightarrow> bool" where
  "node_inv n \<longleftrightarrow>
     (\<forall>pid p. proc n pid = Some p \<longrightarrow> proc_ok n pid p)
     \<and> (\<forall>pid p pid' p'. proc n pid = Some p \<and> is_holder (pr_pos p) \<and> proc n pid' = Some p' \<and> is_holder (pr_pos p')
          \<longrightarrow> pid = pid')"

lemma node_invD:
  assumes "node_inv n" and "proc n pid = Some p"
  shows "proc_ok n pid p" and "is_holder (pr_pos p) \<Longrightarrow> proc n q = Some r \<Longrightarrow> is_holder (pr_pos r) \<Longrightarrow> q = pid"
  using assms by (auto simp: node_inv_def)

lemma proc_simps [simp]:
  "proc (set_proc pid p n) = (proc n)(pid \<mapsto> p)"
  "proc (move_to pid p pos n) = (proc n)(pid \<mapsto> p\<lparr>pr_pos := pos\<rparr>)"
  "proc (kill_proc pid n) = (proc n)(pid := None)"
  "proc (n\<lparr>nd_next_pid := k\<rparr>) = proc n" "proc (n\<lparr>nd_next_file := k\<rparr>) = proc n"
  "proc (n\<lparr>nd_lock := l\<rparr>) = proc n" "proc (n\<lparr>nd_socket := s\<rparr>) = proc n"
  by (simp_all add: proc_def set_proc_def move_to_def kill_proc_def update_conv' delete_conv' fun_eq_iff)

lemma set_proc_simps [simp]:
  "nd_next_pid (set_proc pid p n) = nd_next_pid n" "nd_next_file (set_proc pid p n) = nd_next_file n"
  "nd_lock (set_proc pid p n) = nd_lock n" "nd_socket (set_proc pid p n) = nd_socket n"
  "nd_next_pid (move_to pid p pos n) = nd_next_pid n" "nd_next_file (move_to pid p pos n) = nd_next_file n"
  "nd_lock (move_to pid p pos n) = nd_lock n" "nd_socket (move_to pid p pos n) = nd_socket n"
  "nd_next_pid (kill_proc pid n) = nd_next_pid n" "nd_next_file (kill_proc pid n) = nd_next_file n"
  "nd_lock (kill_proc pid n) = nd_lock n" "nd_socket (kill_proc pid n) = nd_socket n"
  by (simp_all add: set_proc_def move_to_def kill_proc_def)

text \<open>
  One process changes, and what the others rely on does not: the counters grow, and the lock is as it
  was if one of them is a holder.
\<close>

lemma node_inv_update:
  assumes inv: "node_inv n" and procs: "proc n' = (proc n)(pid \<mapsto> p')"
    and grow: "nd_next_pid n \<le> nd_next_pid n'" "nd_next_file n \<le> nd_next_file n'"
    and ok: "proc_ok n' pid p'"
    and others: "\<And>q r. q \<noteq> pid \<Longrightarrow> proc n q = Some r \<Longrightarrow> is_holder (pr_pos r) \<Longrightarrow>
      \<not> is_holder (pr_pos p') \<and> nd_lock n' = nd_lock n"
  shows "node_inv n'"
proof -
  have "proc_ok n' q r" if "q \<noteq> pid" "proc n q = Some r" for q r
  proof -
    have r: "proc_ok n q r" using node_invD(1) [OF inv that(2)] .
    have "\<And>f. f < nd_next_file n \<Longrightarrow> f < nd_next_file n'" "pr_born r \<le> nd_next_file n'" "q < nd_next_pid n'"
      using grow r by (auto simp: proc_ok_def)
    moreover have "is_holder (pr_pos r) \<Longrightarrow> nd_lock n' = nd_lock n"
      using others [OF that] by blast
    ultimately show ?thesis using r by (auto simp: proc_ok_def keeps_lock_def)
  qed
  moreover have "q = q'"
    if "proc n' q = Some r" "is_holder (pr_pos r)" "proc n' q' = Some r'" "is_holder (pr_pos r')" for q r q' r'
  proof (cases "q = pid \<or> q' = pid")
    case True
    with that show ?thesis using others [of q r] others [of q' r'] by (auto simp: procs split: if_splits)
  next
    case False
    with that have "proc n q = Some r" "proc n q' = Some r'" by (simp_all add: procs)
    from node_invD(2) [OF inv this(2) that(4) this(1) that(2)] show ?thesis .
  qed
  ultimately show ?thesis using ok unfolding node_inv_def by (metis fun_upd_apply option.inject procs)
qed

lemma node_inv_self:
  assumes "node_inv n" and "proc n pid = Some p" and "proc n' = (proc n)(pid \<mapsto> p')"
    and "nd_next_pid n \<le> nd_next_pid n'" "nd_next_file n \<le> nd_next_file n'"
    and "is_holder (pr_pos p') \<Longrightarrow> is_holder (pr_pos p)"
    and "is_holder (pr_pos p) \<or> nd_lock n' = nd_lock n"
    and "proc_ok n' pid p'"
  shows "node_inv n'"
proof (rule node_inv_update [OF assms(1,3,4,5,8)])
  fix q r
  assume "q \<noteq> pid" "proc n q = Some r" "is_holder (pr_pos r)"
  with node_invD(2) [OF assms(1,2)] have "\<not> is_holder (pr_pos p)" by blast
  with assms(6,7) show "\<not> is_holder (pr_pos p') \<and> nd_lock n' = nd_lock n" by blast
qed

lemma lock_free_no_holder:
  assumes "node_inv n" and "lock_free n" and "proc n pid = Some p"
  shows "\<not> is_holder (pr_pos p)"
proof
  assume "is_holder (pr_pos p)"
  then obtain fd f where f: "map_of (pr_fds p) fd = Some f" "nd_lock n = Some f"
    using node_invD(1) [OF assms(1,3)] by (auto simp: proc_ok_def keeps_lock_def)
  then have "has_file f p" by (force simp: has_file_def dest: map_of_SomeD)
  moreover have "(pid, p) \<in> set (nd_procs n)" using assms(3) by (auto simp: proc_def dest: map_of_SomeD)
  ultimately show False using assms(2) f(2) by (auto simp: lock_free_def list_all_iff)
qed

text \<open>What a process may do with its table without touching the standard streams or its lock.\<close>

lemma std_open_upd: "std_open t \<Longrightarrow> std_open (snd (fd_open f t))"
  "std_open t \<Longrightarrow> 3 \<le> fd \<Longrightarrow> std_open (fd_close fd t)"
  by (auto simp: std_open_def)

lemma keeps_lock_mono:
  assumes "keeps_lock n p" and "nd_lock n' = nd_lock n" and "pr_born p' = pr_born p"
    and "is_worker (pr_pos p') \<Longrightarrow> is_worker (pr_pos p)" and "\<And>fd. pr_pos p' = LockHeld fd \<Longrightarrow> pr_pos p = LockHeld fd"
    and "\<And>fd f. 3 \<le> fd \<Longrightarrow> map_of (pr_fds p) fd = Some f \<Longrightarrow> (is_worker (pr_pos p) \<Longrightarrow> f < pr_born p) \<Longrightarrow>
      map_of (pr_fds p') fd = Some f"
  shows "keeps_lock n' p'"
proof -
  from assms(1) obtain fd f where fd: "3 \<le> fd" "map_of (pr_fds p) fd = Some f" "nd_lock n = Some f"
    and w: "is_worker (pr_pos p) \<Longrightarrow> f < pr_born p" and h: "\<And>fd'. pr_pos p = LockHeld fd' \<Longrightarrow> fd' = fd"
    by (auto simp: keeps_lock_def)
  have "map_of (pr_fds p') fd = Some f" by (rule assms(6) [OF fd(1,2) w])
  with fd w h assms(2-5) show ?thesis unfolding keeps_lock_def by (intro exI [of _ fd] exI [of _ f]) auto
qed

lemma move_inv:
  assumes "node_inv n" and "proc n pid = Some p" and "is_holder pos \<Longrightarrow> is_holder (pr_pos p)"
    and "is_worker pos \<longleftrightarrow> is_worker (pr_pos p)" and "pos \<noteq> WForked"
    and "\<And>fd. lock_fd pos = Some fd \<Longrightarrow> lock_fd (pr_pos p) = Some fd"
    and "\<And>fd. pos = LockHeld fd \<Longrightarrow> pr_pos p = LockHeld fd"
  shows "node_inv (move_to pid p pos n)"
proof (rule node_inv_self [OF assms(1,2), of _ "p\<lparr>pr_pos := pos\<rparr>"])
  note ok = node_invD(1) [OF assms(1,2)]
  have "keeps_lock (move_to pid p pos n) (p\<lparr>pr_pos := pos\<rparr>)" if "keeps_lock n p"
    by (rule keeps_lock_mono [OF that]) (use assms(4,7) in simp_all)
  with ok assms(3-6) show "proc_ok (move_to pid p pos n) pid (p\<lparr>pr_pos := pos\<rparr>)"
    by (simp add: proc_ok_def)
qed (use assms(3) in simp_all)

lemma fork_php_inv:
  assumes "node_inv n" and "std_open (pr_fds p)" and "\<And>fd f. map_of (pr_fds p) fd = Some f \<Longrightarrow> f < nd_next_file n"
    and "pos = PhpCode \<or> pos = AStarted"
  shows "node_inv (fork_proc pos p n)"
  by (rule node_inv_update [OF assms(1), of _ "nd_next_pid n" "\<lparr>pr_pos = pos, pr_fds = pr_fds p, pr_born = nd_next_file n\<rparr>"])
    (use assms(2-4) in \<open>auto simp: fork_proc_def proc_ok_def\<close>)

lemma start_proc_inv:
  assumes "node_inv n" and "pos = PhpCode \<or> pos = AStarted"
  shows "node_inv (start_proc pos n)"
  unfolding start_proc_def
proof (rule fork_php_inv)
  show "node_inv (n\<lparr>nd_next_file := Suc (nd_next_file n)\<rparr>)"
    using assms(1) by (fastforce simp: node_inv_def proc_ok_def keeps_lock_def less_Suc_eq)
qed (use assms(2) in \<open>auto simp: std_open_def split: if_splits\<close>)

lemma open_file_inv:
  assumes "node_inv n" and "proc n pid = Some p" and "pos = pr_pos p \<or> pr_pos p = Probed \<and> pos = LockOpen (lowest_free (pr_fds p))"
    and "n' = (set_proc pid (p\<lparr>pr_fds := snd (fd_open (nd_next_file n) (pr_fds p)), pr_pos := pos\<rparr>) n)
      \<lparr>nd_next_file := Suc (nd_next_file n)\<rparr>"
  shows "node_inv n'"
proof (rule node_inv_self [OF assms(1,2), of _ "p\<lparr>pr_fds := snd (fd_open (nd_next_file n) (pr_fds p)), pr_pos := pos\<rparr>"])
  note ok = node_invD(1) [OF assms(1,2)]
  let ?p = "p\<lparr>pr_fds := snd (fd_open (nd_next_file n) (pr_fds p)), pr_pos := pos\<rparr>"
  have free: "map_of (pr_fds p) (lowest_free (pr_fds p)) = None" by (rule lowest_free(1))
  have worker: "is_worker pos = is_worker (pr_pos p)" "is_holder pos = is_holder (pr_pos p)"
    "pos = WForked \<longleftrightarrow> pr_pos p = WForked"
    using assms(3) by auto
  have "keeps_lock n' ?p" if "keeps_lock n p"
    by (rule keeps_lock_mono [OF that]) (use assms(3,4) free in auto)
  moreover have "3 \<le> fd \<and> map_of (pr_fds ?p) fd \<noteq> None" if "lock_fd pos = Some fd" for fd
    using that assms(3) ok free lowest_free_std [of "pr_fds p"] by (auto simp: proc_ok_def)
  ultimately show "proc_ok n' pid ?p"
    using ok assms(4) worker by (auto simp: proc_ok_def std_open_upd less_Suc_eq)
qed (use assms(3,4) in auto)

lemma drop_inv:
  assumes "node_inv n" and "proc n pid = Some p" and "\<not> is_worker (pr_pos p)" and "3 \<le> fd"
  shows "node_inv (drop_lock pid p fd n)"
  by (rule node_inv_self [OF assms(1,2), of _ "p\<lparr>pr_fds := fd_close fd (pr_fds p), pr_pos := PhpCode\<rparr>"])
    (use node_invD(1) [OF assms(1,2)] assms(3,4) in \<open>auto simp: drop_lock_def proc_ok_def std_open_upd\<close>)

lemma worker_close_inv:
  assumes "node_inv n" and "proc n pid = Some p" and "is_worker (pr_pos p)" and "pr_pos p \<noteq> WForked"
    and "map_of (pr_fds p) fd = Some f" and "pr_born p \<le> f"
  shows "node_inv (close_other pid p fd n)"
proof (rule node_inv_self [OF assms(1,2), of _ "p\<lparr>pr_fds := fd_close fd (pr_fds p)\<rparr>"])
  note ok = node_invD(1) [OF assms(1,2)]
  have "keeps_lock n p" using ok assms(3) worker_holder by (auto simp: proc_ok_def)
  then have "keeps_lock (close_other pid p fd n) (p\<lparr>pr_fds := fd_close fd (pr_fds p)\<rparr>)"
    by (rule keeps_lock_mono) (use assms(3,5,6) in \<open>auto simp: close_other_def\<close>)
  moreover have "lock_fd (pr_pos p) = None" using assms(3) by (cases "pr_pos p") simp_all
  ultimately show "proc_ok (close_other pid p fd n) pid (p\<lparr>pr_fds := fd_close fd (pr_fds p)\<rparr>)"
    using ok assms(3,4) by (auto simp: proc_ok_def close_other_def)
qed (simp_all add: close_other_def)

lemma take_lock_inv:
  assumes "node_inv n" and "proc n pid = Some p" and "pr_pos p = LockOpen fd" and "lock_free n"
  shows "node_inv (take_lock pid p fd n)"
proof (rule node_inv_update [OF assms(1), of _ pid "p\<lparr>pr_pos := LockHeld fd\<rparr>"])
  show "proc_ok (take_lock pid p fd n) pid (p\<lparr>pr_pos := LockHeld fd\<rparr>)"
    using node_invD(1) [OF assms(1,2)] assms(3) by (auto simp: proc_ok_def take_lock_def keeps_lock_def)
qed (use lock_free_no_holder [OF assms(1,4)] in \<open>auto simp: take_lock_def\<close>)

text \<open>Forking hands the role of the holder from the parent to the child.\<close>

lemma fork_worker_inv:
  assumes "node_inv n" and "proc n pid = Some p" and "pr_pos p = LockHeld fd"
  shows "node_inv (fork_worker pid p fd n)"
proof -
  note ok = node_invD(1) [OF assms(1,2)]
  let ?m = "move_to pid p (AwaitSocket fd) n"
  let ?c = "\<lparr>pr_pos = WForked, pr_fds = pr_fds p, pr_born = nd_next_file n\<rparr>"
  have m: "node_inv ?m" by (rule move_inv [OF assms(1,2)]) (use assms(3) in simp_all)
  show ?thesis
  proof (rule node_inv_update [OF m, of _ "nd_next_pid n" ?c])
    have "keeps_lock n p" using ok assms(3) by (simp add: proc_ok_def)
    with ok have "keeps_lock (fork_worker pid p fd n) ?c"
      by (auto simp: keeps_lock_def fork_worker_def fork_proc_def proc_ok_def)
    with ok assms(3) show "proc_ok (fork_worker pid p fd n) (nd_next_pid n) ?c"
      by (auto simp: proc_ok_def fork_worker_def fork_proc_def)
    fix q r
    assume "proc ?m q = Some r" "is_holder (pr_pos r)"
    then have "q \<noteq> pid" "proc n q = Some r" by (auto split: if_splits)
    with node_invD(2) [OF assms(1,2)] assms(3) \<open>is_holder (pr_pos r)\<close> have False by simp
    then show "\<not> is_holder (pr_pos ?c) \<and> nd_lock (fork_worker pid p fd n) = nd_lock ?m" ..
  qed (simp_all add: fork_worker_def fork_proc_def)
qed

lemma setup_inv:
  assumes "node_inv n" and "proc n pid = Some p" and "pr_pos p = WForked"
  shows "node_inv (setup_worker pid p null_ok path n)"
proof -
  note ok = node_invD(1) [OF assms(1,2)]
  let ?t = "redirect_stdio (if null_ok then Some (nd_next_file n) else None) (\<lambda>_. Some (Suc (nd_next_file n))) path
    (pr_fds p)"
  let ?p = "p\<lparr>pr_pos := WSetup, pr_fds := ?t\<rparr>"
  have std: "std_open (pr_fds p)" using ok assms(3) by (simp add: proc_ok_def)
  have t: "map_of ?t fd = map_of (pr_fds p) fd" if "3 \<le> fd" for fd
    using that by (cases null_ok) (auto simp: redirect_stdio_eq [OF std] redirect_stdio_def [of None] Let_def)
  have new: "f < nd_next_file n + 2" if "map_of ?t fd = Some f" for fd f
  proof (cases "map_of (pr_fds p) fd = Some f")
    case True
    with ok have "f < nd_next_file n" by (auto simp: proc_ok_def)
    then show ?thesis by simp
  next
    case False
    with that show ?thesis
      by (cases null_ok; cases path) (auto simp: redirect_stdio_eq [OF std] redirect_stdio_def [of None] Let_def
          split: if_splits)
  qed
  show ?thesis
  proof (rule node_inv_self [OF assms(1,2), of _ ?p])
    have "keeps_lock n p" using ok assms(3) by (simp add: proc_ok_def)
    then have "keeps_lock (setup_worker pid p null_ok path n) ?p"
      by (rule keeps_lock_mono) (use assms(3) t in \<open>auto simp: setup_worker_def Let_def\<close>)
    with ok new show "proc_ok (setup_worker pid p null_ok path n) pid ?p"
      by (auto simp: proc_ok_def setup_worker_def Let_def)
  qed (use assms(3) in \<open>simp_all add: setup_worker_def Let_def\<close>)
qed

lemma socket_inv:
  assumes "node_inv n" and "proc n pid = Some p" and "is_worker pos = is_worker (pr_pos p)" "\<not> is_php pos" "pos \<noteq> WForked"
    and "n' = (move_to pid p pos n)\<lparr>nd_socket := s\<rparr>"
  shows "node_inv n'"
proof (rule node_inv_self [OF assms(1,2), of _ "p\<lparr>pr_pos := pos\<rparr>"])
  note ok = node_invD(1) [OF assms(1,2)]
  have pos: "lock_fd pos = None" "is_holder pos = is_worker pos" using assms(4) by (cases pos; simp)+
  have "keeps_lock n' (p\<lparr>pr_pos := pos\<rparr>)" if "keeps_lock n p"
    by (rule keeps_lock_mono [OF that]) (use assms(3,4,6) in auto)
  then show "proc_ok n' pid (p\<lparr>pr_pos := pos\<rparr>)"
    using ok assms(3-6) pos worker_holder by (auto simp: proc_ok_def)
  show "is_holder (pr_pos (p\<lparr>pr_pos := pos\<rparr>)) \<Longrightarrow> is_holder (pr_pos p)" using assms(3) pos worker_holder by simp
qed (use assms(6) in simp_all)

lemma node_step_inv:
  assumes "node_step n n'" and "node_inv n"
  shows "node_inv n'"
  using assms(1)
proof cases
  case php_start
  then show ?thesis by (simp add: start_php_def start_proc_inv [OF assms(2)])
next
  case alone_start
  then show ?thesis by (simp add: start_proc_inv [OF assms(2)])
next
  case (php_fork pid p)
  with node_invD(1) [OF assms(2) php_fork(2)] show ?thesis
    by (auto intro!: fork_php_inv [OF assms(2)] dest: php_no_worker simp: proc_ok_def)
next
  case (php_open pid p)
  then show ?thesis by (intro open_file_inv [OF assms(2) php_open(2), of "pr_pos p"]) (simp_all add: open_other_def)
next
  case (open_ok pid p)
  then show ?thesis
    by (intro open_file_inv [OF assms(2) open_ok(2), of "LockOpen (lowest_free (pr_fds p))"])
      (simp_all add: open_lock_def fd_open_def)
next
  case (php_close pid p fd)
  then have "close_other pid p fd n = drop_lock pid p fd n" by (cases p) (simp add: close_other_def drop_lock_def)
  with php_close drop_inv [OF assms(2) php_close(2)] show ?thesis by simp
next
  case (fork_failed pid p fd)
  then show ?thesis using node_invD(1) [OF assms(2) fork_failed(2)] by (auto intro!: drop_inv [OF assms(2)] simp: proc_ok_def)
next
  case (leave pid p fd)
  then show ?thesis using node_invD(1) [OF assms(2) leave(2)] by (auto intro!: drop_inv [OF assms(2)] simp: proc_ok_def)
next
  case (die pid)
  then show ?thesis using assms(2) by (auto simp: node_inv_def proc_ok_def keeps_lock_def)
next
  case (worker_close pid p fd f)
  then show ?thesis using worker_close_inv [OF assms(2)] by blast
next
  case (lock_ok pid p fd)
  then show ?thesis using take_lock_inv [OF assms(2)] by blast
next
  case (fork pid p fd)
  then show ?thesis using fork_worker_inv [OF assms(2)] by blast
next
  case (set_up pid p null_ok path)
  then show ?thesis using setup_inv [OF assms(2)] by blast
next
  case (unlink pid p)
  then show ?thesis by (intro socket_inv [OF assms(2) unlink(2), of WUnlinked _ None]) (simp_all add: unlink_socket_def)
next
  case (bind pid p)
  then show ?thesis by (intro socket_inv [OF assms(2) bind(2), of WServing _ "Some pid"]) (simp_all add: bind_socket_def)
next
  case (cleanup pid p)
  then show ?thesis by (intro socket_inv [OF assms(2) cleanup(2), of WRemoved _ None]) (simp_all add: unlink_socket_def)
next
  case (alone_unlink pid p)
  then show ?thesis
    by (intro socket_inv [OF assms(2) alone_unlink(2), of AUnlinked _ None]) (simp_all add: unlink_socket_def)
next
  case (alone_bind pid p)
  then show ?thesis
    by (intro socket_inv [OF assms(2) alone_bind(2), of AServing _ "Some pid"]) (simp_all add: bind_socket_def)
next
  case (alone_cleanup pid p)
  then show ?thesis
    by (intro socket_inv [OF assms(2) alone_cleanup(2), of ARemoved _ None]) (simp_all add: unlink_socket_def)
qed (auto intro!: move_inv [OF assms(2)])

lemma node_reachable_inv: "node_step\<^sup>*\<^sup>* node_start n \<Longrightarrow> node_inv n"
proof (induction rule: rtranclp_induct)
  case base
  show ?case by (simp add: node_inv_def node_start_def proc_def)
qed (rule node_step_inv)

section \<open>Executing steps\<close>

text \<open>
  The calls of one process after another, as a function that fails when a call is not possible
  there: runs can be computed.
\<close>

datatype node_call =
    StartPhp | ForkPhp nat | Probe nat | OpenLock nat | Flock nat | Fork nat | Leave nat
  | SetUp nat | Unlink nat | Bind nat | Return nat | Cleanup nat | Die nat
  | StartAlone | AloneUnlink nat | AloneBind nat | AloneReturn nat | AloneCleanup nat

definition when_at :: "(proc_pos \<Rightarrow> bool) \<Rightarrow> nat \<Rightarrow> (nproc \<Rightarrow> node \<Rightarrow> node) \<Rightarrow> node \<Rightarrow> node option" where
  "when_at ok pid call n =
     (case proc n pid of Some p \<Rightarrow> if ok (pr_pos p) then Some (call p n) else None | None \<Rightarrow> None)"

definition held_fd :: "nproc \<Rightarrow> nat" where
  "held_fd p = (case lock_fd (pr_pos p) of Some fd \<Rightarrow> fd | None \<Rightarrow> 0)"

fun exec_call :: "node_call \<Rightarrow> node \<Rightarrow> node option" where
  "exec_call StartPhp n = Some (start_php n)"
| "exec_call (ForkPhp pid) n = when_at is_php pid (fork_proc PhpCode) n"
| "exec_call (Probe pid) n = when_at (\<lambda>pos. pos = PhpCode) pid (\<lambda>p. move_to pid p Probed) n"
| "exec_call (OpenLock pid) n = when_at (\<lambda>pos. pos = Probed) pid (open_lock pid) n"
| "exec_call (Flock pid) n =
     when_at (\<lambda>pos. case pos of LockOpen _ \<Rightarrow> True | _ \<Rightarrow> False) pid
       (\<lambda>p. if lock_free n then take_lock pid p (held_fd p) else move_to pid p (AwaitSocket (held_fd p))) n"
| "exec_call (Fork pid) n =
     when_at (\<lambda>pos. case pos of LockHeld _ \<Rightarrow> True | _ \<Rightarrow> False) pid (\<lambda>p. fork_worker pid p (held_fd p)) n"
| "exec_call (Leave pid) n =
     when_at (\<lambda>pos. case pos of AwaitSocket _ \<Rightarrow> True | LockHeld _ \<Rightarrow> True | _ \<Rightarrow> False) pid
       (\<lambda>p. drop_lock pid p (held_fd p)) n"
| "exec_call (SetUp pid) n = when_at (\<lambda>pos. pos = WForked) pid (\<lambda>p. setup_worker pid p True None) n"
| "exec_call (Unlink pid) n = when_at (\<lambda>pos. pos = WSetup) pid (\<lambda>p. unlink_socket pid p WUnlinked) n"
| "exec_call (Bind pid) n =
     (if nd_socket n = None then when_at (\<lambda>pos. pos = WUnlinked) pid (\<lambda>p. bind_socket pid p WServing) n else None)"
| "exec_call (Return pid) n = when_at (\<lambda>pos. pos = WServing) pid (\<lambda>p. move_to pid p WReturned) n"
| "exec_call (Cleanup pid) n = when_at (\<lambda>pos. pos = WReturned) pid (\<lambda>p. unlink_socket pid p WRemoved) n"
| "exec_call (Die pid) n = Some (kill_proc pid n)"
| "exec_call StartAlone n = Some (start_proc AStarted n)"
| "exec_call (AloneUnlink pid) n = when_at (\<lambda>pos. pos = AStarted) pid (\<lambda>p. unlink_socket pid p AUnlinked) n"
| "exec_call (AloneBind pid) n =
     (if nd_socket n = None then when_at (\<lambda>pos. pos = AUnlinked) pid (\<lambda>p. bind_socket pid p AServing) n else None)"
| "exec_call (AloneReturn pid) n = when_at (\<lambda>pos. pos = AServing) pid (\<lambda>p. move_to pid p AReturned) n"
| "exec_call (AloneCleanup pid) n = when_at (\<lambda>pos. pos = AReturned) pid (\<lambda>p. unlink_socket pid p ARemoved) n"

fun exec_calls :: "node_call list \<Rightarrow> node \<Rightarrow> node option" where
  "exec_calls [] n = Some n"
| "exec_calls (c # cs) n = Option.bind (exec_call c n) (exec_calls cs)"

lemma exec_call_step: "exec_call c n = Some n' \<Longrightarrow> node_step n n'"
  by (cases c)
    (auto simp: when_at_def held_fd_def intro: node_step.intros split: option.splits if_splits proc_pos.splits)

lemma exec_calls_run: "exec_calls cs n = Some n' \<Longrightarrow> node_step\<^sup>*\<^sup>* n n'"
  by (induction cs arbitrary: n)
    (auto simp: bind_eq_Some_conv intro: converse_rtranclp_into_rtranclp dest: exec_call_step)

section \<open>Properties\<close>

text \<open>
  C3: Whatever the PHP processes and workers of one socket path do and whenever they die, at most
  one worker forked by a PHP process lives at a time: the child inherits the open lock file, so
  the lock lasts as long as the worker, and nobody else gets to fork. Stand-alone workers may
  come and go; they take no lock and are not counted.
\<close>
theorem at_most_one_worker:
  assumes "node_step\<^sup>*\<^sup>* node_start n" and "proc n w = Some p" and "is_worker (pr_pos p)"
  shows "\<not> lock_free n \<and> {v. \<exists>q. proc n v = Some q \<and> is_holder (pr_pos q)} = {w}"
  using lock_free_no_holder node_invD(2) node_reachable_inv [OF assms(1)] assms(2,3) worker_holder by blast

definition demo_spawn :: "node_call list" where
  "demo_spawn = [StartPhp, ForkPhp 1, Probe 1, Probe 2, OpenLock 1, Flock 1, Fork 1, SetUp 3, Unlink 3, Bind 3, Leave 1]"

definition demo_served :: node where
  "demo_served =
     \<lparr>nd_procs =
        [(1, \<lparr>pr_pos = PhpCode, pr_fds = [(0, 0), (1, 0), (2, 0)], pr_born = 1\<rparr>),
         (2, \<lparr>pr_pos = Probed, pr_fds = [(0, 0), (1, 0), (2, 0)], pr_born = 1\<rparr>),
         (3, \<lparr>pr_pos = WServing, pr_fds = [(0, 2), (1, 2), (2, 2), (3, 1)], pr_born = 2\<rparr>)],
      nd_next_pid = 4, nd_next_file = 4, nd_lock = Some 1, nd_socket = Some 3\<rparr>"

lemma demo_spawn_run: "exec_calls demo_spawn node_start = Some demo_served"
  by code_simp

lemma demo_served_worker: "proc demo_served 3 =
    Some \<lparr>pr_pos = WServing, pr_fds = [(0, 2), (1, 2), (2, 2), (3, 1)], pr_born = 2\<rparr>"
  by (simp add: proc_def demo_served_def)

theorem at_most_one_worker_witness:
  "\<not> lock_free demo_served \<and> {v. \<exists>q. proc demo_served v = Some q \<and> is_holder (pr_pos q)} = {3}"
  using at_most_one_worker [OF exec_calls_run [OF demo_spawn_run] demo_served_worker] by simp

section \<open>The socket path\<close>

text \<open>
  A stand-alone worker removes the file at the socket path, when it starts or when it ends; a step is
  calm when this does not happen while a worker serves.
\<close>

definition alone_removes :: "node \<Rightarrow> node \<Rightarrow> bool" where
  "alone_removes n n' \<longleftrightarrow>
     list_ex (\<lambda>(v, q). pr_pos q = AStarted \<and> n' = unlink_socket v q AUnlinked n
        \<or> pr_pos q = AReturned \<and> n' = unlink_socket v q ARemoved n) (nd_procs n)"

definition some_serves :: "node \<Rightarrow> bool" where
  "some_serves n \<longleftrightarrow> list_ex (\<lambda>(_, p). pr_pos p = WServing) (nd_procs n)"

definition calm_step :: "node \<Rightarrow> node \<Rightarrow> bool" where
  "calm_step n n' \<longleftrightarrow> node_step n n' \<and> (some_serves n \<longrightarrow> \<not> alone_removes n n')"

fun calm_calls :: "node_call list \<Rightarrow> node \<Rightarrow> node option" where
  "calm_calls [] n = Some n"
| "calm_calls (c # cs) n =
     (case exec_call c n of
        Some n' \<Rightarrow> if some_serves n \<and> alone_removes n n' then None else calm_calls cs n'
      | None \<Rightarrow> None)"

lemma calm_calls_run: "calm_calls cs n = Some n' \<Longrightarrow> calm_step\<^sup>*\<^sup>* n n'"
proof (induction cs arbitrary: n)
  case (Cons c cs)
  then obtain m where "exec_call c n = Some m" "\<not> (some_serves n \<and> alone_removes n m)" "calm_calls cs m = Some n'"
    by (auto split: option.splits if_splits)
  then have "calm_step n m" "calm_step\<^sup>*\<^sup>* m n'"
    by (auto simp: calm_step_def [of n m] intro: Cons.IH dest: exec_call_step)
  then show ?case by (rule converse_rtranclp_into_rtranclp)
qed simp

lemma calm_run: "calm_step\<^sup>*\<^sup>* n n' \<Longrightarrow> node_step\<^sup>*\<^sup>* n n'"
  by (erule rtranclp_mono [THEN predicate2D, rotated]) (auto simp: calm_step_def)

lemma proc_entry: "proc n pid = Some p \<Longrightarrow> (pid, p) \<in> set (nd_procs n)"
  by (auto simp: proc_def dest: map_of_SomeD)

lemma some_servesI: "proc n pid = Some p \<Longrightarrow> pr_pos p = WServing \<Longrightarrow> some_serves n"
  by (force simp: some_serves_def list_ex_iff dest: proc_entry)

lemma alone_removesI:
  "proc n v = Some q \<Longrightarrow> pr_pos q = AStarted \<Longrightarrow> alone_removes n (unlink_socket v q AUnlinked n)"
  "proc n v = Some q \<Longrightarrow> pr_pos q = AReturned \<Longrightarrow> alone_removes n (unlink_socket v q ARemoved n)"
  by (force simp: alone_removes_def list_ex_iff dest: proc_entry)+

lemmas call_defs = start_php_def start_proc_def fork_proc_def fork_worker_def open_lock_def take_lock_def drop_lock_def
  setup_worker_def unlink_socket_def bind_socket_def open_other_def close_other_def fd_open_def Let_def

text \<open>A worker gets to serve by binding; whoever changes the path is at work on it.\<close>

lemma serving_before:
  assumes "node_step n n'" and "proc n' w = Some p'" and "pr_pos p' = WServing"
  shows "(\<exists>p. proc n w = Some p \<and> pr_pos p = WServing)
    \<or> (\<exists>p. proc n w = Some p \<and> pr_pos p = WUnlinked \<and> nd_socket n' = Some w)"
  using assms by (elim node_stepE) (auto simp: call_defs split: if_splits)

lemma path_change:
  assumes "node_step n n'" and "nd_socket n' \<noteq> nd_socket n"
  shows "(\<exists>v q. proc n v = Some q \<and> (pr_pos q = WSetup \<or> pr_pos q = WReturned))
    \<or> nd_socket n = None \<or> alone_removes n n'"
  using assms
  by (elim node_stepE)
    (auto simp: call_defs [unfolded unlink_socket_def] kill_proc_def intro: alone_removesI split: if_splits)

lemma path_kept:
  assumes "node_inv n" and "node_step n n'" and "\<not> alone_removes n n'"
    and "proc n w = Some p" and "pr_pos p = WServing" and "nd_socket n = Some w"
  shows "nd_socket n' = Some w"
proof (rule ccontr)
  assume "\<not> ?thesis"
  with path_change [OF assms(2)] assms(3,6)
  obtain v q where "proc n v = Some q" "pr_pos q = WSetup \<or> pr_pos q = WReturned" by auto
  then have v: "proc n v = Some q" "is_worker (pr_pos q)" "pr_pos q \<noteq> WServing" by auto
  have "v = w" by (rule node_invD(2) [OF assms(1,4) _ v(1)]) (use assms(5) v(2) worker_holder in simp_all)
  with v assms(4,5) show False by simp
qed

lemma calm_path:
  assumes "calm_step\<^sup>*\<^sup>* node_start n" and "proc n w = Some p" and "pr_pos p = WServing"
  shows "nd_socket n = Some w"
  using assms
proof (induction arbitrary: p rule: rtranclp_induct)
  case base
  then show ?case by (simp add: node_start_def proc_def)
next
  case (step n n')
  from step.hyps(2) have s: "node_step n n'" "some_serves n \<Longrightarrow> \<not> alone_removes n n'" by (auto simp: calm_step_def)
  show ?case
  proof (cases "\<exists>p. proc n w = Some p \<and> pr_pos p = WServing")
    case True
    then obtain q where q: "proc n w = Some q" "pr_pos q = WServing" by blast
    have "node_inv n" by (rule node_reachable_inv [OF calm_run [OF step.hyps(1)]])
    then show ?thesis using path_kept s step.IH q some_servesI by blast
  next
    case False
    with serving_before [OF s(1) step.prems] show ?thesis by blast
  qed
qed

text \<open>
  C14: As long as the accept loop of a forked worker runs, the socket path leads to it: nothing that
  PHP processes and other workers of theirs do takes the path away, be it a worker that
  starts and removes a stale socket file or one that ends and cleans up. Only a stand-alone
  worker, which removes the file without the lock, can; when none did so while a worker
  served, the worker is reachable, and it stays reachable until one does.
\<close>
theorem serving_worker_is_reachable:
  assumes "calm_step\<^sup>*\<^sup>* node_start n" and "proc n w = Some p" and "pr_pos p = WServing"
  shows "nd_socket n = Some w \<and> node_accepts n
    \<and> (\<forall>n' p'. node_step n n' \<and> proc n' w = Some p' \<and> pr_pos p' = WServing \<and> \<not> alone_removes n n'
         \<longrightarrow> nd_socket n' = Some w \<and> node_accepts n')"
proof -
  note path = calm_path [OF assms]
  have "nd_socket n' = Some w" if "node_step n n'" "\<not> alone_removes n n'" for n'
    using path_kept node_reachable_inv [OF calm_run [OF assms(1)]] that assms(2,3) path by blast
  with path assms(2,3) show ?thesis by (auto simp: node_accepts_def)
qed

text \<open>A stand-alone worker serves and ends; then a PHP process gets a worker of its own.\<close>

definition demo_after_alone :: "node_call list" where
  "demo_after_alone =
     [StartPhp, StartAlone, AloneUnlink 2, AloneBind 2, AloneReturn 2, Probe 1, AloneCleanup 2, Die 2, OpenLock 1,
      Flock 1, Fork 1, SetUp 3, Unlink 3, Bind 3, Leave 1, StartAlone]"

theorem serving_worker_is_reachable_witness:
  "map_option nd_socket (calm_calls demo_after_alone node_start) = Some (Some 3)
   \<and> map_option node_accepts (calm_calls demo_after_alone node_start) = Some True"
proof -
  obtain n where n: "calm_calls demo_after_alone node_start = Some n"
    "map_option pr_pos (proc n 3) = Some WServing"
  proof
    show "calm_calls demo_after_alone node_start = Some (the (calm_calls demo_after_alone node_start))" by code_simp
    show "map_option pr_pos (proc (the (calm_calls demo_after_alone node_start)) 3) = Some WServing" by code_simp
  qed
  then obtain p where "proc n 3 = Some p" "pr_pos p = WServing" by auto
  from serving_worker_is_reachable [OF calm_calls_run [OF n(1)] this] n(1) show ?thesis by simp
qed

text \<open>
  What a stand-alone worker does to a worker that serves: it removes its socket file, so that nobody
  reaches that worker, and binds the path to itself, while the other goes on with its accept loop
  and keeps the lock.
\<close>

lemma alone_worker_takes_path:
  "\<exists>n p q. node_step\<^sup>*\<^sup>* node_start n \<and> proc n 3 = Some p \<and> pr_pos p = WServing \<and> \<not> lock_free n
    \<and> proc n 4 = Some q \<and> pr_pos q = AServing \<and> nd_socket n = Some 4"
proof -
  let ?cs = "demo_spawn @ [StartAlone, AloneUnlink 4, AloneBind 4]"
  let ?n = "the (exec_calls ?cs node_start)"
  have n: "exec_calls ?cs node_start = Some ?n" by code_simp
  have p: "map_option pr_pos (proc ?n 3) = Some WServing" "map_option pr_pos (proc ?n 4) = Some AServing" by code_simp+
  have "nd_socket ?n = Some 4" "\<not> lock_free ?n" by code_simp+
  with exec_calls_run [OF n] p show ?thesis by (auto intro!: exI [of _ ?n])
qed

section \<open>A closed standard stream\<close>

text \<open>
  A PHP process that has closed its standard input gets the descriptor 0 for the lock file; its
  child replaces that descriptor by the null device, so the lock is free as soon as the parent
  leaves \<open>ensure_worker\<close>: the next process gets it and forks a second worker, which removes the
  socket file of the first.
\<close>

definition closed_stdin :: "nat \<Rightarrow> node \<Rightarrow> node" where
  "closed_stdin pid n = (case proc n pid of Some p \<Rightarrow> close_other pid p 0 n | None \<Rightarrow> n)"

definition demo_second_worker :: "node_call list" where
  "demo_second_worker =
     [Probe 1, Probe 2, OpenLock 1, Flock 1, Fork 1, SetUp 3, Unlink 3, Bind 3, Leave 1,
      OpenLock 2, Flock 2, Fork 2, SetUp 4, Unlink 4, Bind 4]"

lemma lock_lost_without_stdin:
  "\<exists>n. Option.bind (exec_calls [StartPhp, StartPhp] node_start) (exec_calls demo_second_worker \<circ> closed_stdin 1) = Some n
    \<and> map_option pr_pos (proc n 3) = Some WServing \<and> map_option pr_pos (proc n 4) = Some WServing
    \<and> nd_socket n = Some 4"
proof -
  let ?r = "Option.bind (exec_calls [StartPhp, StartPhp] node_start) (exec_calls demo_second_worker \<circ> closed_stdin 1)"
  have "?r = Some (the ?r)" by code_simp
  moreover have "map_option pr_pos (proc (the ?r) 3) = Some WServing" "map_option pr_pos (proc (the ?r) 4) = Some WServing"
    "nd_socket (the ?r) = Some 4" by code_simp+
  ultimately show ?thesis by blast
qed

section \<open>Waiting in vain\<close>
text \<open>A process that waits for the socket never takes the lock, even when it has become free.\<close>

lemma waiting_only_leaves:
  assumes "node_step n n'" and "proc n pid = Some p" and "pr_pos p = AwaitSocket fd" and "proc n' pid = Some p'"
    and "pid < nd_next_pid n"
  shows "pr_pos p' \<in> {AwaitSocket fd, PhpCode}"
  using assms
  by (elim node_stepE)
    (auto simp: call_defs split: if_splits)

text \<open>
  C37: A process that starts while the last worker is about to exit waits in vain: the exiting
  worker no longer accepts connections but still has the lock, so the process waits for a socket
  that nobody will bind; when the worker is gone and the lock is free it goes on waiting and
  all it can do is to leave without a worker.
\<close>
theorem restart_race_waits_in_vain:
  "\<exists>n fd. node_step\<^sup>*\<^sup>* node_start n \<and> map_option pr_pos (proc n 2) = Some (AwaitSocket fd)
    \<and> lock_free n \<and> nd_socket n = None \<and> list_all (\<lambda>(_, p). \<not> is_worker (pr_pos p)) (nd_procs n)
    \<and> {pr_pos q | n' q. node_step n n' \<and> proc n' 2 = Some q} \<subseteq> {AwaitSocket fd, PhpCode}"
proof -
  let ?n = "the (exec_calls (demo_spawn @ [Return 3, OpenLock 2, Flock 2, Cleanup 3, Die 3]) node_start)"
  have n: "exec_calls (demo_spawn @ [Return 3, OpenLock 2, Flock 2, Cleanup 3, Die 3]) node_start = Some ?n" by code_simp
  have p: "map_option pr_pos (proc ?n 2) = Some (AwaitSocket 3)" by code_simp
  have rest: "lock_free ?n" "nd_socket ?n = None" "list_all (\<lambda>(_, p). \<not> is_worker (pr_pos p)) (nd_procs ?n)"
    "2 < nd_next_pid ?n" by code_simp+
  have "{pr_pos q | n' q. node_step ?n n' \<and> proc n' 2 = Some q} \<subseteq> {AwaitSocket 3, PhpCode}"
    using waiting_only_leaves p rest(4) by blast
  with exec_calls_run [OF n] p rest show ?thesis by blast
qed

end
