(* ===== verification/Ext_Node_Code.thy ===== *)
theory Ext_Node_Code
  imports Ext_Node
begin

text \<open>
  The function \<open>ensure_worker\<close> of Ext_Spawn runs on the machine of Ext_Node: an operating system whose
  calls are those of one process there, with arbitrary moves of the other processes before each
  of them. The steps of Ext_Node are the calls of the code, in the order in which it makes them.
\<close>

section \<open>The machine as an operating system\<close>

text \<open>
  The world is the machine, the number of calls made so far and whether every call was possible
  where it was made. \<open>others\<close> is what the other processes do before a call, \<open>fails\<close> which calls fail.
\<close>

type_synonym node_world = "node \<times> nat \<times> bool"

record node_sched =
  sd_others :: "nat \<Rightarrow> node \<Rightarrow> node"
  sd_fails :: "nat \<Rightarrow> bool"

definition sys_call :: "node_sched \<Rightarrow> (nat \<Rightarrow> node \<Rightarrow> 'a \<times> node option) \<Rightarrow> node_world \<Rightarrow> 'a \<times> node_world" where
  "sys_call sd f w =
     (case w of
        (n, t, ok) \<Rightarrow>
          (let n1 = sd_others sd t n in
           case f t n1 of
             (r, Some n2) \<Rightarrow> (r, n2, Suc t, ok)
           | (r, None) \<Rightarrow> (r, n1, Suc t, False)))"

text \<open>
  A probe is made at the start or while waiting for the socket; only the first has consequences
  for where the process is.
\<close>

fun may_probe :: "proc_pos \<Rightarrow> bool" where
  "may_probe PhpCode = True"
| "may_probe (AwaitSocket fd) = True"
| "may_probe _ = False"

definition node_connect :: "nat \<Rightarrow> bool \<Rightarrow> node \<Rightarrow> (io_kind + unit) \<times> node option" where
  "node_connect me fails n =
     (if node_accepts n \<and> \<not> fails then (Inr (), when_at may_probe me (\<lambda>_ n. n) n)
      else
        (Inl ConnectionRefused,
         when_at may_probe me
           (\<lambda>p. if pr_pos p = PhpCode then move_to me p Probed else (\<lambda>n. n)) n))"

definition node_open :: "nat \<Rightarrow> bool \<Rightarrow> node_call option \<Rightarrow> node \<Rightarrow> (io_kind + unit) \<times> node option" where
  "node_open me fails call n =
     (if fails then (Inl (OtherIo 13), when_at (\<lambda>pos. pos = Probed) me (\<lambda>p. move_to me p PhpCode) n)
      else (Inr (), case call of Some c \<Rightarrow> exec_call c n | None \<Rightarrow> when_at (\<lambda>pos. pos = Probed) me (\<lambda>_ n. n) n))"

definition node_os :: "nat \<Rightarrow> node_sched \<Rightarrow> (unit, node_world) os_proc \<Rightarrow> (unit, node_world) os_proc" where
  "node_os me sd os =
     os\<lparr>os_connect := (\<lambda>_. sys_call sd (\<lambda>t. node_connect me (sd_fails sd t))),
        os_now := (\<lambda>w. (30 * fst (snd w), w)),
        os_sleep := (\<lambda>_ w. snd (sys_call sd (\<lambda>_ n. ((), Some n)) w)),
        os_create_parent := (\<lambda>_. sys_call sd (\<lambda>t. node_open me (sd_fails sd t) None)),
        os_open_lock := (\<lambda>_. sys_call sd (\<lambda>t. node_open me (sd_fails sd t) (Some (OpenLock me)))),
        os_flock_nb := (\<lambda>_. sys_call sd (\<lambda>_ n. (lock_free n, exec_call (Flock me) n))),
        os_close_lock := (\<lambda>_ w. snd (sys_call sd (\<lambda>_ n. ((), exec_call (Leave me) n)) w)),
        os_fork := (\<lambda>_. sys_call sd (\<lambda>t n.
          if sd_fails sd t then (Inl (OtherIo 12), when_at (\<lambda>pos. True) me (\<lambda>_ n. n) n)
          else (Inr (), exec_call (Fork me) n)))\<rparr>"

section \<open>Where the process is\<close>

text \<open>The other processes make steps of the machine and cannot change where this one is.\<close>

definition good_sched :: "nat \<Rightarrow> node_sched \<Rightarrow> bool" where
  "good_sched me sd \<longleftrightarrow> (\<forall>t n. node_step\<^sup>*\<^sup>* n (sd_others sd t n) \<and> proc (sd_others sd t n) me = proc n me)"

definition at_pos :: "nat \<Rightarrow> node \<Rightarrow> (proc_pos \<Rightarrow> bool) \<Rightarrow> node_world \<Rightarrow> bool" where
  "at_pos me n0 P w \<longleftrightarrow>
     (case w of (n, t, ok) \<Rightarrow>
        ok \<and> node_step\<^sup>*\<^sup>* n0 n \<and> node_inv n \<and> (\<exists>p. proc n me = Some p \<and> P (pr_pos p)))"

lemma node_steps_inv: "node_step\<^sup>*\<^sup>* n n' \<Longrightarrow> node_inv n \<Longrightarrow> node_inv n'"
  by (induction rule: rtranclp_induct) (auto intro: node_step_inv)

lemma sys_call_at:
  assumes "good_sched me sd" and "at_pos me n0 P w"
    and "\<And>t n p. node_inv n \<Longrightarrow> proc n me = Some p \<Longrightarrow> P (pr_pos p) \<Longrightarrow>
      \<exists>r n' p'. f t n = (r, Some n') \<and> node_step\<^sup>*\<^sup>* n n' \<and> proc n' me = Some p' \<and> Q r (pr_pos p')"
  shows "at_pos me n0 (Q (fst (sys_call sd f w))) (snd (sys_call sd f w))"
proof -
  obtain n t ok where w: "w = (n, t, ok)" by (rule prod_cases3)
  define n1 where "n1 = sd_others sd t n"
  from assms(2) obtain p where p: "ok" "node_step\<^sup>*\<^sup>* n0 n" "node_inv n" "proc n me = Some p" "P (pr_pos p)"
    by (auto simp: at_pos_def w)
  have n1: "node_step\<^sup>*\<^sup>* n n1" "proc n1 me = Some p"
    using assms(1) p(4) by (auto simp: good_sched_def n1_def)
  from assms(3) [OF node_steps_inv [OF n1(1) p(3)] n1(2) p(5), of t]
  obtain r n' p' where "f t n1 = (r, Some n')" "node_step\<^sup>*\<^sup>* n1 n'" "proc n' me = Some p'" "Q r (pr_pos p')" by blast
  moreover have "node_step\<^sup>*\<^sup>* n0 n'" using p(2) n1(1) calculation(2) by (meson rtranclp_trans)
  ultimately show ?thesis
    using p(1) node_steps_inv [OF n1(1) p(3)] node_steps_inv [of n1 n']
    by (auto simp: at_pos_def sys_call_def w n1_def [symmetric])
qed

lemma at_pos_mono: "at_pos me n0 P w \<Longrightarrow> (\<And>pos. P pos \<Longrightarrow> Q pos) \<Longrightarrow> at_pos me n0 Q w"
  by (auto simp: at_pos_def)

fun is_await :: "proc_pos \<Rightarrow> bool" where
  "is_await (AwaitSocket fd) = True"
| "is_await _ = False"

fun is_held :: "proc_pos \<Rightarrow> bool" where
  "is_held (LockHeld fd) = True"
| "is_held _ = False"

fun is_lock_open :: "proc_pos \<Rightarrow> bool" where
  "is_lock_open (LockOpen fd) = True"
| "is_lock_open _ = False"

lemma pos_iffs:
  "is_await pos \<longleftrightarrow> (\<exists>fd. pos = AwaitSocket fd)" "is_held pos \<longleftrightarrow> (\<exists>fd. pos = LockHeld fd)"
  "is_lock_open pos \<longleftrightarrow> (\<exists>fd. pos = LockOpen fd)"
  by (cases pos; simp)+

section \<open>The calls\<close>

lemma one_step: "node_step n n' \<Longrightarrow> node_step\<^sup>*\<^sup>* n n'"
  by blast

lemma first_probe:
  assumes "good_sched me sd" and "at_pos me n0 (\<lambda>pos. pos = PhpCode) w"
  shows "at_pos me n0 (\<lambda>pos. pos = (if fst (worker_alive (node_os me sd os) socket w) then PhpCode else Probed))
    (snd (worker_alive (node_os me sd os) socket w))"
proof -
  have "at_pos me n0 (\<lambda>pos. pos = (case fst (sys_call sd (\<lambda>t. node_connect me (sd_fails sd t)) w) of Inr _ \<Rightarrow> PhpCode | Inl _ \<Rightarrow> Probed))
    (snd (sys_call sd (\<lambda>t. node_connect me (sd_fails sd t)) w))"
    by (rule sys_call_at [OF assms, where Q = "\<lambda>r pos. pos = (case r of Inr _ \<Rightarrow> PhpCode | Inl _ \<Rightarrow> Probed)"])
      (auto simp: node_connect_def when_at_def intro: one_step node_step.probe_failed)
  then show ?thesis
    by (cases "fst (sys_call sd (\<lambda>t. node_connect me (sd_fails sd t)) w)")
      (simp_all add: worker_alive_def node_os_def case_prod_beta)
qed

lemma waiting_probe:
  assumes "good_sched me sd" and "at_pos me n0 is_await w"
  shows "at_pos me n0 is_await (snd (worker_alive (node_os me sd os) socket w))"
proof -
  have "at_pos me n0 is_await (snd (sys_call sd (\<lambda>t. node_connect me (sd_fails sd t)) w))"
    by (rule sys_call_at [OF assms, where Q = "\<lambda>_. is_await"])
      (auto simp: node_connect_def when_at_def pos_iffs)
  then show ?thesis by (simp add: worker_alive_def node_os_def case_prod_beta split: sum.split)
qed

lemma waiting_sleep:
  assumes "good_sched me sd" and "at_pos me n0 is_await w"
  shows "at_pos me n0 is_await (os_sleep (node_os me sd os) ms w)"
  using sys_call_at [OF assms, where Q = "\<lambda>_. is_await" and f = "\<lambda>_ n. ((), Some n)"]
  by (simp add: node_os_def)

lemma waiting_now: "snd (os_now (node_os me sd os) w) = w"
  by (simp add: node_os_def)

lemma wait_at:
  assumes "good_sched me sd" and "at_pos me n0 is_await w"
  shows "at_pos me n0 is_await (snd (wait_for_socket k (node_os me sd os) socket deadline w))"
  using assms(2)
proof (induction k arbitrary: w)
  case (Suc k)
  let ?os = "node_os me sd os"
  have probe: "at_pos me n0 is_await (snd (worker_alive ?os socket w))"
    by (rule waiting_probe [OF assms(1) Suc.prems])
  from Suc.IH [OF waiting_sleep [OF assms(1) probe, of os 30]] probe Suc.prems show ?case
    by (simp add: wait_for_socket_Suc Let_def waiting_now)
qed simp

lemma open_calls:
  assumes "good_sched me sd" and "at_pos me n0 (\<lambda>pos. pos = Probed) w"
  shows "at_pos me n0 (\<lambda>pos. pos = (case fst (os_create_parent (node_os me sd os) path w) of Inr _ \<Rightarrow> Probed | Inl _ \<Rightarrow> PhpCode))
      (snd (os_create_parent (node_os me sd os) path w))"
    and "at_pos me n0 (\<lambda>pos. case fst (os_open_lock (node_os me sd os) path w) of Inr _ \<Rightarrow> is_lock_open pos | Inl _ \<Rightarrow> pos = PhpCode)
      (snd (os_open_lock (node_os me sd os) path w))"
proof -
  have os: "os_create_parent (node_os me sd os) path w = sys_call sd (\<lambda>t. node_open me (sd_fails sd t) None) w"
    "os_open_lock (node_os me sd os) path w = sys_call sd (\<lambda>t. node_open me (sd_fails sd t) (Some (OpenLock me))) w"
    by (simp_all add: node_os_def)
  show "at_pos me n0 (\<lambda>pos. pos = (case fst (os_create_parent (node_os me sd os) path w) of Inr _ \<Rightarrow> Probed | Inl _ \<Rightarrow> PhpCode))
      (snd (os_create_parent (node_os me sd os) path w))"
    unfolding os
    by (rule sys_call_at [OF assms, where Q = "\<lambda>r pos. pos = (case r of Inr _ \<Rightarrow> Probed | Inl _ \<Rightarrow> PhpCode)"])
      (auto simp: node_open_def when_at_def intro: one_step node_step.open_failed)
  show "at_pos me n0 (\<lambda>pos. case fst (os_open_lock (node_os me sd os) path w) of Inr _ \<Rightarrow> is_lock_open pos | Inl _ \<Rightarrow> pos = PhpCode)
      (snd (os_open_lock (node_os me sd os) path w))"
    unfolding os
  proof (rule sys_call_at [OF assms, where Q = "\<lambda>r pos. case r of Inr _ \<Rightarrow> is_lock_open pos | Inl _ \<Rightarrow> pos = PhpCode"])
    fix t n p
    assume p: "node_inv n" "proc n me = Some p" "pr_pos p = Probed"
    have "node_step n (open_lock me p n)" by (rule node_step.open_ok [OF p(2,3)])
    moreover have "node_step n (move_to me p PhpCode n)" by (rule node_step.open_failed [OF p(2,3)])
    moreover have "\<exists>p'. proc (open_lock me p n) me = Some p' \<and> is_lock_open (pr_pos p')"
      by (simp add: open_lock_def fd_open_def)
    ultimately show "\<exists>r n' p'. node_open me (sd_fails sd t) (Some (OpenLock me)) n = (r, Some n') \<and> node_step\<^sup>*\<^sup>* n n'
        \<and> proc n' me = Some p' \<and> (case r of Inr _ \<Rightarrow> is_lock_open (pr_pos p') | Inl _ \<Rightarrow> pr_pos p' = PhpCode)"
      using p by (cases "sd_fails sd t") (auto simp: node_open_def when_at_def)
  qed
qed

lemma flock_call:
  assumes "good_sched me sd" and "at_pos me n0 is_lock_open w"
  shows "at_pos me n0 (\<lambda>pos. if fst (os_flock_nb (node_os me sd os) path w) then is_held pos else is_await pos)
    (snd (os_flock_nb (node_os me sd os) path w))"
proof -
  have os: "os_flock_nb (node_os me sd os) path w = sys_call sd (\<lambda>_ n. (lock_free n, exec_call (Flock me) n)) w"
    by (simp add: node_os_def)
  show ?thesis
    unfolding os
  proof (rule sys_call_at [OF assms, where Q = "\<lambda>r pos. if r then is_held pos else is_await pos"])
    fix t :: nat and n p
    assume p: "node_inv n" "proc n me = Some p" "is_lock_open (pr_pos p)"
    then obtain fd where fd: "pr_pos p = LockOpen fd" by (auto simp: pos_iffs)
    have "lock_free n \<Longrightarrow> node_step n (take_lock me p fd n)" "\<not> lock_free n \<Longrightarrow> node_step n (move_to me p (AwaitSocket fd) n)"
      using p(2) fd by (auto intro: node_step.lock_ok node_step.lock_busy)
    with p fd show "\<exists>r n' p'. (lock_free n, exec_call (Flock me) n) = (r, Some n') \<and> node_step\<^sup>*\<^sup>* n n'
        \<and> proc n' me = Some p' \<and> (if r then is_held (pr_pos p') else is_await (pr_pos p'))"
      by (cases "lock_free n") (auto simp: when_at_def held_fd_def take_lock_def)
  qed
qed

lemma fork_call:
  assumes "good_sched me sd" and "at_pos me n0 is_held w"
  shows "at_pos me n0 (\<lambda>pos. case fst (os_fork (node_os me sd os) cfg w) of Inr _ \<Rightarrow> is_await pos | Inl _ \<Rightarrow> is_held pos)
    (snd (os_fork (node_os me sd os) cfg w))"
proof -
  let ?f = "\<lambda>t n. if sd_fails sd t then (Inl (OtherIo 12), when_at (\<lambda>pos. True) me (\<lambda>_ n. n) n)
    else (Inr (), exec_call (Fork me) n)"
  have os: "os_fork (node_os me sd os) cfg w = sys_call sd ?f w" by (simp add: node_os_def)
  show ?thesis
    unfolding os
  proof (rule sys_call_at [OF assms, where Q = "\<lambda>r pos. case r of Inr _ \<Rightarrow> is_await pos | Inl _ \<Rightarrow> is_held pos"])
    fix t n p
    assume p: "node_inv n" "proc n me = Some p" "is_held (pr_pos p)"
    then obtain fd where fd: "pr_pos p = LockHeld fd" by (auto simp: pos_iffs)
    have "node_step n (fork_worker me p fd n)" by (rule node_step.fork [OF p(2) fd])
    moreover have "me \<noteq> nd_next_pid n" using node_invD(1) [OF p(1,2)] by (simp add: proc_ok_def)
    then have "\<exists>p'. proc (fork_worker me p fd n) me = Some p' \<and> is_await (pr_pos p')"
      by (simp add: fork_worker_def fork_proc_def)
    ultimately show "\<exists>r n' p'. ?f t n = (r, Some n') \<and> node_step\<^sup>*\<^sup>* n n' \<and> proc n' me = Some p'
        \<and> (case r of Inr _ \<Rightarrow> is_await (pr_pos p') | Inl _ \<Rightarrow> is_held (pr_pos p'))"
      using p fd by (cases "sd_fails sd t") (auto simp: when_at_def held_fd_def)
  qed
qed

lemma close_call:
  assumes "good_sched me sd" and "at_pos me n0 (\<lambda>pos. is_held pos \<or> is_await pos) w"
  shows "at_pos me n0 (\<lambda>pos. pos = PhpCode) (os_close_lock (node_os me sd os) path w)"
proof -
  have os: "os_close_lock (node_os me sd os) path w = snd (sys_call sd (\<lambda>_ n. ((), exec_call (Leave me) n)) w)"
    by (simp add: node_os_def)
  show ?thesis
    unfolding os
  proof (rule sys_call_at [OF assms, where Q = "\<lambda>_ pos. pos = PhpCode"])
    fix t :: nat and n p
    assume p: "node_inv n" "proc n me = Some p" "is_held (pr_pos p) \<or> is_await (pr_pos p)"
    then obtain fd where fd: "pr_pos p = LockHeld fd \<or> pr_pos p = AwaitSocket fd" by (auto simp: pos_iffs)
    then have "node_step n (drop_lock me p fd n)" using p(2) by (auto intro: node_step.fork_failed node_step.leave)
    then show "\<exists>r n' p'. ((), exec_call (Leave me) n) = (r, Some n') \<and> node_step\<^sup>*\<^sup>* n n'
        \<and> proc n' me = Some p' \<and> pr_pos p' = PhpCode"
      using p fd by (auto simp: when_at_def held_fd_def drop_lock_def)
  qed
qed

section \<open>The function\<close>

lemma spawn_at:
  assumes "good_sched me sd" and "at_pos me n0 is_held w"
  shows "at_pos me n0 (\<lambda>pos. case fst (spawn_worker_inproc (node_os me sd os) cfg w) of Ok _ \<Rightarrow> is_await pos | _ \<Rightarrow> is_held pos)
    (snd (spawn_worker_inproc (node_os me sd os) cfg w))"
  using assms(2) fork_call [OF assms, of os "to_child_config (node_os me sd os) cfg"]
  by (auto simp: spawn_worker_inproc_def Let_def io_act_def case_prod_beta split: sum.splits)

lemma spawn_locked_at:
  assumes "good_sched me sd" and "at_pos me n0 is_lock_open w"
  shows "at_pos me n0 (\<lambda>pos. pos = PhpCode) (snd (spawn_locked (node_os me sd os) cfg w))"
proof -
  let ?os = "node_os me sd os"
  let ?f = "os_flock_nb ?os (lock_path_for (sc_socket cfg)) w"
  let ?wait = "wait_for_socket (wait_fuel cfg) ?os (sc_socket cfg) (clock_ms ?os (snd ?f) + sc_ready_timeout cfg)"
  let ?r = "if fst ?f then bind_act (spawn_worker_inproc ?os cfg) (\<lambda>_. ?wait) (snd ?f) else ?wait (snd ?f)"
  note flock = flock_call [OF assms, of os "lock_path_for (sc_socket cfg)"]
  have "at_pos me n0 (\<lambda>pos. is_held pos \<or> is_await pos) (snd ?r)"
  proof (cases "fst ?f")
    case True
    with flock have held: "at_pos me n0 is_held (snd ?f)" by simp
    note spawn = spawn_at [OF assms(1) held, of os cfg]
    obtain r w2 where rw: "spawn_worker_inproc ?os cfg (snd ?f) = (r, w2)" by (rule prod.exhaust)
    with spawn True show ?thesis
      by (cases r) (auto simp: bind_act_def rw elim!: at_pos_mono intro: at_pos_mono [OF wait_at [OF assms(1)]])
  next
    case False
    with flock have "at_pos me n0 is_await (snd ?f)" by simp
    from at_pos_mono [OF wait_at [OF assms(1) this]] False show ?thesis by simp
  qed
  from close_call [OF assms(1) this] show ?thesis by (simp add: spawn_locked_alt Let_def waiting_now)
qed

lemma ensure_worker_at:
  assumes "good_sched me sd" and "at_pos me n0 (\<lambda>pos. pos = PhpCode) w"
  shows "at_pos me n0 (\<lambda>pos. pos = PhpCode) (snd (ensure_worker (node_os me sd os) cfg w))"
proof -
  let ?os = "node_os me sd os" and ?lock = "lock_path_for (sc_socket cfg)"
  obtain a w1 where a: "worker_alive ?os (sc_socket cfg) w = (a, w1)" by (rule prod.exhaust)
  obtain r2 w2 where r2: "os_create_parent ?os ?lock w1 = (r2, w2)" by (rule prod.exhaust)
  obtain r3 w3 where r3: "os_open_lock ?os ?lock w2 = (r3, w3)" by (rule prod.exhaust)
  obtain r4 w4 where r4: "spawn_locked ?os cfg w3 = (r4, w4)" by (rule prod.exhaust)
  have w1: "at_pos me n0 (\<lambda>pos. pos = (if a then PhpCode else Probed)) w1"
    using first_probe [OF assms, of os "sc_socket cfg"] a by simp
  have w2: "at_pos me n0 (\<lambda>pos. pos = (case r2 of Inr _ \<Rightarrow> Probed | Inl _ \<Rightarrow> PhpCode)) w2" if "\<not> a"
    using open_calls(1) [OF assms(1), of n0 w1 os ?lock] w1 r2 that by simp
  have w3: "at_pos me n0 (\<lambda>pos. case r3 of Inr _ \<Rightarrow> is_lock_open pos | Inl _ \<Rightarrow> pos = PhpCode) w3"
    if "\<not> a" "r2 = Inr ()"
    using open_calls(2) [OF assms(1), of n0 w2 os ?lock] w2 r3 that by simp
  have w4: "at_pos me n0 (\<lambda>pos. pos = PhpCode) w4" if "\<not> a" "r2 = Inr ()" "r3 = Inr ()"
    using spawn_locked_at [OF assms(1), of n0 w3 os cfg] w3 r4 that by simp
  show ?thesis
    using w1 w2 w3 w4
    by (cases a; cases r2; cases r3; cases r4)
      (simp_all add: ensure_worker_def a r2 r3 r4 bind_act_def io_act_def pure_act_def)
qed

text \<open>
  C9: A PHP process that makes sure of a worker, with the other processes of the machine moving
  arbitrarily before each of its system calls and with calls that may fail, makes only calls that
  the machine allows where it is, in the order of the steps, and is afterwards back in PHP code:
  the function refines the step relation for which at most one worker is proved.
\<close>
theorem ensure_worker_refines_node:
  assumes "good_sched me sd" and "node_step\<^sup>*\<^sup>* node_start n" and "map_option pr_pos (proc n me) = Some PhpCode"
    and "ensure_worker (node_os me sd os) cfg (n, t, True) = (r, n', t', ok)"
  shows "ok \<and> node_step\<^sup>*\<^sup>* n n' \<and> map_option pr_pos (proc n' me) = Some PhpCode"
proof -
  have "at_pos me n (\<lambda>pos. pos = PhpCode) (n, t, True)"
    using assms(3) node_reachable_inv [OF assms(2)] by (auto simp: at_pos_def)
  from ensure_worker_at [OF assms(1) this, of os cfg] assms(4) show ?thesis by (auto simp: at_pos_def)
qed

text \<open>A schedule in which the forked worker, process 2, starts to serve before its parent probes again.\<close>

definition demo_sched :: node_sched where
  "demo_sched =
     \<lparr>sd_others = (\<lambda>t n. if t = 5 then (case exec_calls [SetUp 2, Unlink 2, Bind 2] n of Some n' \<Rightarrow> n' | None \<Rightarrow> n) else n),
      sd_fails = (\<lambda>_. False)\<rparr>"

definition demo_node_os :: "(unit, node_world) os_proc" where
  "demo_node_os =
     \<lparr>os_connect = (\<lambda>_ w. (Inl ConnectionRefused, w)), os_nonblocking = (\<lambda>_ _ w. (True, w)),
      os_read_one = (\<lambda>_ w. (Inl WouldBlock, w)), os_write_timeout = (\<lambda>_ _ w. (Inr (), w)),
      os_read_timeout = (\<lambda>_ _ w. (Inr (), w)), os_write_all = (\<lambda>_ _ w. (Inr (), w)),
      os_read_exact = (\<lambda>_ _ w. (Inl UnexpectedEof, w)), os_close = (\<lambda>_ w. w), os_io_text = (\<lambda>_. []),
      os_env = (\<lambda>_. None), os_ini = [],
      os_parse_addr = (\<lambda>_. None), os_now = (\<lambda>w. (0, w)), os_sleep = (\<lambda>_ w. w),
      os_create_parent = (\<lambda>_ w. (Inr (), w)), os_open_lock = (\<lambda>_ w. (Inr (), w)),
      os_flock_nb = (\<lambda>_ w. (True, w)), os_close_lock = (\<lambda>_ w. w), os_proc_status = (\<lambda>_. None),
      os_fork = (\<lambda>_ w. (Inr (), w))\<rparr>"

definition demo_spawn_config :: spawn_config where
  "demo_spawn_config =
     \<lparr>sc_socket = ''/tmp/hi-kafka.sock'', sc_brokers = None, sc_log_level = ''info'', sc_log_file = None,
      sc_drain_timeout = 0, sc_ready_timeout = 60\<rparr>"

lemma worker_calls_keep:
  assumes "exec_calls [SetUp 2, Unlink 2, Bind 2] n = Some n'"
  shows "proc n' 1 = proc n 1"
  using assms
  by (auto simp: when_at_def bind_eq_Some_conv setup_worker_def unlink_socket_def bind_socket_def Let_def
      split: option.splits if_splits)

lemma demo_sched_good: "good_sched 1 demo_sched"
  using worker_calls_keep exec_calls_run [of "[SetUp 2, Unlink 2, Bind 2]"]
  by (auto simp: good_sched_def demo_sched_def simp del: exec_calls.simps split: option.split)

lemma demo_ensure: "\<exists>n' t'. ensure_worker (node_os 1 demo_sched demo_node_os) demo_spawn_config (start_php node_start, 0, True) =
    (Ok JustSpawned, n', t', True) \<and> node_accepts n'"
proof -
  have "(case ensure_worker (node_os 1 demo_sched demo_node_os) demo_spawn_config (start_php node_start, 0, True) of
      (r, n', t', ok) \<Rightarrow> r = Ok JustSpawned \<and> ok \<and> node_accepts n')" by code_simp
  then show ?thesis by (auto split: prod.splits)
qed

theorem ensure_worker_refines_node_witness:
  "\<exists>n' t'. ensure_worker (node_os 1 demo_sched demo_node_os) demo_spawn_config (start_php node_start, 0, True) =
      (Ok JustSpawned, n', t', True)
    \<and> node_step\<^sup>*\<^sup>* (start_php node_start) n' \<and> map_option pr_pos (proc n' 1) = Some PhpCode"
proof -
  have "node_step\<^sup>*\<^sup>* node_start (start_php node_start)" by (rule one_step) (rule node_step.php_start)
  moreover have "map_option pr_pos (proc (start_php node_start) 1) = Some PhpCode" by code_simp
  ultimately show ?thesis
    using demo_ensure ensure_worker_refines_node [OF demo_sched_good, of "start_php node_start" demo_node_os demo_spawn_config 0]
    by blast
qed

end
