(* ===== verification/Ext_Ipc.thy ===== *)
theory Ext_Ipc
  imports Ext_Spawn
begin

text \<open>
  \<open>ext/src/ipc.rs\<close>, \<open>ext/src/worker_health.rs\<close> and \<open>ext/src/cluster_replay.rs\<close>: the calls a PHP process makes to
  a worker, with the start of a worker when there is none, the replay of what was registered,
  and one retry. The statics of the three modules are the fields of a record. A process makes
  one call at a time.
\<close>

section \<open>State\<close>

record oauth_token =
  ot_token_value :: string
  ot_lifetime_ms :: i64
  ot_principal_name :: string
  ot_extensions :: "config_entry list"

record replay_entry =
  re_config :: "config_entry list"
  re_oauth_token :: "oauth_token option"

definition replay_entry_default :: replay_entry where
  "replay_entry_default = \<lparr>re_config = [], re_oauth_token = None\<rparr>"

type_synonym replay_map = "(string, replay_entry) hmap"

record retry_stats =
  rs_attempts :: u64
  rs_successes :: u64
  rs_failures :: u64

text \<open>
  \<open>POOLS\<close>, \<open>KNOWN_ALIVE\<close>, \<open>EVER_ENSURED\<close>, \<open>REPLAY\<close>, \<open>NEXT_CID\<close> and the \<open>RETRY_\<close> counters. Path keys are strings.
\<close>

record ('c, 'w) ipc_state =
  ic_pools :: "'c pools"
  ic_alive :: "(string, unit) hmap"
  ic_ensured :: "string set"
  ic_replay :: "(string, replay_map) hmap"
  ic_next_cid :: u64
  ic_retry :: retry_stats
  ic_world :: 'w

definition ipc_init :: "'w \<Rightarrow> ('c, 'w) ipc_state" where
  "ipc_init w =
     \<lparr>ic_pools = [], ic_alive = [], ic_ensured = {}, ic_replay = [], ic_next_cid = 1,
      ic_retry = \<lparr>rs_attempts = 0, rs_successes = 0, rs_failures = 0\<rparr>, ic_world = w\<rparr>"

text \<open>The constructors of \<open>IpcError\<close>.\<close>

datatype ipc_error =
    EnsureWorker spawn_error
  | EncodeFailed string
  | PoolFailed pool_error
  | IoFailed io_kind
  | DecodeResp string
  | UnexpectedKind frame_type
  | CidMismatch u64 u64
  | ServerFailed string
  | WorkerFailed error_kind bool i32 string

fun ipc_error_display :: "(io_kind \<Rightarrow> string) \<Rightarrow> ipc_error \<Rightarrow> string" where
  "ipc_error_display io_text (EnsureWorker e) = ''ensure_worker: '' @ spawn_error_display io_text e"
| "ipc_error_display io_text (EncodeFailed e) = ''encode: '' @ e"
| "ipc_error_display io_text (PoolFailed e) = ''pool: '' @ pool_error_display io_text e"
| "ipc_error_display io_text (IoFailed e) = ''io: '' @ io_text e"
| "ipc_error_display io_text (DecodeResp e) = ''decode resp: '' @ e"
| "ipc_error_display io_text (UnexpectedKind k) = ''unexpected resp frame type: '' @ frame_type_debug k"
| "ipc_error_display io_text (CidMismatch sent got) =
     ''cid mismatch: sent '' @ show_nat (unat sent) @ '', got '' @ show_nat (unat got)"
| "ipc_error_display io_text (ServerFailed e) = ''server error: '' @ e"
| "ipc_error_display io_text (WorkerFailed kind retryable native_code message) =
     ''['' @ error_kind_as_str kind @ ''] '' @ message"

type_synonym ('c, 'w, 'a) ipc = "(('c, 'w) ipc_state, ipc_error, 'a) act"

text \<open>A call of the operating system, on the world of the state.\<close>

definition on_world :: "('w, 'e, 'a) act \<Rightarrow> (('c, 'w) ipc_state, 'e, 'a) act" where
  "on_world m st = (case m (ic_world st) of (r, w) \<Rightarrow> (r, st\<lparr>ic_world := w\<rparr>))"

definition map_err_act :: "('e \<Rightarrow> 'f) \<Rightarrow> ('s, 'e, 'a) act \<Rightarrow> ('s, 'f, 'a) act" where
  "map_err_act f m s = (case m s of (r, s') \<Rightarrow> (map_err f r, s'))"

definition modify_act :: "('s \<Rightarrow> 's) \<Rightarrow> ('s, 'e, unit) act" where
  "modify_act f s = (Ok (), f s)"

section \<open>worker\_health.rs\<close>

definition health_ensure :: "('c, 'w) os_proc \<Rightarrow> string \<Rightarrow> (('c, 'w) ipc_state, spawn_error, spawn_outcome) act" where
  "health_ensure os socket st =
     (if map_of (ic_alive st) socket \<noteq> None then (Ok AlreadyAlive, st)
      else
        bind_act (on_world (ensure_worker os (spawn_from_env os socket))) (\<lambda>outcome.
        bind_act (modify_act (\<lambda>s. s\<lparr>ic_alive := AList.update socket () (ic_alive s),
                                    ic_ensured := insert socket (ic_ensured s)\<rparr>)) (\<lambda>_.
        pure_act (Ok outcome))) st)"

definition invalidate :: "string \<Rightarrow> ('c, 'w) ipc_state \<Rightarrow> ('c, 'w) ipc_state" where
  "invalidate socket st = st\<lparr>ic_alive := AList.delete socket (ic_alive st)\<rparr>"

definition cached_count :: "('c, 'w) ipc_state \<Rightarrow> nat" where
  "cached_count st = length (ic_alive st)"

section \<open>cluster\_replay.rs\<close>

definition replay_for :: "string \<Rightarrow> ('c, 'w) ipc_state \<Rightarrow> replay_map" where
  "replay_for socket st = (case map_of (ic_replay st) socket of Some m \<Rightarrow> m | None \<Rightarrow> [])"

text \<open>\<open>entry(..).or_default()\<close> on both levels, then a change of the slot.\<close>

definition upd_replay ::
  "string \<Rightarrow> string \<Rightarrow> (replay_entry \<Rightarrow> replay_entry) \<Rightarrow> ('c, 'w) ipc_state \<Rightarrow> ('c, 'w) ipc_state" where
  "upd_replay socket cluster f st =
     (let m = replay_for socket st;
          slot = (case map_of m cluster of Some e \<Rightarrow> e | None \<Rightarrow> replay_entry_default) in
      st\<lparr>ic_replay := AList.update socket (AList.update cluster (f slot) m) (ic_replay st)\<rparr>)"

definition record_cluster ::
  "string \<Rightarrow> string \<Rightarrow> config_entry list \<Rightarrow> ('c, 'w) ipc_state \<Rightarrow> ('c, 'w) ipc_state" where
  "record_cluster socket cluster config = upd_replay socket cluster (\<lambda>e. e\<lparr>re_config := config\<rparr>)"

definition record_oauth_token ::
  "string \<Rightarrow> string \<Rightarrow> oauth_token \<Rightarrow> ('c, 'w) ipc_state \<Rightarrow> ('c, 'w) ipc_state" where
  "record_oauth_token socket cluster token = upd_replay socket cluster (\<lambda>e. e\<lparr>re_oauth_token := Some token\<rparr>)"

definition replay_snapshot :: "string \<Rightarrow> ('c, 'w) ipc_state \<Rightarrow> (string \<times> replay_entry) list" where
  "replay_snapshot socket st = replay_for socket st"

definition replay_count :: "string \<Rightarrow> ('c, 'w) ipc_state \<Rightarrow> nat" where
  "replay_count socket st = length (replay_for socket st)"

section \<open>Retrying\<close>

fun should_invalidate :: "ipc_error \<Rightarrow> bool" where
  "should_invalidate (EnsureWorker _) = False"
| "should_invalidate (PoolFailed _) = True"
| "should_invalidate (IoFailed k) =
     (k \<in> {BrokenPipe, ConnectionReset, ConnectionRefused, ConnectionAborted, UnexpectedEof})"
| "should_invalidate (EncodeFailed _) = False"
| "should_invalidate (DecodeResp _) = False"
| "should_invalidate (UnexpectedKind _) = False"
| "should_invalidate (CidMismatch _ _) = False"
| "should_invalidate (ServerFailed _) = False"
| "should_invalidate (WorkerFailed _ _ _ _) = False"

abbreviation count_attempt :: "('c, 'w) ipc_state \<Rightarrow> ('c, 'w) ipc_state" where
  "count_attempt st \<equiv> st\<lparr>ic_retry := (ic_retry st)\<lparr>rs_attempts := rs_attempts (ic_retry st) + 1\<rparr>\<rparr>"

abbreviation count_success :: "('c, 'w) ipc_state \<Rightarrow> ('c, 'w) ipc_state" where
  "count_success st \<equiv> st\<lparr>ic_retry := (ic_retry st)\<lparr>rs_successes := rs_successes (ic_retry st) + 1\<rparr>\<rparr>"

abbreviation count_failure :: "('c, 'w) ipc_state \<Rightarrow> ('c, 'w) ipc_state" where
  "count_failure st \<equiv> st\<lparr>ic_retry := (ic_retry st)\<lparr>rs_failures := rs_failures (ic_retry st) + 1\<rparr>\<rparr>"

definition with_retry :: "string \<Rightarrow> ('c, 'w, 'a) ipc \<Rightarrow> ('c, 'w, 'a) ipc" where
  "with_retry socket op st =
     (case op st of
        (Ok v, st1) \<Rightarrow> (Ok v, st1)
      | (Panic, st1) \<Rightarrow> (Panic, st1)
      | (Err e, st1) \<Rightarrow>
          if should_invalidate e then
            (case op (count_attempt (invalidate socket st1)) of
               (Ok v, st2) \<Rightarrow> (Ok v, count_success st2)
             | (Panic, st2) \<Rightarrow> (Panic, st2)
             | (Err e2, st2) \<Rightarrow>
                 let st3 = count_failure st2 in
                 (Err e2, if should_invalidate e2 then invalidate socket st3 else st3))
          else (Err e, st1))"

section \<open>A connection in use\<close>

text \<open>
  While a call holds a connection of the pool, the flag \<open>poisoned\<close> of \<open>PooledConn\<close> goes with the
  state. \<open>with_conn\<close> takes a connection, runs the body and drops the connection on every way out.
\<close>

type_synonym ('c, 'w, 'a) conn_act = "(bool \<times> ('c, 'w) ipc_state, ipc_error, 'a) act"

definition upd_pool ::
  "string \<Rightarrow> ('c conn_pool \<Rightarrow> 'c conn_pool) \<Rightarrow> ('c, 'w) ipc_state \<Rightarrow> ('c, 'w) ipc_state" where
  "upd_pool socket f st =
     (case map_of (ic_pools st) socket of
        Some p \<Rightarrow> st\<lparr>ic_pools := AList.update socket (f p) (ic_pools st)\<rparr>
      | None \<Rightarrow> st)"

definition ipc_acquire :: "('c, 'w) os_proc \<Rightarrow> string \<Rightarrow> ('c, 'w, 'c) ipc" where
  "ipc_acquire os socket st =
     (case pool_for (os_env os) socket (ic_pools st) of
        (p, pools) \<Rightarrow>
          (case acquire os socket (p, ic_world st) of
             (r, p', w') \<Rightarrow>
               (map_err PoolFailed r, st\<lparr>ic_pools := AList.update socket p' pools, ic_world := w'\<rparr>)))"

definition with_conn ::
  "('c, 'w) os_proc \<Rightarrow> string \<Rightarrow> ('c \<Rightarrow> ('c, 'w, 'a) conn_act) \<Rightarrow> ('c, 'w, 'a) ipc" where
  "with_conn os socket body =
     bind_act (ipc_acquire os socket) (\<lambda>c st.
       case body c (False, st) of
         (r, poisoned, st') \<Rightarrow> (r, upd_pool socket (drop_conn poisoned c) st'))"

definition conn_io :: "('w \<Rightarrow> (io_kind + 'a) \<times> 'w) \<Rightarrow> ('c, 'w, 'a) conn_act" where
  "conn_io m s = (case on_world (io_act m IoFailed) (snd s) of (r, st) \<Rightarrow> (r, fst s, st))"

definition poison_conn :: "string \<Rightarrow> bool \<times> ('c, 'w) ipc_state \<Rightarrow> bool \<times> ('c, 'w) ipc_state" where
  "poison_conn socket s = (True, upd_pool socket poison (snd s))"

text \<open>An error that poisons the connection before it is returned.\<close>

definition or_poison :: "string \<Rightarrow> ('c, 'w, 'a) conn_act \<Rightarrow> ('c, 'w, 'a) conn_act" where
  "or_poison socket m s =
     (case m s of
        (Err e, s') \<Rightarrow> (Err e, poison_conn socket s')
      | (Ok x, s') \<Rightarrow> (Ok x, s')
      | (Panic, s') \<Rightarrow> (Panic, s'))"

definition ipc_write_frame ::
  "('c, 'w) os_proc \<Rightarrow> string \<Rightarrow> 'c \<Rightarrow> frame_type \<Rightarrow> u64 \<Rightarrow> bytes \<Rightarrow> nat option \<Rightarrow> ('c, 'w, unit) conn_act" where
  "ipc_write_frame os socket c kind cid payload write_timeout =
     bind_act
       (pure_act
         (case encode_frame kind cid payload [] of
            (Ok _, frame) \<Rightarrow> Ok frame
          | (Err e, _) \<Rightarrow> Err (EncodeFailed (codec_error_display e))
          | (Panic, _) \<Rightarrow> Panic)) (\<lambda>frame.
     bind_act (conn_io (os_write_timeout os c write_timeout)) (\<lambda>_.
     or_poison socket (conn_io (os_write_all os c frame))))"

definition recv_resp ::
  "('c, 'w) os_proc \<Rightarrow> string \<Rightarrow> 'c \<Rightarrow> u64 \<Rightarrow> nat \<Rightarrow> ('c, 'w, frame_type \<times> bytes) conn_act" where
  "recv_resp os socket c cid timeout =
     bind_act (conn_io (os_read_timeout os c (Some timeout))) (\<lambda>_.
     bind_act (or_poison socket (conn_io (os_read_exact os c HEADER_LEN))) (\<lambda>header.
     bind_act
       (or_poison socket (pure_act (map_err (DecodeResp \<circ> codec_error_display) (decode_header header)))) (\<lambda>h.
     if h_cid h \<noteq> cid then or_poison socket (pure_act (Err (CidMismatch cid (h_cid h))))
     else
       bind_act (or_poison socket (conn_io (os_read_exact os c (unat (h_payload_len h))))) (\<lambda>payload.
       if h_kind h = FT_Error then
         bind_act (pure_act (map_err (DecodeResp \<circ> payload_error_display) (error_resp_decode payload))) (\<lambda>er.
         pure_act (Err (WorkerFailed (er_kind er) (er_retryable er) (er_native_code er) (er_message er))))
       else pure_act (Ok (h_kind h, payload))))))"

text \<open>The exchange that \<open>round_trip_once\<close> and the four \<open>produce_*_inner\<close> functions share.\<close>

definition exchange ::
  "('c, 'w) os_proc \<Rightarrow> string \<Rightarrow> frame_type \<Rightarrow> frame_type \<Rightarrow> u64 \<Rightarrow> bytes \<Rightarrow> nat \<Rightarrow> ('c, 'w, bytes) ipc" where
  "exchange os socket req_kind expected_resp_kind cid payload timeout =
     with_conn os socket (\<lambda>c.
       bind_act (ipc_write_frame os socket c req_kind cid payload (Some timeout)) (\<lambda>_.
       bind_act (recv_resp os socket c cid timeout) (\<lambda>(kind, resp_payload).
       if kind \<noteq> expected_resp_kind then or_poison socket (pure_act (Err (UnexpectedKind kind)))
       else pure_act (Ok resp_payload))))"

definition ipc_next_cid :: "('c, 'w, u64) ipc" where
  "ipc_next_cid st = (case next_cid (ic_next_cid st) of (cid, n) \<Rightarrow> (Ok cid, st\<lparr>ic_next_cid := n\<rparr>))"

text \<open>\<open>encode(..).map_err(|e| IpcError::Encode(e.to_string()))?\<close> on a writer.\<close>

definition encoded :: "writer \<Rightarrow> (ipc_error, bytes) outcome" where
  "encoded wr = map_ok (\<lambda>_. fst wr) (map_err (EncodeFailed \<circ> payload_error_display) (snd wr))"

definition decoded :: "(payload_error, 'a) outcome \<Rightarrow> (ipc_error, 'a) outcome" where
  "decoded r = map_err (DecodeResp \<circ> payload_error_display) r"

fun status_result :: "status_resp \<Rightarrow> (ipc_error, unit) outcome" where
  "status_result StatusOk = Ok ()"
| "status_result (StatusErr message) = Err (ServerFailed message)"

section \<open>Ensuring a worker, and replaying what was registered\<close>

text \<open>
  \<open>ensure\<close> calls \<open>replay_clusters\<close>, which calls \<open>register_cluster_once\<close> and \<open>set_oauth_bearer_token_once\<close>,
  which call \<open>round_trip_once\<close>, which calls \<open>ensure\<close>. The functions of this cycle take the inner \<open>ensure\<close>
  as an argument; \<open>ensure_depth\<close> ties the knot up to a depth, and lemma \<open>ensure_depth_two\<close> shows that
  depth two is all that is ever used.
\<close>

definition round_trip_with ::
  "(string \<Rightarrow> ('c, 'w, unit) ipc) \<Rightarrow> ('c, 'w) os_proc \<Rightarrow> string \<Rightarrow> frame_type \<Rightarrow> frame_type \<Rightarrow> bytes \<Rightarrow> nat
    \<Rightarrow> ('c, 'w, bytes) ipc" where
  "round_trip_with ens os socket req_kind expected_resp_kind payload timeout =
     bind_act (ens socket) (\<lambda>_.
     bind_act ipc_next_cid (\<lambda>cid.
     exchange os socket req_kind expected_resp_kind cid payload timeout))"

definition register_cluster_with ::
  "(string \<Rightarrow> ('c, 'w, unit) ipc) \<Rightarrow> ('c, 'w) os_proc \<Rightarrow> string \<Rightarrow> string \<Rightarrow> config_entry list \<Rightarrow> nat
    \<Rightarrow> ('c, 'w, unit) ipc" where
  "register_cluster_with ens os socket cluster config timeout =
     bind_act (pure_act (encoded (register_cluster_req_encode \<lparr>rc_cluster = cluster, rc_config = config\<rparr>))) (\<lambda>payload.
     bind_act
       (round_trip_with ens os socket FT_RegisterClusterReq FT_RegisterClusterResp payload timeout) (\<lambda>resp.
     bind_act (pure_act (decoded (register_cluster_resp_decode resp))) (\<lambda>r.
     pure_act (status_result r))))"

definition set_oauth_with ::
  "(string \<Rightarrow> ('c, 'w, unit) ipc) \<Rightarrow> ('c, 'w) os_proc \<Rightarrow> string \<Rightarrow> string \<Rightarrow> oauth_token \<Rightarrow> nat
    \<Rightarrow> ('c, 'w, unit) ipc" where
  "set_oauth_with ens os socket cluster t timeout =
     bind_act
       (pure_act (encoded (set_oauth_req_encode
          \<lparr>oa_cluster = cluster, oa_token_value = ot_token_value t, oa_lifetime_ms = ot_lifetime_ms t,
           oa_principal_name = ot_principal_name t, oa_extensions = ot_extensions t\<rparr>))) (\<lambda>payload.
     bind_act
       (round_trip_with ens os socket FT_SetOAuthBearerTokenReq FT_SetOAuthBearerTokenResp payload timeout) (\<lambda>resp.
     bind_act (pure_act (decoded (set_oauth_resp_decode resp))) (\<lambda>r.
     pure_act (status_result r))))"

fun replay_loop ::
  "(string \<Rightarrow> ('c, 'w, unit) ipc) \<Rightarrow> ('c, 'w) os_proc \<Rightarrow> string \<Rightarrow> (string \<times> replay_entry) list
    \<Rightarrow> ('c, 'w, unit) ipc" where
  "replay_loop ens os socket [] = pure_act (Ok ())"
| "replay_loop ens os socket ((cluster, e) # rest) =
     bind_act
       (if re_config e \<noteq> [] then register_cluster_with ens os socket cluster (re_config e) 5000
        else pure_act (Ok ())) (\<lambda>_.
     bind_act
       (case re_oauth_token e of
          Some t \<Rightarrow> set_oauth_with ens os socket cluster t 5000
        | None \<Rightarrow> pure_act (Ok ())) (\<lambda>_.
     replay_loop ens os socket rest))"

definition replay_clusters ::
  "(string \<Rightarrow> ('c, 'w, unit) ipc) \<Rightarrow> ('c, 'w) os_proc \<Rightarrow> string \<Rightarrow> ('c, 'w, unit) ipc" where
  "replay_clusters ens os socket st = replay_loop ens os socket (replay_snapshot socket st) st"

definition ensure_with ::
  "(string \<Rightarrow> ('c, 'w, unit) ipc) \<Rightarrow> ('c, 'w) os_proc \<Rightarrow> string \<Rightarrow> ('c, 'w, unit) ipc" where
  "ensure_with ens os socket =
     bind_act (map_err_act EnsureWorker (health_ensure os socket)) (\<lambda>outcome.
     if outcome = JustSpawned then replay_clusters ens os socket else pure_act (Ok ()))"

fun ensure_depth :: "nat \<Rightarrow> ('c, 'w) os_proc \<Rightarrow> string \<Rightarrow> ('c, 'w, unit) ipc" where
  "ensure_depth 0 os socket = pure_act Panic"
| "ensure_depth (Suc n) os socket = ensure_with (ensure_depth n os) os socket"

definition ipc_ensure :: "('c, 'w) os_proc \<Rightarrow> string \<Rightarrow> ('c, 'w, unit) ipc" where
  "ipc_ensure os = ensure_depth 2 os"

section \<open>Round trips\<close>

definition round_trip_once ::
  "('c, 'w) os_proc \<Rightarrow> string \<Rightarrow> frame_type \<Rightarrow> frame_type \<Rightarrow> bytes \<Rightarrow> nat \<Rightarrow> ('c, 'w, bytes) ipc" where
  "round_trip_once os = round_trip_with (ipc_ensure os) os"

definition round_trip ::
  "('c, 'w) os_proc \<Rightarrow> string \<Rightarrow> frame_type \<Rightarrow> frame_type \<Rightarrow> bytes \<Rightarrow> nat \<Rightarrow> ('c, 'w, bytes) ipc" where
  "round_trip os socket req_kind expected_resp_kind payload timeout =
     with_retry socket (round_trip_once os socket req_kind expected_resp_kind payload timeout)"

text \<open>
  The course of the calls below: encode the request, make the round trip, decode the response,
  turn its error variant into \<open>IpcError::Server\<close>.
\<close>

definition rpc ::
  "('c, 'w) os_proc \<Rightarrow> string \<Rightarrow> frame_type \<Rightarrow> frame_type \<Rightarrow> writer \<Rightarrow> (bytes \<Rightarrow> (payload_error, 'r) outcome)
    \<Rightarrow> ('r \<Rightarrow> (ipc_error, 'a) outcome) \<Rightarrow> nat \<Rightarrow> ('c, 'w, 'a) ipc" where
  "rpc os socket req_kind expected_resp_kind req dec fin timeout =
     bind_act (pure_act (encoded req)) (\<lambda>payload.
     bind_act (round_trip os socket req_kind expected_resp_kind payload timeout) (\<lambda>resp.
     bind_act (pure_act (decoded (dec resp))) (\<lambda>r.
     pure_act (fin r))))"

section \<open>Producing\<close>

record produce_options =
  op_headers :: "message_header list"
  op_partition :: i32
  op_timestamp_ms :: i64

definition encode_produce_payload_bin ::
  "string \<Rightarrow> string \<Rightarrow> bytes \<Rightarrow> bytes \<Rightarrow> produce_options \<Rightarrow> (ipc_error, bytes) outcome" where
  "encode_produce_payload_bin cluster topic key val opts =
     encoded (produce_fnf_encode
       \<lparr>pf_cluster = cluster, pf_topic = topic, pf_key = key, pf_value = val,
        pf_partition = op_partition opts, pf_timestamp_ms = op_timestamp_ms opts,
        pf_headers = op_headers opts\<rparr>)"

definition encode_produce_payload ::
  "string \<Rightarrow> string \<Rightarrow> string \<Rightarrow> string \<Rightarrow> produce_options \<Rightarrow> (ipc_error, bytes) outcome" where
  "encode_produce_payload cluster topic key val opts =
     encode_produce_payload_bin cluster topic (as_bytes key) (as_bytes val) opts"

definition produce_fnf_bin_inner ::
  "('c, 'w) os_proc \<Rightarrow> string \<Rightarrow> string \<Rightarrow> string \<Rightarrow> bytes \<Rightarrow> bytes \<Rightarrow> produce_options \<Rightarrow> ('c, 'w, unit) ipc" where
  "produce_fnf_bin_inner os socket cluster topic key val opts =
     bind_act (ipc_ensure os socket) (\<lambda>_.
     bind_act (pure_act (encode_produce_payload_bin cluster topic key val opts)) (\<lambda>payload.
     bind_act ipc_next_cid (\<lambda>cid.
     bind_act (exchange os socket FT_ProduceFnf FT_ProduceResp cid payload 5000) (\<lambda>_.
     pure_act (Ok ())))))"

definition produce_fnf_inner ::
  "('c, 'w) os_proc \<Rightarrow> string \<Rightarrow> string \<Rightarrow> string \<Rightarrow> string \<Rightarrow> string \<Rightarrow> produce_options \<Rightarrow> ('c, 'w, unit) ipc" where
  "produce_fnf_inner os socket cluster topic key val opts =
     bind_act (ipc_ensure os socket) (\<lambda>_.
     bind_act (pure_act (encode_produce_payload cluster topic key val opts)) (\<lambda>payload.
     bind_act ipc_next_cid (\<lambda>cid.
     bind_act (exchange os socket FT_ProduceFnf FT_ProduceResp cid payload 5000) (\<lambda>_.
     pure_act (Ok ())))))"

definition produce_sync_bin_inner ::
  "('c, 'w) os_proc \<Rightarrow> string \<Rightarrow> string \<Rightarrow> string \<Rightarrow> bytes \<Rightarrow> bytes \<Rightarrow> produce_options \<Rightarrow> nat
    \<Rightarrow> ('c, 'w, produce_resp) ipc" where
  "produce_sync_bin_inner os socket cluster topic key val opts timeout =
     bind_act (ipc_ensure os socket) (\<lambda>_.
     bind_act (pure_act (encode_produce_payload_bin cluster topic key val opts)) (\<lambda>payload.
     bind_act ipc_next_cid (\<lambda>cid.
     bind_act (exchange os socket FT_ProduceReq FT_ProduceResp cid payload timeout) (\<lambda>resp.
     pure_act (decoded (produce_resp_decode resp))))))"

definition produce_sync_inner ::
  "('c, 'w) os_proc \<Rightarrow> string \<Rightarrow> string \<Rightarrow> string \<Rightarrow> string \<Rightarrow> string \<Rightarrow> produce_options \<Rightarrow> nat
    \<Rightarrow> ('c, 'w, produce_resp) ipc" where
  "produce_sync_inner os socket cluster topic key val opts timeout =
     bind_act (ipc_ensure os socket) (\<lambda>_.
     bind_act (pure_act (encode_produce_payload cluster topic key val opts)) (\<lambda>payload.
     bind_act ipc_next_cid (\<lambda>cid.
     bind_act (exchange os socket FT_ProduceReq FT_ProduceResp cid payload timeout) (\<lambda>resp.
     pure_act (decoded (produce_resp_decode resp))))))"

definition ipc_produce_fnf ::
  "('c, 'w) os_proc \<Rightarrow> string \<Rightarrow> string \<Rightarrow> string \<Rightarrow> string \<Rightarrow> string \<Rightarrow> produce_options \<Rightarrow> ('c, 'w, unit) ipc" where
  "ipc_produce_fnf os socket cluster topic key val opts =
     with_retry socket (produce_fnf_inner os socket cluster topic key val opts)"

definition ipc_produce_sync ::
  "('c, 'w) os_proc \<Rightarrow> string \<Rightarrow> string \<Rightarrow> string \<Rightarrow> string \<Rightarrow> string \<Rightarrow> produce_options \<Rightarrow> nat
    \<Rightarrow> ('c, 'w, produce_resp) ipc" where
  "ipc_produce_sync os socket cluster topic key val opts timeout =
     with_retry socket (produce_sync_inner os socket cluster topic key val opts timeout)"

definition ipc_produce_fnf_bin ::
  "('c, 'w) os_proc \<Rightarrow> string \<Rightarrow> string \<Rightarrow> string \<Rightarrow> bytes \<Rightarrow> bytes \<Rightarrow> produce_options \<Rightarrow> ('c, 'w, unit) ipc" where
  "ipc_produce_fnf_bin os socket cluster topic key val opts =
     with_retry socket (produce_fnf_bin_inner os socket cluster topic key val opts)"

definition ipc_produce_sync_bin ::
  "('c, 'w) os_proc \<Rightarrow> string \<Rightarrow> string \<Rightarrow> string \<Rightarrow> bytes \<Rightarrow> bytes \<Rightarrow> produce_options \<Rightarrow> nat
    \<Rightarrow> ('c, 'w, produce_resp) ipc" where
  "ipc_produce_sync_bin os socket cluster topic key val opts timeout =
     with_retry socket (produce_sync_bin_inner os socket cluster topic key val opts timeout)"

section \<open>Consuming\<close>

fun subscribe_result :: "subscribe_resp \<Rightarrow> (ipc_error, u64) outcome" where
  "subscribe_result (SubscribeOk subscription_id) = Ok subscription_id"
| "subscribe_result (SubscribeErr message) = Err (ServerFailed message)"

definition ipc_subscribe ::
  "('c, 'w) os_proc \<Rightarrow> string \<Rightarrow> string \<Rightarrow> string \<Rightarrow> string list \<Rightarrow> config_entry list \<Rightarrow> nat \<Rightarrow> ('c, 'w, u64) ipc" where
  "ipc_subscribe os socket cluster group_id topics config timeout =
     rpc os socket FT_SubscribeReq FT_SubscribeResp
       (subscribe_req_encode
          \<lparr>sr_cluster = cluster, sr_group_id = group_id, sr_topics = topics, sr_config = config\<rparr>)
       subscribe_resp_decode subscribe_result timeout"

fun ipc_poll_result :: "poll_resp \<Rightarrow> (ipc_error, consumer_message list) outcome" where
  "ipc_poll_result (PollOk messages) = Ok messages"
| "ipc_poll_result (PollErr message) = Err (ServerFailed message)"

definition ipc_poll ::
  "('c, 'w) os_proc \<Rightarrow> string \<Rightarrow> u64 \<Rightarrow> u32 \<Rightarrow> u32 \<Rightarrow> ('c, 'w, consumer_message list) ipc" where
  "ipc_poll os socket subscription_id max_messages timeout_ms =
     rpc os socket FT_PollReq FT_PollResp
       (poll_req_encode
          \<lparr>pq_subscription_id = subscription_id, pq_max_messages = max_messages, pq_timeout_ms = timeout_ms\<rparr>)
       poll_resp_decode ipc_poll_result (unat timeout_ms + 2000)"

definition ipc_commit :: "('c, 'w) os_proc \<Rightarrow> string \<Rightarrow> u64 \<Rightarrow> nat \<Rightarrow> ('c, 'w, unit) ipc" where
  "ipc_commit os socket subscription_id timeout =
     rpc os socket FT_CommitReq FT_CommitResp (commit_req_encode \<lparr>cq_subscription_id = subscription_id\<rparr>)
       commit_resp_decode status_result timeout"

definition unsubscribe_once :: "('c, 'w) os_proc \<Rightarrow> string \<Rightarrow> u64 \<Rightarrow> ('c, 'w, unit) ipc" where
  "unsubscribe_once os socket subscription_id =
     bind_act (ipc_ensure os socket) (\<lambda>_.
     bind_act (pure_act (encoded (unsubscribe_req_encode \<lparr>uq_subscription_id = subscription_id\<rparr>))) (\<lambda>payload.
     with_conn os socket (\<lambda>c. ipc_write_frame os socket c FT_Unsubscribe 0 payload (Some 1000))))"

definition ipc_unsubscribe :: "('c, 'w) os_proc \<Rightarrow> string \<Rightarrow> u64 \<Rightarrow> ('c, 'w, unit) ipc" where
  "ipc_unsubscribe os socket subscription_id = with_retry socket (unsubscribe_once os socket subscription_id)"

definition seek_round_trip :: "('c, 'w) os_proc \<Rightarrow> string \<Rightarrow> seek_req \<Rightarrow> nat \<Rightarrow> ('c, 'w, unit) ipc" where
  "seek_round_trip os socket req timeout =
     rpc os socket FT_SeekReq FT_SeekResp (seek_req_encode req) seek_resp_decode status_result timeout"

definition ipc_seek_by_offset ::
  "('c, 'w) os_proc \<Rightarrow> string \<Rightarrow> u64 \<Rightarrow> offset_spec list \<Rightarrow> nat \<Rightarrow> ('c, 'w, unit) ipc" where
  "ipc_seek_by_offset os socket subscription_id targets timeout =
     seek_round_trip os socket (ByOffset subscription_id targets) timeout"

definition ipc_seek_by_timestamp ::
  "('c, 'w) os_proc \<Rightarrow> string \<Rightarrow> u64 \<Rightarrow> i64 \<Rightarrow> partition_spec list \<Rightarrow> nat \<Rightarrow> ('c, 'w, unit) ipc" where
  "ipc_seek_by_timestamp os socket subscription_id timestamp_ms partitions timeout =
     seek_round_trip os socket (ByTimestamp subscription_id timestamp_ms partitions) timeout"

fun rebalance_result :: "poll_rebalance_resp \<Rightarrow> (ipc_error, rebalance_event list) outcome" where
  "rebalance_result (RebalanceOk events) = Ok events"
| "rebalance_result (RebalanceErr message) = Err (ServerFailed message)"

definition ipc_poll_rebalance ::
  "('c, 'w) os_proc \<Rightarrow> string \<Rightarrow> u64 \<Rightarrow> u32 \<Rightarrow> nat \<Rightarrow> ('c, 'w, rebalance_event list) ipc" where
  "ipc_poll_rebalance os socket subscription_id max_events timeout =
     rpc os socket FT_PollRebalanceReq FT_PollRebalanceResp
       (poll_rebalance_req_encode \<lparr>rb_subscription_id = subscription_id, rb_max_events = max_events\<rparr>)
       poll_rebalance_resp_decode rebalance_result timeout"

definition ipc_pause_resume ::
  "('c, 'w) os_proc \<Rightarrow> string \<Rightarrow> u64 \<Rightarrow> pause_resume_op \<Rightarrow> partition_spec list \<Rightarrow> nat \<Rightarrow> ('c, 'w, unit) ipc" where
  "ipc_pause_resume os socket subscription_id op partitions timeout =
     rpc os socket FT_PauseResumeReq FT_PauseResumeResp
       (pause_resume_req_encode
          \<lparr>pr_subscription_id = subscription_id, pr_op = op, pr_partitions = partitions\<rparr>)
       pause_resume_resp_decode status_result timeout"

section \<open>Clusters, tokens, transactions\<close>

definition register_cluster_once ::
  "('c, 'w) os_proc \<Rightarrow> string \<Rightarrow> string \<Rightarrow> config_entry list \<Rightarrow> nat \<Rightarrow> ('c, 'w, unit) ipc" where
  "register_cluster_once os = register_cluster_with (ipc_ensure os) os"

definition ipc_register_cluster ::
  "('c, 'w) os_proc \<Rightarrow> string \<Rightarrow> string \<Rightarrow> config_entry list \<Rightarrow> nat \<Rightarrow> ('c, 'w, unit) ipc" where
  "ipc_register_cluster os socket cluster config timeout =
     bind_act (with_retry socket (register_cluster_once os socket cluster config timeout)) (\<lambda>_.
     modify_act (record_cluster socket cluster config))"

definition set_oauth_bearer_token_once ::
  "('c, 'w) os_proc \<Rightarrow> string \<Rightarrow> string \<Rightarrow> oauth_token \<Rightarrow> nat \<Rightarrow> ('c, 'w, unit) ipc" where
  "set_oauth_bearer_token_once os = set_oauth_with (ipc_ensure os) os"

definition ipc_set_oauth_bearer_token ::
  "('c, 'w) os_proc \<Rightarrow> string \<Rightarrow> string \<Rightarrow> oauth_token \<Rightarrow> nat \<Rightarrow> ('c, 'w, unit) ipc" where
  "ipc_set_oauth_bearer_token os socket cluster t timeout =
     bind_act (with_retry socket (set_oauth_bearer_token_once os socket cluster t timeout)) (\<lambda>_.
     modify_act (record_oauth_token socket cluster t))"

definition ipc_send_offsets_to_transaction ::
  "('c, 'w) os_proc \<Rightarrow> string \<Rightarrow> string \<Rightarrow> u64 \<Rightarrow> string \<Rightarrow> offset_spec list \<Rightarrow> nat \<Rightarrow> ('c, 'w, unit) ipc" where
  "ipc_send_offsets_to_transaction os socket producer_cluster subscription_id group_id offsets timeout =
     rpc os socket FT_SendOffsetsReq FT_SendOffsetsResp
       (send_offsets_req_encode
          \<lparr>so_producer_cluster = producer_cluster, so_subscription_id = subscription_id,
           so_group_id = group_id, so_offsets = offsets\<rparr>)
       send_offsets_resp_decode status_result timeout"

definition ipc_txn :: "('c, 'w) os_proc \<Rightarrow> string \<Rightarrow> string \<Rightarrow> txn_op \<Rightarrow> nat \<Rightarrow> ('c, 'w, unit) ipc" where
  "ipc_txn os socket cluster op timeout =
     rpc os socket FT_TxnReq FT_TxnResp (txn_req_encode \<lparr>tq_cluster = cluster, tq_op = op\<rparr>)
       txn_resp_decode status_result timeout"

end
