(* ===== verification/Ext_Ipc_Laws.thy ===== *)
theory Ext_Ipc_Laws
  imports Ext_Ipc Server_Laws
begin

text \<open>
  Laws of the IPC client: what every call keeps of the state (locale \<open>ipc_invariant\<close>), the recursion
  of \<open>ensure\<close>, the retry, and the replay of registered clusters.
\<close>

section \<open>What the calls keep\<close>

definition keeps :: "('s \<Rightarrow> bool) \<Rightarrow> ('s, 'e, 'a) act \<Rightarrow> bool" where
  "keeps I m \<longleftrightarrow> (\<forall>s. I s \<longrightarrow> I (snd (m s)))"

named_theorems keep_rules

lemma keepsI: "(\<And>s. I s \<Longrightarrow> I (snd (m s))) \<Longrightarrow> keeps I m"
  by (simp add: keeps_def)

lemma keepsD: "keeps I m \<Longrightarrow> I s \<Longrightarrow> I (snd (m s))"
  by (simp add: keeps_def)

lemma keeps_pure [keep_rules]: "keeps I (pure_act r)"
  by (simp add: keeps_def pure_act_def)

lemma keeps_bind [keep_rules]: "keeps I m \<Longrightarrow> (\<And>x. keeps I (k x)) \<Longrightarrow> keeps I (bind_act m k)"
  by (auto simp: keeps_def bind_act_def split: prod.split outcome.split)

lemma keeps_if [keep_rules]: "keeps I m \<Longrightarrow> keeps I n \<Longrightarrow> keeps I (if b then m else n)"
  by simp

lemma keeps_map_err [keep_rules]: "keeps I m \<Longrightarrow> keeps I (map_err_act f m)"
  by (auto simp: keeps_def map_err_act_def split: prod.split)

lemma keeps_modify: "(\<And>s. I s \<Longrightarrow> I (f s)) \<Longrightarrow> keeps I (modify_act f)"
  by (simp add: keeps_def modify_act_def)

text \<open>
  An assertion about the state that a use of a connection cannot falsify: changes of the
  world, of the correlation ids and those the pool makes keep it.
\<close>

locale conn_invariant =
  fixes I :: "('c, 'w) ipc_state \<Rightarrow> bool"
  assumes I_world: "I st \<Longrightarrow> I (st\<lparr>ic_world := w\<rparr>)"
    and I_cid: "I st \<Longrightarrow> I (st\<lparr>ic_next_cid := n\<rparr>)"
    and I_acquire: "I st \<Longrightarrow> I (snd (ipc_acquire os socket st))"
    and I_poison: "I st \<Longrightarrow> I (upd_pool socket poison st)"
    and I_drop: "I st \<Longrightarrow> I (upd_pool socket (drop_conn b c) st)"
begin

abbreviation J :: "bool \<times> ('c, 'w) ipc_state \<Rightarrow> bool" where
  "J \<equiv> \<lambda>s. I (snd s)"

lemma keeps_on_world [keep_rules]: "keeps I (on_world m)"
  by (auto simp: keeps_def on_world_def I_world split: prod.split)

lemma keeps_conn_io [keep_rules]: "keeps J (conn_io m)"
  by (auto simp: keeps_def conn_io_def on_world_def I_world split: prod.split)

lemma keeps_or_poison [keep_rules]: "keeps J m \<Longrightarrow> keeps J (or_poison socket m)"
  by (auto simp: keeps_def or_poison_def poison_conn_def I_poison split: prod.split outcome.split)
    (metis I_poison snd_conv)+

lemma keeps_cid [keep_rules]: "keeps I ipc_next_cid"
  by (auto simp: keeps_def ipc_next_cid_def next_cid_def I_cid)

lemma keeps_with_conn [keep_rules]:
  assumes "\<And>c. keeps J (body c)"
  shows "keeps I (with_conn os socket body)"
  unfolding with_conn_def
proof (intro keeps_bind keepsI)
  fix st c
  assume "I st"
  with keepsD [OF assms, of "(False, st)" c]
  show "I (snd (case body c (False, st) of (r, poisoned, st') \<Rightarrow> (r, upd_pool socket (drop_conn poisoned c) st')))"
    by (auto simp: I_drop split: prod.split)
qed (rule I_acquire)

lemma keeps_write_frame [keep_rules]: "keeps J (ipc_write_frame os socket c kind cid payload t)"
  unfolding ipc_write_frame_def by (intro keep_rules)

lemma keeps_recv_resp [keep_rules]: "keeps J (recv_resp os socket c cid t)"
  unfolding recv_resp_def by (intro keep_rules)

lemma keeps_exchange [keep_rules]: "keeps I (exchange os socket rk ek cid payload t)"
  unfolding exchange_def by (intro keep_rules) (auto intro!: keep_rules simp: case_prod_beta)

lemma keeps_round_trip_with [keep_rules]:
  "(\<And>s. keeps I (ens s)) \<Longrightarrow> keeps I (round_trip_with ens os socket rk ek payload t)"
  unfolding round_trip_with_def by (intro keep_rules)

lemma keeps_register_with [keep_rules]:
  "(\<And>s. keeps I (ens s)) \<Longrightarrow> keeps I (register_cluster_with ens os socket cluster config t)"
  unfolding register_cluster_with_def by (intro keep_rules)

lemma keeps_set_oauth_with [keep_rules]:
  "(\<And>s. keeps I (ens s)) \<Longrightarrow> keeps I (set_oauth_with ens os socket cluster token t)"
  unfolding set_oauth_with_def by (intro keep_rules)

lemma keeps_replay_loop:
  assumes "\<And>s. keeps I (ens s)"
  shows "keeps I (replay_loop ens os socket snap)"
  by (induction snap) (auto intro!: keep_rules assms split: option.split)

end

text \<open>If the cache of live workers cannot falsify it either, the calls without a retry keep it.\<close>

locale ensure_invariant = conn_invariant +
  assumes I_alive: "I st \<Longrightarrow> I (st\<lparr>ic_alive := a\<rparr>)"
    and I_ensured: "I st \<Longrightarrow> I (st\<lparr>ic_ensured := e\<rparr>)"
begin

lemma I_invalidate: "I st \<Longrightarrow> I (invalidate socket st)"
  by (simp add: invalidate_def I_alive)

lemma keeps_health [keep_rules]: "keeps I (health_ensure os socket)"
proof (rule keepsI)
  fix st
  assume st: "I st"
  have "keeps I (bind_act (on_world (ensure_worker os (spawn_from_env os socket))) (\<lambda>outcome.
        bind_act (modify_act (\<lambda>s. s\<lparr>ic_alive := AList.update socket () (ic_alive s),
                                    ic_ensured := insert socket (ic_ensured s)\<rparr>)) (\<lambda>_.
        pure_act (Ok outcome :: (spawn_error, spawn_outcome) outcome))))"
    by (intro keep_rules keeps_modify I_ensured I_alive)
  from keepsD [OF this st] st show "I (snd (health_ensure os socket st))"
    by (simp add: health_ensure_def)
qed

lemma keeps_ensure_with [keep_rules]:
  assumes "\<And>s. keeps I (ens s)"
  shows "keeps I (ensure_with ens os socket)"
proof -
  have "keeps I (replay_clusters ens os socket)"
    using keepsD [OF keeps_replay_loop [OF assms]] by (simp add: keeps_def replay_clusters_def)
  then show ?thesis unfolding ensure_with_def by (intro keep_rules)
qed

lemma keeps_ensure [keep_rules]: "keeps I (ipc_ensure os socket)"
proof -
  have "keeps I (ensure_depth n os s)" for n s
    by (induction n arbitrary: s) (auto intro: keep_rules)
  then show ?thesis by (simp add: ipc_ensure_def)
qed

lemma keeps_once [keep_rules]:
  "keeps I (round_trip_once os socket rk ek payload t)"
  "keeps I (register_cluster_once os socket cluster config t)"
  "keeps I (set_oauth_bearer_token_once os socket cluster token t)"
  "keeps I (unsubscribe_once os socket sid)"
  "keeps I (produce_fnf_inner os socket cluster topic key val opts)"
  "keeps I (produce_sync_inner os socket cluster topic key val opts t)"
  "keeps I (produce_fnf_bin_inner os socket cluster topic bkey bval opts)"
  "keeps I (produce_sync_bin_inner os socket cluster topic bkey bval opts t)"
  unfolding round_trip_once_def register_cluster_once_def set_oauth_bearer_token_once_def unsubscribe_once_def
    produce_fnf_inner_def produce_sync_inner_def produce_fnf_bin_inner_def produce_sync_bin_inner_def
  by (intro keep_rules)+

end

text \<open>An assertion that no bookkeeping of the client can falsify holds after every call.\<close>

locale ipc_invariant = ensure_invariant +
  assumes I_retry: "I st \<Longrightarrow> I (st\<lparr>ic_retry := r\<rparr>)"
    and I_replay: "I st \<Longrightarrow> I (st\<lparr>ic_replay := m\<rparr>)"
begin

lemma keeps_with_retry [keep_rules]:
  assumes "keeps I op"
  shows "keeps I (with_retry socket op)"
proof (rule keepsI)
  fix st
  assume st: "I st"
  define st1 where "st1 = snd (op st)"
  have st1: "I st1" using keepsD [OF assms st] by (simp add: st1_def)
  define st2 where "st2 = snd (op (count_attempt (invalidate socket st1)))"
  have st2: "I st2"
    unfolding st2_def by (intro keepsD [OF assms] I_retry I_invalidate st1)
  show "I (snd (with_retry socket op st))"
    using st1 st2 I_retry [OF st2] I_invalidate
    by (auto simp: with_retry_def Let_def st1_def st2_def split: prod.split outcome.split)
qed

lemma keeps_record [keep_rules]:
  "keeps I (modify_act (record_cluster socket cluster config))"
  "keeps I (modify_act (record_oauth_token socket cluster token))"
  by (intro keeps_modify; simp add: record_cluster_def record_oauth_token_def upd_replay_def Let_def I_replay)+

lemma keeps_rpc [keep_rules]: "keeps I (rpc os socket rk ek req dec fin t)"
  unfolding rpc_def round_trip_def by (intro keep_rules)

lemma keeps_calls [keep_rules]:
  "keeps I (ipc_subscribe os socket cluster gid topics config t)"
  "keeps I (ipc_poll os socket sid mx ms)"
  "keeps I (ipc_commit os socket sid t)"
  "keeps I (ipc_unsubscribe os socket sid)"
  "keeps I (ipc_seek_by_offset os socket sid targets t)"
  "keeps I (ipc_seek_by_timestamp os socket sid ts parts t)"
  "keeps I (ipc_poll_rebalance os socket sid mx t)"
  "keeps I (ipc_pause_resume os socket sid op parts t)"
  "keeps I (ipc_register_cluster os socket cluster config t)"
  "keeps I (ipc_set_oauth_bearer_token os socket cluster token t)"
  "keeps I (ipc_send_offsets_to_transaction os socket cluster sid gid offs t)"
  "keeps I (ipc_txn os socket cluster txop t)"
  "keeps I (ipc_produce_fnf os socket cluster topic key val opts)"
  "keeps I (ipc_produce_sync os socket cluster topic key val opts t)"
  "keeps I (ipc_produce_fnf_bin os socket cluster topic bkey bval opts)"
  "keeps I (ipc_produce_sync_bin os socket cluster topic bkey bval opts t)"
  unfolding ipc_subscribe_def ipc_poll_def ipc_commit_def ipc_unsubscribe_def
    ipc_seek_by_offset_def ipc_seek_by_timestamp_def seek_round_trip_def ipc_poll_rebalance_def
    ipc_pause_resume_def ipc_register_cluster_def ipc_set_oauth_bearer_token_def
    ipc_send_offsets_to_transaction_def ipc_txn_def ipc_produce_fnf_def ipc_produce_sync_def
    ipc_produce_fnf_bin_def ipc_produce_sync_bin_def
  by (intro keep_rules)+

end

section \<open>The pools\<close>

definition pools_inv :: "('c, 'w) ipc_state \<Rightarrow> bool" where
  "pools_inv st \<longleftrightarrow> (\<forall>socket p. map_of (ic_pools st) socket = Some p \<longrightarrow> pool_inv p)"

lemma pools_inv_upd_pool:
  "pools_inv st \<Longrightarrow> (\<And>p. pool_inv p \<Longrightarrow> pool_inv (f p)) \<Longrightarrow> pools_inv (upd_pool socket f st)"
  by (auto simp: pools_inv_def upd_pool_def split: option.split if_splits)

lemma pools_inv_acquire:
  assumes "pools_inv st"
  shows "pools_inv (snd (ipc_acquire os socket st))"
proof -
  obtain p pools where pf: "pool_for (os_env os) socket (ic_pools st) = (p, pools)" by (cases "pool_for (os_env os) socket (ic_pools st)")
  then have "pool_inv p" and others: "\<forall>s q. map_of pools s = Some q \<longrightarrow> pool_inv q"
    using assms by (auto simp: pool_for_def pools_inv_def Let_def pool_new_inv split: option.splits if_splits)
  obtain r p' w' where "acquire os socket (p, ic_world st) = (r, p', w')" by (metis prod_cases3)
  with acquire_inv [OF \<open>pool_inv p\<close>, of os socket "ic_world st"] others pf show ?thesis
    by (auto simp: ipc_acquire_def pools_inv_def split: if_splits)
qed

interpretation pools: ipc_invariant pools_inv
proof
  show "pools_inv st \<Longrightarrow> pools_inv (snd (ipc_acquire os socket st))" for st os socket
    by (rule pools_inv_acquire)
  show "pools_inv st \<Longrightarrow> pools_inv (upd_pool socket poison st)" for st :: "('a, 'b) ipc_state" and socket
    by (rule pools_inv_upd_pool) (auto intro: poison_inv)
  show "pools_inv st \<Longrightarrow> pools_inv (upd_pool socket (drop_conn b c) st)" for st :: "('a, 'b) ipc_state" and socket b c
    by (rule pools_inv_upd_pool) (auto intro: drop_conn_inv)
qed (auto simp: pools_inv_def)

text \<open>A use of a connection does not touch the rest of the client's bookkeeping.\<close>

definition books :: "('c, 'w) ipc_state \<Rightarrow> (string, unit) hmap \<times> string set \<times> (string, replay_map) hmap \<times> retry_stats" where
  "books st = (ic_alive st, ic_ensured st, ic_replay st, ic_retry st)"

lemma books_upd_pool [simp]: "books (upd_pool socket f st) = books st"
  by (simp add: books_def upd_pool_def split: option.split)

interpretation books: conn_invariant "\<lambda>st. books st = b"
  by unfold_locales (auto simp: books_def ipc_acquire_def upd_pool_def split: prod.split option.split)

section \<open>The recursion of ensure\<close>

text \<open>On a socket that is known to have a worker, \<open>ensure\<close> does nothing.\<close>

definition cached :: "string \<Rightarrow> ('c, 'w) ipc_state \<Rightarrow> bool" where
  "cached socket st \<longleftrightarrow> map_of (ic_alive st) socket \<noteq> None"

lemma ensure_cached: "cached socket st \<Longrightarrow> ensure_depth (Suc n) os socket st = (Ok (), st)"
  by (simp add: cached_def ensure_with_def bind_act_def map_err_act_def health_ensure_def pure_act_def)

lemma cached_books: "books st' = books st \<Longrightarrow> cached socket st' = cached socket st"
  by (simp add: books_def cached_def)

text \<open>
  Two ways to ensure that agree where the worker is known, without changing the state, give the
  same replay there.
\<close>

definition quiet :: "(string \<Rightarrow> ('c, 'w, unit) ipc) \<Rightarrow> bool" where
  "quiet ens \<longleftrightarrow> (\<forall>socket st. cached socket st \<longrightarrow> ens socket st = (Ok (), st))"

lemma quiet_ensure: "quiet (ensure_depth (Suc n) os)"
  by (simp add: quiet_def ensure_cached del: ensure_depth.simps)

lemma round_trip_quiet:
  assumes "quiet ens" and "cached socket st"
  shows "round_trip_with ens os socket rk ek payload t st =
      bind_act ipc_next_cid (\<lambda>cid. exchange os socket rk ek cid payload t) st"
  using assms by (simp add: round_trip_with_def bind_act_def quiet_def)

lemma round_trip_quiet_books:
  assumes "quiet ens" and "cached socket st"
  shows "books (snd (round_trip_with ens os socket rk ek payload t st)) = books st"
proof -
  have "keeps (\<lambda>s. books s = books st) (bind_act ipc_next_cid (\<lambda>cid. exchange os socket rk ek cid payload t))"
    by (intro keeps_bind books.keeps_cid books.keeps_exchange)
  from keepsD [OF this] show ?thesis by (simp add: round_trip_quiet [OF assms])
qed

lemma bind_pure_act [simp]:
  "bind_act (pure_act (Ok x)) k = k x" "bind_act (pure_act (Err e)) k = pure_act (Err e)"
  "bind_act (pure_act Panic) k = pure_act Panic"
  by (simp_all add: bind_act_def pure_act_def fun_eq_iff)

text \<open>Two computations that agree on the states of a set, and stay in it.\<close>

definition same_on :: "('s \<Rightarrow> bool) \<Rightarrow> ('s, 'e, 'a) act \<Rightarrow> ('s, 'e, 'a) act \<Rightarrow> bool" where
  "same_on P m m' \<longleftrightarrow> (\<forall>s. P s \<longrightarrow> m s = m' s \<and> P (snd (m s)))"

lemma same_on_pure: "same_on P (pure_act r) (pure_act r)"
  by (simp add: same_on_def pure_act_def)

lemma same_on_bind:
  "same_on P m m' \<Longrightarrow> (\<And>x. same_on P (k x) (k' x)) \<Longrightarrow> same_on P (bind_act m k) (bind_act m' k')"
  by (auto simp: same_on_def bind_act_def split: prod.split outcome.split) (metis snd_conv)

lemma same_on_round_trip:
  assumes "quiet ens" and "quiet ens'" and "cached socket st"
  shows "same_on (\<lambda>s. books s = books st)
     (round_trip_with ens os socket rk ek payload t) (round_trip_with ens' os socket rk ek payload t)"
  unfolding same_on_def
  using assms round_trip_quiet round_trip_quiet_books cached_books by metis

lemma same_on_replay_loop:
  assumes "quiet ens" and "quiet ens'" and "cached socket st"
  shows "same_on (\<lambda>s. books s = books st) (replay_loop ens os socket snap) (replay_loop ens' os socket snap)"
proof (induction snap)
  case Nil
  show ?case by (simp add: same_on_pure)
next
  case (Cons ce snap)
  then show ?case
    by (cases ce)
      (auto simp: register_cluster_with_def set_oauth_with_def
        intro!: same_on_bind same_on_pure same_on_round_trip [OF assms] split: option.split)
qed

lemma health_ensure_cached:
  "health_ensure os socket st = (Ok r, st') \<Longrightarrow> cached socket st'"
  by (auto simp: health_ensure_def cached_def bind_act_Ok_iff modify_act_def pure_act_def split: if_splits)

lemma ensure_with_quiet:
  assumes "quiet ens" and "quiet ens'"
  shows "ensure_with ens os socket = ensure_with ens' os socket"
proof
  fix st
  have "replay_loop ens os socket snap st' = replay_loop ens' os socket snap st'"
    if "health_ensure os socket st = (Ok outcome, st')" for outcome st' snap
    using same_on_replay_loop [OF assms health_ensure_cached [OF that]] by (simp add: same_on_def)
  then show "ensure_with ens os socket st = ensure_with ens' os socket st"
    by (cases "health_ensure os socket st"; cases "fst (health_ensure os socket st)")
      (auto simp: ensure_with_def bind_act_def map_err_act_def replay_clusters_def)
qed

lemma quiet_ipc_ensure: "quiet (ipc_ensure os)"
  using quiet_ensure [of 1 os] by (simp add: quiet_def ipc_ensure_def numeral_2_eq_2)

lemma ensure_depth_two: "ensure_depth (Suc (Suc n)) os socket = ipc_ensure os socket"
  using ensure_with_quiet [OF quiet_ensure quiet_ensure] unfolding ipc_ensure_def numeral_2_eq_2
  by (metis ensure_depth.simps(2))

lemma ensure_unfold: "ipc_ensure os socket = ensure_with (ipc_ensure os) os socket"
proof -
  have "ipc_ensure os socket = ensure_with (ensure_depth (Suc 0) os) os socket"
    by (simp add: ipc_ensure_def numeral_2_eq_2)
  then show ?thesis using ensure_with_quiet [OF quiet_ensure quiet_ipc_ensure] by metis
qed

text \<open>
  The calls \<open>ensure\<close>, \<open>replay_clusters\<close>, \<open>register_cluster_once\<close>, \<open>round_trip_once\<close>, \<open>ensure\<close> form a cycle
  in the source. The function of the model, which unrolls the cycle twice, satisfies the
  recursive equation of the source: the inner \<open>ensure\<close> always finds the worker in the cache, so
  that a replay never starts another one.
\<close>
lemma ensure_recursion: "ipc_ensure os socket = ensure_with (ipc_ensure os) os socket"
  by (rule ensure_unfold)

section \<open>Replay\<close>

text \<open>What \<open>ensure\<close> does, by the state of the cache and the answer to the probe.\<close>

lemma ensure_alive:
  assumes "worker_alive os socket (ic_world st) = (True, w)"
  shows "ipc_ensure os socket st =
     (Ok (), if cached socket st then st
             else st\<lparr>ic_world := w, ic_alive := AList.update socket () (ic_alive st),
                     ic_ensured := insert socket (ic_ensured st)\<rparr>)"
proof (cases "cached socket st")
  case True
  then show ?thesis using quiet_ipc_ensure [of os] by (simp add: quiet_def)
next
  case False
  have "ensure_worker os (spawn_from_env os socket) (ic_world st) = (Ok AlreadyAlive, w)"
    using assms by (simp add: ensure_worker_def spawn_from_env_def)
  with False show ?thesis
    unfolding ensure_unfold [of os socket] ensure_with_def
    by (simp add: bind_act_def map_err_act_def health_ensure_def cached_def on_world_def modify_act_def pure_act_def)
qed

lemma ensure_Err:
  assumes "ipc_ensure os socket st = (Err e, st')" and "\<And>x. e \<noteq> EnsureWorker x"
  shows "cached socket st'"
proof -
  have "ensure_with (ipc_ensure os) os socket st = (Err e, st')" using assms(1) by (metis ensure_unfold)
  then obtain outcome st1 where h: "health_ensure os socket st = (Ok outcome, st1)"
    and r: "(if outcome = JustSpawned then replay_clusters (ipc_ensure os) os socket else pure_act (Ok ())) st1
      = (Err e, st')"
    using assms(2)
    by (cases "health_ensure os socket st"; cases "fst (health_ensure os socket st)")
      (auto simp: ensure_with_def bind_act_def map_err_act_def)
  have "cached socket st1" by (rule health_ensure_cached [OF h])
  moreover have "books st' = books st1"
  proof -
    have "replay_loop (ipc_ensure os) os socket (replay_snapshot socket st1) st1 = (Err e, st')"
      using r by (auto simp: replay_clusters_def pure_act_def split: if_splits)
    moreover have "books (snd (replay_loop (ipc_ensure os) os socket snap st1)) = books st1" for snap
      using same_on_replay_loop [OF quiet_ipc_ensure quiet_ipc_ensure \<open>cached socket st1\<close>, of os os]
      unfolding same_on_def by blast
    ultimately show ?thesis by (metis snd_conv)
  qed
  ultimately show ?thesis using cached_books [of st' st1 socket] by blast
qed

text \<open>
  A replay that was interrupted is never resumed. When \<open>ensure\<close> started a worker and then failed
  to register the clusters again, the next \<open>ensure\<close> reports success at once and sends nothing. The
  same holds after the cache entry is dropped, and in every process that did not start the
  worker itself, as long as a worker answers the probe: no connection of the pool is used, and
  no request gets a correlation id.
\<close>
lemma interrupted_replay_is_forgotten:
  assumes "ipc_ensure os socket st = (Err e, st1)" and "\<And>x. e \<noteq> EnsureWorker x"
    and "fst (worker_alive os socket (ic_world st2))"
  shows "ipc_ensure os socket st1 = (Ok (), st1)
    \<and> fst (ipc_ensure os socket st2) = Ok ()
    \<and> ic_pools (snd (ipc_ensure os socket st2)) = ic_pools st2
    \<and> ic_next_cid (snd (ipc_ensure os socket st2)) = ic_next_cid st2"
proof -
  have "ipc_ensure os socket st1 = (Ok (), st1)"
    using ensure_Err [OF assms(1,2)] quiet_ipc_ensure [of os] by (simp add: quiet_def)
  moreover obtain w where "worker_alive os socket (ic_world st2) = (True, w)"
    using assms(3) by (cases "worker_alive os socket (ic_world st2)") auto
  note ensure_alive [OF this]
  ultimately show ?thesis by simp
qed

text \<open>A machine on which a worker starts when it is forked, and closes every connection at once.\<close>

definition closing_os :: "(nat, nat \<times> bool) os_proc" where
  "closing_os =
     \<lparr>os_connect = (\<lambda>_ (t, up). (if up then Inr 0 else Inl ConnectionRefused, (t, up))),
      os_nonblocking = (\<lambda>_ _ w. (True, w)), os_read_one = (\<lambda>_ w. (Inr 0, w)),
      os_write_timeout = (\<lambda>_ _ w. (Inr (), w)), os_read_timeout = (\<lambda>_ _ w. (Inr (), w)),
      os_write_all = (\<lambda>_ _ w. (Inr (), w)), os_read_exact = (\<lambda>_ _ w. (Inl UnexpectedEof, w)),
      os_close = (\<lambda>_ w. w), os_io_text = (\<lambda>_. ''io''), os_env = (\<lambda>_. None), os_ini = [],
      os_parse_addr = (\<lambda>_. None), os_now = (\<lambda>(t, up). (t, (t, up))), os_sleep = (\<lambda>ms (t, up). (t + ms, up)),
      os_create_parent = (\<lambda>_ w. (Inr (), w)), os_open_lock = (\<lambda>_ w. (Inr (), w)),
      os_flock_nb = (\<lambda>_ w. (True, w)), os_close_lock = (\<lambda>_ w. w), os_proc_status = (\<lambda>_. None),
      os_fork = (\<lambda>_ (t, up). (Inr (), (t, True)))\<rparr>"

lemma closing_os_sel:
  "os_connect closing_os socket (t, up) = (if up then Inr 0 else Inl ConnectionRefused, (t, up))"
  "os_write_timeout closing_os c tm w = (Inr (), w)" "os_read_timeout closing_os c tm w = (Inr (), w)"
  "os_write_all closing_os c bs w = (Inr (), w)" "os_read_exact closing_os c n w = (Inl UnexpectedEof, w)"
  "os_io_text closing_os k = ''io''" "os_env closing_os name = None" "os_now closing_os w = (fst w, w)"
  "os_create_parent closing_os p w = (Inr (), w)" "os_open_lock closing_os p w = (Inr (), w)"
  "os_flock_nb closing_os p w = (True, w)" "os_close_lock closing_os p w = w"
  "os_proc_status closing_os w = None" "os_fork closing_os cfg w = (Inr (), (fst w, True))"
  by (simp_all add: closing_os_def case_prod_beta)

lemma bind_act_fst_Err: "fst (m s) = Err e \<Longrightarrow> fst (bind_act m k s) = Err e"
  by (auto simp: bind_act_def split: prod.splits outcome.splits)

lemma build_hello_frame_Ok: "\<exists>frame. build_hello_frame = Ok frame"
  using build_oneway_fits [OF hello_req.encode_layout] unfolding build_hello_frame_def
  by (auto simp: hello_layout_def MAX_PAYLOAD_LEN_def)

lemma closing_handshake:
  "client_handshake closing_os c w = (Err ''read HELLO RESP header: io'', w)"
proof -
  obtain hello where hello: "build_hello_frame = Ok hello" using build_hello_frame_Ok by blast
  show ?thesis
    unfolding client_handshake_def hello by (simp add: bind_act_def io_act_def closing_os_sel)
qed

lemma closing_exchange:
  assumes "ic_world st = (t, True)" and "ic_pools st = []"
  shows "fst (exchange closing_os socket rk ek cid payload tm st) =
    Err (PoolFailed (PoolHandshake socket ''read HELLO RESP header: io''))"
  using assms
  by (simp add: exchange_def with_conn_def bind_act_def ipc_acquire_def pool_for_def acquire_def Let_def
      pool_new_def closing_handshake closing_os_sel)

lemma wait_ready:
  assumes "clock_ms os w < deadline" and "worker_alive os socket (snd (os_now os w)) = (True, w')"
  shows "wait_for_socket (wait_fuel cfg) os socket deadline w = (Ok (), w')"
proof -
  have "wait_fuel cfg = Suc (sc_ready_timeout cfg div 30 + 1)" by (simp add: wait_fuel_def)
  with assms show ?thesis by (simp only: wait_for_socket_Suc Let_def) simp
qed

lemma closing_ensure_worker:
  "ensure_worker closing_os (spawn_from_env closing_os socket) (0, False) = (Ok JustSpawned, (0, True))"
proof -
  have wait: "wait_for_socket (wait_fuel cfg) closing_os socket 5000 (0, True) = (Ok (), (0, True))" for cfg
    by (rule wait_ready) (simp_all add: clock_ms_def closing_os_sel worker_alive_def)
  show ?thesis
    by (simp add: ensure_worker_def spawn_from_env_def worker_alive_def bind_act_def io_act_def pure_act_def
        spawn_locked_def spawn_worker_inproc_def current_thread_count_def strict_fork_def Let_def wait closing_os_sel)
qed

section \<open>Retry\<close>

text \<open>Every retry that ended is counted as a success or as a failure.\<close>

definition retry_balanced :: "('c, 'w) ipc_state \<Rightarrow> bool" where
  "retry_balanced st \<longleftrightarrow> rs_attempts (ic_retry st) = rs_successes (ic_retry st) + rs_failures (ic_retry st)"

lemma with_retry_cases:
  obtains (first) r st1 where "op st = (r, st1)" and "\<And>e. r = Err e \<Longrightarrow> \<not> should_invalidate e"
      and "with_retry socket op st = (r, st1)"
  | (success) e st1 v st2 where "op st = (Err e, st1)" and "should_invalidate e"
      and "op (count_attempt (invalidate socket st1)) = (Ok v, st2)"
      and "with_retry socket op st = (Ok v, count_success st2)"
  | (failure) e st1 e2 st2 where "op st = (Err e, st1)" and "should_invalidate e"
      and "op (count_attempt (invalidate socket st1)) = (Err e2, st2)"
      and "with_retry socket op st = (Err e2, if should_invalidate e2 then invalidate socket (count_failure st2) else count_failure st2)"
  | (panic) e st1 st2 where "op st = (Err e, st1)" and "should_invalidate e"
      and "op (count_attempt (invalidate socket st1)) = (Panic, st2)"
      and "with_retry socket op st = (Panic, st2)"
proof (cases "op st")
  case (Pair r st1)
  show thesis
  proof (cases "\<exists>e. r = Err e \<and> should_invalidate e")
    case False
    with Pair have "with_retry socket op st = (r, st1)"
      by (cases r) (auto simp: with_retry_def)
    with Pair False show thesis by (intro first) auto
  next
    case True
    then obtain e where e: "r = Err e" "should_invalidate e" by blast
    obtain r2 st2 where "op (count_attempt (invalidate socket st1)) = (r2, st2)" by force
    with Pair e success failure panic show thesis
      by (cases r2) (auto simp: with_retry_def Let_def)
  qed
qed

interpretation retries: ensure_invariant "\<lambda>st. ic_retry st = r"
  by unfold_locales (auto simp: ipc_acquire_def upd_pool_def split: prod.split option.split)

lemma with_retry_balanced:
  assumes "\<And>r. keeps (\<lambda>s. ic_retry s = r) op" and "retry_balanced st"
    and "fst (with_retry socket op st) \<noteq> Panic"
  shows "retry_balanced (snd (with_retry socket op st))"
proof -
  have same: "ic_retry (snd (op s)) = ic_retry s" for s
    using keepsD [OF assms(1), of s "ic_retry s"] by simp
  show ?thesis
  proof (cases rule: with_retry_cases [where op = op and st = st and socket = socket])
    case (first r st1)
    then show ?thesis using same [of st] assms(2) by (simp add: retry_balanced_def)
  next
    case (success e st1 v st2)
    then show ?thesis
      using same [of st] same [of "count_attempt (invalidate socket st1)"] assms(2)
      by (simp add: retry_balanced_def invalidate_def)
  next
    case (failure e st1 e2 st2)
    then show ?thesis
      using same [of st] same [of "count_attempt (invalidate socket st1)"] assms(2)
      by (simp add: retry_balanced_def invalidate_def)
  qed (use assms(3) in simp)
qed

end
