(* ===== verification/Ext_Ipc_Reach.thy ===== *)
theory Ext_Ipc_Reach
  imports Ext_Ipc_Laws
begin

text \<open>
  The calls of the IPC client never panic, and what holds of the state of a client after any
  sequence of calls, whatever the operating system and the workers do in between.
\<close>

section \<open>No call panics\<close>

definition safe :: "('s, 'e, 'a) act \<Rightarrow> bool" where
  "safe m \<longleftrightarrow> (\<forall>s. fst (m s) \<noteq> Panic)"

named_theorems safe_rules

lemma safeD: "safe m \<Longrightarrow> fst (m s) \<noteq> Panic"
  by (simp add: safe_def)

lemma safe_iff: "safe m \<longleftrightarrow> (\<forall>s s'. m s \<noteq> (Panic, s'))"
  by (simp add: safe_def) (metis fst_conv prod.collapse)

lemma safe_pure [safe_rules]: "r \<noteq> Panic \<Longrightarrow> safe (pure_act r)"
  by (simp add: safe_def pure_act_def)

lemma safe_bind [safe_rules]: "safe m \<Longrightarrow> (\<And>x. safe (k x)) \<Longrightarrow> safe (bind_act m k)"
  by (auto simp: safe_iff bind_act_def split: prod.split outcome.split)

lemma safe_if [safe_rules]: "safe m \<Longrightarrow> safe n \<Longrightarrow> safe (if b then m else n)"
  by simp

lemma safe_modify [safe_rules]: "safe (modify_act f)"
  by (simp add: safe_def modify_act_def)

lemma safe_map_err [safe_rules]: "safe m \<Longrightarrow> safe (map_err_act f m)"
  by (auto simp: safe_iff map_err_act_def split: prod.split)

lemma safe_on_world [safe_rules]: "safe m \<Longrightarrow> safe (on_world m)"
  by (auto simp: safe_iff on_world_def split: prod.split)

lemma safe_io [safe_rules]: "safe (io_act m f)"
  by (simp add: safe_def)

lemma safe_conn_io [safe_rules]: "safe (conn_io m)"
  using safe_on_world [OF safe_io [of m IoFailed]] by (auto simp: safe_iff conn_io_def split: prod.split)

lemma safe_or_poison [safe_rules]: "safe m \<Longrightarrow> safe (or_poison socket m)"
  by (auto simp: safe_iff or_poison_def split: prod.split outcome.split)

lemma safe_cid [safe_rules]: "safe ipc_next_cid"
  by (simp add: safe_def ipc_next_cid_def next_cid_def)

lemma safe_world_act [safe_rules]: "safe (\<lambda>w. (Ok x, f w))"
  by (simp add: safe_def)

lemma encode_frame_no_panic [simp]: "encode_frame kind cid payload dst \<noteq> (Panic, dst')"
  by (simp add: encode_frame_def)

lemma build_hello_frame_no_panic [simp]: "build_hello_frame \<noteq> Panic"
proof -
  have "snd (hello_req_encode m) \<noteq> Panic" for m
    using hello_req.encode_no_panic [of m] by (simp add: no_panic_w_def)
  then show ?thesis
    by (simp add: build_hello_frame_def build_oneway_def split: outcome.split prod.split)
qed

lemma parse_hello_resp_no_panic [simp]: "parse_hello_resp bytes \<noteq> Panic"
  using hello_resp.decode_total
  by (auto simp: parse_hello_resp_def hello_resp_decode_def Let_def split: outcome.split)

lemma safe_handshake [safe_rules]: "safe (client_handshake os c)"
  unfolding client_handshake_def by (intro safe_rules) simp_all

lemma acquire_no_panic: "acquire os socket pw \<noteq> (Panic, pw')"
  using safe_handshake [of os]
  by (auto simp: acquire_def safe_iff Let_def split: prod.split option.split sum.split outcome.split)

lemma safe_acquire [safe_rules]: "safe (ipc_acquire os socket)"
  by (auto simp: safe_iff ipc_acquire_def acquire_no_panic split: prod.split)

lemma safe_with_conn [safe_rules]:
  assumes "\<And>c. safe (body c)"
  shows "safe (with_conn os socket body)"
proof -
  have "safe (\<lambda>st. case body c (False, st) of (r, poisoned, st') \<Rightarrow> (r, upd_pool socket (drop_conn poisoned c) st'))" for c
    using assms [of c] by (auto simp: safe_iff split: prod.split)
  then show ?thesis unfolding with_conn_def by (intro safe_rules)
qed

lemma safe_write_frame [safe_rules]: "safe (ipc_write_frame os socket c kind cid payload t)"
  unfolding ipc_write_frame_def
  by (intro safe_rules) (simp split: prod.split outcome.split)

lemma safe_recv_resp [safe_rules]: "safe (recv_resp os socket c cid t)"
  unfolding recv_resp_def
  by (intro safe_rules) (simp_all add: error_resp.decode_total error_resp_decode_def)

lemma safe_exchange [safe_rules]: "safe (exchange os socket rk ek cid payload t)"
  unfolding exchange_def by (intro safe_rules) (auto intro!: safe_rules simp: case_prod_beta)

lemma encoded_no_panic: "no_panic_w wr \<Longrightarrow> encoded wr \<noteq> Panic"
  by (simp add: encoded_def no_panic_w_def)

lemma decoded_no_panic: "r \<noteq> Panic \<Longrightarrow> decoded r \<noteq> Panic"
  by (simp add: decoded_def)

lemma status_result_no_panic [simp]: "status_result r \<noteq> Panic"
  by (cases r) simp_all

lemma responses_no_panic [simp]:
  "register_cluster_resp_decode buf \<noteq> Panic" "set_oauth_resp_decode buf \<noteq> Panic" "commit_resp_decode buf \<noteq> Panic"
  "seek_resp_decode buf \<noteq> Panic" "pause_resume_resp_decode buf \<noteq> Panic" "txn_resp_decode buf \<noteq> Panic"
  "send_offsets_resp_decode buf \<noteq> Panic" "subscribe_resp_decode buf \<noteq> Panic" "poll_resp_decode buf \<noteq> Panic"
  "poll_rebalance_resp_decode buf \<noteq> Panic" "produce_resp_decode buf \<noteq> Panic"
  unfolding register_cluster_resp_decode_def set_oauth_resp_decode_def commit_resp_decode_def seek_resp_decode_def
    pause_resume_resp_decode_def txn_resp_decode_def send_offsets_resp_decode_def subscribe_resp_decode_def
    poll_resp_decode_def poll_rebalance_resp_decode_def produce_resp_decode_def
  by (intro status.decode_total subscribe_resp.decode_total poll_resp.decode_total
      poll_rebalance_resp.decode_total produce_resp.decode_total)+

lemma results_no_panic [simp]:
  "subscribe_result r1 \<noteq> Panic" "ipc_poll_result r2 \<noteq> Panic" "rebalance_result r3 \<noteq> Panic"
  by (cases r1, simp_all) (cases r2, simp_all, cases r3, simp_all)

lemma safe_round_trip_with [safe_rules]:
  "(\<And>s. safe (ens s)) \<Longrightarrow> safe (round_trip_with ens os socket rk ek payload t)"
  unfolding round_trip_with_def by (intro safe_rules)

lemma safe_replay_steps [safe_rules]:
  assumes "\<And>s. safe (ens s)"
  shows "safe (register_cluster_with ens os socket cluster config t)"
    and "safe (set_oauth_with ens os socket cluster token t)"
  unfolding register_cluster_with_def set_oauth_with_def
  by (intro safe_rules assms; simp add: encoded_no_panic decoded_no_panic register_cluster_req.encode_no_panic
      set_oauth_req.encode_no_panic)+

text \<open>On a known worker a replay needs no further \<open>ensure\<close>, so that its depth does not matter.\<close>

lemma safe_ensure:
  assumes "steady_clock os"
  shows "safe (ipc_ensure os socket)"
proof -
  have health: "safe (health_ensure os s)" for s
  proof -
    have "safe (ensure_worker os (spawn_from_env os s))"
      using ensure_worker_no_panic [OF assms] by (simp add: safe_def)
    then have "safe (bind_act (on_world (ensure_worker os (spawn_from_env os s))) (\<lambda>outcome.
        bind_act (modify_act (\<lambda>st. st\<lparr>ic_alive := AList.update s () (ic_alive st),
                                    ic_ensured := insert s (ic_ensured st)\<rparr>)) (\<lambda>_.
        pure_act (Ok outcome :: (spawn_error, spawn_outcome) outcome))))"
      by (intro safe_rules) simp_all
    then show ?thesis by (auto simp: safe_def health_ensure_def)
  qed
  let ?ens = "\<lambda>_. pure_act (Ok ()) :: ('c, 'w, unit) ipc"
  have quiet: "quiet ?ens" by (simp add: quiet_def pure_act_def)
  have "safe (replay_loop ?ens os s snap)" for s snap
    by (induction snap) (auto intro!: safe_rules split: option.split)
  then have "safe (ensure_with ?ens os s)" for s
    unfolding ensure_with_def
    by (intro safe_rules health) (simp_all add: safe_def replay_clusters_def)
  moreover have "ipc_ensure os socket = ensure_with ?ens os socket"
    using ensure_unfold [of os socket] ensure_with_quiet [OF quiet_ipc_ensure quiet] by metis
  ultimately show ?thesis by simp
qed

lemma safe_with_retry [safe_rules]:
  assumes "safe op"
  shows "safe (with_retry socket op)"
  using assms by (auto simp: safe_iff with_retry_def Let_def split: prod.split outcome.split)

section \<open>Reachable states of a client\<close>

text \<open>
  One step of a client: a call, the explicit \<open>ensureWorker\<close>, or a change of the world around it.
\<close>

inductive ipc_step :: "('c, 'w) os_proc \<Rightarrow> ('c, 'w) ipc_state \<Rightarrow> ('c, 'w) ipc_state \<Rightarrow> bool" for os where
  world: "ipc_step os st (st\<lparr>ic_world := w\<rparr>)"
| ensure: "ipc_step os st (snd (ipc_ensure os socket (invalidate socket st)))"
| produce_fnf: "ipc_step os st (snd (ipc_produce_fnf os socket cluster topic key val opts st))"
| produce_sync: "ipc_step os st (snd (ipc_produce_sync os socket cluster topic key val opts t st))"
| produce_fnf_bin: "ipc_step os st (snd (ipc_produce_fnf_bin os socket cluster topic bkey bval opts st))"
| produce_sync_bin: "ipc_step os st (snd (ipc_produce_sync_bin os socket cluster topic bkey bval opts t st))"
| subscribe: "ipc_step os st (snd (ipc_subscribe os socket cluster gid topics config t st))"
| poll: "ipc_step os st (snd (ipc_poll os socket sid mx ms st))"
| commit: "ipc_step os st (snd (ipc_commit os socket sid t st))"
| unsubscribe: "ipc_step os st (snd (ipc_unsubscribe os socket sid st))"
| seek_offset: "ipc_step os st (snd (ipc_seek_by_offset os socket sid targets t st))"
| seek_timestamp: "ipc_step os st (snd (ipc_seek_by_timestamp os socket sid ts parts t st))"
| poll_rebalance: "ipc_step os st (snd (ipc_poll_rebalance os socket sid mx t st))"
| pause_resume: "ipc_step os st (snd (ipc_pause_resume os socket sid op parts t st))"
| register: "ipc_step os st (snd (ipc_register_cluster os socket cluster config t st))"
| set_token: "ipc_step os st (snd (ipc_set_oauth_bearer_token os socket cluster token t st))"
| send_offsets: "ipc_step os st (snd (ipc_send_offsets_to_transaction os socket cluster sid gid offs t st))"
| txn: "ipc_step os st (snd (ipc_txn os socket cluster txop t st))"

inductive ipc_reachable :: "('c, 'w) os_proc \<Rightarrow> ('c, 'w) ipc_state \<Rightarrow> bool" for os where
  start: "ipc_reachable os (ipc_init w)"
| step: "ipc_reachable os st \<Longrightarrow> ipc_step os st st' \<Longrightarrow> ipc_reachable os st'"

lemma ipc_step_keeps:
  assumes "ipc_invariant I" and "I st" and "ipc_step os st st'"
  shows "I st'"
proof -
  note rules = ipc_invariant.keeps_calls [OF assms(1)] ipc_invariant.axioms(1) [OF assms(1)]
  show ?thesis
    using assms(3)
  proof cases
    case (world w)
    then show ?thesis
      using conn_invariant.I_world [OF ensure_invariant.axioms(1) [OF rules(17)] assms(2)] by simp
  next
    case (ensure socket)
    then show ?thesis
      using keepsD [OF ensure_invariant.keeps_ensure [OF rules(17)]
          ensure_invariant.I_invalidate [OF rules(17) assms(2)]] by simp
  qed (simp_all only: keepsD [OF rules(1) assms(2)] keepsD [OF rules(2) assms(2)] keepsD [OF rules(3) assms(2)]
      keepsD [OF rules(4) assms(2)] keepsD [OF rules(5) assms(2)] keepsD [OF rules(6) assms(2)]
      keepsD [OF rules(7) assms(2)] keepsD [OF rules(8) assms(2)] keepsD [OF rules(9) assms(2)]
      keepsD [OF rules(10) assms(2)] keepsD [OF rules(11) assms(2)] keepsD [OF rules(12) assms(2)]
      keepsD [OF rules(13) assms(2)] keepsD [OF rules(14) assms(2)] keepsD [OF rules(15) assms(2)]
      keepsD [OF rules(16) assms(2)])
qed

text \<open>The counters of \<open>with_retry\<close>.\<close>

lemma keeps_balanced_retry:
  assumes "safe op" and "\<And>r. keeps (\<lambda>s. ic_retry s = r) op"
  shows "keeps retry_balanced (with_retry socket op)"
  using with_retry_balanced [OF assms(2)] safeD [OF safe_with_retry [OF assms(1)]] by (intro keepsI) blast

lemma safe_once:
  assumes "steady_clock os"
  shows "safe (round_trip_once os socket rk ek payload t)"
    and "safe (register_cluster_once os socket cluster config t)"
    and "safe (set_oauth_bearer_token_once os socket cluster token t)"
    and "safe (unsubscribe_once os socket sid)"
    and "safe (produce_fnf_inner os socket cluster topic key val opts)"
    and "safe (produce_sync_inner os socket cluster topic key val opts t)"
    and "safe (produce_fnf_bin_inner os socket cluster topic bkey bval opts)"
    and "safe (produce_sync_bin_inner os socket cluster topic bkey bval opts t)"
  unfolding round_trip_once_def register_cluster_once_def set_oauth_bearer_token_once_def unsubscribe_once_def
    produce_fnf_inner_def produce_sync_inner_def produce_fnf_bin_inner_def produce_sync_bin_inner_def
    encode_produce_payload_def encode_produce_payload_bin_def
  by (intro safe_rules safe_ensure [OF assms];
      simp add: encoded_no_panic decoded_no_panic produce_fnf.encode_no_panic unsubscribe_req.encode_no_panic)+

lemmas requests_no_panic =
  subscribe_req.encode_no_panic poll_req.encode_no_panic commit_req.encode_no_panic seek_req.encode_no_panic
  poll_rebalance_req.encode_no_panic pause_resume_req.encode_no_panic send_offsets_req.encode_no_panic
  txn_req.encode_no_panic

lemma calls_safe:
  assumes "steady_clock os"
  shows "safe (ipc_subscribe os socket cluster gid topics config t)"
    and "safe (ipc_poll os socket sid mx ms)"
    and "safe (ipc_commit os socket sid t)"
    and "safe (ipc_unsubscribe os socket sid)"
    and "safe (ipc_seek_by_offset os socket sid targets t)"
    and "safe (ipc_seek_by_timestamp os socket sid ts parts t)"
    and "safe (ipc_poll_rebalance os socket sid mx t)"
    and "safe (ipc_pause_resume os socket sid op parts t)"
    and "safe (ipc_register_cluster os socket cluster config t)"
    and "safe (ipc_set_oauth_bearer_token os socket cluster token t)"
    and "safe (ipc_send_offsets_to_transaction os socket cluster sid gid offs t)"
    and "safe (ipc_txn os socket cluster txop t)"
    and "safe (ipc_produce_fnf os socket cluster topic key val opts)"
    and "safe (ipc_produce_sync os socket cluster topic key val opts t)"
    and "safe (ipc_produce_fnf_bin os socket cluster topic bkey bval opts)"
    and "safe (ipc_produce_sync_bin os socket cluster topic bkey bval opts t)"
  unfolding ipc_subscribe_def ipc_poll_def ipc_commit_def ipc_unsubscribe_def
    ipc_seek_by_offset_def ipc_seek_by_timestamp_def seek_round_trip_def ipc_poll_rebalance_def
    ipc_pause_resume_def ipc_register_cluster_def ipc_set_oauth_bearer_token_def
    ipc_send_offsets_to_transaction_def ipc_txn_def ipc_produce_fnf_def ipc_produce_sync_def
    ipc_produce_fnf_bin_def ipc_produce_sync_bin_def rpc_def round_trip_def
  by (intro safe_rules safe_once [OF assms];
      simp add: encoded_no_panic decoded_no_panic requests_no_panic)+

lemma keeps_balanced_record:
  "keeps retry_balanced (modify_act (record_cluster socket cluster config))"
  "keeps retry_balanced (modify_act (record_oauth_token socket cluster token))"
  by (simp_all add: keeps_def modify_act_def retry_balanced_def record_cluster_def record_oauth_token_def
      upd_replay_def Let_def)

lemma calls_balanced:
  assumes "steady_clock os"
  shows "keeps retry_balanced (ipc_subscribe os socket cluster gid topics config t)"
    and "keeps retry_balanced (ipc_poll os socket sid mx ms)"
    and "keeps retry_balanced (ipc_commit os socket sid t)"
    and "keeps retry_balanced (ipc_unsubscribe os socket sid)"
    and "keeps retry_balanced (ipc_seek_by_offset os socket sid targets t)"
    and "keeps retry_balanced (ipc_seek_by_timestamp os socket sid ts parts t)"
    and "keeps retry_balanced (ipc_poll_rebalance os socket sid mx t)"
    and "keeps retry_balanced (ipc_pause_resume os socket sid op parts t)"
    and "keeps retry_balanced (ipc_register_cluster os socket cluster config t)"
    and "keeps retry_balanced (ipc_set_oauth_bearer_token os socket cluster token t)"
    and "keeps retry_balanced (ipc_send_offsets_to_transaction os socket cluster sid gid offs t)"
    and "keeps retry_balanced (ipc_txn os socket cluster txop t)"
    and "keeps retry_balanced (ipc_produce_fnf os socket cluster topic key val opts)"
    and "keeps retry_balanced (ipc_produce_sync os socket cluster topic key val opts t)"
    and "keeps retry_balanced (ipc_produce_fnf_bin os socket cluster topic bkey bval opts)"
    and "keeps retry_balanced (ipc_produce_sync_bin os socket cluster topic bkey bval opts t)"
  unfolding ipc_subscribe_def ipc_poll_def ipc_commit_def ipc_unsubscribe_def
    ipc_seek_by_offset_def ipc_seek_by_timestamp_def seek_round_trip_def ipc_poll_rebalance_def
    ipc_pause_resume_def ipc_register_cluster_def ipc_set_oauth_bearer_token_def
    ipc_send_offsets_to_transaction_def ipc_txn_def ipc_produce_fnf_def ipc_produce_sync_def
    ipc_produce_fnf_bin_def ipc_produce_sync_bin_def rpc_def round_trip_def
  by (intro keeps_pure keeps_bind keeps_balanced_retry safe_once [OF assms] retries.keeps_once keeps_balanced_record)+

lemma ensure_balanced: "keeps retry_balanced (ipc_ensure os socket)"
proof (rule keepsI)
  fix st :: "('a, 'b) ipc_state"
  assume "retry_balanced st"
  moreover have "ic_retry (snd (ipc_ensure os socket st)) = ic_retry st"
    using keepsD [OF retries.keeps_ensure [of "ic_retry st"], of st] by simp
  ultimately show "retry_balanced (snd (ipc_ensure os socket st))" by (simp add: retry_balanced_def)
qed

lemma ipc_step_balanced:
  assumes "steady_clock os" and "retry_balanced st" and "ipc_step os st st'"
  shows "retry_balanced st'"
  using assms(3)
proof cases
  case (ensure socket)
  moreover have "retry_balanced (invalidate socket st)"
    using assms(2) by (simp add: retry_balanced_def invalidate_def)
  ultimately show ?thesis using keepsD [OF ensure_balanced] by blast
next
  case (world w)
  with assms(2) show ?thesis by (simp add: retry_balanced_def)
qed (simp_all only: calls_balanced [OF assms(1), THEN keepsD, OF assms(2)])

text \<open>
  C18: Whatever the workers, the sockets and other processes do, the bookkeeping of a client
  stays consistent over any sequence of calls: no pool ever keeps more idle connections than
  its limit, every acquisition of a connection was counted as a hit or as a miss, and every
  retry as a success or as a failure.
\<close>
theorem client_invariant:
  assumes "steady_clock os" and "ipc_reachable os st"
  shows "retry_balanced st \<and> (\<forall>socket p. map_of (ic_pools st) socket = Some p \<longrightarrow> pool_inv p)"
proof -
  from assms(2) have "retry_balanced st \<and> pools_inv st"
  proof induction
    case (start w)
    show ?case by (simp add: ipc_init_def retry_balanced_def pools_inv_def)
  next
    case (step st st')
    then show ?case
      using ipc_step_balanced [OF assms(1)] ipc_step_keeps [OF pools.ipc_invariant_axioms] by blast
  qed
  then show ?thesis by (simp add: pools_inv_def)
qed

theorem client_invariant_witness:
  "steady_clock dead_os
   \<and> ipc_reachable dead_os (snd (ipc_commit dead_os ''/k.sock'' 1 5 (ipc_init 0)))
   \<and> retry_balanced (snd (ipc_commit dead_os ''/k.sock'' 1 5 (ipc_init 0)))"
proof -
  let ?st = "snd (ipc_commit dead_os ''/k.sock'' 1 5 (ipc_init 0))"
  have reach: "ipc_reachable dead_os ?st"
    by (rule ipc_reachable.step [OF ipc_reachable.start ipc_step.commit])
  from client_invariant [OF dead_os_steady reach] reach dead_os_steady show ?thesis by simp
qed

text \<open>
  C22: No call of the client panics, whatever bytes a worker sends and however its sockets fail;
  every call returns a result or an error.
\<close>
theorem client_never_panics:
  assumes "steady_clock os"
  shows "fst (ipc_produce_sync os socket cluster topic key val opts t st) \<noteq> Panic
   \<and> fst (ipc_produce_fnf os socket cluster topic key val opts st) \<noteq> Panic
   \<and> fst (ipc_subscribe os socket cluster gid topics config t st) \<noteq> Panic
   \<and> fst (ipc_poll os socket sid mx ms st) \<noteq> Panic
   \<and> fst (ipc_commit os socket sid t st) \<noteq> Panic
   \<and> fst (ipc_unsubscribe os socket sid st) \<noteq> Panic
   \<and> fst (ipc_register_cluster os socket cluster config t st) \<noteq> Panic
   \<and> fst (ipc_set_oauth_bearer_token os socket cluster token t st) \<noteq> Panic
   \<and> fst (ipc_seek_by_offset os socket sid targets t st) \<noteq> Panic
   \<and> fst (ipc_poll_rebalance os socket sid mx t st) \<noteq> Panic
   \<and> fst (ipc_pause_resume os socket sid op parts t st) \<noteq> Panic
   \<and> fst (ipc_txn os socket cluster txop t st) \<noteq> Panic
   \<and> fst (ipc_send_offsets_to_transaction os socket cluster sid gid offs t st) \<noteq> Panic
   \<and> fst (ipc_seek_by_timestamp os socket sid ts parts t st) \<noteq> Panic
   \<and> fst (ipc_produce_sync_bin os socket cluster topic bkey bval opts t st) \<noteq> Panic
   \<and> fst (ipc_produce_fnf_bin os socket cluster topic bkey bval opts st) \<noteq> Panic
   \<and> fst (ipc_ensure os socket st) \<noteq> Panic"
  by (intro conjI; rule safeD [OF calls_safe(14) [OF assms]] safeD [OF calls_safe(13) [OF assms]]
      safeD [OF calls_safe(1) [OF assms]] safeD [OF calls_safe(2) [OF assms]] safeD [OF calls_safe(3) [OF assms]]
      safeD [OF calls_safe(4) [OF assms]] safeD [OF calls_safe(9) [OF assms]] safeD [OF calls_safe(10) [OF assms]]
      safeD [OF calls_safe(5) [OF assms]] safeD [OF calls_safe(7) [OF assms]] safeD [OF calls_safe(8) [OF assms]]
      safeD [OF calls_safe(12) [OF assms]] safeD [OF calls_safe(11) [OF assms]]
      safeD [OF calls_safe(6) [OF assms]] safeD [OF calls_safe(16) [OF assms]] safeD [OF calls_safe(15) [OF assms]]
      safeD [OF safe_ensure [OF assms]])

theorem client_never_panics_witness:
  "steady_clock dead_os \<and> fst (ipc_poll dead_os ''/k.sock'' 1 10 50 (ipc_init 0)) \<noteq> Panic"
  using client_never_panics [OF dead_os_steady, where socket = "''/k.sock''" and sid = 1 and mx = 10 and ms = 50
      and st = "ipc_init 0"] dead_os_steady by simp

end
