(* ===== verification/Refinement.thy ===== *)
theory Refinement
  imports Prelude
begin

text \<open>
  Refinement of an abstract machine by operations of the program: every operation, run in a
  state that satisfies the invariant, makes a transition of the abstract machine with the same
  result. What holds of one operation then holds of every sequence of them. The invariant may
  depend on the number of operations still to come, for programs whose counters are bounded.
\<close>

fun run_cmds :: "('cmd \<Rightarrow> 's \<Rightarrow> 'r \<times> 's) \<Rightarrow> 'cmd list \<Rightarrow> 's \<Rightarrow> 'r list \<times> 's" where
  "run_cmds exec [] s = ([], s)"
| "run_cmds exec (c # cs) s =
     (case exec c s of (r, s1) \<Rightarrow> case run_cmds exec cs s1 of (rs, s2) \<Rightarrow> (r # rs, s2))"

fun spec_run :: "('cmd \<Rightarrow> 'r \<Rightarrow> 'a \<Rightarrow> 'a \<Rightarrow> bool) \<Rightarrow> 'cmd list \<Rightarrow> 'r list \<Rightarrow> 'a \<Rightarrow> 'a \<Rightarrow> bool" where
  "spec_run spec [] [] a b \<longleftrightarrow> a = b"
| "spec_run spec (c # cs) (r # rs) a b \<longleftrightarrow> (\<exists>m. spec c r a m \<and> spec_run spec cs rs m b)"
| "spec_run spec _ _ a b \<longleftrightarrow> False"

locale refinement =
  fixes exec :: "'cmd \<Rightarrow> 's \<Rightarrow> 'r \<times> 's"
    and spec :: "'cmd \<Rightarrow> 'r \<Rightarrow> 'a \<Rightarrow> 'a \<Rightarrow> bool"
    and abs :: "'s \<Rightarrow> 'a"
    and inv :: "nat \<Rightarrow> 's \<Rightarrow> bool"
  assumes simulation: "inv (Suc n) s \<Longrightarrow> exec c s = (r, s') \<Longrightarrow> inv n s' \<and> spec c r (abs s) (abs s')"
begin

lemma run_simulates:
  "inv (length cs + n) s \<Longrightarrow> run_cmds exec cs s = (rs, s') \<Longrightarrow>
     inv n s' \<and> spec_run spec cs rs (abs s) (abs s')"
proof (induction cs arbitrary: s rs s')
  case (Cons c cs)
  obtain r s1 where one: "exec c s = (r, s1)" by force
  obtain rs1 s2 where rest: "run_cmds exec cs s1 = (rs1, s2)" by force
  from simulation [OF _ one, of "length cs + n"] Cons.prems(1)
  have "inv (length cs + n) s1" and "spec c r (abs s) (abs s1)" by simp_all
  with Cons.IH [OF \<open>inv (length cs + n) s1\<close> rest] Cons.prems(2) one rest show ?case by auto
qed simp

end

end
