(* ===== verification/Ext_Subscription.thy ===== *)
theory Ext_Subscription
  imports Ext_Ipc_Reach Refinement
begin

text \<open>
  \<open>ext/src/subscription.rs\<close>: virtual subscription ids. PHP code keeps a virtual id; the registry of
  the process maps it to the parameters of the subscription and to the id the worker gave to it,
  which changes when the subscription is made again on another worker.
\<close>

section \<open>State\<close>

record sub_entry =
  se_socket :: string
  se_cluster :: string
  se_group_id :: string
  se_topics :: "string list"
  se_config :: "config_entry list"
  se_real_id :: u64

record resub_stats =
  us_attempts :: u64
  us_successes :: u64
  us_failures :: u64

text \<open>\<open>REGISTRY\<close>, \<open>NEXT_VIRTUAL\<close> and the \<open>RESUB_\<close> counters, beside the state of the IPC client.\<close>

record ('c, 'w) subs_state =
  sm_registry :: "(u64, sub_entry) hmap"
  sm_next_virtual :: u64
  sm_resub :: resub_stats
  sm_ipc :: "('c, 'w) ipc_state"

definition sub_init :: "'w \<Rightarrow> ('c, 'w) subs_state" where
  "sub_init w =
     \<lparr>sm_registry = [], sm_next_virtual = 1, sm_resub = \<lparr>us_attempts = 0, us_successes = 0, us_failures = 0\<rparr>,
      sm_ipc = ipc_init w\<rparr>"

type_synonym ('c, 'w, 'a) sub_act = "(('c, 'w) subs_state, ipc_error, 'a) act"

definition on_ipc :: "('c, 'w, 'a) ipc \<Rightarrow> ('c, 'w, 'a) sub_act" where
  "on_ipc m st = (case m (sm_ipc st) of (r, i) \<Rightarrow> (r, st\<lparr>sm_ipc := i\<rparr>))"

section \<open>Operations\<close>

fun is_subscription_gone :: "ipc_error \<Rightarrow> bool" where
  "is_subscription_gone (WorkerFailed kind _ _ _) = (kind = SubscriptionNotFound)"
| "is_subscription_gone _ = False"

definition sub_subscribe ::
  "('c, 'w) os_proc \<Rightarrow> string \<Rightarrow> string \<Rightarrow> string \<Rightarrow> string list \<Rightarrow> config_entry list \<Rightarrow> nat \<Rightarrow> ('c, 'w, u64) sub_act" where
  "sub_subscribe os socket cluster group_id topics config timeout =
     bind_act (on_ipc (ipc_subscribe os socket cluster group_id topics config timeout)) (\<lambda>real_id st.
       let virt = sm_next_virtual st in
       (Ok virt,
        st\<lparr>sm_next_virtual := virt + 1,
           sm_registry := AList.update virt
             \<lparr>se_socket = socket, se_cluster = cluster, se_group_id = group_id, se_topics = topics,
              se_config = config, se_real_id = real_id\<rparr> (sm_registry st)\<rparr>))"

abbreviation count_resub :: "(resub_stats \<Rightarrow> resub_stats) \<Rightarrow> ('c, 'w) subs_state \<Rightarrow> ('c, 'w) subs_state" where
  "count_resub f st \<equiv> st\<lparr>sm_resub := f (sm_resub st)\<rparr>"

definition resub_attempt :: "resub_stats \<Rightarrow> resub_stats" where
  "resub_attempt s = s\<lparr>us_attempts := us_attempts s + 1\<rparr>"

definition resub_success :: "resub_stats \<Rightarrow> resub_stats" where
  "resub_success s = s\<lparr>us_successes := us_successes s + 1\<rparr>"

definition resub_failure :: "resub_stats \<Rightarrow> resub_stats" where
  "resub_failure s = s\<lparr>us_failures := us_failures s + 1\<rparr>"

text \<open>The second try of an operation, with the counters.\<close>

definition second_try :: "(sub_entry \<Rightarrow> ('c, 'w, 'a) ipc) \<Rightarrow> sub_entry \<Rightarrow> ('c, 'w, 'a) sub_act" where
  "second_try op snap st =
     (case on_ipc (op snap) st of
        (Ok v, st') \<Rightarrow> (Ok v, count_resub resub_success st')
      | (Err e, st') \<Rightarrow> (Err e, count_resub resub_failure st')
      | (Panic, st') \<Rightarrow> (Panic, st'))"

definition set_real_id :: "u64 \<Rightarrow> u64 \<Rightarrow> ('c, 'w) subs_state \<Rightarrow> ('c, 'w) subs_state" where
  "set_real_id virtual_id real_id st =
     (case map_of (sm_registry st) virtual_id of
        Some e \<Rightarrow> st\<lparr>sm_registry := AList.update virtual_id (e\<lparr>se_real_id := real_id\<rparr>) (sm_registry st)\<rparr>
      | None \<Rightarrow> st)"

definition resubscribe ::
  "('c, 'w) os_proc \<Rightarrow> u64 \<Rightarrow> sub_entry \<Rightarrow> (sub_entry \<Rightarrow> ('c, 'w, 'a) ipc) \<Rightarrow> ('c, 'w, 'a) sub_act" where
  "resubscribe os virtual_id snap op st =
     (case on_ipc (ipc_subscribe os (se_socket snap) (se_cluster snap) (se_group_id snap) (se_topics snap)
                     (se_config snap) 5000) st of
        (Err e, st1) \<Rightarrow> (Err e, count_resub resub_failure st1)
      | (Panic, st1) \<Rightarrow> (Panic, st1)
      | (Ok new_real_id, st1) \<Rightarrow>
          second_try op (snap\<lparr>se_real_id := new_real_id\<rparr>) (set_real_id virtual_id new_real_id st1))"

text \<open>
  \<open>with_resubscribe\<close>. The argument \<open>others\<close> is what other threads do between the failure of the
  operation and the lock of the entry, which the code takes before it reads the registry again;
  it is the identity when there are none.
\<close>

definition with_resubscribe ::
  "('c, 'w) os_proc \<Rightarrow> (('c, 'w) subs_state \<Rightarrow> ('c, 'w) subs_state) \<Rightarrow> u64 \<Rightarrow> (sub_entry \<Rightarrow> ('c, 'w, 'a) ipc)
    \<Rightarrow> ('c, 'w, 'a) sub_act" where
  "with_resubscribe os others virtual_id op st =
     (case map_of (sm_registry st) virtual_id of
        None \<Rightarrow>
          (Err (ServerFailed (''virtual subscription '' @ show_nat (unat virtual_id) @ '' not found'')), st)
      | Some snap \<Rightarrow>
          (case on_ipc (op snap) st of
             (Ok v, st1) \<Rightarrow> (Ok v, st1)
           | (Panic, st1) \<Rightarrow> (Panic, st1)
           | (Err e, st1) \<Rightarrow>
               if is_subscription_gone e then
                 let st2 = others (count_resub resub_attempt st1) in
                 case map_of (sm_registry st2) virtual_id of
                   Some cur \<Rightarrow>
                     if se_real_id cur \<noteq> se_real_id snap
                     then second_try op (snap\<lparr>se_real_id := se_real_id cur\<rparr>) st2
                     else resubscribe os virtual_id snap op st2
                 | None \<Rightarrow> resubscribe os virtual_id snap op st2
               else (Err e, st1)))"

definition sub_poll ::
  "('c, 'w) os_proc \<Rightarrow> (('c, 'w) subs_state \<Rightarrow> ('c, 'w) subs_state) \<Rightarrow> u64 \<Rightarrow> u32 \<Rightarrow> u32
    \<Rightarrow> ('c, 'w, consumer_message list) sub_act" where
  "sub_poll os others virtual_id max_messages timeout_ms =
     with_resubscribe os others virtual_id (\<lambda>e. ipc_poll os (se_socket e) (se_real_id e) max_messages timeout_ms)"

definition sub_commit ::
  "('c, 'w) os_proc \<Rightarrow> (('c, 'w) subs_state \<Rightarrow> ('c, 'w) subs_state) \<Rightarrow> u64 \<Rightarrow> nat \<Rightarrow> ('c, 'w, unit) sub_act" where
  "sub_commit os others virtual_id timeout =
     with_resubscribe os others virtual_id (\<lambda>e. ipc_commit os (se_socket e) (se_real_id e) timeout)"

definition sub_unsubscribe :: "('c, 'w) os_proc \<Rightarrow> u64 \<Rightarrow> ('c, 'w, unit) sub_act" where
  "sub_unsubscribe os virtual_id st =
     (case map_of (sm_registry st) virtual_id of
        None \<Rightarrow> (Ok (), st)
      | Some e \<Rightarrow>
          (case on_ipc (ipc_unsubscribe os (se_socket e) (se_real_id e))
                  (st\<lparr>sm_registry := AList.delete virtual_id (sm_registry st)\<rparr>) of
             (Panic, st') \<Rightarrow> (Panic, st')
           | (_, st') \<Rightarrow> (Ok (), st')))"

definition registered_count :: "('c, 'w) subs_state \<Rightarrow> nat" where
  "registered_count st = length (sm_registry st)"

text \<open>A \<open>BTreeSet\<close> of the socket paths; the order in which it is read does not matter to its callers.\<close>

definition known_sockets :: "('c, 'w) subs_state \<Rightarrow> string set" where
  "known_sockets st = (se_socket \<circ> snd) ` set (sm_registry st)"

definition drain_real_ids_for_socket :: "string \<Rightarrow> ('c, 'w) subs_state \<Rightarrow> u64 list \<times> ('c, 'w) subs_state" where
  "drain_real_ids_for_socket socket st =
     (map (se_real_id \<circ> snd) (filter (\<lambda>(_, e). se_socket e = socket) (sm_registry st)),
      st\<lparr>sm_registry := filter (\<lambda>(_, e). se_socket e \<noteq> socket) (sm_registry st)\<rparr>)"

section \<open>The registry as a table of handles\<close>

text \<open>
  What a PHP program may rely on: a virtual id stands for the parameters it was made with. The
  id of the worker is not part of it.
\<close>

type_synonym handle_table = "u64 \<rightharpoonup> sub_entry"

definition sub_params :: "sub_entry \<Rightarrow> sub_entry" where
  "sub_params e = e\<lparr>se_real_id := 0\<rparr>"

definition handles :: "('c, 'w) subs_state \<Rightarrow> handle_table" where
  "handles st = map_option sub_params \<circ> map_of (sm_registry st)"

datatype sub_cmd =
    Subscribe string string string "string list" "config_entry list" nat
  | Poll u64 u32 u32
  | Commit u64 nat
  | Unsubscribe u64

text \<open>The operations as commands, each with the virtual id it returns, if any.\<close>

definition exec_sub ::
  "('c, 'w) os_proc \<Rightarrow> sub_cmd \<Rightarrow> ('c, 'w) subs_state \<Rightarrow> (ipc_error, u64 option) outcome \<times> ('c, 'w) subs_state" where
  "exec_sub os c st =
     (case c of
        Subscribe socket cluster group_id topics config timeout \<Rightarrow>
          (case sub_subscribe os socket cluster group_id topics config timeout st of (r, st') \<Rightarrow> (map_ok Some r, st'))
      | Poll v mx ms \<Rightarrow> (case sub_poll os id v mx ms st of (r, st') \<Rightarrow> (map_ok (\<lambda>_. None) r, st'))
      | Commit v timeout \<Rightarrow> (case sub_commit os id v timeout st of (r, st') \<Rightarrow> (map_ok (\<lambda>_. None) r, st'))
      | Unsubscribe v \<Rightarrow> (case sub_unsubscribe os v st of (r, st') \<Rightarrow> (map_ok (\<lambda>_. None) r, st')))"

text \<open>
  The abstract machine: a new handle is one that was not in use, and only subscribing and
  unsubscribing change the table. An operation on an id that is not in the table fails.
\<close>

fun table_step :: "sub_cmd \<Rightarrow> (ipc_error, u64 option) outcome \<Rightarrow> handle_table \<Rightarrow> handle_table \<Rightarrow> bool" where
  "table_step (Subscribe socket cluster group_id topics config timeout) r t t' \<longleftrightarrow>
     (case r of
        Ok (Some v) \<Rightarrow>
          t v = None
          \<and> t' = t(v \<mapsto> \<lparr>se_socket = socket, se_cluster = cluster, se_group_id = group_id, se_topics = topics,
                         se_config = config, se_real_id = 0\<rparr>)
      | Ok None \<Rightarrow> False
      | _ \<Rightarrow> t' = t)"
| "table_step (Poll v mx ms) r t t' \<longleftrightarrow> t' = t \<and> (t v = None \<longrightarrow> (\<exists>e. r = Err e))"
| "table_step (Commit v timeout) r t t' \<longleftrightarrow> t' = t \<and> (t v = None \<longrightarrow> (\<exists>e. r = Err e))"
| "table_step (Unsubscribe v) r t t' \<longleftrightarrow> (\<forall>e. r \<noteq> Err e) \<and> t' = t(v := None)"

text \<open>
  Ids are handed out in order. The counter is 64 bits wide: the invariant leaves room for \<open>n\<close> more
  subscriptions before it wraps around.
\<close>

definition registry_room :: "nat \<Rightarrow> ('c, 'w) subs_state \<Rightarrow> bool" where
  "registry_room n st \<longleftrightarrow>
     unat (sm_next_virtual st) + n < 2 ^ 64 \<and> (\<forall>v \<in> dom (map_of (sm_registry st)). v < sm_next_virtual st)"

lemma on_ipc_fields [simp]:
  "sm_registry (snd (on_ipc m st)) = sm_registry st"
  "sm_next_virtual (snd (on_ipc m st)) = sm_next_virtual st"
  by (simp_all add: on_ipc_def split: prod.split)

lemma on_ipc_pair:
  assumes "on_ipc m st = (r, st')"
  shows "sm_registry st' = sm_registry st" and "sm_next_virtual st' = sm_next_virtual st"
  using on_ipc_fields [of m st] assms by simp_all

lemma second_try_fields:
  assumes "second_try op snap st = (r, st')"
  shows "sm_registry st' = sm_registry st" and "sm_next_virtual st' = sm_next_virtual st"
  using assms on_ipc_pair [of "op snap" st]
  by (auto simp: second_try_def split: prod.splits outcome.splits)

lemma handles_set_real_id: "handles (set_real_id v rid st) = handles st"
  by (auto simp: handles_def set_real_id_def sub_params_def fun_eq_iff split: option.split)

lemma dom_set_real_id: "dom (map_of (sm_registry (set_real_id v rid st))) = dom (map_of (sm_registry st))"
  by (auto simp: set_real_id_def split: option.split)

lemma set_real_id_next [simp]: "sm_next_virtual (set_real_id v rid st) = sm_next_virtual st"
  by (simp add: set_real_id_def split: option.split)

lemma handles_cong: "sm_registry st' = sm_registry st \<Longrightarrow> handles st' = handles st"
  by (simp add: handles_def)

text \<open>Making a subscription again changes no handle.\<close>

lemma resubscribe_keeps:
  assumes "resubscribe os v snap op st = (r, st')"
  shows "handles st' = handles st" and "sm_next_virtual st' = sm_next_virtual st"
    and "dom (map_of (sm_registry st')) = dom (map_of (sm_registry st))"
proof -
  obtain q st1 where sub: "on_ipc (ipc_subscribe os (se_socket snap) (se_cluster snap) (se_group_id snap)
      (se_topics snap) (se_config snap) 5000) st = (q, st1)" by force
  note f1 = on_ipc_pair [OF sub]
  have "handles st' = handles st \<and> sm_next_virtual st' = sm_next_virtual st
      \<and> dom (map_of (sm_registry st')) = dom (map_of (sm_registry st))"
  proof (cases q)
    case (Ok new)
    with assms sub have "second_try op (snap\<lparr>se_real_id := new\<rparr>) (set_real_id v new st1) = (r, st')"
      by (simp add: resubscribe_def)
    note f2 = second_try_fields [OF this]
    from handles_cong [OF f2(1)] handles_cong [OF f1(1)] f2 f1 show ?thesis
      by (simp add: handles_set_real_id dom_set_real_id)
  qed (use assms sub f1 in \<open>auto simp: resubscribe_def handles_def\<close>)
  then show "handles st' = handles st" and "sm_next_virtual st' = sm_next_virtual st"
    and "dom (map_of (sm_registry st')) = dom (map_of (sm_registry st))"
    by simp_all
qed

lemma with_resubscribe_keeps:
  assumes "with_resubscribe os id v op st = (r, st')"
  shows "handles st' = handles st" and "sm_next_virtual st' = sm_next_virtual st"
    and "dom (map_of (sm_registry st')) = dom (map_of (sm_registry st))"
proof -
  have "handles st' = handles st \<and> sm_next_virtual st' = sm_next_virtual st
      \<and> dom (map_of (sm_registry st')) = dom (map_of (sm_registry st))"
  proof (cases "map_of (sm_registry st) v")
    case None
    with assms show ?thesis by (simp add: with_resubscribe_def)
  next
    case (Some snap)
    obtain q st1 where first: "on_ipc (op snap) st = (q, st1)" by force
    note f1 = on_ipc_pair [OF first]
    show ?thesis
    proof (cases "\<exists>e. q = Err e \<and> is_subscription_gone e")
      case True
      let ?st2 = "count_resub resub_attempt st1"
      have "map_of (sm_registry ?st2) v = Some snap" using f1 Some by simp
      with assms Some first True have "resubscribe os v snap op ?st2 = (r, st')"
        by (auto simp: with_resubscribe_def Let_def)
      from resubscribe_keeps [OF this] f1 show ?thesis by (simp add: handles_def)
    next
      case False
      with assms Some first f1 show ?thesis
        by (cases q) (auto simp: with_resubscribe_def handles_def)
    qed
  qed
  then show "handles st' = handles st" and "sm_next_virtual st' = sm_next_virtual st"
    and "dom (map_of (sm_registry st')) = dom (map_of (sm_registry st))"
    by simp_all
qed

lemma use_simulates:
  assumes "registry_room (Suc n) st" and "with_resubscribe os id v op st = (r, st')"
  shows "registry_room n st' \<and> handles st' = handles st \<and> (handles st v = None \<longrightarrow> (\<exists>e. r = Err e))"
proof -
  note k = with_resubscribe_keeps [OF assms(2)]
  have "handles st v = None \<Longrightarrow> \<exists>e. r = Err e"
    using assms(2) by (auto simp: handles_def with_resubscribe_def)
  with k assms(1) show ?thesis unfolding registry_room_def by auto
qed

lemma subscribe_simulates:
  assumes "registry_room (Suc n) st" and "sub_subscribe os socket cluster gid topics config t st = (r, st')"
  shows "registry_room n st' \<and> table_step (Subscribe socket cluster gid topics config t) (map_ok Some r) (handles st) (handles st')"
proof -
  obtain q st1 where call: "on_ipc (ipc_subscribe os socket cluster gid topics config t) st = (q, st1)" by force
  note f = on_ipc_pair [OF call]
  show ?thesis
  proof (cases q)
    case (Ok real_id)
    let ?v = "sm_next_virtual st"
    let ?e = "\<lparr>se_socket = socket, se_cluster = cluster, se_group_id = gid, se_topics = topics, se_config = config,
      se_real_id = real_id\<rparr>"
    from Ok assms(2) call f have r: "r = Ok ?v" and st': "st' = st1\<lparr>sm_next_virtual := ?v + 1,
        sm_registry := AList.update ?v ?e (sm_registry st)\<rparr>"
      by (auto simp: sub_subscribe_def bind_act_def Let_def)
    have fresh: "map_of (sm_registry st) ?v = None"
      using assms(1) by (auto simp: registry_room_def domIff)
    have inc: "unat (?v + 1) = unat ?v + 1"
      using assms(1) by (simp add: unat_word_ariths registry_room_def)
    then have "v < ?v + 1" if "v < ?v" for v using that by (simp add: word_less_nat_alt)
    moreover have "?v < ?v + 1" using inc by (simp add: word_less_nat_alt)
    ultimately have "registry_room n st'"
      using assms(1) inc by (auto simp: registry_room_def st')
    moreover have "handles st' = (handles st)(?v \<mapsto> sub_params ?e)"
      by (auto simp: handles_def st' fun_eq_iff)
    ultimately show ?thesis using fresh by (simp add: r handles_def sub_params_def)
  next
    case (Err e)
    with assms call f show ?thesis
      by (auto simp: sub_subscribe_def bind_act_def handles_def registry_room_def)
  next
    case Panic
    with assms call f show ?thesis
      by (auto simp: sub_subscribe_def bind_act_def handles_def registry_room_def)
  qed
qed

lemma unsubscribe_simulates:
  assumes "registry_room (Suc n) st" and "sub_unsubscribe os v st = (r, st')"
  shows "registry_room n st' \<and> (\<forall>e. r \<noteq> Err e) \<and> handles st' = (handles st)(v := None)"
proof (cases "map_of (sm_registry st) v")
  case None
  with assms show ?thesis by (auto simp: sub_unsubscribe_def registry_room_def handles_def fun_eq_iff)
next
  case (Some e)
  let ?st = "st\<lparr>sm_registry := AList.delete v (sm_registry st)\<rparr>"
  obtain q st1 where call: "on_ipc (ipc_unsubscribe os (se_socket e) (se_real_id e)) ?st = (q, st1)" by force
  note f = on_ipc_pair [OF call]
  have "(r, st') = (case q of Panic \<Rightarrow> (Panic, st1) | _ \<Rightarrow> (Ok (), st1))"
    using assms(2) Some by (simp add: sub_unsubscribe_def call)
  then have "st' = st1" "\<forall>e. r \<noteq> Err e" by (cases q; simp)+
  moreover have "handles st1 = (handles st)(v := None)" using f by (auto simp: handles_def fun_eq_iff)
  moreover have "registry_room n st1" using assms(1) f by (auto simp: registry_room_def split: if_splits)
  ultimately show ?thesis by simp
qed

interpretation handles: refinement "exec_sub os" table_step handles registry_room
proof
  fix n c r
  fix st st' :: "('a, 'b) subs_state"
  assume inv: "registry_room (Suc n) st" and run: "exec_sub os c st = (r, st')"
  show "registry_room n st' \<and> table_step c r (handles st) (handles st')"
  proof (cases c)
    case (Subscribe socket cluster gid topics config t)
    with run subscribe_simulates [OF inv] show ?thesis
      by (auto simp: exec_sub_def simp del: table_step.simps split: prod.splits)
  next
    case (Poll v mx ms)
    obtain q st1 where q: "sub_poll os id v mx ms st = (q, st1)" by force
    with run Poll have "r = map_ok (\<lambda>_. None) q" "st' = st1" by (simp_all add: exec_sub_def)
    with use_simulates [OF inv q [unfolded sub_poll_def]] Poll show ?thesis by auto
  next
    case (Commit v t)
    obtain q st1 where q: "sub_commit os id v t st = (q, st1)" by force
    with run Commit have "r = map_ok (\<lambda>_. None) q" "st' = st1" by (simp_all add: exec_sub_def)
    with use_simulates [OF inv q [unfolded sub_commit_def]] Commit show ?thesis by auto
  next
    case (Unsubscribe v)
    obtain q st1 where q: "sub_unsubscribe os v st = (q, st1)" by force
    with run Unsubscribe have "r = map_ok (\<lambda>_. None) q" "st' = st1" by (simp_all add: exec_sub_def)
    with unsubscribe_simulates [OF inv q] Unsubscribe show ?thesis by simp
  qed
qed

text \<open>
  C8: A virtual subscription id is a stable handle. Over any sequence of subscribe, poll, commit
  and unsubscribe, with workers that die and lose their subscriptions in between, the registry
  behaves like a table of handles that only subscribe and unsubscribe change: each new id is
  unused, an id keeps the parameters it was made with, and an id that is not in the table is
  refused.
\<close>
theorem virtual_ids_refine_table:
  assumes "registry_room (length cs) st" and "run_cmds (exec_sub os) cs st = (rs, st')"
  shows "spec_run table_step cs rs (handles st) (handles st')"
  using handles.run_simulates [of cs 0 st os rs st'] assms by simp

theorem virtual_ids_refine_table_witness:
  "\<exists>rs st'. run_cmds (exec_sub dead_os) [Subscribe ''/k'' ''c'' ''g'' [''t''] [] 5, Poll 1 10 0, Unsubscribe 1] (sub_init 0) = (rs, st')
     \<and> registry_room (length [Subscribe ''/k'' ''c'' ''g'' [''t''] [] 5, Poll 1 10 0, Unsubscribe 1])
          (sub_init 0 :: (nat, nat) subs_state)
     \<and> spec_run table_step [Subscribe ''/k'' ''c'' ''g'' [''t''] [] 5, Poll 1 10 0, Unsubscribe 1] rs
         (handles (sub_init 0 :: (nat, nat) subs_state)) (handles st')"
proof -
  let ?cs = "[Subscribe ''/k'' ''c'' ''g'' [''t''] [] 5, Poll 1 10 0, Unsubscribe 1]"
  obtain rs st' where run: "run_cmds (exec_sub dead_os) ?cs (sub_init 0) = (rs, st')" by force
  have room: "registry_room (length ?cs) (sub_init 0 :: (nat, nat) subs_state)"
    by (simp add: registry_room_def sub_init_def)
  from virtual_ids_refine_table [OF room run] room run show ?thesis by blast
qed

section \<open>Healing\<close>

text \<open>An operation on a subscription that the worker has lost, when no other thread interferes.\<close>

lemma with_resubscribe_heals:
  assumes "map_of (sm_registry st) v = Some e"
    and "op e (sm_ipc st) = (Err err, i1)" and "is_subscription_gone err"
    and "ipc_subscribe os (se_socket e) (se_cluster e) (se_group_id e) (se_topics e) (se_config e) 5000 i1 = (Ok new, i2)"
    and "op (e\<lparr>se_real_id := new\<rparr>) i2 = (Ok x, i3)"
  shows "\<exists>st'. with_resubscribe os id v op st = (Ok x, st')
     \<and> map_of (sm_registry st') v = Some (e\<lparr>se_real_id := new\<rparr>) \<and> sm_ipc st' = i3
     \<and> us_successes (sm_resub st') = us_successes (sm_resub st) + 1"
  using assms
  by (auto simp: with_resubscribe_def on_ipc_def resubscribe_def second_try_def set_real_id_def Let_def
      resub_success_def resub_attempt_def)

text \<open>The same operation while other threads remove the handle.\<close>

lemma with_resubscribe_orphans:
  assumes "map_of (sm_registry st) v = Some e"
    and "op e (sm_ipc st) = (Err err, i1)" and "is_subscription_gone err"
    and "st2 = others (st\<lparr>sm_ipc := i1, sm_resub := resub_attempt (sm_resub st)\<rparr>)" and "map_of (sm_registry st2) v = None"
    and "ipc_subscribe os (se_socket e) (se_cluster e) (se_group_id e) (se_topics e) (se_config e) 5000 (sm_ipc st2) = (Ok new, i2)"
    and "op (e\<lparr>se_real_id := new\<rparr>) i2 = (r, i3)"
  shows "\<exists>st'. with_resubscribe os others v op st = (r, st')
     \<and> sm_registry st' = sm_registry st2 \<and> sm_ipc st' = i3"
  using assms
  by (cases r)
    (auto simp: with_resubscribe_def on_ipc_def resubscribe_def second_try_def set_real_id_def Let_def)

end
