(* ===== verification/Ext_Lifecycle.thy ===== *)
theory Ext_Lifecycle
  imports Ext_Subscription "HOL-Library.Char_ord" "HOL-Library.List_Lexorder"
begin

text \<open>
  \<open>ext/src/lifecycle.rs\<close>: the end of a PHP process. Every worker the process used is told goodbye, and
  its subscriptions are released, without starting anything and without ever failing. A
  \<open>BTreeSet\<close> is read in ascending order; strings are compared by their bytes.
\<close>

section \<open>State\<close>

text \<open>\<open>DRIVER_SUBS\<close>, beside the other statics of the process.\<close>

record ('c, 'w) life_state =
  lf_driver :: "(string, u64 set) hmap"
  lf_sub :: "('c, 'w) subs_state"

definition IO_TIMEOUT :: nat where
  "IO_TIMEOUT = 300"

section \<open>Subscriptions of coroutine drivers\<close>

definition driver_ids :: "string \<Rightarrow> ('c, 'w) life_state \<Rightarrow> u64 set" where
  "driver_ids socket st = (case map_of (lf_driver st) socket of Some ids \<Rightarrow> ids | None \<Rightarrow> {})"

definition track_subscription :: "string \<Rightarrow> u64 \<Rightarrow> ('c, 'w) life_state \<Rightarrow> ('c, 'w) life_state" where
  "track_subscription socket real_id st =
     st\<lparr>lf_driver := AList.update socket (insert real_id (driver_ids socket st)) (lf_driver st)\<rparr>"

definition untrack_subscription :: "string \<Rightarrow> u64 \<Rightarrow> ('c, 'w) life_state \<Rightarrow> ('c, 'w) life_state" where
  "untrack_subscription socket real_id st =
     (case map_of (lf_driver st) socket of
        None \<Rightarrow> st
      | Some ids \<Rightarrow>
          let ids' = ids - {real_id} in
          if ids' = {} then st\<lparr>lf_driver := AList.delete socket (lf_driver st)\<rparr>
          else st\<lparr>lf_driver := AList.update socket ids' (lf_driver st)\<rparr>)"

definition drain_driver_subs :: "string \<Rightarrow> ('c, 'w) life_state \<Rightarrow> u64 list \<times> ('c, 'w) life_state" where
  "drain_driver_subs socket st =
     (sorted_list_of_set (driver_ids socket st), st\<lparr>lf_driver := AList.delete socket (lf_driver st)\<rparr>)"

definition driver_subs_sockets :: "('c, 'w) life_state \<Rightarrow> string list" where
  "driver_subs_sockets st = map fst (lf_driver st)"

section \<open>Saying goodbye\<close>

definition ever_ensured_sockets :: "('c, 'w) ipc_state \<Rightarrow> string list" where
  "ever_ensured_sockets st = sorted_list_of_set (ic_ensured st)"

definition collect_sockets :: "('c, 'w) life_state \<Rightarrow> string list" where
  "collect_sockets st =
     sorted_list_of_set
       (set (socket_paths (ic_pools (sm_ipc (lf_sub st)))) \<union> known_sockets (lf_sub st)
        \<union> set (ever_ensured_sockets (sm_ipc (lf_sub st))) \<union> set (driver_subs_sockets st))"

text \<open>
  A connection of its own, with the handshake. Whatever fails gives \<open>None\<close>; a stream that was opened
  is closed then.
\<close>

definition shutdown_handshake :: "('c, 'w) os_proc \<Rightarrow> 'c \<Rightarrow> ('w, unit, unit) act" where
  "shutdown_handshake os c =
     bind_act (io_act (os_read_timeout os c (Some IO_TIMEOUT)) (\<lambda>_. ())) (\<lambda>_.
     bind_act (io_act (os_write_timeout os c (Some IO_TIMEOUT)) (\<lambda>_. ())) (\<lambda>_.
     bind_act (pure_act (map_err (\<lambda>_. ()) build_hello_frame)) (\<lambda>hello.
     bind_act (io_act (os_write_all os c hello) (\<lambda>_. ())) (\<lambda>_.
     bind_act (io_act (os_read_exact os c HEADER_LEN) (\<lambda>_. ())) (\<lambda>header.
     if be_nat (take 4 header) > 64 then pure_act (Err ())
     else
       bind_act (io_act (os_read_exact os c (be_nat (take 4 header))) (\<lambda>_. ())) (\<lambda>payload.
       pure_act (map_err (\<lambda>_. ()) (parse_hello_resp (header @ payload)))))))))"

definition connect_and_handshake :: "('c, 'w) os_proc \<Rightarrow> string \<Rightarrow> 'w \<Rightarrow> 'c option \<times> 'w" where
  "connect_and_handshake os socket w =
     (case os_connect os socket w of
        (Inl _, w1) \<Rightarrow> (None, w1)
      | (Inr c, w1) \<Rightarrow>
          (case shutdown_handshake os c w1 of
             (Ok _, w2) \<Rightarrow> (Some c, w2)
           | (_, w2) \<Rightarrow> (None, os_close os c w2)))"

text \<open>The loop over the subscriptions; the flag tells whether it got to the end.\<close>

fun send_unsubscribes :: "('c, 'w) os_proc \<Rightarrow> 'c \<Rightarrow> u64 list \<Rightarrow> 'w \<Rightarrow> bool \<times> 'w" where
  "send_unsubscribes os c [] w = (True, w)"
| "send_unsubscribes os c (rid # rids) w =
     (case build_unsubscribe_frame rid of
        Ok frame \<Rightarrow>
          (case os_write_all os c frame w of
             (Inl _, w1) \<Rightarrow> (False, w1)
           | (Inr _, w1) \<Rightarrow> send_unsubscribes os c rids w1)
      | _ \<Rightarrow> (False, w))"

definition say_goodbye :: "('c, 'w) os_proc \<Rightarrow> string \<Rightarrow> u64 list \<Rightarrow> 'w \<Rightarrow> 'w" where
  "say_goodbye os socket real_ids w =
     (case connect_and_handshake os socket w of
        (None, w1) \<Rightarrow> w1
      | (Some c, w1) \<Rightarrow>
          (case send_unsubscribes os c real_ids w1 of
             (False, w2) \<Rightarrow> os_close os c w2
           | (True, w2) \<Rightarrow>
               (case build_goodbye_frame of
                  Ok frame \<Rightarrow> os_close os c (snd (os_write_all os c frame w2))
                | _ \<Rightarrow> os_close os c w2)))"

definition idle_of :: "string \<Rightarrow> ('c, 'w) ipc_state \<Rightarrow> 'c list" where
  "idle_of socket st = (case map_of (ic_pools st) socket of Some p \<Rightarrow> pl_idle p | None \<Rightarrow> [])"

definition cleanup_socket :: "('c, 'w) os_proc \<Rightarrow> string \<Rightarrow> ('c, 'w) life_state \<Rightarrow> ('c, 'w) life_state" where
  "cleanup_socket os socket st =
     (let sub = lf_sub st; ipc = sm_ipc sub;
          ipc1 = ipc\<lparr>ic_pools := close_idle socket (ic_pools ipc),
                     ic_world := fold (os_close os) (idle_of socket ipc) (ic_world ipc)\<rparr>;
          (ids, sub1) = drain_real_ids_for_socket socket (sub\<lparr>sm_ipc := ipc1\<rparr>);
          (driver, st1) = drain_driver_subs socket (st\<lparr>lf_sub := sub1\<rparr>);
          w = say_goodbye os socket (ids @ driver) (ic_world ipc1) in
      st1\<lparr>lf_sub := sub1\<lparr>sm_ipc := ipc1\<lparr>ic_world := w\<rparr>\<rparr>\<rparr>)"

definition on_module_shutdown :: "('c, 'w) os_proc \<Rightarrow> ('c, 'w) life_state \<Rightarrow> ('c, 'w) life_state" where
  "on_module_shutdown os st = fold (cleanup_socket os) (collect_sockets st) st"

section \<open>Laws\<close>

lemma untrack_track:
  "map_of (lf_driver st) socket = None \<Longrightarrow> hm_wf (lf_driver st) \<Longrightarrow>
     map_of (lf_driver (untrack_subscription socket rid (track_subscription socket rid st))) = map_of (lf_driver st)"
  by (auto simp: untrack_subscription_def track_subscription_def driver_ids_def fun_eq_iff)

lemma drain_driver_subs_ids:
  "finite (driver_ids socket st) \<Longrightarrow> set (fst (drain_driver_subs socket st)) = driver_ids socket st"
  by (simp add: drain_driver_subs_def)

text \<open>What one cleanup leaves, whether or not the worker answers.\<close>

lemma cleanup_socket_registry:
  "sm_registry (lf_sub (cleanup_socket os socket st)) =
     filter (\<lambda>(_, e). se_socket e \<noteq> socket) (sm_registry (lf_sub st))"
  by (simp add: cleanup_socket_def drain_real_ids_for_socket_def drain_driver_subs_def Let_def)

lemma cleanup_socket_driver:
  "lf_driver (cleanup_socket os socket st) = filter (\<lambda>(s, _). s \<noteq> socket) (lf_driver st)"
  by (simp add: cleanup_socket_def drain_real_ids_for_socket_def drain_driver_subs_def Let_def AList.delete_eq)
    (rule filter_cong, auto)

lemma cleanup_socket_pools:
  "map_of (ic_pools (sm_ipc (lf_sub (cleanup_socket os socket st)))) =
     (\<lambda>s. if s = socket then map_option clear_idle (map_of (ic_pools (sm_ipc (lf_sub st))) s)
          else map_of (ic_pools (sm_ipc (lf_sub st))) s)"
  by (auto simp: cleanup_socket_def drain_real_ids_for_socket_def drain_driver_subs_def Let_def close_idle_def
      fun_eq_iff split: option.split)

lemma clear_idle_idem: "clear_idle (clear_idle p) = clear_idle p"
  by (simp add: clear_idle_def)

lemma cleanup_all:
  "sm_registry (lf_sub (fold (cleanup_socket os) sockets st)) =
     filter (\<lambda>(_, e). se_socket e \<notin> set sockets) (sm_registry (lf_sub st))"
  "lf_driver (fold (cleanup_socket os) sockets st) = filter (\<lambda>(s, _). s \<notin> set sockets) (lf_driver st)"
  "map_of (ic_pools (sm_ipc (lf_sub (fold (cleanup_socket os) sockets st)))) =
     (\<lambda>s. if s \<in> set sockets then map_option clear_idle (map_of (ic_pools (sm_ipc (lf_sub st))) s)
          else map_of (ic_pools (sm_ipc (lf_sub st))) s)"
proof (induction sockets arbitrary: st)
  case (Cons socket sockets)
  {
    case 1
    show ?case by (simp add: Cons.IH(1) cleanup_socket_registry) (rule filter_cong, auto)
  next
    case 2
    show ?case by (simp add: Cons.IH(2) cleanup_socket_driver) (rule filter_cong, auto)
  next
    case 3
    show ?case
      by (auto simp: Cons.IH(3) cleanup_socket_pools fun_eq_iff option.map_comp comp_def clear_idle_idem)
  }
qed auto

lemma set_collect_sockets:
  "finite (ic_ensured (sm_ipc (lf_sub st))) \<Longrightarrow> set (collect_sockets st) =
     fst ` set (ic_pools (sm_ipc (lf_sub st))) \<union> known_sockets (lf_sub st) \<union> ic_ensured (sm_ipc (lf_sub st))
     \<union> fst ` set (lf_driver st)"
  by (simp add: collect_sockets_def ever_ensured_sockets_def driver_subs_sockets_def socket_paths_def known_sockets_def)

text \<open>
  When a PHP process ends, nothing of its subscriptions is left behind, whether or not its
  workers still answer: every virtual subscription and every subscription of a coroutine driver
  has been taken out, and no pool keeps an idle connection.
\<close>
lemma shutdown_releases_everything:
  assumes "finite (ic_ensured (sm_ipc (lf_sub st)))" and "st' = on_module_shutdown os st"
  shows "sm_registry (lf_sub st') = [] \<and> lf_driver st' = []
    \<and> (\<forall>socket p. map_of (ic_pools (sm_ipc (lf_sub st'))) socket = Some p \<longrightarrow> pl_idle p = [])"
proof -
  note cover = set_collect_sockets [OF assms(1)]
  have "sm_registry (lf_sub st') = []"
    unfolding assms(2) on_module_shutdown_def cleanup_all cover
    by (force simp: known_sockets_def filter_empty_conv)
  moreover have "lf_driver st' = []"
    unfolding assms(2) on_module_shutdown_def cleanup_all cover by (force simp: filter_empty_conv)
  moreover have "pl_idle p = []" if "map_of (ic_pools (sm_ipc (lf_sub st'))) socket = Some p" for socket p
  proof -
    have "socket \<in> set (collect_sockets st)" if "map_of (ic_pools (sm_ipc (lf_sub st))) socket = Some q" for q
      using map_of_SomeD [OF that] unfolding cover by force
    with that show ?thesis
      unfolding assms(2) on_module_shutdown_def cleanup_all by (auto simp: clear_idle_def split: if_splits)
  qed
  ultimately show ?thesis by blast
qed

end
