(* ===== verification/Ext_Php.thy ===== *)
theory Ext_Php
  imports Ext_Lifecycle
begin

text \<open>
  \<open>ext/src/lib.rs\<close>, \<open>ext/src/client.rs\<close> and \<open>ext/src/kafka_exception.rs\<close>: the functions and the class that PHP
  programs see. PHP integers are \<open>i64\<close>; an array is a list of keys with values in insertion order, and
  inserting under a key that is there replaces its value. Inserting does not fail. A \<open>HashMap\<close> of
  arguments is the list of its pairs in the order in which it is iterated.
\<close>

section \<open>Values\<close>

datatype zkey = KStr string | KInt nat

datatype zval = ZNull | ZBool bool | ZLong i64 | ZStr string | ZBin bytes | ZArr "(zkey \<times> zval) list"

text \<open>An array built by \<open>insert\<close> with string keys, and one built by \<open>push\<close>.\<close>

definition zmap :: "(string \<times> zval) list \<Rightarrow> zval" where
  "zmap kvs = ZArr (fold (\<lambda>(k, v). AList.update (KStr k) v) kvs [])"

definition zlist :: "zval list \<Rightarrow> zval" where
  "zlist vs = ZArr (map (\<lambda>(i, v). (KInt i, v)) (enumerate 0 vs))"

definition from_i32 :: "i32 \<Rightarrow> zval" where
  "from_i32 x = ZLong (scast x)"

section \<open>Exceptions\<close>

text \<open>
  \<open>Hi\Kafka\KafkaException\<close> with its public properties, or a plain exception with a message.
\<close>

datatype php_exception =
    KafkaException string i64 string bool i64
  | PlainException string

text \<open>\<open>registered\<close>: the class entry exists and the engine could construct the object.\<close>

definition build_zval :: "bool \<Rightarrow> string \<Rightarrow> i64 \<Rightarrow> string \<Rightarrow> bool \<Rightarrow> i64 \<Rightarrow> php_exception option" where
  "build_zval registered message kind kind_name retryable native_code =
     (if registered then Some (KafkaException message kind kind_name retryable native_code) else None)"

fun get_kind :: "php_exception \<Rightarrow> i64" where
  "get_kind (KafkaException _ kind _ _ _) = kind"
| "get_kind (PlainException _) = 0"

fun get_kind_name :: "php_exception \<Rightarrow> string" where
  "get_kind_name (KafkaException _ _ kind_name _ _) = kind_name"
| "get_kind_name (PlainException _) = []"

fun exc_is_retryable :: "php_exception \<Rightarrow> bool" where
  "exc_is_retryable (KafkaException _ _ _ retryable _) = retryable"
| "exc_is_retryable (PlainException _) = False"

fun get_native_code :: "php_exception \<Rightarrow> i64" where
  "get_native_code (KafkaException _ _ _ _ native_code) = native_code"
| "get_native_code (PlainException _) = 0"

text \<open>What the PHP functions depend on: the operating system, the class entry, the engine's function table.\<close>

record ('c, 'w) php_env =
  pv_os :: "('c, 'w) os_proc"
  pv_registered :: bool
  pv_function_exists :: "string \<Rightarrow> bool"

definition ipc_err_to_php :: "('c, 'w) php_env \<Rightarrow> ipc_error \<Rightarrow> php_exception" where
  "ipc_err_to_php pv e =
     (case e of
        WorkerFailed kind retryable native_code message \<Rightarrow>
          (case build_zval (pv_registered pv) message (ucast (error_kind_as_u16 kind)) (error_kind_as_str kind)
                  retryable (scast native_code) of
             Some exc \<Rightarrow> exc
           | None \<Rightarrow> PlainException (ipc_error_display (os_io_text (pv_os pv)) e))
      | _ \<Rightarrow> PlainException (ipc_error_display (os_io_text (pv_os pv)) e))"

type_synonym ('c, 'w, 'a) php = "(('c, 'w) subs_state, php_exception, 'a) act"

definition php_ipc :: "('c, 'w) php_env \<Rightarrow> ('c, 'w, 'a) ipc \<Rightarrow> ('c, 'w, 'a) php" where
  "php_ipc pv m = map_err_act (ipc_err_to_php pv) (on_ipc m)"

definition php_sub :: "('c, 'w) php_env \<Rightarrow> ('c, 'w, 'a) sub_act \<Rightarrow> ('c, 'w, 'a) php" where
  "php_sub pv m = map_err_act (ipc_err_to_php pv) m"

definition plain :: "(string, 'a) outcome \<Rightarrow> (php_exception, 'a) outcome" where
  "plain r = map_err PlainException r"

section \<open>Arguments\<close>

text \<open>
  \<open>Duration::from_millis(t.unwrap_or(dflt).max(1) as u64)\<close>, \<open>v.max(k) as u32\<close> (which keeps the lower 32
  bits), \<open>p as i32\<close> (likewise) and \<open>p.clamp(i32::MIN, i32::MAX) as i32\<close>.
\<close>

definition php_timeout :: "nat \<Rightarrow> i64 option \<Rightarrow> nat" where
  "php_timeout dflt t = (case t of Some v \<Rightarrow> nat (max 1 (sint v)) | None \<Rightarrow> dflt)"

definition max_as_u32 :: "int \<Rightarrow> i64 \<Rightarrow> u32" where
  "max_as_u32 k v = of_int (max k (sint v))"

definition as_i32 :: "i64 \<Rightarrow> i32" where
  "as_i32 p = ucast p"

definition clamp_i32 :: "i64 \<Rightarrow> i32" where
  "clamp_i32 p = of_int (max (- (2 ^ 31)) (min (2 ^ 31 - 1) (sint p)))"

definition build_options :: "(string \<times> string) list option \<Rightarrow> i64 option \<Rightarrow> i64 option \<Rightarrow> produce_options" where
  "build_options headers part timestamp_ms =
     \<lparr>op_headers = map (\<lambda>(k, v). (k, as_bytes v)) (case headers of Some hs \<Rightarrow> hs | None \<Rightarrow> []),
      op_partition = (case part of Some p \<Rightarrow> clamp_i32 p | None \<Rightarrow> -1),
      op_timestamp_ms = (case timestamp_ms of Some t \<Rightarrow> t | None \<Rightarrow> -1)\<rparr>"

definition must_agree :: string where
  "must_agree = [CHR 0xE9, CHR 0x95, CHR 0xBF, CHR 0xE5, CHR 0xBA, CHR 0xA6, CHR 0xE5, CHR 0xBF, CHR 0x85,
     CHR 0xE9, CHR 0xA1, CHR 0xBB, CHR 0xE4, CHR 0xB8, CHR 0x80, CHR 0xE8, CHR 0x87, CHR 0xB4]"

definition and_word :: string where
  "and_word = [CHR '' '', CHR 0xE5, CHR 0x92, CHR 0x8C, CHR '' '']"

definition build_offset_targets ::
  "string list \<Rightarrow> i64 list \<Rightarrow> i64 list \<Rightarrow> (string, offset_spec list) outcome" where
  "build_offset_targets topics partitions offsets =
     (if length topics \<noteq> length partitions \<or> length topics \<noteq> length offsets then
        Err (''topics('' @ show_nat (length topics) @ ''), partitions('' @ show_nat (length partitions)
               @ ''), offsets('' @ show_nat (length offsets) @ '') '' @ must_agree)
      else Ok (map (\<lambda>((t, p), off). (t, as_i32 p, off)) (zip (zip topics partitions) offsets)))"

definition build_binary_headers :: "string list \<Rightarrow> bytes list \<Rightarrow> (string, message_header list) outcome" where
  "build_binary_headers names vals =
     (if length names \<noteq> length vals then
        Err (''header names('' @ show_nat (length names) @ '')'' @ and_word @ ''values('' @ show_nat (length vals)
               @ '') '' @ must_agree)
      else Ok (zip names vals))"

definition build_partition_specs :: "string list \<Rightarrow> i64 list \<Rightarrow> (string, partition_spec list) outcome" where
  "build_partition_specs topics partitions =
     (if length topics \<noteq> length partitions then
        Err (''topics('' @ show_nat (length topics) @ '')'' @ and_word @ ''partitions('' @ show_nat (length partitions)
               @ '') '' @ must_agree)
      else Ok (map (\<lambda>(t, p). (t, as_i32 p)) (zip topics partitions)))"

section \<open>Results\<close>

definition resp_to_zval :: "produce_resp \<Rightarrow> zval" where
  "resp_to_zval resp =
     (case resp of
        ProduceOk ack \<Rightarrow>
          zmap [(''ok'', ZBool True), (''partition'', from_i32 (da_partition ack)), (''offset'', ZLong (da_offset ack))]
      | ProduceErr err \<Rightarrow>
          zmap [(''ok'', ZBool False), (''code'', ZLong (ucast (de_code err))), (''message'', ZStr (de_message err)),
                (''retryable'', ZBool (de_retryable err))])"

definition partitions_to_zval :: "partition_spec list \<Rightarrow> zval" where
  "partitions_to_zval parts =
     zlist (map (\<lambda>(topic, p). zmap [(''topic'', ZStr topic), (''partition'', from_i32 p)]) parts)"

definition rebalance_event_to_zval :: "rebalance_event \<Rightarrow> zval" where
  "rebalance_event_to_zval e =
     (case e of
        AssignEv parts \<Rightarrow> zmap [(''type'', ZStr ''assign''), (''partitions'', partitions_to_zval parts)]
      | RevokeEv parts \<Rightarrow> zmap [(''type'', ZStr ''revoke''), (''partitions'', partitions_to_zval parts)]
      | ErrorEv message \<Rightarrow> zmap [(''type'', ZStr ''error''), (''message'', ZStr message)])"

definition rebalance_events_to_zval :: "rebalance_event list \<Rightarrow> zval" where
  "rebalance_events_to_zval events = zlist (map rebalance_event_to_zval events)"

definition message_to_zval :: "consumer_message \<Rightarrow> zval" where
  "message_to_zval m =
     zmap [(''topic'', ZStr (cm_topic m)), (''partition'', from_i32 (cm_partition m)),
           (''offset'', ZLong (cm_offset m)), (''timestamp_ms'', ZLong (cm_timestamp_ms m)),
           (''key'', ZBin (cm_key m)), (''value'', ZBin (cm_value m)),
           (''headers'', zmap (map (\<lambda>(name, v). (name, ZBin v)) (cm_headers m)))]"

definition messages_to_zval :: "consumer_message list \<Rightarrow> zval" where
  "messages_to_zval messages = zlist (map message_to_zval messages)"

definition cid_frame_zval :: "u64 \<Rightarrow> bytes \<Rightarrow> zval" where
  "cid_frame_zval cid frame = zmap [(''cid'', ZLong cid), (''frame'', ZBin frame)]"

section \<open>The class Client\<close>

record client =
  cl_socket :: string

definition client_construct :: "env_vars \<Rightarrow> string option \<Rightarrow> client" where
  "client_construct env socket = \<lparr>cl_socket = resolve_socket env socket\<rparr>"

definition client_ensure_worker :: "('c, 'w) php_env \<Rightarrow> client \<Rightarrow> ('c, 'w, unit) php" where
  "client_ensure_worker pv this =
     map_err_act (\<lambda>e. PlainException (''ensure_worker: '' @ ipc_error_display (os_io_text (pv_os pv)) e))
       (on_ipc (\<lambda>st. ipc_ensure (pv_os pv) (cl_socket this) (invalidate (cl_socket this) st)))"

definition client_register_cluster ::
  "('c, 'w) php_env \<Rightarrow> client \<Rightarrow> string \<Rightarrow> config_entry list \<Rightarrow> i64 option \<Rightarrow> ('c, 'w, unit) php" where
  "client_register_cluster pv this cluster config timeoutMs =
     php_ipc pv (ipc_register_cluster (pv_os pv) (cl_socket this) cluster config (php_timeout 5000 timeoutMs))"

definition client_produce_fnf ::
  "('c, 'w) php_env \<Rightarrow> client \<Rightarrow> string \<Rightarrow> string \<Rightarrow> string \<Rightarrow> string \<Rightarrow> (string \<times> string) list option \<Rightarrow> i64 option
    \<Rightarrow> i64 option \<Rightarrow> ('c, 'w, unit) php" where
  "client_produce_fnf pv this cluster topic key val headers part timestampMs =
     php_ipc pv (ipc_produce_fnf (pv_os pv) (cl_socket this) cluster topic key val
                   (build_options headers part timestampMs))"

definition client_produce_sync ::
  "('c, 'w) php_env \<Rightarrow> client \<Rightarrow> string \<Rightarrow> string \<Rightarrow> string \<Rightarrow> string \<Rightarrow> (string \<times> string) list option \<Rightarrow> i64 option
    \<Rightarrow> i64 option \<Rightarrow> i64 option \<Rightarrow> ('c, 'w, zval) php" where
  "client_produce_sync pv this cluster topic key val headers part timestampMs timeoutMs =
     bind_act
       (php_ipc pv (ipc_produce_sync (pv_os pv) (cl_socket this) cluster topic key val
                      (build_options headers part timestampMs) (php_timeout 5000 timeoutMs))) (\<lambda>resp.
     pure_act (Ok (resp_to_zval resp)))"

definition bin_options :: "message_header list \<Rightarrow> i64 option \<Rightarrow> i64 option \<Rightarrow> produce_options" where
  "bin_options headers part timestampMs =
     \<lparr>op_headers = headers, op_partition = (case part of Some p \<Rightarrow> clamp_i32 p | None \<Rightarrow> -1),
      op_timestamp_ms = (case timestampMs of Some t \<Rightarrow> t | None \<Rightarrow> -1)\<rparr>"

definition client_produce_fnf_bin ::
  "('c, 'w) php_env \<Rightarrow> client \<Rightarrow> string \<Rightarrow> string \<Rightarrow> bytes \<Rightarrow> bytes \<Rightarrow> string list \<Rightarrow> bytes list \<Rightarrow> i64 option
    \<Rightarrow> i64 option \<Rightarrow> ('c, 'w, unit) php" where
  "client_produce_fnf_bin pv this cluster topic key val headerNames headerValues part timestampMs =
     bind_act (pure_act (plain (build_binary_headers headerNames headerValues))) (\<lambda>headers.
     php_ipc pv (ipc_produce_fnf_bin (pv_os pv) (cl_socket this) cluster topic key val
                   (bin_options headers part timestampMs)))"

definition client_produce_sync_bin ::
  "('c, 'w) php_env \<Rightarrow> client \<Rightarrow> string \<Rightarrow> string \<Rightarrow> bytes \<Rightarrow> bytes \<Rightarrow> string list \<Rightarrow> bytes list \<Rightarrow> i64 option
    \<Rightarrow> i64 option \<Rightarrow> i64 option \<Rightarrow> ('c, 'w, zval) php" where
  "client_produce_sync_bin pv this cluster topic key val headerNames headerValues part timestampMs timeoutMs =
     bind_act (pure_act (plain (build_binary_headers headerNames headerValues))) (\<lambda>headers.
     bind_act
       (php_ipc pv (ipc_produce_sync_bin (pv_os pv) (cl_socket this) cluster topic key val
                      (bin_options headers part timestampMs) (php_timeout 5000 timeoutMs))) (\<lambda>resp.
     pure_act (Ok (resp_to_zval resp))))"

definition client_subscribe ::
  "('c, 'w) php_env \<Rightarrow> client \<Rightarrow> string \<Rightarrow> string \<Rightarrow> string list \<Rightarrow> config_entry list option \<Rightarrow> i64 option
    \<Rightarrow> ('c, 'w, i64) php" where
  "client_subscribe pv this cluster groupId topics config timeoutMs =
     php_sub pv (sub_subscribe (pv_os pv) (cl_socket this) cluster groupId topics
                   (case config of Some c \<Rightarrow> c | None \<Rightarrow> []) (php_timeout 5000 timeoutMs))"

definition client_poll ::
  "('c, 'w) php_env \<Rightarrow> client \<Rightarrow> i64 \<Rightarrow> i64 \<Rightarrow> i64 \<Rightarrow> ('c, 'w, zval) php" where
  "client_poll pv this subscriptionId maxMessages timeoutMs =
     bind_act
       (php_sub pv (sub_poll (pv_os pv) id subscriptionId (max_as_u32 1 maxMessages) (max_as_u32 0 timeoutMs)))
       (\<lambda>messages. pure_act (Ok (messages_to_zval messages)))"

definition client_commit :: "('c, 'w) php_env \<Rightarrow> client \<Rightarrow> i64 \<Rightarrow> i64 option \<Rightarrow> ('c, 'w, unit) php" where
  "client_commit pv this subscriptionId timeoutMs =
     php_sub pv (sub_commit (pv_os pv) id subscriptionId (php_timeout 5000 timeoutMs))"

definition client_unsubscribe :: "('c, 'w) php_env \<Rightarrow> client \<Rightarrow> i64 \<Rightarrow> ('c, 'w, unit) php" where
  "client_unsubscribe pv this subscriptionId = php_sub pv (sub_unsubscribe (pv_os pv) subscriptionId)"

definition client_begin_transaction :: "('c, 'w) php_env \<Rightarrow> client \<Rightarrow> string \<Rightarrow> i64 option \<Rightarrow> ('c, 'w, unit) php" where
  "client_begin_transaction pv this cluster timeoutMs =
     php_ipc pv (ipc_txn (pv_os pv) (cl_socket this) cluster TxnBegin (php_timeout 30000 timeoutMs))"

definition client_commit_transaction :: "('c, 'w) php_env \<Rightarrow> client \<Rightarrow> string \<Rightarrow> i64 option \<Rightarrow> ('c, 'w, unit) php" where
  "client_commit_transaction pv this cluster timeoutMs =
     php_ipc pv (ipc_txn (pv_os pv) (cl_socket this) cluster TxnCommit (php_timeout 30000 timeoutMs))"

definition client_abort_transaction :: "('c, 'w) php_env \<Rightarrow> client \<Rightarrow> string \<Rightarrow> i64 option \<Rightarrow> ('c, 'w, unit) php" where
  "client_abort_transaction pv this cluster timeoutMs =
     php_ipc pv (ipc_txn (pv_os pv) (cl_socket this) cluster TxnAbort (php_timeout 30000 timeoutMs))"

definition client_seek ::
  "('c, 'w) php_env \<Rightarrow> client \<Rightarrow> i64 \<Rightarrow> string list \<Rightarrow> i64 list \<Rightarrow> i64 list \<Rightarrow> i64 option \<Rightarrow> ('c, 'w, unit) php" where
  "client_seek pv this subscriptionId topics partitions offsets timeoutMs =
     bind_act (pure_act (plain (build_offset_targets topics partitions offsets))) (\<lambda>parsed.
     php_ipc pv (ipc_seek_by_offset (pv_os pv) (cl_socket this) subscriptionId parsed (php_timeout 10000 timeoutMs)))"

definition client_seek_to_timestamp ::
  "('c, 'w) php_env \<Rightarrow> client \<Rightarrow> i64 \<Rightarrow> i64 \<Rightarrow> string list \<Rightarrow> i64 list \<Rightarrow> i64 option \<Rightarrow> ('c, 'w, unit) php" where
  "client_seek_to_timestamp pv this subscriptionId timestampMs topics partitions timeoutMs =
     bind_act (pure_act (plain (build_partition_specs topics partitions))) (\<lambda>parsed.
     php_ipc pv (ipc_seek_by_timestamp (pv_os pv) (cl_socket this) subscriptionId timestampMs parsed
                   (php_timeout 15000 timeoutMs)))"

definition client_set_o_auth_bearer_token ::
  "('c, 'w) php_env \<Rightarrow> client \<Rightarrow> string \<Rightarrow> string \<Rightarrow> i64 \<Rightarrow> string \<Rightarrow> config_entry list option \<Rightarrow> i64 option
    \<Rightarrow> ('c, 'w, unit) php" where
  "client_set_o_auth_bearer_token pv this cluster token lifetimeMs principalName extensions timeoutMs =
     php_ipc pv (ipc_set_oauth_bearer_token (pv_os pv) (cl_socket this) cluster
       \<lparr>ot_token_value = token, ot_lifetime_ms = lifetimeMs, ot_principal_name = principalName,
        ot_extensions = (case extensions of Some e \<Rightarrow> e | None \<Rightarrow> [])\<rparr> (php_timeout 5000 timeoutMs))"

definition client_pause ::
  "('c, 'w) php_env \<Rightarrow> client \<Rightarrow> i64 \<Rightarrow> string list \<Rightarrow> i64 list \<Rightarrow> i64 option \<Rightarrow> ('c, 'w, unit) php" where
  "client_pause pv this subscriptionId topics partitions timeoutMs =
     bind_act (pure_act (plain (build_partition_specs topics partitions))) (\<lambda>parsed.
     php_ipc pv (ipc_pause_resume (pv_os pv) (cl_socket this) subscriptionId Pause parsed (php_timeout 5000 timeoutMs)))"

definition client_resume ::
  "('c, 'w) php_env \<Rightarrow> client \<Rightarrow> i64 \<Rightarrow> string list \<Rightarrow> i64 list \<Rightarrow> i64 option \<Rightarrow> ('c, 'w, unit) php" where
  "client_resume pv this subscriptionId topics partitions timeoutMs =
     bind_act (pure_act (plain (build_partition_specs topics partitions))) (\<lambda>parsed.
     php_ipc pv (ipc_pause_resume (pv_os pv) (cl_socket this) subscriptionId Resume parsed (php_timeout 5000 timeoutMs)))"

definition client_send_offsets_to_transaction ::
  "('c, 'w) php_env \<Rightarrow> client \<Rightarrow> string \<Rightarrow> i64 \<Rightarrow> string \<Rightarrow> string list \<Rightarrow> i64 list \<Rightarrow> i64 list \<Rightarrow> i64 option
    \<Rightarrow> ('c, 'w, unit) php" where
  "client_send_offsets_to_transaction pv this producerCluster subscriptionId groupId topics partitions offsets timeoutMs =
     bind_act (pure_act (plain (build_offset_targets topics partitions offsets))) (\<lambda>parsed.
     php_ipc pv (ipc_send_offsets_to_transaction (pv_os pv) (cl_socket this) producerCluster subscriptionId groupId
                   parsed (php_timeout 30000 timeoutMs)))"

definition client_poll_rebalance_events ::
  "('c, 'w) php_env \<Rightarrow> client \<Rightarrow> i64 \<Rightarrow> i64 option \<Rightarrow> i64 option \<Rightarrow> ('c, 'w, zval) php" where
  "client_poll_rebalance_events pv this subscriptionId maxEvents timeoutMs =
     bind_act
       (php_ipc pv (ipc_poll_rebalance (pv_os pv) (cl_socket this) subscriptionId
                      (max_as_u32 1 (case maxEvents of Some n \<Rightarrow> n | None \<Rightarrow> 100)) (php_timeout 5000 timeoutMs)))
       (\<lambda>events. pure_act (Ok (rebalance_events_to_zval events)))"

section \<open>The functions\<close>

abbreviation at_socket :: "('c, 'w) php_env \<Rightarrow> string option \<Rightarrow> client" where
  "at_socket pv socket \<equiv> client_construct (os_env (pv_os pv)) socket"

definition hi_kafka_ensure_worker :: "('c, 'w) php_env \<Rightarrow> string option \<Rightarrow> ('c, 'w, unit) php" where
  "hi_kafka_ensure_worker pv socket = client_ensure_worker pv (at_socket pv socket)"

definition hi_kafka_register_cluster ::
  "('c, 'w) php_env \<Rightarrow> string \<Rightarrow> config_entry list \<Rightarrow> string option \<Rightarrow> i64 option \<Rightarrow> ('c, 'w, unit) php" where
  "hi_kafka_register_cluster pv cluster config socket timeout_ms =
     client_register_cluster pv (at_socket pv socket) cluster config timeout_ms"

definition hi_kafka_produce_fnf ::
  "('c, 'w) php_env \<Rightarrow> string \<Rightarrow> string \<Rightarrow> string \<Rightarrow> string \<Rightarrow> (string \<times> string) list option \<Rightarrow> i64 option
    \<Rightarrow> i64 option \<Rightarrow> string option \<Rightarrow> ('c, 'w, unit) php" where
  "hi_kafka_produce_fnf pv cluster topic key val headers part timestamp_ms socket =
     client_produce_fnf pv (at_socket pv socket) cluster topic key val headers part timestamp_ms"

definition hi_kafka_produce_sync ::
  "('c, 'w) php_env \<Rightarrow> string \<Rightarrow> string \<Rightarrow> string \<Rightarrow> string \<Rightarrow> (string \<times> string) list option \<Rightarrow> i64 option
    \<Rightarrow> i64 option \<Rightarrow> i64 option \<Rightarrow> string option \<Rightarrow> ('c, 'w, zval) php" where
  "hi_kafka_produce_sync pv cluster topic key val headers part timestamp_ms timeout_ms socket =
     client_produce_sync pv (at_socket pv socket) cluster topic key val headers part timestamp_ms timeout_ms"

definition hi_kafka_subscribe ::
  "('c, 'w) php_env \<Rightarrow> string \<Rightarrow> string \<Rightarrow> string list \<Rightarrow> config_entry list option \<Rightarrow> string option \<Rightarrow> i64 option
    \<Rightarrow> ('c, 'w, i64) php" where
  "hi_kafka_subscribe pv cluster group_id topics config socket timeout_ms =
     client_subscribe pv (at_socket pv socket) cluster group_id topics config timeout_ms"

definition hi_kafka_poll :: "('c, 'w) php_env \<Rightarrow> i64 \<Rightarrow> i64 \<Rightarrow> i64 \<Rightarrow> ('c, 'w, zval) php" where
  "hi_kafka_poll pv subscription_id max_messages timeout_ms =
     bind_act
       (php_sub pv (sub_poll (pv_os pv) id subscription_id (max_as_u32 1 max_messages) (max_as_u32 0 timeout_ms)))
       (\<lambda>messages. pure_act (Ok (messages_to_zval messages)))"

definition hi_kafka_commit :: "('c, 'w) php_env \<Rightarrow> i64 \<Rightarrow> i64 option \<Rightarrow> ('c, 'w, unit) php" where
  "hi_kafka_commit pv subscription_id timeout_ms =
     php_sub pv (sub_commit (pv_os pv) id subscription_id (php_timeout 5000 timeout_ms))"

definition hi_kafka_unsubscribe :: "('c, 'w) php_env \<Rightarrow> i64 \<Rightarrow> ('c, 'w, unit) php" where
  "hi_kafka_unsubscribe pv subscription_id = php_sub pv (sub_unsubscribe (pv_os pv) subscription_id)"

definition hi_kafka_track_subscription ::
  "('c, 'w) php_env \<Rightarrow> i64 \<Rightarrow> string option \<Rightarrow> ('c, 'w) life_state \<Rightarrow> ('c, 'w) life_state" where
  "hi_kafka_track_subscription pv subscription_id socket =
     track_subscription (resolve_socket (os_env (pv_os pv)) socket) subscription_id"

definition hi_kafka_untrack_subscription ::
  "('c, 'w) php_env \<Rightarrow> i64 \<Rightarrow> string option \<Rightarrow> ('c, 'w) life_state \<Rightarrow> ('c, 'w) life_state" where
  "hi_kafka_untrack_subscription pv subscription_id socket =
     untrack_subscription (resolve_socket (os_env (pv_os pv)) socket) subscription_id"

definition counters_zval :: "u64 \<Rightarrow> u64 \<Rightarrow> u64 \<Rightarrow> zval" where
  "counters_zval attempts successes failures =
     zmap [(''attempts'', ZLong attempts), (''successes'', ZLong successes), (''failures'', ZLong failures)]"

definition hi_kafka_resubscribe_stats :: "('c, 'w) subs_state \<Rightarrow> zval" where
  "hi_kafka_resubscribe_stats st =
     (let s = sm_resub st in counters_zval (us_attempts s) (us_successes s) (us_failures s))"

definition hi_kafka_retry_stats :: "('c, 'w) subs_state \<Rightarrow> zval" where
  "hi_kafka_retry_stats st =
     (let s = ic_retry (sm_ipc st) in counters_zval (rs_attempts s) (rs_successes s) (rs_failures s))"

definition hi_kafka_pool_stats :: "('c, 'w) subs_state \<Rightarrow> zval" where
  "hi_kafka_pool_stats st =
     zmap (map (\<lambda>(path, stats, idle, max_idle).
       (path,
        zmap [(''max_idle'', ZLong (of_nat max_idle)), (''idle'', ZLong (of_nat idle)),
              (''acquires'', ZLong (sts_acquires_total stats)), (''hits'', ZLong (sts_hits_total stats)),
              (''misses'', ZLong (sts_misses_total stats)), (''closed'', ZLong (sts_closed_total stats)),
              (''poisoned'', ZLong (sts_poisoned_total stats))]))
       (all_stats (ic_pools (sm_ipc st))))"

definition hi_kafka_runtime :: "('c, 'w) php_env \<Rightarrow> string list" where
  "hi_kafka_runtime pv =
     [''blocking''] @ (if pv_function_exists pv ''swoole_version'' then [''swoole''] else [])
       @ (if pv_function_exists pv (''swow'' @ [CHR 0x5C] @ ''version'') then [''swow''] else [])"

section \<open>Encoding and decoding for coroutine drivers\<close>

text \<open>The counter of correlation ids is that of \<open>protocol.rs\<close>.\<close>

type_synonym 'a codec_fun = "u64 \<Rightarrow> (php_exception, 'a) outcome \<times> u64"

definition hi_kafka_next_cid :: "u64 \<Rightarrow> i64 \<times> u64" where
  "hi_kafka_next_cid n = next_cid n"

definition hi_kafka_header_len :: i64 where
  "hi_kafka_header_len = of_nat HEADER_LEN"

definition hi_kafka_error_frame_kind :: i64 where
  "hi_kafka_error_frame_kind = ucast (frame_type_code FT_Error)"

definition framed :: "(string, u64 \<times> bytes) outcome \<times> u64 \<Rightarrow> (php_exception, zval) outcome \<times> u64" where
  "framed r = (map_ok (\<lambda>(cid, frame). cid_frame_zval cid frame) (plain (fst r)), snd r)"

definition hi_kafka_decode_error_frame :: "bytes \<Rightarrow> (php_exception, zval) outcome" where
  "hi_kafka_decode_error_frame bytes =
     map_ok (\<lambda>pe. zmap [(''kind'', ZLong (ucast (pe_kind pe))), (''kind_name'', ZStr (pe_kind_name pe)),
                        (''retryable'', ZBool (pe_retryable pe)), (''native_code'', from_i32 (pe_native_code pe)),
                        (''message'', ZStr (pe_message pe))])
       (plain (parse_error_frame bytes))"

definition hi_kafka_encode_hello_frame :: "(php_exception, zval) outcome" where
  "hi_kafka_encode_hello_frame = map_ok ZBin (plain build_hello_frame)"

definition hi_kafka_verify_hello_resp :: "bytes \<Rightarrow> (php_exception, unit) outcome" where
  "hi_kafka_verify_hello_resp bytes = plain (parse_hello_resp bytes)"

definition hi_kafka_encode_fnf_frame ::
  "string \<Rightarrow> string \<Rightarrow> string \<Rightarrow> string \<Rightarrow> (string \<times> string) list option \<Rightarrow> i64 option \<Rightarrow> i64 option
    \<Rightarrow> (php_exception, zval) outcome" where
  "hi_kafka_encode_fnf_frame cluster topic key val headers part timestamp_ms =
     (let opts = build_options headers part timestamp_ms in
      map_ok ZBin (plain (build_fnf_frame cluster topic (as_bytes key) (as_bytes val) (op_headers opts)
        (op_partition opts) (op_timestamp_ms opts))))"

definition hi_kafka_encode_req_frame ::
  "string \<Rightarrow> string \<Rightarrow> string \<Rightarrow> string \<Rightarrow> (string \<times> string) list option \<Rightarrow> i64 option \<Rightarrow> i64 option \<Rightarrow> zval codec_fun" where
  "hi_kafka_encode_req_frame cluster topic key val headers part timestamp_ms n =
     (let opts = build_options headers part timestamp_ms in
      framed (build_req_frame cluster topic (as_bytes key) (as_bytes val) (op_headers opts) (op_partition opts)
        (op_timestamp_ms opts) n))"

definition hi_kafka_parse_header :: "bytes \<Rightarrow> (php_exception, zval) outcome" where
  "hi_kafka_parse_header bytes =
     map_ok (\<lambda>h. zmap [(''kind'', ZLong (ucast (ph_kind_byte h))), (''cid'', ZLong (ph_cid h)),
                       (''payload_len'', ZLong (ucast (ph_payload_len h)))])
       (plain (parse_header_only bytes))"

definition hi_kafka_decode_resp_frame :: "bytes \<Rightarrow> (php_exception, zval) outcome" where
  "hi_kafka_decode_resp_frame bytes =
     bind_ok (plain (parse_resp_frame bytes)) (\<lambda>parsed.
       case parsed of
         ParsedResp cid (ProduceOk ack) \<Rightarrow>
           Ok (zmap [(''cid'', ZLong cid), (''ok'', ZBool True), (''partition'', from_i32 (da_partition ack)),
                     (''offset'', ZLong (da_offset ack))])
       | ParsedResp cid (ProduceErr err) \<Rightarrow>
           Ok (zmap [(''cid'', ZLong cid), (''ok'', ZBool False), (''code'', ZLong (ucast (de_code err))),
                     (''message'', ZStr (de_message err)), (''retryable'', ZBool (de_retryable err))])
       | ParsedOther kind cid _ \<Rightarrow>
           Err (PlainException (''unexpected frame kind '' @ frame_type_debug kind @ '' cid='' @ show_nat (unat cid))))"

definition hi_kafka_encode_subscribe_frame ::
  "string \<Rightarrow> string \<Rightarrow> string list \<Rightarrow> config_entry list option \<Rightarrow> zval codec_fun" where
  "hi_kafka_encode_subscribe_frame cluster group_id topics config n =
     framed (build_subscribe_frame cluster group_id topics (case config of Some c \<Rightarrow> c | None \<Rightarrow> []) n)"

definition hi_kafka_encode_poll_frame :: "i64 \<Rightarrow> i64 \<Rightarrow> i64 \<Rightarrow> zval codec_fun" where
  "hi_kafka_encode_poll_frame subscription_id max_messages timeout_ms n =
     framed (build_poll_frame subscription_id (max_as_u32 1 max_messages) (max_as_u32 0 timeout_ms) n)"

definition hi_kafka_encode_commit_frame :: "i64 \<Rightarrow> zval codec_fun" where
  "hi_kafka_encode_commit_frame subscription_id n = framed (build_commit_frame subscription_id n)"

definition hi_kafka_encode_unsubscribe_frame :: "i64 \<Rightarrow> (php_exception, zval) outcome" where
  "hi_kafka_encode_unsubscribe_frame subscription_id = map_ok ZBin (plain (build_unsubscribe_frame subscription_id))"

definition hi_kafka_encode_register_cluster_frame :: "string \<Rightarrow> config_entry list \<Rightarrow> zval codec_fun" where
  "hi_kafka_encode_register_cluster_frame cluster config n = framed (build_register_cluster_frame cluster config n)"

definition hi_kafka_encode_pause_resume_frame :: "i64 \<Rightarrow> i64 \<Rightarrow> string list \<Rightarrow> i64 list \<Rightarrow> zval codec_fun" where
  "hi_kafka_encode_pause_resume_frame subscription_id op topics partitions n =
     (case plain (build_partition_specs topics partitions) of
        Err e \<Rightarrow> (Err e, n)
      | Panic \<Rightarrow> (Panic, n)
      | Ok parts \<Rightarrow>
          if op = 0 then framed (build_pause_resume_frame subscription_id Pause parts n)
          else if op = 1 then framed (build_pause_resume_frame subscription_id Resume parts n)
          else (Err (PlainException (''invalid op '' @ show_int (sint op) @ '' (0=Pause, 1=Resume)'')), n))"

definition hi_kafka_encode_seek_by_offset_frame ::
  "i64 \<Rightarrow> string list \<Rightarrow> i64 list \<Rightarrow> i64 list \<Rightarrow> zval codec_fun" where
  "hi_kafka_encode_seek_by_offset_frame subscription_id topics partitions offsets n =
     (case plain (build_offset_targets topics partitions offsets) of
        Err e \<Rightarrow> (Err e, n)
      | Panic \<Rightarrow> (Panic, n)
      | Ok targets \<Rightarrow> framed (build_seek_by_offset_frame subscription_id targets n))"

definition hi_kafka_encode_seek_by_timestamp_frame ::
  "i64 \<Rightarrow> i64 \<Rightarrow> string list \<Rightarrow> i64 list \<Rightarrow> zval codec_fun" where
  "hi_kafka_encode_seek_by_timestamp_frame subscription_id timestamp_ms topics partitions n =
     (case plain (build_partition_specs topics partitions) of
        Err e \<Rightarrow> (Err e, n)
      | Panic \<Rightarrow> (Panic, n)
      | Ok parts \<Rightarrow> framed (build_seek_by_timestamp_frame subscription_id timestamp_ms parts n))"

definition hi_kafka_encode_txn_frame :: "string \<Rightarrow> i64 \<Rightarrow> zval codec_fun" where
  "hi_kafka_encode_txn_frame cluster op n =
     (if op = 0 then framed (build_txn_frame cluster TxnBegin n)
      else if op = 1 then framed (build_txn_frame cluster TxnCommit n)
      else if op = 2 then framed (build_txn_frame cluster TxnAbort n)
      else (Err (PlainException (''invalid op '' @ show_int (sint op) @ '' (0/1/2)'')), n))"

definition hi_kafka_encode_send_offsets_frame ::
  "string \<Rightarrow> i64 \<Rightarrow> string \<Rightarrow> string list \<Rightarrow> i64 list \<Rightarrow> i64 list \<Rightarrow> zval codec_fun" where
  "hi_kafka_encode_send_offsets_frame producer_cluster subscription_id group_id topics partitions offsets n =
     (case plain (build_offset_targets topics partitions offsets) of
        Err e \<Rightarrow> (Err e, n)
      | Panic \<Rightarrow> (Panic, n)
      | Ok targets \<Rightarrow> framed (build_send_offsets_frame producer_cluster subscription_id group_id targets n))"

definition hi_kafka_encode_set_oauth_token_frame ::
  "string \<Rightarrow> string \<Rightarrow> i64 \<Rightarrow> string \<Rightarrow> config_entry list option \<Rightarrow> zval codec_fun" where
  "hi_kafka_encode_set_oauth_token_frame cluster token lifetime_ms principal_name extensions n =
     framed (build_set_oauth_token_frame cluster token lifetime_ms principal_name
       (case extensions of Some e \<Rightarrow> e | None \<Rightarrow> []) n)"

definition hi_kafka_encode_poll_rebalance_frame :: "i64 \<Rightarrow> i64 \<Rightarrow> zval codec_fun" where
  "hi_kafka_encode_poll_rebalance_frame subscription_id max_events n =
     framed (build_poll_rebalance_frame subscription_id (max_as_u32 1 max_events) n)"

text \<open>The common entries of a decoded response.\<close>

definition resp_ok :: "string \<Rightarrow> u64 \<Rightarrow> (string \<times> zval) list \<Rightarrow> zval" where
  "resp_ok kind cid rest = zmap ([(''kind'', ZStr kind), (''cid'', ZLong cid), (''ok'', ZBool True)] @ rest)"

definition resp_err :: "string \<Rightarrow> u64 \<Rightarrow> string \<Rightarrow> zval" where
  "resp_err kind cid message =
     zmap [(''kind'', ZStr kind), (''cid'', ZLong cid), (''ok'', ZBool False), (''message'', ZStr message)]"

fun consumer_resp_zval :: "consumer_resp \<Rightarrow> zval" where
  "consumer_resp_zval (CR_SubscribeOk cid sid) = resp_ok ''subscribe'' cid [(''subscription_id'', ZLong sid)]"
| "consumer_resp_zval (CR_SubscribeErr cid m) = resp_err ''subscribe'' cid m"
| "consumer_resp_zval (CR_PollOk cid messages) = resp_ok ''poll'' cid [(''messages'', messages_to_zval messages)]"
| "consumer_resp_zval (CR_PollErr cid m) = resp_err ''poll'' cid m"
| "consumer_resp_zval (CR_CommitOk cid) = resp_ok ''commit'' cid []"
| "consumer_resp_zval (CR_CommitErr cid m) = resp_err ''commit'' cid m"
| "consumer_resp_zval (CR_RegisterClusterOk cid) = resp_ok ''register_cluster'' cid []"
| "consumer_resp_zval (CR_RegisterClusterErr cid m) = resp_err ''register_cluster'' cid m"
| "consumer_resp_zval (CR_PauseResumeOk cid) = resp_ok ''pause_resume'' cid []"
| "consumer_resp_zval (CR_PauseResumeErr cid m) = resp_err ''pause_resume'' cid m"
| "consumer_resp_zval (CR_SeekOk cid) = resp_ok ''seek'' cid []"
| "consumer_resp_zval (CR_SeekErr cid m) = resp_err ''seek'' cid m"
| "consumer_resp_zval (CR_TxnOk cid) = resp_ok ''txn'' cid []"
| "consumer_resp_zval (CR_TxnErr cid m) = resp_err ''txn'' cid m"
| "consumer_resp_zval (CR_SendOffsetsOk cid) = resp_ok ''send_offsets'' cid []"
| "consumer_resp_zval (CR_SendOffsetsErr cid m) = resp_err ''send_offsets'' cid m"
| "consumer_resp_zval (CR_SetOAuthTokenOk cid) = resp_ok ''set_oauth_token'' cid []"
| "consumer_resp_zval (CR_SetOAuthTokenErr cid m) = resp_err ''set_oauth_token'' cid m"
| "consumer_resp_zval (CR_PollRebalanceOk cid events) =
     resp_ok ''poll_rebalance'' cid [(''events'', rebalance_events_to_zval events)]"
| "consumer_resp_zval (CR_PollRebalanceErr cid m) = resp_err ''poll_rebalance'' cid m"

definition hi_kafka_decode_consumer_resp :: "bytes \<Rightarrow> (php_exception, zval) outcome" where
  "hi_kafka_decode_consumer_resp bytes = map_ok consumer_resp_zval (plain (parse_consumer_resp_frame bytes))"

text \<open>\<open>catch_unwind\<close> around the hook; it always reports success.\<close>

definition module_shutdown :: "('c, 'w) php_env \<Rightarrow> ('c, 'w) life_state \<Rightarrow> int \<times> ('c, 'w) life_state" where
  "module_shutdown pv st = (0, on_module_shutdown (pv_os pv) st)"

end
