(* ===== verification/Ext_Link.thy ===== *)
theory Ext_Link
  imports Ext_Php
begin

text \<open>
  The client against a worker. Locale \<open>answering_peer\<close> states what the client relies on: connections
  over which a server answers each request with one frame. Its lemmas show what a round trip
  returns. It is interpreted on \<open>link_os\<close>, an operating system whose sockets lead to the worker of
  theory Server: bytes that are written are handled by \<open>handle_connection\<close>, bytes that it writes can be
  read.
\<close>

section \<open>What a client relies on\<close>

text \<open>
  A client that knows its worker and has a connection to it in its pool, with nothing unread.
  \<open>live\<close> and \<open>pending\<close> tell of a connection whether it can be used and what can be read from it.
\<close>

definition peer_ready ::
  "('c \<Rightarrow> 'w \<Rightarrow> bool) \<Rightarrow> ('c \<Rightarrow> 'w \<Rightarrow> bytes) \<Rightarrow> string \<Rightarrow> ('c, 'w) ipc_state \<Rightarrow> bool" where
  "peer_ready live pending socket st \<longleftrightarrow>
     cached socket st
     \<and> (\<exists>p c cs. map_of (ic_pools st) socket = Some p \<and> pl_idle p = c # cs \<and> length (pl_idle p) \<le> pl_max_idle p
          \<and> live c (ic_world st) \<and> pending c (ic_world st) = [])"

text \<open>
  More generally: the pool hands out a usable connection, perhaps a new one. \<open>s0\<close> is the state of the
  server then; a handshake may have changed it.
\<close>

definition peer_acquires ::
  "('c, 'w) os_proc \<Rightarrow> ('c \<Rightarrow> 'w \<Rightarrow> bool) \<Rightarrow> ('c \<Rightarrow> 'w \<Rightarrow> bytes) \<Rightarrow> ('w \<Rightarrow> 's) \<Rightarrow> string \<Rightarrow> ('c, 'w) ipc_state \<Rightarrow> 's \<Rightarrow> bool" where
  "peer_acquires os live pending srv socket st s0 \<longleftrightarrow>
     cached socket st
     \<and> (\<exists>c p st1. ipc_acquire os socket st = (Ok c, st1) \<and> map_of (ic_pools st1) socket = Some p
          \<and> length (pl_idle p) < pl_max_idle p \<and> live c (ic_world st1) \<and> pending c (ic_world st1) = []
          \<and> srv (ic_world st1) = s0 \<and> books st1 = books st \<and> ic_next_cid st1 = ic_next_cid st)"

text \<open>The result of a call, by the frame that answers it.\<close>

definition answer_of :: "frame \<Rightarrow> (ipc_error, bytes) outcome" where
  "answer_of g =
     (if fr_kind g = FT_Error then
        bind_ok (map_err (DecodeResp \<circ> payload_error_display) (error_resp_decode (fr_payload g)))
          (\<lambda>er. Err (WorkerFailed (er_kind er) (er_retryable er) (er_native_code er) (er_message er)))
      else Ok (fr_payload g))"

lemma decoded_no_retry: "decoded r = Err e \<Longrightarrow> \<not> should_invalidate e"
  by (cases r) (auto simp: decoded_def)

lemma answer_of_Ok: "answer_of g = Ok p \<Longrightarrow> fr_kind g \<noteq> FT_Error"
  by (cases "error_resp_decode (fr_payload g)") (auto simp: answer_of_def)

lemma answer_of_no_retry: "answer_of g = Err e \<Longrightarrow> \<not> should_invalidate e"
  by (auto simp: answer_of_def split: if_splits) (cases "error_resp_decode (fr_payload g)"; auto)+

locale answering_peer =
  fixes os :: "('c, 'w) os_proc"
    and live :: "'c \<Rightarrow> 'w \<Rightarrow> bool"
    and pending :: "'c \<Rightarrow> 'w \<Rightarrow> bytes"
    and set_pending :: "'c \<Rightarrow> bytes \<Rightarrow> 'w \<Rightarrow> 'w"
    and sent :: "'c \<Rightarrow> frame \<Rightarrow> 'w \<Rightarrow> 'w"
    and srv :: "'w \<Rightarrow> 's"
    and serves :: "frame \<Rightarrow> 's \<Rightarrow> frame \<Rightarrow> 's \<Rightarrow> bool"
  assumes write_timeout: "os_write_timeout os c t w = (Inr (), w)"
    and read_timeout: "os_read_timeout os c t w = (Inr (), w)"
    and probe: "live c w \<Longrightarrow> pending c w = [] \<Longrightarrow> conn_is_alive os c w = (True, w)"
    and peer_write: "live c w \<Longrightarrow> os_write_all os c (frame_bytes f) w = (Inr (), sent c f w)"
    and peer_read: "live c w \<Longrightarrow> pending c w = bs @ rest \<Longrightarrow> os_read_exact os c (length bs) w = (Inr bs, set_pending c rest w)"
    and answer: "live c w \<Longrightarrow> pending c w = [] \<Longrightarrow> serves f (srv w) g s' \<Longrightarrow>
        pending c (sent c f w) = frame_bytes g \<and> srv (sent c f w) = s' \<and> live c (sent c f w)"
    and set_pending: "live c w \<Longrightarrow>
        live c (set_pending c bs w) \<and> pending c (set_pending c bs w) = bs \<and> srv (set_pending c bs w) = srv w"
begin

lemmas conn_defs = bind_act_def conn_io_def on_world_def io_act_def or_poison_def pure_act_def

lemma write_frame_live:
  assumes "live c (ic_world st)" and "length payload \<le> MAX_PAYLOAD_LEN"
  shows "ipc_write_frame os socket c kind cid payload t (b, st) =
    (Ok (), b, st\<lparr>ic_world := sent c (frame_new kind cid payload) (ic_world st)\<rparr>)"
proof -
  have "\<exists>n. encode_frame kind cid payload [] = (Ok n, frame_bytes (frame_new kind cid payload))"
    using encode_frame_fits [of "frame_new kind cid payload" "[]"] assms(2)
    by (simp add: frame_fits_def frame_new_def)
  then show ?thesis
    by (auto simp: ipc_write_frame_def conn_defs write_timeout peer_write [OF assms(1)])
qed

lemma recv_resp_pending:
  assumes "live c (ic_world st)" and "pending c (ic_world st) = frame_bytes g" and "frame_fits g" and "fr_cid g = cid"
  shows "\<exists>w'. recv_resp os socket c cid t (b, st) =
      (map_ok (\<lambda>p. (fr_kind g, p)) (answer_of g), b, st\<lparr>ic_world := w'\<rparr>)
    \<and> live c w' \<and> pending c w' = [] \<and> srv w' = srv (ic_world st)"
proof -
  let ?w1 = "set_pending c (fr_payload g) (ic_world st)"
  let ?w2 = "set_pending c [] ?w1"
  note f = frame_split [OF assms(3)]
  have split: "frame_bytes g = take HEADER_LEN (frame_bytes g) @ fr_payload g"
    using f(3) by (metis append_take_drop_id)
  have len: "length (take HEADER_LEN (frame_bytes g)) = HEADER_LEN" using f(5) by simp
  have hdr: "os_read_exact os c HEADER_LEN (ic_world st) = (Inr (take HEADER_LEN (frame_bytes g)), ?w1)"
    using peer_read [OF assms(1), of "take HEADER_LEN (frame_bytes g)" "fr_payload g"] assms(2) split len by metis
  have s1: "live c ?w1" "pending c ?w1 = fr_payload g" "srv ?w1 = srv (ic_world st)"
    using set_pending [OF assms(1)] by blast+
  have pay: "os_read_exact os c (length (fr_payload g)) ?w1 = (Inr (fr_payload g), ?w2)"
    using peer_read [OF s1(1), of "fr_payload g" "[]"] s1(2) by simp
  have s2: "live c ?w2" "pending c ?w2 = []" "srv ?w2 = srv (ic_world st)"
    using set_pending [OF s1(1)] s1(3) by metis+
  have "recv_resp os socket c cid t (b, st) =
      (map_ok (\<lambda>p. (fr_kind g, p)) (answer_of g), b, st\<lparr>ic_world := ?w2\<rparr>)"
    by (cases "error_resp_decode (fr_payload g)")
      (simp_all add: recv_resp_def conn_defs read_timeout hdr pay f(1,2) assms(4) answer_of_def)
  with s2 show ?thesis by blast
qed

lemma acquire_live:
  assumes "map_of (ic_pools st) socket = Some p" and "pl_idle p = c # cs"
    and "live c (ic_world st)" and "pending c (ic_world st) = []"
  shows "\<exists>stats. ipc_acquire os socket st =
    (Ok c, st\<lparr>ic_pools := AList.update socket (p\<lparr>pl_idle := cs, pl_stats := stats\<rparr>) (ic_pools st)\<rparr>)"
  using assms by (simp add: ipc_acquire_def pool_for_def acquire_def Let_def probe) (rule exI, rule refl)

text \<open>A body that leaves its connection usable and read out: the connection goes back to the pool.\<close>

lemma ready_acquires:
  assumes "peer_ready live pending socket st"
  shows "peer_acquires os live pending srv socket st (srv (ic_world st))"
proof -
  obtain p c cs where p: "map_of (ic_pools st) socket = Some p" "pl_idle p = c # cs"
      "length (pl_idle p) \<le> pl_max_idle p" "live c (ic_world st)" "pending c (ic_world st) = []"
    and cache: "cached socket st"
    using assms by (auto simp: peer_ready_def)
  from acquire_live [OF p(1,2,4,5)] obtain stats where "ipc_acquire os socket st =
      (Ok c, st\<lparr>ic_pools := AList.update socket (p\<lparr>pl_idle := cs, pl_stats := stats\<rparr>) (ic_pools st)\<rparr>)" by blast
  with p cache show ?thesis by (auto simp: peer_acquires_def books_def)
qed

lemma with_conn_ready:
  assumes "peer_acquires os live pending srv socket st s0"
    and body: "\<And>c st1. live c (ic_world st1) \<Longrightarrow> pending c (ic_world st1) = [] \<Longrightarrow> srv (ic_world st1) = s0 \<Longrightarrow>
      \<exists>w'. body c (False, st1) = (r, False, st1\<lparr>ic_world := w'\<rparr>) \<and> live c w' \<and> pending c w' = [] \<and> srv w' = s'"
  shows "\<exists>st'. with_conn os socket body st = (r, st')
    \<and> peer_ready live pending socket st' \<and> srv (ic_world st') = s' \<and> books st' = books st \<and> ic_next_cid st' = ic_next_cid st"
proof -
  obtain c p st1 where acq: "ipc_acquire os socket st = (Ok c, st1)"
    and p: "map_of (ic_pools st1) socket = Some p" "length (pl_idle p) < pl_max_idle p"
    and c: "live c (ic_world st1)" "pending c (ic_world st1) = []" "srv (ic_world st1) = s0"
    and same: "books st1 = books st" "ic_next_cid st1 = ic_next_cid st" and cache: "cached socket st"
    using assms(1) by (auto simp: peer_acquires_def)
  obtain w' where w': "body c (False, st1) = (r, False, st1\<lparr>ic_world := w'\<rparr>)" "live c w'" "pending c w' = []" "srv w' = s'"
    using body [OF c] by blast
  define st3 where "st3 = upd_pool socket (drop_conn False c) (st1\<lparr>ic_world := w'\<rparr>)"
  have run: "with_conn os socket body st = (r, st3)"
    using w'(1) by (simp add: with_conn_def bind_act_def acq st3_def)
  have "map_of (ic_pools st3) socket = Some (p\<lparr>pl_idle := c # pl_idle p\<rparr>)"
    using p by (simp add: st3_def upd_pool_def drop_conn_def release_def)
  moreover have "ic_world st3 = w'" by (simp add: st3_def upd_pool_def split: option.split)
  moreover have bk: "books st3 = books st"
    by (simp add: st3_def) (use same(1) in \<open>simp add: books_def\<close>)
  moreover have "ic_next_cid st3 = ic_next_cid st"
    using same(2) by (simp add: st3_def upd_pool_def split: option.split)
  moreover have "cached socket st3" using cache cached_books [OF bk] by blast
  ultimately show ?thesis
    using run w' p(2) unfolding peer_ready_def by (intro exI [of _ st3]) auto
qed

text \<open>One exchange: the answer is the result.\<close>

lemma exchange_answer:
  assumes "peer_acquires os live pending srv socket st s0" and "length payload \<le> MAX_PAYLOAD_LEN"
    and "serves (frame_new rk cid payload) s0 g s'"
    and "frame_fits g" and "fr_cid g = cid" and "fr_kind g = ek \<or> fr_kind g = FT_Error"
  shows "\<exists>st'. exchange os socket rk ek cid payload t st = (answer_of g, st')
    \<and> peer_ready live pending socket st' \<and> srv (ic_world st') = s' \<and> books st' = books st \<and> ic_next_cid st' = ic_next_cid st"
  unfolding exchange_def
proof (rule with_conn_ready [OF assms(1)])
  fix c and st1 :: "('c, 'w) ipc_state"
  assume c: "live c (ic_world st1)" "pending c (ic_world st1) = []" and same: "srv (ic_world st1) = s0"
  define st2 where "st2 = st1\<lparr>ic_world := sent c (frame_new rk cid payload) (ic_world st1)\<rparr>"
  have wr: "ipc_write_frame os socket c rk cid payload (Some t) (False, st1) = (Ok (), False, st2)"
    using write_frame_live [OF c(1) assms(2)] by (simp add: st2_def)
  have s2: "pending c (ic_world st2) = frame_bytes g" "srv (ic_world st2) = s'" "live c (ic_world st2)"
    using answer [OF c, of "frame_new rk cid payload"] assms(3) same by (simp_all add: st2_def)
  from recv_resp_pending [OF s2(3,1) assms(4,5)] obtain w' where
      recv: "recv_resp os socket c cid t (False, st2) =
        (map_ok (\<lambda>p. (fr_kind g, p)) (answer_of g), False, st2\<lparr>ic_world := w'\<rparr>)"
    and w': "live c w'" "pending c w' = []" "srv w' = s'"
    using s2(2) by blast
  have world: "st2\<lparr>ic_world := w'\<rparr> = st1\<lparr>ic_world := w'\<rparr>" by (simp add: st2_def)
  have "bind_act (ipc_write_frame os socket c rk cid payload (Some t)) (\<lambda>_.
       bind_act (recv_resp os socket c cid t) (\<lambda>(kind, resp_payload).
       if kind \<noteq> ek then or_poison socket (pure_act (Err (UnexpectedKind kind)))
       else pure_act (Ok resp_payload))) (False, st1) = (answer_of g, False, st1\<lparr>ic_world := w'\<rparr>)"
    using assms(6) answer_of_Ok [of g]
    by (cases "answer_of g") (auto simp: bind_act_def wr recv pure_act_def world)
  with w' show "\<exists>w'. bind_act (ipc_write_frame os socket c rk cid payload (Some t)) (\<lambda>_.
       bind_act (recv_resp os socket c cid t) (\<lambda>(kind, resp_payload).
       if kind \<noteq> ek then or_poison socket (pure_act (Err (UnexpectedKind kind)))
       else pure_act (Ok resp_payload))) (False, st1) = (answer_of g, False, st1\<lparr>ic_world := w'\<rparr>)
     \<and> live c w' \<and> pending c w' = [] \<and> srv w' = s'" by blast
qed

lemma acquire_next_cid:
  "ipc_acquire os socket (st\<lparr>ic_next_cid := n\<rparr>) =
     (case ipc_acquire os socket st of (r, st1) \<Rightarrow> (r, st1\<lparr>ic_next_cid := n\<rparr>))"
  by (simp add: ipc_acquire_def split: prod.split)

lemma ready_next_cid:
  "peer_acquires os live pending srv socket st s0 \<Longrightarrow>
     peer_acquires os live pending srv socket (st\<lparr>ic_next_cid := n\<rparr>) s0"
  by (fastforce simp: peer_acquires_def cached_def acquire_next_cid books_def)

lemma round_trip_once_answer:
  assumes "peer_acquires os live pending srv socket st s0" and "length payload \<le> MAX_PAYLOAD_LEN"
    and "serves (frame_new rk (ic_next_cid st) payload) s0 g s'"
    and "frame_fits g" and "fr_cid g = ic_next_cid st" and "fr_kind g = ek \<or> fr_kind g = FT_Error"
  shows "\<exists>st'. round_trip_once os socket rk ek payload t st = (answer_of g, st')
    \<and> peer_ready live pending socket st' \<and> srv (ic_world st') = s' \<and> books st' = books st \<and> ic_next_cid st' = ic_next_cid st + 1"
proof -
  let ?st = "st\<lparr>ic_next_cid := ic_next_cid st + 1\<rparr>"
  have "cached socket st" using assms(1) by (simp add: peer_acquires_def)
  then have "round_trip_once os socket rk ek payload t st = exchange os socket rk ek (ic_next_cid st) payload t ?st"
    unfolding round_trip_once_def
    by (simp add: round_trip_quiet [OF quiet_ipc_ensure] bind_act_def ipc_next_cid_def next_cid_def)
  moreover have "books ?st = books st" by (simp add: books_def)
  ultimately show ?thesis
    using exchange_answer [OF ready_next_cid [OF assms(1), of "ic_next_cid st + 1"] assms(2) _ assms(4,5,6), where s' = s' and t = t and rk = rk]
      assms(3) by auto
qed

text \<open>Such an answer is final: the call is not retried.\<close>

lemma rpc_answer:
  assumes "peer_acquires os live pending srv socket st s0" and "encoded req = Ok payload" and "length payload \<le> MAX_PAYLOAD_LEN"
    and "serves (frame_new rk (ic_next_cid st) payload) s0 g s'"
    and "frame_fits g" and "fr_cid g = ic_next_cid st" and "fr_kind g = ek \<or> fr_kind g = FT_Error"
  shows "\<exists>st'. rpc os socket rk ek req dec fin t st =
      (bind_ok (answer_of g) (\<lambda>resp. bind_ok (decoded (dec resp)) fin), st')
    \<and> peer_ready live pending socket st' \<and> srv (ic_world st') = s' \<and> books st' = books st \<and> ic_next_cid st' = ic_next_cid st + 1"
proof -
  from round_trip_once_answer [OF assms(1,3-7)] obtain st' where
      rt: "round_trip_once os socket rk ek payload t st = (answer_of g, st')"
    and st': "peer_ready live pending socket st'" "srv (ic_world st') = s'" "books st' = books st" "ic_next_cid st' = ic_next_cid st + 1"
    by blast
  have "round_trip os socket rk ek payload t st = (answer_of g, st')"
    using answer_of_no_retry [of g] by (cases "answer_of g") (auto simp: round_trip_def with_retry_def rt)
  then have "rpc os socket rk ek req dec fin t st =
      (bind_ok (answer_of g) (\<lambda>resp. bind_ok (decoded (dec resp)) fin), st')"
    unfolding rpc_def assms(2) bind_pure_act
    by (cases "answer_of g") (auto simp: bind_act_def pure_act_def split: outcome.split)
  with st' show ?thesis by blast
qed

text \<open>Producing goes the same way; the result of the call is the decoded answer.\<close>

lemma produce_sync_answer:
  assumes "peer_acquires os live pending srv socket st s0"
    and "encode_produce_payload_bin cluster topic key val opts = Ok payload" and "length payload \<le> MAX_PAYLOAD_LEN"
    and "serves (frame_new FT_ProduceReq (ic_next_cid st) payload) s0 g s'"
    and "frame_fits g" and "fr_cid g = ic_next_cid st" and "fr_kind g = FT_ProduceResp \<or> fr_kind g = FT_Error"
  shows "\<exists>st'. ipc_produce_sync_bin os socket cluster topic key val opts t st =
      (bind_ok (answer_of g) (\<lambda>resp. decoded (produce_resp_decode resp)), st')
    \<and> peer_ready live pending socket st' \<and> srv (ic_world st') = s' \<and> books st' = books st \<and> ic_next_cid st' = ic_next_cid st + 1"
proof -
  let ?st = "st\<lparr>ic_next_cid := ic_next_cid st + 1\<rparr>"
  let ?r = "bind_ok (answer_of g) (\<lambda>resp. decoded (produce_resp_decode resp))"
  have ens: "ipc_ensure os socket st = (Ok (), st)"
    using assms(1) quiet_ipc_ensure [of os] by (auto simp: peer_acquires_def quiet_def)
  from exchange_answer [OF ready_next_cid [OF assms(1), of "ic_next_cid st + 1"] assms(3) _ assms(5,6,7), where s' = s' and t = t]
  obtain st' where ex: "exchange os socket FT_ProduceReq FT_ProduceResp (ic_next_cid st) payload t ?st = (answer_of g, st')"
    and st': "peer_ready live pending socket st'" "srv (ic_world st') = s'" "books st' = books ?st" "ic_next_cid st' = ic_next_cid ?st"
    using assms(4) by auto
  have "produce_sync_bin_inner os socket cluster topic key val opts t st = (?r, st')"
    unfolding produce_sync_bin_inner_def assms(2) bind_pure_act
    by (cases "answer_of g") (auto simp: bind_act_def ens ipc_next_cid_def next_cid_def ex pure_act_def)
  moreover have "\<not> should_invalidate e" if "?r = Err e" for e
    using that answer_of_no_retry [of g] by (cases "answer_of g") (auto dest: decoded_no_retry)
  ultimately have "ipc_produce_sync_bin os socket cluster topic key val opts t st = (?r, st')"
    by (cases ?r) (auto simp: ipc_produce_sync_bin_def with_retry_def)
  with st' show ?thesis by (auto simp: books_def)
qed

end

text \<open>A peer that also takes frames without answering them.\<close>

locale absorbing_peer = answering_peer os live pending set_pending sent srv serves
  for os :: "('c, 'w) os_proc" and live :: "'c \<Rightarrow> 'w \<Rightarrow> bool" and pending :: "'c \<Rightarrow> 'w \<Rightarrow> bytes"
    and set_pending :: "'c \<Rightarrow> bytes \<Rightarrow> 'w \<Rightarrow> 'w" and sent :: "'c \<Rightarrow> frame \<Rightarrow> 'w \<Rightarrow> 'w"
    and srv :: "'w \<Rightarrow> 's" and serves :: "frame \<Rightarrow> 's \<Rightarrow> frame \<Rightarrow> 's \<Rightarrow> bool" +
  fixes absorbs :: "frame \<Rightarrow> 's \<Rightarrow> 's \<Rightarrow> bool"
  assumes absorb: "live c w \<Longrightarrow> pending c w = [] \<Longrightarrow> absorbs f (srv w) s' \<Longrightarrow>
        pending c (sent c f w) = [] \<and> srv (sent c f w) = s' \<and> live c (sent c f w)"
begin

lemma ipc_unsubscribe_absorbed:
  assumes "peer_acquires os live pending srv socket st s0"
    and "absorbs (frame_new FT_Unsubscribe 0 (fst (unsubscribe_req_encode \<lparr>uq_subscription_id = sub\<rparr>))) s0 s'"
  shows "\<exists>st'. ipc_unsubscribe os socket sub st = (Ok (), st')
    \<and> peer_ready live pending socket st' \<and> srv (ic_world st') = s' \<and> books st' = books st \<and> ic_next_cid st' = ic_next_cid st"
proof -
  let ?w = "unsubscribe_req_encode \<lparr>uq_subscription_id = sub\<rparr>"
  have enc: "snd ?w = Ok ()" "length (fst ?w) \<le> MAX_PAYLOAD_LEN"
    by (simp_all add: unsubscribe_req_encode_def wire_simps MAX_PAYLOAD_LEN_def)
  have ens: "ipc_ensure os socket st = (Ok (), st)"
    using assms(1) quiet_ipc_ensure [of os] by (auto simp: peer_acquires_def quiet_def)
  have "\<exists>st'. with_conn os socket (\<lambda>c. ipc_write_frame os socket c FT_Unsubscribe 0 (fst ?w) (Some 1000)) st = (Ok (), st')
    \<and> peer_ready live pending socket st' \<and> srv (ic_world st') = s' \<and> books st' = books st \<and> ic_next_cid st' = ic_next_cid st"
  proof (rule with_conn_ready [OF assms(1)])
    fix c and st1 :: "('c, 'w) ipc_state"
    assume c: "live c (ic_world st1)" "pending c (ic_world st1) = []" and same: "srv (ic_world st1) = s0"
    show "\<exists>w'. ipc_write_frame os socket c FT_Unsubscribe 0 (fst ?w) (Some 1000) (False, st1) =
        (Ok (), False, st1\<lparr>ic_world := w'\<rparr>) \<and> live c w' \<and> pending c w' = [] \<and> srv w' = s'"
      using write_frame_live [OF c(1) enc(2)] absorb [OF c] assms(2) same by auto
  qed
  moreover have "unsubscribe_once os socket sub st =
      with_conn os socket (\<lambda>c. ipc_write_frame os socket c FT_Unsubscribe 0 (fst ?w) (Some 1000)) st"
    by (simp add: unsubscribe_once_def bind_act_def ens encoded_def enc(1) pure_act_def)
  ultimately show ?thesis by (auto simp: ipc_unsubscribe_def with_retry_def)
qed

end

section \<open>Sockets that lead to the worker\<close>

text \<open>
  The world of \<open>link_os\<close>: the state of the worker, and for every connection whether the handshake is
  over, whether the worker still has it open, and the bytes that can be read. The client writes
  whole frames; the worker handles them before the write returns, turn by turn of
  \<open>handle_connection\<close> (which for a list of whole frames is the same as one run over all of them). Forking
  starts a fresh worker.
\<close>

record link_conn =
  lc_hello :: bool
  lc_open :: bool
  lc_out :: bytes

record 's link =
  ln_server :: "'s server_state"
  ln_conns :: "nat \<Rightarrow> link_conn option"
  ln_next :: nat
  ln_up :: bool
  ln_clock :: nat

definition link_out :: out_stream where
  "link_out = \<lparr>o_bytes = [], o_accept = None\<rparr>"

definition link_connect :: "'s link \<Rightarrow> (io_kind + nat) \<times> 's link" where
  "link_connect w =
     (if ln_up w then
        (Inr (ln_next w),
         w\<lparr>ln_conns := (ln_conns w)(ln_next w \<mapsto> \<lparr>lc_hello = False, lc_open = True, lc_out = []\<rparr>),
           ln_next := ln_next w + 1\<rparr>)
      else (Inl ConnectionRefused, w))"

definition link_write :: "('m, 's) server_env \<Rightarrow> nat \<Rightarrow> bytes \<Rightarrow> 's link \<Rightarrow> (io_kind + unit) \<times> 's link" where
  "link_write env c bs w =
     (case ln_conns w c of
        None \<Rightarrow> (Inl BrokenPipe, w)
      | Some x \<Rightarrow>
          if \<not> (lc_open x \<and> ln_up w) then (Inl BrokenPipe, w)
          else
            (case handle_connection env Eof bs (lc_hello x) link_out (ln_server w) of
               (r, out, s') \<Rightarrow>
                 (Inr (),
                  w\<lparr>ln_server := s',
                    ln_conns := (ln_conns w)(c \<mapsto>
                      \<lparr>lc_hello = lc_hello x \<or> HEADER_LEN \<le> length bs, lc_open = (r = Ok ()),
                       lc_out = lc_out x @ o_bytes out\<rparr>)\<rparr>)))"

definition link_set :: "nat \<Rightarrow> bytes \<Rightarrow> 's link \<Rightarrow> 's link" where
  "link_set c bs w =
     w\<lparr>ln_conns := (ln_conns w)(c := map_option (\<lambda>x. x\<lparr>lc_out := bs\<rparr>) (ln_conns w c))\<rparr>"

definition link_pending :: "nat \<Rightarrow> 's link \<Rightarrow> bytes" where
  "link_pending c w = (case ln_conns w c of Some x \<Rightarrow> lc_out x | None \<Rightarrow> [])"

definition link_live :: "nat \<Rightarrow> 's link \<Rightarrow> bool" where
  "link_live c w \<longleftrightarrow> ln_up w \<and> (\<exists>x. ln_conns w c = Some x \<and> lc_hello x \<and> lc_open x)"

definition link_open :: "nat \<Rightarrow> 's link \<Rightarrow> bool" where
  "link_open c w \<longleftrightarrow> ln_up w \<and> (\<exists>x. ln_conns w c = Some x \<and> lc_open x)"

definition link_read :: "nat \<Rightarrow> nat \<Rightarrow> 's link \<Rightarrow> (io_kind + bytes) \<times> 's link" where
  "link_read c n w =
     (if n \<le> length (link_pending c w) then
        (Inr (take n (link_pending c w)), link_set c (drop n (link_pending c w)) w)
      else (Inl (if link_open c w then WouldBlock else UnexpectedEof), w))"

definition link_read_one :: "nat \<Rightarrow> 's link \<Rightarrow> (io_kind + nat) \<times> 's link" where
  "link_read_one c w =
     (if link_pending c w \<noteq> [] then (Inr 1, link_set c (drop 1 (link_pending c w)) w)
      else if link_open c w then (Inl WouldBlock, w) else (Inr 0, w))"

definition link_os ::
  "('m, 's) server_env \<Rightarrow> (child_config \<Rightarrow> 's server_state) \<Rightarrow> (nat, 's link) os_proc" where
  "link_os env start =
     \<lparr>os_connect = (\<lambda>_. link_connect), os_nonblocking = (\<lambda>_ _ w. (True, w)), os_read_one = link_read_one,
      os_write_timeout = (\<lambda>_ _ w. (Inr (), w)), os_read_timeout = (\<lambda>_ _ w. (Inr (), w)),
      os_write_all = link_write env, os_read_exact = link_read,
      os_close = (\<lambda>c w. w\<lparr>ln_conns := (ln_conns w)(c := None)\<rparr>),
      os_io_text = (\<lambda>_. ''io''), os_env = (\<lambda>_. None), os_ini = ini_register, os_parse_addr = (\<lambda>_. None),
      os_now = (\<lambda>w. (ln_clock w, w)), os_sleep = (\<lambda>ms w. w\<lparr>ln_clock := ln_clock w + ms\<rparr>),
      os_create_parent = (\<lambda>_ w. (Inr (), w)), os_open_lock = (\<lambda>_ w. (Inr (), w)),
      os_flock_nb = (\<lambda>_ w. (True, w)), os_close_lock = (\<lambda>_ w. w), os_proc_status = (\<lambda>_. None),
      os_fork = (\<lambda>cfg w. (Inr (), w\<lparr>ln_server := start cfg, ln_conns := (\<lambda>_. None), ln_up := True\<rparr>))\<rparr>"

lemma link_os_sel:
  "os_connect (link_os env start) = (\<lambda>_. link_connect)" "os_nonblocking (link_os env start) = (\<lambda>_ _ w. (True, w))"
  "os_read_one (link_os env start) = link_read_one" "os_write_timeout (link_os env start) = (\<lambda>_ _ w. (Inr (), w))"
  "os_read_timeout (link_os env start) = (\<lambda>_ _ w. (Inr (), w))" "os_write_all (link_os env start) = link_write env"
  "os_read_exact (link_os env start) = link_read" "os_env (link_os env start) = (\<lambda>_. None)"
  "os_io_text (link_os env start) = (\<lambda>_. ''io'')"
  by (simp_all add: link_os_def)

definition link_sent :: "('m, 's) server_env \<Rightarrow> nat \<Rightarrow> frame \<Rightarrow> 's link \<Rightarrow> 's link" where
  "link_sent env c f w = snd (link_write env c (frame_bytes f) w)"

definition link_serves ::
  "('m, 's) server_env \<Rightarrow> frame \<Rightarrow> 's server_state \<Rightarrow> frame \<Rightarrow> 's server_state \<Rightarrow> bool" where
  "link_serves env f s g s' \<longleftrightarrow>
     handle_connection env Eof (frame_bytes f) True link_out s = (Ok (), link_out\<lparr>o_bytes := frame_bytes g\<rparr>, s')"

lemma link_write_live:
  assumes "link_live c w"
  shows "link_write env c (frame_bytes f) w = (Inr (), link_sent env c f w)"
  using assms by (auto simp: link_sent_def link_write_def link_live_def split: prod.split)

interpretation link: answering_peer "link_os env start" link_live link_pending link_set "link_sent env" ln_server
  "link_serves env"
proof
  fix c and w :: "'b link" and f g bs rest s'
  assume live: "link_live c w"
  show "os_write_all (link_os env start) c (frame_bytes f) w = (Inr (), link_sent env c f w)"
    using link_write_live [OF live] by (simp add: link_os_sel)
  show "link_live c (link_set c bs w) \<and> link_pending c (link_set c bs w) = bs \<and> ln_server (link_set c bs w) = ln_server w"
    using live by (auto simp: link_live_def link_set_def link_pending_def)
  show "conn_is_alive (link_os env start) c w = (True, w)" if "link_pending c w = []"
    using live that by (auto simp: conn_is_alive_def link_os_sel link_read_one_def link_open_def link_live_def)
  show "os_read_exact (link_os env start) c (length bs) w = (Inr bs, link_set c rest w)" if "link_pending c w = bs @ rest"
    using that by (simp add: link_os_sel link_read_def)
  show "link_pending c (link_sent env c f w) = frame_bytes g \<and> ln_server (link_sent env c f w) = s' \<and> link_live c (link_sent env c f w)"
    if "link_pending c w = []" and "link_serves env f (ln_server w) g s'"
    using live that by (auto simp: link_sent_def link_write_def link_live_def link_pending_def link_serves_def)
qed (simp_all add: link_os_sel)

definition link_absorbs ::
  "('m, 's) server_env \<Rightarrow> frame \<Rightarrow> 's server_state \<Rightarrow> 's server_state \<Rightarrow> bool" where
  "link_absorbs env f s s' \<longleftrightarrow>
     handle_connection env Eof (frame_bytes f) True link_out s = (Ok (), link_out, s')"

interpretation link: absorbing_peer "link_os env start" link_live link_pending link_set "link_sent env" ln_server
  "link_serves env" "link_absorbs env"
proof
  fix c and w :: "'b link" and f s'
  assume "link_live c w" and "link_pending c w = []" and "link_absorbs env f (ln_server w) s'"
  then show "link_pending c (link_sent env c f w) = [] \<and> ln_server (link_sent env c f w) = s' \<and> link_live c (link_sent env c f w)"
    by (auto simp: link_sent_def link_write_def link_live_def link_pending_def link_absorbs_def link_out_def)
qed

abbreviation link_ready :: "string \<Rightarrow> (nat, 's link) ipc_state \<Rightarrow> bool" where
  "link_ready \<equiv> peer_ready link_live link_pending"

section \<open>Serving one request\<close>

lemma handle_connection_single:
  assumes "within_limit f"
    and "dispatch env (fr_kind f) (fr_cid f) (fr_payload f) o1 (upd_metrics inc_frames st) = (Ok (), o2, st2)"
  shows "handle_connection env Eof (frame_bytes f) True o1 st = (Ok (), o2, st2)"
  using handle_connection_frame [OF assms(1), of env Eof "[]" True o1 st] assms(2)
  by (simp add: handle_connection.simps [of env Eof "[]"] HEADER_LEN_def)

lemma frame_new_sel [simp]:
  "fr_kind (frame_new k c p) = k" "fr_cid (frame_new k c p) = c" "fr_payload (frame_new k c p) = p"
  by (simp_all add: frame_new_def)

lemma link_servesI:
  assumes "within_limit f"
    and "dispatch env (fr_kind f) (fr_cid f) (fr_payload f) link_out (upd_metrics inc_frames s) =
      (Ok (), link_out\<lparr>o_bytes := frame_bytes g\<rparr>, s')"
  shows "link_serves env f s g s'"
  unfolding link_serves_def by (rule handle_connection_single [OF assms])

lemma link_out_open: "o_accept link_out = None" "o_bytes link_out = []"
  by (simp_all add: link_out_def)

lemma error_layout_length: "str16_ok (er_message er) \<Longrightarrow> length (error_resp_layout er) \<le> MAX_PAYLOAD_LEN"
  by (simp add: error_resp_layout_def str16_ok_def lay_str16_def MAX_PAYLOAD_LEN_def)

lemma answer_of_error:
  "str16_ok (er_message er) \<Longrightarrow> answer_of (frame_new FT_Error cid (error_resp_layout er)) =
     Err (WorkerFailed (er_kind er) (er_retryable er) (er_native_code er) (er_message er))"
  using error_resp.read_layout [of er "[]"] by (simp add: answer_of_def error_resp_decode_def run_def)

text \<open>Polling.\<close>

lemma poll_req_roundtrip: "poll_req_decode (fst (poll_req_encode m)) = Ok m"
  using poll_req.roundtrip [of m "[]"] by (simp add: poll_req_decode_def)

lemma poll_req_encoded: "encoded (poll_req_encode m) = Ok (poll_req_layout m)" "length (poll_req_layout m) = 16"
  "poll_req_decode (poll_req_layout m) = Ok m"
proof -
  have enc: "poll_req_encode m = (poll_req_layout m, Ok ())" by (rule poll_req.encode_layout) simp
  then show "encoded (poll_req_encode m) = Ok (poll_req_layout m)" by (simp add: encoded_def)
  show "length (poll_req_layout m) = 16" by (simp add: poll_req_layout_def)
  show "poll_req_decode (poll_req_layout m) = Ok m" using poll_req_roundtrip [of m] enc by simp
qed

lemma poll_frame_within: "length w = 16 \<Longrightarrow> within_limit (frame_new FT_PollReq n w)"
  by (simp add: within_limit_def frame_limit_def)

lemma serves_poll:
  assumes "co_poll (sv_consumer env) (pq_subscription_id m) (pq_max_messages m) (pq_timeout_ms m) (ss_backend s) = (Ok msgs, b)"
    and "poll_resp_ok (PollOk msgs)" and "length (poll_resp_layout (PollOk msgs)) \<le> MAX_PAYLOAD_LEN"
  shows "link_serves env (frame_new FT_PollReq cid (poll_req_layout m)) s
    (frame_new FT_PollResp cid (poll_resp_layout (PollOk msgs))) ((upd_metrics inc_frames s)\<lparr>ss_backend := b\<rparr>)"
proof (rule link_servesI)
  show "within_limit (frame_new FT_PollReq cid (poll_req_layout m))"
    by (rule poll_frame_within) (rule poll_req_encoded)
  show "dispatch env (fr_kind (frame_new FT_PollReq cid (poll_req_layout m))) (fr_cid (frame_new FT_PollReq cid (poll_req_layout m)))
      (fr_payload (frame_new FT_PollReq cid (poll_req_layout m))) link_out (upd_metrics inc_frames s) =
    (Ok (), link_out\<lparr>o_bytes := frame_bytes (frame_new FT_PollResp cid (poll_resp_layout (PollOk msgs)))\<rparr>,
     (upd_metrics inc_frames s)\<lparr>ss_backend := b\<rparr>)"
    using send_encoded_open [OF poll_resp.encode_layout [OF assms(2)] assms(3) link_out_open(1)] assms(1)
    by (simp add: dispatch_def dispatch_inner_def handle_poll_def poll_req_encoded upd_metrics_def Let_def
        reply_def link_out_open)
qed

lemma serves_poll_error:
  assumes "co_poll (sv_consumer env) (pq_subscription_id m) (pq_max_messages m) (pq_timeout_ms m) (ss_backend s) = (Err e, b)"
    and "str16_ok (er_message (consumer_err_to_resp e))"
  shows "link_serves env (frame_new FT_PollReq cid (poll_req_layout m)) s
    (frame_new FT_Error cid (error_resp_layout (consumer_err_to_resp e))) ((upd_metrics inc_frames s)\<lparr>ss_backend := b\<rparr>)"
proof (rule link_servesI)
  show "within_limit (frame_new FT_PollReq cid (poll_req_layout m))"
    by (rule poll_frame_within) (rule poll_req_encoded)
  show "dispatch env (fr_kind (frame_new FT_PollReq cid (poll_req_layout m))) (fr_cid (frame_new FT_PollReq cid (poll_req_layout m)))
      (fr_payload (frame_new FT_PollReq cid (poll_req_layout m))) link_out (upd_metrics inc_frames s) =
    (Ok (), link_out\<lparr>o_bytes := frame_bytes (frame_new FT_Error cid (error_resp_layout (consumer_err_to_resp e)))\<rparr>,
     (upd_metrics inc_frames s)\<lparr>ss_backend := b\<rparr>)"
    using write_error_frame_open [OF assms(2) link_out_open(1)] assms(1)
    by (simp add: dispatch_def dispatch_inner_def handle_poll_def poll_req_encoded upd_metrics_def Let_def
        reply_def link_out_open)
qed

text \<open>The state of the worker after a request that only its back end took part in.\<close>

abbreviation served :: "'s \<Rightarrow> 's server_state \<Rightarrow> 's server_state" where
  "served b s \<equiv> (upd_metrics inc_frames s)\<lparr>ss_backend := b\<rparr>"

abbreviation worker_of :: "(nat, 's link) ipc_state \<Rightarrow> 's server_state" where
  "worker_of st \<equiv> ln_server (ic_world st)"

text \<open>Polling over the link.\<close>

lemma frame_fits_poll_resp:
  "length (poll_resp_layout r) \<le> MAX_PAYLOAD_LEN \<Longrightarrow> frame_fits (frame_new k cid (poll_resp_layout r))"
  by (simp add: frame_fits_def)

lemma ipc_poll_link:
  assumes "link_ready socket st"
    and "co_poll (sv_consumer env) sub mx t (ss_backend (worker_of st)) = (Ok msgs, b)"
    and "poll_resp_ok (PollOk msgs)" and "length (poll_resp_layout (PollOk msgs)) \<le> MAX_PAYLOAD_LEN"
  shows "\<exists>st'. ipc_poll (link_os env start) socket sub mx t st = (Ok msgs, st')
    \<and> link_ready socket st' \<and> worker_of st' = served b (worker_of st) \<and> books st' = books st
    \<and> ic_next_cid st' = ic_next_cid st + 1"
proof -
  let ?m = "\<lparr>pq_subscription_id = sub, pq_max_messages = mx, pq_timeout_ms = t\<rparr>"
  let ?g = "frame_new FT_PollResp (ic_next_cid st) (poll_resp_layout (PollOk msgs))"
  have "poll_resp_decode (poll_resp_layout (PollOk msgs)) = Ok (PollOk msgs)"
    using poll_resp.read_layout [OF assms(3), of "[]"] by (simp add: poll_resp_decode_def run_def)
  then have fin: "bind_ok (answer_of ?g) (\<lambda>resp. bind_ok (decoded (poll_resp_decode resp)) ipc_poll_result) = Ok msgs"
    by (simp add: answer_of_def decoded_def)
  have serve: "link_serves env (frame_new FT_PollReq (ic_next_cid st) (poll_req_layout ?m)) (worker_of st) ?g
      (served b (worker_of st))"
    by (rule serves_poll) (use assms in simp_all)
  show ?thesis
    using link.rpc_answer [OF link.ready_acquires [OF assms(1)] poll_req_encoded(1) _ serve frame_fits_poll_resp [OF assms(4)], of FT_PollResp,
        where dec = poll_resp_decode and fin = ipc_poll_result and start = start and t = "unat t + 2000"] fin
    by (simp add: ipc_poll_def poll_req_encoded(2) MAX_PAYLOAD_LEN_def)
qed

lemma ipc_poll_link_error:
  assumes "link_ready socket st"
    and "co_poll (sv_consumer env) sub mx t (ss_backend (worker_of st)) = (Err e, b)"
    and "er = consumer_err_to_resp e" and "str16_ok (er_message er)"
  shows "\<exists>st'. ipc_poll (link_os env start) socket sub mx t st =
      (Err (WorkerFailed (er_kind er) (er_retryable er) (er_native_code er) (er_message er)), st')
    \<and> link_ready socket st' \<and> worker_of st' = served b (worker_of st) \<and> books st' = books st
    \<and> ic_next_cid st' = ic_next_cid st + 1"
proof -
  let ?m = "\<lparr>pq_subscription_id = sub, pq_max_messages = mx, pq_timeout_ms = t\<rparr>"
  let ?g = "frame_new FT_Error (ic_next_cid st) (error_resp_layout er)"
  have serve: "link_serves env (frame_new FT_PollReq (ic_next_cid st) (poll_req_layout ?m)) (worker_of st) ?g
      (served b (worker_of st))"
    unfolding assms(3) by (rule serves_poll_error) (use assms in simp_all)
  have fits: "frame_fits ?g" using error_layout_length [OF assms(4)] by (simp add: frame_fits_def)
  show ?thesis
    using link.rpc_answer [OF link.ready_acquires [OF assms(1)] poll_req_encoded(1) _ serve fits, of FT_PollResp,
        where dec = poll_resp_decode and fin = ipc_poll_result and start = start and t = "unat t + 2000"] answer_of_error [OF assms(4)]
    by (simp add: ipc_poll_def poll_req_encoded(2) MAX_PAYLOAD_LEN_def)
qed

text \<open>Subscribing over the link.\<close>

lemma subscribe_req_encoded:
  assumes "subscribe_req_ok m"
  shows "encoded (subscribe_req_encode m) = Ok (subscribe_req_layout m)"
    and "subscribe_req_decode (subscribe_req_layout m) = Ok m"
  using subscribe_req.encode_layout [OF assms] subscribe_req.read_layout [OF assms, of "[]"]
  by (simp_all add: encoded_def subscribe_req_decode_def run_def)

lemma subscribe_resp_layout_Ok:
  "length (subscribe_resp_layout (SubscribeOk i)) \<le> MAX_PAYLOAD_LEN"
  "subscribe_resp_decode (subscribe_resp_layout (SubscribeOk i)) = Ok (SubscribeOk i)"
  "subscribe_resp_encode (SubscribeOk i) = (subscribe_resp_layout (SubscribeOk i), Ok ())"
proof -
  have ok: "subscribe_resp_ok (SubscribeOk i)" by (simp add: subscribe_resp_ok_def)
  show "length (subscribe_resp_layout (SubscribeOk i)) \<le> MAX_PAYLOAD_LEN"
    by (simp add: subscribe_resp_layout_def MAX_PAYLOAD_LEN_def)
  show "subscribe_resp_decode (subscribe_resp_layout (SubscribeOk i)) = Ok (SubscribeOk i)"
    using subscribe_resp.read_layout [OF ok, of "[]"] by (simp add: subscribe_resp_decode_def run_def)
  show "subscribe_resp_encode (SubscribeOk i) = (subscribe_resp_layout (SubscribeOk i), Ok ())"
    by (rule subscribe_resp.encode_layout [OF ok])
qed

lemma ipc_subscribe_link:
  assumes "link_ready socket st"
    and "req = \<lparr>sr_cluster = cluster, sr_group_id = gid, sr_topics = topics, sr_config = config\<rparr>"
    and "subscribe_req_ok req" and "length (subscribe_req_layout req) \<le> frame_limit FT_SubscribeReq"
    and "co_subscribe (sv_consumer env) req (ss_registry (worker_of st)) (ss_backend (worker_of st)) = (Ok sub, b)"
  shows "\<exists>st'. ipc_subscribe (link_os env start) socket cluster gid topics config t st = (Ok sub, st')
    \<and> link_ready socket st' \<and> worker_of st' = served b (worker_of st) \<and> books st' = books st
    \<and> ic_next_cid st' = ic_next_cid st + 1"
proof -
  let ?f = "frame_new FT_SubscribeReq (ic_next_cid st) (subscribe_req_layout req)"
  let ?g = "frame_new FT_SubscribeResp (ic_next_cid st) (subscribe_resp_layout (SubscribeOk sub))"
  note m = subscribe_req_encoded [OF assms(3)]
  have len: "length (subscribe_req_layout req) \<le> MAX_PAYLOAD_LEN"
    using assms(4) frame_limit_max by (rule le_trans)
  have serve: "link_serves env ?f (worker_of st) ?g (served b (worker_of st))"
    using send_encoded_open [OF subscribe_resp_layout_Ok(3,1) link_out_open(1)] assms(4,5)
    by (intro link_servesI)
      (simp_all add: within_limit_def dispatch_def dispatch_inner_def handle_subscribe_def m(2) upd_metrics_def
        Let_def reply_def link_out_open)
  have fits: "frame_fits ?g" by (simp add: frame_fits_def subscribe_resp_layout_Ok)
  show ?thesis
    using link.rpc_answer [OF link.ready_acquires [OF assms(1)] m(1) len serve fits, of FT_SubscribeResp,
        where dec = subscribe_resp_decode and fin = subscribe_result and start = start and t = t]
    by (simp add: ipc_subscribe_def assms(2) answer_of_def decoded_def subscribe_resp_layout_Ok)
qed

text \<open>Producing over the link.\<close>

lemma produce_payload_encoded:
  assumes "msg = \<lparr>pf_cluster = cluster, pf_topic = topic, pf_key = key, pf_value = val,
      pf_partition = op_partition opts, pf_timestamp_ms = op_timestamp_ms opts, pf_headers = op_headers opts\<rparr>"
    and "produce_fnf_ok msg"
  shows "encode_produce_payload_bin cluster topic key val opts = Ok (produce_fnf_layout msg)"
    and "produce_fnf_decode (produce_fnf_layout msg) = Ok msg"
  using produce_fnf.encode_layout [OF assms(2)] produce_fnf.read_layout [OF assms(2), of "[]"]
  by (simp_all add: encode_produce_payload_bin_def assms(1) [symmetric] encoded_def produce_fnf_decode_def run_def)

lemma produce_resp_layout_length: "produce_resp_ok resp \<Longrightarrow> length (produce_resp_layout resp) \<le> MAX_PAYLOAD_LEN"
  by (auto simp: produce_resp_ok_def produce_resp_layout_def str16_ok_def lay_str16_def MAX_PAYLOAD_LEN_def
      split: produce_resp.splits)

lemma serves_produce:
  assumes "produce_fnf_ok msg" and "length (produce_fnf_layout msg) \<le> frame_limit FT_ProduceReq"
    and "\<not> is_draining (ss_shutdown s)"
    and "po_produce_ack (sv_producer env) msg (ss_registry s) (ss_backend s) = (Ok resp, b)" and "produce_resp_ok resp"
  shows "\<exists>s'. link_serves env (frame_new FT_ProduceReq cid (produce_fnf_layout msg)) s
      (frame_new FT_ProduceResp cid (produce_resp_layout resp)) s' \<and> ss_backend s' = b"
proof -
  let ?s' = "upd_metrics inc_resp_ok ((upd_metrics inc_req (upd_metrics inc_frames s))\<lparr>ss_backend := b\<rparr>)"
  have "produce_fnf_decode (produce_fnf_layout msg) = Ok msg"
    using produce_fnf.read_layout [OF assms(1), of "[]"] by (simp add: produce_fnf_decode_def run_def)
  then have "link_serves env (frame_new FT_ProduceReq cid (produce_fnf_layout msg)) s
      (frame_new FT_ProduceResp cid (produce_resp_layout resp)) ?s'"
    using send_encoded_open [OF produce_resp.encode_layout [OF assms(5)] produce_resp_layout_length [OF assms(5)] link_out_open(1)]
      assms(2-4)
    by (intro link_servesI)
      (simp_all add: within_limit_def dispatch_def dispatch_inner_def handle_produce_req_def
        handle_produce_req_inner_def Let_def upd_metrics_def reply_def link_out_open)
  then show ?thesis by (auto simp: upd_metrics_def)
qed

lemma serves_produce_error:
  assumes "produce_fnf_ok msg" and "length (produce_fnf_layout msg) \<le> frame_limit FT_ProduceReq"
    and "\<not> is_draining (ss_shutdown s)"
    and "po_produce_ack (sv_producer env) msg (ss_registry s) (ss_backend s) = (Err err, b)"
    and "str16_ok (er_message (from_anyhow err))"
  shows "\<exists>s'. link_serves env (frame_new FT_ProduceReq cid (produce_fnf_layout msg)) s
      (frame_new FT_Error cid (error_resp_layout (from_anyhow err))) s' \<and> ss_backend s' = b"
proof -
  let ?s' = "upd_metrics inc_resp_err ((upd_metrics inc_req (upd_metrics inc_frames s))\<lparr>ss_backend := b\<rparr>)"
  have "produce_fnf_decode (produce_fnf_layout msg) = Ok msg"
    using produce_fnf.read_layout [OF assms(1), of "[]"] by (simp add: produce_fnf_decode_def run_def)
  then have "link_serves env (frame_new FT_ProduceReq cid (produce_fnf_layout msg)) s
      (frame_new FT_Error cid (error_resp_layout (from_anyhow err))) ?s'"
    using write_error_frame_open [OF assms(5) link_out_open(1)] assms(2-4)
    by (intro link_servesI)
      (simp_all add: within_limit_def dispatch_def dispatch_inner_def handle_produce_req_def
        handle_produce_req_inner_def Let_def upd_metrics_def reply_def link_out_open)
  then show ?thesis by (auto simp: upd_metrics_def)
qed

text \<open>Unsubscribing over the link: the frame has no answer.\<close>

lemma absorbs_unsubscribe:
  assumes "co_unsubscribe (sv_consumer env) sub (ss_backend s) = (r, b)" and "r \<noteq> Panic"
  shows "link_absorbs env (frame_new FT_Unsubscribe 0 (fst (unsubscribe_req_encode \<lparr>uq_subscription_id = sub\<rparr>))) s (served b s)"
proof -
  let ?m = "\<lparr>uq_subscription_id = sub\<rparr>"
  let ?f = "frame_new FT_Unsubscribe 0 (fst (unsubscribe_req_encode ?m))"
  have dec: "unsubscribe_req_decode (fst (unsubscribe_req_encode ?m)) = Ok ?m"
    using unsubscribe_req.roundtrip [of ?m "[]"] by (simp add: unsubscribe_req_decode_def)
  have "within_limit ?f"
    by (simp add: within_limit_def frame_limit_def unsubscribe_req_encode_def wire_simps)
  moreover have "dispatch env FT_Unsubscribe 0 (fst (unsubscribe_req_encode ?m)) link_out (upd_metrics inc_frames s) =
      (Ok (), link_out, served b s)"
    using assms by (cases r) (simp_all add: dispatch_def dispatch_inner_def handle_unsubscribe_def dec upd_metrics_def)
  ultimately show ?thesis unfolding link_absorbs_def by (intro handle_connection_single) simp_all
qed

end
