(* ===== verification/Ext_Restart.thy ===== *)
theory Ext_Restart
  imports Ext_Link
begin

text \<open>
  A worker that is gone, over the link: the pooled connections are dead, a new one is refused, the
  client invalidates its cache, starts a worker, replays its clusters and tokens to it and repeats
  the call.
\<close>

section \<open>Connecting\<close>

abbreviation hello_frame :: frame where
  "hello_frame \<equiv> frame_new FT_Hello 0 [PROTOCOL_MAJOR]"

abbreviation greeted :: "'s server_state \<Rightarrow> 's server_state" where
  "greeted s \<equiv> upd_metrics inc_frames s"

lemma hello_frame_facts:
  "build_hello_frame = Ok (frame_bytes hello_frame)" "frame_fits hello_frame" "within_limit hello_frame"
  "parse_hello_resp (frame_bytes hello_frame) = Ok ()"
proof -
  have "hello_req_encode \<lparr>hq_major = PROTOCOL_MAJOR\<rparr> = ([PROTOCOL_MAJOR], Ok ())"
    by (simp add: hello_req_encode_def wire_simps)
  then show "build_hello_frame = Ok (frame_bytes hello_frame)"
    unfolding build_hello_frame_def by (rule build_oneway_fits) (simp add: MAX_PAYLOAD_LEN_def)
  show fits: "frame_fits hello_frame" by (simp add: frame_fits_def MAX_PAYLOAD_LEN_def)
  show "within_limit hello_frame" by (simp add: within_limit_def frame_limit_def)
  have "hello_resp_decode [PROTOCOL_MAJOR] = Ok \<lparr>hs_major = PROTOCOL_MAJOR\<rparr>"
    by (simp add: hello_resp_decode_def run_def hello_resp_read_def need_def bind_def get_u8_def ret_def)
  then show "parse_hello_resp (frame_bytes hello_frame) = Ok ()"
    by (intro parse_hello_resp_bytes fits) simp_all
qed

lemma serves_hello:
  "handle_connection env Eof (frame_bytes hello_frame) False link_out s =
     (Ok (), link_out\<lparr>o_bytes := frame_bytes hello_frame\<rparr>, greeted s)"
  using handle_connection_frame [OF hello_frame_facts(3), of env Eof "[]" False link_out s]
  by (simp add: handshake_hello link_out_open handle_connection.simps [of env Eof "[]"] HEADER_LEN_def)

definition greeting :: link_conn where
  "greeting = \<lparr>lc_hello = False, lc_open = True, lc_out = []\<rparr>"

lemma link_hello_written:
  assumes "ln_up w" and "ln_conns w c = Some greeting"
  shows "\<exists>w1. link_write env c (frame_bytes hello_frame) w = (Inr (), w1)
    \<and> link_live c w1 \<and> link_pending c w1 = frame_bytes hello_frame \<and> ln_server w1 = greeted (ln_server w)"
  using assms length_frame_bytes [of hello_frame]
  by (simp add: link_write_def greeting_def serves_hello link_live_def link_pending_def)

lemma link_read_pending:
  assumes "link_live c w" and "link_pending c w = bs @ rest"
  shows "link_read c (length bs) w = (Inr bs, link_set c rest w)"
  using assms by (simp add: link_read_def)

lemma link_set_facts:
  "link_live c w \<Longrightarrow> link_live c (link_set c bs w)" "link_live c w \<Longrightarrow> link_pending c (link_set c bs w) = bs"
  "ln_server (link_set c bs w) = ln_server w"
  by (auto simp: link_live_def link_set_def link_pending_def)

text \<open>The hello exchange on a new connection: what is written and what can be read.\<close>

lemma link_hello_exchange:
  assumes "ln_up w" and "ln_conns w c = Some greeting"
  shows "\<exists>w1 w2 w3 h. link_write env c (frame_bytes hello_frame) w = (Inr (), w1) \<and> link_read c HEADER_LEN w1 = (Inr h, w2)
    \<and> be_nat (take 4 h) = 1 \<and> link_read c 1 w2 = (Inr [PROTOCOL_MAJOR], w3)
    \<and> parse_hello_resp (h @ [PROTOCOL_MAJOR]) = Ok ()
    \<and> link_live c w3 \<and> link_pending c w3 = [] \<and> ln_server w3 = greeted (ln_server w)"
proof -
  let ?f = "frame_bytes hello_frame"
  obtain w1 where w1: "link_write env c ?f w = (Inr (), w1)" "link_live c w1" "link_pending c w1 = ?f"
      "ln_server w1 = greeted (ln_server w)"
    using link_hello_written [OF assms] by blast
  note f = frame_split [OF hello_frame_facts(2)]
  define h where "h = take HEADER_LEN ?f"
  have four: "be_nat (take 4 h) = 1"
    by (simp add: h_def frame_bytes_def HEADER_LEN_def be_nat_be_bytes frame_new_def)
  have split: "?f = h @ [PROTOCOL_MAJOR]" using f(3) unfolding h_def by (metis append_take_drop_id frame_new_sel(3))
  have len: "length h = HEADER_LEN" using f(5) by (simp add: h_def)
  let ?w2 = "link_set c [PROTOCOL_MAJOR] w1"
  have hdr: "link_read c HEADER_LEN w1 = (Inr h, ?w2)"
    using link_read_pending [OF w1(2), of h "[PROTOCOL_MAJOR]"] w1(3) split len by metis
  have pay: "link_read c 1 ?w2 = (Inr [PROTOCOL_MAJOR], link_set c [] ?w2)"
    using link_read_pending [OF link_set_facts(1) [OF w1(2)], of "[PROTOCOL_MAJOR]" "[PROTOCOL_MAJOR]" "[]"]
      link_set_facts(2) [OF w1(2)] by simp
  show ?thesis
    using w1 hdr four pay hello_frame_facts(4) [unfolded split]
    by (intro exI [of _ w1] exI [of _ ?w2] exI [of _ "link_set c [] ?w2"] exI [of _ h]) (simp add: link_set_facts)
qed

lemma link_handshake:
  assumes "ln_up w" and "ln_conns w c = Some greeting"
  shows "\<exists>w'. client_handshake (link_os env start) c w = (Ok (), w')
    \<and> link_live c w' \<and> link_pending c w' = [] \<and> ln_server w' = greeted (ln_server w)"
  using link_hello_exchange [OF assms, of env]
  by (auto simp: client_handshake_def hello_frame_facts(1) bind_act_def io_act_def pure_act_def link_os_sel)

text \<open>A client whose pool for the socket has no connection, while the worker is up.\<close>

definition empty_pool :: "string \<Rightarrow> ('c, 'w) ipc_state \<Rightarrow> bool" where
  "empty_pool socket st \<longleftrightarrow>
     (case map_of (ic_pools st) socket of None \<Rightarrow> True | Some p \<Rightarrow> pl_idle p = [] \<and> 0 < pl_max_idle p)"

abbreviation link_acquires ::
  "('m, 's) server_env \<Rightarrow> (child_config \<Rightarrow> 's server_state) \<Rightarrow> string \<Rightarrow> (nat, 's link) ipc_state \<Rightarrow> 's server_state \<Rightarrow> bool" where
  "link_acquires env start \<equiv> peer_acquires (link_os env start) link_live link_pending ln_server"

lemma acquire_fresh:
  assumes "ln_up w" and "pl_idle p = []"
  shows "\<exists>c p' w'. acquire (link_os env start) socket (p, w) = (Ok c, p', w')
    \<and> pl_idle p' = [] \<and> pl_max_idle p' = pl_max_idle p
    \<and> link_live c w' \<and> link_pending c w' = [] \<and> ln_server w' = greeted (ln_server w)"
proof -
  define w1 where "w1 = snd (link_connect w)"
  have c: "link_connect w = (Inr (ln_next w), w1)" "ln_up w1" "ln_conns w1 (ln_next w) = Some greeting" "ln_server w1 = ln_server w"
    using assms(1) by (simp_all add: w1_def link_connect_def greeting_def)
  from link_handshake [OF c(2,3), of env start] obtain w' where
      "client_handshake (link_os env start) (ln_next w) w1 = (Ok (), w')" "link_live (ln_next w) w'"
      "link_pending (ln_next w) w' = []" "ln_server w' = greeted (ln_server w)"
    unfolding c(4) by blast
  with c(1) assms(2) show ?thesis by (simp add: acquire_def Let_def link_os_sel)
qed

lemma empty_pool_for:
  assumes "empty_pool socket st"
  shows "\<exists>p ps. pool_for env socket (ic_pools st) = (p, ps) \<and> pl_idle p = [] \<and> 0 < pl_max_idle p"
  using assms pool_size_pos [of env]
  by (auto simp: empty_pool_def pool_for_def pool_new_def Let_def split: option.splits)

lemma fresh_acquires:
  assumes "cached socket st" and "ln_up (ic_world st)" and "empty_pool socket st"
  shows "link_acquires env start socket st (greeted (worker_of st))"
proof -
  obtain p ps where p: "pool_for (\<lambda>_. None) socket (ic_pools st) = (p, ps)" "pl_idle p = []" "0 < pl_max_idle p"
    using empty_pool_for [OF assms(3)] by blast
  from acquire_fresh [OF assms(2) p(2), of env start socket] obtain c p' w' where
      a: "acquire (link_os env start) socket (p, ic_world st) = (Ok c, p', w')" "pl_idle p' = []"
      "pl_max_idle p' = pl_max_idle p" "link_live c w'" "link_pending c w' = []" "ln_server w' = greeted (worker_of st)"
    by blast
  have "ipc_acquire (link_os env start) socket st = (Ok c, st\<lparr>ic_pools := AList.update socket p' ps, ic_world := w'\<rparr>)"
    by (simp add: ipc_acquire_def link_os_sel p(1) a(1))
  with a p(3) assms(1) show ?thesis by (auto simp: peer_acquires_def books_def)
qed

section \<open>A worker that is gone\<close>

lemma dead_conn: "\<not> ln_up w \<Longrightarrow> \<exists>w'. conn_is_alive (link_os env start) c w = (False, w') \<and> \<not> ln_up w'"
  by (simp add: conn_is_alive_def link_os_sel link_read_one_def link_open_def link_set_def)

lemma dead_idle:
  "\<not> ln_up w \<Longrightarrow> \<exists>stats w'. acquire_idle (link_os env start) cs st w = (None, [], stats, w') \<and> \<not> ln_up w'"
proof (induction cs arbitrary: st w)
  case (Cons c cs)
  from dead_conn [OF Cons.prems, of env start c] obtain w1 where
      w1: "conn_is_alive (link_os env start) c w = (False, w1)" "\<not> ln_up w1" by blast
  from Cons.IH [OF w1(2)] show ?case by (simp add: w1(1))
qed simp

lemma acquire_dead:
  assumes "\<not> ln_up w"
  shows "\<exists>p' w'. acquire (link_os env start) socket (p, w) = (Err (PoolConnect socket ConnectionRefused), p', w')
    \<and> pl_idle p' = [] \<and> pl_max_idle p' = pl_max_idle p \<and> \<not> ln_up w'"
proof -
  let ?st = "(pl_stats p)\<lparr>sts_acquires_total := sts_acquires_total (pl_stats p) + 1\<rparr>"
  from dead_idle [OF assms, of env start "pl_idle p" ?st] obtain stats w' where
      "acquire_idle (link_os env start) (pl_idle p) ?st w = (None, [], stats, w')" "\<not> ln_up w'" by blast
  then show ?thesis by (simp add: acquire_def Let_def link_os_sel link_connect_def)
qed

text \<open>Pools keep room for a connection.\<close>

definition roomy :: "string \<Rightarrow> ('c, 'w) ipc_state \<Rightarrow> bool" where
  "roomy socket st \<longleftrightarrow> (case map_of (ic_pools st) socket of None \<Rightarrow> True | Some p \<Rightarrow> 0 < pl_max_idle p)"

lemma with_conn_dead:
  assumes "\<not> ln_up (ic_world st)" and "roomy socket st"
  shows "\<exists>st1. with_conn (link_os env start) socket body st = (Err (PoolFailed (PoolConnect socket ConnectionRefused)), st1)
    \<and> empty_pool socket st1 \<and> \<not> ln_up (ic_world st1) \<and> books st1 = books st \<and> ic_next_cid st1 = ic_next_cid st"
proof -
  obtain p ps where p: "pool_for (\<lambda>_. None) socket (ic_pools st) = (p, ps)" by fastforce
  have room: "0 < pl_max_idle p"
    using p assms(2) pool_size_pos [of "\<lambda>_. None"]
    by (auto simp: pool_for_def roomy_def pool_new_def Let_def split: option.splits)
  from acquire_dead [OF assms(1), of env start socket p] obtain p' w' where
      "acquire (link_os env start) socket (p, ic_world st) = (Err (PoolConnect socket ConnectionRefused), p', w')"
      "pl_idle p' = []" "pl_max_idle p' = pl_max_idle p" "\<not> ln_up w'" by blast
  with p room show ?thesis
    by (auto simp: with_conn_def bind_act_def ipc_acquire_def link_os_sel empty_pool_def books_def)
qed

section \<open>Starting a worker\<close>

definition link_child :: "('m, 's) server_env \<Rightarrow> (child_config \<Rightarrow> 's server_state) \<Rightarrow> string \<Rightarrow> child_config" where
  "link_child env start socket = to_child_config (link_os env start) (spawn_from_env (link_os env start) socket)"

lemma link_os_proc_sel:
  "os_now (link_os env start) = (\<lambda>w. (ln_clock w, w))" "os_create_parent (link_os env start) = (\<lambda>_ w. (Inr (), w))"
  "os_open_lock (link_os env start) = (\<lambda>_ w. (Inr (), w))" "os_flock_nb (link_os env start) = (\<lambda>_ w. (True, w))"
  "os_close_lock (link_os env start) = (\<lambda>_ w. w)" "os_proc_status (link_os env start) = (\<lambda>_. None)"
  "os_fork (link_os env start) =
     (\<lambda>cfg w. (Inr (), w\<lparr>ln_server := start cfg, ln_conns := (\<lambda>_. None), ln_up := True\<rparr>))"
  by (simp_all add: link_os_def)

lemma spawn_link:
  assumes "\<not> ln_up w"
  shows "\<exists>w'. ensure_worker (link_os env start) (spawn_from_env (link_os env start) socket) w = (Ok JustSpawned, w')
    \<and> ln_up w' \<and> ln_server w' = start (link_child env start socket)"
proof -
  let ?os = "link_os env start" and ?cfg = "spawn_from_env (link_os env start) socket"
  define w1 where "w1 = w\<lparr>ln_server := start (link_child env start socket), ln_conns := (\<lambda>_. None), ln_up := True\<rparr>"
  have cfg: "sc_socket ?cfg = socket" "sc_ready_timeout ?cfg = 5000" by (simp_all add: spawn_from_env_def)
  have alive: "\<exists>w'. worker_alive ?os socket w1 = (True, w') \<and> ln_up w' \<and> ln_server w' = ln_server w1"
    by (simp add: worker_alive_def link_os_sel link_connect_def w1_def)
  then obtain w' where w': "worker_alive ?os socket w1 = (True, w')" "ln_up w'" "ln_server w' = start (link_child env start socket)"
    by (auto simp: w1_def)
  have wait: "wait_for_socket (wait_fuel ?cfg) ?os socket (ln_clock w + 5000) w1 = (Ok (), w')"
    by (rule wait_ready) (simp_all add: clock_ms_def link_os_proc_sel w1_def [symmetric] w'(1), simp add: w1_def)
  have fork: "spawn_worker_inproc ?os ?cfg w = (Ok (), w1)"
    by (simp add: spawn_worker_inproc_def current_thread_count_def link_os_proc_sel io_act_def w1_def link_child_def)
  have "ensure_worker ?os ?cfg w = (Ok JustSpawned, w')"
    using assms
    by (simp add: ensure_worker_def cfg worker_alive_def link_os_sel link_os_proc_sel link_connect_def bind_act_def
        io_act_def pure_act_def spawn_locked_def Let_def fork wait)
  with w' show ?thesis by blast
qed

lemma health_spawns:
  assumes "\<not> cached socket st" and "\<not> ln_up (ic_world st)"
  shows "\<exists>st'. health_ensure (link_os env start) socket st = (Ok JustSpawned, st')
    \<and> cached socket st' \<and> ln_up (ic_world st') \<and> worker_of st' = start (link_child env start socket)
    \<and> ic_pools st' = ic_pools st \<and> ic_replay st' = ic_replay st \<and> ic_retry st' = ic_retry st"
proof -
  from spawn_link [OF assms(2), of env start socket] obtain w' where
      "ensure_worker (link_os env start) (spawn_from_env (link_os env start) socket) (ic_world st) = (Ok JustSpawned, w')"
      "ln_up w'" "ln_server w' = start (link_child env start socket)" by blast
  then show ?thesis
    using assms(1) by (simp add: health_ensure_def cached_def bind_act_def on_world_def modify_act_def pure_act_def)
qed

section \<open>Replaying what was registered\<close>

definition register_req :: "string \<Rightarrow> replay_entry \<Rightarrow> register_cluster_req" where
  "register_req c e = \<lparr>rc_cluster = c, rc_config = re_config e\<rparr>"

definition token_req :: "string \<Rightarrow> oauth_token \<Rightarrow> set_oauth_req" where
  "token_req c t =
     \<lparr>oa_cluster = c, oa_token_value = ot_token_value t, oa_lifetime_ms = ot_lifetime_ms t,
      oa_principal_name = ot_principal_name t, oa_extensions = ot_extensions t\<rparr>"

definition stored_token :: "oauth_token \<Rightarrow> stored_oauth_token" where
  "stored_token t =
     \<lparr>st_token_value = ot_token_value t, st_lifetime_ms = ot_lifetime_ms t, st_principal_name = ot_principal_name t,
      st_extensions = ot_extensions t\<rparr>"

text \<open>What an entry does to the registry of the worker, and when it can be replayed.\<close>

definition replay_config :: "string \<Rightarrow> replay_entry \<Rightarrow> cluster_registry \<Rightarrow> cluster_registry" where
  "replay_config c e reg = snd (register c (hm_collect (re_config e)) reg)"

fun replay_one :: "string \<times> replay_entry \<Rightarrow> cluster_registry \<Rightarrow> cluster_registry" where
  "replay_one (c, e) reg =
     (case re_oauth_token e of
        None \<Rightarrow> replay_config c e reg
      | Some t \<Rightarrow> snd (set_oauth_token c (stored_token t) (replay_config c e reg)))"

fun replayable :: "string \<times> replay_entry \<Rightarrow> bool" where
  "replayable (c, e) \<longleftrightarrow>
     re_config e \<noteq> [] \<and> map_of (hm_collect (re_config e)) ''bootstrap.servers'' \<noteq> None
     \<and> register_cluster_req_ok (register_req c e)
     \<and> length (register_cluster_req_layout (register_req c e)) \<le> frame_limit FT_RegisterClusterReq
     \<and> (case re_oauth_token e of
          None \<Rightarrow> True
        | Some t \<Rightarrow> set_oauth_req_ok (token_req c t)
            \<and> length (set_oauth_req_layout (token_req c t)) \<le> frame_limit FT_SetOAuthBearerTokenReq)"

lemma status_ok_facts:
  "status_resp_encode StatusOk = (status_resp_layout StatusOk, Ok ())"
  "length (status_resp_layout StatusOk) \<le> MAX_PAYLOAD_LEN"
  "register_cluster_resp_decode (status_resp_layout StatusOk) = Ok StatusOk"
  "set_oauth_resp_decode (status_resp_layout StatusOk) = Ok StatusOk"
proof -
  have ok: "status_resp_ok StatusOk" by (simp add: status_resp_ok_def)
  show "status_resp_encode StatusOk = (status_resp_layout StatusOk, Ok ())" by (rule status.encode_layout [OF ok])
  show "length (status_resp_layout StatusOk) \<le> MAX_PAYLOAD_LEN" by (simp add: status_resp_layout_def MAX_PAYLOAD_LEN_def)
  show "register_cluster_resp_decode (status_resp_layout StatusOk) = Ok StatusOk"
    "set_oauth_resp_decode (status_resp_layout StatusOk) = Ok StatusOk"
    using status.read_layout [OF ok, of _ "[]"]
    by (simp_all add: register_cluster_resp_decode_def set_oauth_resp_decode_def run_def)
qed

lemma serves_register:
  assumes "replayable (c, e)"
  shows "link_serves env (frame_new FT_RegisterClusterReq cid (register_cluster_req_layout (register_req c e))) s
    (frame_new FT_RegisterClusterResp cid (status_resp_layout StatusOk))
    ((greeted s)\<lparr>ss_registry := replay_config c e (ss_registry s)\<rparr>)"
proof -
  have ok: "register_cluster_req_ok (register_req c e)" using assms by simp
  have "register_cluster_req_decode (register_cluster_req_layout (register_req c e)) = Ok (register_req c e)"
    using register_cluster_req.read_layout [OF ok, of "[]"] by (simp add: register_cluster_req_decode_def run_def)
  then show ?thesis
    using assms send_encoded_open [OF status_ok_facts(1,2) link_out_open(1)]
    by (intro link_servesI)
      (auto simp: within_limit_def dispatch_def dispatch_inner_def handle_register_cluster_def Let_def reply_def
        register_cluster_resp_encode_def link_out_open replay_config_def register_req_def upd_metrics_def)
qed

lemma serves_token:
  assumes "replayable (c, e)" and "re_oauth_token e = Some t"
    and "set_oauth_token c (stored_token t) (ss_registry s) = (Ok u, reg)"
  shows "link_serves env (frame_new FT_SetOAuthBearerTokenReq cid (set_oauth_req_layout (token_req c t))) s
    (frame_new FT_SetOAuthBearerTokenResp cid (status_resp_layout StatusOk)) ((greeted s)\<lparr>ss_registry := reg\<rparr>)"
proof -
  have ok: "set_oauth_req_ok (token_req c t)" using assms(1,2) by simp
  have "set_oauth_req_decode (set_oauth_req_layout (token_req c t)) = Ok (token_req c t)"
    using set_oauth_req.read_layout [OF ok, of "[]"] by (simp add: set_oauth_req_decode_def run_def)
  then show ?thesis
    using assms send_encoded_open [OF status_ok_facts(1,2) link_out_open(1)]
    by (intro link_servesI)
      (auto simp: within_limit_def dispatch_def dispatch_inner_def handle_set_oauth_token_def Let_def reply_def
        set_oauth_resp_encode_def link_out_open stored_token_def token_req_def upd_metrics_def)
qed

lemma set_token_registered:
  "\<exists>u. set_oauth_token c t (replay_config c e reg) = (Ok u, snd (set_oauth_token c t (replay_config c e reg)))"
  by (auto simp: set_oauth_token_def replay_config_def register_def Let_def split: option.split)

text \<open>The state of the worker up to its counters.\<close>

definition same_worker :: "'s server_state \<Rightarrow> cluster_registry \<Rightarrow> 's server_state \<Rightarrow> bool" where
  "same_worker s reg s' \<longleftrightarrow>
     ss_registry s' = reg \<and> ss_backend s' = ss_backend s \<and> ss_shutdown s' = ss_shutdown s"

lemma status_call_link:
  assumes "link_acquires env start socket st s0" and "length payload \<le> MAX_PAYLOAD_LEN"
    and "link_serves env (frame_new rk (ic_next_cid st) payload) s0 (frame_new ek (ic_next_cid st) (status_resp_layout StatusOk)) s'"
    and "ek \<noteq> FT_Error"
  shows "\<exists>st'. round_trip_once (link_os env start) socket rk ek payload t st = (Ok (status_resp_layout StatusOk), st')
    \<and> link_ready socket st' \<and> worker_of st' = s' \<and> books st' = books st"
  using link.round_trip_once_answer [OF assms(1-3), of ek, where t = t] status_ok_facts(2) assms(4)
  by (auto simp: frame_fits_def answer_of_def)

lemma register_link:
  assumes "link_acquires env start socket st s0" and "replayable (c, e)"
  shows "\<exists>st'. register_cluster_with (ipc_ensure (link_os env start)) (link_os env start) socket c (re_config e) t st = (Ok (), st')
    \<and> link_ready socket st' \<and> same_worker s0 (replay_config c e (ss_registry s0)) (worker_of st') \<and> books st' = books st"
proof -
  have ok: "register_cluster_req_ok (register_req c e)"
      "length (register_cluster_req_layout (register_req c e)) \<le> MAX_PAYLOAD_LEN"
    using assms(2) frame_limit_max [of FT_RegisterClusterReq] by simp_all
  from status_call_link [OF assms(1) ok(2) serves_register [OF assms(2)], of t] obtain st' where
      rt: "round_trip_with (ipc_ensure (link_os env start)) (link_os env start) socket FT_RegisterClusterReq FT_RegisterClusterResp
        (register_cluster_req_layout (register_req c e)) t st = (Ok (status_resp_layout StatusOk), st')"
    and st': "link_ready socket st'" "worker_of st' = (greeted s0)\<lparr>ss_registry := replay_config c e (ss_registry s0)\<rparr>" "books st' = books st"
    by (auto simp: round_trip_once_def)
  have "encoded (register_cluster_req_encode \<lparr>rc_cluster = c, rc_config = re_config e\<rparr>) =
      Ok (register_cluster_req_layout (register_req c e))"
    using register_cluster_req.encode_layout [OF ok(1)] by (simp add: encoded_def register_req_def)
  then have "register_cluster_with (ipc_ensure (link_os env start)) (link_os env start) socket c (re_config e) t st = (Ok (), st')"
    by (simp add: register_cluster_with_def bind_pure_act bind_act_def rt decoded_def status_ok_facts pure_act_def)
  with st' show ?thesis by (auto simp: same_worker_def upd_metrics_def)
qed

lemma token_link:
  assumes "link_acquires env start socket st s0" and "replayable (c, e)" and "re_oauth_token e = Some tk"
    and "set_oauth_token c (stored_token tk) (ss_registry s0) = (Ok u, reg)"
  shows "\<exists>st'. set_oauth_with (ipc_ensure (link_os env start)) (link_os env start) socket c tk t st = (Ok (), st')
    \<and> link_ready socket st' \<and> same_worker s0 reg (worker_of st') \<and> books st' = books st"
proof -
  have ok: "set_oauth_req_ok (token_req c tk)" "length (set_oauth_req_layout (token_req c tk)) \<le> MAX_PAYLOAD_LEN"
    using assms(2,3) frame_limit_max [of FT_SetOAuthBearerTokenReq] by simp_all
  from status_call_link [OF assms(1) ok(2) serves_token [OF assms(2-4)], of t] obtain st' where
      rt: "round_trip_with (ipc_ensure (link_os env start)) (link_os env start) socket FT_SetOAuthBearerTokenReq
        FT_SetOAuthBearerTokenResp (set_oauth_req_layout (token_req c tk)) t st = (Ok (status_resp_layout StatusOk), st')"
    and st': "link_ready socket st'" "worker_of st' = (greeted s0)\<lparr>ss_registry := reg\<rparr>" "books st' = books st"
    by (auto simp: round_trip_once_def)
  have enc: "encoded (set_oauth_req_encode (token_req c tk)) = Ok (set_oauth_req_layout (token_req c tk))"
    using set_oauth_req.encode_layout [OF ok(1)] by (simp add: encoded_def)
  have "set_oauth_with (ipc_ensure (link_os env start)) (link_os env start) socket c tk t st = (Ok (), st')"
    unfolding set_oauth_with_def token_req_def [symmetric] enc bind_pure_act
    by (simp add: bind_act_def rt decoded_def status_ok_facts pure_act_def)
  with st' show ?thesis by (auto simp: same_worker_def upd_metrics_def)
qed

text \<open>One entry, then all of them.\<close>

lemma replay_entry_link:
  assumes "link_acquires env start socket st s0" and "replayable (c, e)"
  shows "\<exists>st'. replay_loop (ipc_ensure (link_os env start)) (link_os env start) socket ((c, e) # rest) st =
        replay_loop (ipc_ensure (link_os env start)) (link_os env start) socket rest st'
    \<and> link_ready socket st' \<and> same_worker s0 (replay_one (c, e) (ss_registry s0)) (worker_of st') \<and> books st' = books st"
proof -
  have config: "re_config e \<noteq> []" using assms(2) by simp
  from register_link [OF assms, of 5000] obtain st1 where
      r: "register_cluster_with (ipc_ensure (link_os env start)) (link_os env start) socket c (re_config e) 5000 st = (Ok (), st1)"
    and st1: "link_ready socket st1" "same_worker s0 (replay_config c e (ss_registry s0)) (worker_of st1)" "books st1 = books st"
    by blast
  show ?thesis
  proof (cases "re_oauth_token e")
    case None
    with r config st1 show ?thesis by (auto simp: bind_act_def pure_act_def)
  next
    case (Some tk)
    from set_token_registered [of c "stored_token tk" e "ss_registry s0"] st1(2) obtain u where
      "set_oauth_token c (stored_token tk) (ss_registry (worker_of st1)) = (Ok u, replay_one (c, e) (ss_registry s0))"
      by (auto simp: same_worker_def Some)
    from token_link [OF link.ready_acquires [OF st1(1)] assms(2) Some this, where env = env and start = start and t = 5000] obtain st2 where
        "set_oauth_with (ipc_ensure (link_os env start)) (link_os env start) socket c tk 5000 st1 = (Ok (), st2)"
        "link_ready socket st2" "same_worker (worker_of st1) (replay_one (c, e) (ss_registry s0)) (worker_of st2)" "books st2 = books st1"
      by blast
    with r config st1 Some show ?thesis by (auto simp: bind_act_def pure_act_def same_worker_def)
  qed
qed

lemma replay_loop_link:
  assumes "link_acquires env start socket st s0" and "list_all replayable es"
  shows "\<exists>st' s'. replay_loop (ipc_ensure (link_os env start)) (link_os env start) socket es st = (Ok (), st')
    \<and> link_acquires env start socket st' s' \<and> same_worker s0 (fold replay_one es (ss_registry s0)) s' \<and> books st' = books st"
  using assms
proof (induction es arbitrary: st s0)
  case Nil
  then show ?case by (auto simp: pure_act_def same_worker_def)
next
  case (Cons ce es)
  obtain c e where ce: "ce = (c, e)" by fastforce
  from Cons.prems have "replayable (c, e)" by (simp add: ce)
  from replay_entry_link [OF Cons.prems(1) this, of es] obtain st1 where
      r: "replay_loop (ipc_ensure (link_os env start)) (link_os env start) socket (ce # es) st =
        replay_loop (ipc_ensure (link_os env start)) (link_os env start) socket es st1"
    and st1: "link_ready socket st1" "same_worker s0 (replay_one ce (ss_registry s0)) (worker_of st1)" "books st1 = books st"
    unfolding ce by blast
  from Cons.IH [OF link.ready_acquires [OF st1(1)]] Cons.prems(2) st1(2,3) show ?case
    unfolding r by (fastforce simp: same_worker_def)
qed

section \<open>A call that finds the worker gone\<close>

text \<open>
  The client thinks that its worker is alive, but it is not; the entries to replay are such that a
  worker accepts them. Afterwards: a worker just started, with these entries in its registry.
\<close>

definition link_down :: "string \<Rightarrow> (string \<times> replay_entry) list \<Rightarrow> (nat, 's link) ipc_state \<Rightarrow> bool" where
  "link_down socket es st \<longleftrightarrow>
     cached socket st \<and> \<not> ln_up (ic_world st) \<and> roomy socket st \<and> replay_snapshot socket st = es \<and> list_all replayable es"

definition restarted ::
  "('m, 's) server_env \<Rightarrow> (child_config \<Rightarrow> 's server_state) \<Rightarrow> string \<Rightarrow> (string \<times> replay_entry) list \<Rightarrow> 's server_state \<Rightarrow> bool" where
  "restarted env start socket es s \<longleftrightarrow>
     (let s0 = start (link_child env start socket) in same_worker s0 (fold replay_one es (ss_registry s0)) s)"

lemma ensure_restarts:
  assumes "\<not> cached socket st" and "\<not> ln_up (ic_world st)" and "empty_pool socket st"
    and "list_all replayable (replay_snapshot socket st)"
  shows "\<exists>st' s'. ipc_ensure (link_os env start) socket st = (Ok (), st') \<and> link_acquires env start socket st' s'
    \<and> restarted env start socket (replay_snapshot socket st) s' \<and> ic_retry st' = ic_retry st"
proof -
  let ?os = "link_os env start"
  from health_spawns [OF assms(1,2), of env start] obtain st1 where
      h: "health_ensure ?os socket st = (Ok JustSpawned, st1)" and st1: "cached socket st1" "ln_up (ic_world st1)"
      "worker_of st1 = start (link_child env start socket)" "ic_pools st1 = ic_pools st" "ic_replay st1 = ic_replay st"
      "ic_retry st1 = ic_retry st" by blast
  have snap: "replay_snapshot socket st1 = replay_snapshot socket st"
    by (simp add: replay_snapshot_def replay_for_def st1(5))
  have "empty_pool socket st1" using assms(3) by (simp add: empty_pool_def st1(4))
  from replay_loop_link [OF fresh_acquires [OF st1(1,2) this] assms(4)] obtain st' s' where
      r: "replay_loop (ipc_ensure ?os) ?os socket (replay_snapshot socket st) st1 = (Ok (), st')"
      "link_acquires env start socket st' s'"
      "same_worker (greeted (worker_of st1)) (fold replay_one (replay_snapshot socket st) (ss_registry (greeted (worker_of st1)))) s'"
      "books st' = books st1" by blast
  have "ipc_ensure ?os socket st = (Ok (), st')"
    by (subst ensure_unfold) (simp add: ensure_with_def bind_act_def map_err_act_def h replay_clusters_def snap r(1))
  moreover have "restarted env start socket (replay_snapshot socket st) s'"
    using r(3) by (simp add: restarted_def Let_def same_worker_def upd_metrics_def st1(3))
  moreover have "ic_retry st' = ic_retry st" using r(4) st1(6) by (simp add: books_def)
  ultimately show ?thesis using r(2) by blast
qed

lemma round_trip_down:
  assumes "link_down socket es st"
  shows "\<exists>st1. round_trip_once (link_os env start) socket rk ek payload t st =
      (Err (PoolFailed (PoolConnect socket ConnectionRefused)), st1)
    \<and> empty_pool socket st1 \<and> \<not> ln_up (ic_world st1) \<and> books st1 = books st"
proof -
  let ?st = "st\<lparr>ic_next_cid := ic_next_cid st + 1\<rparr>"
  have down: "\<not> ln_up (ic_world ?st)" "roomy socket ?st" and cache: "cached socket st"
    using assms by (simp_all add: link_down_def roomy_def)
  have "round_trip_once (link_os env start) socket rk ek payload t st =
      exchange (link_os env start) socket rk ek (ic_next_cid st) payload t ?st"
    unfolding round_trip_once_def
    by (simp add: round_trip_quiet [OF quiet_ipc_ensure cache] bind_act_def ipc_next_cid_def next_cid_def)
  with with_conn_dead [OF down] show ?thesis unfolding exchange_def by (fastforce simp: books_def)
qed

lemma round_trip_after_ensure:
  assumes "ipc_ensure os socket st = (Ok (), st1)" and "cached socket st1"
  shows "round_trip_once os socket rk ek payload t st = round_trip_once os socket rk ek payload t st1"
  using assms quiet_ipc_ensure [of os]
  by (simp add: round_trip_once_def round_trip_with_def bind_act_def quiet_def)

text \<open>
  The first try fails, the second one goes to the new worker. \<open>h\<close> is what the call makes of the answer,
  \<open>g\<close> the answer by correlation id.
\<close>

lemma retry_restarts:
  assumes "link_down socket es st" and "length payload \<le> MAX_PAYLOAD_LEN"
    and serve: "\<And>cid s. restarted env start socket es s \<Longrightarrow> \<exists>s'. link_serves env (frame_new rk cid payload) s (g cid) s' \<and> P s'"
    and g: "\<And>cid. frame_fits (g cid)" "\<And>cid. fr_cid (g cid) = cid" "\<And>cid. fr_kind (g cid) = ek \<or> fr_kind (g cid) = FT_Error"
      "\<And>cid. answer_of (g cid) = a"
    and final: "\<And>e. bind_ok a h = Err e \<Longrightarrow> \<not> should_invalidate e"
  shows "\<exists>st'. with_retry socket (bind_act (round_trip_once (link_os env start) socket rk ek payload t) (\<lambda>x. pure_act (h x))) st
      = (bind_ok a h, st')
    \<and> link_ready socket st' \<and> P (worker_of st') \<and> rs_attempts (ic_retry st') = rs_attempts (ic_retry st) + 1"
proof -
  let ?rt = "round_trip_once (link_os env start) socket rk ek payload t"
  from round_trip_down [OF assms(1), of env start rk ek payload t] obtain st1 where
      rt1: "?rt st = (Err (PoolFailed (PoolConnect socket ConnectionRefused)), st1)"
    and st1: "empty_pool socket st1" "\<not> ln_up (ic_world st1)" "books st1 = books st" by blast
  define st2 where "st2 = count_attempt (invalidate socket st1)"
  have st2: "\<not> cached socket st2" "\<not> ln_up (ic_world st2)" "empty_pool socket st2"
    using st1 by (simp_all add: st2_def invalidate_def cached_def empty_pool_def)
  have snap: "replay_snapshot socket st2 = es"
    using st1(3) assms(1) by (simp add: st2_def invalidate_def link_down_def replay_snapshot_def replay_for_def books_def)
  have "list_all replayable (replay_snapshot socket st2)" using snap assms(1) by (simp add: link_down_def)
  from ensure_restarts [OF st2 this, of env start] obtain st3 s3 where
      e: "ipc_ensure (link_os env start) socket st2 = (Ok (), st3)" "link_acquires env start socket st3 s3"
      "restarted env start socket es s3" "ic_retry st3 = ic_retry st2"
    unfolding snap by blast
  from serve [OF e(3)] obtain s' where s': "link_serves env (frame_new rk (ic_next_cid st3) payload) s3 (g (ic_next_cid st3)) s'" "P s'"
    by blast
  from link.round_trip_once_answer [OF e(2) assms(2) s'(1) g(1,2,3), of t] obtain st4 where
      rt3: "?rt st3 = (a, st4)" and st4: "link_ready socket st4" "worker_of st4 = s'" "books st4 = books st3"
    unfolding g(4) by blast
  have "cached socket st3" using e(2) by (simp add: peer_acquires_def)
  then have "?rt st2 = (a, st4)" using round_trip_after_ensure [OF e(1)] rt3 by simp
  then have second: "bind_act ?rt (\<lambda>x. pure_act (h x)) st2 = (bind_ok a h, st4)"
    by (cases a) (simp_all add: bind_act_def pure_act_def)
  have retry: "rs_attempts (ic_retry st4) = rs_attempts (ic_retry st) + 1"
    using st4(3) st1(3) e(4) by (simp add: books_def st2_def invalidate_def)
  have first: "bind_act ?rt (\<lambda>x. pure_act (h x)) st = (Err (PoolFailed (PoolConnect socket ConnectionRefused)), st1)"
    by (simp add: bind_act_def rt1)
  have ready: "link_ready socket (st4\<lparr>ic_retry := x\<rparr>)" for x using st4(1) by (simp add: peer_ready_def cached_def)
  show ?thesis
    using second retry st4(1,2) s'(2) ready final
    by (cases "bind_ok a h") (auto simp: with_retry_def first st2_def [symmetric])
qed

text \<open>The two shapes of call.\<close>

lemma bind_act_Ok: "bind_act m (\<lambda>x. pure_act (Ok x)) = m"
  by (rule ext) (simp add: bind_act_def pure_act_def split: prod.split outcome.split)

lemma produce_sync_round_trip:
  assumes "encode_produce_payload_bin cluster topic key val opts = Ok payload"
  shows "produce_sync_bin_inner os socket cluster topic key val opts t =
    bind_act (round_trip_once os socket FT_ProduceReq FT_ProduceResp payload t) (\<lambda>x. pure_act (decoded (produce_resp_decode x)))"
  unfolding produce_sync_bin_inner_def assms bind_pure_act round_trip_once_def round_trip_with_def
  by (rule ext) (simp add: bind_act_def split: prod.split outcome.split)

lemma rpc_restarts:
  assumes "link_down socket es st" and "encoded req = Ok payload" and "length payload \<le> MAX_PAYLOAD_LEN"
    and "\<And>cid s. restarted env start socket es s \<Longrightarrow> \<exists>s'. link_serves env (frame_new rk cid payload) s (g cid) s' \<and> P s'"
    and "\<And>cid. frame_fits (g cid)" "\<And>cid. fr_cid (g cid) = cid" "\<And>cid. fr_kind (g cid) = ek \<or> fr_kind (g cid) = FT_Error"
      "\<And>cid. answer_of (g cid) = a"
  shows "\<exists>st'. rpc (link_os env start) socket rk ek req dec fin t st =
      (bind_ok a (\<lambda>resp. bind_ok (decoded (dec resp)) fin), st')
    \<and> link_ready socket st' \<and> P (worker_of st') \<and> rs_attempts (ic_retry st') = rs_attempts (ic_retry st) + 1"
proof -
  have "\<not> should_invalidate e" if "bind_ok a Ok = Err e" for e
    using that answer_of_no_retry [of "g 0"] assms(8) [of 0] by (cases a) simp_all
  from retry_restarts [where h = Ok and t = t and P = P, OF assms(1,3) assms(4) assms(5-8) this] obtain st' where
      rt: "round_trip (link_os env start) socket rk ek payload t st = (bind_ok a Ok, st')"
    and st': "link_ready socket st'" "P (worker_of st')" "rs_attempts (ic_retry st') = rs_attempts (ic_retry st) + 1"
    unfolding bind_act_Ok round_trip_def by blast
  have "rpc (link_os env start) socket rk ek req dec fin t st = (bind_ok a (\<lambda>resp. bind_ok (decoded (dec resp)) fin), st')"
    unfolding rpc_def assms(2) bind_pure_act
    using rt by (cases a) (auto simp: bind_act_def pure_act_def split: outcome.split)
  with st' show ?thesis by blast
qed

section \<open>The end of the process\<close>

lemma link_absorb_write:
  assumes "link_live c w" and "link_absorbs env f (ln_server w) s'"
  shows "\<exists>w'. link_write env c (frame_bytes f) w = (Inr (), w') \<and> link_live c w' \<and> ln_server w' = s'"
  using assms by (auto simp: link_write_def link_live_def link_absorbs_def)

lemma connect_link:
  assumes "ln_up w"
  shows "\<exists>c w'. connect_and_handshake (link_os env start) socket w = (Some c, w') \<and> link_live c w' \<and> ln_server w' = greeted (ln_server w)"
proof -
  define w1 where "w1 = snd (link_connect w)"
  have c: "link_connect w = (Inr (ln_next w), w1)" "ln_up w1" "ln_conns w1 (ln_next w) = Some greeting" "ln_server w1 = ln_server w"
    using assms by (simp_all add: w1_def link_connect_def greeting_def)
  from link_hello_exchange [OF c(2,3), of env] c(1,4) show ?thesis
    by (auto simp: connect_and_handshake_def shutdown_handshake_def hello_frame_facts(1) bind_act_def io_act_def pure_act_def
        link_os_sel)
qed

text \<open>What the unsubscribes do to the back end.\<close>

definition unsubscribe_all :: "('m, 's) server_env \<Rightarrow> u64 list \<Rightarrow> 's \<Rightarrow> 's" where
  "unsubscribe_all env ids b = fold (\<lambda>i b. snd (co_unsubscribe (sv_consumer env) i b)) ids b"

lemma unsubscribe_frame:
  "build_unsubscribe_frame i = Ok (frame_bytes (frame_new FT_Unsubscribe 0 (fst (unsubscribe_req_encode \<lparr>uq_subscription_id = i\<rparr>))))"
  unfolding build_unsubscribe_frame_def
  by (rule build_oneway_fits) (simp_all add: unsubscribe_req_encode_def wire_simps MAX_PAYLOAD_LEN_def)

lemma goodbye_frame: "build_goodbye_frame = Ok (frame_bytes (frame_new FT_Goodbye 0 []))"
  unfolding build_goodbye_frame_def by (rule build_oneway_fits) (simp_all add: wire_simps MAX_PAYLOAD_LEN_def)

lemma absorbs_goodbye: "link_absorbs env (frame_new FT_Goodbye 0 []) s ((greeted s)\<lparr>ss_expedited := True\<rparr>)"
  unfolding link_absorbs_def
  by (intro handle_connection_single)
    (simp_all add: within_limit_def frame_limit_def dispatch_def dispatch_inner_def)

lemma send_unsubscribes_link:
  assumes "link_live c w" and "\<And>i b. fst (co_unsubscribe (sv_consumer env) i b) \<noteq> Panic"
  shows "\<exists>w'. send_unsubscribes (link_os env start) c ids w = (True, w') \<and> link_live c w'
    \<and> ss_backend (ln_server w') = unsubscribe_all env ids (ss_backend (ln_server w))
    \<and> ss_registry (ln_server w') = ss_registry (ln_server w)"
  using assms(1)
proof (induction ids arbitrary: w)
  case Nil
  then show ?case by (simp add: unsubscribe_all_def)
next
  case (Cons i ids)
  let ?b = "snd (co_unsubscribe (sv_consumer env) i (ss_backend (ln_server w)))"
  have "link_absorbs env (frame_new FT_Unsubscribe 0 (fst (unsubscribe_req_encode \<lparr>uq_subscription_id = i\<rparr>))) (ln_server w)
      (served ?b (ln_server w))"
    by (rule absorbs_unsubscribe [OF surjective_pairing assms(2)])
  from link_absorb_write [OF Cons.prems this] obtain w1 where
      w1: "link_write env c (frame_bytes (frame_new FT_Unsubscribe 0 (fst (unsubscribe_req_encode \<lparr>uq_subscription_id = i\<rparr>)))) w = (Inr (), w1)"
      "link_live c w1" "ln_server w1 = served ?b (ln_server w)" by blast
  from Cons.IH [OF w1(2)] w1(3) show ?case
    by (simp add: unsubscribe_frame link_os_sel w1(1) unsubscribe_all_def upd_metrics_def)
qed

lemma say_goodbye_link:
  assumes "ln_up w" and "\<And>i b. fst (co_unsubscribe (sv_consumer env) i b) \<noteq> Panic"
  shows "\<exists>w'. say_goodbye (link_os env start) socket ids w = w'
    \<and> ss_expedited (ln_server w') \<and> ss_backend (ln_server w') = unsubscribe_all env ids (ss_backend (ln_server w))
    \<and> ss_registry (ln_server w') = ss_registry (ln_server w)"
proof -
  from connect_link [OF assms(1), of env start socket] obtain c w1 where
      c: "connect_and_handshake (link_os env start) socket w = (Some c, w1)" "link_live c w1" "ln_server w1 = greeted (ln_server w)"
    by blast
  from send_unsubscribes_link [OF c(2) assms(2), of start ids] obtain w2 where
      u: "send_unsubscribes (link_os env start) c ids w1 = (True, w2)" "link_live c w2"
      "ss_backend (ln_server w2) = unsubscribe_all env ids (ss_backend (ln_server w1))"
      "ss_registry (ln_server w2) = ss_registry (ln_server w1)" by blast
  from link_absorb_write [OF u(2) absorbs_goodbye] obtain w3 where
      g: "link_write env c (frame_bytes (frame_new FT_Goodbye 0 [])) w2 = (Inr (), w3)"
      "ln_server w3 = (greeted (ln_server w2))\<lparr>ss_expedited := True\<rparr>" by blast
  have "os_close (link_os env start) = (\<lambda>c w. w\<lparr>ln_conns := (ln_conns w)(c := None)\<rparr>)" by (simp add: link_os_def)
  with c u g show ?thesis
    by (simp add: say_goodbye_def goodbye_frame link_os_sel upd_metrics_def)
qed

lemma close_all_link:
  "ln_up (fold (os_close (link_os env start)) cs w) = ln_up w"
  "ln_server (fold (os_close (link_os env start)) cs w) = ln_server w"
  by (induction cs arbitrary: w) (simp_all add: link_os_def)

end
