(* ===== verification/Proto_Laws.thy ===== *)
theory Proto_Laws
  imports Proto_Txn Proto_Error Frame
begin

text \<open>
  The properties of the wire protocol as the two sides of the socket rely on them. Each is the
  codec contract of theory Wire, or the frame lemmas of theory Frame, at the messages of the
  protocol.
\<close>

section \<open>Frames\<close>

text \<open>
  C30: A frame within the payload limit is written as its 13-byte header followed by the
  payload, the count returned is the number of bytes written, and decoding the header gives
  back the kind, the correlation id and the payload length. A larger payload is refused and
  nothing is written.
\<close>
theorem frame_roundtrip:
  "encode_frame kind cid payload buf =
     (if length payload \<le> MAX_PAYLOAD_LEN
      then (Ok (HEADER_LEN + length payload), buf @ frame_bytes (frame_new kind cid payload))
      else (Err (PayloadTooLarge (length payload)), buf))
   \<and> (length payload \<le> MAX_PAYLOAD_LEN \<longrightarrow>
        decode_header (frame_bytes (frame_new kind cid payload) @ rest) =
          Ok \<lparr>h_payload_len = of_nat (length payload), h_kind = kind, h_cid = cid\<rparr>
        \<and> drop HEADER_LEN (frame_bytes (frame_new kind cid payload) @ rest) = payload @ rest)"
proof -
  have fits: "frame_fits (frame_new kind cid payload)" if "length payload \<le> MAX_PAYLOAD_LEN"
    using that by (simp add: frame_fits_def frame_new_def)
  show ?thesis
    using encode_frame_fits [OF fits, of buf] decode_header_frame_bytes [OF fits, of rest]
    by (auto simp: encode_frame_def frame_new_def length_frame_bytes frame_bytes_def HEADER_LEN_def
        max_payload_u32)
qed

theorem frame_roundtrip_witness:
  "length ([1, 2] :: bytes) \<le> MAX_PAYLOAD_LEN
   \<and> decode_header (frame_bytes (frame_new FT_Ping 5 [1, 2]) @ []) =
       Ok \<lparr>h_payload_len = of_nat (length ([1, 2] :: bytes)), h_kind = FT_Ping, h_cid = 5\<rparr>"
  using frame_roundtrip [of FT_Ping 5 "[1, 2]" "[]" "[]"] by (simp add: MAX_PAYLOAD_LEN_def)

text \<open>
  A header is accepted only if it is canonical: thirteen bytes are there, they are the
  header that encoding the decoded kind, correlation id and length writes, and the length is
  within the limit.
\<close>
lemma header_canonical:
  assumes "decode_header buf = Ok h"
  shows "HEADER_LEN \<le> length buf \<and> unat (h_payload_len h) \<le> MAX_PAYLOAD_LEN
    \<and> take HEADER_LEN buf = be_bytes 4 (unat (h_payload_len h)) @ [frame_type_code (h_kind h)]
          @ be_bytes 8 (unat (h_cid h))"
  using decode_header_OkD [OF assms] by blast

text \<open>
  The frame type codes and the bytes \<open>from_u8\<close> accepts correspond one to one, and so do the
  codes of the error kinds; an error code the receiver does not know becomes \<open>Internal\<close>.
\<close>
lemma codes_one_to_one:
  "(frame_type_from_u8 v = Some k \<longleftrightarrow> frame_type_code k = v)
   \<and> error_kind_from_u16 (error_kind_as_u16 ek) = ek
   \<and> error_kind_as_u16 (error_kind_from_u16 w) = (if w \<le> 14 then w else 0)"
  using frame_type_from_u8_SomeD [of v k] error_kind_as_from [of w] by auto

section \<open>Messages\<close>

text \<open>
  No byte string makes a decoder of the protocol panic: each of them returns a message or
  an error on every input.
\<close>
lemma decoders_never_panic:
  "hello_req_decode buf \<noteq> Panic \<and> hello_resp_decode buf \<noteq> Panic \<and> produce_fnf_decode buf \<noteq> Panic
   \<and> produce_resp_decode buf \<noteq> Panic \<and> error_resp_decode buf \<noteq> Panic
   \<and> subscribe_req_decode buf \<noteq> Panic \<and> subscribe_resp_decode buf \<noteq> Panic
   \<and> poll_req_decode buf \<noteq> Panic \<and> poll_resp_decode buf \<noteq> Panic \<and> commit_req_decode buf \<noteq> Panic
   \<and> commit_resp_decode buf \<noteq> Panic \<and> unsubscribe_req_decode buf \<noteq> Panic
   \<and> register_cluster_req_decode buf \<noteq> Panic \<and> register_cluster_resp_decode buf \<noteq> Panic
   \<and> seek_req_decode buf \<noteq> Panic \<and> seek_resp_decode buf \<noteq> Panic
   \<and> pause_resume_req_decode buf \<noteq> Panic \<and> pause_resume_resp_decode buf \<noteq> Panic
   \<and> poll_rebalance_req_decode buf \<noteq> Panic \<and> poll_rebalance_resp_decode buf \<noteq> Panic
   \<and> txn_req_decode buf \<noteq> Panic \<and> txn_resp_decode buf \<noteq> Panic
   \<and> send_offsets_req_decode buf \<noteq> Panic \<and> send_offsets_resp_decode buf \<noteq> Panic
   \<and> set_oauth_req_decode buf \<noteq> Panic \<and> set_oauth_resp_decode buf \<noteq> Panic"
  unfolding hello_req_decode_def hello_resp_decode_def produce_fnf_decode_def produce_resp_decode_def
    error_resp_decode_def subscribe_req_decode_def subscribe_resp_decode_def poll_req_decode_def
    poll_resp_decode_def commit_req_decode_def commit_resp_decode_def unsubscribe_req_decode_def
    register_cluster_req_decode_def register_cluster_resp_decode_def seek_req_decode_def
    seek_resp_decode_def pause_resume_req_decode_def pause_resume_resp_decode_def
    poll_rebalance_req_decode_def poll_rebalance_resp_decode_def txn_req_decode_def
    txn_resp_decode_def send_offsets_req_decode_def send_offsets_resp_decode_def
    set_oauth_req_decode_def set_oauth_resp_decode_def
  by (intro conjI hello_req.decode_total hello_resp.decode_total produce_fnf.decode_total
      produce_resp.decode_total error_resp.decode_total subscribe_req.decode_total
      subscribe_resp.decode_total poll_req.decode_total poll_resp.decode_total
      commit_req.decode_total status.decode_total unsubscribe_req.decode_total
      register_cluster_req.decode_total seek_req.decode_total pause_resume_req.decode_total
      poll_rebalance_req.decode_total poll_rebalance_resp.decode_total txn_req.decode_total
      send_offsets_req.decode_total set_oauth_req.decode_total)

text \<open>
  C31: A produce message whose fields fit the format is encoded without error, and decoding what
  was written gives the message back, whatever follows it in the buffer.
\<close>
theorem produce_roundtrip:
  assumes "produce_fnf_ok m"
  shows "snd (produce_fnf_encode m) = Ok () \<and> produce_fnf_decode (fst (produce_fnf_encode m) @ r) = Ok m"
  unfolding produce_fnf_decode_def using assms by (rule produce_fnf.roundtrip)

definition demo_produce :: produce_fnf where
  "demo_produce =
     \<lparr>pf_cluster = ''c'', pf_topic = ''t'', pf_key = [1], pf_value = [2, 3], pf_partition = 4,
      pf_timestamp_ms = AUTO_TIMESTAMP, pf_headers = [(''h'', [5])]\<rparr>"

lemma demo_produce_ok: "produce_fnf_ok demo_produce"
  by (simp add: produce_fnf_ok_def demo_produce_def str16_ok_def bytes32_ok_def headers_ok_def
      list32_ok_def header_ok_def ascii_valid_str)

theorem produce_roundtrip_witness:
  "produce_fnf_ok demo_produce
   \<and> produce_fnf_decode (fst (produce_fnf_encode demo_produce) @ [9]) = Ok demo_produce"
  using demo_produce_ok produce_roundtrip [OF demo_produce_ok, of "[9]"] by blast

text \<open>
  The encoder of produce messages accepts exactly the messages whose fields fit: strings up
  to \<open>u16::MAX\<close> bytes, byte strings and header counts up to \<open>u32::MAX\<close>. On any other message of
  the type it returns an error.
\<close>
lemma produce_encode_exact:
  assumes "produce_fnf_typed m"
  shows "(snd (produce_fnf_encode m) = Ok () \<longleftrightarrow> produce_fnf_ok m)
    \<and> (\<not> produce_fnf_ok m \<longrightarrow> (\<exists>e. snd (produce_fnf_encode m) = Err e))"
  using produce_fnf.encode_fits [OF assms] produce_fnf.oversize_rejected [OF assms]
  by (auto simp: succeeds_def)

text \<open>
  A produce message that is cut off anywhere is recognised as truncated: decoding a proper
  prefix of an encoded message gives \<open>Truncated\<close>, never a message and never another error.
\<close>
lemma produce_truncation:
  assumes "produce_fnf_ok m" and "fst (produce_fnf_encode m) = p @ q" and "q \<noteq> []"
  shows "produce_fnf_decode p = Err Truncated"
  unfolding produce_fnf_decode_def using assms by (rule produce_fnf.prefix_truncated)

text \<open>
  Whatever a decoder of a poll response accepts fits the format and decodes to itself when
  it is encoded again; and an encoded response round-trips.
\<close>
lemma poll_resp_reencode:
  assumes "poll_resp_decode buf = Ok m"
  shows "poll_resp_ok m \<and> snd (poll_resp_encode m) = Ok ()
    \<and> poll_resp_decode (fst (poll_resp_encode m) @ r) = Ok m"
  using poll_resp.decode_wf [of buf m] poll_resp.roundtrip [of m r] assms
  by (simp add: poll_resp_decode_def)

text \<open>
  Seek requests of both forms, rebalance responses, offset commits of a transaction, token
  pushes and subscriptions round-trip whenever their fields fit the format.
\<close>
lemma control_messages_roundtrip:
  "(seek_req_ok sk \<longrightarrow> seek_req_decode (fst (seek_req_encode sk) @ r) = Ok sk)
   \<and> (poll_rebalance_resp_ok pr \<longrightarrow>
        poll_rebalance_resp_decode (fst (poll_rebalance_resp_encode pr) @ r) = Ok pr)
   \<and> (send_offsets_req_ok so \<longrightarrow> send_offsets_req_decode (fst (send_offsets_req_encode so) @ r) = Ok so)
   \<and> (set_oauth_req_ok oa \<longrightarrow> set_oauth_req_decode (fst (set_oauth_req_encode oa) @ r) = Ok oa)
   \<and> (subscribe_req_ok sr \<longrightarrow> subscribe_req_decode (fst (subscribe_req_encode sr) @ r) = Ok sr)"
  unfolding seek_req_decode_def poll_rebalance_resp_decode_def send_offsets_req_decode_def
    set_oauth_req_decode_def subscribe_req_decode_def
  using seek_req.roundtrip poll_rebalance_resp.roundtrip send_offsets_req.roundtrip
    set_oauth_req.roundtrip subscribe_req.roundtrip by blast

section \<open>Requests\<close>

text \<open>
  The payloads that the worker decodes, by the kind of their frame, with the decoder and the
  encoder of each.
\<close>

datatype request =
    RqHello hello_req
  | RqProduce produce_fnf
  | RqSubscribe subscribe_req
  | RqPoll poll_req
  | RqCommit commit_req
  | RqUnsubscribe unsubscribe_req
  | RqRegister register_cluster_req
  | RqSeek seek_req
  | RqPauseResume pause_resume_req
  | RqRebalance poll_rebalance_req
  | RqTxn txn_req
  | RqSendOffsets send_offsets_req
  | RqToken set_oauth_req

fun decode_request :: "frame_type \<Rightarrow> bytes \<Rightarrow> (payload_error, request) outcome option" where
  "decode_request FT_Hello p = Some (map_ok RqHello (hello_req_decode p))"
| "decode_request FT_ProduceFnf p = Some (map_ok RqProduce (produce_fnf_decode p))"
| "decode_request FT_ProduceReq p = Some (map_ok RqProduce (produce_fnf_decode p))"
| "decode_request FT_SubscribeReq p = Some (map_ok RqSubscribe (subscribe_req_decode p))"
| "decode_request FT_PollReq p = Some (map_ok RqPoll (poll_req_decode p))"
| "decode_request FT_CommitReq p = Some (map_ok RqCommit (commit_req_decode p))"
| "decode_request FT_Unsubscribe p = Some (map_ok RqUnsubscribe (unsubscribe_req_decode p))"
| "decode_request FT_RegisterClusterReq p = Some (map_ok RqRegister (register_cluster_req_decode p))"
| "decode_request FT_SeekReq p = Some (map_ok RqSeek (seek_req_decode p))"
| "decode_request FT_PauseResumeReq p = Some (map_ok RqPauseResume (pause_resume_req_decode p))"
| "decode_request FT_PollRebalanceReq p = Some (map_ok RqRebalance (poll_rebalance_req_decode p))"
| "decode_request FT_TxnReq p = Some (map_ok RqTxn (txn_req_decode p))"
| "decode_request FT_SendOffsetsReq p = Some (map_ok RqSendOffsets (send_offsets_req_decode p))"
| "decode_request FT_SetOAuthBearerTokenReq p = Some (map_ok RqToken (set_oauth_req_decode p))"
| "decode_request _ p = None"

fun encode_request :: "request \<Rightarrow> writer" where
  "encode_request (RqHello m) = hello_req_encode m"
| "encode_request (RqProduce m) = produce_fnf_encode m"
| "encode_request (RqSubscribe m) = subscribe_req_encode m"
| "encode_request (RqPoll m) = poll_req_encode m"
| "encode_request (RqCommit m) = commit_req_encode m"
| "encode_request (RqUnsubscribe m) = unsubscribe_req_encode m"
| "encode_request (RqRegister m) = register_cluster_req_encode m"
| "encode_request (RqSeek m) = seek_req_encode m"
| "encode_request (RqPauseResume m) = pause_resume_req_encode m"
| "encode_request (RqRebalance m) = poll_rebalance_req_encode m"
| "encode_request (RqTxn m) = txn_req_encode m"
| "encode_request (RqSendOffsets m) = send_offsets_req_encode m"
| "encode_request (RqToken m) = set_oauth_req_encode m"

lemmas request_decoders = hello_req_decode_def produce_fnf_decode_def subscribe_req_decode_def poll_req_decode_def
  commit_req_decode_def unsubscribe_req_decode_def register_cluster_req_decode_def seek_req_decode_def
  pause_resume_req_decode_def poll_rebalance_req_decode_def txn_req_decode_def send_offsets_req_decode_def
  set_oauth_req_decode_def

lemmas request_roundtrips =
  hello_req.roundtrip [OF hello_req.decode_wf] produce_fnf.roundtrip [OF produce_fnf.decode_wf]
  subscribe_req.roundtrip [OF subscribe_req.decode_wf] poll_req.roundtrip [OF poll_req.decode_wf]
  commit_req.roundtrip [OF commit_req.decode_wf] unsubscribe_req.roundtrip [OF unsubscribe_req.decode_wf]
  register_cluster_req.roundtrip [OF register_cluster_req.decode_wf] seek_req.roundtrip [OF seek_req.decode_wf]
  pause_resume_req.roundtrip [OF pause_resume_req.decode_wf] poll_rebalance_req.roundtrip [OF poll_rebalance_req.decode_wf]
  txn_req.roundtrip [OF txn_req.decode_wf] send_offsets_req.roundtrip [OF send_offsets_req.decode_wf]
  set_oauth_req.roundtrip [OF set_oauth_req.decode_wf]

text \<open>
  C32: Whatever bytes a client sends, a request that the worker accepts is well typed: it can be
  encoded again (its strings are valid and, like its lists, fit their length fields), and its
  encoding, whatever follows it, is accepted as the same request.
\<close>
theorem accepted_request_well_typed:
  assumes "decode_request kind buf = Some (Ok m)"
  shows "snd (encode_request m) = Ok () \<and> decode_request kind (fst (encode_request m) @ r) = Some (Ok m)"
  using assms
  by (cases kind) (auto simp: request_decoders dest: request_roundtrips)

theorem accepted_request_well_typed_witness:
  "decode_request FT_SeekReq (fst (encode_request (RqSeek (ByTimestamp 1 2 [(''t'', 3)]))) @ [9]) = Some (Ok (RqSeek (ByTimestamp 1 2 [(''t'', 3)])))"
proof -
  have "seek_req_ok (ByTimestamp 1 2 [(''t'', 3)])"
    by (simp add: seek_req_ok_def list32_ok_def topic_ok_def str16_ok_def ascii_valid_str)
  then have "decode_request FT_SeekReq (fst (seek_req_encode (ByTimestamp 1 2 [(''t'', 3)]))) = Some (Ok (RqSeek (ByTimestamp 1 2 [(''t'', 3)])))"
    using seek_req.roundtrip [of "ByTimestamp 1 2 [(''t'', 3)]" "[]"] by (simp add: seek_req_decode_def)
  from accepted_request_well_typed [OF this, of "[9]"] show ?thesis by simp
qed

end
