(* ===== verification/End_To_End.thy ===== *)
theory End_To_End
  imports Ext_Restart Ext_Worker Proto_Laws
begin

text \<open>
  A PHP program and the worker together: what a call of the class \<open>Client\<close> returns when the sockets of
  the extension lead to the worker (\<open>link_os\<close>), through the pool, the IPC client, the virtual
  subscriptions, \<open>handle_connection\<close> and the back end, and back.
\<close>

section \<open>Lost subscriptions\<close>

lemma not_found_resp:
  "str16_ok (er_message (consumer_err_to_resp (NotFound i)))"
  "er_kind (consumer_err_to_resp (NotFound i)) = SubscriptionNotFound"
  using length_show_nat_u64 [of i]
  by (simp_all add: consumer_err_to_resp_def error_resp_new_def str16_ok_def ascii_valid_str)

text \<open>The request that a virtual subscription makes again.\<close>

definition resubscription :: "sub_entry \<Rightarrow> subscribe_req" where
  "resubscription e =
     \<lparr>sr_cluster = se_cluster e, sr_group_id = se_group_id e, sr_topics = se_topics e, sr_config = se_config e\<rparr>"

lemma ipc_poll_not_found:
  assumes "link_ready socket st"
    and "co_poll (sv_consumer env) sub mx t (ss_backend (worker_of st)) = (Err (NotFound missing), b)"
  shows "\<exists>err st'. ipc_poll (link_os env start) socket sub mx t st = (Err err, st') \<and> is_subscription_gone err
    \<and> link_ready socket st' \<and> worker_of st' = served b (worker_of st)"
  using ipc_poll_link_error [OF assms refl not_found_resp(1)] not_found_resp(2) [of missing]
  by fastforce

lemma resubscribe_and_poll:
  assumes "link_ready (se_socket e) st"
    and "subscribe_req_ok (resubscription e)"
    and "length (subscribe_req_layout (resubscription e)) \<le> frame_limit FT_SubscribeReq"
    and "co_subscribe (sv_consumer env) (resubscription e) (ss_registry (worker_of st)) (ss_backend (worker_of st)) = (Ok new, b2)"
    and "co_poll (sv_consumer env) new mx t b2 = (Ok msgs, b3)"
    and "poll_resp_ok (PollOk msgs)" and "length (poll_resp_layout (PollOk msgs)) \<le> MAX_PAYLOAD_LEN"
  shows "\<exists>i2 i3. ipc_subscribe (link_os env start) (se_socket e) (se_cluster e) (se_group_id e) (se_topics e)
        (se_config e) 5000 st = (Ok new, i2)
      \<and> ipc_poll (link_os env start) (se_socket e) new mx t i2 = (Ok msgs, i3)
      \<and> link_ready (se_socket e) i3 \<and> ss_backend (worker_of i3) = b3"
proof -
  from ipc_subscribe_link [OF assms(1) resubscription_def assms(2,3,4), where start = start and t = 5000]
  obtain i2 where i2: "ipc_subscribe (link_os env start) (se_socket e) (se_cluster e) (se_group_id e) (se_topics e)
        (se_config e) 5000 st = (Ok new, i2)" "link_ready (se_socket e) i2" "ss_backend (worker_of i2) = b2"
    by auto
  from ipc_poll_link [OF i2(2) _ assms(6,7), where start = start] i2(3) assms(5) obtain i3 where
      "ipc_poll (link_os env start) (se_socket e) new mx t i2 = (Ok msgs, i3)" "link_ready (se_socket e) i3"
      "ss_backend (worker_of i3) = b3"
    by fastforce
  with i2 show ?thesis by blast
qed

lemma client_poll_heals:
  assumes "pv_os pv = link_os env start" and "map_of (sm_registry st) v = Some e"
    and "ipc_poll (link_os env start) (se_socket e) (se_real_id e) (max_as_u32 1 mx) (max_as_u32 0 t) (sm_ipc st) = (Err err, i1)"
    and "is_subscription_gone err" and "link_ready (se_socket e) i1"
    and "subscribe_req_ok (resubscription e)"
    and "length (subscribe_req_layout (resubscription e)) \<le> frame_limit FT_SubscribeReq"
    and "co_subscribe (sv_consumer env) (resubscription e) (ss_registry (worker_of i1)) (ss_backend (worker_of i1)) = (Ok new, b2)"
    and "co_poll (sv_consumer env) new (max_as_u32 1 mx) (max_as_u32 0 t) b2 = (Ok msgs, b3)"
    and "poll_resp_ok (PollOk msgs)" and "length (poll_resp_layout (PollOk msgs)) \<le> MAX_PAYLOAD_LEN"
  shows "\<exists>st'. client_poll pv this v mx t st = (Ok (messages_to_zval msgs), st')
    \<and> map_of (sm_registry st') v = Some (e\<lparr>se_real_id := new\<rparr>)
    \<and> link_ready (se_socket e) (sm_ipc st') \<and> ss_backend (worker_of (sm_ipc st')) = b3
    \<and> us_successes (sm_resub st') = us_successes (sm_resub st) + 1"
proof -
  let ?os = "link_os env start" and ?n = "max_as_u32 1 mx" and ?t = "max_as_u32 0 t"
  from resubscribe_and_poll [OF assms(5-11)] obtain i2 i3 where
      p2: "ipc_subscribe ?os (se_socket e) (se_cluster e) (se_group_id e) (se_topics e) (se_config e) 5000 i1 = (Ok new, i2)"
      "ipc_poll ?os (se_socket e) new ?n ?t i2 = (Ok msgs, i3)"
    and i3: "link_ready (se_socket e) i3" "ss_backend (worker_of i3) = b3"
    by blast
  from with_resubscribe_heals [where op = "\<lambda>e. ipc_poll ?os (se_socket e) (se_real_id e) ?n ?t", OF assms(2-4) p2(1)] p2(2)
  obtain st' where "sub_poll ?os id v ?n ?t st = (Ok msgs, st')"
      "map_of (sm_registry st') v = Some (e\<lparr>se_real_id := new\<rparr>)" "sm_ipc st' = i3"
      "us_successes (sm_resub st') = us_successes (sm_resub st) + 1"
    by (auto simp: sub_poll_def)
  with i3 show ?thesis
    by (auto simp: client_poll_def assms(1) php_sub_def map_err_act_def bind_act_def pure_act_def)
qed

text \<open>
  C5: A subscription that the worker has lost (it was restarted, or the group session ended) heals
  without the PHP program noticing. The first poll is answered with \<open>SubscriptionNotFound\<close>, the
  extension subscribes again with the parameters of the first subscription, polls the new
  subscription and returns its messages; the virtual id now stands for the new subscription, and
  the counter of successful resubscriptions went up.
\<close>
theorem lost_subscription_heals:
  assumes "pv_os pv = link_os env start"
    and "map_of (sm_registry st) v = Some e" and "link_ready (se_socket e) (sm_ipc st)"
    and "s = worker_of (sm_ipc st)"
    and "co_poll (sv_consumer env) (se_real_id e) (max_as_u32 1 mx) (max_as_u32 0 t) (ss_backend s) = (Err (NotFound missing), b1)"
    and "subscribe_req_ok (resubscription e)"
    and "length (subscribe_req_layout (resubscription e)) \<le> frame_limit FT_SubscribeReq"
    and "co_subscribe (sv_consumer env) (resubscription e) (ss_registry s) b1 = (Ok new, b2)"
    and "co_poll (sv_consumer env) new (max_as_u32 1 mx) (max_as_u32 0 t) b2 = (Ok msgs, b3)"
    and "poll_resp_ok (PollOk msgs)" and "length (poll_resp_layout (PollOk msgs)) \<le> MAX_PAYLOAD_LEN"
  shows "\<exists>st'. client_poll pv this v mx t st = (Ok (messages_to_zval msgs), st')
    \<and> map_of (sm_registry st') v = Some (e\<lparr>se_real_id := new\<rparr>)
    \<and> link_ready (se_socket e) (sm_ipc st') \<and> ss_backend (worker_of (sm_ipc st')) = b3
    \<and> us_successes (sm_resub st') = us_successes (sm_resub st) + 1"
proof -
  from ipc_poll_not_found [OF assms(3)] assms(4,5) obtain err i1 where
      p1: "ipc_poll (link_os env start) (se_socket e) (se_real_id e) (max_as_u32 1 mx) (max_as_u32 0 t) (sm_ipc st) = (Err err, i1)"
      "is_subscription_gone err" and i1: "link_ready (se_socket e) i1" "worker_of i1 = served b1 s"
    by blast
  have "co_subscribe (sv_consumer env) (resubscription e) (ss_registry (worker_of i1)) (ss_backend (worker_of i1)) = (Ok new, b2)"
    using assms(8) i1(2) by (simp add: upd_metrics_def)
  from client_poll_heals [OF assms(1,2) p1 i1(1) assms(6,7) this assms(9-11)] show ?thesis .
qed

text \<open>For concrete runs: a client with one idle connection to a worker in a given state.\<close>

definition linked :: "'s server_state \<Rightarrow> (nat, 's link) ipc_state" where
  "linked s =
     (ipc_init \<lparr>ln_server = s, ln_conns = (\<lambda>c. if c = 0 then Some \<lparr>lc_hello = True, lc_open = True, lc_out = []\<rparr> else None),
                ln_next = 1, ln_up = True, ln_clock = 0\<rparr>)
     \<lparr>ic_pools := [(''k'', (pool_new 16)\<lparr>pl_idle := [0]\<rparr>)], ic_alive := [(''k'', ())]\<rparr>"

lemma linked_ready: "link_ready ''k'' (linked s)"
  and linked_worker: "worker_of (linked s) = s"
  by (simp_all add: linked_def peer_ready_def cached_def ipc_init_def pool_new_def link_live_def link_pending_def)

definition linked_php :: "('m, 's) server_env \<Rightarrow> (child_config \<Rightarrow> 's server_state) \<Rightarrow> (nat, 's link) php_env" where
  "linked_php env start = \<lparr>pv_os = link_os env start, pv_registered = True, pv_function_exists = (\<lambda>_. False)\<rparr>"

lemma linked_php_os: "pv_os (linked_php env start) = link_os env start" "pv_registered (linked_php env start)"
  by (simp_all add: linked_php_def)

text \<open>A worker that has lost subscription 99, and a PHP process that holds it under virtual id 7.\<close>

definition forgetful_env :: "(unit, logging_consumer_state) server_env" where
  "forgetful_env = demo_env\<lparr>sv_consumer := logging_consumer
     \<lparr>co_poll := (\<lambda>sub mx t s. if sub = 99 then (Err (NotFound sub), s) else logging_poll sub mx t s)\<rparr>\<rparr>"

definition demo_entry :: sub_entry where
  "demo_entry =
     \<lparr>se_socket = ''k'', se_cluster = ''c'', se_group_id = ''g'', se_topics = [''t''], se_config = [], se_real_id = 99\<rparr>"

definition demo_subs :: "(nat, logging_consumer_state link) subs_state" where
  "demo_subs =
     (let i = linked (demo_state\<lparr>ss_backend := logging_inject [demo_msg 2] logging_consumer_new\<rparr>) in
      (sub_init (ic_world i))\<lparr>sm_ipc := i, sm_registry := [(7, demo_entry)]\<rparr>)"

lemma demo_resubscription:
  "subscribe_req_ok (resubscription demo_entry)"
  "length (subscribe_req_layout (resubscription demo_entry)) \<le> frame_limit FT_SubscribeReq"
  by (simp_all add: resubscription_def demo_entry_def subscribe_req_ok_def str16_ok_def list16_ok_def ascii_valid_str
      subscribe_req_layout_def lay_str16_def lay_list16_def frame_limit_def)

lemma demo_batch:
  "poll_resp_ok (PollOk [demo_msg 2])" "length (poll_resp_layout (PollOk [demo_msg 2])) \<le> MAX_PAYLOAD_LEN"
  by (simp_all add: poll_resp_ok_def list32_ok_def consumer_message_ok_def demo_msg_def str16_ok_def bytes32_ok_def
        headers_ok_def ascii_valid_str poll_resp_layout_def consumer_message_layout_def lay_list32_def
        headers_layout_def lay_str16_def lay_bytes32_def MAX_PAYLOAD_LEN_def)

theorem lost_subscription_heals_witness:
  "\<exists>st'. client_poll (linked_php forgetful_env (\<lambda>_. demo_state)) \<lparr>cl_socket = ''k''\<rparr> 7 10 0 demo_subs =
      (Ok (messages_to_zval [demo_msg 2]), st')
    \<and> map_of (sm_registry st') 7 = Some (demo_entry\<lparr>se_real_id := 1\<rparr>)"
proof -
  let ?s = "demo_state\<lparr>ss_backend := logging_inject [demo_msg 2] logging_consumer_new\<rparr>"
  have n: "max_as_u32 1 10 = 10" by (simp add: max_as_u32_def)
  have "\<exists>st'. client_poll (linked_php forgetful_env (\<lambda>_. demo_state)) \<lparr>cl_socket = ''k''\<rparr> 7 10 0 demo_subs =
      (Ok (messages_to_zval [demo_msg 2]), st')
    \<and> map_of (sm_registry st') 7 = Some (demo_entry\<lparr>se_real_id := 1\<rparr>)
    \<and> link_ready (se_socket demo_entry) (sm_ipc st') \<and> ss_backend (worker_of (sm_ipc st')) = logging_consumer_new\<lparr>lc_seq := 2\<rparr>
    \<and> us_successes (sm_resub st') = us_successes (sm_resub demo_subs) + 1"
    using linked_ready [of ?s]
    by (intro lost_subscription_heals [where s = ?s and missing = 99 and ?b1.0 = "ss_backend ?s"
          and ?b2.0 = "(ss_backend ?s)\<lparr>lc_seq := 2\<rparr>", OF linked_php_os(1) _ _ _ _ demo_resubscription _ _ demo_batch])
      (simp_all add: demo_subs_def Let_def demo_entry_def linked_worker forgetful_env_def demo_env_def logging_consumer_def
        logging_subscribe_def logging_poll_def logging_inject_def logging_consumer_new_def subscription_id_next_def n)
  then show ?thesis by blast
qed

text \<open>
  If another thread unsubscribes the virtual id while a poll is about to resubscribe, the poll
  still resubscribes: it returns messages for an id that no longer exists, and the worker keeps a
  subscription that no handle of the process stands for. Neither an unsubscribe nor the shutdown
  of the process gives it back.
\<close>
lemma concurrent_unsubscribe_orphans:
  assumes "map_of (sm_registry st) v = Some e" and "link_ready (se_socket e) (sm_ipc st)"
    and "s = worker_of (sm_ipc st)"
    and "co_poll (sv_consumer env) (se_real_id e) mx t (ss_backend s) = (Err (NotFound missing), b1)"
    and "co_unsubscribe (sv_consumer env) (se_real_id e) b1 = (Ok (), b2)"
    and "subscribe_req_ok (resubscription e)"
    and "length (subscribe_req_layout (resubscription e)) \<le> frame_limit FT_SubscribeReq"
    and "co_subscribe (sv_consumer env) (resubscription e) (ss_registry s) b2 = (Ok new, b3)"
    and "co_poll (sv_consumer env) new mx t b3 = (Ok msgs, b4)"
    and "poll_resp_ok (PollOk msgs)" and "length (poll_resp_layout (PollOk msgs)) \<le> MAX_PAYLOAD_LEN"
    and "new \<notin> (se_real_id \<circ> snd) ` set (sm_registry st)"
  shows "\<exists>st'. sub_poll (link_os env start) (\<lambda>x. snd (sub_unsubscribe (link_os env start) v x)) v mx t st = (Ok msgs, st')
    \<and> ss_backend (worker_of (sm_ipc st')) = b4
    \<and> sub_unsubscribe (link_os env start) v st' = (Ok (), st')
    \<and> new \<notin> set (fst (drain_real_ids_for_socket (se_socket e) st'))"
proof -
  let ?os = "link_os env start" and ?op = "\<lambda>e. ipc_poll (link_os env start) (se_socket e) (se_real_id e) mx t"
  from ipc_poll_not_found [OF assms(2)] assms(3,4) obtain err i1 where
      p1: "?op e (sm_ipc st) = (Err err, i1)" "is_subscription_gone err"
    and i1: "link_ready (se_socket e) i1" "worker_of i1 = served b1 s"
    by blast
  have "co_unsubscribe (sv_consumer env) (se_real_id e) (ss_backend (worker_of i1)) = (Ok (), b2)"
    using assms(5) i1(2) by simp
  from link.ipc_unsubscribe_absorbed [OF link.ready_acquires [OF i1(1)] absorbs_unsubscribe [OF this], where start = start] obtain i2 where
      un: "ipc_unsubscribe ?os (se_socket e) (se_real_id e) i1 = (Ok (), i2)" "link_ready (se_socket e) i2"
      "worker_of i2 = served b2 (worker_of i1)"
    by auto
  define others where "others = (\<lambda>x. snd (sub_unsubscribe ?os v x))"
  define st2 where "st2 = others (st\<lparr>sm_ipc := i1, sm_resub := resub_attempt (sm_resub st)\<rparr>)"
  have st2: "sm_registry st2 = AList.delete v (sm_registry st)" "sm_ipc st2 = i2"
    using assms(1) un(1) by (simp_all add: st2_def others_def sub_unsubscribe_def on_ipc_def)
  have "ss_registry (worker_of i2) = ss_registry s" "ss_backend (worker_of i2) = b2"
    using un(3) i1(2) by (simp_all add: upd_metrics_def)
  with resubscribe_and_poll [OF un(2) assms(6,7) _ assms(9-11)] assms(8) obtain i3 i4 where
      p2: "ipc_subscribe ?os (se_socket e) (se_cluster e) (se_group_id e) (se_topics e) (se_config e) 5000 i2 = (Ok new, i3)"
      "ipc_poll ?os (se_socket e) new mx t i3 = (Ok msgs, i4)" "ss_backend (worker_of i4) = b4"
    by metis
  have "map_of (sm_registry st2) v = None" by (simp add: st2(1))
  from with_resubscribe_orphans [where op = ?op and others = others, OF assms(1) p1 st2_def this p2(1) [folded st2(2)]] st2(1) p2(2) obtain st' where
      st': "with_resubscribe ?os others v ?op st = (Ok msgs, st')" "sm_registry st' = AList.delete v (sm_registry st)" "sm_ipc st' = i4"
    by auto
  have "set (sm_registry st') \<subseteq> set (sm_registry st)"
    unfolding st'(2) by (simp add: AList.delete_eq)
  with assms(12) have "new \<notin> set (fst (drain_real_ids_for_socket (se_socket e) st'))"
    by (auto simp: drain_real_ids_for_socket_def)
  moreover have "sub_unsubscribe ?os v st' = (Ok (), st')" by (simp add: sub_unsubscribe_def st'(2))
  ultimately show ?thesis using st'(1,3) p2(3) unfolding sub_poll_def others_def by auto
qed

section \<open>Producing\<close>

text \<open>The message that the arguments of \<open>produceSyncBin\<close> stand for.\<close>

definition php_message ::
  "string \<Rightarrow> string \<Rightarrow> bytes \<Rightarrow> bytes \<Rightarrow> string list \<Rightarrow> bytes list \<Rightarrow> i64 option \<Rightarrow> i64 option \<Rightarrow> produce_fnf" where
  "php_message cluster topic key val names vals part ts =
     \<lparr>pf_cluster = cluster, pf_topic = topic, pf_key = key, pf_value = val,
      pf_partition = (case part of Some p \<Rightarrow> clamp_i32 p | None \<Rightarrow> -1),
      pf_timestamp_ms = (case ts of Some t \<Rightarrow> t | None \<Rightarrow> -1), pf_headers = zip names vals\<rparr>"

lemma client_produce_unfold:
  assumes "length names = length vals"
  shows "client_produce_sync_bin pv this cluster topic key val names vals part ts tmo st =
    (case ipc_produce_sync_bin (pv_os pv) (cl_socket this) cluster topic key val (bin_options (zip names vals) part ts)
            (php_timeout 5000 tmo) (sm_ipc st) of
       (r, i) \<Rightarrow> (map_ok resp_to_zval (map_err (ipc_err_to_php pv) r), st\<lparr>sm_ipc := i\<rparr>))"
  using assms
  by (auto simp: client_produce_sync_bin_def build_binary_headers_def plain_def bind_pure_act php_ipc_def
      map_err_act_def on_ipc_def bind_act_def pure_act_def split: prod.split outcome.split)

text \<open>
  C15: A message produced from PHP reaches the producer of the worker with exactly the bytes, the
  headers (in order, duplicates included), the partition and the timestamp that were given, and
  the answer of the producer is the array that the method returns.
\<close>
theorem php_produce_reaches_producer:
  assumes "pv_os pv = link_os env start" and "link_ready (cl_socket this) (sm_ipc st)"
    and "length names = length vals" and "msg = php_message cluster topic key val names vals part ts"
    and "produce_fnf_ok msg" and "length (produce_fnf_layout msg) \<le> frame_limit FT_ProduceReq"
    and "s = worker_of (sm_ipc st)" and "\<not> is_draining (ss_shutdown s)"
    and "po_produce_ack (sv_producer env) msg (ss_registry s) (ss_backend s) = (Ok resp, b)" and "produce_resp_ok resp"
  shows "\<exists>st'. client_produce_sync_bin pv this cluster topic key val names vals part ts tmo st = (Ok (resp_to_zval resp), st')
    \<and> link_ready (cl_socket this) (sm_ipc st') \<and> ss_backend (worker_of (sm_ipc st')) = b"
proof -
  let ?opts = "bin_options (zip names vals) part ts"
  have m: "msg = \<lparr>pf_cluster = cluster, pf_topic = topic, pf_key = key, pf_value = val,
      pf_partition = op_partition ?opts, pf_timestamp_ms = op_timestamp_ms ?opts, pf_headers = op_headers ?opts\<rparr>"
    by (simp add: assms(4) php_message_def bin_options_def)
  have len: "length (produce_fnf_layout msg) \<le> MAX_PAYLOAD_LEN" using assms(6) frame_limit_max by (rule le_trans)
  from serves_produce [OF assms(5,6,8,9,10)] obtain s' where
      serve: "link_serves env (frame_new FT_ProduceReq (ic_next_cid (sm_ipc st)) (produce_fnf_layout msg)) s
        (frame_new FT_ProduceResp (ic_next_cid (sm_ipc st)) (produce_resp_layout resp)) s'" and b: "ss_backend s' = b"
    by blast
  have "produce_resp_decode (produce_resp_layout resp) = Ok resp"
    using produce_resp.read_layout [OF assms(10), of "[]"] by (simp add: produce_resp_decode_def run_def)
  with link.produce_sync_answer [OF link.ready_acquires [OF assms(2)] produce_payload_encoded(1) [OF m assms(5)] len serve [unfolded assms(7)],
      where start = start and t = "php_timeout 5000 tmo"]
  obtain i where "ipc_produce_sync_bin (link_os env start) (cl_socket this) cluster topic key val ?opts
        (php_timeout 5000 tmo) (sm_ipc st) = (Ok resp, i)" "link_ready (cl_socket this) i" "worker_of i = s'"
    using produce_resp_layout_length [OF assms(10)] by (auto simp: frame_fits_def answer_of_def decoded_def)
  with b show ?thesis by (simp add: client_produce_unfold [OF assms(3)] assms(1))
qed

lemma demo_php_message: "php_message ''c'' ''t'' [1] [2, 3] [''h''] [[5]] (Some 4) None = demo_produce"
  by (simp add: php_message_def demo_produce_def clamp_i32_def AUTO_TIMESTAMP_def)

lemma demo_produce_short: "length (produce_fnf_layout demo_produce) \<le> frame_limit FT_ProduceReq"
  by (simp add: produce_fnf_layout_def demo_produce_def lay_str16_def lay_bytes32_def headers_layout_def
        lay_list32_def header_layout_def frame_limit_def)

definition linked_client :: "(nat, logging_consumer_state link) subs_state" where
  "linked_client = (let i = linked demo_state in (sub_init (ic_world i))\<lparr>sm_ipc := i\<rparr>)"

lemma linked_client_ipc: "sm_ipc linked_client = linked demo_state"
  by (simp add: linked_client_def Let_def)

theorem php_produce_reaches_producer_witness:
  "\<exists>st'. client_produce_sync_bin (linked_php demo_env (\<lambda>_. demo_state)) \<lparr>cl_socket = ''k''\<rparr> ''c'' ''t'' [1] [2, 3]
      [''h''] [[5]] (Some 4) None None linked_client =
    (Ok (resp_to_zval (ProduceOk \<lparr>da_partition = 0, da_offset = - 1\<rparr>)), st')"
proof -
  have "\<exists>st'. client_produce_sync_bin (linked_php demo_env (\<lambda>_. demo_state)) \<lparr>cl_socket = ''k''\<rparr> ''c'' ''t'' [1] [2, 3]
      [''h''] [[5]] (Some 4) None None linked_client =
    (Ok (resp_to_zval (ProduceOk \<lparr>da_partition = 0, da_offset = - 1\<rparr>)), st')
    \<and> link_ready (cl_socket \<lparr>cl_socket = ''k''\<rparr>) (sm_ipc st') \<and> ss_backend (worker_of (sm_ipc st')) = logging_consumer_new"
    by (intro php_produce_reaches_producer [OF linked_php_os(1), where msg = demo_produce and s = demo_state])
      (simp_all add: linked_client_ipc linked_ready linked_worker demo_php_message demo_produce_ok demo_produce_short
        demo_state_def shutdown_new_def is_draining_def demo_env_def logging_producer_def logging_produce_ack_def produce_resp_ok_def)
  then show ?thesis by blast
qed

text \<open>
  C16: When the producer fails with a structured error, however deep in its chain of contexts, the
  PHP program gets a \<open>KafkaException\<close> with exactly its message, kind, retryable flag and native code,
  and the call is not repeated.
\<close>
theorem php_produce_error_is_structured:
  assumes "pv_os pv = link_os env start" and "pv_registered pv" and "link_ready (cl_socket this) (sm_ipc st)"
    and "length names = length vals" and "msg = php_message cluster topic key val names vals part ts"
    and "produce_fnf_ok msg" and "length (produce_fnf_layout msg) \<le> frame_limit FT_ProduceReq"
    and "s = worker_of (sm_ipc st)" and "\<not> is_draining (ss_shutdown s)"
    and "po_produce_ack (sv_producer env) msg (ss_registry s) (ss_backend s)
           = (Err (map CMsg ctx @ CWorker e # rest), b)" and "str16_ok (we_message e)"
  shows "\<exists>st'. client_produce_sync_bin pv this cluster topic key val names vals part ts tmo st =
      (Err (KafkaException (we_message e) (ucast (error_kind_as_u16 (we_kind e))) (error_kind_as_str (we_kind e))
              (we_retryable e) (scast (we_native_code e))), st')
    \<and> link_ready (cl_socket this) (sm_ipc st') \<and> ss_backend (worker_of (sm_ipc st')) = b"
proof -
  let ?opts = "bin_options (zip names vals) part ts"
  have m: "msg = \<lparr>pf_cluster = cluster, pf_topic = topic, pf_key = key, pf_value = val,
      pf_partition = op_partition ?opts, pf_timestamp_ms = op_timestamp_ms ?opts, pf_headers = op_headers ?opts\<rparr>"
    by (simp add: assms(5) php_message_def bin_options_def)
  have len: "length (produce_fnf_layout msg) \<le> MAX_PAYLOAD_LEN" using assms(7) frame_limit_max by (rule le_trans)
  let ?er = "to_error_resp e"
  have er: "from_anyhow (map CMsg ctx @ CWorker e # rest) = ?er" by (rule from_anyhow_worker)
  have ok: "str16_ok (er_message ?er)" using assms(11) by (simp add: to_error_resp_def)
  from serves_produce_error [OF assms(6,7,9,10)] er ok obtain s' where
      serve: "link_serves env (frame_new FT_ProduceReq (ic_next_cid (sm_ipc st)) (produce_fnf_layout msg)) s
        (frame_new FT_Error (ic_next_cid (sm_ipc st)) (error_resp_layout ?er)) s'" and b: "ss_backend s' = b"
    by metis
  from link.produce_sync_answer [OF link.ready_acquires [OF assms(3)] produce_payload_encoded(1) [OF m assms(6)] len serve [unfolded assms(8)],
      where start = start and t = "php_timeout 5000 tmo"]
  obtain i where "ipc_produce_sync_bin (link_os env start) (cl_socket this) cluster topic key val ?opts
        (php_timeout 5000 tmo) (sm_ipc st) = (Err (WorkerFailed (we_kind e) (we_retryable e) (we_native_code e) (we_message e)), i)"
      "link_ready (cl_socket this) i" "worker_of i = s'"
    using error_layout_length [OF ok] answer_of_error [OF ok] by (auto simp: frame_fits_def to_error_resp_def)
  with b show ?thesis
    by (simp add: client_produce_unfold [OF assms(4)] assms(1) ipc_err_to_php_def build_zval_def assms(2))
qed

definition demo_failing_env :: "(unit, logging_consumer_state) server_env" where
  "demo_failing_env = demo_env\<lparr>sv_producer := logging_producer
     \<lparr>po_produce_ack := (\<lambda>msg reg s. (Err [CMsg ''send'', CWorker (worker_error_new Timeout ''slow'')], s))\<rparr>\<rparr>"

theorem php_produce_error_is_structured_witness:
  "\<exists>st'. client_produce_sync_bin (linked_php demo_failing_env (\<lambda>_. demo_state)) \<lparr>cl_socket = ''k''\<rparr> ''c'' ''t'' [1] [2, 3]
      [''h''] [[5]] (Some 4) None None linked_client =
    (Err (KafkaException ''slow'' 2 ''TIMEOUT'' True 0), st')"
proof -
  let ?e = "worker_error_new Timeout ''slow''"
  have "\<exists>st'. client_produce_sync_bin (linked_php demo_failing_env (\<lambda>_. demo_state)) \<lparr>cl_socket = ''k''\<rparr> ''c'' ''t'' [1] [2, 3]
      [''h''] [[5]] (Some 4) None None linked_client =
    (Err (KafkaException (we_message ?e) (ucast (error_kind_as_u16 (we_kind ?e))) (error_kind_as_str (we_kind ?e))
              (we_retryable ?e) (scast (we_native_code ?e))), st')
    \<and> link_ready (cl_socket \<lparr>cl_socket = ''k''\<rparr>) (sm_ipc st') \<and> ss_backend (worker_of (sm_ipc st')) = logging_consumer_new"
    by (intro php_produce_error_is_structured [OF linked_php_os, where msg = demo_produce and s = demo_state and ctx = "[''send'']" and rest = "[]"])
      (simp_all add: linked_client_ipc linked_ready linked_worker demo_php_message demo_produce_ok demo_produce_short
        demo_state_def shutdown_new_def is_draining_def demo_env_def demo_failing_env_def worker_error_new_def str16_ok_def ascii_valid_str)
  then show ?thesis by (auto simp: worker_error_new_def default_retryable_def)
qed

section \<open>A worker that died\<close>

text \<open>
  C1: A worker that died unnoticed does not make a produce call fail. The pooled connections turn
  out to be dead, the extension starts a worker, registers the clusters and tokens of the process
  with it again, and repeats the call; the message reaches the producer of the new worker, whose
  registry holds every cluster that was registered before. The retry is counted.
\<close>
theorem produce_survives_worker_death:
  assumes "pv_os pv = link_os env start" and "link_down (cl_socket this) es (sm_ipc st)"
    and "length names = length vals" and "msg = php_message cluster topic key val names vals part ts"
    and "produce_fnf_ok msg" and "length (produce_fnf_layout msg) \<le> frame_limit FT_ProduceReq"
    and "s0 = start (link_child env start (cl_socket this))" and "\<not> is_draining (ss_shutdown s0)"
    and "po_produce_ack (sv_producer env) msg (fold replay_one es (ss_registry s0)) (ss_backend s0) = (Ok resp, b)"
    and "produce_resp_ok resp"
  shows "\<exists>st'. client_produce_sync_bin pv this cluster topic key val names vals part ts tmo st = (Ok (resp_to_zval resp), st')
    \<and> link_ready (cl_socket this) (sm_ipc st') \<and> ss_backend (worker_of (sm_ipc st')) = b
    \<and> rs_attempts (ic_retry (sm_ipc st')) = rs_attempts (ic_retry (sm_ipc st)) + 1"
proof -
  let ?opts = "bin_options (zip names vals) part ts"
  let ?g = "\<lambda>cid. frame_new FT_ProduceResp cid (produce_resp_layout resp)"
  have m: "msg = \<lparr>pf_cluster = cluster, pf_topic = topic, pf_key = key, pf_value = val,
      pf_partition = op_partition ?opts, pf_timestamp_ms = op_timestamp_ms ?opts, pf_headers = op_headers ?opts\<rparr>"
    by (simp add: assms(4) php_message_def bin_options_def)
  have len: "length (produce_fnf_layout msg) \<le> MAX_PAYLOAD_LEN" using assms(6) frame_limit_max by (rule le_trans)
  have serve: "\<exists>s'. link_serves env (frame_new FT_ProduceReq cid (produce_fnf_layout msg)) s (?g cid) s' \<and> ss_backend s' = b"
    if "restarted env start (cl_socket this) es s" for cid s
    using that serves_produce [OF assms(5,6) _ _ assms(10), of s env b cid] assms(7-9)
    by (simp add: restarted_def same_worker_def Let_def)
  have dec: "produce_resp_decode (produce_resp_layout resp) = Ok resp"
    using produce_resp.read_layout [OF assms(10), of "[]"] by (simp add: produce_resp_decode_def run_def)
  have "\<exists>i. with_retry (cl_socket this) (bind_act (round_trip_once (link_os env start) (cl_socket this) FT_ProduceReq FT_ProduceResp
        (produce_fnf_layout msg) (php_timeout 5000 tmo)) (\<lambda>x. pure_act (decoded (produce_resp_decode x)))) (sm_ipc st)
      = (bind_ok (Ok (produce_resp_layout resp)) (\<lambda>x. decoded (produce_resp_decode x)), i)
    \<and> link_ready (cl_socket this) i \<and> ss_backend (worker_of i) = b
    \<and> rs_attempts (ic_retry i) = rs_attempts (ic_retry (sm_ipc st)) + 1"
    by (rule retry_restarts [where g = ?g, OF assms(2) len serve])
      (simp_all add: frame_fits_def produce_resp_layout_length [OF assms(10)] answer_of_def dec decoded_def)
  then show ?thesis
    by (auto simp: client_produce_unfold [OF assms(3)] assms(1) ipc_produce_sync_bin_def
        produce_sync_round_trip [OF produce_payload_encoded(1) [OF m assms(5)]] dec decoded_def)
qed

text \<open>A client whose worker has died, with one cluster to replay.\<close>

definition demo_replay :: replay_entry where
  "demo_replay = \<lparr>re_config = [(''bootstrap.servers'', ''b'')], re_oauth_token = None\<rparr>"

definition orphaned :: "(nat, logging_consumer_state link) ipc_state" where
  "orphaned = (linked demo_state)
     \<lparr>ic_world := (ic_world (linked demo_state))\<lparr>ln_up := False\<rparr>, ic_replay := [(''k'', [(''c'', demo_replay)])]\<rparr>"

lemma orphaned_down: "link_down ''k'' [(''c'', demo_replay)] orphaned"
  by (simp add: link_down_def orphaned_def linked_def cached_def roomy_def pool_new_def replay_snapshot_def replay_for_def
      demo_replay_def hm_collect_def register_req_def register_cluster_req_ok_def list16_ok_def config_entry_ok_def str16_ok_def
      ascii_valid_str register_cluster_req_layout_def lay_str16_def lay_list16_def config_entry_layout_def frame_limit_def)

definition orphaned_client :: "(nat, logging_consumer_state link) subs_state" where
  "orphaned_client = (sub_init (ic_world orphaned))\<lparr>sm_ipc := orphaned, sm_registry := [(7, demo_entry)]\<rparr>"

lemma orphaned_client_sel: "sm_ipc orphaned_client = orphaned" "sm_registry orphaned_client = [(7, demo_entry)]"
  by (simp_all add: orphaned_client_def)

text \<open>The worker that takes its place is in the state in which \<open>run_server\<close> starts.\<close>

definition demo_start :: "child_config \<Rightarrow> logging_consumer_state server_state" where
  "demo_start cfg = startup_state (cf_brokers cfg) logging_consumer_new"

lemma demo_start_state: "demo_start (link_child env start socket) = startup_state None logging_consumer_new"
  by (simp add: demo_start_def link_child_def to_child_config_def spawn_from_env_def link_os_sel)

theorem produce_survives_worker_death_witness:
  "\<exists>st'. client_produce_sync_bin (linked_php demo_env demo_start) \<lparr>cl_socket = ''k''\<rparr> ''c'' ''t'' [1] [2, 3]
      [''h''] [[5]] (Some 4) None None orphaned_client =
    (Ok (resp_to_zval (ProduceOk \<lparr>da_partition = 0, da_offset = - 1\<rparr>)), st')"
proof -
  have "\<exists>st'. client_produce_sync_bin (linked_php demo_env demo_start) \<lparr>cl_socket = ''k''\<rparr> ''c'' ''t'' [1] [2, 3]
      [''h''] [[5]] (Some 4) None None orphaned_client =
    (Ok (resp_to_zval (ProduceOk \<lparr>da_partition = 0, da_offset = - 1\<rparr>)), st')
    \<and> link_ready (cl_socket \<lparr>cl_socket = ''k''\<rparr>) (sm_ipc st') \<and> ss_backend (worker_of (sm_ipc st')) = logging_consumer_new
    \<and> rs_attempts (ic_retry (sm_ipc st')) = rs_attempts (ic_retry (sm_ipc orphaned_client)) + 1"
    by (intro produce_survives_worker_death [OF linked_php_os(1), where msg = demo_produce
          and ?s0.0 = "startup_state None logging_consumer_new" and es = "[(''c'', demo_replay)]"])
      (simp_all add: orphaned_client_sel orphaned_down demo_php_message demo_produce_ok demo_produce_short demo_start_state
        startup_state_def shutdown_new_def is_draining_def demo_env_def logging_producer_def logging_produce_ack_def produce_resp_ok_def)
  then show ?thesis by blast
qed

text \<open>
  C6: Nor does it make a poll fail: the new worker does not know the subscription, the extension
  makes it again under the same virtual id, with the clusters replayed before, and the poll
  returns the messages of the new subscription.
\<close>
theorem subscription_survives_worker_death:
  assumes "pv_os pv = link_os env start"
    and "map_of (sm_registry st) v = Some e" and "link_down (se_socket e) es (sm_ipc st)"
    and "s0 = start (link_child env start (se_socket e))"
    and "co_poll (sv_consumer env) (se_real_id e) (max_as_u32 1 mx) (max_as_u32 0 t) (ss_backend s0) = (Err (NotFound missing), b1)"
    and "subscribe_req_ok (resubscription e)"
    and "length (subscribe_req_layout (resubscription e)) \<le> frame_limit FT_SubscribeReq"
    and "co_subscribe (sv_consumer env) (resubscription e) (fold replay_one es (ss_registry s0)) b1 = (Ok new, b2)"
    and "co_poll (sv_consumer env) new (max_as_u32 1 mx) (max_as_u32 0 t) b2 = (Ok msgs, b3)"
    and "poll_resp_ok (PollOk msgs)" and "length (poll_resp_layout (PollOk msgs)) \<le> MAX_PAYLOAD_LEN"
  shows "\<exists>st'. client_poll pv this v mx t st = (Ok (messages_to_zval msgs), st')
    \<and> map_of (sm_registry st') v = Some (e\<lparr>se_real_id := new\<rparr>)
    \<and> link_ready (se_socket e) (sm_ipc st') \<and> ss_backend (worker_of (sm_ipc st')) = b3
    \<and> us_successes (sm_resub st') = us_successes (sm_resub st) + 1"
proof -
  let ?m = "\<lparr>pq_subscription_id = se_real_id e, pq_max_messages = max_as_u32 1 mx, pq_timeout_ms = max_as_u32 0 t\<rparr>"
  let ?er = "consumer_err_to_resp (NotFound missing)"
  let ?P = "\<lambda>s'. ss_registry s' = fold replay_one es (ss_registry s0) \<and> ss_backend s' = b1"
  have serve: "\<exists>s'. link_serves env (frame_new FT_PollReq cid (poll_req_layout ?m)) s (frame_new FT_Error cid (error_resp_layout ?er)) s' \<and> ?P s'"
    if "restarted env start (se_socket e) es s" for cid s
  proof -
    have s: "ss_registry s = fold replay_one es (ss_registry s0)" "ss_backend s = ss_backend s0"
      using that assms(4) by (simp_all add: restarted_def same_worker_def Let_def)
    then have "link_serves env (frame_new FT_PollReq cid (poll_req_layout ?m)) s (frame_new FT_Error cid (error_resp_layout ?er)) (served b1 s)"
      using assms(5) by (intro serves_poll_error not_found_resp) simp
    then show ?thesis using s by (intro exI [of _ "served b1 s"]) (simp add: upd_metrics_def)
  qed
  have fits: "frame_fits (frame_new FT_Error cid (error_resp_layout ?er))" for cid
    using error_layout_length [OF not_found_resp(1)] by (simp add: frame_fits_def)
  obtain err i1 where
      p1: "ipc_poll (link_os env start) (se_socket e) (se_real_id e) (max_as_u32 1 mx) (max_as_u32 0 t) (sm_ipc st) = (Err err, i1)"
      "is_subscription_gone err" and i1: "link_ready (se_socket e) i1" "?P (worker_of i1)"
    using rpc_restarts [where P = ?P and ek = FT_PollResp and dec = poll_resp_decode and fin = ipc_poll_result
        and t = "unat (max_as_u32 0 t) + 2000", OF assms(3) poll_req_encoded(1) _ serve fits _ _ answer_of_error [OF not_found_resp(1)]]
      not_found_resp(2) [of missing]
    by (fastforce simp: ipc_poll_def poll_req_encoded(2) MAX_PAYLOAD_LEN_def)
  have "co_subscribe (sv_consumer env) (resubscription e) (ss_registry (worker_of i1)) (ss_backend (worker_of i1)) = (Ok new, b2)"
    using assms(8) i1(2) by simp
  from client_poll_heals [OF assms(1,2) p1 i1(1) assms(6,7) this assms(9-11)] show ?thesis .
qed

theorem subscription_survives_worker_death_witness:
  "\<exists>st'. client_poll (linked_php forgetful_env (\<lambda>_. demo_state\<lparr>ss_backend := logging_inject [demo_msg 2] logging_consumer_new\<rparr>))
      \<lparr>cl_socket = ''k''\<rparr> 7 10 0 orphaned_client = (Ok (messages_to_zval [demo_msg 2]), st')
    \<and> map_of (sm_registry st') 7 = Some (demo_entry\<lparr>se_real_id := 1\<rparr>)"
proof -
  let ?s = "demo_state\<lparr>ss_backend := logging_inject [demo_msg 2] logging_consumer_new\<rparr>"
  have n: "max_as_u32 1 10 = 10" by (simp add: max_as_u32_def)
  have "\<exists>st'. client_poll (linked_php forgetful_env (\<lambda>_. ?s)) \<lparr>cl_socket = ''k''\<rparr> 7 10 0 orphaned_client =
      (Ok (messages_to_zval [demo_msg 2]), st')
    \<and> map_of (sm_registry st') 7 = Some (demo_entry\<lparr>se_real_id := 1\<rparr>)
    \<and> link_ready (se_socket demo_entry) (sm_ipc st') \<and> ss_backend (worker_of (sm_ipc st')) = logging_consumer_new\<lparr>lc_seq := 2\<rparr>
    \<and> us_successes (sm_resub st') = us_successes (sm_resub orphaned_client) + 1"
    using orphaned_down
    by (intro subscription_survives_worker_death [where ?s0.0 = ?s and missing = 99 and ?b1.0 = "ss_backend ?s"
          and ?b2.0 = "(ss_backend ?s)\<lparr>lc_seq := 2\<rparr>" and es = "[(''c'', demo_replay)]",
          OF linked_php_os(1) _ _ _ _ demo_resubscription _ _ demo_batch])
      (simp_all add: orphaned_client_sel demo_entry_def forgetful_env_def demo_env_def logging_consumer_def
        logging_subscribe_def logging_poll_def logging_inject_def logging_consumer_new_def subscription_id_next_def n)
  then show ?thesis by blast
qed

section \<open>The end of a PHP process\<close>

text \<open>
  C17: When a PHP process that used one worker ends, the worker gets an unsubscribe for each of its
  subscriptions, first those of virtual ids, then those of coroutine drivers, and then the goodbye
  that lets it exit without waiting for its idle timeout. Its clusters stay registered.
\<close>
theorem shutdown_reaches_worker:
  assumes "collect_sockets st = [socket]" and "ipc = sm_ipc (lf_sub st)" and "ln_up (ic_world ipc)"
    and "\<And>i b. fst (co_unsubscribe (sv_consumer env) i b) \<noteq> Panic"
    and "ids = map (se_real_id \<circ> snd) (filter (\<lambda>(_, e). se_socket e = socket) (sm_registry (lf_sub st)))
           @ sorted_list_of_set (driver_ids socket st)"
    and "s' = worker_of (sm_ipc (lf_sub (on_module_shutdown (link_os env start) st)))"
  shows "ss_expedited s' \<and> ss_backend s' = unsubscribe_all env ids (ss_backend (worker_of ipc))
    \<and> ss_registry s' = ss_registry (worker_of ipc)"
proof -
  define w where "w = fold (os_close (link_os env start)) (idle_of socket ipc) (ic_world ipc)"
  have w: "ln_up w" "ln_server w = worker_of ipc" using assms(3) by (simp_all add: w_def close_all_link)
  have "s' = ln_server (say_goodbye (link_os env start) socket ids w)"
    by (simp add: assms(1,5,6) on_module_shutdown_def cleanup_socket_def Let_def drain_real_ids_for_socket_def
        drain_driver_subs_def driver_ids_def w_def assms(2) [symmetric])
  with say_goodbye_link [OF w(1) assms(4), of start socket ids] w(2) show ?thesis by simp
qed

theorem shutdown_reaches_worker_witness:
  "\<exists>st. st = \<lparr>lf_driver = [(''k'', {5})], lf_sub = demo_subs\<rparr>
     \<and> ss_expedited (worker_of (sm_ipc (lf_sub (on_module_shutdown (link_os demo_env (\<lambda>_. demo_state)) st))))"
proof -
  let ?st = "\<lparr>lf_driver = [(''k'', {5})], lf_sub = demo_subs\<rparr>"
  have "collect_sockets ?st = [''k'']"
    by (simp add: collect_sockets_def ever_ensured_sockets_def driver_subs_sockets_def socket_paths_def known_sockets_def
        demo_subs_def Let_def linked_def ipc_init_def demo_entry_def)
  moreover have "fst (co_unsubscribe (sv_consumer demo_env) i b) \<noteq> Panic" for i b
    by (simp add: demo_env_def logging_consumer_def logging_unsubscribe_def)
  moreover have "ln_up (ic_world (sm_ipc (lf_sub ?st)))"
    by (simp add: demo_subs_def Let_def linked_def ipc_init_def)
  ultimately show ?thesis
    using shutdown_reaches_worker [OF _ refl _ _ refl refl, of ?st "''k''" demo_env "\<lambda>_. demo_state"] by simp
qed

end
