(* ===== verification/Ext_Control.thy ===== *)
theory Ext_Control
  imports End_To_End
begin

text \<open>
  The calls of the extension that are answered with a bare status, from \<open>ext/src/ipc.rs\<close> through the
  link of Ext_Link to the handlers of \<open>worker/src/server.rs\<close> and back: committing, seeking, pausing and
  resuming, transactions and the offsets of a transaction. They share a contract, stated as a
  locale; what the locale proves holds for each of them.
\<close>

section \<open>The contract of a status request\<close>

text \<open>
  A request \<open>q\<close> that is encoded as \<open>lay q\<close>, for which the worker performs \<open>act q\<close> on its registry and back
  end and answers with an empty status or an error frame.
\<close>

definition status_reply ::
  "string \<Rightarrow> frame_type \<Rightarrow> u64 \<Rightarrow> (error_resp, unit) outcome \<times> 's \<Rightarrow> out_stream \<Rightarrow> 's server_state \<Rightarrow> 's handled" where
  "status_reply ctx kind cid rs o1 st =
     (let st' = st\<lparr>ss_backend := snd rs\<rparr> in
      case fst rs of
        Panic \<Rightarrow> (Panic, o1, st')
      | Ok _ \<Rightarrow> reply (send_encoded ctx kind cid (status_resp_encode StatusOk) o1) st'
      | Err er \<Rightarrow> reply (write_error_frame cid er o1) st')"

definition answered_as :: "(error_resp, unit) outcome \<Rightarrow> (ipc_error, unit) outcome" where
  "answered_as r = map_err (\<lambda>er. WorkerFailed (er_kind er) (er_retryable er) (er_native_code er) (er_message er)) r"

locale status_request =
  fixes env :: "('m, 's) server_env" and rk ek :: frame_type and ctx :: string
    and enc :: "'q \<Rightarrow> writer" and lay :: "'q \<Rightarrow> bytes" and fits :: "'q \<Rightarrow> bool"
    and dec :: "bytes \<Rightarrow> (payload_error, status_resp) outcome"
    and act :: "'q \<Rightarrow> cluster_registry \<Rightarrow> 's \<Rightarrow> (error_resp, unit) outcome \<times> 's"
  assumes encodes: "fits q \<Longrightarrow> enc q = (lay q, Ok ())"
    and handled: "fits q \<Longrightarrow> dispatch_inner env rk cid (lay q) o1 st =
      status_reply ctx ek cid (act q (ss_registry st) (ss_backend st)) o1 st"
    and decodes: "dec (status_resp_layout StatusOk) = Ok StatusOk"
    and not_error: "ek \<noteq> FT_Error"
begin

lemma payload: "fits q \<Longrightarrow> encoded (enc q) = Ok (lay q)"
  by (simp add: encodes encoded_def)

lemma serves_ok:
  assumes "fits q" and "length (lay q) \<le> frame_limit rk" and "act q (ss_registry s) (ss_backend s) = (Ok (), b)"
  shows "link_serves env (frame_new rk cid (lay q)) s (frame_new ek cid (status_resp_layout StatusOk)) (served b s)"
  using assms send_encoded_open [OF status_ok_facts(1,2) link_out_open(1)] handled [OF assms(1)]
  by (intro link_servesI)
    (simp_all add: within_limit_def dispatch_def status_reply_def reply_def link_out_open upd_metrics_def)

lemma serves_error:
  assumes "fits q" and "length (lay q) \<le> frame_limit rk" and "act q (ss_registry s) (ss_backend s) = (Err er, b)"
    and "str16_ok (er_message er)"
  shows "link_serves env (frame_new rk cid (lay q)) s (frame_new FT_Error cid (error_resp_layout er)) (served b s)"
  using assms write_error_frame_open [OF assms(4) link_out_open(1)] handled [OF assms(1)]
  by (intro link_servesI)
    (simp_all add: within_limit_def dispatch_def status_reply_def reply_def link_out_open upd_metrics_def)

text \<open>The call returns what the worker's back end returned, and the back end has done it once.\<close>

lemma call_link:
  assumes "link_ready socket st" and "fits q" and "length (lay q) \<le> frame_limit rk"
    and "act q (ss_registry (worker_of st)) (ss_backend (worker_of st)) = (r, b)" and "r \<noteq> Panic"
    and "\<And>er. r = Err er \<Longrightarrow> str16_ok (er_message er)"
  shows "\<exists>st'. rpc (link_os env start) socket rk ek (enc q) dec status_result t st = (answered_as r, st')
    \<and> link_ready socket st' \<and> worker_of st' = served b (worker_of st) \<and> books st' = books st"
proof -
  note acq = link.ready_acquires [OF assms(1)]
  have len: "length (lay q) \<le> MAX_PAYLOAD_LEN" using assms(3) frame_limit_max by (rule le_trans)
  show ?thesis
  proof (cases r)
    case (Ok u)
    let ?g = "frame_new ek (ic_next_cid st) (status_resp_layout StatusOk)"
    have fit: "frame_fits ?g" using status_ok_facts(2) by (simp add: frame_fits_def)
    have serve: "link_serves env (frame_new rk (ic_next_cid st) (lay q)) (worker_of st) ?g (served b (worker_of st))"
      by (rule serves_ok) (use assms(2-4) Ok in simp_all)
    show ?thesis
      using link.rpc_answer [OF acq payload [OF assms(2)] len serve fit, where ek = ek and dec = dec and fin = status_result
          and start = start and t = t] Ok not_error
      by (auto simp: answer_of_def decoded_def decodes answered_as_def)
  next
    case (Err er)
    let ?g = "frame_new FT_Error (ic_next_cid st) (error_resp_layout er)"
    have er: "str16_ok (er_message er)" using assms(6) Err by simp
    have fit: "frame_fits ?g" using error_layout_length [OF er] by (simp add: frame_fits_def)
    have serve: "link_serves env (frame_new rk (ic_next_cid st) (lay q)) (worker_of st) ?g (served b (worker_of st))"
      by (rule serves_error) (use assms(2-4) Err er in simp_all)
    show ?thesis
      using link.rpc_answer [OF acq payload [OF assms(2)] len serve fit, where ek = ek and dec = dec and fin = status_result
          and start = start and t = t] Err answer_of_error [OF er]
      by (auto simp: answered_as_def)
  qed (use assms(5) in simp)
qed

end

section \<open>The requests\<close>

lemma status_decoders:
  "commit_resp_decode (status_resp_layout StatusOk) = Ok StatusOk"
  "seek_resp_decode (status_resp_layout StatusOk) = Ok StatusOk"
  "pause_resume_resp_decode (status_resp_layout StatusOk) = Ok StatusOk"
  "txn_resp_decode (status_resp_layout StatusOk) = Ok StatusOk"
  "send_offsets_resp_decode (status_resp_layout StatusOk) = Ok StatusOk"
proof -
  have ok: "status_resp_ok StatusOk" by (simp add: status_resp_ok_def)
  show "commit_resp_decode (status_resp_layout StatusOk) = Ok StatusOk"
    "seek_resp_decode (status_resp_layout StatusOk) = Ok StatusOk"
    "pause_resume_resp_decode (status_resp_layout StatusOk) = Ok StatusOk"
    "txn_resp_decode (status_resp_layout StatusOk) = Ok StatusOk"
    "send_offsets_resp_decode (status_resp_layout StatusOk) = Ok StatusOk"
    using status.read_layout [OF ok, of _ "[]"]
    by (simp_all add: commit_resp_decode_def seek_resp_decode_def pause_resume_resp_decode_def txn_resp_decode_def
        send_offsets_resp_decode_def run_def)
qed

definition consumer_act :: "(consumer_error, unit) outcome \<times> 's \<Rightarrow> (error_resp, unit) outcome \<times> 's" where
  "consumer_act rs = apfst (map_err consumer_err_to_resp) rs"

definition producer_act :: "(anyhow, unit) outcome \<times> 's \<Rightarrow> (error_resp, unit) outcome \<times> 's" where
  "producer_act rs = apfst (map_err from_anyhow) rs"

lemma status_as_reply:
  "consumer_status ctx kind cid rs o1 st = status_reply ctx kind cid (consumer_act rs) o1 st"
  "producer_status ctx kind cid ps o1 st = status_reply ctx kind cid (producer_act ps) o1 st"
  by (auto simp: consumer_status_def producer_status_def status_reply_def consumer_act_def producer_act_def Let_def
      split: outcome.split)

text \<open>What the worker does for each request.\<close>

definition perform_commit :: "('m, 's) server_env \<Rightarrow> commit_req \<Rightarrow> cluster_registry \<Rightarrow> 's \<Rightarrow> (error_resp, unit) outcome \<times> 's" where
  "perform_commit env q reg b = consumer_act (co_commit (sv_consumer env) (cq_subscription_id q) b)"

definition perform_seek :: "('m, 's) server_env \<Rightarrow> seek_req \<Rightarrow> cluster_registry \<Rightarrow> 's \<Rightarrow> (error_resp, unit) outcome \<times> 's" where
  "perform_seek env q reg b =
     consumer_act
       (case q of
          ByOffset sub targets \<Rightarrow> co_seek_by_offset (sv_consumer env) sub targets b
        | ByTimestamp sub timestamp_ms partitions \<Rightarrow> co_seek_by_timestamp (sv_consumer env) sub timestamp_ms partitions b)"

definition perform_pause_resume ::
  "('m, 's) server_env \<Rightarrow> pause_resume_req \<Rightarrow> cluster_registry \<Rightarrow> 's \<Rightarrow> (error_resp, unit) outcome \<times> 's" where
  "perform_pause_resume env q reg b =
     consumer_act
       ((case pr_op q of Pause \<Rightarrow> co_pause (sv_consumer env) | Resume \<Rightarrow> co_resume (sv_consumer env))
          (pr_subscription_id q) (pr_partitions q) b)"

definition perform_txn :: "('m, 's) server_env \<Rightarrow> txn_req \<Rightarrow> cluster_registry \<Rightarrow> 's \<Rightarrow> (error_resp, unit) outcome \<times> 's" where
  "perform_txn env q reg b =
     producer_act
       ((case tq_op q of
           TxnBegin \<Rightarrow> po_begin_transaction (sv_producer env)
         | TxnCommit \<Rightarrow> po_commit_transaction (sv_producer env)
         | TxnAbort \<Rightarrow> po_abort_transaction (sv_producer env)) (tq_cluster q) reg b)"

text \<open>The metadata of the consumer's group first, then the offsets to the producer.\<close>

definition perform_send_offsets ::
  "('m, 's) server_env \<Rightarrow> send_offsets_req \<Rightarrow> cluster_registry \<Rightarrow> 's \<Rightarrow> (error_resp, unit) outcome \<times> 's" where
  "perform_send_offsets env q reg b =
     (case co_group_metadata (sv_consumer env) (so_subscription_id q) b of
        (Panic, b1) \<Rightarrow> (Panic, b1)
      | (Err e, b1) \<Rightarrow> (Err (consumer_err_to_resp e), b1)
      | (Ok metadata, b1) \<Rightarrow>
          producer_act (po_send_offsets (sv_producer env) (so_producer_cluster q) (so_group_id q) (so_offsets q)
            metadata reg b1))"

interpretation commit_call: status_request env FT_CommitReq FT_CommitResp "''encode commit_resp''" commit_req_encode
  "\<lambda>m. subscription_id_layout (cq_subscription_id m)" "\<lambda>_. True" commit_resp_decode "perform_commit env"
  for env :: "('m, 's) server_env"
proof unfold_locales
  fix q cid o1 st
  have "commit_req_decode (subscription_id_layout (cq_subscription_id q)) = Ok q"
    using commit_req.read_layout [of q "[]"] by (simp add: commit_req_decode_def run_def)
  then show "dispatch_inner env FT_CommitReq cid (subscription_id_layout (cq_subscription_id q)) o1 st =
      status_reply ''encode commit_resp'' FT_CommitResp cid (perform_commit env q (ss_registry st) (ss_backend st)) o1 st"
    by (simp add: dispatch_inner_def handle_commit_def status_as_reply perform_commit_def)
qed (simp_all add: commit_req.encode_layout status_decoders)

interpretation seek_call: status_request env FT_SeekReq FT_SeekResp "''encode seek_resp''" seek_req_encode
  seek_req_layout seek_req_ok seek_resp_decode "perform_seek env"
  for env :: "('m, 's) server_env"
proof unfold_locales
  fix q cid o1 st
  assume "seek_req_ok q"
  then have "seek_req_decode (seek_req_layout q) = Ok q"
    using seek_req.read_layout [of q "[]"] by (simp add: seek_req_decode_def run_def)
  then show "dispatch_inner env FT_SeekReq cid (seek_req_layout q) o1 st =
      status_reply ''encode seek_resp'' FT_SeekResp cid (perform_seek env q (ss_registry st) (ss_backend st)) o1 st"
    by (cases q) (simp_all add: dispatch_inner_def handle_seek_def status_as_reply perform_seek_def Let_def)
qed (simp_all add: seek_req.encode_layout status_decoders)

interpretation pause_call: status_request env FT_PauseResumeReq FT_PauseResumeResp "''encode pause_resume_resp''"
  pause_resume_req_encode pause_resume_req_layout "\<lambda>m. list32_ok topic_ok (pr_partitions m)" pause_resume_resp_decode
  "perform_pause_resume env"
  for env :: "('m, 's) server_env"
proof unfold_locales
  fix q :: pause_resume_req and cid o1 st
  assume "list32_ok topic_ok (pr_partitions q)"
  then have "pause_resume_req_decode (pause_resume_req_layout q) = Ok q"
    using pause_resume_req.read_layout [of q "[]"] by (simp add: pause_resume_req_decode_def run_def)
  then show "dispatch_inner env FT_PauseResumeReq cid (pause_resume_req_layout q) o1 st =
      status_reply ''encode pause_resume_resp'' FT_PauseResumeResp cid
        (perform_pause_resume env q (ss_registry st) (ss_backend st)) o1 st"
    by (cases "pr_op q") (simp_all add: dispatch_inner_def handle_pause_resume_def status_as_reply perform_pause_resume_def)
qed (simp_all add: pause_resume_req.encode_layout status_decoders)

interpretation txn_call: status_request env FT_TxnReq FT_TxnResp "''encode txn_resp''" txn_req_encode txn_req_layout
  "\<lambda>m. str16_ok (tq_cluster m)" txn_resp_decode "perform_txn env"
  for env :: "('m, 's) server_env"
proof unfold_locales
  fix q :: txn_req and cid o1 st
  assume "str16_ok (tq_cluster q)"
  then have "txn_req_decode (txn_req_layout q) = Ok q"
    using txn_req.read_layout [of q "[]"] by (simp add: txn_req_decode_def run_def)
  then show "dispatch_inner env FT_TxnReq cid (txn_req_layout q) o1 st =
      status_reply ''encode txn_resp'' FT_TxnResp cid (perform_txn env q (ss_registry st) (ss_backend st)) o1 st"
    by (simp add: dispatch_inner_def handle_txn_def status_as_reply perform_txn_def)
qed (simp_all add: txn_req.encode_layout status_decoders)

interpretation send_offsets_call: status_request env FT_SendOffsetsReq FT_SendOffsetsResp "''encode send_offsets_resp''"
  send_offsets_req_encode send_offsets_req_layout send_offsets_req_ok send_offsets_resp_decode "perform_send_offsets env"
  for env :: "('m, 's) server_env"
proof unfold_locales
  fix q cid o1 st
  assume "send_offsets_req_ok q"
  then have "send_offsets_req_decode (send_offsets_req_layout q) = Ok q"
    using send_offsets_req.read_layout [of q "[]"] by (simp add: send_offsets_req_decode_def run_def)
  then show "dispatch_inner env FT_SendOffsetsReq cid (send_offsets_req_layout q) o1 st =
      status_reply ''encode send_offsets_resp'' FT_SendOffsetsResp cid
        (perform_send_offsets env q (ss_registry st) (ss_backend st)) o1 st"
    by (auto simp: dispatch_inner_def handle_send_offsets_def status_as_reply perform_send_offsets_def Let_def
        status_reply_def split: prod.split outcome.split)
qed (simp_all add: send_offsets_req.encode_layout status_decoders)

section \<open>All of them\<close>

datatype control_call =
    CallCommit commit_req
  | CallSeek seek_req
  | CallPauseResume pause_resume_req
  | CallTxn txn_req
  | CallSendOffsets send_offsets_req

fun issue_control :: "('c, 'w) os_proc \<Rightarrow> string \<Rightarrow> nat \<Rightarrow> control_call \<Rightarrow> ('c, 'w, unit) ipc" where
  "issue_control os socket t (CallCommit q) = ipc_commit os socket (cq_subscription_id q) t"
| "issue_control os socket t (CallSeek (ByOffset sub targets)) = ipc_seek_by_offset os socket sub targets t"
| "issue_control os socket t (CallSeek (ByTimestamp sub ts parts)) = ipc_seek_by_timestamp os socket sub ts parts t"
| "issue_control os socket t (CallPauseResume q) =
     ipc_pause_resume os socket (pr_subscription_id q) (pr_op q) (pr_partitions q) t"
| "issue_control os socket t (CallTxn q) = ipc_txn os socket (tq_cluster q) (tq_op q) t"
| "issue_control os socket t (CallSendOffsets q) =
     ipc_send_offsets_to_transaction os socket (so_producer_cluster q) (so_subscription_id q) (so_group_id q) (so_offsets q) t"

fun perform_control :: "('m, 's) server_env \<Rightarrow> control_call \<Rightarrow> cluster_registry \<Rightarrow> 's \<Rightarrow> (error_resp, unit) outcome \<times> 's" where
  "perform_control env (CallCommit q) = perform_commit env q"
| "perform_control env (CallSeek q) = perform_seek env q"
| "perform_control env (CallPauseResume q) = perform_pause_resume env q"
| "perform_control env (CallTxn q) = perform_txn env q"
| "perform_control env (CallSendOffsets q) = perform_send_offsets env q"

text \<open>The strings and lists fit their length fields, and the request the limit of control frames.\<close>

fun control_fits :: "control_call \<Rightarrow> bool" where
  "control_fits (CallCommit q) = True"
| "control_fits (CallSeek q) \<longleftrightarrow> seek_req_ok q \<and> length (seek_req_layout q) \<le> frame_limit FT_SeekReq"
| "control_fits (CallPauseResume q) \<longleftrightarrow>
     list32_ok topic_ok (pr_partitions q) \<and> length (pause_resume_req_layout q) \<le> frame_limit FT_PauseResumeReq"
| "control_fits (CallTxn q) \<longleftrightarrow> str16_ok (tq_cluster q) \<and> length (txn_req_layout q) \<le> frame_limit FT_TxnReq"
| "control_fits (CallSendOffsets q) \<longleftrightarrow>
     send_offsets_req_ok q \<and> length (send_offsets_req_layout q) \<le> frame_limit FT_SendOffsetsReq"

lemma issue_control_rpc:
  "issue_control os socket t (CallCommit q1) =
     rpc os socket FT_CommitReq FT_CommitResp (commit_req_encode q1) commit_resp_decode status_result t"
  "issue_control os socket t (CallSeek q2) =
     rpc os socket FT_SeekReq FT_SeekResp (seek_req_encode q2) seek_resp_decode status_result t"
  "issue_control os socket t (CallPauseResume q3) =
     rpc os socket FT_PauseResumeReq FT_PauseResumeResp (pause_resume_req_encode q3) pause_resume_resp_decode status_result t"
  "issue_control os socket t (CallTxn q4) =
     rpc os socket FT_TxnReq FT_TxnResp (txn_req_encode q4) txn_resp_decode status_result t"
  "issue_control os socket t (CallSendOffsets q5) =
     rpc os socket FT_SendOffsetsReq FT_SendOffsetsResp (send_offsets_req_encode q5) send_offsets_resp_decode status_result t"
  by ((cases q1; simp add: ipc_commit_def), (cases q2; simp add: ipc_seek_by_offset_def ipc_seek_by_timestamp_def seek_round_trip_def),
      (cases q3; simp add: ipc_pause_resume_def), (cases q4; simp add: ipc_txn_def),
      (cases q5; simp add: ipc_send_offsets_to_transaction_def))

lemma control_call_link:
  assumes "link_ready socket st" and "control_fits c"
    and "perform_control env c (ss_registry (worker_of st)) (ss_backend (worker_of st)) = (r, b)" and "r \<noteq> Panic"
    and "\<And>er. r = Err er \<Longrightarrow> str16_ok (er_message er)"
  shows "\<exists>st'. issue_control (link_os env start) socket t c st = (answered_as r, st')
    \<and> link_ready socket st' \<and> worker_of st' = served b (worker_of st) \<and> books st' = books st"
proof (cases c)
  case (CallCommit q)
  have "length (subscription_id_layout (cq_subscription_id q)) \<le> frame_limit FT_CommitReq"
    by (simp add: subscription_id_layout_def frame_limit_def)
  with assms(3) show ?thesis
    unfolding CallCommit issue_control_rpc by (intro commit_call.call_link [OF assms(1)]) (use assms(4,5) in auto)
next
  case (CallSeek q)
  with assms(2,3) show ?thesis
    unfolding CallSeek issue_control_rpc by (intro seek_call.call_link [OF assms(1)]) (use assms(4,5) in auto)
next
  case (CallPauseResume q)
  with assms(2,3) show ?thesis
    unfolding CallPauseResume issue_control_rpc by (intro pause_call.call_link [OF assms(1)]) (use assms(4,5) in auto)
next
  case (CallTxn q)
  with assms(2,3) show ?thesis
    unfolding CallTxn issue_control_rpc by (intro txn_call.call_link [OF assms(1)]) (use assms(4,5) in auto)
next
  case (CallSendOffsets q)
  with assms(2,3) show ?thesis
    unfolding CallSendOffsets issue_control_rpc by (intro send_offsets_call.call_link [OF assms(1)]) (use assms(4,5) in auto)
qed

section \<open>Properties\<close>

text \<open>
  C10: Every control call (commit, seek by offset or timestamp, pause, resume, begin, commit and abort
  of a transaction, offsets into a transaction) makes the worker perform exactly the operation
  with exactly the arguments, once, and returns its result: success, or the kind, retryable flag,
  native code and message of the error.
\<close>
theorem control_call_performed_once:
  assumes "link_ready socket st" and "control_fits c"
    and "perform_control env c (ss_registry (worker_of st)) (ss_backend (worker_of st)) = (r, b)" and "r \<noteq> Panic"
    and "\<And>er. r = Err er \<Longrightarrow> str16_ok (er_message er)"
  shows "\<exists>st'. issue_control (link_os env start) socket t c st = (answered_as r, st')
    \<and> link_ready socket st' \<and> worker_of st' = served b (worker_of st) \<and> books st' = books st"
  using assms by (rule control_call_link)

definition demo_txn :: control_call where
  "demo_txn = CallTxn \<lparr>tq_cluster = ''c'', tq_op = TxnBegin\<rparr>"

theorem control_call_performed_once_witness:
  "\<exists>r st'. issue_control (link_os demo_env (\<lambda>_. demo_state)) ''k'' 30000 demo_txn (linked demo_state) = (answered_as r, st')
    \<and> perform_control demo_env demo_txn (ss_registry demo_state) (ss_backend demo_state) = (r, ss_backend (worker_of st'))"
proof -
  obtain r b where p: "perform_control demo_env demo_txn (ss_registry demo_state) (ss_backend demo_state) = (r, b)"
    by (rule prod.exhaust)
  have "r \<noteq> Panic" "\<And>er. r = Err er \<Longrightarrow> str16_ok (er_message er)"
    using p by (auto simp: demo_txn_def perform_txn_def producer_act_def demo_env_def logging_producer_def logging_txn_def
        from_anyhow_def str16_ok_def ascii_valid_str error_resp_new_def)
  with p show ?thesis
    using control_call_performed_once [OF linked_ready, where c = demo_txn and s1 = demo_state and env = demo_env]
    by (fastforce simp: linked_worker demo_txn_def str16_ok_def ascii_valid_str txn_req_layout_def lay_str16_def frame_limit_def)
qed

lemma client_pause_unfold:
  assumes "length topics = length partitions"
  shows "client_pause pv this v topics partitions tm st =
    (case issue_control (pv_os pv) (cl_socket this) (php_timeout 5000 tm)
            (CallPauseResume \<lparr>pr_subscription_id = v, pr_op = Pause,
               pr_partitions = map (\<lambda>(t, p). (t, as_i32 p)) (zip topics partitions)\<rparr>) (sm_ipc st) of
       (r, i) \<Rightarrow> (map_err (ipc_err_to_php pv) r, st\<lparr>sm_ipc := i\<rparr>))"
  using assms
  by (simp add: client_pause_def build_partition_specs_def plain_def bind_pure_act php_ipc_def map_err_act_def on_ipc_def
      case_prod_beta)

text \<open>
  C38: Polling and pausing the same subscription id of a PHP program act on different subscriptions
  of the worker: \<open>poll\<close> translates the virtual id to the id that the worker gave, \<open>pause\<close> sends the virtual
  id itself. When another process owns the worker's subscription of that number, its partitions
  are paused.
\<close>
theorem pause_ignores_virtual_id:
  assumes "pv_os pv = link_os env start" and "map_of (sm_registry st) v = Some e" and "se_socket e = cl_socket this"
    and "link_ready (cl_socket this) (sm_ipc st)"
    and "co_poll (sv_consumer env) (se_real_id e) (max_as_u32 1 mx) (max_as_u32 0 t) (ss_backend (worker_of (sm_ipc st))) = (Ok msgs, b1)"
    and "poll_resp_ok (PollOk msgs)" and "length (poll_resp_layout (PollOk msgs)) \<le> MAX_PAYLOAD_LEN"
    and "length topics = length partitions"
    and "req = \<lparr>pr_subscription_id = v, pr_op = Pause, pr_partitions = map (\<lambda>(t, p). (t, as_i32 p)) (zip topics partitions)\<rparr>"
    and "control_fits (CallPauseResume req)" and "co_pause (sv_consumer env) v (pr_partitions req) b1 = (Ok (), b2)"
  shows "\<exists>st1 st2. client_poll pv this v mx t st = (Ok (messages_to_zval msgs), st1)
    \<and> client_pause pv this v topics partitions tm st1 = (Ok (), st2) \<and> ss_backend (worker_of (sm_ipc st2)) = b2"
proof -
  from ipc_poll_link [OF assms(4,5,6,7), where start = start] obtain i1 where
      i1: "ipc_poll (link_os env start) (cl_socket this) (se_real_id e) (max_as_u32 1 mx) (max_as_u32 0 t) (sm_ipc st) = (Ok msgs, i1)"
      "link_ready (cl_socket this) i1" "ss_backend (worker_of i1) = b1"
    by auto
  let ?st1 = "st\<lparr>sm_ipc := i1\<rparr>"
  have poll: "client_poll pv this v mx t st = (Ok (messages_to_zval msgs), ?st1)"
    using assms(1-3) i1(1)
    by (simp add: client_poll_def php_sub_def map_err_act_def sub_poll_def with_resubscribe_def on_ipc_def bind_act_def pure_act_def)
  have "perform_control env (CallPauseResume req) (ss_registry (worker_of i1)) (ss_backend (worker_of i1)) = (Ok (), b2)"
    using assms(9,11) i1(3) by (simp add: perform_pause_resume_def consumer_act_def)
  from control_call_link [OF i1(2) assms(10) this, where start = start and t = "php_timeout 5000 tm"]
  obtain i2 where "issue_control (link_os env start) (cl_socket this) (php_timeout 5000 tm) (CallPauseResume req) i1 = (Ok (), i2)"
      "ss_backend (worker_of i2) = b2"
    by (auto simp: answered_as_def)
  then have "client_pause pv this v topics partitions tm ?st1 = (Ok (), ?st1\<lparr>sm_ipc := i2\<rparr>)"
    using assms(1,9) by (simp add: client_pause_unfold [OF assms(8)])
  moreover have "ss_backend (worker_of (sm_ipc (?st1\<lparr>sm_ipc := i2\<rparr>))) = b2"
    using \<open>ss_backend (worker_of i2) = b2\<close> by simp
  ultimately show ?thesis using poll by blast
qed

text \<open>A worker whose consumer notes the subscription that was paused last.\<close>

definition noting_env :: "(unit, logging_consumer_state) server_env" where
  "noting_env = demo_env\<lparr>sv_consumer := logging_consumer\<lparr>co_pause := (\<lambda>sub parts s. (Ok (), s\<lparr>lc_seq := sub\<rparr>))\<rparr>\<rparr>"

theorem pause_ignores_virtual_id_witness:
  "\<exists>st1 st2. client_poll (linked_php noting_env (\<lambda>_. demo_state)) \<lparr>cl_socket = ''k''\<rparr> 7 10 0 demo_subs
      = (Ok (messages_to_zval [demo_msg 2]), st1)
    \<and> client_pause (linked_php noting_env (\<lambda>_. demo_state)) \<lparr>cl_socket = ''k''\<rparr> 7 [''t''] [0] None st1 = (Ok (), st2)
    \<and> lc_seq (ss_backend (worker_of (sm_ipc st2))) = 7 \<and> map_option se_real_id (map_of (sm_registry demo_subs) 7) = Some 99"
proof -
  let ?b = "logging_inject [demo_msg 2] logging_consumer_new"
  have "\<exists>st1 st2. client_poll (linked_php noting_env (\<lambda>_. demo_state)) \<lparr>cl_socket = ''k''\<rparr> 7 10 0 demo_subs
      = (Ok (messages_to_zval [demo_msg 2]), st1)
    \<and> client_pause (linked_php noting_env (\<lambda>_. demo_state)) \<lparr>cl_socket = ''k''\<rparr> 7 [''t''] [0] None st1 = (Ok (), st2)
    \<and> ss_backend (worker_of (sm_ipc st2)) = logging_consumer_new\<lparr>lc_seq := 7\<rparr>"
    by (rule pause_ignores_virtual_id [OF linked_php_os(1), where e = demo_entry and ?b1.0 = logging_consumer_new
          and req = "\<lparr>pr_subscription_id = 7, pr_op = Pause, pr_partitions = [(''t'', 0)]\<rparr>"])
      (simp_all add: demo_subs_def Let_def demo_entry_def linked_ready linked_worker demo_batch noting_env_def logging_consumer_def
        logging_poll_def logging_inject_def logging_consumer_new_def max_as_u32_def list32_ok_def str16_ok_def ascii_valid_str
        pause_resume_req_layout_def lay_list32_def partition_layout_def lay_str16_def frame_limit_def
        as_i32_def topic_ok_def)
  then show ?thesis by (auto simp: demo_subs_def Let_def demo_entry_def)
qed

end
