(* ===== verification/Ext_Module.thy ===== *)
theory Ext_Module
  imports Ext_Php
begin

text \<open>
  The start of the extension in the PHP engine: \<open>module_startup\<close> and the functions of \<open>ext/src/lib.rs\<close> that ask
  the engine, \<open>ext/src/client_interface.rs\<close> and the registration in \<open>ext/src/kafka_exception.rs\<close>. The engine is
  its table of classes; the two \<open>OnceLock\<close>s name the class they hold. That the binding library registers
  the class \<open>Client\<close> after \<open>module_startup\<close>, evaluating \<open>get_ce\<close> for its interface, is what the attributes on
  both ask for.
\<close>

section \<open>Classes\<close>

datatype php_type = TLong | TString | TBool

record class_entry =
  ce_name :: string
  ce_interface :: bool
  ce_parent :: "string option"
  ce_implements :: "string list"
  ce_properties :: "(string \<times> zval) list"
  ce_methods :: "(string \<times> php_type) list"

record engine =
  en_classes :: "class_entry list"
  en_iface_ce :: "string option"
  en_exc_ce :: "string option"
  en_ini :: ini_values

definition kafka_name :: "string \<Rightarrow> string" where
  "kafka_name c = ''Hi'' @ [CHR 0x5C] @ ''Kafka'' @ [CHR 0x5C] @ c"

definition interface_class :: class_entry where
  "interface_class =
     \<lparr>ce_name = kafka_name ''ClientInterface'', ce_interface = True, ce_parent = None, ce_implements = [],
      ce_properties = [], ce_methods = []\<rparr>"

definition exception_class :: class_entry where
  "exception_class =
     \<lparr>ce_name = kafka_name ''KafkaException'', ce_interface = False, ce_parent = Some ''Exception'', ce_implements = [],
      ce_properties = [(''kind'', ZLong 0), (''kind_name'', ZStr []), (''retryable'', ZBool False), (''native_code'', ZLong 0)],
      ce_methods = [(''getKind'', TLong), (''getKindName'', TString), (''isRetryable'', TBool), (''getNativeCode'', TLong)]\<rparr>"

definition iface_register :: "engine \<Rightarrow> engine" where
  "iface_register en =
     (if en_iface_ce en \<noteq> None then en
      else en\<lparr>en_classes := en_classes en @ [interface_class], en_iface_ce := Some (ce_name interface_class)\<rparr>)"

definition exc_register :: "engine \<Rightarrow> engine" where
  "exc_register en =
     (if en_exc_ce en \<noteq> None then en
      else en\<lparr>en_classes := en_classes en @ [exception_class], en_exc_ce := Some (ce_name exception_class)\<rparr>)"

text \<open>\<open>get_ce\<close> panics when the interface is not registered.\<close>

definition get_ce :: "engine \<Rightarrow> (unit, string) outcome" where
  "get_ce en = (case en_iface_ce en of Some c \<Rightarrow> Ok c | None \<Rightarrow> Panic)"

definition module_startup :: "engine \<Rightarrow> engine" where
  "module_startup en = (exc_register (iface_register en))\<lparr>en_ini := ini_register\<rparr>"

text \<open>What follows it: the class \<open>Client\<close> with the interface.\<close>

definition register_client :: "engine \<Rightarrow> (unit, engine) outcome" where
  "register_client en =
     (case get_ce en of
        Ok iface \<Rightarrow>
          Ok (en\<lparr>en_classes := en_classes en @
            [\<lparr>ce_name = kafka_name ''Client'', ce_interface = False, ce_parent = None, ce_implements = [iface],
              ce_properties = [], ce_methods = []\<rparr>]\<rparr>)
      | Err e \<Rightarrow> Err e
      | Panic \<Rightarrow> Panic)"

section \<open>Functions of the engine\<close>

definition hi_kafka_version :: "string \<Rightarrow> string" where
  "hi_kafka_version pkg_ver = pkg_ver"

definition lower :: "string \<Rightarrow> string" where
  "lower s = map (\<lambda>c. if 65 \<le> (of_char c :: nat) \<and> (of_char c :: nat) \<le> 90 then char_of ((of_char c :: nat) + 32) else c) s"

text \<open>\<open>CString::new\<close> refuses a name with a zero byte; the table is searched for the name in lower case.\<close>

definition function_exists :: "string set option \<Rightarrow> string \<Rightarrow> bool" where
  "function_exists function_table name =
     (if CHR 0x00 \<in> set name then False
      else case function_table of None \<Rightarrow> False | Some fs \<Rightarrow> lower name \<in> fs)"

section \<open>Exception objects\<close>

text \<open>
  The public properties of an object of the class, which PHP code may overwrite, and the getters as the
  code reads them: a property that is missing or has another type counts as the default.
\<close>

definition exc_object :: "php_exception \<Rightarrow> (string \<times> zval) list" where
  "exc_object e =
     (case e of
        KafkaException message kind kind_name retryable native_code \<Rightarrow>
          [(''kind'', ZLong kind), (''kind_name'', ZStr kind_name), (''retryable'', ZBool retryable),
           (''native_code'', ZLong native_code)]
      | PlainException message \<Rightarrow> [])"

fun prop_long :: "zval option \<Rightarrow> i64" where
  "prop_long (Some (ZLong v)) = v"
| "prop_long _ = 0"

fun prop_string :: "zval option \<Rightarrow> string" where
  "prop_string (Some (ZStr v)) = v"
| "prop_string _ = []"

fun prop_bool :: "zval option \<Rightarrow> bool" where
  "prop_bool (Some (ZBool v)) = v"
| "prop_bool _ = False"

definition call_getter :: "string \<Rightarrow> (string \<times> zval) list \<Rightarrow> zval option" where
  "call_getter method obj =
     (if method = ''getKind'' then Some (ZLong (prop_long (map_of obj ''kind'')))
      else if method = ''getKindName'' then Some (ZStr (prop_string (map_of obj ''kind_name'')))
      else if method = ''isRetryable'' then Some (ZBool (prop_bool (map_of obj ''retryable'')))
      else if method = ''getNativeCode'' then Some (ZLong (prop_long (map_of obj ''native_code'')))
      else None)"

section \<open>Laws\<close>

lemma registers_idempotent:
  "iface_register (iface_register en) = iface_register en" "exc_register (exc_register en) = exc_register en"
  by (simp_all add: iface_register_def exc_register_def)

text \<open>
  Started in this order the extension registers its interface before the class that needs it, so
  nothing panics and every client is an instance of the interface; the class alone would panic.
\<close>

lemma startup_order:
  assumes "en_iface_ce en = None"
  shows "\<exists>en'. register_client (module_startup en) = Ok en'
      \<and> (\<exists>c \<in> set (en_classes en'). ce_name c = kafka_name ''Client'' \<and> ce_implements c = [ce_name interface_class])"
    and "register_client en = Panic"
  using assms
  by (simp_all add: register_client_def get_ce_def module_startup_def exc_register_def iface_register_def)

fun has_type :: "zval \<Rightarrow> php_type \<Rightarrow> bool" where
  "has_type (ZLong v) TLong = True"
| "has_type (ZStr v) TString = True"
| "has_type (ZBool v) TBool = True"
| "has_type _ _ = False"

text \<open>
  The methods of the class return what they declare, whatever PHP code has done to the properties
  of the object; on an object as it was thrown they return the parts of the error.
\<close>

lemma getters_typed:
  "list_all (\<lambda>(m, t). case call_getter m obj of Some v \<Rightarrow> has_type v t | None \<Rightarrow> False) (ce_methods exception_class)"
  by (simp add: exception_class_def call_getter_def)

lemma getters_of_thrown:
  "call_getter ''getKind'' (exc_object e) = Some (ZLong (get_kind e))"
  "call_getter ''getKindName'' (exc_object e) = Some (ZStr (get_kind_name e))"
  "call_getter ''isRetryable'' (exc_object e) = Some (ZBool (exc_is_retryable e))"
  "call_getter ''getNativeCode'' (exc_object e) = Some (ZLong (get_native_code e))"
  by (cases e; simp add: call_getter_def exc_object_def)+

lemma exc_object_properties:
  "e = KafkaException a b c d f \<Longrightarrow> map fst (exc_object e) = map fst (ce_properties exception_class)"
  by (simp add: exc_object_def exception_class_def)

end
