(* ===== verification/Ext_Php_Laws.thy ===== *)
theory Ext_Php_Laws
  imports Ext_Php
begin

text \<open>
  Laws of the PHP surface: what arrays hold, and how PHP integers are narrowed.
\<close>

section \<open>Arrays\<close>

fun zget :: "zkey \<Rightarrow> zval \<Rightarrow> zval option" where
  "zget k (ZArr kvs) = map_of kvs k"
| "zget k _ = None"

lemma map_of_fold_update:
  "map_of (fold (\<lambda>(k, v). AList.update (KStr k) v) kvs al) (KStr k) =
     (case map_of (rev kvs) k of Some v \<Rightarrow> Some v | None \<Rightarrow> map_of al (KStr k))"
proof (induction kvs arbitrary: al)
  case (Cons kv kvs)
  then show ?case by (cases kv) (auto simp: map_add_def split: option.split)
qed simp

lemma zget_zmap: "zget (KStr k) (zmap kvs) = map_of (rev kvs) k"
  by (simp add: zmap_def map_of_fold_update split: option.split)

lemma zget_zlist: "zget (KInt i) (zlist vs) = (if i < length vs then Some (vs ! i) else None)"
proof -
  have "map_of (map (\<lambda>(i, v). (KInt i, v)) (enumerate n xs)) (KInt i) =
      (if n \<le> i \<and> i < n + length xs then Some (xs ! (i - n)) else None)" for n and xs :: "zval list"
    by (induction xs arbitrary: n) (auto simp: nth_Cons')
  from this [of 0 vs] show ?thesis by (simp add: zlist_def)
qed

text \<open>
  The array that a poll returns has one element per message, in order, each with the topic,
  partition, offset, timestamp, key and value of the message, byte for byte. Of headers with the
  same name, which Kafka allows, only the last is in the array.
\<close>
lemma polled_array:
  assumes "i < length msgs" and "m = msgs ! i"
  shows "\<exists>z. zget (KInt i) (messages_to_zval msgs) = Some z
    \<and> zget (KStr ''topic'') z = Some (ZStr (cm_topic m)) \<and> zget (KStr ''partition'') z = Some (ZLong (scast (cm_partition m)))
    \<and> zget (KStr ''offset'') z = Some (ZLong (cm_offset m)) \<and> zget (KStr ''timestamp_ms'') z = Some (ZLong (cm_timestamp_ms m))
    \<and> zget (KStr ''key'') z = Some (ZBin (cm_key m)) \<and> zget (KStr ''value'') z = Some (ZBin (cm_value m))
    \<and> (\<exists>hs. zget (KStr ''headers'') z = Some hs
         \<and> (\<forall>name. zget (KStr name) hs = map_option ZBin (map_of (rev (cm_headers m)) name)))
    \<and> zget (KInt (length msgs)) (messages_to_zval msgs) = None"
proof -
  have "map_of (map (\<lambda>(n, v). (n, ZBin v)) hs) name = map_option ZBin (map_of hs name)" for hs :: "(string \<times> bytes) list" and name
    by (induction hs) auto
  then have "zget (KStr name) (zmap (map (\<lambda>(name, v). (name, ZBin v)) (cm_headers m))) =
      map_option ZBin (map_of (rev (cm_headers m)) name)" for name
    by (simp add: zget_zmap rev_map)
  with assms show ?thesis
    by (simp add: messages_to_zval_def zget_zlist message_to_zval_def zget_zmap from_i32_def)
qed

definition two_headers :: consumer_message where
  "two_headers =
     \<lparr>cm_topic = ''t'', cm_partition = 3, cm_offset = 7, cm_timestamp_ms = 0, cm_key = [1], cm_value = [2],
      cm_headers = [(''h'', [1]), (''h'', [2])]\<rparr>"

section \<open>Integers\<close>

text \<open>
  How integers of a PHP program are narrowed: by clamping, or by keeping the lower 32 bits. A timeout
  is at least one millisecond.
\<close>

lemma sint_clamp_i32: "sint (clamp_i32 p) = max (- (2 ^ 31)) (min (2 ^ 31 - 1) (sint p))"
proof -
  let ?c = "max (- (2 ^ 31)) (min (2 ^ 31 - 1) (sint p))"
  have "sint (of_int ?c :: i32) = signed_take_bit 31 ?c" by (simp add: sint_sbintrunc' del: max.absorb_iff1)
  moreover have "signed_take_bit 31 ?c = ?c" by (rule signed_take_bit_int_eq_self) (auto simp: max_def min_def)
  ultimately show ?thesis by (simp add: clamp_i32_def)
qed

lemma sint_as_i32: "sint (as_i32 p) = (sint p + 2 ^ 31) mod 2 ^ 32 - 2 ^ 31"
proof -
  have "sint (as_i32 p) = signed_take_bit 31 (sint p)"
    unfolding as_i32_def by transfer (simp add: signed_take_bit_take_bit)
  then show ?thesis by (simp add: signed_take_bit_eq_take_bit_shift take_bit_eq_mod)
qed

lemma uint_max_as_u32: "uint (max_as_u32 k v) = max k (sint v) mod 2 ^ 32"
  by (simp add: max_as_u32_def uint_word_of_int)

end
