(* ===== verification/Ext_Frames.thy ===== *)
theory Ext_Frames
  imports Ext_Php_Laws
begin

text \<open>
  What the methods of \<open>Client\<close> (\<open>ext/src/client.rs\<close>) put on the wire: each call is run on an operating
  system that records the bytes written to the connection and the read timeouts set on it, and
  never delivers an answer. The calls are compared with the frame encoders for coroutine drivers
  (\<open>ext/src/lib.rs\<close>, \<open>ext/src/protocol.rs\<close>), the second implementation of the client's side of the protocol.
\<close>

section \<open>A recording operating system\<close>

text \<open>The bytes written so far, and the read timeouts in milliseconds. A read finds nothing to read.\<close>

type_synonym tape = "bytes \<times> nat list"

definition tape_os :: "(unit, tape) os_proc" where
  "tape_os =
     \<lparr>os_connect = \<lambda>_ w. (Inr (), w),
      os_nonblocking = \<lambda>_ _ w. (True, w),
      os_read_one = \<lambda>_ w. (Inl WouldBlock, w),
      os_write_timeout = \<lambda>_ _ w. (Inr (), w),
      os_read_timeout = \<lambda>_ t w. (Inr (), fst w, snd w @ (case t of Some ms \<Rightarrow> [ms] | None \<Rightarrow> [])),
      os_write_all = \<lambda>_ bs w. (Inr (), fst w @ bs, snd w),
      os_read_exact = \<lambda>_ _ w. (Inl WouldBlock, w),
      os_close = \<lambda>_ w. w, os_io_text = \<lambda>_. [], os_env = \<lambda>_. None, os_ini = [],
      os_parse_addr = \<lambda>_. None, os_now = \<lambda>w. (0, w), os_sleep = \<lambda>_ w. w,
      os_create_parent = \<lambda>_ w. (Inr (), w), os_open_lock = \<lambda>_ w. (Inr (), w), os_flock_nb = \<lambda>_ w. (True, w),
      os_close_lock = \<lambda>_ w. w, os_proc_status = \<lambda>_. None, os_fork = \<lambda>_ w. (Inr (), w)\<rparr>"

definition tape_env :: "(unit, tape) php_env" where
  "tape_env = \<lparr>pv_os = tape_os, pv_registered = True, pv_function_exists = \<lambda>_. False\<rparr>"

text \<open>
  A process that knows its worker at the socket path to be alive and has an idle connection to it;
  \<open>n\<close> is the next correlation id.
\<close>

definition tape_ipc :: "string \<Rightarrow> u64 \<Rightarrow> (unit, tape) ipc_state" where
  "tape_ipc socket n =
     (ipc_init ([], []))\<lparr>ic_pools := [(socket, (pool_new 1)\<lparr>pl_idle := [()]\<rparr>)], ic_alive := [(socket, ())],
       ic_ensured := {socket}, ic_next_cid := n\<rparr>"

definition tape_state :: "string \<Rightarrow> u64 \<Rightarrow> (u64, sub_entry) hmap \<Rightarrow> (unit, tape) subs_state" where
  "tape_state socket n registry = (sub_init ([], []))\<lparr>sm_registry := registry, sm_ipc := tape_ipc socket n\<rparr>"

text \<open>What a call writes, and the read timeouts it sets.\<close>

definition client_tape :: "client \<Rightarrow> u64 \<Rightarrow> (u64, sub_entry) hmap \<Rightarrow> (unit, tape, 'a) php \<Rightarrow> tape" where
  "client_tape this n registry call = ic_world (sm_ipc (snd (call (tape_state (cl_socket this) n registry))))"

definition client_writes :: "client \<Rightarrow> u64 \<Rightarrow> (u64, sub_entry) hmap \<Rightarrow> (unit, tape, 'a) php \<Rightarrow> bytes" where
  "client_writes this n registry call = fst (client_tape this n registry call)"

definition client_waits :: "client \<Rightarrow> u64 \<Rightarrow> (u64, sub_entry) hmap \<Rightarrow> (unit, tape, 'a) php \<Rightarrow> nat list" where
  "client_waits this n registry call = snd (client_tape this n registry call)"

text \<open>The entry \<open>frame\<close> of the array that an encoder returns, or the string that it returns; nothing for an exception.\<close>

fun zframe :: "zval \<Rightarrow> bytes" where
  "zframe (ZBin bs) = bs"
| "zframe z = (case zget (KStr ''frame'') z of Some (ZBin bs) \<Rightarrow> bs | _ \<Rightarrow> [])"

definition frame_of :: "('e, zval) outcome \<Rightarrow> bytes" where
  "frame_of r = (case r of Ok z \<Rightarrow> zframe z | _ \<Rightarrow> [])"

text \<open>The frame with a request, or nothing when the request cannot be encoded.\<close>

definition request_frame :: "frame_type \<Rightarrow> writer \<Rightarrow> u64 \<Rightarrow> bytes" where
  "request_frame kind w n =
     (case snd w of
        Ok _ \<Rightarrow> (case encode_frame kind n (fst w) [] of (Ok _, frame) \<Rightarrow> frame | _ \<Rightarrow> [])
      | _ \<Rightarrow> [])"

definition wait_for :: "bytes \<Rightarrow> nat \<Rightarrow> nat list" where
  "wait_for bs t = (if bs = [] then [] else [t])"

lemma wait_for_nothing [simp]: "wait_for [] t = []"
  by (simp add: wait_for_def)

section \<open>Calls on the tape\<close>

text \<open>An action that leaves the given tape behind and an error that nobody retries.\<close>

definition sends :: "string \<Rightarrow> u64 \<Rightarrow> (unit, tape, 'a) ipc \<Rightarrow> bytes \<Rightarrow> nat list \<Rightarrow> bool" where
  "sends socket n m bs ts \<longleftrightarrow>
     (case m (tape_ipc socket n) of
        (r, st) \<Rightarrow> ic_world st = (bs, ts)
          \<and> (case r of Ok _ \<Rightarrow> False | Err e \<Rightarrow> \<not> should_invalidate e \<and> \<not> is_subscription_gone e | Panic \<Rightarrow> True))"

lemma request_frame_empty:
  "request_frame kind w n = [] \<longleftrightarrow> (case snd w of Ok _ \<Rightarrow> MAX_PAYLOAD_LEN < length (fst w) | _ \<Rightarrow> True)"
  by (auto simp: request_frame_def encode_frame_def split: outcome.split)

lemma bind_act_nested: "bind_act (bind_act m k) l = bind_act m (\<lambda>x. bind_act (k x) l)"
  by (rule ext) (simp add: bind_act_def split: prod.split outcome.split)

lemma sends_bind: "sends socket n m bs ts \<Longrightarrow> sends socket n (bind_act m k) bs ts"
  by (auto simp: sends_def bind_act_def split: prod.splits outcome.splits)

lemma sends_retry: "sends socket n m bs ts \<Longrightarrow> sends socket n (with_retry socket m) bs ts"
  by (auto simp: sends_def with_retry_def split: prod.splits outcome.splits)

lemma ipc_ensure_tape: "ipc_ensure tape_os socket (tape_ipc socket n) = (Ok (), tape_ipc socket n)"
  by (simp add: ipc_ensure_def numeral_2_eq_2 ensure_with_def health_ensure_def tape_ipc_def bind_act_def
      map_err_act_def pure_act_def)

lemma ensured_tape:
  "bind_act (ipc_ensure tape_os socket) k (tape_ipc socket n) = k () (tape_ipc socket n)"
  by (simp add: bind_act_def ipc_ensure_tape)

lemmas tape_defs = tape_ipc_def tape_os_def exchange_def with_conn_def ipc_acquire_def pool_for_def acquire_def
  conn_is_alive_def ipc_write_frame_def recv_resp_def bind_act_def pure_act_def conn_io_def on_world_def io_act_def
  or_poison_def poison_conn_def upd_pool_def

text \<open>An exchange writes the frame and then waits in vain, unless the payload is too large.\<close>

lemma exchange_tape:
  "case exchange tape_os socket kind resp_kind n payload t ((tape_ipc socket n)\<lparr>ic_next_cid := n'\<rparr>) of
    (r, st') \<Rightarrow> r = (if MAX_PAYLOAD_LEN < length payload
          then Err (EncodeFailed (codec_error_display (PayloadTooLarge (length payload)))) else Err (IoFailed WouldBlock))
      \<and> ic_world st' = (if MAX_PAYLOAD_LEN < length payload then ([], []) else (snd (encode_frame kind n payload []), [t]))"
  by (simp add: tape_defs encode_frame_def Let_def pool_new_def ipc_init_def)

lemma request_frame_Ok:
  assumes "snd w = Ok u"
  shows "request_frame kind w n =
    (if MAX_PAYLOAD_LEN < length (fst w) then [] else snd (encode_frame kind n (fst w) []))"
  using assms by (simp add: request_frame_def encode_frame_def)

lemma frame_nonempty: "length payload \<le> MAX_PAYLOAD_LEN \<Longrightarrow> snd (encode_frame kind n payload []) \<noteq> []"
  by (simp add: encode_frame_def)

lemma exchange_sends:
  assumes "snd w = Ok u"
  shows "sends socket n (bind_act ipc_next_cid (\<lambda>cid. exchange tape_os socket kind resp_kind cid (fst w) t))
    (request_frame kind w n) (wait_for (request_frame kind w n) t)"
  using exchange_tape [where payload = "fst w" and n' = "n + 1" and socket = socket and kind = kind
      and resp_kind = resp_kind and n = n and t = t] assms
  by (auto simp: sends_def bind_act_def ipc_next_cid_def next_cid_def request_frame_Ok frame_nonempty wait_for_def
      tape_ipc_def ipc_init_def split: prod.splits)

lemma sends_encoded:
  assumes "\<And>u. snd w = Ok u \<Longrightarrow> sends socket n (k (fst w)) (request_frame kind w n) ts"
    and "request_frame kind w n = [] \<Longrightarrow> ts = []"
  shows "sends socket n (bind_act (pure_act (encoded w)) k) (request_frame kind w n) ts"
  using assms
  by (cases "snd w")
    (auto simp: sends_def bind_act_def pure_act_def encoded_def request_frame_def tape_ipc_def ipc_init_def)

lemma sends_ensured: "sends socket n m bs ts \<Longrightarrow> sends socket n (bind_act (ipc_ensure tape_os socket) (\<lambda>_. m)) bs ts"
  by (simp add: sends_def bind_act_def ipc_ensure_tape)

lemma round_trip_with_sends:
  assumes "snd w = Ok u"
  shows "sends socket n (round_trip_with (ipc_ensure tape_os) tape_os socket kind resp_kind (fst w) t)
    (request_frame kind w n) (wait_for (request_frame kind w n) t)"
  unfolding round_trip_with_def by (rule sends_ensured) (rule exchange_sends [OF assms])

lemma rpc_sends:
  "sends socket n (rpc tape_os socket kind resp_kind w dec fin t)
    (request_frame kind w n) (wait_for (request_frame kind w n) t)"
  unfolding rpc_def round_trip_def round_trip_once_def
  by (rule sends_encoded) (auto intro!: sends_bind sends_retry intro: round_trip_with_sends)

lemma register_sends:
  "sends socket n (ipc_register_cluster tape_os socket cluster config t)
    (request_frame FT_RegisterClusterReq (register_cluster_req_encode \<lparr>rc_cluster = cluster, rc_config = config\<rparr>) n)
    (wait_for (request_frame FT_RegisterClusterReq
      (register_cluster_req_encode \<lparr>rc_cluster = cluster, rc_config = config\<rparr>) n) t)"
  unfolding ipc_register_cluster_def register_cluster_once_def register_cluster_with_def
  by (rule sends_bind, rule sends_retry, rule sends_encoded) (auto intro!: sends_bind intro: round_trip_with_sends)

lemma oauth_sends:
  assumes w: "set_oauth_req_encode
          \<lparr>oa_cluster = cluster, oa_token_value = ot_token_value tok, oa_lifetime_ms = ot_lifetime_ms tok,
           oa_principal_name = ot_principal_name tok, oa_extensions = ot_extensions tok\<rparr> = w"
  shows "sends socket n (ipc_set_oauth_bearer_token tape_os socket cluster tok t)
    (request_frame FT_SetOAuthBearerTokenReq w n) (wait_for (request_frame FT_SetOAuthBearerTokenReq w n) t)"
  unfolding ipc_set_oauth_bearer_token_def set_oauth_bearer_token_once_def set_oauth_with_def w
  by (rule sends_bind, rule sends_retry, rule sends_encoded) (auto intro!: sends_bind intro: round_trip_with_sends)

definition produce_writer :: "string \<Rightarrow> string \<Rightarrow> bytes \<Rightarrow> bytes \<Rightarrow> produce_options \<Rightarrow> writer" where
  "produce_writer cluster topic key val opts =
     produce_fnf_encode
       \<lparr>pf_cluster = cluster, pf_topic = topic, pf_key = key, pf_value = val,
        pf_partition = op_partition opts, pf_timestamp_ms = op_timestamp_ms opts,
        pf_headers = op_headers opts\<rparr>"

lemma produce_sends:
  "sends socket n (ipc_produce_sync tape_os socket cluster topic key val opts t)
    (request_frame FT_ProduceReq (produce_writer cluster topic (as_bytes key) (as_bytes val) opts) n)
    (wait_for (request_frame FT_ProduceReq (produce_writer cluster topic (as_bytes key) (as_bytes val) opts) n) t)"
  "sends socket n (ipc_produce_fnf tape_os socket cluster topic key val opts)
    (request_frame FT_ProduceFnf (produce_writer cluster topic (as_bytes key) (as_bytes val) opts) n)
    (wait_for (request_frame FT_ProduceFnf (produce_writer cluster topic (as_bytes key) (as_bytes val) opts) n) 5000)"
proof -
  let ?w = "produce_writer cluster topic (as_bytes key) (as_bytes val) opts"
  have chain: "sends socket n (bind_act (pure_act (encoded ?w)) (\<lambda>payload. bind_act ipc_next_cid (\<lambda>cid.
      bind_act (exchange tape_os socket kind FT_ProduceResp cid payload t) k)))
      (request_frame kind ?w n) (wait_for (request_frame kind ?w n) t)" for kind t and k :: "bytes \<Rightarrow> (unit, tape, 'a) ipc"
  proof (rule sends_encoded)
    fix u
    assume "snd ?w = Ok u"
    from sends_bind [OF exchange_sends [OF this, of socket n kind FT_ProduceResp t], of k]
    show "sends socket n (bind_act ipc_next_cid (\<lambda>cid. bind_act (exchange tape_os socket kind FT_ProduceResp cid (fst ?w) t) k))
      (request_frame kind ?w n) (wait_for (request_frame kind ?w n) t)"
      by (simp add: bind_act_nested)
  qed simp
  note defs = encode_produce_payload_def encode_produce_payload_bin_def produce_writer_def [symmetric]
  show "sends socket n (ipc_produce_sync tape_os socket cluster topic key val opts t)
      (request_frame FT_ProduceReq ?w n) (wait_for (request_frame FT_ProduceReq ?w n) t)"
    unfolding ipc_produce_sync_def produce_sync_inner_def defs by (intro sends_retry sends_ensured chain)
  show "sends socket n (ipc_produce_fnf tape_os socket cluster topic key val opts)
      (request_frame FT_ProduceFnf ?w n) (wait_for (request_frame FT_ProduceFnf ?w n) 5000)"
    unfolding ipc_produce_fnf_def produce_fnf_inner_def defs by (intro sends_retry sends_ensured chain)
qed

section \<open>Calls of the class\<close>

lemma tape_env_os [simp]: "pv_os tape_env = tape_os"
  by (simp add: tape_env_def)

lemma tape_ipc_call:
  assumes "sends (cl_socket this) n m bs ts"
  shows "client_tape this n reg (php_ipc tape_env m) = (bs, ts)"
    and "client_tape this n reg (bind_act (php_ipc tape_env m) k) = (bs, ts)"
  using assms
  by (auto simp: client_tape_def tape_state_def php_ipc_def map_err_act_def on_ipc_def sends_def bind_act_def
      split: prod.splits outcome.splits)

lemma tape_sub_call:
  assumes "sends (cl_socket this) n (op e) bs ts"
  shows "client_tape this n [(v, e)] (php_sub tape_env (with_resubscribe tape_os id v op)) = (bs, ts)"
    and "client_tape this n [(v, e)] (bind_act (php_sub tape_env (with_resubscribe tape_os id v op)) k) = (bs, ts)"
  using assms
  by (auto simp: client_tape_def tape_state_def php_sub_def map_err_act_def with_resubscribe_def on_ipc_def sends_def
      bind_act_def split: prod.splits outcome.splits)


text \<open>A check of the arguments that fails writes nothing.\<close>

lemma tape_pure: "client_tape this n reg (pure_act r) = ([], [])"
  by (simp add: client_tape_def pure_act_def tape_state_def tape_ipc_def ipc_init_def)

lemma tape_checked_call:
  "client_tape this n reg (bind_act (pure_act r) k) =
    (case r of Ok x \<Rightarrow> client_tape this n reg (k x) | _ \<Rightarrow> ([], []))"
  by (simp add: client_tape_def bind_act_def pure_act_def tape_state_def tape_ipc_def ipc_init_def split: outcome.split)

lemma unsubscribe_tape:
  assumes "se_socket e = cl_socket this"
  shows "client_tape this n [(v, e)] (php_sub tape_env (sub_unsubscribe tape_os v)) =
    (request_frame FT_Unsubscribe (unsubscribe_req_encode \<lparr>uq_subscription_id = se_real_id e\<rparr>) 0, [])"
proof -
  let ?w = "unsubscribe_req_encode \<lparr>uq_subscription_id = se_real_id e\<rparr>"
  have "ic_world (snd (unsubscribe_once tape_os (cl_socket this) (se_real_id e) (tape_ipc (cl_socket this) n))) =
      (request_frame FT_Unsubscribe ?w 0, [])
    \<and> (\<forall>err. fst (unsubscribe_once tape_os (cl_socket this) (se_real_id e) (tape_ipc (cl_socket this) n)) = Err err
        \<longrightarrow> \<not> should_invalidate err)"
    unfolding unsubscribe_once_def ensured_tape
    by (cases "snd ?w"; simp add: tape_defs encoded_def request_frame_def encode_frame_def Let_def pool_new_def ipc_init_def)
  then have "ic_world (snd (ipc_unsubscribe tape_os (cl_socket this) (se_real_id e) (tape_ipc (cl_socket this) n))) =
      (request_frame FT_Unsubscribe ?w 0, [])"
    by (auto simp: ipc_unsubscribe_def with_retry_def split: prod.splits outcome.splits)
  with assms show ?thesis
    by (auto simp: client_tape_def tape_state_def php_sub_def map_err_act_def sub_unsubscribe_def on_ipc_def
        split: prod.splits outcome.splits)
qed

section \<open>Frames of the encoders\<close>



lemma frame_of_Err [simp]: "frame_of (Err e) = []" "frame_of Panic = []"
  by (simp_all add: frame_of_def)

text \<open>What each method writes, as one request, and how long it then waits.\<close>

lemmas ipc_tape = tape_ipc_call [OF rpc_sends] tape_ipc_call [OF register_sends] tape_ipc_call [OF oauth_sends [OF refl]]
  tape_ipc_call [OF produce_sends(1)] tape_ipc_call [OF produce_sends(2)]


lemmas checked_defs = client_seek_def client_seek_to_timestamp_def client_pause_def client_resume_def
  client_send_offsets_to_transaction_def ipc_seek_by_offset_def ipc_seek_by_timestamp_def seek_round_trip_def
  ipc_pause_resume_def ipc_send_offsets_to_transaction_def

lemma sub_tape:
  fixes this e defines "e' \<equiv> e\<lparr>se_socket := cl_socket this\<rparr>"
  shows "client_tape this n [(v, e')] (client_poll tape_env this v m t) =
      (request_frame FT_PollReq (poll_req_encode
          \<lparr>pq_subscription_id = se_real_id e, pq_max_messages = max_as_u32 1 m, pq_timeout_ms = max_as_u32 0 t\<rparr>) n,
       wait_for (request_frame FT_PollReq (poll_req_encode
          \<lparr>pq_subscription_id = se_real_id e, pq_max_messages = max_as_u32 1 m, pq_timeout_ms = max_as_u32 0 t\<rparr>) n)
         (unat (max_as_u32 0 t) + 2000))"
    and "client_tape this n [(v, e')] (client_commit tape_env this v tmo) =
      (request_frame FT_CommitReq (commit_req_encode \<lparr>cq_subscription_id = se_real_id e\<rparr>) n,
       wait_for (request_frame FT_CommitReq (commit_req_encode \<lparr>cq_subscription_id = se_real_id e\<rparr>) n)
         (php_timeout 5000 tmo))"
    and "client_tape this n [(v, e')] (client_unsubscribe tape_env this v) =
      (request_frame FT_Unsubscribe (unsubscribe_req_encode \<lparr>uq_subscription_id = se_real_id e\<rparr>) 0, [])"
  unfolding client_poll_def client_commit_def client_unsubscribe_def sub_poll_def sub_commit_def ipc_poll_def
    ipc_commit_def tape_env_os e'_def
  by (rule tape_sub_call, simp add: rpc_sends)+ (simp add: unsubscribe_tape)






text \<open>Checked arguments, with the partitions narrowed.\<close>

lemma offset_targets_Ok:
  "build_offset_targets topics ps offsets =
    (if length topics = length ps \<and> length topics = length offsets
     then Ok (zip topics (zip (map as_i32 ps) offsets))
     else build_offset_targets topics ps offsets)"
proof -
  have "map (\<lambda>((t, p), off). (t, as_i32 p, off)) (zip (zip ts ps) offs) = zip ts (zip (map as_i32 ps) offs)" 
    for ts :: "string list" and ps :: "i64 list" and offs :: "i64 list"
    by (induction ts arbitrary: ps offs) (auto simp: zip_Cons1 split: list.split)
  then show ?thesis by (simp add: build_offset_targets_def)
qed

lemma partition_specs_Ok:
  "build_partition_specs topics ps =
    (if length topics = length ps then Ok (zip topics (map as_i32 ps)) else build_partition_specs topics ps)"
  by (simp add: build_partition_specs_def zip_map2 case_prod_beta')

lemma mismatch_Err:
  "\<not> (length topics = length ps \<and> length topics = length offsets) \<Longrightarrow>
    \<exists>m. build_offset_targets topics ps offsets = Err m"
  "length topics \<noteq> length ps \<Longrightarrow> \<exists>m. build_partition_specs topics ps = Err m"
  by (auto simp: build_offset_targets_def build_partition_specs_def)

lemma seek_writes:
  "client_writes this n reg (client_seek tape_env this v topics ps offsets tmo) =
    (if length topics = length ps \<and> length topics = length offsets
     then request_frame FT_SeekReq (seek_req_encode (ByOffset v (zip topics (zip (map as_i32 ps) offsets)))) n else [])"
proof (cases "length topics = length ps \<and> length topics = length offsets")
  case True
  then have "build_offset_targets topics ps offsets = Ok (zip topics (zip (map as_i32 ps) offsets))"
    using offset_targets_Ok by metis
  with True show ?thesis by (simp add: client_writes_def checked_defs tape_checked_call ipc_tape plain_def)
next
  case False
  from mismatch_Err(1) [OF this] obtain m where "build_offset_targets topics ps offsets = Err m" by blast
  with False show ?thesis by (simp only: if_False) (simp add: client_writes_def checked_defs tape_checked_call tape_pure plain_def)
qed

lemma pause_writes:
  "client_writes this n reg (client_pause tape_env this v topics ps tmo) =
    (if length topics = length ps
     then request_frame FT_PauseResumeReq (pause_resume_req_encode
       \<lparr>pr_subscription_id = v, pr_op = Pause, pr_partitions = zip topics (map as_i32 ps)\<rparr>) n else [])"
  "client_writes this n reg (client_resume tape_env this v topics ps tmo) =
    (if length topics = length ps
     then request_frame FT_PauseResumeReq (pause_resume_req_encode
       \<lparr>pr_subscription_id = v, pr_op = Resume, pr_partitions = zip topics (map as_i32 ps)\<rparr>) n else [])"
  using mismatch_Err(2) [of topics ps] partition_specs_Ok [of topics ps]
  by (auto simp: client_writes_def checked_defs tape_checked_call ipc_tape plain_def)

section \<open>Properties\<close>


text \<open>
  C40: How the calls of a PHP program narrow their integers, by the requests that they write. The
  partition of a produce call is clamped to 32 bits. The partitions of a seek, a pause or a resume
  keep their lower 32 bits, and so do the limits of a poll, after the message limit was raised to at
  least 1 and the timeout to at least 0: values in range are unchanged, but a limit of \<open>2 ^ 32\<close> messages
  asks for none. The time to wait for an answer is the timeout of the request and two seconds for a
  poll, and at least one millisecond for a produce call.
\<close>
theorem php_integers_narrowed:
  "(\<exists>p'. sint p' = max (- (2 ^ 31)) (min (2 ^ 31 - 1) (sint p))
      \<and> client_tape this n reg (client_produce_sync tape_env this cluster topic key val (Some hs) (Some p) (Some ts) (Some t))
        = (let bs = request_frame FT_ProduceReq (produce_fnf_encode
             \<lparr>pf_cluster = cluster, pf_topic = topic, pf_key = as_bytes key, pf_value = as_bytes val, pf_partition = p',
              pf_timestamp_ms = ts, pf_headers = map (\<lambda>(k, x). (k, as_bytes x)) hs\<rparr>) n
           in (bs, wait_for bs (nat (max 1 (sint t))))))
   \<and> (\<exists>ps'. map sint ps' = map (\<lambda>p. (sint p + 2 ^ 31) mod 2 ^ 32 - 2 ^ 31) ps
      \<and> client_writes this n reg (client_seek tape_env this v topics ps offsets tmo)
        = (if length topics = length ps \<and> length topics = length offsets
           then request_frame FT_SeekReq (seek_req_encode (ByOffset v (zip topics (zip ps' offsets)))) n else [])
      \<and> client_writes this n reg (client_pause tape_env this v topics ps tmo)
        = (if length topics = length ps
           then request_frame FT_PauseResumeReq (pause_resume_req_encode
             \<lparr>pr_subscription_id = v, pr_op = Pause, pr_partitions = zip topics ps'\<rparr>) n else [])
      \<and> client_writes this n reg (client_resume tape_env this v topics ps tmo)
        = (if length topics = length ps
           then request_frame FT_PauseResumeReq (pause_resume_req_encode
             \<lparr>pr_subscription_id = v, pr_op = Resume, pr_partitions = zip topics ps'\<rparr>) n else []))
   \<and> (\<exists>m' t'. uint m' = max 1 (sint m) mod 2 ^ 32 \<and> uint t' = max 0 (sint t) mod 2 ^ 32
      \<and> client_tape this n [(v, e\<lparr>se_socket := cl_socket this\<rparr>)] (client_poll tape_env this v m t)
        = (let bs = request_frame FT_PollReq (poll_req_encode
             \<lparr>pq_subscription_id = se_real_id e, pq_max_messages = m', pq_timeout_ms = t'\<rparr>) n
           in (bs, wait_for bs (unat t' + 2000))))"
proof (intro conjI)
  show "\<exists>p'. sint p' = max (- (2 ^ 31)) (min (2 ^ 31 - 1) (sint p))
      \<and> client_tape this n reg (client_produce_sync tape_env this cluster topic key val (Some hs) (Some p) (Some ts) (Some t))
        = (let bs = request_frame FT_ProduceReq (produce_fnf_encode
             \<lparr>pf_cluster = cluster, pf_topic = topic, pf_key = as_bytes key, pf_value = as_bytes val, pf_partition = p',
              pf_timestamp_ms = ts, pf_headers = map (\<lambda>(k, x). (k, as_bytes x)) hs\<rparr>) n
           in (bs, wait_for bs (nat (max 1 (sint t)))))"
    by (rule exI [of _ "clamp_i32 p"])
      (simp add: sint_clamp_i32 client_produce_sync_def ipc_tape produce_writer_def build_options_def php_timeout_def
        Let_def)
  show "\<exists>m' t'. uint m' = max 1 (sint m) mod 2 ^ 32 \<and> uint t' = max 0 (sint t) mod 2 ^ 32
      \<and> client_tape this n [(v, e\<lparr>se_socket := cl_socket this\<rparr>)] (client_poll tape_env this v m t)
        = (let bs = request_frame FT_PollReq (poll_req_encode
             \<lparr>pq_subscription_id = se_real_id e, pq_max_messages = m', pq_timeout_ms = t'\<rparr>) n
           in (bs, wait_for bs (unat t' + 2000)))"
    by (intro exI [of _ "max_as_u32 1 m"] exI [of _ "max_as_u32 0 t"]) (simp add: uint_max_as_u32 sub_tape Let_def)
qed (intro exI [of _ "map as_i32 ps"], simp add: sint_as_i32 seek_writes pause_writes)

text \<open>The values just beyond the range: partition \<open>2 ^ 32\<close> is partition 0, and \<open>2 ^ 32\<close> messages are none.\<close>

lemma wide_values_wrap:
  "client_writes this n reg (client_seek tape_env this v [topic] [2 ^ 32] [off] tmo)
    = client_writes this n reg (client_seek tape_env this v [topic] [0] [off] tmo)"
  "client_writes this n [(v, e\<lparr>se_socket := cl_socket this\<rparr>)] (client_poll tape_env this v (2 ^ 32) t)
    = request_frame FT_PollReq (poll_req_encode
        \<lparr>pq_subscription_id = se_real_id e, pq_max_messages = 0, pq_timeout_ms = max_as_u32 0 t\<rparr>) n"
proof -
  have "as_i32 (2 ^ 32) = as_i32 0" "max_as_u32 1 (2 ^ 32) = 0" by (simp_all add: as_i32_def max_as_u32_def)
  then show "client_writes this n reg (client_seek tape_env this v [topic] [2 ^ 32] [off] tmo)
      = client_writes this n reg (client_seek tape_env this v [topic] [0] [off] tmo)"
    "client_writes this n [(v, e\<lparr>se_socket := cl_socket this\<rparr>)] (client_poll tape_env this v (2 ^ 32) t)
      = request_frame FT_PollReq (poll_req_encode
        \<lparr>pq_subscription_id = se_real_id e, pq_max_messages = 0, pq_timeout_ms = max_as_u32 0 t\<rparr>) n"
    by (simp_all add: seek_writes client_writes_def [of _ _ _ "client_poll _ _ _ _ _"] sub_tape del: power_numeral)
qed

end
