(* ===== verification/Proto_Tests.thy ===== *)
theory Proto_Tests
  imports Proto_Laws
begin

text \<open>
  The unit tests of \<open>src/proto\<close>, run on the model: each test is a proposition over the same literal
  messages and bytes, and the lemma at the end of its section evaluates it. They check the definitions
  against the source; what holds for all messages is proved in the other theories.
\<close>

section \<open>Shared steps of the tests\<close>

definition roundtrips :: "('a \<Rightarrow> writer) \<Rightarrow> (bytes \<Rightarrow> (payload_error, 'a) outcome) \<Rightarrow> 'a \<Rightarrow> bool" where
  "roundtrips enc dec m \<longleftrightarrow> snd (enc m) = Ok () \<and> dec (fst (enc m)) = Ok m"

definition status_roundtrips :: "(status_resp \<Rightarrow> writer) \<Rightarrow> (bytes \<Rightarrow> (payload_error, status_resp) outcome) \<Rightarrow> string \<Rightarrow> bool" where
  "status_roundtrips enc dec message \<longleftrightarrow> roundtrips enc dec StatusOk \<and> roundtrips enc dec (StatusErr message)"

fun is_invalid_tag :: "u8 \<Rightarrow> (payload_error, 'a) outcome \<Rightarrow> bool" where
  "is_invalid_tag t (Err (InvalidTag tag field)) \<longleftrightarrow> tag = t"
| "is_invalid_tag t _ \<longleftrightarrow> False"

context codec
begin

lemma roundtrips:
  assumes "\<And>buf. dec buf = run reader buf" and "wf m"
  shows "roundtrips encode dec m"
  using roundtrip [OF assms(2), of "[]"] by (simp add: roundtrips_def assms(1))

lemma cut_short:
  assumes "wf m" and "0 < k" and "layout m \<noteq> []"
  shows "run reader (take (length (fst (encode m)) - k) (fst (encode m))) = Err Truncated"
proof (rule prefix_truncated [OF assms(1), of _ "drop (length (fst (encode m)) - k) (fst (encode m))"])
  have "0 < length (fst (encode m))" using assms(3) encode_layout [OF assms(1)] by simp
  then show "drop (length (fst (encode m)) - k) (fst (encode m)) \<noteq> []"
    using assms(2) diff_less by (simp del: length_greater_0_conv)
qed simp

end

lemmas test_oks = produce_fnf_ok_def produce_resp_ok_def produce_fnf_default_def subscribe_req_ok_def subscribe_resp_ok_def
  consumer_message_ok_def poll_resp_ok_def register_cluster_req_ok_def seek_req_ok_def rebalance_event_ok_def
  poll_rebalance_resp_ok_def status_resp_ok_def headers_ok_def header_ok_def config_entry_ok_def topic_ok_def
  list16_ok_def list32_ok_def bytes32_ok_def str16_ok_def str32_ok_def send_offsets_req_ok_def set_oauth_req_ok_def
  ascii_valid_str

lemmas test_decoders = request_decoders produce_resp_decode_def error_resp_decode_def subscribe_resp_decode_def
  poll_resp_decode_def poll_rebalance_resp_decode_def

lemmas test_statuses = commit_resp_encode_def commit_resp_decode_def register_cluster_resp_encode_def
  register_cluster_resp_decode_def seek_resp_encode_def seek_resp_decode_def pause_resume_resp_encode_def
  pause_resume_resp_decode_def txn_resp_encode_def txn_resp_decode_def send_offsets_resp_encode_def
  send_offsets_resp_decode_def set_oauth_resp_encode_def set_oauth_resp_decode_def

lemma status_roundtrips:
  assumes "\<And>m. enc m = status_resp_encode m" and "\<And>buf. dec buf = run (status_resp_read field) buf" and "str16_ok message"
  shows "status_roundtrips enc dec message"
proof -
  have "enc = status_resp_encode" using assms(1) by blast
  then show ?thesis
    using status.roundtrips [OF assms(2)] assms(3) by (simp add: status_roundtrips_def status_resp_ok_def)
qed

section \<open>codec.rs\<close>

definition test_encode_decode_roundtrip :: bool where
  "test_encode_decode_roundtrip \<longleftrightarrow>
     (let payload = as_bytes ''hello kafka''; (written, buf) = encode_frame FT_ProduceFnf 42 payload [] in
      written = Ok (HEADER_LEN + length payload)
      \<and> decode_header (take HEADER_LEN buf) =
          Ok \<lparr>h_payload_len = of_nat (length payload), h_kind = FT_ProduceFnf, h_cid = 42\<rparr>
      \<and> drop HEADER_LEN buf = payload)"

definition test_empty_payload :: bool where
  "test_empty_payload \<longleftrightarrow>
     decode_header (snd (encode_frame FT_Ping 1 [] [])) = Ok \<lparr>h_payload_len = 0, h_kind = FT_Ping, h_cid = 1\<rparr>"

definition test_payload_too_large :: bool where
  "test_payload_too_large \<longleftrightarrow>
     (case fst (encode_frame FT_ProduceFnf 0 (replicate (MAX_PAYLOAD_LEN + 1) 0) []) of
        Err (PayloadTooLarge n) \<Rightarrow> True
      | _ \<Rightarrow> False)"

definition test_unknown_frame_type :: bool where
  "test_unknown_frame_type \<longleftrightarrow> decode_header ((replicate HEADER_LEN 0)[4 := 0xFF]) = Err (UnknownFrameType 0xFF)"

definition test_header_too_short :: bool where
  "test_header_too_short \<longleftrightarrow>
     (case decode_header (replicate (HEADER_LEN - 1) 0) of Err (HeaderTooShort n) \<Rightarrow> True | _ \<Rightarrow> False)"

definition test_frame_struct :: bool where
  "test_frame_struct \<longleftrightarrow>
     (let f = frame_new FT_Hello 0 (as_bytes ''hi'') in
      fr_kind f = FT_Hello \<and> fr_cid f = 0 \<and> fr_payload f = as_bytes ''hi'')"

lemma codec_tests: test_unknown_frame_type test_header_too_short test_frame_struct
  by code_simp+

lemma encode_new:
  "length payload \<le> MAX_PAYLOAD_LEN \<Longrightarrow> encode_frame kind cid payload [] =
     (Ok (HEADER_LEN + length payload), frame_bytes (frame_new kind cid payload))"
  using encode_frame_fits [of "frame_new kind cid payload" "[]"]
  by (simp add: frame_fits_def frame_new_def frame_bytes_def HEADER_LEN_def)

lemma decode_new:
  "length payload \<le> MAX_PAYLOAD_LEN \<Longrightarrow> decode_header (frame_bytes (frame_new kind cid payload)) =
     Ok \<lparr>h_payload_len = of_nat (length payload), h_kind = kind, h_cid = cid\<rparr>"
  using decode_header_frame_bytes [of "frame_new kind cid payload" "[]"]
  by (simp add: frame_fits_def frame_new_def)

lemma codec_roundtrip_tests: test_encode_decode_roundtrip test_empty_payload
proof -
  let ?p = "as_bytes ''hello kafka''"
  have p: "length ?p = 11" "length ?p \<le> MAX_PAYLOAD_LEN" by (simp_all add: MAX_PAYLOAD_LEN_def)
  have "HEADER_LEN \<le> length (frame_bytes (frame_new FT_ProduceFnf 42 ?p))"
    "drop HEADER_LEN (frame_bytes (frame_new FT_ProduceFnf 42 ?p)) = ?p"
    by (simp_all add: frame_bytes_def frame_new_def HEADER_LEN_def)
  then show test_encode_decode_roundtrip
    unfolding test_encode_decode_roundtrip_def Let_def encode_new [OF p(2)]
    by (simp add: decode_header_take decode_new [OF p(2)])
  show test_empty_payload
    by (simp add: test_empty_payload_def encode_new decode_new)
qed

lemma codec_test_large: test_payload_too_large
  by (simp add: test_payload_too_large_def encode_frame_def MAX_PAYLOAD_LEN_def)

section \<open>payload.rs\<close>

definition test_produce_fnf_roundtrip :: bool where
  "test_produce_fnf_roundtrip \<longleftrightarrow>
     (let original = produce_fnf_default\<lparr>pf_cluster := ''default'', pf_topic := ''orders'', pf_key := as_bytes ''user-42'',
        pf_value := as_bytes (''{'' @ [CHR 0x22] @ ''amount'' @ [CHR 0x22] @ '':100}'')\<rparr> in
      roundtrips produce_fnf_encode produce_fnf_decode original
      \<and> pf_partition original = - 1 \<and> pf_timestamp_ms original = - 1)"

definition test_produce_fnf_explicit_partition_and_timestamp :: bool where
  "test_produce_fnf_explicit_partition_and_timestamp \<longleftrightarrow>
     roundtrips produce_fnf_encode produce_fnf_decode
       \<lparr>pf_cluster = ''default'', pf_topic = ''orders'', pf_key = as_bytes ''user-42'', pf_value = as_bytes ''v'',
        pf_partition = 3, pf_timestamp_ms = 1700000000000, pf_headers = []\<rparr>"

definition test_produce_fnf_with_headers :: bool where
  "test_produce_fnf_with_headers \<longleftrightarrow>
     roundtrips produce_fnf_encode produce_fnf_decode
       (produce_fnf_default\<lparr>pf_cluster := ''default'', pf_topic := ''orders'', pf_key := as_bytes ''k'', pf_value := as_bytes ''v'',
          pf_headers :=
            [(''traceparent'', as_bytes ''00-1234567890abcdef-fedcba0987654321-01''), (''source'', as_bytes ''web''),
             (''x-binary'', [0x00, 0xff, 0x42])]\<rparr>)"

definition test_decode_truncated :: bool where
  "test_decode_truncated \<longleftrightarrow> produce_fnf_decode [0] = Err Truncated"

definition test_empty_key_and_value :: bool where
  "test_empty_key_and_value \<longleftrightarrow>
     roundtrips produce_fnf_encode produce_fnf_decode
       (produce_fnf_default\<lparr>pf_cluster := ''c'', pf_topic := ''t'', pf_key := [], pf_value := []\<rparr>)"

definition test_produce_resp_ok_roundtrip :: bool where
  "test_produce_resp_ok_roundtrip \<longleftrightarrow>
     roundtrips produce_resp_encode produce_resp_decode (ProduceOk \<lparr>da_partition = 7, da_offset = 12345\<rparr>)"

definition test_produce_resp_err_roundtrip :: bool where
  "test_produce_resp_err_roundtrip \<longleftrightarrow>
     roundtrips produce_resp_encode produce_resp_decode
       (ProduceErr \<lparr>de_code = 42, de_message = ''broker not available'', de_retryable = True\<rparr>)"

definition test_produce_resp_invalid_tag :: bool where
  "test_produce_resp_invalid_tag \<longleftrightarrow> is_invalid_tag 0xFF (produce_resp_decode [0xFF])"

definition test_produce_resp_truncated :: bool where
  "test_produce_resp_truncated \<longleftrightarrow> produce_resp_decode [RESP_OK, 0x00] = Err Truncated"

lemma payload_tests: test_decode_truncated test_produce_resp_invalid_tag test_produce_resp_truncated
  by code_simp+

lemma payload_roundtrip_tests:
  test_produce_fnf_roundtrip test_produce_fnf_explicit_partition_and_timestamp test_produce_fnf_with_headers
  test_empty_key_and_value test_produce_resp_ok_roundtrip test_produce_resp_err_roundtrip
  unfolding test_produce_fnf_roundtrip_def test_produce_fnf_explicit_partition_and_timestamp_def
    test_produce_fnf_with_headers_def test_empty_key_and_value_def test_produce_resp_ok_roundtrip_def
    test_produce_resp_err_roundtrip_def Let_def
  by (intro conjI produce_fnf.roundtrips produce_resp.roundtrips;
      simp add: test_decoders test_oks AUTO_PARTITION_def AUTO_TIMESTAMP_def)+

section \<open>error.rs\<close>

definition test_error_resp_roundtrip :: bool where
  "test_error_resp_roundtrip \<longleftrightarrow>
     roundtrips error_resp_encode error_resp_decode
       \<lparr>er_kind = AuthnAuthz, er_retryable = False, er_native_code = - 167, er_message = ''sasl auth failed''\<rparr>"

definition test_unknown_kind_maps_to_internal :: bool where
  "test_unknown_kind_maps_to_internal \<longleftrightarrow>
     (case error_resp_decode (fst (block [put_u16 60000, put_u8 0, put_i32 0, put_u16 0])) of
        Ok e \<Rightarrow> er_kind e = Internal
      | _ \<Rightarrow> False)"

definition test_kind_u16_roundtrip :: bool where
  "test_kind_u16_roundtrip \<longleftrightarrow>
     list_all (\<lambda>k. error_kind_from_u16 (error_kind_as_u16 k) = k)
       [Internal, WorkerUnavailable, BrokerRetryable, TxnState, UnknownTopicOrPartition]"

definition test_default_retryable :: bool where
  "test_default_retryable \<longleftrightarrow>
     default_retryable Timeout \<and> default_retryable WorkerUnavailable
     \<and> \<not> default_retryable AuthnAuthz \<and> \<not> default_retryable InvalidArgument"

definition test_error_truncated :: bool where
  "test_error_truncated \<longleftrightarrow> error_resp_decode (replicate 3 0) = Err Truncated"

lemma error_tests: test_kind_u16_roundtrip test_default_retryable test_error_truncated
  by code_simp+

lemma error_roundtrip_test: test_error_resp_roundtrip
  unfolding test_error_resp_roundtrip_def
  by (intro error_resp.roundtrips; simp add: test_decoders test_oks)

text \<open>Any code of a kind is accepted.\<close>

lemma error_any_kind:
  "error_resp_decode (fst (block [put_u16 w, put_u8 0, put_i32 n, put_u16 0])) =
     Ok \<lparr>er_kind = error_kind_from_u16 w, er_retryable = False, er_native_code = n, er_message = []\<rparr>"
proof -
  have "fst (block [put_u16 w, put_u8 0, put_i32 n, put_u16 0]) =
      be_bytes 2 (unat w) @ [0] @ be_bytes 4 (unat n) @ lay_str16 []"
    by (simp add: codec_defs wire_simps lay_str16_def as_bytes_def)
  moreover have "read_str_u16 field (lay_str16 []) = Ok ([], [])" for field
    using str16.read_layout [of "[]" field "[]"] by (simp add: str16_ok_def ascii_valid_str)
  ultimately show ?thesis
    by (simp add: error_resp_decode_def run_def error_resp_read_def bind_def ret_def wire_simps)
qed

lemma error_unknown_kind_test: test_unknown_kind_maps_to_internal
  unfolding test_unknown_kind_maps_to_internal_def error_any_kind by (simp add: error_kind_from_u16_def)

section \<open>consumer.rs\<close>

definition test_subscribe_req_roundtrip :: bool where
  "test_subscribe_req_roundtrip \<longleftrightarrow>
     roundtrips subscribe_req_encode subscribe_req_decode
       \<lparr>sr_cluster = ''default'', sr_group_id = ''g1'', sr_topics = [''a'', ''b''],
        sr_config = [(''auto.offset.reset'', ''earliest'')]\<rparr>"

definition test_subscribe_resp_ok :: bool where
  "test_subscribe_resp_ok \<longleftrightarrow> roundtrips subscribe_resp_encode subscribe_resp_decode (SubscribeOk 42)"

definition test_subscribe_resp_err :: bool where
  "test_subscribe_resp_err \<longleftrightarrow> roundtrips subscribe_resp_encode subscribe_resp_decode (SubscribeErr ''broker down'')"

definition test_poll_req_roundtrip :: bool where
  "test_poll_req_roundtrip \<longleftrightarrow>
     roundtrips poll_req_encode poll_req_decode \<lparr>pq_subscription_id = 7, pq_max_messages = 100, pq_timeout_ms = 1000\<rparr>"

definition test_poll_resp_empty :: bool where
  "test_poll_resp_empty \<longleftrightarrow> roundtrips poll_resp_encode poll_resp_decode (PollOk [])"

definition test_poll_resp_with_messages :: bool where
  "test_poll_resp_with_messages \<longleftrightarrow>
     roundtrips poll_resp_encode poll_resp_decode
       (PollOk
         [\<lparr>cm_topic = ''orders'', cm_partition = 0, cm_offset = 100, cm_timestamp_ms = 1700000000000,
           cm_key = as_bytes ''k1'', cm_value = as_bytes ''v1'',
           cm_headers = [(''traceparent'', as_bytes ''00-aaaa-bbbb-01'')]\<rparr>,
          \<lparr>cm_topic = ''orders'', cm_partition = 1, cm_offset = 200, cm_timestamp_ms = 1700000001000,
           cm_key = [], cm_value = as_bytes ''v2'', cm_headers = []\<rparr>])"

definition test_commit_req_resp :: bool where
  "test_commit_req_resp \<longleftrightarrow>
     roundtrips commit_req_encode commit_req_decode \<lparr>cq_subscription_id = 99\<rparr>
     \<and> status_roundtrips commit_resp_encode commit_resp_decode ''no offsets''"

definition test_unsubscribe_roundtrip :: bool where
  "test_unsubscribe_roundtrip \<longleftrightarrow> roundtrips unsubscribe_req_encode unsubscribe_req_decode \<lparr>uq_subscription_id = 1\<rparr>"

definition test_register_cluster_roundtrip :: bool where
  "test_register_cluster_roundtrip \<longleftrightarrow>
     roundtrips register_cluster_req_encode register_cluster_req_decode
       \<lparr>rc_cluster = ''orders'',
        rc_config =
          [(''bootstrap.servers'', ''kafka-1:9092,kafka-2:9092''), (''compression.type'', ''lz4''), (''sasl.mechanism'', ''PLAIN'')]\<rparr>"

definition test_register_cluster_resp_ok_err :: bool where
  "test_register_cluster_resp_ok_err \<longleftrightarrow>
     status_roundtrips register_cluster_resp_encode register_cluster_resp_decode ''missing bootstrap.servers''"

lemma consumer_tests:
  test_subscribe_req_roundtrip test_subscribe_resp_ok test_subscribe_resp_err test_poll_req_roundtrip test_poll_resp_empty
  test_poll_resp_with_messages test_unsubscribe_roundtrip test_register_cluster_roundtrip
  unfolding test_subscribe_req_roundtrip_def test_subscribe_resp_ok_def test_subscribe_resp_err_def test_poll_req_roundtrip_def
    test_poll_resp_empty_def test_poll_resp_with_messages_def test_unsubscribe_roundtrip_def test_register_cluster_roundtrip_def
  by (intro subscribe_req.roundtrips subscribe_resp.roundtrips poll_req.roundtrips poll_resp.roundtrips
      unsubscribe_req.roundtrips register_cluster_req.roundtrips; simp add: test_decoders test_oks)+

lemma consumer_status_tests: test_commit_req_resp test_register_cluster_resp_ok_err
  unfolding test_commit_req_resp_def test_register_cluster_resp_ok_err_def
  by (intro conjI commit_req.roundtrips
        status_roundtrips [where field = "''commit_resp''"] status_roundtrips [where field = "''register_cluster_resp''"];
      simp add: test_decoders test_statuses test_oks)+

section \<open>seek.rs, pause\_resume.rs, rebalance.rs\<close>

definition test_seek_by_offset_roundtrip :: bool where
  "test_seek_by_offset_roundtrip \<longleftrightarrow>
     roundtrips seek_req_encode seek_req_decode (ByOffset 7 [(''orders'', 0, 100), (''orders'', 1, 200)])"

definition test_seek_by_timestamp_roundtrip :: bool where
  "test_seek_by_timestamp_roundtrip \<longleftrightarrow>
     roundtrips seek_req_encode seek_req_decode (ByTimestamp 7 1700000000000 [(''orders'', 0)])"

definition test_seek_by_timestamp_all_assigned :: bool where
  "test_seek_by_timestamp_all_assigned \<longleftrightarrow> roundtrips seek_req_encode seek_req_decode (ByTimestamp 1 0 [])"

definition test_seek_resp_ok_err :: bool where
  "test_seek_resp_ok_err \<longleftrightarrow> status_roundtrips seek_resp_encode seek_resp_decode ''no current assignment''"

definition test_pause_roundtrip :: bool where
  "test_pause_roundtrip \<longleftrightarrow>
     roundtrips pause_resume_req_encode pause_resume_req_decode
       \<lparr>pr_subscription_id = 42, pr_op = Pause, pr_partitions = [(''topic-a'', 0), (''topic-a'', 1)]\<rparr>"

definition test_resume_roundtrip :: bool where
  "test_resume_roundtrip \<longleftrightarrow>
     roundtrips pause_resume_req_encode pause_resume_req_decode
       \<lparr>pr_subscription_id = 1, pr_op = Resume, pr_partitions = [(''t'', 0)]\<rparr>"

definition test_empty_partitions :: bool where
  "test_empty_partitions \<longleftrightarrow>
     roundtrips pause_resume_req_encode pause_resume_req_decode \<lparr>pr_subscription_id = 7, pr_op = Pause, pr_partitions = []\<rparr>"

definition test_invalid_op :: bool where
  "test_invalid_op \<longleftrightarrow>
     is_invalid_tag 99 (pause_resume_req_decode (fst (block [put_u64 1, put_u8 99, put_u32 0])))"

definition test_pause_resp_ok_err :: bool where
  "test_pause_resp_ok_err \<longleftrightarrow> status_roundtrips pause_resume_resp_encode pause_resume_resp_decode ''subscription not found''"

definition test_poll_rebalance_req :: bool where
  "test_poll_rebalance_req \<longleftrightarrow>
     roundtrips poll_rebalance_req_encode poll_rebalance_req_decode \<lparr>rb_subscription_id = 42, rb_max_events = 100\<rparr>"

definition test_poll_rebalance_resp_with_events :: bool where
  "test_poll_rebalance_resp_with_events \<longleftrightarrow>
     roundtrips poll_rebalance_resp_encode poll_rebalance_resp_decode
       (RebalanceOk [RevokeEv [(''orders'', 0), (''orders'', 1)], AssignEv [(''orders'', 2)], ErrorEv ''broker timed out''])"

definition test_poll_rebalance_resp_empty :: bool where
  "test_poll_rebalance_resp_empty \<longleftrightarrow> roundtrips poll_rebalance_resp_encode poll_rebalance_resp_decode (RebalanceOk [])"

lemma partition_tests:
  test_seek_by_offset_roundtrip test_seek_by_timestamp_roundtrip test_seek_by_timestamp_all_assigned test_pause_roundtrip
  test_resume_roundtrip test_empty_partitions test_poll_rebalance_req test_poll_rebalance_resp_with_events
  test_poll_rebalance_resp_empty
  unfolding test_seek_by_offset_roundtrip_def test_seek_by_timestamp_roundtrip_def test_seek_by_timestamp_all_assigned_def
    test_pause_roundtrip_def test_resume_roundtrip_def test_empty_partitions_def test_poll_rebalance_req_def
    test_poll_rebalance_resp_with_events_def test_poll_rebalance_resp_empty_def
  by (intro seek_req.roundtrips pause_resume_req.roundtrips poll_rebalance_req.roundtrips poll_rebalance_resp.roundtrips;
      simp add: test_decoders test_oks)+

lemma partition_status_tests: test_seek_resp_ok_err test_pause_resp_ok_err
  unfolding test_seek_resp_ok_err_def test_pause_resp_ok_err_def
  by (intro status_roundtrips [where field = "''seek_resp''"] status_roundtrips [where field = "''pause_resume_resp''"];
      simp add: test_statuses test_oks)+

lemma partition_invalid_op_test: test_invalid_op
  by code_simp

section \<open>txn.rs, send\_offsets.rs, oauth.rs\<close>

definition test_txn_req_roundtrip :: bool where
  "test_txn_req_roundtrip \<longleftrightarrow>
     list_all (\<lambda>op. roundtrips txn_req_encode txn_req_decode \<lparr>tq_cluster = ''main'', tq_op = op\<rparr>) [TxnBegin, TxnCommit, TxnAbort]"

definition test_txn_req_invalid_op :: bool where
  "test_txn_req_invalid_op \<longleftrightarrow>
     is_invalid_tag 99 (txn_req_decode (fst (block [put_u16 4, put_slice (as_bytes ''main''), put_u8 99])))"

definition test_txn_resp_ok_err :: bool where
  "test_txn_resp_ok_err \<longleftrightarrow> status_roundtrips txn_resp_encode txn_resp_decode ''abort failed: ConcurrentTransactions''"

definition test_send_offsets_roundtrip :: bool where
  "test_send_offsets_roundtrip \<longleftrightarrow>
     roundtrips send_offsets_req_encode send_offsets_req_decode
       \<lparr>so_producer_cluster = ''txn'', so_subscription_id = 0xdeadbeefcafebabe, so_group_id = ''stream-consumer'',
        so_offsets = [(''input-a'', 0, 42), (''input-a'', 1, 100), (''input-b'', 0, 0)]\<rparr>"

definition test_send_offsets_empty :: bool where
  "test_send_offsets_empty \<longleftrightarrow>
     roundtrips send_offsets_req_encode send_offsets_req_decode
       \<lparr>so_producer_cluster = ''txn'', so_subscription_id = 1, so_group_id = ''g'', so_offsets = []\<rparr>"

definition test_send_offsets_resp_ok_err :: bool where
  "test_send_offsets_resp_ok_err \<longleftrightarrow>
     status_roundtrips send_offsets_resp_encode send_offsets_resp_decode ''consumer subscription not found''"

definition test_send_offsets_truncated :: bool where
  "test_send_offsets_truncated \<longleftrightarrow>
     (let buf = fst (send_offsets_req_encode
        \<lparr>so_producer_cluster = ''txn'', so_subscription_id = 1, so_group_id = ''g'', so_offsets = [(''t'', 0, 0)]\<rparr>) in
      send_offsets_req_decode (take (length buf - 4) buf) = Err Truncated)"

definition test_oauth_roundtrip :: bool where
  "test_oauth_roundtrip \<longleftrightarrow>
     roundtrips set_oauth_req_encode set_oauth_req_decode
       \<lparr>oa_cluster = ''msk-prod'', oa_token_value = ''eyJhbGciOiJIUzI1NiIsInR5cCI6IkpXVCJ9...'',
        oa_lifetime_ms = 1793000000000, oa_principal_name = ''kafka-client@example.com'',
        oa_extensions = [(''traceparent'', ''00-abc-def-01''), (''tenant'', ''tenant-42'')]\<rparr>"

definition test_oauth_no_extensions :: bool where
  "test_oauth_no_extensions \<longleftrightarrow>
     roundtrips set_oauth_req_encode set_oauth_req_decode
       \<lparr>oa_cluster = ''c'', oa_token_value = ''tok'', oa_lifetime_ms = 0, oa_principal_name = ''p'', oa_extensions = []\<rparr>"

definition test_oauth_resp_ok_err :: bool where
  "test_oauth_resp_ok_err \<longleftrightarrow> status_roundtrips set_oauth_resp_encode set_oauth_resp_decode ''cluster not registered''"

definition test_oauth_truncated :: bool where
  "test_oauth_truncated \<longleftrightarrow>
     (let buf = fst (set_oauth_req_encode
        \<lparr>oa_cluster = ''c'', oa_token_value = ''tok'', oa_lifetime_ms = 0, oa_principal_name = ''p'',
         oa_extensions = [(''k'', ''v'')]\<rparr>) in
      set_oauth_req_decode (take (length buf - 3) buf) = Err Truncated)"

lemma txn_tests:
  test_txn_req_roundtrip test_send_offsets_roundtrip test_send_offsets_empty test_oauth_roundtrip test_oauth_no_extensions
  unfolding test_txn_req_roundtrip_def test_send_offsets_roundtrip_def test_send_offsets_empty_def test_oauth_roundtrip_def
    test_oauth_no_extensions_def list.pred_inject
  by (intro conjI TrueI txn_req.roundtrips send_offsets_req.roundtrips set_oauth_req.roundtrips; simp add: test_decoders test_oks)+

lemma txn_status_tests: test_txn_resp_ok_err test_send_offsets_resp_ok_err test_oauth_resp_ok_err
  unfolding test_txn_resp_ok_err_def test_send_offsets_resp_ok_err_def test_oauth_resp_ok_err_def
  by (intro status_roundtrips [where field = "''txn_resp''"] status_roundtrips [where field = "''send_offsets_resp''"]
        status_roundtrips [where field = "''set_oauth_token_resp''"]; simp add: test_statuses test_oks)+

lemma txn_invalid_op_test: test_txn_req_invalid_op
  by code_simp

lemma txn_truncated_tests: test_send_offsets_truncated test_oauth_truncated
  unfolding test_send_offsets_truncated_def test_oauth_truncated_def Let_def test_decoders
  by (rule send_offsets_req.cut_short set_oauth_req.cut_short; simp add: test_oks send_offsets_req_layout_def set_oauth_req_layout_def)+

end
