(* ===== verification/Worker_Unit_Tests.thy ===== *)
theory Worker_Unit_Tests
  imports Kafka_Backend Server_Run
begin

text \<open>
  The unit tests of \<open>cluster.rs\<close>, \<open>shutdown.rs\<close>, \<open>error.rs\<close>, \<open>consumer.rs\<close>, \<open>metrics.rs\<close> and \<open>producer/real.rs\<close> in
  \<open>src/worker/src\<close>, run on the model.
\<close>

section \<open>cluster.rs\<close>

definition test_cfg :: "string \<Rightarrow> cluster_config" where
  "test_cfg servers = [(''bootstrap.servers'', servers)]"

definition test_token :: "string \<Rightarrow> stored_oauth_token" where
  "test_token v = \<lparr>st_token_value = v, st_lifetime_ms = 1000000000, st_principal_name = ''p'', st_extensions = []\<rparr>"

definition config_value :: "cluster_registry \<Rightarrow> string \<Rightarrow> string \<Rightarrow> string option" where
  "config_value r cluster key = Option.bind (registry_get r cluster) (\<lambda>c. map_of c key)"

definition slot_token :: "cluster_registry \<Rightarrow> slot_ref option \<Rightarrow> stored_oauth_token option" where
  "slot_token r slot = Option.bind slot (\<lambda>i. reg_slots r ! i)"

definition test_register_then_get :: bool where
  "test_register_then_get \<longleftrightarrow>
     (case register ''main'' (test_cfg ''kafka:9092'') registry_new of
        (added, r) \<Rightarrow> added \<and> config_value r ''main'' ''bootstrap.servers'' = Some ''kafka:9092'')"

definition test_register_overwrite :: bool where
  "test_register_overwrite \<longleftrightarrow>
     (case register ''c'' (test_cfg ''b:9092'') (snd (register ''c'' (test_cfg ''a:9092'') registry_new)) of
        (added, r) \<Rightarrow> \<not> added \<and> config_value r ''c'' ''bootstrap.servers'' = Some ''b:9092'')"

definition test_multiple_clusters_isolated :: bool where
  "test_multiple_clusters_isolated \<longleftrightarrow>
     (let r = snd (register ''audit'' [(''k'', ''v2'')] (snd (register ''main'' [(''k'', ''v1'')] registry_new))) in
      registry_len r = 2 \<and> config_value r ''main'' ''k'' = Some ''v1'' \<and> config_value r ''audit'' ''k'' = Some ''v2'')"

definition test_oauth_token_set_and_read :: bool where
  "test_oauth_token_set_and_read \<longleftrightarrow>
     (let r = snd (register ''msk'' (test_cfg ''msk:9094'') registry_new); slot = token_slot_for r ''msk'' in
      case set_oauth_token ''msk'' (test_token ''jwt-1'') r of
        (res, r') \<Rightarrow>
          slot \<noteq> None \<and> slot_token r slot = None \<and> res = Ok ()
          \<and> map_option st_token_value (slot_token r' slot) = Some ''jwt-1'')"

definition test_oauth_token_overwrite :: bool where
  "test_oauth_token_overwrite \<longleftrightarrow>
     (let r = snd (register ''msk'' (test_cfg ''msk:9094'') registry_new);
          r1 = snd (set_oauth_token ''msk'' (test_token ''jwt-1'') r);
          r2 = snd (set_oauth_token ''msk'' (test_token ''jwt-2'') r1) in
      map_option st_token_value (slot_token r2 (token_slot_for r2 ''msk'')) = Some ''jwt-2'')"

fun contains_str :: "string \<Rightarrow> string \<Rightarrow> bool" where
  "contains_str [] p \<longleftrightarrow> p = []"
| "contains_str (c # s) p \<longleftrightarrow> starts_with (c # s) p \<or> contains_str s p"

definition test_oauth_token_unknown_cluster :: bool where
  "test_oauth_token_unknown_cluster \<longleftrightarrow>
     (case fst (set_oauth_token ''nope'' (test_token ''x'') registry_new) of
        Err e \<Rightarrow> contains_str e ''not registered''
      | _ \<Rightarrow> False)"

definition test_register_overwrite_keeps_token_slot :: bool where
  "test_register_overwrite_keeps_token_slot \<longleftrightarrow>
     (let r1 = snd (register ''c'' (test_cfg ''a:9092'') registry_new); slot1 = token_slot_for r1 ''c'';
          r2 = snd (register ''c'' (test_cfg ''b:9092'') r1); slot2 = token_slot_for r2 ''c'';
          r3 = snd (set_oauth_token ''c'' (test_token ''jwt-x'') r2) in
      slot1 \<noteq> None \<and> slot1 = slot2 \<and> map_option st_token_value (slot_token r3 slot1) = Some ''jwt-x'')"

lemma cluster_tests:
  test_register_then_get test_register_overwrite test_multiple_clusters_isolated test_oauth_token_set_and_read
  test_oauth_token_overwrite test_oauth_token_unknown_cluster test_register_overwrite_keeps_token_slot
  by code_simp+

section \<open>shutdown.rs\<close>

definition test_new_starts_not_draining :: bool where
  "test_new_starts_not_draining \<longleftrightarrow> \<not> is_draining shutdown_new"

definition test_start_draining_flips_flag :: bool where
  "test_start_draining_flips_flag \<longleftrightarrow> is_draining (start_draining shutdown_new)"

definition test_start_draining_idempotent :: bool where
  "test_start_draining_idempotent \<longleftrightarrow> is_draining (start_draining (start_draining (start_draining shutdown_new)))"

lemma shutdown_tests: test_new_starts_not_draining test_start_draining_flips_flag test_start_draining_idempotent
  by code_simp+

section \<open>error.rs\<close>

definition test_from_anyhow_extracts_kind :: bool where
  "test_from_anyhow_extracts_kind \<longleftrightarrow>
     er_kind (from_anyhow [CWorker (worker_error_new ClusterNotRegistered ''nope'')]) = ClusterNotRegistered"

definition test_from_anyhow_fallback_internal :: bool where
  "test_from_anyhow_fallback_internal \<longleftrightarrow> er_kind (from_anyhow [CMsg ''some random error'']) = Internal"

definition test_from_anyhow_through_context :: bool where
  "test_from_anyhow_through_context \<longleftrightarrow>
     (case with_context ''outer wrapping'' (Err [CWorker (worker_error_new Timeout ''t'')] :: (anyhow, unit) outcome) of
        Err e \<Rightarrow> er_kind (from_anyhow e) = Timeout
      | _ \<Rightarrow> False)"

definition test_native_code_preserved :: bool where
  "test_native_code_preserved \<longleftrightarrow>
     (let resp = to_error_resp \<lparr>we_kind = BrokerRetryable, we_retryable = True, we_native_code = - 184, we_message = ''queue full''\<rparr> in
      er_native_code resp = - 184 \<and> er_retryable resp)"

lemma worker_error_tests:
  test_from_anyhow_extracts_kind test_from_anyhow_fallback_internal test_from_anyhow_through_context test_native_code_preserved
  by code_simp+

section \<open>consumer.rs\<close>

definition fake_req :: subscribe_req where
  "fake_req = \<lparr>sr_cluster = ''default'', sr_group_id = ''g1'', sr_topics = [''t''], sr_config = []\<rparr>"

definition test_subscribe_assigns_unique_id :: bool where
  "test_subscribe_assigns_unique_id \<longleftrightarrow>
     (case logging_subscribe fake_req registry_new logging_consumer_new of
        (a, c) \<Rightarrow> a \<noteq> fst (logging_subscribe fake_req registry_new c))"

definition injected_poll :: "consumer_message list \<Rightarrow> u32 \<Rightarrow> nat option" where
  "injected_poll msgs mx =
     (case logging_subscribe fake_req registry_new (logging_inject msgs logging_consumer_new) of
        (Ok sub, c) \<Rightarrow> (case fst (logging_poll sub mx 0 c) of Ok r \<Rightarrow> Some (length r) | _ \<Rightarrow> None)
      | _ \<Rightarrow> None)"

definition test_poll_returns_injected_messages :: bool where
  "test_poll_returns_injected_messages \<longleftrightarrow>
     injected_poll
       [\<lparr>cm_topic = ''t'', cm_partition = 0, cm_offset = 0, cm_timestamp_ms = 1, cm_key = as_bytes ''k'',
         cm_value = as_bytes ''v'', cm_headers = []\<rparr>] 10 = Some 1"

definition test_poll_respects_max_messages :: bool where
  "test_poll_respects_max_messages \<longleftrightarrow>
     injected_poll
       (replicate 5 \<lparr>cm_topic = ''t'', cm_partition = 0, cm_offset = 0, cm_timestamp_ms = 1, cm_key = [], cm_value = [],
          cm_headers = []\<rparr>) 2 = Some 2"

lemma logging_consumer_tests: test_subscribe_assigns_unique_id test_poll_returns_injected_messages test_poll_respects_max_messages
  by code_simp+

section \<open>producer/real.rs\<close>

definition test_is_retryable_true_for_transient :: bool where
  "test_is_retryable_true_for_transient \<longleftrightarrow>
     list_all is_retryable
       [RK_RequestTimedOut, RK_NetworkException, RK_LeaderNotAvailable, RK_NotLeaderForPartition, RK_BrokerNotAvailable,
        RK_ReplicaNotAvailable, RK_KafkaStorageError, RK_QueueFull, RK_RebalanceInProgress, RK_UnknownTopicOrPartition,
        RK_ConcurrentTransactions]"

text \<open>\<open>InvalidPartitions\<close> and \<open>InvalidTopic\<close> have the codes 37 and 17.\<close>

definition test_is_retryable_false_for_permanent :: bool where
  "test_is_retryable_false_for_permanent \<longleftrightarrow>
     list_all (\<lambda>c. \<not> is_retryable c)
       [RK_SaslAuthenticationFailed, RK_TopicAuthorizationFailed, RK_GroupAuthorizationFailed, RK_ClusterAuthorizationFailed,
        RK_MessageSizeTooLarge, RK_Other 37, RK_Other 17]"

definition test_kafka_error_to_kind_authnz :: bool where
  "test_kafka_error_to_kind_authnz \<longleftrightarrow>
     list_all (\<lambda>c. kafka_error_to_kind (MessageProduction c) = AuthnAuthz)
       [RK_SaslAuthenticationFailed, RK_TopicAuthorizationFailed, RK_GroupAuthorizationFailed, RK_ClusterAuthorizationFailed]"

definition test_kafka_error_to_kind_message_too_large :: bool where
  "test_kafka_error_to_kind_message_too_large \<longleftrightarrow>
     kafka_error_to_kind (MessageProduction RK_MessageSizeTooLarge) = MessageTooLarge"

definition test_kafka_error_to_kind_unknown_topic :: bool where
  "test_kafka_error_to_kind_unknown_topic \<longleftrightarrow>
     kafka_error_to_kind (MessageProduction RK_UnknownTopicOrPartition) = UnknownTopicOrPartition"

definition test_kafka_error_to_kind_retryable_maps_to_broker_retryable :: bool where
  "test_kafka_error_to_kind_retryable_maps_to_broker_retryable \<longleftrightarrow>
     list_all (\<lambda>c. kafka_error_to_kind (MessageProduction c) = BrokerRetryable)
       [RK_RequestTimedOut, RK_LeaderNotAvailable, RK_QueueFull]"

definition test_kafka_error_to_kind_non_production_returns_internal :: bool where
  "test_kafka_error_to_kind_non_production_returns_internal \<longleftrightarrow>
     kafka_error_to_kind (AdminOpCreation ''some admin op'') = Internal"

text \<open>The texts of the library are its own; what the first test says of them is left out.\<close>

definition test_kafka_error_to_worker_preserves_native_code_and_retryable :: "rdkafka_errors \<Rightarrow> bool" where
  "test_kafka_error_to_worker_preserves_native_code_and_retryable rk \<longleftrightarrow>
     (let w = kafka_error_to_worker rk (MessageProduction RK_LeaderNotAvailable) in
      we_kind w = BrokerRetryable \<and> we_retryable w \<and> we_native_code w = rk_code_num rk RK_LeaderNotAvailable)"

definition test_kafka_error_to_worker_permanent_error :: "rdkafka_errors \<Rightarrow> bool" where
  "test_kafka_error_to_worker_permanent_error rk \<longleftrightarrow>
     (let w = kafka_error_to_worker rk (MessageProduction RK_MessageSizeTooLarge) in
      we_kind w = MessageTooLarge \<and> \<not> we_retryable w)"

definition test_build_headers_none_when_empty :: bool where
  "test_build_headers_none_when_empty \<longleftrightarrow> build_headers [] = None"

definition test_build_headers_preserves_keys_and_values :: bool where
  "test_build_headers_preserves_keys_and_values \<longleftrightarrow>
     map_option length (build_headers [(''trace-id'', as_bytes ''abc123''), (''source'', as_bytes ''svc-a'')]) = Some 2"

definition test_build_headers_binary_safe_values :: bool where
  "test_build_headers_binary_safe_values \<longleftrightarrow>
     map_option length (build_headers [(''raw'', [0x61, 0x00, 0x62, 0xff])]) = Some 1"

lemma producer_tests:
  test_is_retryable_true_for_transient test_is_retryable_false_for_permanent test_kafka_error_to_kind_authnz
  test_kafka_error_to_kind_message_too_large test_kafka_error_to_kind_unknown_topic
  test_kafka_error_to_kind_retryable_maps_to_broker_retryable test_kafka_error_to_kind_non_production_returns_internal
  test_build_headers_none_when_empty test_build_headers_preserves_keys_and_values test_build_headers_binary_safe_values
  by code_simp+

lemma producer_worker_error_tests:
  "test_kafka_error_to_worker_preserves_native_code_and_retryable rk" "test_kafka_error_to_worker_permanent_error rk"
  by (simp_all add: test_kafka_error_to_worker_preserves_native_code_and_retryable_def
      test_kafka_error_to_worker_permanent_error_def kafka_error_to_worker_def is_retryable_def)

section \<open>metrics.rs\<close>

definition test_to_prometheus_text_contains_all_counters :: bool where
  "test_to_prometheus_text_contains_all_counters \<longleftrightarrow>
     (let text = to_prometheus_text ''0.1.0'' 0 (metrics_new\<lparr>mt_produce_req_total := inc (inc 0)\<rparr>) in
      list_all (contains_str text)
        [''hi_kafka_produce_req_total 2'', ''hi_kafka_worker_uptime_seconds'', ''hi_kafka_worker_info{version='',
         ''# TYPE hi_kafka_produce_resp_ok_total counter''])"

definition test_consumer_backpressure_counters_in_prometheus :: bool where
  "test_consumer_backpressure_counters_in_prometheus \<longleftrightarrow>
     (let text = to_prometheus_text ''0.1.0'' 0
        (metrics_new\<lparr>mt_consumer_pause_total := inc (inc 0), mt_consumer_resume_total := inc 0,
           mt_consumer_messages_dropped_total := inc 0, mt_consumer_stream_errors_total := inc (inc (inc 0))\<rparr>) in
      list_all (contains_str text)
        [''hi_kafka_consumer_pause_total 2'', ''hi_kafka_consumer_resume_total 1'',
         ''hi_kafka_consumer_messages_dropped_total 1'', ''hi_kafka_consumer_stream_errors_total 3'']
      \<and> list_all (\<lambda>c. contains_str text (''# TYPE '' @ c @ '' counter''))
        [''hi_kafka_consumer_pause_total'', ''hi_kafka_consumer_resume_total'', ''hi_kafka_consumer_messages_dropped_total'',
         ''hi_kafka_consumer_stream_errors_total''])"

definition test_counter_starts_at_zero :: bool where
  "test_counter_starts_at_zero \<longleftrightarrow> contains_str (to_prometheus_text ''0.1.0'' 0 metrics_new) ''hi_kafka_ipc_frames_total 0''"

definition test_http_serve_get_metrics :: bool where
  "test_http_serve_get_metrics \<longleftrightarrow>
     (let s = metrics_response ''0.1.0'' 0 (metrics_new\<lparr>mt_ipc_frames_total := inc 0\<rparr>)
        (as_bytes (''GET /metrics HTTP/1.1'' @ crlf @ ''Host: x'' @ crlf @ crlf)) in
      starts_with s ''HTTP/1.1 200 OK'' \<and> contains_str s ''hi_kafka_ipc_frames_total 1'')"

lemma starts_with_iff: "starts_with s p \<longleftrightarrow> (\<exists>b. s = p @ b)"
  by (metis append_eq_conv_conj append_take_drop_id starts_with_def)

lemma contains_iff: "contains_str s p \<longleftrightarrow> (\<exists>a b. s = a @ p @ b)"
proof (induction s)
  case (Cons c s)
  have "(\<exists>a b. c # s = a @ p @ b) \<longleftrightarrow> (\<exists>b. c # s = p @ b) \<or> (\<exists>a b. s = a @ p @ b)"
    by (metis append_Cons append_Nil append_eq_Cons_conv)
  with Cons show ?case by (simp add: starts_with_iff)
qed simp

lemma contains_append: "contains_str t p \<Longrightarrow> contains_str (s @ t) p"
  unfolding contains_iff by (metis append.assoc)

lemma contains_front: "contains_str s p \<Longrightarrow> contains_str (s @ t) p"
  unfolding contains_iff by (metis append.assoc)

text \<open>A counter appears with its value and its type.\<close>

definition counter_in :: "string \<Rightarrow> string \<Rightarrow> u64 \<Rightarrow> bool" where
  "counter_in s name v \<longleftrightarrow> contains_str s (name @ '' '' @ show_nat (unat v)) \<and> contains_str s (''# TYPE '' @ name @ '' counter'')"

lemma counter_in_append: "counter_in t name v \<Longrightarrow> counter_in (s @ t) name v"
  by (simp add: counter_in_def contains_append)

lemma counter_in_front: "counter_in s name v \<Longrightarrow> counter_in (s @ t) name v"
  by (simp add: counter_in_def contains_front)

lemma counter_in_emit: "counter_in (emit_counter name help v) name v"
proof -
  have "emit_counter name help v =
      (''# HELP '' @ name @ '' '' @ help @ nl @ ''# TYPE '' @ name @ '' counter'' @ nl) @ (name @ '' '' @ show_nat (unat v)) @ nl"
    "emit_counter name help v =
      (''# HELP '' @ name @ '' '' @ help @ nl) @ (''# TYPE '' @ name @ '' counter'') @ (nl @ name @ '' '' @ show_nat (unat v) @ nl)"
    by (simp_all add: emit_counter_def)
  then show ?thesis unfolding counter_in_def contains_iff by blast
qed

lemma text_counters:
  "counter_in (to_prometheus_text ver up m) ''hi_kafka_ipc_frames_total'' (mt_ipc_frames_total m)"
  "counter_in (to_prometheus_text ver up m) ''hi_kafka_produce_req_total'' (mt_produce_req_total m)"
  "counter_in (to_prometheus_text ver up m) ''hi_kafka_produce_resp_ok_total'' (mt_produce_resp_ok_total m)"
  "counter_in (to_prometheus_text ver up m) ''hi_kafka_consumer_pause_total'' (mt_consumer_pause_total m)"
  "counter_in (to_prometheus_text ver up m) ''hi_kafka_consumer_resume_total'' (mt_consumer_resume_total m)"
  "counter_in (to_prometheus_text ver up m) ''hi_kafka_consumer_messages_dropped_total'' (mt_consumer_messages_dropped_total m)"
  "counter_in (to_prometheus_text ver up m) ''hi_kafka_consumer_stream_errors_total'' (mt_consumer_stream_errors_total m)"
  unfolding to_prometheus_text_def
  by ((rule counter_in_emit | (rule counter_in_front, rule counter_in_emit) | rule counter_in_append)+)

lemma text_info:
  "contains_str (to_prometheus_text ver up m) ''hi_kafka_worker_uptime_seconds''"
  "contains_str (to_prometheus_text ver up m) ''hi_kafka_worker_info{version=''"
proof -
  have u: "contains_str ''# TYPE hi_kafka_worker_uptime_seconds gauge'' ''hi_kafka_worker_uptime_seconds''"
    and i: "contains_str ''hi_kafka_worker_info{version='' ''hi_kafka_worker_info{version=''"
    by (simp_all add: starts_with_def)
  show "contains_str (to_prometheus_text ver up m) ''hi_kafka_worker_uptime_seconds''"
    "contains_str (to_prometheus_text ver up m) ''hi_kafka_worker_info{version=''"
    unfolding to_prometheus_text_def
    by ((rule contains_front, (rule u | rule i)) | rule contains_append)+
qed

lemma metrics_tests:
  test_to_prometheus_text_contains_all_counters test_consumer_backpressure_counters_in_prometheus test_counter_starts_at_zero
proof -
  have n: "show_nat 0 = ''0''" "show_nat (Suc 0) = ''1''" "show_nat 2 = ''2''" "show_nat 3 = ''3''" by code_simp+
  have i: "unat (inc 0) = Suc 0" "unat (inc (inc 0)) = 2" "unat (inc (inc (inc 0))) = 3" by (simp_all add: inc_def)
  note counters = text_counters [unfolded counter_in_def]
  show test_counter_starts_at_zero
    using counters(1) [of "''0.1.0''" 0 metrics_new] by (simp add: test_counter_starts_at_zero_def metrics_new_def n)
  show test_to_prometheus_text_contains_all_counters
    unfolding test_to_prometheus_text_contains_all_counters_def Let_def
    using counters(2,3) [of "''0.1.0''" 0 "metrics_new\<lparr>mt_produce_req_total := inc (inc 0)\<rparr>"] text_info
    by (simp add: n i)
  show test_consumer_backpressure_counters_in_prometheus
    unfolding test_consumer_backpressure_counters_in_prometheus_def Let_def
    using counters(4-7) [of "''0.1.0''" 0 "metrics_new\<lparr>mt_consumer_pause_total := inc (inc 0), mt_consumer_resume_total := inc 0,
           mt_consumer_messages_dropped_total := inc 0, mt_consumer_stream_errors_total := inc (inc (inc 0))\<rparr>"]
    by (simp add: n i)
qed

lemma metrics_http_test: test_http_serve_get_metrics
proof -
  let ?m = "metrics_new\<lparr>mt_ipc_frames_total := inc 0\<rparr>"
  let ?req = "as_bytes (''GET /metrics HTTP/1.1'' @ crlf @ ''Host: x'' @ crlf @ crlf)"
  let ?body = "to_prometheus_text ''0.1.0'' 0 ?m"
  have line: "starts_with (before_crlf (case from_utf8 (take 256 ?req) of Some s \<Rightarrow> s | None \<Rightarrow> [])) ''GET /metrics''"
    by code_simp
  obtain h where r: "metrics_response ''0.1.0'' 0 ?m ?req = ''HTTP/1.1 200 OK'' @ h @ ?body"
    unfolding metrics_response_def Let_def using line by simp
  have "contains_str ?body (''hi_kafka_ipc_frames_total'' @ '' '' @ show_nat (unat (inc 0)))"
    using text_counters(1) [of "''0.1.0''" 0 ?m] by (simp add: counter_in_def)
  moreover have "show_nat (unat (inc 0)) = ''1''" by code_simp
  ultimately have "contains_str ?body ''hi_kafka_ipc_frames_total 1''" by simp
  then show ?thesis
    unfolding test_http_serve_get_metrics_def Let_def r
    by (intro conjI contains_append) (simp add: starts_with_def)
qed

section \<open>consumer/real.rs: automatic pausing\<close>

definition pause_does_not_trigger_below_threshold :: bool where
  "pause_does_not_trigger_below_threshold \<longleftrightarrow> try_transition_to_paused 99 100 False 0 = (False, False, 0)"

definition pause_triggers_at_threshold :: bool where
  "pause_triggers_at_threshold \<longleftrightarrow> try_transition_to_paused 100 100 False 0 = (True, True, 1)"

definition pause_idempotent_when_already_paused :: bool where
  "pause_idempotent_when_already_paused \<longleftrightarrow> try_transition_to_paused 200 100 True 1 = (False, True, 1)"

definition pause_zero_threshold_disables :: bool where
  "pause_zero_threshold_disables \<longleftrightarrow> try_transition_to_paused (2 ^ 64 - 1) 0 False 0 = (False, False, 0)"

definition resume_only_when_currently_paused :: bool where
  "resume_only_when_currently_paused \<longleftrightarrow>
     (case try_transition_to_resumed 0 100 False 0 of (fired, paused, n) \<Rightarrow> \<not> fired \<and> n = 0)"

definition resume_triggers_at_low_watermark :: bool where
  "resume_triggers_at_low_watermark \<longleftrightarrow> try_transition_to_resumed 50 100 True 0 = (True, False, 1)"

definition resume_does_not_trigger_above_low_watermark :: bool where
  "resume_does_not_trigger_above_low_watermark \<longleftrightarrow> try_transition_to_resumed 150 100 True 0 = (False, True, 0)"

definition full_hysteresis_cycle :: bool where
  "full_hysteresis_cycle \<longleftrightarrow>
     (let (f1, p1, n1) = try_transition_to_paused 0 80 False 0;
          (f2, p2, n2) = try_transition_to_paused 80 80 p1 n1;
          (f3, p3, n3) = try_transition_to_paused 90 80 p2 n2;
          (f4, p4, m4) = try_transition_to_resumed 50 20 p3 0;
          (f5, p5, m5) = try_transition_to_resumed 20 20 p4 m4;
          (f6, p6, m6) = try_transition_to_resumed 0 20 p5 m5 in
      \<not> f1 \<and> f2 \<and> \<not> f3 \<and> \<not> f4 \<and> f5 \<and> \<not> f6 \<and> n3 = 1 \<and> m6 = 1)"

lemma backpressure_tests:
  pause_does_not_trigger_below_threshold pause_triggers_at_threshold pause_idempotent_when_already_paused
  pause_zero_threshold_disables resume_only_when_currently_paused resume_triggers_at_low_watermark
  resume_does_not_trigger_above_low_watermark full_hysteresis_cycle
  by (simp_all add: pause_does_not_trigger_below_threshold_def pause_triggers_at_threshold_def
      pause_idempotent_when_already_paused_def pause_zero_threshold_disables_def resume_only_when_currently_paused_def
      resume_triggers_at_low_watermark_def resume_does_not_trigger_above_low_watermark_def full_hysteresis_cycle_def
      try_transition_to_paused_def try_transition_to_resumed_def)

definition default_config_reads_env :: "(string \<Rightarrow> nat option) \<Rightarrow> bool" where
  "default_config_reads_env env \<longleftrightarrow>
     (let cfg = default_config
        (env(''HI_KAFKA_CONSUMER_BUFFER_CAPACITY'' := None, ''HI_KAFKA_CONSUMER_PAUSE_AT'' := None,
             ''HI_KAFKA_CONSUMER_RESUME_AT'' := None)) in
      kc_buffer_capacity cfg = 10000 \<and> kc_pause_at cfg = 8000 \<and> kc_resume_at cfg = 2000)"

lemma default_config_test: "default_config_reads_env env"
  by (simp add: default_config_reads_env_def default_config_def read_env_usize_def usize_mul_def Let_def)

end
