(* ===== verification/Ext_Unit_Tests.thy ===== *)
theory Ext_Unit_Tests
  imports Proto_Tests Worker_Unit_Tests Ext_Protocol
begin

text \<open>
  The unit tests of \<open>src/ext/src/protocol.rs\<close>, run on the model. The counter of correlation ids is at its start
  in each of them.
\<close>

section \<open>What the tests look at\<close>

text \<open>The parsed header of a frame that was built.\<close>

definition built_header :: "(string, bytes) outcome \<Rightarrow> parsed_header option" where
  "built_header r = (case r of Ok bytes \<Rightarrow> (case parse_header_only bytes of Ok h \<Rightarrow> Some h | _ \<Rightarrow> None) | _ \<Rightarrow> None)"

definition req_header :: "(string, u64 \<times> bytes) outcome \<times> u64 \<Rightarrow> (u64 \<times> parsed_header) option" where
  "req_header r =
     (case fst r of
        Ok (cid, bytes) \<Rightarrow> map_option (Pair cid) (built_header (Ok bytes))
      | _ \<Rightarrow> None)"

definition req_kind :: "(string, u64 \<times> bytes) outcome \<times> u64 \<Rightarrow> frame_type \<Rightarrow> bool" where
  "req_kind r kind \<longleftrightarrow> map_option (\<lambda>(cid, h). ph_kind_byte h) (req_header r) = Some (frame_type_code kind)"

definition req_kind_and_cid :: "(string, u64 \<times> bytes) outcome \<times> u64 \<Rightarrow> frame_type \<Rightarrow> bool" where
  "req_kind_and_cid r kind \<longleftrightarrow>
     (case req_header r of
        Some (cid, h) \<Rightarrow> ph_kind_byte h = frame_type_code kind \<and> ph_cid h = cid
      | None \<Rightarrow> False)"

definition fails_with :: "(string, 'a) outcome \<Rightarrow> string \<Rightarrow> bool" where
  "fails_with r p \<longleftrightarrow> (case r of Err e \<Rightarrow> contains_str e p | _ \<Rightarrow> False)"

definition test_resp :: "frame_type \<Rightarrow> u64 \<Rightarrow> writer \<Rightarrow> bytes" where
  "test_resp kind cid w = snd (encode_frame kind cid (fst w) [])"

definition frame_len :: "(string, bytes) outcome \<Rightarrow> nat option" where
  "frame_len r = (case r of Ok bytes \<Rightarrow> Some (length bytes) | _ \<Rightarrow> None)"

lemma header_of_frame:
  assumes "length payload \<le> MAX_PAYLOAD_LEN"
  shows "parse_header_only (frame_bytes (frame_new kind cid payload)) =
    Ok \<lparr>ph_kind_byte = frame_type_code kind, ph_cid = cid, ph_payload_len = of_nat (length payload)\<rparr>"
proof -
  have "HEADER_LEN \<le> length (frame_bytes (frame_new kind cid payload))"
    by (simp add: frame_bytes_def frame_new_def HEADER_LEN_def)
  then show ?thesis
    using decode_new [OF assms] by (simp add: parse_header_only_def decode_header_take)
qed

context codec
begin

lemma req_header_with:
  assumes "wf m" and "length (layout m) \<le> MAX_PAYLOAD_LEN"
  shows "req_header (build_with pmsg fmsg kind (encode m) n) =
    Some (n, \<lparr>ph_kind_byte = frame_type_code kind, ph_cid = n, ph_payload_len = of_nat (length (layout m))\<rparr>)"
  using build_with_fits [OF encode_layout [OF assms(1)] assms(2)]
  by (simp add: req_header_def built_header_def header_of_frame [OF assms(2)])

lemma built_header_oneway:
  assumes "wf m" and "length (layout m) \<le> MAX_PAYLOAD_LEN"
  shows "built_header (build_oneway pmsg fmsg kind (encode m)) =
    Some \<lparr>ph_kind_byte = frame_type_code kind, ph_cid = 0, ph_payload_len = of_nat (length (layout m))\<rparr>"
  using build_oneway_fits [OF encode_layout [OF assms(1)] assms(2)]
  by (simp add: built_header_def header_of_frame [OF assms(2)])

lemma test_resp_frame:
  assumes "wf m" and "length (layout m) \<le> MAX_PAYLOAD_LEN"
  shows "test_resp kind cid (encode m) = frame_bytes (frame_new kind cid (layout m))"
  using encode_layout [OF assms(1)] encode_new [OF assms(2)] by (simp add: test_resp_def)

end

section \<open>Headers\<close>

definition test_fnf_frame_roundtrip_via_parse_header :: bool where
  "test_fnf_frame_roundtrip_via_parse_header \<longleftrightarrow>
     map_option (\<lambda>h. (ph_kind_byte h, ph_cid h))
       (built_header (build_fnf_frame ''c'' ''t'' (as_bytes ''k'') (as_bytes ''v'') [] (- 1) (- 1))) =
     Some (frame_type_code FT_ProduceFnf, 0)"

definition test_req_frame_assigns_monotonic_cid :: bool where
  "test_req_frame_assigns_monotonic_cid \<longleftrightarrow>
     (case build_req_frame ''c'' ''t'' (as_bytes ''k'') (as_bytes ''v'') [] (- 1) (- 1) cid_start of
        (Ok (cid1, _), n) \<Rightarrow>
          (case fst (build_req_frame ''c'' ''t'' (as_bytes ''k'') (as_bytes ''v'') [] (- 1) (- 1) n) of
             Ok (cid2, _) \<Rightarrow> cid1 < cid2
           | _ \<Rightarrow> False)
      | _ \<Rightarrow> False)"

definition test_hello_frame_shape :: bool where
  "test_hello_frame_shape \<longleftrightarrow>
     frame_len build_hello_frame = Some (HEADER_LEN + 1)
     \<and> built_header build_hello_frame = Some \<lparr>ph_kind_byte = frame_type_code FT_Hello, ph_cid = 0, ph_payload_len = 1\<rparr>"

definition test_hello_resp_ok :: bool where
  "test_hello_resp_ok \<longleftrightarrow> parse_hello_resp (test_resp FT_Hello 0 (hello_resp_encode \<lparr>hs_major = PROTOCOL_MAJOR\<rparr>)) = Ok ()"

definition test_hello_resp_version_mismatch :: bool where
  "test_hello_resp_version_mismatch \<longleftrightarrow>
     fails_with (parse_hello_resp (test_resp FT_Hello 0 (hello_resp_encode \<lparr>hs_major = PROTOCOL_MAJOR + 1\<rparr>)))
       ''PROTOCOL_MAJOR mismatch''"

definition test_hello_resp_wrong_kind :: bool where
  "test_hello_resp_wrong_kind \<longleftrightarrow> fails_with (parse_hello_resp (test_resp FT_Ping 0 (block []))) ''expected HELLO RESP''"

definition test_hello_resp_too_short :: bool where
  "test_hello_resp_too_short \<longleftrightarrow> fails_with (parse_hello_resp (replicate 12 0)) ''too short''"

definition test_goodbye_frame_shape :: bool where
  "test_goodbye_frame_shape \<longleftrightarrow>
     frame_len build_goodbye_frame = Some HEADER_LEN
     \<and> built_header build_goodbye_frame = Some \<lparr>ph_kind_byte = frame_type_code FT_Goodbye, ph_cid = 0, ph_payload_len = 0\<rparr>"

definition test_unsubscribe_frame_shape_and_cid :: bool where
  "test_unsubscribe_frame_shape_and_cid \<longleftrightarrow>
     built_header (build_unsubscribe_frame 42) =
       Some \<lparr>ph_kind_byte = frame_type_code FT_Unsubscribe, ph_cid = 0, ph_payload_len = 8\<rparr>"

definition test_parse_header_too_short :: bool where
  "test_parse_header_too_short \<longleftrightarrow> fails_with (parse_header_only (replicate 12 0)) ''too short''"

definition test_next_cid_monotonic_batch :: bool where
  "test_next_cid_monotonic_batch \<longleftrightarrow>
     fst (fold (\<lambda>_ (ok, prev, n). case next_cid n of (c, n') \<Rightarrow> (ok \<and> prev < c, c, n')) [0..<100]
       (True, next_cid cid_start))"

lemma header_tests: test_hello_resp_too_short test_parse_header_too_short test_next_cid_monotonic_batch
  by code_simp+

lemmas hello_defs = hello_layout_def HEADER_LEN_def MAX_PAYLOAD_LEN_def

lemma header_fnf_test: test_fnf_frame_roundtrip_via_parse_header
  unfolding test_fnf_frame_roundtrip_via_parse_header_def build_fnf_frame_def build_payload_def
  by (subst produce_fnf.built_header_oneway)
    (simp_all add: test_oks produce_fnf_layout_def headers_layout_def lay_str16_def lay_bytes32_def lay_list32_def MAX_PAYLOAD_LEN_def)

lemma header_hello_test: test_hello_frame_shape
  unfolding test_hello_frame_shape_def build_hello_frame_def
  by (subst hello_req.built_header_oneway; simp add: hello_defs)
    (simp add: frame_len_def build_oneway_fits [OF hello_req.encode_layout] hello_defs frame_bytes_def frame_new_def)

lemma header_unsubscribe_test: test_unsubscribe_frame_shape_and_cid
  unfolding test_unsubscribe_frame_shape_and_cid_def build_unsubscribe_frame_def
  by (subst unsubscribe_req.built_header_oneway) (simp_all add: subscription_id_layout_def MAX_PAYLOAD_LEN_def)

lemma header_goodbye_test: test_goodbye_frame_shape
proof -
  have g: "build_goodbye_frame = Ok (frame_bytes (frame_new FT_Goodbye 0 []))"
    unfolding build_goodbye_frame_def by (rule build_oneway_fits) (simp_all add: wire_simps)
  have "length (frame_bytes (frame_new FT_Goodbye 0 [])) = HEADER_LEN"
    by (simp add: frame_bytes_def frame_new_def HEADER_LEN_def)
  then show ?thesis
    unfolding test_goodbye_frame_shape_def g
    by (simp add: built_header_def header_of_frame frame_len_def)
qed

lemma header_req_test: test_req_frame_assigns_monotonic_cid
proof -
  let ?m = "\<lparr>pf_cluster = ''c'', pf_topic = ''t'', pf_key = as_bytes ''k'', pf_value = as_bytes ''v'',
        pf_partition = - 1, pf_timestamp_ms = - 1, pf_headers = []\<rparr>"
  have ok: "produce_fnf_ok ?m" by (simp add: test_oks)
  have len: "length (produce_fnf_layout ?m) \<le> MAX_PAYLOAD_LEN"
    by (simp add: produce_fnf_layout_def headers_layout_def lay_str16_def lay_bytes32_def lay_list32_def MAX_PAYLOAD_LEN_def)
  have "build_req_frame ''c'' ''t'' (as_bytes ''k'') (as_bytes ''v'') [] (- 1) (- 1) n =
      (Ok (n, frame_bytes (frame_new FT_ProduceReq n (produce_fnf_layout ?m))), n + 1)" for n
    unfolding build_req_frame_def build_payload_def by (rule build_with_fits [OF produce_fnf.encode_layout [OF ok] len])
  then show ?thesis by (simp add: test_req_frame_assigns_monotonic_cid_def cid_start_def)
qed

text \<open>The answers to a hello.\<close>

lemma hello_answers: test_hello_resp_ok test_hello_resp_version_mismatch test_hello_resp_wrong_kind
proof -
  have f: "test_resp FT_Hello 0 (hello_resp_encode \<lparr>hs_major = v\<rparr>) = frame_bytes (frame_new FT_Hello 0 [v])" for v
    by (subst hello_resp.test_resp_frame) (simp_all add: hello_defs)
  have d: "hello_resp_decode [v] = Ok \<lparr>hs_major = v\<rparr>" for v
    using hello_resp.read_layout [of "\<lparr>hs_major = v\<rparr>" "[]"] by (simp add: hello_resp_decode_def run_def hello_layout_def)
  have fits: "frame_fits (frame_new FT_Hello 0 [v])" "frame_fits (frame_new FT_Ping 0 [])" for v
    by (simp_all add: frame_fits_def frame_new_def MAX_PAYLOAD_LEN_def)
  show test_hello_resp_ok
    unfolding test_hello_resp_ok_def f by (rule parse_hello_resp_bytes [OF fits(1)]) (simp_all add: frame_new_def d)
  have "parse_hello_resp (frame_bytes (frame_new FT_Hello 0 [PROTOCOL_MAJOR + 1])) =
      Err (''PROTOCOL_MAJOR mismatch: client '' @ show_nat (unat PROTOCOL_MAJOR) @ '' vs server '' @ show_nat (unat (PROTOCOL_MAJOR + 1)))"
    using frame_split [OF fits(1)] by (simp add: parse_hello_resp_def frame_new_def d PROTOCOL_MAJOR_def)
  then show test_hello_resp_version_mismatch
    unfolding test_hello_resp_version_mismatch_def fails_with_def f by (simp add: starts_with_def)
  have "test_resp FT_Ping 0 (block []) = frame_bytes (frame_new FT_Ping 0 [])"
    by (simp add: test_resp_def encode_new wire_simps)
  moreover have "parse_hello_resp (frame_bytes (frame_new FT_Ping 0 [])) =
      Err (''expected HELLO RESP, got '' @ frame_type_debug FT_Ping @ '' (cid='' @ show_nat (unat 0) @ '')'')"
    using frame_split [OF fits(2)] by (simp add: parse_hello_resp_def frame_new_def)
  ultimately show test_hello_resp_wrong_kind
    by (simp add: test_hello_resp_wrong_kind_def fails_with_def starts_with_def)
qed

section \<open>Requests\<close>

definition test_subscribe_frame_header :: bool where
  "test_subscribe_frame_header \<longleftrightarrow>
     (let r = build_subscribe_frame ''c'' ''g'' [''t1'', ''t2''] [] cid_start in
      req_kind_and_cid r FT_SubscribeReq \<and> (case req_header r of Some (cid, h) \<Rightarrow> 0 < ph_cid h | None \<Rightarrow> False))"

definition test_poll_frame_header :: bool where
  "test_poll_frame_header \<longleftrightarrow> req_kind_and_cid (build_poll_frame 7 100 500 cid_start) FT_PollReq"

definition test_commit_frame_header :: bool where
  "test_commit_frame_header \<longleftrightarrow> req_kind_and_cid (build_commit_frame 7 cid_start) FT_CommitReq"

definition test_register_cluster_frame_header :: bool where
  "test_register_cluster_frame_header \<longleftrightarrow>
     req_kind_and_cid (build_register_cluster_frame ''main'' [(''bootstrap.servers'', ''kafka:9092'')] cid_start)
       FT_RegisterClusterReq"

definition test_pause_resume_frame_pause_and_resume :: bool where
  "test_pause_resume_frame_pause_and_resume \<longleftrightarrow>
     (case build_pause_resume_frame 1 Pause [(''t'', 0), (''t'', 1)] cid_start of
        (p, n) \<Rightarrow>
          (let r = build_pause_resume_frame 1 Resume [] n in
           req_kind (p, n) FT_PauseResumeReq \<and> req_kind r FT_PauseResumeReq
           \<and> (case (req_header (p, n), req_header r) of
                (Some (_, ph), Some (_, rh)) \<Rightarrow> ph_payload_len rh < ph_payload_len ph
              | _ \<Rightarrow> False)))"

definition test_seek_by_offset_frame :: bool where
  "test_seek_by_offset_frame \<longleftrightarrow> req_kind (build_seek_by_offset_frame 1 [(''t'', 0, 42)] cid_start) FT_SeekReq"

definition test_seek_by_timestamp_frame :: bool where
  "test_seek_by_timestamp_frame \<longleftrightarrow>
     req_kind (build_seek_by_timestamp_frame 1 1700000000000 [(''t'', 0)] cid_start) FT_SeekReq"

definition test_txn_frame_variants :: bool where
  "test_txn_frame_variants \<longleftrightarrow>
     list_all (\<lambda>op. req_kind (build_txn_frame ''main'' op cid_start) FT_TxnReq) [TxnBegin, TxnCommit, TxnAbort]"

definition test_send_offsets_frame_header :: bool where
  "test_send_offsets_frame_header \<longleftrightarrow>
     req_kind (build_send_offsets_frame ''prod'' 42 ''grp'' [(''t'', 0, 100)] cid_start) FT_SendOffsetsReq"

definition test_set_oauth_token_frame_header :: bool where
  "test_set_oauth_token_frame_header \<longleftrightarrow>
     req_kind (build_set_oauth_token_frame ''main'' ''eyJ.token'' 60000 ''svc-account'' [(''scope'', ''read'')] cid_start)
       FT_SetOAuthBearerTokenReq"

definition test_poll_rebalance_frame_header :: bool where
  "test_poll_rebalance_frame_header \<longleftrightarrow> req_kind (build_poll_rebalance_frame 1 32 cid_start) FT_PollRebalanceReq"

lemmas layout_lengths = subscribe_req_layout_def register_cluster_req_layout_def pause_resume_req_layout_def seek_req_layout_def
  txn_req_layout_def send_offsets_req_layout_def set_oauth_req_layout_def poll_req_layout_def poll_rebalance_req_layout_def
  subscription_id_layout_def config_entry_layout_def partition_layout_def offset_layout_def lay_str16_def lay_str32_def
  lay_list16_def lay_list32_def MAX_PAYLOAD_LEN_def

lemmas req_builders = build_subscribe_frame_def build_poll_frame_def build_commit_frame_def build_register_cluster_frame_def
  build_pause_resume_frame_def build_seek_by_offset_frame_def build_seek_by_timestamp_frame_def build_txn_frame_def
  build_send_offsets_frame_def build_set_oauth_token_frame_def build_poll_rebalance_frame_def encode_req_def

lemmas req_headers = subscribe_req.req_header_with poll_req.req_header_with commit_req.req_header_with
  register_cluster_req.req_header_with pause_resume_req.req_header_with seek_req.req_header_with txn_req.req_header_with
  send_offsets_req.req_header_with set_oauth_req.req_header_with poll_rebalance_req.req_header_with

lemma request_tests1:
  test_subscribe_frame_header test_poll_frame_header test_commit_frame_header test_register_cluster_frame_header
  by (simp_all add: test_subscribe_frame_header_def test_poll_frame_header_def test_commit_frame_header_def
      test_register_cluster_frame_header_def req_kind_and_cid_def req_builders req_headers layout_lengths test_oks cid_start_def)

lemma request_tests2:
  test_seek_by_offset_frame test_seek_by_timestamp_frame test_txn_frame_variants test_send_offsets_frame_header
  test_set_oauth_token_frame_header test_poll_rebalance_frame_header
  by (simp_all add: test_seek_by_offset_frame_def test_seek_by_timestamp_frame_def test_txn_frame_variants_def
      test_send_offsets_frame_header_def test_set_oauth_token_frame_header_def test_poll_rebalance_frame_header_def
      req_kind_def req_builders req_headers layout_lengths test_oks)

lemma request_test_pause: test_pause_resume_frame_pause_and_resume
  by (simp add: test_pause_resume_frame_pause_and_resume_def case_prod_beta Let_def req_kind_def req_builders req_headers
      layout_lengths test_oks)

section \<open>Responses\<close>

definition test_parse_resp_frame_produce_ok :: bool where
  "test_parse_resp_frame_produce_ok \<longleftrightarrow>
     (let ack = ProduceOk \<lparr>da_partition = 2, da_offset = 999\<rparr> in
      parse_resp_frame (test_resp FT_ProduceResp 123 (produce_resp_encode ack)) = Ok (ParsedResp 123 ack))"

definition test_parse_resp_frame_produce_err :: bool where
  "test_parse_resp_frame_produce_err \<longleftrightarrow>
     (case parse_resp_frame (test_resp FT_ProduceResp 7
        (produce_resp_encode (ProduceErr \<lparr>de_code = 42, de_message = ''backend fail'', de_retryable = True\<rparr>))) of
        Ok (ParsedResp cid (ProduceErr e)) \<Rightarrow> de_code e = 42 \<and> de_retryable e \<and> de_message e = ''backend fail''
      | _ \<Rightarrow> False)"

definition test_parse_resp_frame_other_kind_passthrough :: bool where
  "test_parse_resp_frame_other_kind_passthrough \<longleftrightarrow>
     (case parse_resp_frame (test_resp FT_Ping 555 (block [])) of Ok (ParsedOther k c n) \<Rightarrow> True | _ \<Rightarrow> False)"

definition nope_error :: error_resp where
  "nope_error =
     \<lparr>er_kind = ClusterNotRegistered, er_retryable = False, er_native_code = - 1,
      er_message = ''cluster '' @ [CHR 0x27] @ ''nope'' @ [CHR 0x27] @ '' not registered''\<rparr>"

definition test_parse_error_frame_roundtrip :: bool where
  "test_parse_error_frame_roundtrip \<longleftrightarrow>
     parse_error_frame (test_resp FT_Error 99 (error_resp_encode nope_error)) =
       Ok \<lparr>pe_kind = error_kind_as_u16 ClusterNotRegistered, pe_kind_name = error_kind_as_str ClusterNotRegistered,
           pe_retryable = False, pe_native_code = - 1,
           pe_message = ''cluster '' @ [CHR 0x27] @ ''nope'' @ [CHR 0x27] @ '' not registered''\<rparr>"

definition test_parse_error_frame_rejects_non_error_kind :: bool where
  "test_parse_error_frame_rejects_non_error_kind \<longleftrightarrow>
     fails_with (parse_error_frame (test_resp FT_Ping 0 (block []))) ''expected Error frame''"

definition test_parse_consumer_resp_subscribe_ok :: bool where
  "test_parse_consumer_resp_subscribe_ok \<longleftrightarrow>
     parse_consumer_resp_frame (test_resp FT_SubscribeResp 11 (subscribe_resp_encode (SubscribeOk 777))) = Ok (CR_SubscribeOk 11 777)"

definition test_parse_consumer_resp_commit_err :: bool where
  "test_parse_consumer_resp_commit_err \<longleftrightarrow>
     parse_consumer_resp_frame (test_resp FT_CommitResp 12 (commit_resp_encode (StatusErr ''coord unavailable''))) =
       Ok (CR_CommitErr 12 ''coord unavailable'')"

definition test_parse_consumer_resp_txn_ok :: bool where
  "test_parse_consumer_resp_txn_ok \<longleftrightarrow>
     parse_consumer_resp_frame (test_resp FT_TxnResp 13 (txn_resp_encode StatusOk)) = Ok (CR_TxnOk 13)"

definition test_parse_consumer_resp_unexpected_kind :: bool where
  "test_parse_consumer_resp_unexpected_kind \<longleftrightarrow>
     fails_with (parse_consumer_resp_frame (test_resp FT_Ping 0 (block []))) ''unexpected consumer frame kind''"

definition test_parse_consumer_resp_truncated_payload :: bool where
  "test_parse_consumer_resp_truncated_payload \<longleftrightarrow>
     fails_with
       (parse_consumer_resp_frame (fst (block [put_u32 100, put_u8 (frame_type_code FT_SubscribeResp), put_u64 1]) @ replicate 5 0))
       ''truncated''"

lemma ping_frame:
  "test_resp FT_Ping cid (block []) = frame_bytes (frame_new FT_Ping cid [])" "frame_fits (frame_new FT_Ping cid [])"
  by (simp_all add: test_resp_def encode_new wire_simps frame_fits_def frame_new_def)

lemma response_ping_tests:
  test_parse_resp_frame_other_kind_passthrough test_parse_error_frame_rejects_non_error_kind
  test_parse_consumer_resp_unexpected_kind
  unfolding test_parse_resp_frame_other_kind_passthrough_def test_parse_error_frame_rejects_non_error_kind_def
    test_parse_consumer_resp_unexpected_kind_def fails_with_def ping_frame
  using frame_split [OF ping_frame(2)] parse_consumer_resp_frame_bytes [OF ping_frame(2)]
  by (simp_all add: parse_resp_frame_def parse_error_frame_def parse_consumer_resp_def frame_new_def starts_with_def)

lemma fits_new: "length p \<le> MAX_PAYLOAD_LEN \<Longrightarrow> frame_fits (frame_new k c p)"
  by (simp add: frame_fits_def frame_new_def)

lemma response_produce_tests: test_parse_resp_frame_produce_ok test_parse_resp_frame_produce_err
proof -
  have r: "parse_resp_frame (test_resp FT_ProduceResp cid (produce_resp_encode m)) = Ok (ParsedResp cid m)"
    if m: "produce_resp_ok m" and l: "length (produce_resp_layout m) \<le> MAX_PAYLOAD_LEN" for cid m
  proof -
    have "produce_resp_decode (produce_resp_layout m) = Ok m"
      using produce_resp.read_layout [OF m, of "[]"] by (simp add: produce_resp_decode_def run_def)
    then show ?thesis
      using parse_resp_frame_bytes [OF fits_new [OF l], of FT_ProduceResp cid m]
      by (simp add: produce_resp.test_resp_frame [OF m l] frame_new_def)
  qed
  have len: "length (produce_resp_layout (ProduceOk \<lparr>da_partition = 2, da_offset = 999\<rparr>)) \<le> MAX_PAYLOAD_LEN"
    "length (produce_resp_layout (ProduceErr \<lparr>de_code = 42, de_message = ''backend fail'', de_retryable = True\<rparr>)) \<le> MAX_PAYLOAD_LEN"
    by (simp_all add: produce_resp_layout_def lay_str16_def MAX_PAYLOAD_LEN_def)
  show test_parse_resp_frame_produce_ok
    unfolding test_parse_resp_frame_produce_ok_def Let_def by (rule r [OF _ len(1)]) (simp add: test_oks)
  show test_parse_resp_frame_produce_err
    unfolding test_parse_resp_frame_produce_err_def by (subst r [OF _ len(2)]) (simp_all add: test_oks)
qed

lemma response_error_test: test_parse_error_frame_roundtrip
proof -
  have m: "str16_ok (er_message nope_error)" by (simp add: nope_error_def test_oks)
  have l: "length (error_resp_layout nope_error) \<le> MAX_PAYLOAD_LEN"
    by (simp add: nope_error_def error_resp_layout_def lay_str16_def MAX_PAYLOAD_LEN_def)
  have "error_resp_decode (error_resp_layout nope_error) = Ok nope_error"
    using error_resp.read_layout [OF m, of "[]"] by (simp add: error_resp_decode_def run_def)
  then show ?thesis
    using parse_error_frame_bytes [OF fits_new [OF l], of FT_Error 99 nope_error]
    unfolding test_parse_error_frame_roundtrip_def error_resp.test_resp_frame [OF m l]
    by (simp add: frame_new_def) (simp add: nope_error_def)
qed

lemma response_consumer_tests:
  test_parse_consumer_resp_subscribe_ok test_parse_consumer_resp_commit_err test_parse_consumer_resp_txn_ok
proof -
  have ok: "subscribe_resp_ok (SubscribeOk 777)" "status_resp_ok (StatusErr ''coord unavailable'')" "status_resp_ok StatusOk"
    by (simp_all add: test_oks)
  have len: "length (subscribe_resp_layout (SubscribeOk 777)) \<le> MAX_PAYLOAD_LEN"
    "length (status_resp_layout (StatusErr ''coord unavailable'')) \<le> MAX_PAYLOAD_LEN"
    "length (status_resp_layout StatusOk) \<le> MAX_PAYLOAD_LEN"
    by (simp_all add: subscribe_resp_layout_def status_resp_layout_def lay_str16_def MAX_PAYLOAD_LEN_def)
  have dec: "subscribe_resp_decode (subscribe_resp_layout (SubscribeOk 777)) = Ok (SubscribeOk 777)"
    "commit_resp_decode (status_resp_layout (StatusErr ''coord unavailable'')) = Ok (StatusErr ''coord unavailable'')"
    "txn_resp_decode (status_resp_layout StatusOk) = Ok StatusOk"
    using subscribe_resp.read_layout [OF ok(1), of "[]"] status.read_layout [OF ok(2), of _ "[]"] status.read_layout [OF ok(3), of _ "[]"]
    by (simp_all add: subscribe_resp_decode_def commit_resp_decode_def txn_resp_decode_def run_def)
  have parse: "parse_consumer_resp_frame (frame_bytes (frame_new k c p)) = parse_consumer_resp k c p"
    if "length p \<le> MAX_PAYLOAD_LEN" for k c p
    using parse_consumer_resp_frame_bytes [OF fits_new [OF that]] by (simp add: frame_new_def)
  show test_parse_consumer_resp_subscribe_ok
    by (simp add: test_parse_consumer_resp_subscribe_ok_def subscribe_resp.test_resp_frame [OF ok(1) len(1)] parse [OF len(1)]
        parse_consumer_resp_def dec)
  show test_parse_consumer_resp_commit_err
    by (simp add: test_parse_consumer_resp_commit_err_def commit_resp_encode_def status.test_resp_frame [OF ok(2) len(2)]
        parse [OF len(2)] parse_consumer_resp_def status_arm_def dec)
  show test_parse_consumer_resp_txn_ok
    by (simp add: test_parse_consumer_resp_txn_ok_def txn_resp_encode_def status.test_resp_frame [OF ok(3) len(3)]
        parse [OF len(3)] parse_consumer_resp_def status_arm_def dec)
qed

lemma response_truncated_test: test_parse_consumer_resp_truncated_payload
proof -
  let ?f = "frame_new FT_SubscribeResp 1 (replicate 100 0)"
  let ?h = "fst (block [put_u32 100, put_u8 (frame_type_code FT_SubscribeResp), put_u64 1])"
  have fits: "frame_fits ?f" by (rule fits_new) (simp add: MAX_PAYLOAD_LEN_def)
  have h: "?h = take HEADER_LEN (frame_bytes ?f)" "length ?h = HEADER_LEN"
    by (simp_all add: frame_bytes_def frame_new_def wire_simps HEADER_LEN_def)
  have "decode_header (take HEADER_LEN (?h @ replicate 5 0)) = Ok \<lparr>h_payload_len = 100, h_kind = FT_SubscribeResp, h_cid = 1\<rparr>"
    using frame_split(1) [OF fits] h by (simp add: frame_new_def)
  then have "parse_consumer_resp_frame (?h @ replicate 5 0) = Err (short_msg ''payload truncated: '' 18 113)"
    using h(2) by (simp add: parse_consumer_resp_frame_def HEADER_LEN_def)
  then show ?thesis
    by (simp add: test_parse_consumer_resp_truncated_payload_def fails_with_def short_msg_def starts_with_def)
qed

end
