(* ===== verification/Ext_Client_Tests.thy ===== *)
theory Ext_Client_Tests
  imports Worker_Unit_Tests Ext_Lifecycle
begin

text \<open>
  The unit tests of the client in \<open>src/ext/src\<close> (\<open>ipc.rs\<close>, \<open>subscription.rs\<close>, \<open>lifecycle.rs\<close>, \<open>cluster_replay.rs\<close>,
  \<open>worker_health.rs\<close>, \<open>spawn.rs\<close>), run on the model. The calls that a test counts are counted in the world, a
  number here.
\<close>

type_synonym counted = "(unit, nat) ipc_state"

section \<open>ipc.rs: which errors mean that the worker is gone\<close>

definition test_should_invalidate_io_kinds_true :: bool where
  "test_should_invalidate_io_kinds_true \<longleftrightarrow>
     list_all (should_invalidate \<circ> IoFailed)
       [BrokenPipe, ConnectionReset, ConnectionRefused, ConnectionAborted, UnexpectedEof]"

text \<open>\<open>TimedOut\<close>, \<open>PermissionDenied\<close> and \<open>Interrupted\<close> are told apart by their numbers only.\<close>

definition test_should_invalidate_io_kinds_false :: bool where
  "test_should_invalidate_io_kinds_false \<longleftrightarrow>
     list_all (\<lambda>k. \<not> should_invalidate (IoFailed k)) [OtherIo 110, OtherIo 13, WouldBlock, OtherIo 4]"

definition test_should_invalidate_worker_business_error :: bool where
  "test_should_invalidate_worker_business_error \<longleftrightarrow> \<not> should_invalidate (WorkerFailed InvalidArgument False (- 1) ''bad arg'')"

definition test_should_invalidate_protocol_errors_false :: bool where
  "test_should_invalidate_protocol_errors_false \<longleftrightarrow>
     list_all (\<lambda>e. \<not> should_invalidate e)
       [EncodeFailed ''x'', DecodeResp ''y'', UnexpectedKind FT_Ping, CidMismatch 1 2, ServerFailed ''srv err'']"

definition test_should_invalidate_pool_error_true :: bool where
  "test_should_invalidate_pool_error_true \<longleftrightarrow>
     should_invalidate (PoolFailed (PoolConnect ''/tmp/x.sock'' ConnectionRefused))
     \<and> should_invalidate (PoolFailed (PoolHandshake ''/tmp/x.sock'' ''bad hello''))"

lemma invalidate_tests:
  test_should_invalidate_io_kinds_true test_should_invalidate_io_kinds_false test_should_invalidate_worker_business_error
  test_should_invalidate_protocol_errors_false test_should_invalidate_pool_error_true
  by code_simp+

section \<open>ipc.rs: retries\<close>

definition retry_snap :: "counted \<Rightarrow> u64 \<times> u64 \<times> u64" where
  "retry_snap st = (rs_attempts (ic_retry st), rs_successes (ic_retry st), rs_failures (ic_retry st))"

text \<open>An operation whose calls are counted; its results depend on how many calls there were.\<close>

definition counted_op :: "(nat \<Rightarrow> (ipc_error, int) outcome) \<Rightarrow> counted \<Rightarrow> (ipc_error, int) outcome \<times> counted" where
  "counted_op f st = (let n = Suc (ic_world st) in (f n, st\<lparr>ic_world := n\<rparr>))"

definition test_with_retry_success_first_try_no_counter_change :: bool where
  "test_with_retry_success_first_try_no_counter_change \<longleftrightarrow>
     (case with_retry ''/tmp/never-exists.sock'' (counted_op (\<lambda>_. Ok 42)) (ipc_init 0) of
        (r, st) \<Rightarrow> r = Ok 42 \<and> retry_snap st = (0, 0, 0))"

definition test_with_retry_non_invalidatable_error_no_retry :: bool where
  "test_with_retry_non_invalidatable_error_no_retry \<longleftrightarrow>
     (case with_retry ''/tmp/no.sock'' (counted_op (\<lambda>_. Err (EncodeFailed ''bad''))) (ipc_init 0) of
        (r, st) \<Rightarrow> r = Err (EncodeFailed ''bad'') \<and> ic_world st = 1 \<and> retry_snap st = (0, 0, 0))"

definition test_with_retry_invalidatable_then_success_bumps_successes :: bool where
  "test_with_retry_invalidatable_then_success_bumps_successes \<longleftrightarrow>
     (case with_retry ''/tmp/ipc-test-retry-ok.sock''
        (counted_op (\<lambda>n. if n = 1 then Err (IoFailed BrokenPipe) else Ok 1)) (ipc_init 0) of
        (r, st) \<Rightarrow> r = Ok 1 \<and> ic_world st = 2 \<and> retry_snap st = (1, 1, 0))"

definition test_with_retry_invalidatable_twice_bumps_failures :: bool where
  "test_with_retry_invalidatable_twice_bumps_failures \<longleftrightarrow>
     (case with_retry ''/tmp/ipc-test-retry-fail.sock'' (counted_op (\<lambda>_. Err (IoFailed ConnectionReset))) (ipc_init 0) of
        (r, st) \<Rightarrow> (case r of Err e \<Rightarrow> True | _ \<Rightarrow> False) \<and> ic_world st = 2 \<and> retry_snap st = (1, 0, 1))"

definition test_next_cid_monotonic :: bool where
  "test_next_cid_monotonic \<longleftrightarrow>
     (case ipc_next_cid (ipc_init 0 :: counted) of
        (a, st1) \<Rightarrow>
          (case ipc_next_cid st1 of
             (b, st2) \<Rightarrow>
               (case (a, b, fst (ipc_next_cid st2)) of
                  (Ok a, Ok b, Ok c) \<Rightarrow> a < b \<and> b < c
                | _ \<Rightarrow> False)))"

lemma retry_tests:
  test_with_retry_success_first_try_no_counter_change test_with_retry_non_invalidatable_error_no_retry
  test_with_retry_invalidatable_then_success_bumps_successes test_with_retry_invalidatable_twice_bumps_failures
  test_next_cid_monotonic
  by (simp_all add: test_with_retry_success_first_try_no_counter_change_def test_with_retry_non_invalidatable_error_no_retry_def
      test_with_retry_invalidatable_then_success_bumps_successes_def test_with_retry_invalidatable_twice_bumps_failures_def
      test_next_cid_monotonic_def with_retry_def counted_op_def ipc_init_def retry_snap_def ipc_next_cid_def next_cid_def
      invalidate_def)

definition test_encode_produce_payload_binary_safe :: bool where
  "test_encode_produce_payload_binary_safe \<longleftrightarrow>
     (case encode_produce_payload_bin ''c'' ''t'' [0x6b, 0x00, 0x65, 0x79] [0x76, 0x00, 0x61, 0x6c, 0xff]
        \<lparr>op_headers = [], op_partition = - 1, op_timestamp_ms = - 1\<rparr> of
        Ok payload \<Rightarrow> list_ex (\<lambda>b. b = 0x00) payload \<and> list_ex (\<lambda>b. b = 0xff) payload
      | _ \<Rightarrow> False)"

lemma payload_binary_test: test_encode_produce_payload_binary_safe
proof -
  let ?m = "\<lparr>pf_cluster = ''c'', pf_topic = ''t'', pf_key = [0x6b, 0x00, 0x65, 0x79], pf_value = [0x76, 0x00, 0x61, 0x6c, 0xff],
        pf_partition = - 1, pf_timestamp_ms = - 1, pf_headers = []\<rparr>"
  have "produce_fnf_ok ?m"
    by (simp add: produce_fnf_ok_def str16_ok_def bytes32_ok_def headers_ok_def list32_ok_def ascii_valid_str)
  from produce_fnf.encode_layout [OF this] show ?thesis
    by (simp add: test_encode_produce_payload_binary_safe_def encode_produce_payload_bin_def encoded_def produce_fnf_layout_def
        lay_bytes32_def)
qed

text \<open>The payload is valid UTF-8, so that the lossy conversion of the test is the exact one.\<close>

definition test_encode_produce_payload_headers_preserved :: bool where
  "test_encode_produce_payload_headers_preserved \<longleftrightarrow>
     (case encode_produce_payload ''cluster'' ''topic'' ''k'' ''v''
        \<lparr>op_headers = [(''k1'', as_bytes ''v1'')], op_partition = 0, op_timestamp_ms = 12345\<rparr> of
        Ok payload \<Rightarrow> (case from_utf8 payload of Some s \<Rightarrow> contains_str s ''k1'' | None \<Rightarrow> False)
      | _ \<Rightarrow> False)"

lemma be_bytes_numeral: "be_bytes (numeral k) x = be_bytes (pred_numeral k) (x div 256) @ [of_nat x]"
  unfolding numeral_eq_Suc [of k] by (rule be_bytes.simps(2))

lemma payload_headers_test: test_encode_produce_payload_headers_preserved
proof -
  let ?m = "\<lparr>pf_cluster = ''cluster'', pf_topic = ''topic'', pf_key = as_bytes ''k'', pf_value = as_bytes ''v'',
        pf_partition = 0, pf_timestamp_ms = 12345, pf_headers = [(''k1'', as_bytes ''v1'')]\<rparr>"
  have "produce_fnf_ok ?m"
    by (simp add: produce_fnf_ok_def str16_ok_def bytes32_ok_def headers_ok_def header_ok_def list32_ok_def ascii_valid_str)
  note encoded = produce_fnf.encode_layout [OF this]
  let ?z = "CHR 0x00"
  let ?s = "[?z, CHR 0x07] @ ''cluster'' @ [?z, CHR 0x05] @ ''topic'' @ [?z, ?z, ?z, CHR 0x01] @ ''k''
      @ [?z, ?z, ?z, CHR 0x01] @ ''v'' @ [?z, ?z, ?z, ?z, ?z, ?z, ?z, ?z, ?z, ?z] @ [CHR 0x30, CHR 0x39]
      @ [?z, ?z, ?z, CHR 0x01, ?z, CHR 0x02] @ ''k1'' @ [?z, ?z, ?z, CHR 0x02] @ ''v1''"
  have "ascii_str ?s" by code_simp
  then have "from_utf8 (as_bytes ?s) = Some ?s" by (intro from_utf8_as_bytes ascii_valid_str)
  moreover have "produce_fnf_layout ?m = as_bytes ?s"
    by (simp add: produce_fnf_layout_def headers_layout_def header_layout_def lay_str16_def lay_bytes32_def lay_list32_def
        as_bytes_def be_bytes_numeral)
  moreover have "contains_str ?s ''k1''" by code_simp
  ultimately show ?thesis
    by (simp add: test_encode_produce_payload_headers_preserved_def encode_produce_payload_def encode_produce_payload_bin_def
        encoded_def encoded)
qed

section \<open>subscription.rs\<close>

definition insert_test_entry :: "string \<Rightarrow> string \<Rightarrow> u64 \<Rightarrow> ('c, 'w) subs_state \<Rightarrow> u64 \<times> ('c, 'w) subs_state" where
  "insert_test_entry socket cluster real_id st =
     (let virt = sm_next_virtual st in
      (virt,
       st\<lparr>sm_next_virtual := virt + 1,
          sm_registry := AList.update virt
            \<lparr>se_socket = socket, se_cluster = cluster, se_group_id = ''g'', se_topics = [''t''], se_config = [],
             se_real_id = real_id\<rparr> (sm_registry st)\<rparr>))"

definition remove_test_entry :: "u64 \<Rightarrow> ('c, 'w) subs_state \<Rightarrow> ('c, 'w) subs_state" where
  "remove_test_entry vid st = st\<lparr>sm_registry := AList.delete vid (sm_registry st)\<rparr>"

definition test_is_subscription_gone_matches_subscription_not_found :: bool where
  "test_is_subscription_gone_matches_subscription_not_found \<longleftrightarrow>
     is_subscription_gone (WorkerFailed SubscriptionNotFound False 0 ''gone'')"

definition test_is_subscription_gone_rejects_other_worker_kinds :: bool where
  "test_is_subscription_gone_rejects_other_worker_kinds \<longleftrightarrow>
     list_all (\<lambda>kind. \<not> is_subscription_gone (WorkerFailed kind False 0 []))
       [InvalidArgument, ClusterNotRegistered, BrokerRetryable, WorkerDraining]"

definition test_is_subscription_gone_rejects_non_worker_variants :: bool where
  "test_is_subscription_gone_rejects_non_worker_variants \<longleftrightarrow>
     list_all (\<lambda>e. \<not> is_subscription_gone e) [ServerFailed ''srv'', EncodeFailed ''enc'', IoFailed BrokenPipe]"

definition test_virtual_id_monotonic_via_insert :: bool where
  "test_virtual_id_monotonic_via_insert \<longleftrightarrow>
     (let (v1, st1) = insert_test_entry ''/tmp/subs-mono-1.sock'' ''c'' 10 (sub_init () :: (unit, unit) subs_state);
          (v2, st2) = insert_test_entry ''/tmp/subs-mono-1.sock'' ''c'' 11 st1;
          (v3, st3) = insert_test_entry ''/tmp/subs-mono-1.sock'' ''c'' 12 st2 in
      v1 < v2 \<and> v2 < v3)"

definition test_unsubscribe_unknown_id_is_ok :: "(unit, unit) os_proc \<Rightarrow> bool" where
  "test_unsubscribe_unknown_id_is_ok os \<longleftrightarrow>
     (let never_used = drop_bit 1 (- 1) in
      map_of (sm_registry (sub_init () :: (unit, unit) subs_state)) never_used = None
      \<and> fst (sub_unsubscribe os never_used (sub_init ())) = Ok ())"

definition test_with_resubscribe_unknown_id_returns_server_error :: "(unit, nat) os_proc \<Rightarrow> bool" where
  "test_with_resubscribe_unknown_id_returns_server_error os \<longleftrightarrow>
     (case with_resubscribe os id (drop_bit 1 (- 1) + 7) (\<lambda>_. counted_op (\<lambda>_. Ok 0)) (sub_init 0) of
        (Err (ServerFailed msg), st) \<Rightarrow> ic_world (sm_ipc st) = 0 \<and> contains_str msg ''not found''
      | _ \<Rightarrow> False)"

definition test_with_resubscribe_first_try_success :: "(unit, nat) os_proc \<Rightarrow> bool" where
  "test_with_resubscribe_first_try_success os \<longleftrightarrow>
     (case insert_test_entry ''/tmp/subs-succ.sock'' ''c'' 42 (sub_init 0) of
        (vid, st) \<Rightarrow>
          (case with_resubscribe os id vid (\<lambda>entry. counted_op (\<lambda>_. Ok (uint (se_real_id entry) + 1000))) st of
             (r, st') \<Rightarrow> r = Ok 1042 \<and> ic_world (sm_ipc st') = 1))"

definition test_with_resubscribe_non_gone_error_no_resubscribe :: "(unit, nat) os_proc \<Rightarrow> bool" where
  "test_with_resubscribe_non_gone_error_no_resubscribe os \<longleftrightarrow>
     (case insert_test_entry ''/tmp/subs-passthrough.sock'' ''c'' 42 (sub_init 0) of
        (vid, st) \<Rightarrow>
          (case with_resubscribe os id vid (\<lambda>_. counted_op (\<lambda>_. Err (ServerFailed ''business''))) st of
             (r, st') \<Rightarrow> r = Err (ServerFailed ''business'') \<and> ic_world (sm_ipc st') = 1))"

definition test_registered_count_reflects_registry :: bool where
  "test_registered_count_reflects_registry \<longleftrightarrow>
     (let st = sub_init () :: (unit, unit) subs_state;
          (v1, st1) = insert_test_entry ''/tmp/subs-count-1.sock'' ''c'' 1 st;
          (v2, st2) = insert_test_entry ''/tmp/subs-count-2.sock'' ''c'' 2 st1 in
      registered_count st2 = registered_count st + 2
      \<and> registered_count (remove_test_entry v2 (remove_test_entry v1 st2)) = registered_count st)"

definition test_known_sockets_returns_distinct :: bool where
  "test_known_sockets_returns_distinct \<longleftrightarrow>
     (let sock = ''/tmp/subs-known-abc.sock'';
          (v1, st1) = insert_test_entry sock ''c'' 1 (sub_init () :: (unit, unit) subs_state);
          (v2, st2) = insert_test_entry sock ''c'' 2 st1 in
      known_sockets st2 = {sock})"

definition test_drain_real_ids_removes_only_matching_socket :: bool where
  "test_drain_real_ids_removes_only_matching_socket \<longleftrightarrow>
     (let (a1, st1) = insert_test_entry ''/tmp/subs-drain-a.sock'' ''c'' 100 (sub_init () :: (unit, unit) subs_state);
          (a2, st2) = insert_test_entry ''/tmp/subs-drain-a.sock'' ''c'' 101 st1;
          (b1, st3) = insert_test_entry ''/tmp/subs-drain-b.sock'' ''c'' 200 st2;
          (drained, st4) = drain_real_ids_for_socket ''/tmp/subs-drain-a.sock'' st3 in
      sort drained = [100, 101] \<and> map_of (sm_registry st4) a1 = None \<and> map_of (sm_registry st4) a2 = None
      \<and> map_of (sm_registry st4) b1 \<noteq> None)"

lemmas sub_test_defs = sub_init_def insert_test_entry_def remove_test_entry_def Let_def

lemma gone_tests:
  test_is_subscription_gone_matches_subscription_not_found test_is_subscription_gone_rejects_other_worker_kinds
  test_is_subscription_gone_rejects_non_worker_variants
  by code_simp+

lemma registry_tests:
  test_virtual_id_monotonic_via_insert test_registered_count_reflects_registry test_known_sockets_returns_distinct
  test_drain_real_ids_removes_only_matching_socket
  by (simp_all add: test_virtual_id_monotonic_via_insert_def test_registered_count_reflects_registry_def
      test_known_sockets_returns_distinct_def test_drain_real_ids_removes_only_matching_socket_def sub_test_defs
      registered_count_def known_sockets_def drain_real_ids_for_socket_def)

lemma resubscribe_tests:
  "test_unsubscribe_unknown_id_is_ok os1" "test_with_resubscribe_first_try_success os2"
  "test_with_resubscribe_non_gone_error_no_resubscribe os2"
  by (simp_all add: test_unsubscribe_unknown_id_is_ok_def test_with_resubscribe_first_try_success_def
      test_with_resubscribe_non_gone_error_no_resubscribe_def sub_test_defs sub_unsubscribe_def with_resubscribe_def
      counted_op_def on_ipc_def ipc_init_def)

lemma resubscribe_unknown_test: "test_with_resubscribe_unknown_id_returns_server_error os"
  by (simp add: test_with_resubscribe_unknown_id_returns_server_error_def sub_test_defs with_resubscribe_def contains_append
      ipc_init_def starts_with_def)

section \<open>lifecycle.rs\<close>

definition life_empty :: "(unit, unit) life_state" where
  "life_empty = \<lparr>lf_driver = [], lf_sub = sub_init ()\<rparr>"

definition test_track_drain_dedup :: bool where
  "test_track_drain_dedup \<longleftrightarrow>
     (let sock = ''/tmp/hi-kafka-driversubs-track.sock'';
          (ids, st) = drain_driver_subs sock
            (track_subscription sock 10 (track_subscription sock 20 (track_subscription sock 10 life_empty))) in
      sort ids = [10, 20] \<and> fst (drain_driver_subs sock st) = [])"

definition test_untrack_removes_one :: bool where
  "test_untrack_removes_one \<longleftrightarrow>
     (let sock = ''/tmp/hi-kafka-driversubs-untrack.sock'';
          st = track_subscription sock 2 (track_subscription sock 1 life_empty) in
      fst (drain_driver_subs sock (untrack_subscription sock 999 (untrack_subscription sock 1 st))) = [2])"

definition test_untrack_all_removes_socket_key :: bool where
  "test_untrack_all_removes_socket_key \<longleftrightarrow>
     (let sock = ''/tmp/hi-kafka-driversubs-key.sock''; st = track_subscription sock 7 life_empty in
      sock \<in> set (driver_subs_sockets st) \<and> sock \<notin> set (driver_subs_sockets (untrack_subscription sock 7 st)))"

definition test_drain_unknown_socket_empty :: bool where
  "test_drain_unknown_socket_empty \<longleftrightarrow> fst (drain_driver_subs ''/tmp/hi-kafka-driversubs-nope.sock'' life_empty) = []"

lemma id_sets: "insert 10 (insert 20 {10}) = {10, 20 :: u64}" "insert 2 {1} - {1} = {2 :: u64}" "{20, 10} - {10} = {20 :: u64}"
  by auto

lemma lifecycle_tests:
  test_track_drain_dedup test_untrack_removes_one test_untrack_all_removes_socket_key test_drain_unknown_socket_empty
  by (simp_all add: test_track_drain_dedup_def test_untrack_removes_one_def test_untrack_all_removes_socket_key_def
      test_drain_unknown_socket_empty_def life_empty_def drain_driver_subs_def driver_ids_def track_subscription_def
      untrack_subscription_def driver_subs_sockets_def Let_def id_sets)

section \<open>cluster\_replay.rs, worker\_health.rs, spawn.rs\<close>

definition test_record_and_snapshot :: bool where
  "test_record_and_snapshot \<longleftrightarrow>
     (let sock = ''/tmp/test-replay.sock'';
          st = record_cluster sock ''audit'' [(''bootstrap.servers'', ''audit:9092'')]
            (record_cluster sock ''main'' [(''bootstrap.servers'', ''kafka-1:9092'')] (ipc_init 0 :: counted)) in
      map fst (replay_snapshot sock st) \<in> {[''audit'', ''main''], [''main'', ''audit'']})"

definition replay_test_token :: "string \<Rightarrow> i64 \<Rightarrow> oauth_token" where
  "replay_test_token v lifetime = \<lparr>ot_token_value = v, ot_lifetime_ms = lifetime, ot_principal_name = ''p'', ot_extensions = []\<rparr>"

definition test_cluster_overwrite_keeps_token :: bool where
  "test_cluster_overwrite_keeps_token \<longleftrightarrow>
     (let sock = ''/tmp/test-replay-overwrite.sock'';
          st = record_cluster sock ''msk'' [(''bootstrap.servers'', ''v2'')]
            (record_oauth_token sock ''msk'' (replay_test_token ''jwt-1'' 1000000)
              (record_cluster sock ''msk'' [(''bootstrap.servers'', ''v1'')] (ipc_init 0 :: counted))) in
      case map_of (replay_snapshot sock st) ''msk'' of
        Some e \<Rightarrow> re_config e = [(''bootstrap.servers'', ''v2'')] \<and> re_oauth_token e \<noteq> None
      | None \<Rightarrow> False)"

definition test_token_before_cluster :: bool where
  "test_token_before_cluster \<longleftrightarrow>
     (let sock = ''/tmp/test-replay-tk.sock'';
          st = record_oauth_token sock ''early'' (replay_test_token ''t'' 0) (ipc_init 0 :: counted) in
      case map_of (replay_snapshot sock st) ''early'' of
        Some e \<Rightarrow> re_oauth_token e \<noteq> None \<and> re_config e = []
      | None \<Rightarrow> False)"

definition test_cache_state_is_per_socket :: bool where
  "test_cache_state_is_per_socket \<longleftrightarrow>
     cached_count (invalidate ''/tmp/some-fake-socket-for-test.sock'' (ipc_init 0 :: counted)) = cached_count (ipc_init 0 :: counted)"

definition test_lock_path_for :: bool where
  "test_lock_path_for \<longleftrightarrow> lock_path_for ''/tmp/hi-kafka.sock'' = ''/tmp/hi-kafka.sock.spawn-lock''"

text \<open>Connecting to a path with no socket fails; the other calls of the system are not made.\<close>

definition test_worker_alive_false_for_missing :: "('c, 'w) os_proc \<Rightarrow> 'w \<Rightarrow> bool" where
  "test_worker_alive_false_for_missing os w \<longleftrightarrow> \<not> fst (worker_alive os ''/tmp/definitely-does-not-exist.sock'' w)"

lemma missing_worker_test:
  "os_connect os ''/tmp/definitely-does-not-exist.sock'' w = (Inl e, w') \<Longrightarrow> test_worker_alive_false_for_missing os w"
  by (simp add: test_worker_alive_false_for_missing_def worker_alive_def)

lemma replay_tests: test_record_and_snapshot test_cluster_overwrite_keeps_token test_token_before_cluster
  by (simp_all add: test_record_and_snapshot_def test_cluster_overwrite_keeps_token_def test_token_before_cluster_def
      record_cluster_def record_oauth_token_def upd_replay_def replay_for_def replay_snapshot_def replay_entry_default_def
      ipc_init_def Let_def)

lemma health_spawn_tests: test_cache_state_is_per_socket test_lock_path_for
  by (simp_all add: test_cache_state_is_per_socket_def test_lock_path_for_def cached_count_def invalidate_def ipc_init_def
      lock_path_for_def)

end
