(* ===== verification/Ext_Pool_Threads.thy ===== *)
theory Ext_Pool_Threads
  imports Ext_Pool "HOL-Library.Multiset"
begin

text \<open>
  \<open>ext/src/pool.rs\<close> under concurrency: one pool shared by the threads of a PHP process. Each call
  of \<open>acquire\<close>, with the guard it returns, is a use of the pool; a step of a use is one of the
  sections the code runs under a lock of the pool (\<open>idle\<close> or \<open>stats\<close>, which it never holds
  together), or one call of the operating system between them. Steps of different uses interleave
  in any order. What the operating system answers is part of the event, so that every answer is
  covered.
\<close>

section \<open>A use of the pool\<close>

text \<open>
  Where a use stands: before it pops a candidate; probing the candidate; about to count a hit, a
  closed connection or a miss; connecting; in the handshake; holding the connection, poisoned or
  not; ended.
\<close>

datatype 'c use_pc =
    Popping
  | Probing 'c
  | CountHit 'c
  | CountClosed 'c
  | CountMiss
  | Connecting
  | Shaking 'c
  | Holding 'c bool
  | Ended

datatype 'c use_event =
    PopIdle
  | Probed bool
  | Counted
  | Connected "io_kind + 'c"
  | Shaken bool
  | Poisoned
  | Dropped

fun use_step :: "'c use_event \<Rightarrow> 'c conn_pool \<Rightarrow> 'c use_pc \<Rightarrow> ('c conn_pool \<times> 'c use_pc) option" where
  "use_step PopIdle p Popping =
     Some (case pl_idle p of [] \<Rightarrow> (p, CountMiss) | c # cs \<Rightarrow> (p\<lparr>pl_idle := cs\<rparr>, Probing c))"
| "use_step (Probed alive) p (Probing c) = Some (p, if alive then CountHit c else CountClosed c)"
| "use_step Counted p (CountHit c) =
     Some (p\<lparr>pl_stats := (pl_stats p)\<lparr>sts_hits_total := sts_hits_total (pl_stats p) + 1\<rparr>\<rparr>, Holding c False)"
| "use_step Counted p (CountClosed c) =
     Some (p\<lparr>pl_stats := (pl_stats p)\<lparr>sts_closed_total := sts_closed_total (pl_stats p) + 1\<rparr>\<rparr>, Popping)"
| "use_step Counted p CountMiss =
     Some (p\<lparr>pl_stats := (pl_stats p)\<lparr>sts_misses_total := sts_misses_total (pl_stats p) + 1\<rparr>\<rparr>, Connecting)"
| "use_step (Connected r) p Connecting = Some (p, case r of Inl e \<Rightarrow> Ended | Inr c \<Rightarrow> Shaking c)"
| "use_step (Shaken fine) p (Shaking c) = Some (p, if fine then Holding c False else Ended)"
| "use_step Poisoned p (Holding c b) = Some (poison p, Holding c True)"
| "use_step Dropped p (Holding c b) = Some (drop_conn b c p, Ended)"
| "use_step _ _ _ = None"

text \<open>The connection a use has in hand, and whether it still has to be counted as a hit or a miss.\<close>

fun held :: "'c use_pc \<Rightarrow> 'c list" where
  "held (Probing c) = [c]"
| "held (CountHit c) = [c]"
| "held (CountClosed c) = [c]"
| "held (Shaking c) = [c]"
| "held (Holding c b) = [c]"
| "held _ = []"

fun uncounted :: "'c use_pc \<Rightarrow> bool" where
  "uncounted Popping = True"
| "uncounted (Probing c) = True"
| "uncounted (CountHit c) = True"
| "uncounted (CountClosed c) = True"
| "uncounted CountMiss = True"
| "uncounted _ = False"

fun connected_to :: "'c use_event \<Rightarrow> 'c option" where
  "connected_to (Connected (Inr c)) = Some c"
| "connected_to _ = None"

section \<open>The shared pool\<close>

record 'c pool_sys =
  sy_pool :: "'c conn_pool"
  sy_uses :: "'c use_pc list"

definition open_conns :: "'c pool_sys \<Rightarrow> 'c list" where
  "open_conns s = pl_idle (sy_pool s) @ concat (map held (sy_uses s))"

datatype 'c pool_event = Started | Used nat "'c use_event" | Cleared

text \<open>
  \<open>Started\<close> is the entry of \<open>acquire\<close>, which counts it. A connection that the operating system gives out is
  none of the open ones: a descriptor is reused only once it is closed.
\<close>

fun shared_step :: "'c pool_event \<Rightarrow> 'c pool_sys \<Rightarrow> 'c pool_sys option" where
  "shared_step Started s =
     (let p = sy_pool s in
      Some (s\<lparr>sy_pool := p\<lparr>pl_stats := (pl_stats p)\<lparr>sts_acquires_total := sts_acquires_total (pl_stats p) + 1\<rparr>\<rparr>,
              sy_uses := sy_uses s @ [Popping]\<rparr>))"
| "shared_step (Used i e) s =
     (if i < length (sy_uses s)
         \<and> (case connected_to e of None \<Rightarrow> True | Some c \<Rightarrow> c \<notin> set (open_conns s))
      then map_option (\<lambda>(p, u). s\<lparr>sy_pool := p, sy_uses := (sy_uses s)[i := u]\<rparr>)
             (use_step e (sy_pool s) (sy_uses s ! i))
      else None)"
| "shared_step Cleared s = Some (s\<lparr>sy_pool := clear_idle (sy_pool s)\<rparr>)"

fun shared_run :: "'c pool_event list \<Rightarrow> 'c pool_sys \<Rightarrow> 'c pool_sys option" where
  "shared_run [] s = Some s"
| "shared_run (e # es) s = Option.bind (shared_step e s) (shared_run es)"

definition shared_new :: "nat \<Rightarrow> 'c pool_sys" where
  "shared_new n = \<lparr>sy_pool = pool_new n, sy_uses = []\<rparr>"

inductive shared_reach :: "nat \<Rightarrow> 'c pool_sys \<Rightarrow> bool" for n where
  shared_reach_new: "shared_reach n (shared_new n)"
| shared_reach_step: "shared_reach n s \<Longrightarrow> shared_step e s = Some s' \<Longrightarrow> shared_reach n s'"

lemma shared_run_append: "shared_run (es @ fs) s = Option.bind (shared_run es s) (shared_run fs)"
proof (induction es arbitrary: s)
  case (Cons e es)
  then show ?case by (cases "shared_step e s") simp_all
qed simp

lemma shared_run_reach: "shared_run es s = Some s' \<Longrightarrow> shared_reach n s \<Longrightarrow> shared_reach n s'"
  by (induction es arbitrary: s) (auto intro: shared_reach_step split: Option.bind_splits)

section \<open>No connection is used twice\<close>

lemma mset_concat_update:
  "i < length xs \<Longrightarrow>
     mset (concat (map f (xs[i := u]))) + mset (f (xs ! i)) = mset (concat (map f xs)) + mset (f u)"
  by (induction xs arbitrary: i) (auto simp: less_Suc_eq_0_disj)

text \<open>
  What a step of one use does to the connections that are idle or in its hand: it gives up some of them,
  or gains the one it connected to.
\<close>

lemma use_step_conns:
  "use_step e p u = Some (p', u') \<Longrightarrow>
     mset (pl_idle p') + mset (held u') \<subseteq>#
       mset (pl_idle p) + mset (held u) + (case connected_to e of None \<Rightarrow> {#} | Some c \<Rightarrow> {#c#})"
  by (induction e p u rule: use_step.induct)
    (auto simp: poison_def drop_conn_def release_def split: list.splits sum.splits if_splits)

lemma use_step_idle:
  "use_step e p u = Some (p', u') \<Longrightarrow> length (pl_idle p) \<le> pl_max_idle p \<Longrightarrow>
     length (pl_idle p') \<le> pl_max_idle p' \<and> pl_max_idle p' = pl_max_idle p"
  by (induction e p u rule: use_step.induct)
    (auto simp: poison_def drop_conn_def release_def split: list.splits sum.splits if_splits)

text \<open>A step of the shared pool, seen on all open connections.\<close>

lemma shared_step_conns:
  assumes "shared_step e s = Some s'"
  shows "mset (open_conns s') \<subseteq># mset (open_conns s)
         \<or> (\<exists>c. c \<notin> set (open_conns s) \<and> mset (open_conns s') \<subseteq># add_mset c (mset (open_conns s)))"
proof (cases e)
  case (Used i ue)
  let ?us = "sy_uses s"
  let ?new = "case connected_to ue of None \<Rightarrow> {#} | Some c \<Rightarrow> {#c#}"
  from assms Used obtain p u where i: "i < length ?us"
    and fresh: "case connected_to ue of None \<Rightarrow> True | Some c \<Rightarrow> c \<notin> set (open_conns s)"
    and st: "use_step ue (sy_pool s) (?us ! i) = Some (p, u)"
    and s': "s' = s\<lparr>sy_pool := p, sy_uses := ?us[i := u]\<rparr>"
    by (auto split: if_splits)
  have "mset (open_conns s') + mset (held (?us ! i))
        = mset (pl_idle p) + mset (held u) + mset (concat (map held ?us))"
    using mset_concat_update [OF i, of held u] by (simp add: open_conns_def s' algebra_simps)
  also have "\<dots> \<subseteq># mset (pl_idle (sy_pool s)) + mset (held (?us ! i)) + ?new + mset (concat (map held ?us))"
    using use_step_conns [OF st] by (rule mset_subset_eq_mono_add) simp
  finally have "mset (open_conns s') + mset (held (?us ! i))
                \<subseteq># (mset (open_conns s) + ?new) + mset (held (?us ! i))"
    by (simp add: open_conns_def algebra_simps)
  then have "mset (open_conns s') \<subseteq># mset (open_conns s) + ?new" by simp
  with fresh show ?thesis by (auto split: option.splits)
qed (use assms in \<open>auto simp: open_conns_def Let_def clear_idle_def\<close>)

lemma distinct_mset_subset: "mset xs \<subseteq># mset ys \<Longrightarrow> distinct ys \<Longrightarrow> distinct xs"
  by (metis distinct_append ex_mset mset_append mset_eq_imp_distinct_iff mset_subset_eq_exists_conv)

definition shared_inv :: "nat \<Rightarrow> 'c pool_sys \<Rightarrow> bool" where
  "shared_inv n s \<longleftrightarrow>
     distinct (open_conns s) \<and> pl_max_idle (sy_pool s) = n \<and> length (pl_idle (sy_pool s)) \<le> n"

lemma shared_step_inv:
  assumes "shared_step e s = Some s'" "shared_inv n s"
  shows "shared_inv n s'"
proof -
  have "distinct (open_conns s')"
    using shared_step_conns [OF assms(1)] assms(2) distinct_mset_subset [of "open_conns s'" "_ # open_conns s"]
    by (auto simp: shared_inv_def dest: distinct_mset_subset)
  moreover have "pl_max_idle (sy_pool s') = n \<and> length (pl_idle (sy_pool s')) \<le> n"
    using assms use_step_idle by (cases e) (fastforce simp: shared_inv_def Let_def clear_idle_def split: if_splits)+
  ultimately show ?thesis by (simp add: shared_inv_def)
qed

lemma shared_new_inv: "shared_inv n (shared_new n)"
  by (simp add: shared_inv_def shared_new_def open_conns_def pool_new_def)

lemma shared_reach_inv: "shared_reach n s \<Longrightarrow> shared_inv n s"
  by (induction rule: shared_reach.induct) (blast intro: shared_new_inv shared_step_inv)+

section \<open>The counters\<close>

text \<open>Calls of \<open>acquire\<close> counted at the entry but neither as a hit nor as a miss yet.\<close>

definition undecided :: "'c use_pc list \<Rightarrow> nat" where
  "undecided us = sum_list (map (\<lambda>u. if uncounted u then 1 else 0) us)"

lemma sum_list_map_update:
  fixes f :: "'a \<Rightarrow> nat"
  shows "i < length xs \<Longrightarrow> sum_list (map f (xs[i := u])) + f (xs ! i) = sum_list (map f xs) + f u"
  by (induction xs arbitrary: i) (auto simp: less_Suc_eq_0_disj)

lemma undecided_update:
  "i < length us \<Longrightarrow>
     undecided (us[i := u]) + (if uncounted (us ! i) then 1 else 0) = undecided us + (if uncounted u then 1 else 0)"
  unfolding undecided_def by (rule sum_list_map_update)

lemma counts_balance:
  fixes h :: "'a::ab_group_add"
  assumes "h' + u' = h + u" "d' + u = d + u'"
  shows "h' + d' = h + d"
proof -
  from assms have "h' = h + u - u'" "d' = d + u' - u" by (simp_all add: eq_diff_eq)
  then show ?thesis by simp
qed

lemma use_step_counts:
  "use_step e p u = Some (p', u') \<Longrightarrow>
     sts_acquires_total (pl_stats p') = sts_acquires_total (pl_stats p)
     \<and> sts_hits_total (pl_stats p') + sts_misses_total (pl_stats p') + (if uncounted u' then 1 else 0)
        = sts_hits_total (pl_stats p) + sts_misses_total (pl_stats p) + (if uncounted u then 1 else 0)"
  by (induction e p u rule: use_step.induct)
    (auto simp: poison_def drop_conn_def release_def split: list.splits sum.splits if_splits)

definition counts_inv :: "'c pool_sys \<Rightarrow> bool" where
  "counts_inv s \<longleftrightarrow>
     (let st = pl_stats (sy_pool s) in
      sts_acquires_total st = sts_hits_total st + sts_misses_total st + of_nat (undecided (sy_uses s)))"

lemma shared_step_counts:
  assumes "shared_step e s = Some s'" "counts_inv s"
  shows "counts_inv s'"
proof (cases e)
  case (Used i ue)
  from assms Used obtain p u where i: "i < length (sy_uses s)"
    and st: "use_step ue (sy_pool s) (sy_uses s ! i) = Some (p, u)"
    and s': "s' = s\<lparr>sy_pool := p, sy_uses := (sy_uses s)[i := u]\<rparr>"
    by (auto split: if_splits)
  have "of_nat (undecided ((sy_uses s)[i := u])) + (if uncounted (sy_uses s ! i) then 1 else 0)
        = of_nat (undecided (sy_uses s)) + (if uncounted u then 1 else (0 :: u64))"
    using arg_cong [OF undecided_update [OF i, of u], of "of_nat :: nat \<Rightarrow> u64"] by (simp split: if_splits)
  note balance = counts_balance [OF conjunct2 [OF use_step_counts [OF st]] this]
  from balance use_step_counts [OF st] assms(2) show ?thesis
    by (simp add: counts_inv_def Let_def s')
qed (use assms in \<open>auto simp: counts_inv_def Let_def clear_idle_def undecided_def\<close>)

lemma shared_new_counts: "counts_inv (shared_new n)"
  by (simp add: counts_inv_def shared_new_def pool_new_def pool_stats_zero_def undecided_def)

lemma shared_reach_counts: "shared_reach n s \<Longrightarrow> counts_inv s"
  by (induction rule: shared_reach.induct) (blast intro: shared_new_counts shared_step_counts)+

section \<open>The sequential operation is a run of steps\<close>

lemma acquire_idle_run:
  assumes "i < length (sy_uses s)" "sy_uses s ! i = Popping"
    and "acquire_idle os (pl_idle (sy_pool s)) (pl_stats (sy_pool s)) w = (r, cs, st, w')"
  shows "\<exists>es. shared_run es s =
           Some (s\<lparr>sy_pool := (sy_pool s)\<lparr>pl_idle := cs, pl_stats := st\<rparr>,
                   sy_uses := (sy_uses s)[i := case r of Some c \<Rightarrow> Holding c False | None \<Rightarrow> CountMiss]\<rparr>)"
  using assms
proof (induction "pl_idle (sy_pool s)" arbitrary: s w)
  case Nil
  then show ?case by (intro exI [of _ "[Used i PopIdle]"]) simp
next
  case (Cons c ds)
  let ?p = "sy_pool s"
  obtain alive w1 where a: "conn_is_alive os c w = (alive, w1)" by fastforce
  show ?case
  proof (cases alive)
    case True
    with Cons.prems Cons.hyps(2) [symmetric] a show ?thesis
      by (intro exI [of _ "[Used i PopIdle, Used i (Probed True), Used i Counted]"]) auto
  next
    case False
    let ?s = "s\<lparr>sy_pool := ?p\<lparr>pl_idle := ds,
                 pl_stats := (pl_stats ?p)\<lparr>sts_closed_total := sts_closed_total (pl_stats ?p) + 1\<rparr>\<rparr>\<rparr>"
    have run: "shared_run [Used i PopIdle, Used i (Probed False), Used i Counted] s = Some ?s"
      using Cons.prems Cons.hyps(2) [symmetric] by (simp add: list_update_same_conv)
    from Cons.hyps(1) [of ?s w1] Cons.prems Cons.hyps(2) [symmetric] a False
    obtain es where "shared_run es ?s =
           Some (s\<lparr>sy_pool := ?p\<lparr>pl_idle := cs, pl_stats := st\<rparr>,
                   sy_uses := (sy_uses s)[i := case r of Some c \<Rightarrow> Holding c False | None \<Rightarrow> CountMiss]\<rparr>)"
      by auto
    with run show ?thesis by (intro exI [of _ "[Used i PopIdle, Used i (Probed False), Used i Counted] @ es"])
      (simp only: shared_run_append bind.bind_lunit)
  qed
qed

text \<open>
  \<open>acquire\<close> of \<^verbatim>\<open>Ext_Pool\<close>, which runs without interruption, is a run of the steps of one new use: the
  laws of every interleaving hold of it. The connection of the operating system is new.
\<close>

text \<open>The end of \<open>acquire\<close> once no idle connection is left.\<close>

definition acquire_miss ::
  "('c, 'w, 'z) os_net_scheme \<Rightarrow> string \<Rightarrow> 'w \<Rightarrow> (pool_error, 'c) outcome \<times> 'w" where
  "acquire_miss os socket w =
     (case os_connect os socket w of
        (Inl e, w2) \<Rightarrow> (Err (PoolConnect socket e), w2)
      | (Inr c, w2) \<Rightarrow>
          (case client_handshake os c w2 of
             (Ok _, w3) \<Rightarrow> (Ok c, w3)
           | (Err reason, w3) \<Rightarrow> (Err (PoolHandshake socket reason), w3)
           | (Panic, w3) \<Rightarrow> (Panic, w3)))"

abbreviation acquired :: "(pool_error, 'c) outcome \<Rightarrow> 'c use_pc" where
  "acquired r \<equiv> case r of Ok c \<Rightarrow> Holding c False | _ \<Rightarrow> Ended"

lemma acquire_miss_run:
  assumes "acquire_miss os socket w = (r, w')" "us = sy_uses s @ [CountMiss]" "pl_idle p = []"
    and "\<And>c w1. os_connect os socket w = (Inr c, w1) \<Longrightarrow> c \<notin> set (concat (map held (sy_uses s)))"
  shows "\<exists>es. shared_run es (s\<lparr>sy_pool := p, sy_uses := us\<rparr>) =
           Some (s\<lparr>sy_pool := p\<lparr>pl_stats := (pl_stats p)\<lparr>sts_misses_total := sts_misses_total (pl_stats p) + 1\<rparr>\<rparr>,
                   sy_uses := sy_uses s @ [acquired r]\<rparr>)"
proof (cases "os_connect os socket w")
  case (Pair x w1)
  let ?i = "length (sy_uses s)"
  from assms Pair show ?thesis
    by (intro exI [of _ "[Used ?i Counted, Used ?i (Connected x)] @
            (case x of Inl e \<Rightarrow> [] | Inr c \<Rightarrow> [Used ?i (Shaken (case r of Ok _ \<Rightarrow> True | _ \<Rightarrow> False))])"])
      (auto simp: acquire_miss_def open_conns_def split: sum.splits prod.splits outcome.splits)
qed

lemma acquire_is_run:
  fixes s :: "'c pool_sys"
  defines "p \<equiv> sy_pool s"
  defines "st \<equiv> (pl_stats p)\<lparr>sts_acquires_total := sts_acquires_total (pl_stats p) + 1\<rparr>"
  assumes acq: "acquire os socket (p, w) = (r, p', w')"
    and fresh: "\<And>st1 w1 c w2. acquire_idle os (pl_idle p) st w = (None, [], st1, w1) \<Longrightarrow>
                  os_connect os socket w1 = (Inr c, w2) \<Longrightarrow> c \<notin> set (concat (map held (sy_uses s)))"
  shows "\<exists>es. shared_run es s = Some (s\<lparr>sy_pool := p', sy_uses := sy_uses s @ [acquired r]\<rparr>)"
proof -
  let ?s = "s\<lparr>sy_pool := p\<lparr>pl_stats := st\<rparr>, sy_uses := sy_uses s @ [Popping]\<rparr>"
  obtain r1 cs st1 w1 where idle: "acquire_idle os (pl_idle p) st w = (r1, cs, st1, w1)"
    by (metis prod_cases4)
  let ?p = "p\<lparr>pl_idle := cs, pl_stats := st1\<rparr>"
  from acquire_idle_run [of "length (sy_uses s)" ?s os w r1 cs st1 w1] idle obtain es where es: "shared_run es ?s =
      Some (s\<lparr>sy_pool := ?p, sy_uses := sy_uses s @ [case r1 of Some c \<Rightarrow> Holding c False | None \<Rightarrow> CountMiss]\<rparr>)"
    by auto
  have start: "shared_run [Started] s = Some ?s" by (simp add: Let_def p_def st_def)
  note run = shared_run_append [of "[Started]" es s, unfolded start bind.bind_lunit es]
  show ?thesis
  proof (cases r1)
    case (Some c)
    with acq idle run show ?thesis
      by (auto simp: acquire_def p_def st_def Let_def intro!: exI [of _ "[Started] @ es"])
  next
    case None
    with acquire_idle_laws [OF idle] have cs: "cs = []" by simp
    from acq idle None have miss: "acquire_miss os socket w1 = (r, w')"
      and p': "p' = ?p\<lparr>pl_stats := (pl_stats ?p)\<lparr>sts_misses_total := sts_misses_total (pl_stats ?p) + 1\<rparr>\<rparr>"
      by (auto simp: acquire_def acquire_miss_def p_def st_def Let_def split: prod.splits sum.splits outcome.splits)
    have "\<exists>fs. shared_run fs (s\<lparr>sy_pool := ?p, sy_uses := sy_uses s @ [CountMiss]\<rparr>) =
         Some (s\<lparr>sy_pool := p', sy_uses := sy_uses s @ [acquired r]\<rparr>)"
      unfolding p' by (rule acquire_miss_run [OF miss refl]) (use idle None cs fresh in auto)
    then obtain fs where fs: "shared_run fs (s\<lparr>sy_pool := ?p, sy_uses := sy_uses s @ [CountMiss]\<rparr>) =
         Some (s\<lparr>sy_pool := p', sy_uses := sy_uses s @ [acquired r]\<rparr>)"
      by blast
    have "shared_run (([Started] @ es) @ fs) s = Some (s\<lparr>sy_pool := p', sy_uses := sy_uses s @ [acquired r]\<rparr>)"
      unfolding shared_run_append [of "[Started] @ es"] run using fs None by simp
    then show ?thesis by blast
  qed
qed

section \<open>What a thread may rely on\<close>

lemma distinct_concat_nth:
  "distinct (concat (map f xs)) \<Longrightarrow> i < length xs \<Longrightarrow> j < length xs \<Longrightarrow> i \<noteq> j \<Longrightarrow>
     set (f (xs ! i)) \<inter> set (f (xs ! j)) = {}"
proof (induction xs arbitrary: i j)
  case (Cons x xs)
  then show ?case by (cases i; cases j) fastforce+
qed simp

text \<open>
  The connections open at any time are the idle ones, at most as many as the pool may keep, and
  one for each use that has one in hand.
\<close>

lemma open_conns_bound:
  assumes "shared_reach n s"
  shows "length (open_conns s) \<le> n + length (filter (\<lambda>u. held u \<noteq> []) (sy_uses s))"
proof -
  have "length (held u) = (if held u \<noteq> [] then 1 else 0)" for u :: "'a use_pc" by (cases u) auto
  then have "length (concat (map held us)) = length (filter (\<lambda>u. held u \<noteq> []) us)" for us :: "'a use_pc list"
    by (induction us) auto
  with shared_reach_inv [OF assms] show ?thesis by (simp add: shared_inv_def open_conns_def)
qed

text \<open>A poisoned connection is gone when its guard is dropped: no later use can pop it.\<close>

lemma poisoned_conn_gone:
  assumes "shared_reach n s" "i < length (sy_uses s)" "sy_uses s ! i = Holding c True"
    and "shared_step (Used i Dropped) s = Some s'"
  shows "c \<notin> set (open_conns s')"
proof -
  from assms have s': "s' = s\<lparr>sy_uses := (sy_uses s)[i := Ended]\<rparr>" by (simp add: drop_conn_def)
  have "mset (open_conns s') + {#c#} = mset (open_conns s)"
    using mset_concat_update [of i "sy_uses s" held Ended] assms(2,3) by (simp add: s' open_conns_def)
  with shared_reach_inv [OF assms(1)] show ?thesis
    by (metis add_mset_add_single distinct.simps(2) mset.simps(2) mset_eq_imp_distinct_iff shared_inv_def)
qed

lemma no_two_uses_share:
  assumes "shared_reach n s" "i < length (sy_uses s)"
  shows "set (held (sy_uses s ! i)) \<inter> set (pl_idle (sy_pool s)) = {}"
    and "j < length (sy_uses s) \<Longrightarrow> i \<noteq> j \<Longrightarrow> set (held (sy_uses s ! i)) \<inter> set (held (sy_uses s ! j)) = {}"
proof -
  have d: "distinct (pl_idle (sy_pool s) @ concat (map held (sy_uses s)))"
    using shared_reach_inv [OF assms(1)] by (simp add: shared_inv_def open_conns_def)
  with assms(2) show "set (held (sy_uses s ! i)) \<inter> set (pl_idle (sy_pool s)) = {}" by fastforce
  show "set (held (sy_uses s ! i)) \<inter> set (held (sy_uses s ! j)) = {}" if "j < length (sy_uses s)" "i \<noteq> j"
    by (rule distinct_concat_nth) (use d assms that in auto)
qed

text \<open>
  C21: However the threads of a process interleave in a pool, no connection is ever in the hands of
  two uses, or in hand and idle at once; no more than \<open>max_idle\<close> connections are kept idle; and the counted
  acquisitions are the hits, the misses and the calls still looking for a connection.
\<close>

theorem pool_connection_exclusive:
  assumes "shared_reach n s"
  shows "distinct (pl_idle (sy_pool s) @ concat (map held (sy_uses s)))
         \<and> length (pl_idle (sy_pool s)) \<le> n
         \<and> sts_acquires_total (pl_stats (sy_pool s))
             = sts_hits_total (pl_stats (sy_pool s)) + sts_misses_total (pl_stats (sy_pool s))
               + of_nat (length (filter uncounted (sy_uses s)))"
proof -
  have "undecided us = length (filter uncounted us)" for us :: "'a use_pc list"
    by (induction us) (auto simp: undecided_def)
  with shared_reach_inv [OF assms] shared_reach_counts [OF assms] show ?thesis
    by (simp add: shared_inv_def counts_inv_def open_conns_def Let_def)
qed

text \<open>
  Two threads that find the pool empty connect at the same time; the first to finish leaves its
  connection, which a third use pops while the second is still in its handshake.
\<close>

definition demo_uses :: "nat pool_event list" where
  "demo_uses =
     [Started, Started, Used 0 PopIdle, Used 1 PopIdle, Used 0 Counted, Used 1 Counted,
      Used 1 (Connected (Inr 7)), Used 0 (Connected (Inr 8)), Used 0 (Shaken True), Used 0 Dropped,
      Started, Used 2 PopIdle]"

definition demo_shared :: "nat pool_sys" where
  "demo_shared =
     \<lparr>sy_pool = (pool_new 1)\<lparr>pl_stats := pool_stats_zero\<lparr>sts_acquires_total := 3, sts_misses_total := 2\<rparr>\<rparr>,
      sy_uses = [Ended, Shaking 7, Probing 8]\<rparr>"

lemma demo_uses_run: "shared_run demo_uses (shared_new 1) = Some demo_shared"
  by (simp add: demo_uses_def demo_shared_def shared_new_def pool_new_def pool_stats_zero_def open_conns_def
      drop_conn_def release_def Let_def)

theorem pool_connection_exclusive_witness:
  "shared_reach 1 demo_shared \<and> concat (map held (sy_uses demo_shared)) = [7, 8]
   \<and> distinct (pl_idle (sy_pool demo_shared) @ concat (map held (sy_uses demo_shared)))
   \<and> filter uncounted (sy_uses demo_shared) = [Probing 8]"
proof -
  have r: "shared_reach 1 demo_shared" using shared_run_reach [OF demo_uses_run shared_reach_new] .
  with pool_connection_exclusive [OF r] show ?thesis by (simp add: demo_shared_def)
qed

end
