(* ===== verification/Ext_Pool_Tests.thy ===== *)
theory Ext_Pool_Tests
  imports Ext_Restart
begin

text \<open>
  The unit tests of \<open>src/ext/src/pool.rs\<close>, run on the model against their fake worker: a server that reads
  the 14 bytes of a hello on every connection, answers them, and then only waits for the end of the
  connection.
\<close>

section \<open>The fake worker\<close>

text \<open>
  \<open>ew_got\<close> is what a connection sent, \<open>ew_answer\<close> what the client has not read yet. The threads of the server
  answer before the client reads.
\<close>

record echo_world =
  ew_next :: nat
  ew_got :: "nat \<Rightarrow> bytes"
  ew_answer :: "nat \<Rightarrow> bytes"

definition echo_new :: echo_world where
  "echo_new = \<lparr>ew_next = 0, ew_got = (\<lambda>_. []), ew_answer = (\<lambda>_. [])\<rparr>"

definition echo_resp :: "bytes \<Rightarrow> bytes" where
  "echo_resp req =
     be_bytes 4 1 @ [frame_type_code FT_Hello] @ take 8 (drop 5 req) @ [PROTOCOL_MAJOR]"

definition echo_write :: "nat \<Rightarrow> bytes \<Rightarrow> echo_world \<Rightarrow> (io_kind + unit) \<times> echo_world" where
  "echo_write c bs w =
     (let old = ew_got w c; got = old @ bs;
          resp = (if length old < HEADER_LEN + 1 \<and> HEADER_LEN + 1 \<le> length got
                  then echo_resp (take (HEADER_LEN + 1) got) else []) in
      (Inr (), w\<lparr>ew_got := (ew_got w)(c := got), ew_answer := (ew_answer w)(c := ew_answer w c @ resp)\<rparr>))"

definition echo_read :: "nat \<Rightarrow> nat \<Rightarrow> echo_world \<Rightarrow> (io_kind + bytes) \<times> echo_world" where
  "echo_read c n w =
     (if n \<le> length (ew_answer w c)
      then (Inr (take n (ew_answer w c)), w\<lparr>ew_answer := (ew_answer w)(c := drop n (ew_answer w c))\<rparr>)
      else (Inl WouldBlock, w))"

definition spawn_echo_server :: "(nat, echo_world) os_net" where
  "spawn_echo_server =
     \<lparr>os_connect = (\<lambda>_ w. (Inr (ew_next w), w\<lparr>ew_next := ew_next w + 1\<rparr>)),
      os_nonblocking = (\<lambda>_ _ w. (True, w)),
      os_read_one = (\<lambda>c w. case echo_read c 1 w of (Inl e, w1) \<Rightarrow> (Inl e, w1) | (Inr bs, w1) \<Rightarrow> (Inr (length bs), w1)),
      os_write_timeout = (\<lambda>_ _ w. (Inr (), w)), os_read_timeout = (\<lambda>_ _ w. (Inr (), w)),
      os_write_all = echo_write, os_read_exact = echo_read,
      os_close = (\<lambda>_ w. w), os_io_text = (\<lambda>_. ''io''), os_env = (\<lambda>_. None), os_ini = []\<rparr>"

section \<open>The tests\<close>

text \<open>\<open>with_acquired\<close> is an acquisition with \<open>unwrap\<close>: the test fails with it.\<close>

definition with_acquired ::
  "nat conn_pool \<times> echo_world \<Rightarrow> (nat \<Rightarrow> nat conn_pool \<times> echo_world \<Rightarrow> bool) \<Rightarrow> bool" where
  "with_acquired pw k = (case acquire spawn_echo_server ''/tmp/pool.sock'' pw of (Ok c, pw1) \<Rightarrow> k c pw1 | _ \<Rightarrow> False)"

definition test_acquire_creates_then_reuses :: bool where
  "test_acquire_creates_then_reuses \<longleftrightarrow>
     with_acquired (pool_new 4, echo_new) (\<lambda>c1 (p, w).
       let p = drop_conn False c1 p in
       length (pl_idle p) = 1
       \<and> with_acquired (p, w) (\<lambda>c2 (p, w).
           let s = pl_stats (drop_conn False c2 p) in
           sts_acquires_total s = 2 \<and> sts_misses_total s = 1 \<and> sts_hits_total s \<ge> 1))"

definition test_poisoned_not_returned :: bool where
  "test_poisoned_not_returned \<longleftrightarrow>
     with_acquired (pool_new 4, echo_new) (\<lambda>c (p, w).
       let p = drop_conn True c (poison p) in
       length (pl_idle p) = 0 \<and> sts_poisoned_total (pl_stats p) = 1)"

definition test_max_idle_caps_pool :: bool where
  "test_max_idle_caps_pool \<longleftrightarrow>
     with_acquired (pool_new 2, echo_new) (\<lambda>c1 pw.
     with_acquired pw (\<lambda>c2 pw.
     with_acquired pw (\<lambda>c3 (p, w).
       let p = drop_conn False c3 (drop_conn False c2 (drop_conn False c1 p)) in
       length (pl_idle p) = 2)))"

text \<open>The second call finds the pool of the first: nothing is created, the table is unchanged.\<close>

definition test_pool_for_returns_same_instance :: bool where
  "test_pool_for_returns_same_instance \<longleftrightarrow>
     (let (a, pools) = pool_for (\<lambda>_. None) ''/tmp/pool.sock'' ([] :: nat pools);
          (b, pools1) = pool_for (\<lambda>_. None) ''/tmp/pool.sock'' pools in
      a = b \<and> pools1 = pools)"

section \<open>They pass\<close>

lemma echo_os_sel:
  "os_connect spawn_echo_server socket w = (Inr (ew_next w), w\<lparr>ew_next := ew_next w + 1\<rparr>)"
  "os_nonblocking spawn_echo_server c m w = (True, w)"
  "os_write_timeout spawn_echo_server c tm w = (Inr (), w)" "os_read_timeout spawn_echo_server c tm w = (Inr (), w)"
  "os_write_all spawn_echo_server c bs w = echo_write c bs w" "os_read_exact spawn_echo_server c n w = echo_read c n w"
  "ew_answer w c = [] \<Longrightarrow> os_read_one spawn_echo_server c w = (Inl WouldBlock, w)"
  by (simp_all add: spawn_echo_server_def echo_read_def)

text \<open>The answer of the fake worker is the frame a real worker answers with.\<close>

lemma echo_resp_hello: "echo_resp (frame_bytes hello_frame) = frame_bytes hello_frame"
  by (simp add: echo_resp_def frame_bytes_def frame_new_def)

lemma echo_handshake:
  assumes "ew_got w c = []" "ew_answer w c = []"
  shows "client_handshake spawn_echo_server c w =
           (Ok (), w\<lparr>ew_got := (ew_got w)(c := frame_bytes hello_frame), ew_answer := (ew_answer w)(c := [])\<rparr>)"
proof -
  have len: "length (frame_bytes hello_frame) = HEADER_LEN + 1" by (simp add: length_frame_bytes)
  have four: "be_nat (take 4 (take HEADER_LEN (frame_bytes hello_frame))) = 1"
    by (simp add: frame_bytes_def HEADER_LEN_def be_nat_be_bytes frame_new_def)
  show ?thesis
    using assms len four hello_frame_facts(4)
    by (simp add: client_handshake_def hello_frame_facts(1) bind_act_def io_act_def pure_act_def echo_os_sel
        echo_write_def echo_read_def echo_resp_hello Let_def)
qed

text \<open>A connection is untouched until it is given out.\<close>

definition echo_fresh :: "echo_world \<Rightarrow> bool" where
  "echo_fresh w \<longleftrightarrow> (\<forall>c. ew_answer w c = []) \<and> (\<forall>c \<ge> ew_next w. ew_got w c = [])"

lemma echo_miss:
  assumes "echo_fresh w" "pl_idle p = []"
  shows "\<exists>w'. echo_fresh w' \<and> acquire spawn_echo_server socket (p, w) =
           (Ok (ew_next w), p\<lparr>pl_stats := (pl_stats p)\<lparr>sts_acquires_total := sts_acquires_total (pl_stats p) + 1,
                                sts_misses_total := sts_misses_total (pl_stats p) + 1\<rparr>\<rparr>, w')"
  using assms by (simp add: acquire_def Let_def echo_os_sel echo_handshake echo_fresh_def)

lemma echo_hit:
  assumes "echo_fresh w" "pl_idle p = c # cs"
  shows "acquire spawn_echo_server socket (p, w) =
           (Ok c, p\<lparr>pl_idle := cs, pl_stats := (pl_stats p)\<lparr>sts_acquires_total := sts_acquires_total (pl_stats p) + 1,
                      sts_hits_total := sts_hits_total (pl_stats p) + 1\<rparr>\<rparr>, w)"
  using assms by (simp add: acquire_def Let_def conn_is_alive_def echo_os_sel echo_fresh_def)

lemma echo_new_fresh: "echo_fresh echo_new"
  by (simp add: echo_fresh_def echo_new_def)

text \<open>Unfolding a test from the state before an acquisition.\<close>

lemma with_acquired_miss:
  assumes "echo_fresh w" "pl_idle p = []"
    and "\<And>w'. echo_fresh w' \<Longrightarrow>
           k (ew_next w) (p\<lparr>pl_stats := (pl_stats p)\<lparr>sts_acquires_total := sts_acquires_total (pl_stats p) + 1,
                             sts_misses_total := sts_misses_total (pl_stats p) + 1\<rparr>\<rparr>, w')"
  shows "with_acquired (p, w) k"
  using echo_miss [OF assms(1,2), of "''/tmp/pool.sock''"] assms(3) by (auto simp: with_acquired_def)

lemma with_acquired_hit:
  assumes "echo_fresh w" "pl_idle p = c # cs"
  shows "with_acquired (p, w) k =
     k c (p\<lparr>pl_idle := cs, pl_stats := (pl_stats p)\<lparr>sts_acquires_total := sts_acquires_total (pl_stats p) + 1,
                      sts_hits_total := sts_hits_total (pl_stats p) + 1\<rparr>\<rparr>, w)"
  using echo_hit [OF assms] by (simp add: with_acquired_def)

lemmas pool_test_defs = pool_new_def pool_stats_zero_def drop_conn_def release_def poison_def Let_def

lemma pool_test_reuse: test_acquire_creates_then_reuses
  unfolding test_acquire_creates_then_reuses_def
  by (rule with_acquired_miss [OF echo_new_fresh]) (simp_all add: pool_test_defs with_acquired_hit)

lemma pool_test_poison: test_poisoned_not_returned
  unfolding test_poisoned_not_returned_def
  by (rule with_acquired_miss [OF echo_new_fresh]) (simp_all add: pool_test_defs)

lemma pool_test_cap: test_max_idle_caps_pool
  unfolding test_max_idle_caps_pool_def
  by (rule with_acquired_miss [OF echo_new_fresh], simp add: pool_new_def)
    (rule with_acquired_miss, assumption, simp add: pool_new_def,
      rule with_acquired_miss, assumption, simp_all add: pool_test_defs)

lemma pool_test_same: test_pool_for_returns_same_instance
  by (simp add: test_pool_for_returns_same_instance_def pool_for_def Let_def)

end
