(* ===== verification/Ext_Platform.thy ===== *)
theory Ext_Platform
  imports Worker_Main
begin

text \<open>
  The parts of \<open>ext/src/spawn.rs\<close> and \<open>ext/src/worker_entry.rs\<close> that depend on the platform and on the build:
  how many threads a process has on systems other than Linux, the pid file of the worker, its signal
  task, and the back ends of a build without Kafka.
\<close>

section \<open>The number of threads on other systems\<close>

record proc_task_info =
  virtual_size :: u64
  resident_size :: u64
  total_user :: u64
  total_system :: u64
  threads_user :: u64
  threads_system :: u64
  policy :: i32
  faults :: i32
  pageins :: i32
  cow_faults :: i32
  messages_sent :: i32
  messages_received :: i32
  syscalls_mach :: i32
  syscalls_unix :: i32
  csw :: i32
  threadnum :: i32
  numrunning :: i32
  priority :: i32

definition proc_task_info_default :: proc_task_info where
  "proc_task_info_default =
     \<lparr>virtual_size = 0, resident_size = 0, total_user = 0, total_system = 0, threads_user = 0, threads_system = 0,
      policy = 0, faults = 0, pageins = 0, cow_faults = 0, messages_sent = 0, messages_received = 0,
      syscalls_mach = 0, syscalls_unix = 0, csw = 0, threadnum = 0, numrunning = 0, priority = 0\<rparr>"

definition PROC_PIDTASKINFO :: i32 where
  "PROC_PIDTASKINFO = 4"

text \<open>Six fields of 8 bytes and twelve of 4, with no padding in the C layout.\<close>

definition proc_task_info_size :: i32 where
  "proc_task_info_size = 6 * 8 + 12 * 4"

text \<open>
  \<open>proc_pidinfo\<close> of macOS is a parameter: process, flavor, argument, the buffer before the call and its
  size; it gives its result and the buffer after the call.
\<close>

type_synonym pidinfo_call = "i32 \<Rightarrow> i32 \<Rightarrow> u64 \<Rightarrow> proc_task_info \<Rightarrow> i32 \<Rightarrow> i32 \<times> proc_task_info"

definition thread_count_macos :: "pidinfo_call \<Rightarrow> i32 \<Rightarrow> nat" where
  "thread_count_macos proc_pidinfo pid =
     (case proc_pidinfo pid PROC_PIDTASKINFO 0 proc_task_info_default proc_task_info_size of
        (r, info) \<Rightarrow> if 0 < sint r then max (unat (scast (threadnum info) :: u64)) 1 else 1)"

datatype target_os = Linux | MacOs | OtherOs

definition thread_count_on :: "target_os \<Rightarrow> pidinfo_call \<Rightarrow> i32 \<Rightarrow> ('c, 'w) os_proc \<Rightarrow> 'w \<Rightarrow> nat" where
  "thread_count_on target proc_pidinfo pid os w =
     (case target of
        Linux \<Rightarrow> current_thread_count os w
      | MacOs \<Rightarrow> thread_count_macos proc_pidinfo pid
      | OtherOs \<Rightarrow> 1)"

text \<open>\<open>spawn_worker_inproc\<close> with the count of the platform.\<close>

definition spawn_worker_on ::
  "target_os \<Rightarrow> pidinfo_call \<Rightarrow> i32 \<Rightarrow> ('c, 'w) os_proc \<Rightarrow> spawn_config \<Rightarrow> ('w, spawn_error, unit) act" where
  "spawn_worker_on target proc_pidinfo pid os cfg w =
     (let n = thread_count_on target proc_pidinfo pid os w in
      if n > 1 \<and> strict_fork (os_env os) then (Err (MultiThreadedFork n), w)
      else io_act (os_fork os (to_child_config os cfg)) ForkFailed w)"

lemma spawn_worker_on_linux: "spawn_worker_on Linux proc_pidinfo pid os cfg w = spawn_worker_inproc os cfg w"
  by (simp add: spawn_worker_on_def spawn_worker_inproc_def thread_count_on_def)

lemma threads_of_lines_pos: "1 \<le> threads_of_lines ls"
  by (induction ls) (auto split: option.splits)

lemma thread_count_pos: "1 \<le> thread_count_on target proc_pidinfo pid os w"
  using threads_of_lines_pos
  by (auto simp: thread_count_on_def thread_count_macos_def current_thread_count_def
      split: target_os.split prod.split option.split)

text \<open>
  A count that cannot be found is one thread: a strict process is refused a fork only for a count that the
  system gave, and never on a system that is neither Linux nor macOS.
\<close>

lemma unknown_count_forks:
  assumes "target = OtherOs \<or> target = MacOs \<and> (\<forall>b n. sint (fst (proc_pidinfo pid PROC_PIDTASKINFO 0 b n)) \<le> 0)
           \<or> target = Linux \<and> os_proc_status os w = None"
  shows "spawn_worker_on target proc_pidinfo pid os cfg w = io_act (os_fork os (to_child_config os cfg)) ForkFailed w"
proof -
  have "thread_count_on target proc_pidinfo pid os w = 1"
    using assms
    by (auto simp: thread_count_on_def thread_count_macos_def current_thread_count_def not_less split: prod.split)
      (metis fst_conv not_less)+
  then show ?thesis by (simp add: spawn_worker_on_def)
qed

lemma strict_fork_refused_macos:
  assumes "proc_pidinfo pid PROC_PIDTASKINFO 0 proc_task_info_default proc_task_info_size = (r, info)"
    and "0 < sint r" and "1 < sint (threadnum info)" and "strict_fork (os_env os)"
  shows "spawn_worker_on MacOs proc_pidinfo pid os cfg w = (Err (MultiThreadedFork (nat (sint (threadnum info)))), w)"
proof -
  have "uint (scast (threadnum info) :: u64) = take_bit 64 (sint (threadnum info))"
    by (simp add: uint_sint sint_up_scast is_up)
  moreover have "sint (threadnum info) < 2 ^ 64" using sint_lt [of "threadnum info"] by simp
  ultimately have "unat (scast (threadnum info) :: u64) = nat (sint (threadnum info))"
    using assms(3) by (simp add: unat_eq_nat_uint take_bit_int_eq_self)
  with assms show ?thesis by (simp add: spawn_worker_on_def thread_count_on_def thread_count_macos_def)
qed

section \<open>The pid file\<close>

text \<open>
  \<open>writeln!\<close> on a file that is not buffered writes the number and the end of the line in two calls. Creating and writing
  files, and the number of the process, are parameters.
\<close>

definition write_pid_file ::
  "(string \<Rightarrow> 'w \<Rightarrow> (io_kind + 'h) \<times> 'w) \<Rightarrow> ('h \<Rightarrow> bytes \<Rightarrow> 'w \<Rightarrow> (io_kind + unit) \<times> 'w) \<Rightarrow> nat \<Rightarrow> string \<Rightarrow>
   ('w, io_kind, unit) act" where
  "write_pid_file create_file write_bytes pid path =
     bind_act (io_act (create_file path) (\<lambda>e. e)) (\<lambda>f.
     bind_act (io_act (write_bytes f (as_bytes (show_nat pid))) (\<lambda>e. e)) (\<lambda>_.
     io_act (write_bytes f (as_bytes [CHR 0x0A])) (\<lambda>e. e)))"

text \<open>Files as a map from paths to contents, on which creating truncates and writing appends.\<close>

type_synonym file_map = "string \<Rightarrow> bytes option"

definition plain_create :: "string \<Rightarrow> file_map \<Rightarrow> (io_kind + string) \<times> file_map" where
  "plain_create path fs = (Inr path, fs(path \<mapsto> []))"

definition plain_write :: "string \<Rightarrow> bytes \<Rightarrow> file_map \<Rightarrow> (io_kind + unit) \<times> file_map" where
  "plain_write h bs fs = (Inr (), fs(h := map_option (\<lambda>old. old @ bs) (fs h)))"

lemma digits_not_space: "list_all is_digit s \<Longrightarrow> dropWhile is_space s = s"
  by (cases s) (auto simp: is_digit_def is_space_def)

text \<open>
  The pid file replaces an old one and can be read back: the trimmed text is the number of the
  process.
\<close>

lemma pid_file_readable:
  assumes "pid < 2 ^ 32"
  shows "\<exists>fs' text. write_pid_file plain_create plain_write pid path fs = (Ok (), fs')
           \<and> Option.bind (fs' path) from_utf8 = Some text \<and> parse_u64 (trim text) = Some pid"
proof -
  let ?t = "show_nat pid @ [CHR 0x0A]"
  have digits: "list_all is_digit (rev (show_nat pid))" "list_all is_digit (show_nat pid)"
    by (simp_all add: is_digit_show_nat)
  then have "dropWhile is_space ?t = ?t"
    using show_nat_not_Nil [of pid] by (cases "show_nat pid") (auto simp: is_digit_def is_space_def)
  with digits have "trim ?t = show_nat pid" by (simp add: trim_def digits_not_space is_space_def)
  moreover have "valid_str ?t" by (rule ascii_valid_str) simp
  moreover have "as_bytes (show_nat pid) @ as_bytes [CHR 0x0A] = as_bytes ?t" by (simp add: as_bytes_def)
  ultimately show ?thesis
    using assms
    by (intro exI [of _ "fs(path \<mapsto> as_bytes ?t)"] exI [of _ ?t])
      (simp add: write_pid_file_def bind_act_def io_act_def plain_create_def plain_write_def parse_show_nat)
qed

section \<open>The signal task\<close>

text \<open>
  The task waits for the first of the two signals it listens to, starts the drain and ends; the
  list holds the signals delivered to the process, in their order.
\<close>

fun signal_task :: "posix_signal list \<Rightarrow> shutdown_state \<Rightarrow> shutdown_state" where
  "signal_task [] s = s"
| "signal_task (SIGTERM # sigs) s = start_draining s"
| "signal_task (SIGINT # sigs) s = start_draining s"
| "signal_task (_ # sigs) s = signal_task sigs s"

lemma signal_task_drains:
  "is_draining (signal_task sigs s) \<longleftrightarrow> is_draining s \<or> SIGTERM \<in> set sigs \<or> SIGINT \<in> set sigs"
  by (induction sigs s rule: signal_task.induct) (auto simp: is_draining_def start_draining_def)

section \<open>A build without Kafka\<close>

definition build_producer_dry :: "('m, logging_consumer_state) producer_ops" where
  "build_producer_dry = logging_producer"

definition build_consumer_dry :: "('m, logging_consumer_state) consumer_ops" where
  "build_consumer_dry = logging_consumer"

definition dry_env :: "panic_payload \<Rightarrow> ('m, logging_consumer_state) server_env" where
  "dry_env panic = \<lparr>sv_producer = build_producer_dry, sv_consumer = build_consumer_dry, sv_panic = panic\<rparr>"

text \<open>The counter of such a worker's back end never prevents its idle exit: it reports no active subscription.\<close>

lemma dry_worker_never_busy: "active_subs (dry_env panic) idle c = 0"
  by (simp add: active_subs_def dry_env_def build_consumer_dry_def logging_consumer_def default_active_subscriptions_def)

end
