(* ===== verification/Shutdown_Wait.thy ===== *)
theory Shutdown_Wait
  imports Cluster
begin

text \<open>
  \<open>worker/src/shutdown.rs\<close> with any number of tasks: \<open>wait_draining\<close> checks the flag, creates a future of the
  \<open>Notify\<close> and awaits it; \<open>start_draining\<close> sets the flag and then notifies. The steps of the tasks
  interleave. \<open>tokio::sync::Notify\<close> is a parameter.
\<close>

section \<open>The notifier\<close>

text \<open>
  \<open>nt_notified\<close> creates a future, \<open>nt_ready\<close> tells whether it completes when it is polled.
\<close>

record ('n, 'f) notify_ops =
  nt_new :: 'n
  nt_notify_waiters :: "'n \<Rightarrow> 'n"
  nt_notified :: "'n \<Rightarrow> 'f"
  nt_ready :: "'n \<Rightarrow> 'f \<Rightarrow> bool"

text \<open>
  What its documentation promises: \<open>notify_waiters\<close> wakes every future created before the call, polled or
  not, and stores nothing for the ones created after it.
\<close>

definition notify_laws :: "('n, 'f) notify_ops \<Rightarrow> bool" where
  "notify_laws nt \<longleftrightarrow> (\<forall>n k. nt_ready nt ((nt_notify_waiters nt ^^ k) n) (nt_notified nt n) \<longleftrightarrow> 0 < k)"

section \<open>The tasks\<close>

datatype 'f waiter = Checking | Creating | Awaiting 'f | Woken

text \<open>\<open>sw_storing\<close> counts the calls of \<open>start_draining\<close> that have set the flag and not notified yet.\<close>

record ('n, 'f) shutdown_sys =
  sw_draining :: bool
  sw_notify :: 'n
  sw_storing :: nat
  sw_waiters :: "'f waiter list"

datatype wait_event = NewWaiter | StoreFlag | NotifyAll | WaiterStep nat

definition waits_new :: "('n, 'f) notify_ops \<Rightarrow> ('n, 'f) shutdown_sys" where
  "waits_new nt = \<lparr>sw_draining = False, sw_notify = nt_new nt, sw_storing = 0, sw_waiters = []\<rparr>"

text \<open>One step of \<open>wait_draining\<close>; none while its future is pending and after it returned.\<close>

fun wait_step :: "('n, 'f) notify_ops \<Rightarrow> bool \<Rightarrow> 'n \<Rightarrow> 'f waiter \<Rightarrow> 'f waiter option" where
  "wait_step nt flag n Checking = Some (if flag then Woken else Creating)"
| "wait_step nt flag n Creating = Some (Awaiting (nt_notified nt n))"
| "wait_step nt flag n (Awaiting f) = (if nt_ready nt n f then Some Woken else None)"
| "wait_step nt flag n Woken = None"

fun waits_step ::
  "('n, 'f) notify_ops \<Rightarrow> wait_event \<Rightarrow> ('n, 'f) shutdown_sys \<Rightarrow> ('n, 'f) shutdown_sys option" where
  "waits_step nt NewWaiter s = Some (s\<lparr>sw_waiters := sw_waiters s @ [Checking]\<rparr>)"
| "waits_step nt StoreFlag s = Some (s\<lparr>sw_draining := True, sw_storing := sw_storing s + 1\<rparr>)"
| "waits_step nt NotifyAll s =
     (if sw_storing s = 0 then None
      else Some (s\<lparr>sw_storing := sw_storing s - 1, sw_notify := nt_notify_waiters nt (sw_notify s)\<rparr>))"
| "waits_step nt (WaiterStep i) s =
     (if i < length (sw_waiters s)
      then map_option (\<lambda>u. s\<lparr>sw_waiters := (sw_waiters s)[i := u]\<rparr>)
             (wait_step nt (sw_draining s) (sw_notify s) (sw_waiters s ! i))
      else None)"

fun waits_run ::
  "('n, 'f) notify_ops \<Rightarrow> wait_event list \<Rightarrow> ('n, 'f) shutdown_sys \<Rightarrow> ('n, 'f) shutdown_sys option" where
  "waits_run nt [] s = Some s"
| "waits_run nt (e # es) s = Option.bind (waits_step nt e s) (waits_run nt es)"

inductive waits_reach :: "('n, 'f) notify_ops \<Rightarrow> ('n, 'f) shutdown_sys \<Rightarrow> bool" for nt where
  waits_reach_new: "waits_reach nt (waits_new nt)"
| waits_reach_step: "waits_reach nt s \<Longrightarrow> waits_step nt e s = Some s' \<Longrightarrow> waits_reach nt s'"

section \<open>When a wait ends\<close>

text \<open>
  A pending future was created by the notifier some notifications ago; a notification comes after the
  flag; a wait that ended saw one of the two.
\<close>

definition waiter_inv :: "('n, 'f) notify_ops \<Rightarrow> ('n, 'f) shutdown_sys \<Rightarrow> 'f waiter \<Rightarrow> bool" where
  "waiter_inv nt s u =
     (case u of
        Awaiting f \<Rightarrow> (\<exists>n k. sw_notify s = (nt_notify_waiters nt ^^ k) n \<and> f = nt_notified nt n \<and> (0 < k \<longrightarrow> sw_draining s))
      | Woken \<Rightarrow> sw_draining s
      | _ \<Rightarrow> True)"

definition waits_inv :: "('n, 'f) notify_ops \<Rightarrow> ('n, 'f) shutdown_sys \<Rightarrow> bool" where
  "waits_inv nt s \<longleftrightarrow> (0 < sw_storing s \<longrightarrow> sw_draining s) \<and> (\<forall>u \<in> set (sw_waiters s). waiter_inv nt s u)"

text \<open>What the others do keeps the invariant of a waiter. All but a notification leave the notifier alone.\<close>

lemma waits_step_frame:
  "waits_step nt e s = Some s' \<Longrightarrow> e \<noteq> NotifyAll \<Longrightarrow>
     sw_notify s' = sw_notify s \<and> (sw_draining s \<longrightarrow> sw_draining s')"
  by (cases e) (auto split: if_splits)

lemma waiter_inv_frame:
  "waiter_inv nt s u \<Longrightarrow> sw_notify s' = sw_notify s \<and> (sw_draining s \<longrightarrow> sw_draining s') \<Longrightarrow> waiter_inv nt s' u"
  by (auto simp: waiter_inv_def split: waiter.splits)

lemma waiter_inv_mono:
  assumes "waiter_inv nt s u" "waits_inv nt s" "waits_step nt e s = Some s'"
  shows "waiter_inv nt s' u"
proof (cases "e = NotifyAll")
  case True
  with assms have s': "sw_notify s' = nt_notify_waiters nt (sw_notify s)" "sw_draining s'"
    by (auto simp: waits_inv_def split: if_splits)
  show ?thesis
  proof (cases u)
    case (Awaiting f)
    with assms(1) obtain n k where "sw_notify s = (nt_notify_waiters nt ^^ k) n" "f = nt_notified nt n"
      by (auto simp: waiter_inv_def)
    with Awaiting s' show ?thesis
      by (auto simp: waiter_inv_def intro!: exI [of _ n] exI [of _ "Suc k"])
  qed (use s' in \<open>auto simp: waiter_inv_def\<close>)
next
  case False
  from waiter_inv_frame [OF assms(1) waits_step_frame [OF assms(3) False]] show ?thesis .
qed

lemma wait_step_inv:
  assumes "notify_laws nt" "waiter_inv nt s u" "wait_step nt (sw_draining s) (sw_notify s) u = Some u'"
  shows "waiter_inv nt s u'"
proof (cases u)
  case Creating
  with assms(3) show ?thesis by (auto simp: waiter_inv_def intro!: exI [of _ "sw_notify s"] exI [of _ 0])
qed (use assms in \<open>auto simp: waiter_inv_def notify_laws_def split: if_splits\<close>)

lemma waits_step_inv:
  assumes "notify_laws nt" "waits_inv nt s" "waits_step nt e s = Some s'"
  shows "waits_inv nt s'"
proof -
  have "waiter_inv nt s' u" if u: "u \<in> set (sw_waiters s')" for u
  proof (cases "u \<in> set (sw_waiters s)")
    case True
    with assms(2) have "waiter_inv nt s u" by (simp add: waits_inv_def)
    from waiter_inv_mono [OF this assms(2,3)] show ?thesis .
  next
    case False
    show ?thesis
    proof (cases e)
      case (WaiterStep i)
      with assms(3) obtain v where i: "i < length (sw_waiters s)"
        and v: "wait_step nt (sw_draining s) (sw_notify s) (sw_waiters s ! i) = Some v"
        and s': "s' = s\<lparr>sw_waiters := (sw_waiters s)[i := v]\<rparr>"
        by (auto split: if_splits)
      from i assms(2) have "waiter_inv nt s (sw_waiters s ! i)" by (simp add: waits_inv_def)
      from wait_step_inv [OF assms(1) this v] have "waiter_inv nt s v" .
      moreover from u False i s' have "u = v" by (auto dest: set_update_subset_insert [THEN subsetD])
      ultimately show ?thesis using waiter_inv_mono [OF _ assms(2,3)] by simp
    qed (use assms u False in \<open>auto simp: waiter_inv_def split: if_splits\<close>)
  qed
  moreover have "0 < sw_storing s' \<longrightarrow> sw_draining s'"
    using assms(2,3) by (cases e) (auto simp: waits_inv_def split: if_splits)
  ultimately show ?thesis by (simp add: waits_inv_def)
qed

lemma waits_reach_inv:
  assumes "notify_laws nt"
  shows "waits_reach nt s \<Longrightarrow> waits_inv nt s"
proof (induction rule: waits_reach.induct)
  case waits_reach_new
  show ?case by (simp add: waits_inv_def waits_new_def)
next
  case (waits_reach_step s e s')
  then show ?case using waits_step_inv [OF assms] by blast
qed

text \<open>A wait ends only when the worker is draining.\<close>

lemma wait_ends_draining:
  "notify_laws nt \<Longrightarrow> waits_reach nt s \<Longrightarrow> Woken \<in> set (sw_waiters s) \<Longrightarrow> sw_draining s"
  using waits_reach_inv by (fastforce simp: waits_inv_def waiter_inv_def)

section \<open>Which waits a drain ends\<close>

text \<open>A task that can go on to its end by steps of its own.\<close>

definition released :: "('n, 'f) notify_ops \<Rightarrow> ('n, 'f) shutdown_sys \<Rightarrow> 'f waiter \<Rightarrow> bool" where
  "released nt s u =
     (case u of Checking \<Rightarrow> sw_draining s | Creating \<Rightarrow> False | Awaiting f \<Rightarrow> nt_ready nt (sw_notify s) f | Woken \<Rightarrow> True)"

text \<open>
  Notifying releases every waiter whose future exists and every one that has not checked the flag yet:
  all but those between the check and the creation of the future.
\<close>

lemma notify_releases:
  assumes "notify_laws nt" "waits_reach nt s" "waits_step nt NotifyAll s = Some s'"
    and "u \<in> set (sw_waiters s)" "u \<noteq> Creating"
  shows "released nt s' u"
proof -
  from waits_reach_inv [OF assms(1,2)] assms(3,4)
  have inv: "waiter_inv nt s u" and s': "sw_notify s' = nt_notify_waiters nt (sw_notify s)" "sw_draining s'"
    by (auto simp: waits_inv_def split: if_splits)
  show ?thesis
  proof (cases u)
    case (Awaiting f)
    with inv obtain n k where "sw_notify s = (nt_notify_waiters nt ^^ k) n" "f = nt_notified nt n"
      by (auto simp: waiter_inv_def)
    with assms(1) have "nt_ready nt (nt_notify_waiters nt (sw_notify s)) f"
      unfolding notify_laws_def by (metis comp_apply funpow.simps(2) zero_less_Suc)
    with Awaiting s' show ?thesis by (simp add: released_def)
  qed (use assms(5) s' in \<open>simp_all add: released_def\<close>)
qed

text \<open>A released waiter has a step to its end unless it has ended.\<close>

lemma released_ends:
  "released nt s u \<Longrightarrow> u = Woken \<or> wait_step nt (sw_draining s) (sw_notify s) u = Some Woken"
  by (cases u) (simp_all add: released_def)

text \<open>Nothing another task does takes the release back.\<close>

lemma ready_stays:
  assumes "notify_laws nt" "waiter_inv nt s (Awaiting f)" "nt_ready nt (sw_notify s) f"
  shows "nt_ready nt (nt_notify_waiters nt (sw_notify s)) f"
proof -
  from assms(2) obtain n k where "sw_notify s = (nt_notify_waiters nt ^^ k) n" "f = nt_notified nt n"
    by (auto simp: waiter_inv_def)
  with assms(1) show ?thesis unfolding notify_laws_def by (metis comp_apply funpow.simps(2) zero_less_Suc)
qed

lemma released_stays:
  assumes "notify_laws nt" "waits_reach nt s" "waits_step nt e s = Some s'"
    and i: "i < length (sw_waiters s)" "released nt s (sw_waiters s ! i)"
  shows "released nt s' (sw_waiters s' ! i)"
proof -
  have inv: "waiter_inv nt s (sw_waiters s ! i)"
    using waits_reach_inv [OF assms(1,2)] i by (simp add: waits_inv_def)
  show ?thesis
  proof (cases e)
    case NotifyAll
    with assms(3) have s': "s' = s\<lparr>sw_storing := sw_storing s - 1, sw_notify := nt_notify_waiters nt (sw_notify s)\<rparr>"
      by (simp split: if_splits)
    with i inv ready_stays [OF assms(1)] show ?thesis
      by (cases "sw_waiters s ! i") (auto simp: released_def)
  next
    case (WaiterStep j)
    with assms(3) i released_ends [OF i(2)] show ?thesis
      by (cases "j = i") (auto simp: released_def split: if_splits waiter.splits)
  qed (use assms(3) i in \<open>auto simp: released_def nth_append split: waiter.splits\<close>)
qed

text \<open>
  A task whose future is created after the only notification waits for ever: \<open>wait_draining\<close> does not look at
  the flag again.
\<close>

definition missed :: "('n, 'f) notify_ops \<Rightarrow> nat \<Rightarrow> ('n, 'f) shutdown_sys \<Rightarrow> bool" where
  "missed nt i s \<longleftrightarrow>
     i < length (sw_waiters s) \<and> sw_waiters s ! i = Awaiting (nt_notified nt (sw_notify s)) \<and> sw_storing s = 0"

lemma missed_for_ever:
  assumes "notify_laws nt"
  shows "waits_run nt es s = Some s' \<Longrightarrow> StoreFlag \<notin> set es \<Longrightarrow> missed nt i s \<Longrightarrow> missed nt i s'"
proof (induction es arbitrary: s)
  case (Cons e es)
  from Cons.prems obtain s1 where s1: "waits_step nt e s = Some s1" "waits_run nt es s1 = Some s'"
    by (auto split: Option.bind_splits)
  have "\<not> nt_ready nt (sw_notify s) (nt_notified nt (sw_notify s))"
    using assms unfolding notify_laws_def by (metis funpow_0 less_irrefl)
  with s1(1) Cons.prems have "missed nt i s1"
    by (cases e) (auto simp: missed_def nth_append nth_list_update split: if_splits)
  with Cons.IH [OF s1(2)] Cons.prems show ?case by simp
qed simp

lemma drain_between_check_and_wait:
  "\<exists>s. waits_run nt [NewWaiter, WaiterStep 0, StoreFlag, NotifyAll, WaiterStep 0] (waits_new nt) = Some s
       \<and> sw_draining s \<and> missed nt 0 s"
  by (simp add: waits_new_def missed_def)

section \<open>The tests of the waits\<close>

text \<open>
  A notifier that counts its notifications keeps the laws; a timeout that a test sets has passed when
  the events of the test are over.
\<close>

definition counting_notify :: "(nat, nat) notify_ops" where
  "counting_notify =
     \<lparr>nt_new = 0, nt_notify_waiters = Suc, nt_notified = (\<lambda>n. n), nt_ready = (\<lambda>n f. f < n)\<rparr>"

lemma counting_notify_laws: "notify_laws counting_notify"
proof -
  have "(Suc ^^ k) n = k + n" for k n by (induction k) simp_all
  then show ?thesis by (simp add: notify_laws_def counting_notify_def)
qed

definition waits_after :: "wait_event list \<Rightarrow> (nat, nat) shutdown_sys option" where
  "waits_after es = waits_run counting_notify es (waits_new counting_notify)"

definition test_wait_draining_returns_immediately_when_already_draining :: bool where
  "test_wait_draining_returns_immediately_when_already_draining \<longleftrightarrow>
     map_option sw_waiters (waits_after [StoreFlag, NotifyAll, NewWaiter, WaiterStep 0]) = Some [Woken]"

definition test_wait_draining_wakes_on_start :: bool where
  "test_wait_draining_wakes_on_start \<longleftrightarrow>
     map_option (\<lambda>s. (sw_waiters s, sw_draining s))
       (waits_after [NewWaiter, WaiterStep 0, WaiterStep 0, StoreFlag, NotifyAll, WaiterStep 0]) = Some ([Woken], True)"

definition test_wait_draining_blocks_until_triggered :: bool where
  "test_wait_draining_blocks_until_triggered \<longleftrightarrow>
     (case waits_after [NewWaiter, WaiterStep 0, WaiterStep 0] of
        Some s \<Rightarrow> waits_step counting_notify (WaiterStep 0) s = None \<and> Woken \<notin> set (sw_waiters s) \<and> \<not> sw_draining s
      | None \<Rightarrow> False)"

definition test_wait_draining_wakes_multiple_waiters :: bool where
  "test_wait_draining_wakes_multiple_waiters \<longleftrightarrow>
     map_option sw_waiters
       (waits_after (replicate 5 NewWaiter @ map WaiterStep [0..<5] @ map WaiterStep [0..<5]
                     @ [StoreFlag, NotifyAll] @ map WaiterStep [0..<5])) = Some (replicate 5 Woken)"

lemma wait_tests:
  test_wait_draining_returns_immediately_when_already_draining test_wait_draining_wakes_on_start
  test_wait_draining_blocks_until_triggered test_wait_draining_wakes_multiple_waiters
  by code_simp+

end
