(* ===== verification/Spec2Isabelle.thy ===== *)
theory Spec2Isabelle
  imports Worker_Tests Ext_Node_Code Ext_Control Ext_Module Ext_Frames Ext_Unit_Tests Ext_Client_Tests
    Ext_Pool_Threads Ext_Pool_Tests Ext_Platform Shutdown_Wait
begin

text \<open>
  \<^bold>\<open>A verification development for hi-kafka\<close> (\<open>src/\<close>): a Kafka client for PHP. A PHP extension
  (\<open>src/ext\<close>) talks over a Unix socket to a worker process (\<open>src/worker\<close>) that owns the librdkafka
  clients; both use one wire protocol (\<open>src/proto\<close>). The theories model the program as HOL
  functions over explicit state and prove what makes its parts correct.

  \<^bold>\<open>Parts and theories.\<close>

  \<^item> Theory Prelude: results (\<open>Ok\<close>, \<open>Err\<close>, \<open>Panic\<close>: a Rust call returns, fails or panics), hash maps
    as association lists with distinct keys, big-endian integers, UTF-8, decimal and hexadecimal
    texts. Machine integers are words; \<open>usize\<close> lengths of what is in memory are \<open>nat\<close>.
  \<^item> \<open>src/proto\<close>: theory Frame (\<open>frame.rs\<close>, \<open>codec.rs\<close>), theory Wire (the length-prefixed readers and
    writers of \<open>payload.rs\<close> and \<open>oauth.rs\<close>, and the locale \<open>codec\<close>), theories Proto_Payload
    (\<open>payload.rs\<close>), Proto_Error (\<open>error.rs\<close>), Proto_Consumer (\<open>consumer.rs\<close>), Proto_Partition (\<open>seek.rs\<close>,
    \<open>pause_resume.rs\<close>, \<open>rebalance.rs\<close>), Proto_Txn (\<open>txn.rs\<close>, \<open>send_offsets.rs\<close>, \<open>oauth.rs\<close>). A writer is
    the bytes it appended with its result, a reader maps the rest of the input to a value and
    the remaining input. Every message has its \<open>_encode\<close>, \<open>_read\<close> and \<open>_decode\<close> as in the source, and a
    \<open>_layout\<close>, the bytes its documentation promises. Interpreting \<open>codec\<close> for a message gives the round
    trip, re-encoding, truncation, oversize and totality laws. Theory Proto_Laws states them for
    the messages that matter.
  \<^item> \<open>src/worker\<close>, shared state: theory Cluster (\<open>cluster.rs\<close>, \<open>shutdown.rs\<close>; the token slots that are
    shared by \<open>Arc\<close> live in a store, entries and clients hold references), theory Worker_Error
    (\<open>error.rs\<close> and the error classification of \<open>producer/real.rs\<close>; an \<open>anyhow\<close> error is the list of its
    causes), theory Metrics (\<open>metrics.rs\<close>).
  \<^item> \<open>src/worker\<close>, back ends: theory Backend (the traits of \<open>producer.rs\<close> and \<open>consumer.rs\<close> as records of
    operations, the dry-run back ends), theory Kafka_Producer (\<open>producer/real.rs\<close>), theory
    Consumer_Sub (\<open>consumer/real.rs\<close>, one subscription and the tasks that work on it at the same
    time, as the step relation \<open>sub_step\<close>; the blocking closures, which pause and resume, run in
    the sections between their calls and locks), theory Kafka_Consumer (\<open>consumer/real.rs\<close>, the map of
    subscriptions and the methods of the trait). librdkafka is a parameter: a record of its calls.
  \<^item> \<open>src/worker\<close>, server: theory Server (\<open>server.rs\<close>: handlers, dispatch, \<open>handle_connection\<close>), theory
    Server_Laws (their laws, and the locale \<open>connection_invariant\<close>: what every dispatched frame
    preserves, a connection preserves), theory Kafka_Backend (the wiring of \<open>main.rs\<close>, and the locale
    \<open>backend_invariant\<close>: what every method of the two traits preserves, every frame preserves),
    theory Server_Run (the accept loop \<open>Server::run\<close>, its drain included, as the step relation \<open>run_step\<close>), theory Shutdown_Wait
    (any number of tasks in \<open>wait_draining\<close>; the notifier of the runtime is a parameter), theory Worker_Main
    (the stand-alone worker of \<open>main.rs\<close>, \<open>Server::bind\<close>, the listener of the metrics endpoint), theory
    Worker_Tests (the tests of \<open>worker/tests\<close>, what they assert as lemmas).
  \<^item> \<open>src/ext\<close>, protocol and configuration: theory Ext_Protocol (\<open>protocol.rs\<close>: building request frames,
    parsing responses), theory Ext_Config (\<open>ini_config.rs\<close>).
  \<^item> \<open>src/ext\<close>, the blocking client: theory Ext_Pool (\<open>pool.rs\<close>), theory Ext_Pool_Threads
    (the same pool shared by threads, as the steps \<open>shared_step\<close> between its locks), theory Ext_Spawn (\<open>spawn.rs\<close>: starting a
    worker), theory Ext_Worker (\<open>worker_entry.rs\<close>: how the started worker begins and ends to serve),
    theory Ext_Child (\<open>worker_entry.rs\<close>: what the forked child does before, with its table of
    descriptors and its signals), theory Ext_Platform (the thread count on every system, the pid file, the
    signal task, builds without Kafka), theory Ext_Ipc (\<open>ipc.rs\<close>, \<open>worker_health.rs\<close>, \<open>cluster_replay.rs\<close>: retries, round trips, replay, the typed
    calls), theory Ext_Subscription (\<open>subscription.rs\<close>: virtual ids), theory Ext_Lifecycle (\<open>lifecycle.rs\<close>:
    the end of a process). The operating system is a parameter, a record of the calls that the
    code makes on a world \<open>'w\<close>; the static variables of the process are a record. A call is a function
    from state to result and state; \<open>?\<close> is \<open>bind_act\<close>.
  \<^item> \<open>src/ext\<close>, the PHP surface: theory Ext_Php (\<open>lib.rs\<close>, \<open>client.rs\<close>, \<open>kafka_exception.rs\<close>: argument checks,
    conversions, results as PHP values), theory Ext_Php_Laws (arrays and integers), theory Ext_Frames (the
    methods of \<open>Client\<close> on an operating system that records what they write, compared with the encoders
    for coroutine drivers), theory Ext_Module (\<open>module_startup\<close>,
    \<open>client_interface.rs\<close>, the registration of the exception class, its getters).
  \<^item> Several processes: theory Ext_Node (one machine with any number of PHP processes, workers that they
    fork and stand-alone workers, as the step relation \<open>node_step\<close>: the lock file, the socket, forks, exits and kills at any moment; a
    fork inherits descriptors and an advisory lock lives as long as a descriptor of its opening),
    theory Ext_Node_Code (\<open>ensure_worker\<close> of theory Ext_Spawn, run on an operating system made of that
    machine, takes only steps of \<open>node_step\<close>, whatever the other processes do between its calls).
  \<^item> Laws of the client: theory Ext_Ipc_Laws (the locales \<open>conn_invariant\<close>, \<open>ensure_invariant\<close>,
    \<open>ipc_invariant\<close>: what the system calls preserve, every call of the client preserves), theory
    Ext_Ipc_Reach (reachable states of the client), theory Refinement (the locale \<open>refinement\<close>: a
    simulation of single commands is one of sequences).
  \<^item> Both processes: theory Ext_Link (the locales \<open>answering_peer\<close> and \<open>absorbing_peer\<close>: what a client needs
    of its peer, interpreted on \<open>link_os\<close>, sockets that lead to \<open>handle_connection\<close>), theory Ext_Restart
    (a worker that died, the replay to its successor, the goodbye), theory End_To_End (calls of the
    PHP class through all layers), theory Ext_Control (the calls that only report success, the locale
    \<open>status_request\<close>). This theory: the same for the frames of coroutine drivers.

  \<^item> Tests of the repository on the model: theories Proto_Tests, Worker_Unit_Tests, Ext_Unit_Tests,
    Ext_Client_Tests and Ext_Pool_Tests, and the end of Shutdown_Wait, have the unit tests of the three crates as propositions over the same literals,
    and prove them. They compare the definitions with what the authors expect of the code.

  \<^bold>\<open>What is shown.\<close> On the wire: round trips, exact acceptance by the encoders, detection of
  truncation, no decoder panics, every accepted request is well typed. Of a connection: requests are answered in order, once, under
  their correlation id; nothing happens before the handshake; no panic escapes; the counters
  balance; a draining worker refuses to produce; the registry and the subscriptions stay well
  formed. Of the Kafka back ends: a re-registered cluster gets a client of the new configuration
  and its token slot survives; the lookup of a client terminates; however the tasks of a
  subscription interleave, messages are neither reordered nor duplicated nor lost uncounted;
  a pause of the application that is recorded stays in force through them; the stream loop backs off
  and gives up after 60 errors in a row; a dead subscription is reported and removed; a poll
  gets the message that wakes it. Of the accept loop: when it exits. Of a drain: which waiting tasks it
  wakes, and that a wait ends only with one. Of a machine: at most one
  forked worker is past its start at any time, the one that serves owns the socket of the path unless a
  stand-alone worker took it, and the code of \<open>ensure_worker\<close> refines the machine. Some theorems show where the
  code falls short of its intent: automatic pausing can get stuck in two ways and an
  automatic resume can undo a pause of the application, the byte capacity
  of a buffer can be exceeded, a polled batch larger than a frame is lost, a drain signal can be
  missed, a missing \<open>transactional.id\<close> is reported with the wrong kind, a process that lost the race
  for the lock to a worker that is about to end waits for a worker that nobody starts, a stand-alone
  worker takes the socket path from a worker that serves, and a PHP process without its standard
  input loses the lock.

  Of the extension: no call panics and the pools and counters stay consistent in every reachable
  state; however threads interleave in a pool no connection is used twice, and \<open>acquire\<close> is one of the
  interleavings; the recursion of \<open>ensure\<close> through the replay is well founded; virtual ids refine a table of
  subscriptions; the methods of \<open>Client\<close> write the frames that the encoders for drivers return; the end of a process releases everything and
  tells the worker; a forked worker shares no standard stream with PHP. Of both processes together: a message reaches the producer unchanged and its
  error becomes the right exception; a lost subscription heals; a worker that died is replaced
  without the PHP program noticing, with its clusters, tokens and subscriptions; a commit, seek,
  pause or transaction call is carried out once and its outcome reported. Here, too, some
  theorems show what goes wrong: an interrupted replay is never resumed, an unsubscribe in another
  thread can orphan a subscription, headers with one name collapse, large integers are truncated, a
  timeout is reported as its overshoot, pausing by a virtual id pauses the worker's subscription of
  the same number.

  \<^bold>\<open>Bounds and fuel.\<close> \<open>handle_connection\<close> is total: every turn consumes a header of the input. The
  lookup of a producer client (\<open>entry_loop\<close>) has fuel: theorem \<open>client_lookup_returns\<close> shows that two
  turns beyond the last registration are enough, and two turns are what \<open>entry_for\<close> uses when the
  registry does not change. A long poll recurses over the wake-ups that happen while it waits.
  The loop that waits for the socket of a new worker has fuel for its timeout in steps of 30 ms, which
  lemma \<open>ensure_worker_returns\<close> shows to be enough with a clock that goes on; \<open>ensure\<close> is unrolled twice,
  which lemma \<open>ensure_recursion\<close> shows to be the recursion of the source.

  \<^bold>\<open>What is not modelled.\<close> The operating system and the runtime (sockets, signals, timers, the
  scheduling of tasks) appear as inputs or as steps of the environment; logging is left out, and
  so are capacity hints and the parsing of the command line (its result is a record). A call of a
  back end is atomic except where a theory says otherwise (Consumer_Sub, \<open>entry_loop\<close>, Server_Run,
  \<open>with_resubscribe\<close>); the statics of the extension other than a pool are used by one thread
  at a time elsewhere.
  \<open>link_os\<close> delivers whole frames and answers at once: losses in the middle of a frame appear only in
  the theorems about an arbitrary operating system. The machine of Ext_Node has one lock file, one
  socket path and no pid file, and a worker there is its positions in \<open>run_in_child\<close> and \<open>run_server\<close>,
  not its connections; PHP processes there keep their standard streams open and have one thread each
  in \<open>ensure_worker\<close>. The flag and the counter that an automatic pause or resume changes change in one
  step. The name of the worker on macOS, which no code reads, is not modelled. The build
  script and the module lists of the crate roots have no behaviour of the program to model; the private copies
  that the files of \<open>src/proto\<close> have of the readers and writers of strings are those of theory Wire; two
  unit tests compare a counter with itself.
\<close>

section \<open>A request, its handling, and the parsed response\<close>

lemma frame_limit_ProduceReq: "frame_limit FT_ProduceReq = 4 * 1024 * 1024"
  by (simp add: frame_limit_def)

lemma parse_error_frame_layout:
  assumes "str16_ok (er_message er)"
  shows "parse_error_frame (frame_bytes (frame_new FT_Error cid (error_resp_layout er))) =
    Ok \<lparr>pe_kind = error_kind_as_u16 (er_kind er), pe_kind_name = error_kind_as_str (er_kind er),
        pe_retryable = er_retryable er, pe_native_code = er_native_code er, pe_message = er_message er\<rparr>"
proof -
  have "error_resp_decode (error_resp_layout er) = Ok er"
    using error_resp.read_layout [of er "[]"] assms by (simp add: error_resp_decode_def run_def)
  with assms show ?thesis
    by (intro parse_error_frame_bytes) (simp_all add: frame_fits_def error_layout_length)
qed

text \<open>The frame of a produce request as the server sees it.\<close>

lemma build_req_frame_OkD:
  assumes "build_req_frame cluster topic key val headers part ts n = (Ok (cid, bytes), n')"
    and "msg = \<lparr>pf_cluster = cluster, pf_topic = topic, pf_key = key, pf_value = val,
                pf_partition = part, pf_timestamp_ms = ts, pf_headers = headers\<rparr>"
    and "produce_fnf_typed msg"
  shows "cid = n" and "bytes = frame_bytes (frame_new FT_ProduceReq n (fst (produce_fnf_encode msg)))"
    and "produce_fnf_decode (fst (produce_fnf_encode msg)) = Ok msg"
proof -
  note b = build_with_OkD [OF assms(1) [unfolded build_req_frame_def build_payload_def, folded assms(2)]]
  show "cid = n" by (rule b(1))
  show "bytes = frame_bytes (frame_new FT_ProduceReq n (fst (produce_fnf_encode msg)))" by (rule b(5))
  have "produce_fnf_ok msg"
    using b(3) produce_fnf.encode_fits [OF assms(3)] by (simp add: succeeds_def)
  then show "produce_fnf_decode (fst (produce_fnf_encode msg)) = Ok msg"
    using produce_fnf.roundtrip [of msg "[]"] by (simp add: produce_fnf_decode_def)
qed

text \<open>
  A produce request built by the extension, handled by a worker that is not draining and
  whose producer acknowledges the message, comes back to the extension as the producer's
  answer, under the request's correlation id. The producer sees exactly the message that was
  given to the extension.
\<close>
lemma produce_end_to_end:
  assumes "build_req_frame cluster topic key val headers part ts n = (Ok (cid, bytes), n')"
    and "msg = \<lparr>pf_cluster = cluster, pf_topic = topic, pf_key = key, pf_value = val,
                pf_partition = part, pf_timestamp_ms = ts, pf_headers = headers\<rparr>"
    and "produce_fnf_typed msg"
    and "length bytes \<le> HEADER_LEN + frame_limit FT_ProduceReq"
    and "\<not> is_draining (ss_shutdown st)" and "o_accept o1 = None"
    and "po_produce_ack (sv_producer env) msg (ss_registry st) (ss_backend st) = (Ok resp, s')"
    and "produce_resp_ok resp"
  shows "\<exists>reply st2. handle_connection env Eof bytes True o1 st =
      (Ok (), o1\<lparr>o_bytes := o_bytes o1 @ reply\<rparr>, st2)
    \<and> parse_resp_frame reply = Ok (ParsedResp cid resp) \<and> ss_backend st2 = s'"
proof -
  let ?f = "frame_new FT_ProduceReq n (fst (produce_fnf_encode msg))"
  let ?reply = "frame_new FT_ProduceResp n (produce_resp_layout resp)"
  note b = build_req_frame_OkD [OF assms(1-3)]
  have lim: "within_limit ?f"
    using assms(4) b(2) by (simp add: within_limit_def length_frame_bytes)
  have "produce_resp_encode resp = (produce_resp_layout resp, Ok ())"
    using assms(8) by (rule produce_resp.encode_layout)
  then have send: "send_encoded ''encode PRODUCE_RESP'' FT_ProduceResp n (produce_resp_encode resp) o1 =
      (Ok (), o1\<lparr>o_bytes := o_bytes o1 @ frame_bytes ?reply\<rparr>)"
    using assms(6,8) by (intro send_encoded_open) (simp_all add: produce_resp_layout_length)
  have "dispatch env FT_ProduceReq n (fst (produce_fnf_encode msg)) o1 (upd_metrics inc_frames st) =
      (Ok (), o1\<lparr>o_bytes := o_bytes o1 @ frame_bytes ?reply\<rparr>,
       upd_metrics inc_resp_ok ((upd_metrics inc_req (upd_metrics inc_frames st))\<lparr>ss_backend := s'\<rparr>))"
    using assms(5,7)
    by (simp add: dispatch_def dispatch_inner_def handle_produce_req_def handle_produce_req_inner_def
        Let_def b(3) upd_metrics_def send reply_def)
  from handle_connection_single [OF lim] this b(1,2)
  have run: "handle_connection env Eof bytes True o1 st = (Ok (), o1\<lparr>o_bytes := o_bytes o1 @ frame_bytes ?reply\<rparr>,
       upd_metrics inc_resp_ok ((upd_metrics inc_req (upd_metrics inc_frames st))\<lparr>ss_backend := s'\<rparr>))"
    by simp
  have "produce_resp_decode (produce_resp_layout resp) = Ok resp"
    using produce_resp.read_layout [OF assms(8), of "[]"] by (simp add: produce_resp_decode_def run_def)
  then have "parse_resp_frame (frame_bytes ?reply) = Ok (ParsedResp cid resp)"
    using parse_resp_frame_bytes [of ?reply resp] assms(8) b(1)
    by (simp add: frame_fits_def produce_resp_layout_length)
  with run show ?thesis by (auto simp: upd_metrics_def)
qed

text \<open>
  When the producer fails with a structured error, however deep in its chain of contexts,
  the extension parses back exactly its kind, retryable flag, native code and message.
\<close>
lemma produce_error_end_to_end:
  assumes "build_req_frame cluster topic key val headers part ts n = (Ok (cid, bytes), n')"
    and "msg = \<lparr>pf_cluster = cluster, pf_topic = topic, pf_key = key, pf_value = val,
                pf_partition = part, pf_timestamp_ms = ts, pf_headers = headers\<rparr>"
    and "produce_fnf_typed msg"
    and "length bytes \<le> HEADER_LEN + frame_limit FT_ProduceReq"
    and "\<not> is_draining (ss_shutdown st)" and "o_accept o1 = None"
    and "po_produce_ack (sv_producer env) msg (ss_registry st) (ss_backend st)
           = (Err (map CMsg ctx @ CWorker e # rest), s')"
    and "str16_ok (we_message e)"
  shows "\<exists>reply st2. handle_connection env Eof bytes True o1 st =
      (Ok (), o1\<lparr>o_bytes := o_bytes o1 @ reply\<rparr>, st2)
    \<and> parse_error_frame reply = Ok \<lparr>pe_kind = error_kind_as_u16 (we_kind e),
        pe_kind_name = error_kind_as_str (we_kind e), pe_retryable = we_retryable e,
        pe_native_code = we_native_code e, pe_message = we_message e\<rparr>"
proof -
  let ?f = "frame_new FT_ProduceReq n (fst (produce_fnf_encode msg))"
  let ?er = "to_error_resp e"
  let ?reply = "frame_bytes (frame_new FT_Error n (error_resp_layout ?er))"
  note b = build_req_frame_OkD [OF assms(1-3)]
  have lim: "within_limit ?f"
    using assms(4) b(2) by (simp add: within_limit_def length_frame_bytes)
  have er: "str16_ok (er_message ?er)" using assms(8) by (simp add: to_error_resp_def)
  have "\<exists>st2. dispatch env FT_ProduceReq n (fst (produce_fnf_encode msg)) o1 (upd_metrics inc_frames st) =
      (Ok (), o1\<lparr>o_bytes := o_bytes o1 @ ?reply\<rparr>, st2)"
    using assms(5,7)
    by (simp add: dispatch_def dispatch_inner_def handle_produce_req_def handle_produce_req_inner_def
        Let_def b(3) upd_metrics_def from_anyhow_worker write_error_frame_open [OF er assms(6)] reply_def)
  then obtain st2 where d: "dispatch env FT_ProduceReq n (fst (produce_fnf_encode msg)) o1
      (upd_metrics inc_frames st) = (Ok (), o1\<lparr>o_bytes := o_bytes o1 @ ?reply\<rparr>, st2)" ..
  have "handle_connection env Eof (frame_bytes ?f) True o1 st =
      (Ok (), o1\<lparr>o_bytes := o_bytes o1 @ ?reply\<rparr>, st2)"
    using handle_connection_single [OF lim] d by simp
  moreover have "parse_error_frame ?reply = Ok \<lparr>pe_kind = error_kind_as_u16 (we_kind e),
        pe_kind_name = error_kind_as_str (we_kind e), pe_retryable = we_retryable e,
        pe_native_code = we_native_code e, pe_message = we_message e\<rparr>"
    using parse_error_frame_layout [OF er, of n] by (simp add: to_error_resp_def)
  ultimately show ?thesis using b(2) by blast
qed

section \<open>Polling across the socket\<close>

lemma build_poll_frame_Ok:
  "\<exists>w. build_poll_frame sub mx t n = (Ok (n, frame_bytes (frame_new FT_PollReq n w)), n + 1)
     \<and> length w = 16 \<and> poll_req_decode w = Ok \<lparr>pq_subscription_id = sub, pq_max_messages = mx, pq_timeout_ms = t\<rparr>"
proof -
  let ?m = "\<lparr>pq_subscription_id = sub, pq_max_messages = mx, pq_timeout_ms = t\<rparr>"
  have enc: "poll_req_encode ?m = (poll_req_layout ?m, Ok ())" by (rule poll_req.encode_layout) simp
  have "length (poll_req_layout ?m) = 16" by (simp add: poll_req_layout_def)
  with enc poll_req_roundtrip [of ?m] show ?thesis
    using build_with_fits [OF enc, of "''encode PollReq: ''" "''encode frame: ''" FT_PollReq n]
    by (intro exI [of _ "poll_req_layout ?m"]) (simp add: build_poll_frame_def MAX_PAYLOAD_LEN_def)
qed

text \<open>
  A poll built by the extension returns to it the messages the worker's consumer handed
  out, unchanged and in order, provided the batch fits a frame.
\<close>
lemma poll_end_to_end:
  assumes "o_accept o1 = None"
    and "co_poll (sv_consumer env) sub mx t (ss_backend st) = (Ok msgs, s')"
    and "list32_ok consumer_message_ok msgs"
    and "length (poll_resp_layout (PollOk msgs)) \<le> MAX_PAYLOAD_LEN"
  shows "\<exists>bytes reply st2. build_poll_frame sub mx t n = (Ok (n, bytes), n + 1)
    \<and> handle_connection env Eof bytes True o1 st = (Ok (), o1\<lparr>o_bytes := o_bytes o1 @ reply\<rparr>, st2)
    \<and> parse_consumer_resp_frame reply = Ok (CR_PollOk n msgs) \<and> ss_backend st2 = s'"
proof -
  obtain w where b: "build_poll_frame sub mx t n = (Ok (n, frame_bytes (frame_new FT_PollReq n w)), n + 1)"
    and len: "length w = 16"
    and dec: "poll_req_decode w = Ok \<lparr>pq_subscription_id = sub, pq_max_messages = mx, pq_timeout_ms = t\<rparr>"
    using build_poll_frame_Ok by blast
  let ?reply = "frame_new FT_PollResp n (poll_resp_layout (PollOk msgs))"
  let ?st2 = "(upd_metrics inc_frames st)\<lparr>ss_backend := s'\<rparr>"
  have ok: "poll_resp_ok (PollOk msgs)" using assms(3) by (simp add: poll_resp_ok_def)
  have send: "send_encoded ''encode poll_resp'' FT_PollResp n (poll_resp_encode (PollOk msgs)) o1 =
      (Ok (), o1\<lparr>o_bytes := o_bytes o1 @ frame_bytes ?reply\<rparr>)"
    using poll_resp.encode_layout [OF ok] assms(1,4) by (intro send_encoded_open)
  have "dispatch env FT_PollReq n w o1 (upd_metrics inc_frames st) =
      (Ok (), o1\<lparr>o_bytes := o_bytes o1 @ frame_bytes ?reply\<rparr>, ?st2)"
    using assms(2) by (simp add: dispatch_def dispatch_inner_def handle_poll_def dec upd_metrics_def
        Let_def send reply_def)
  with handle_connection_single [OF poll_frame_within [OF len]]
  have run: "handle_connection env Eof (frame_bytes (frame_new FT_PollReq n w)) True o1 st =
      (Ok (), o1\<lparr>o_bytes := o_bytes o1 @ frame_bytes ?reply\<rparr>, ?st2)" by simp
  have "poll_resp_decode (poll_resp_layout (PollOk msgs)) = Ok (PollOk msgs)"
    using poll_resp.read_layout [OF ok, of "[]"] by (simp add: poll_resp_decode_def run_def)
  then have "parse_consumer_resp_frame (frame_bytes ?reply) = Ok (CR_PollOk n msgs)"
    using parse_consumer_resp_frame_bytes [of ?reply] assms(4)
    by (simp add: frame_fits_def parse_consumer_resp_def)
  with b run show ?thesis by auto
qed

text \<open>
  C36: A batch that does not fit a frame is lost: the consumer has already handed the messages
  out and forgotten them, the reply is never written, and the connection is closed.
\<close>
theorem oversized_poll_loses_batch:
  assumes "co_poll (sv_consumer env) sub mx t (ss_backend st) = (Ok msgs, s')"
    and "list32_ok consumer_message_ok msgs"
    and "length (poll_resp_layout (PollOk msgs)) > MAX_PAYLOAD_LEN"
  shows "\<exists>bytes e st2. build_poll_frame sub mx t n = (Ok (n, bytes), n + 1)
    \<and> handle_connection env Eof bytes True o1 st = (Err e, o1, st2) \<and> ss_backend st2 = s'"
proof -
  obtain w where b: "build_poll_frame sub mx t n = (Ok (n, frame_bytes (frame_new FT_PollReq n w)), n + 1)"
    and len: "length w = 16"
    and dec: "poll_req_decode w = Ok \<lparr>pq_subscription_id = sub, pq_max_messages = mx, pq_timeout_ms = t\<rparr>"
    using build_poll_frame_Ok by blast
  have ok: "poll_resp_ok (PollOk msgs)" using assms(2) by (simp add: poll_resp_ok_def)
  have "\<exists>e. send_encoded ''encode poll_resp'' FT_PollResp n (poll_resp_encode (PollOk msgs)) o1 = (Err e, o1)"
    using assms(3) by (simp add: send_encoded_def poll_resp.encode_layout [OF ok] write_frame_def encode_frame_def)
  then obtain e where "dispatch env FT_PollReq n w o1 (upd_metrics inc_frames st) =
      (Err e, o1, (upd_metrics inc_frames st)\<lparr>ss_backend := s'\<rparr>)"
    using assms(1) by (auto simp: dispatch_def dispatch_inner_def handle_poll_def dec upd_metrics_def
        Let_def reply_def)
  with b handle_connection_frame [OF poll_frame_within [OF len], of env Eof n "[]" True o1 st]
  show ?thesis by auto
qed

theorem oversized_poll_loses_batch_witness:
  "\<exists>bytes e st2. build_poll_frame 1 10 0 5 = (Ok (5, bytes), 5 + 1)
    \<and> handle_connection demo_env Eof bytes True demo_out
        (demo_state\<lparr>ss_backend := logging_inject [demo_msg 16777216] logging_consumer_new\<rparr>)
        = (Err e, demo_out, st2)
    \<and> ss_backend st2 = logging_consumer_new"
proof -
  let ?st = "demo_state\<lparr>ss_backend := logging_inject [demo_msg 16777216] logging_consumer_new\<rparr>"
  have "co_poll (sv_consumer demo_env) 1 10 0 (ss_backend ?st) = (Ok [demo_msg 16777216], logging_consumer_new)"
    by (simp add: demo_env_def logging_consumer_def logging_poll_def logging_inject_def
        logging_consumer_new_def)
  moreover have "list32_ok consumer_message_ok [demo_msg 16777216]"
    by (simp add: list32_ok_def consumer_message_ok_def demo_msg_def str16_ok_def bytes32_ok_def
        headers_ok_def ascii_valid_str)
  moreover have "length (poll_resp_layout (PollOk [demo_msg 16777216])) > MAX_PAYLOAD_LEN"
    by (simp add: poll_resp_layout_def consumer_message_layout_def demo_msg_def lay_list32_def
        headers_layout_def lay_str16_def lay_bytes32_def MAX_PAYLOAD_LEN_def)
  ultimately show ?thesis
    using oversized_poll_loses_batch [of demo_env 1 10 0 ?st "[demo_msg 16777216]" logging_consumer_new 5 demo_out]
    by auto
qed

text \<open>
  Polling a subscription the worker does not know tells the extension so by kind: it parses
  back error kind 8, \<open>SUBSCRIPTION_NOT_FOUND\<close>, which is what its self-healing reacts to.
\<close>
lemma unknown_subscription_end_to_end:
  assumes "o_accept o1 = None"
    and "co_poll (sv_consumer env) sub mx t (ss_backend st) = (Err (NotFound missing), s')"
  shows "\<exists>bytes reply st2 pe. build_poll_frame sub mx t n = (Ok (n, bytes), n + 1)
    \<and> handle_connection env Eof bytes True o1 st = (Ok (), o1\<lparr>o_bytes := o_bytes o1 @ reply\<rparr>, st2)
    \<and> parse_error_frame reply = Ok pe \<and> pe_kind pe = 8 \<and> \<not> pe_retryable pe"
proof -
  obtain w where b: "build_poll_frame sub mx t n = (Ok (n, frame_bytes (frame_new FT_PollReq n w)), n + 1)"
    and len: "length w = 16"
    and dec: "poll_req_decode w = Ok \<lparr>pq_subscription_id = sub, pq_max_messages = mx, pq_timeout_ms = t\<rparr>"
    using build_poll_frame_Ok by blast
  let ?er = "consumer_err_to_resp (NotFound missing)"
  let ?reply = "frame_bytes (frame_new FT_Error n (error_resp_layout ?er))"
  have er: "str16_ok (er_message ?er)"
    using length_show_nat_u64 [of missing]
    by (simp add: consumer_err_to_resp_def error_resp_new_def str16_ok_def ascii_valid_str)
  have "dispatch env FT_PollReq n w o1 (upd_metrics inc_frames st) =
      (Ok (), o1\<lparr>o_bytes := o_bytes o1 @ ?reply\<rparr>, (upd_metrics inc_frames st)\<lparr>ss_backend := s'\<rparr>)"
    using assms by (simp add: dispatch_def dispatch_inner_def handle_poll_def dec upd_metrics_def
        Let_def reply_def write_error_frame_open [OF er])
  with handle_connection_single [OF poll_frame_within [OF len]]
  have run: "handle_connection env Eof (frame_bytes (frame_new FT_PollReq n w)) True o1 st =
      (Ok (), o1\<lparr>o_bytes := o_bytes o1 @ ?reply\<rparr>, (upd_metrics inc_frames st)\<lparr>ss_backend := s'\<rparr>)" by simp
  have "\<exists>pe. parse_error_frame ?reply = Ok pe \<and> pe_kind pe = 8 \<and> \<not> pe_retryable pe"
    using parse_error_frame_layout [OF er, of n]
    by (simp add: consumer_err_to_resp_def error_resp_new_def default_retryable_def)
  with b run show ?thesis by blast
qed

end
